(* ===== verification/Prelude.thy ===== *)
theory Prelude
  imports Main
begin

text \<open>
  Shared vocabulary of the development.  Rust's \<open>anyhow::Result\<close> is a sum whose left side is
  an \<open>error\<close>; the question mark operator is \<open>bnd\<close>; an SQLite table is a list of rows with
  the selection, update and counting functions below.  A \<open>String\<close> is its UTF-8 byte sequence
  (a \<open>char\<close> is one byte), so \<open>str::len\<close> is \<open>length\<close>.
\<close>

section \<open>Collections of facts\<close>

named_theorems result_simps \<open>characterisations of successful results\<close>
named_theorems table_simps \<open>lookups and counts in updated tables\<close>

section \<open>Results\<close>

text \<open>
  \<open>Bail\<close> is an \<open>anyhow::bail!\<close> with its message, \<open>Abort\<close> a statement that SQLite refuses
  (a constraint, a unique index, a foreign key or a trigger), \<open>NoRow\<close> a query that must return
  a row and returns none.
\<close>

datatype error = Bail string | Abort string | NoRow string

type_synonym 'a result = "error + 'a"

abbreviation Ok :: "'a \<Rightarrow> 'a result" where "Ok \<equiv> Inr"
abbreviation Err :: "error \<Rightarrow> 'a result" where "Err \<equiv> Inl"

definition bnd :: "'a result \<Rightarrow> ('a \<Rightarrow> 'b result) \<Rightarrow> 'b result" where
  "bnd m f = (case m of Inl e \<Rightarrow> Inl e | Inr x \<Rightarrow> f x)"

definition require :: "bool \<Rightarrow> error \<Rightarrow> unit result" where
  "require b e = (if b then Ok () else Err e)"

definition is_ok :: "'a result \<Rightarrow> bool" where
  "is_ok m = (case m of Inl _ \<Rightarrow> False | Inr _ \<Rightarrow> True)"

text \<open>A \<open>for\<close> loop whose body may fail: the first failure ends it.\<close>

fun for_each :: "('a \<Rightarrow> unit result) \<Rightarrow> 'a list \<Rightarrow> unit result" where
  "for_each f [] = Ok ()"
| "for_each f (x # xs) = bnd (f x) (\<lambda>_. for_each f xs)"

lemma bnd_simps [simp]: "bnd (Inl e) f = Inl e" "bnd (Inr x) f = f x"
  by (simp_all add: bnd_def)

lemma bnd_eq_Ok [result_simps]: "bnd m f = Inr y \<longleftrightarrow> (\<exists>x. m = Inr x \<and> f x = Inr y)"
  by (cases m) auto

lemma bnd_eq_Err: "bnd m f = Inl e \<longleftrightarrow> m = Inl e \<or> (\<exists>x. m = Inr x \<and> f x = Inl e)"
  by (cases m) auto

lemma bnd_assoc: "bnd (bnd m f) g = bnd m (\<lambda>x. bnd (f x) g)"
  by (cases m) auto

lemma require_eq_Ok [result_simps]: "require b e = Inr u \<longleftrightarrow> b"
  by (simp add: require_def)

lemma require_simps [simp]: "require True e = Inr ()" "require False e = Inl e"
  by (simp_all add: require_def)

lemma bnd_require: "bnd (require b e) f = (if b then f () else Inl e)"
  by (simp add: require_def)

lemma is_ok_simps [simp]: "is_ok (Inr x)" "\<not> is_ok (Inl e)"
  by (simp_all add: is_ok_def)

lemma is_ok_iff: "is_ok m \<longleftrightarrow> (\<exists>x. m = Inr x)"
  by (cases m) auto

lemma not_is_ok_iff: "\<not> is_ok m \<longleftrightarrow> (\<exists>e. m = Inl e)"
  by (cases m) auto

lemma is_ok_bnd [simp]: "is_ok (bnd m f) \<longleftrightarrow> (\<exists>x. m = Inr x \<and> is_ok (f x))"
  by (cases m) auto

lemma is_ok_require [simp]: "is_ok (require b e) \<longleftrightarrow> b"
  by (simp add: require_def)

lemma unit_result_eq_Ok: "(m :: unit result) = Inr u \<longleftrightarrow> is_ok m"
  by (cases m) auto

lemma for_each_eq_Ok [result_simps]: "for_each f xs = Inr u \<longleftrightarrow> (\<forall>x \<in> set xs. is_ok (f x))"
  by (induction xs) (auto simp: bnd_eq_Ok is_ok_iff)

section \<open>Tables\<close>

text \<open>
  \<open>fetch\<close> is \<open>query_row\<close>, \<open>modify\<close> is \<open>UPDATE \<dots> SET \<dots> WHERE\<close>, \<open>changed\<close> the number of
  rows the statement reports, \<open>remove_rows\<close> is \<open>DELETE \<dots> WHERE\<close>.
\<close>

definition fetch :: "('r \<Rightarrow> bool) \<Rightarrow> 'r list \<Rightarrow> error \<Rightarrow> 'r result" where
  "fetch p t e = (case find p t of None \<Rightarrow> Err e | Some r \<Rightarrow> Ok r)"

definition modify :: "('r \<Rightarrow> bool) \<Rightarrow> ('r \<Rightarrow> 'r) \<Rightarrow> 'r list \<Rightarrow> 'r list" where
  "modify p f t = map (\<lambda>r. if p r then f r else r) t"

definition changed :: "('r \<Rightarrow> bool) \<Rightarrow> 'r list \<Rightarrow> nat" where
  "changed p t = length (filter p t)"

definition remove_rows :: "('r \<Rightarrow> bool) \<Rightarrow> 'r list \<Rightarrow> 'r list" where
  "remove_rows p t = filter (\<lambda>r. \<not> p r) t"

lemma modify_simps [table_simps]:
  "modify p f [] = []"
  "modify p f (r # t) = (if p r then f r else r) # modify p f t"
  by (simp_all add: modify_def)

lemma set_modify [table_simps]: "set (modify p f t) = (\<lambda>r. if p r then f r else r) ` set t"
  by (simp add: modify_def)

lemma length_modify [simp]: "length (modify p f t) = length t"
  by (simp add: modify_def)

lemma modify_id: "(\<And>r. r \<in> set t \<Longrightarrow> \<not> p r) \<Longrightarrow> modify p f t = t"
  by (simp add: modify_def map_idI)

lemma modify_cong: "(\<And>r. r \<in> set t \<Longrightarrow> p r \<longleftrightarrow> q r) \<Longrightarrow> modify p f t = modify q f t"
  by (simp add: modify_def)

lemma map_key_modify: "(\<And>r. r \<in> set t \<Longrightarrow> p r \<Longrightarrow> k (f r) = k r) \<Longrightarrow> map k (modify p f t) = map k t"
  by (simp add: modify_def)

lemma changed_Nil [simp]: "changed p [] = 0"
  by (simp add: changed_def)

lemma changed_Cons [simp]: "changed p (r # t) = (if p r then Suc (changed p t) else changed p t)"
  by (simp add: changed_def)

lemma changed_pos: "changed p t \<noteq> 0 \<longleftrightarrow> (\<exists>r \<in> set t. p r)"
  by (induction t) auto

lemma changed_one_ex: "changed p t = 1 \<Longrightarrow> \<exists>r \<in> set t. p r"
  using changed_pos [of p t] by simp

lemma set_remove_rows [table_simps]: "set (remove_rows p t) = {r \<in> set t. \<not> p r}"
  by (simp add: remove_rows_def)

lemma fetch_eq_Ok [result_simps]: "fetch p t e = Inr r \<longleftrightarrow> find p t = Some r"
  by (simp add: fetch_def split: option.splits)

lemma find_Some_mem: "find p t = Some r \<Longrightarrow> r \<in> set t \<and> p r"
  by (induction t) (auto split: if_splits)

lemma find_append_new: "find p xs = None \<Longrightarrow> p x \<Longrightarrow> find p (xs @ [x]) = Some x"
  by (induction xs) (auto split: if_splits)

lemma find_None_mem: "find p t = None \<longleftrightarrow> (\<forall>r \<in> set t. \<not> p r)"
  by (induction t) auto

section \<open>Bytes and text\<close>

abbreviation byte :: "char \<Rightarrow> nat" where "byte c \<equiv> of_char c"

definition is_ascii_digit :: "char \<Rightarrow> bool" where
  "is_ascii_digit c \<longleftrightarrow> 48 \<le> byte c \<and> byte c \<le> 57"

definition is_ascii_lowercase :: "char \<Rightarrow> bool" where
  "is_ascii_lowercase c \<longleftrightarrow> 97 \<le> byte c \<and> byte c \<le> 122"

definition is_ascii_uppercase :: "char \<Rightarrow> bool" where
  "is_ascii_uppercase c \<longleftrightarrow> 65 \<le> byte c \<and> byte c \<le> 90"

definition is_ascii_alphanumeric :: "char \<Rightarrow> bool" where
  "is_ascii_alphanumeric c \<longleftrightarrow> is_ascii_digit c \<or> is_ascii_lowercase c \<or> is_ascii_uppercase c"

definition is_ascii_hexdigit :: "char \<Rightarrow> bool" where
  "is_ascii_hexdigit c \<longleftrightarrow> is_ascii_digit c \<or> 97 \<le> byte c \<and> byte c \<le> 102 \<or> 65 \<le> byte c \<and> byte c \<le> 70"

definition to_ascii_lower :: "char \<Rightarrow> char" where
  "to_ascii_lower c = (if is_ascii_uppercase c then char_of (byte c + 32) else c)"

definition to_ascii_lowercase :: "string \<Rightarrow> string" where
  "to_ascii_lowercase s = map to_ascii_lower s"

definition eq_ignore_ascii_case :: "string \<Rightarrow> string \<Rightarrow> bool" where
  "eq_ignore_ascii_case s t \<longleftrightarrow> to_ascii_lowercase s = to_ascii_lowercase t"

definition starts_with :: "string \<Rightarrow> string \<Rightarrow> bool" where
  "starts_with s p \<longleftrightarrow> take (length p) s = p"

definition ends_with :: "string \<Rightarrow> string \<Rightarrow> bool" where
  "ends_with s p \<longleftrightarrow> starts_with (rev s) (rev p)"

definition is_absolute :: "string \<Rightarrow> bool" where
  "is_absolute p \<longleftrightarrow> starts_with p ''/''"

lemmas ascii_defs = is_ascii_digit_def is_ascii_lowercase_def is_ascii_uppercase_def
  is_ascii_alphanumeric_def is_ascii_hexdigit_def

text \<open>The byte classes on the bits of a character, by which evaluation decides them.\<close>

lemma is_ascii_digit_code [code]:
  "is_ascii_digit (Char b0 b1 b2 b3 b4 b5 b6 b7) \<longleftrightarrow> \<not> b7 \<and> \<not> b6 \<and> b5 \<and> b4 \<and> \<not> (b3 \<and> (b2 \<or> b1))"
  unfolding ascii_defs
  by (cases b0; cases b1; cases b2; cases b3; cases b4; cases b5; cases b6; cases b7) simp_all

lemma is_ascii_lowercase_code [code]:
  "is_ascii_lowercase (Char b0 b1 b2 b3 b4 b5 b6 b7) \<longleftrightarrow>
     \<not> b7 \<and> b6 \<and> b5 \<and> (if b4 then \<not> (b3 \<and> (b2 \<or> b1 \<and> b0)) else b0 \<or> b1 \<or> b2 \<or> b3)"
  unfolding ascii_defs
  by (cases b0; cases b1; cases b2; cases b3; cases b4; cases b5; cases b6; cases b7) simp_all

lemma is_ascii_uppercase_code [code]:
  "is_ascii_uppercase (Char b0 b1 b2 b3 b4 b5 b6 b7) \<longleftrightarrow>
     \<not> b7 \<and> b6 \<and> \<not> b5 \<and> (if b4 then \<not> (b3 \<and> (b2 \<or> b1 \<and> b0)) else b0 \<or> b1 \<or> b2 \<or> b3)"
  unfolding ascii_defs
  by (cases b0; cases b1; cases b2; cases b3; cases b4; cases b5; cases b6; cases b7) simp_all

lemma is_ascii_hexdigit_code [code]:
  "is_ascii_hexdigit (Char b0 b1 b2 b3 b4 b5 b6 b7) \<longleftrightarrow>
     \<not> b7 \<and> (if b6 then \<not> b4 \<and> \<not> b3 \<and> (b0 \<or> b1 \<or> b2) \<and> \<not> (b0 \<and> b1 \<and> b2) else b5 \<and> b4 \<and> \<not> (b3 \<and> (b2 \<or> b1)))"
  unfolding ascii_defs
  by (cases b0; cases b1; cases b2; cases b3; cases b4; cases b5; cases b6; cases b7) simp_all

lemma starts_with_iff: "starts_with s p \<longleftrightarrow> (\<exists>r. s = p @ r)"
  unfolding starts_with_def by (metis append_eq_conv_conj append_take_drop_id)

lemma ends_with_iff: "ends_with s p \<longleftrightarrow> (\<exists>r. s = r @ p)"
  unfolding ends_with_def starts_with_iff by (metis rev_append rev_rev_ident)

subsection \<open>Unicode white space\<close>

text \<open>
  \<open>str::trim\<close> removes characters with the Unicode property \<open>White_Space\<close>.  On UTF-8 bytes
  they are six one-byte, two two-byte and the listed three-byte sequences; \<open>ws_width\<close> is the
  byte length of such a character at the front, \<open>ws_width_end\<close> at the end, and 0 when there
  is none.
\<close>

definition ws1 :: "nat \<Rightarrow> bool" where
  "ws1 a \<longleftrightarrow> 9 \<le> a \<and> a \<le> 13 \<or> a = 32"

definition ws2 :: "nat \<Rightarrow> nat \<Rightarrow> bool" where
  "ws2 a b \<longleftrightarrow> a = 194 \<and> (b = 133 \<or> b = 160)"

definition ws3 :: "nat \<Rightarrow> nat \<Rightarrow> nat \<Rightarrow> bool" where
  "ws3 a b c \<longleftrightarrow>
     a = 225 \<and> b = 154 \<and> c = 128 \<or>
     a = 226 \<and> b = 128 \<and> (128 \<le> c \<and> c \<le> 138 \<or> c = 168 \<or> c = 169 \<or> c = 175) \<or>
     a = 226 \<and> b = 129 \<and> c = 159 \<or>
     a = 227 \<and> b = 128 \<and> c = 128"

fun ws_width :: "string \<Rightarrow> nat" where
  "ws_width [] = 0"
| "ws_width [a] = (if ws1 (byte a) then 1 else 0)"
| "ws_width [a, b] = (if ws1 (byte a) then 1 else if ws2 (byte a) (byte b) then 2 else 0)"
| "ws_width (a # b # c # _) =
     (if ws1 (byte a) then 1 else if ws2 (byte a) (byte b) then 2
      else if ws3 (byte a) (byte b) (byte c) then 3 else 0)"

fun ws_width_rev :: "string \<Rightarrow> nat" where
  "ws_width_rev [] = 0"
| "ws_width_rev [a] = (if ws1 (byte a) then 1 else 0)"
| "ws_width_rev [a, b] = (if ws1 (byte a) then 1 else if ws2 (byte b) (byte a) then 2 else 0)"
| "ws_width_rev (a # b # c # _) =
     (if ws1 (byte a) then 1 else if ws2 (byte b) (byte a) then 2
      else if ws3 (byte c) (byte b) (byte a) then 3 else 0)"

lemma ws_width_Nil_iff: "ws_width s \<noteq> 0 \<Longrightarrow> s \<noteq> []" "ws_width_rev s \<noteq> 0 \<Longrightarrow> s \<noteq> []"
  by auto

lemma drop_shorter:
  "ws_width s \<noteq> 0 \<Longrightarrow> length (drop (ws_width s) s) < length s"
  "ws_width_rev s \<noteq> 0 \<Longrightarrow> length (drop (ws_width_rev s) s) < length s"
  using ws_width_Nil_iff [of s] by (simp_all add: length_greater_0_conv [symmetric] del: length_greater_0_conv)

function trim_start :: "string \<Rightarrow> string" where
  "trim_start s = (if ws_width s = 0 then s else trim_start (drop (ws_width s) s))"
  by pat_completeness auto
termination
  by (relation "measure length") (rule wf_measure, unfold in_measure, erule drop_shorter(1))

function trim_front_rev :: "string \<Rightarrow> string" where
  "trim_front_rev s = (if ws_width_rev s = 0 then s else trim_front_rev (drop (ws_width_rev s) s))"
  by pat_completeness auto
termination
  by (relation "measure length") (rule wf_measure, unfold in_measure, erule drop_shorter(2))

declare trim_start.simps [simp del] trim_front_rev.simps [simp del]

definition trim_end :: "string \<Rightarrow> string" where
  "trim_end s = rev (trim_front_rev (rev s))"

definition trim :: "string \<Rightarrow> string" where
  "trim s = trim_end (trim_start s)"

lemma trim_start_length: "length (trim_start s) \<le> length s"
proof (induction s rule: trim_start.induct)
  case (1 s)
  show ?case
    using 1 by (cases "ws_width s = 0") (auto simp: trim_start.simps [of s])
qed

lemma trim_front_rev_length: "length (trim_front_rev s) \<le> length s"
proof (induction s rule: trim_front_rev.induct)
  case (1 s)
  show ?case
    using 1 by (cases "ws_width_rev s = 0") (auto simp: trim_front_rev.simps [of s])
qed

lemma trim_start_id: "trim_start s = s \<longleftrightarrow> ws_width s = 0"
proof
  assume eq: "trim_start s = s"
  show "ws_width s = 0"
  proof (rule ccontr)
    assume w: "ws_width s \<noteq> 0"
    then have "length (trim_start s) \<le> length (drop (ws_width s) s)"
      by (subst trim_start.simps) (simp add: trim_start_length del: length_drop)
    moreover have "length (drop (ws_width s) s) < length s"
      by (rule drop_shorter(1) [OF w])
    ultimately show False using eq by simp
  qed
qed (simp add: trim_start.simps)

lemma trim_front_rev_id: "trim_front_rev s = s \<longleftrightarrow> ws_width_rev s = 0"
proof
  assume eq: "trim_front_rev s = s"
  show "ws_width_rev s = 0"
  proof (rule ccontr)
    assume w: "ws_width_rev s \<noteq> 0"
    then have "length (trim_front_rev s) \<le> length (drop (ws_width_rev s) s)"
      by (subst trim_front_rev.simps) (simp add: trim_front_rev_length del: length_drop)
    moreover have "length (drop (ws_width_rev s) s) < length s"
      by (rule drop_shorter(2) [OF w])
    ultimately show False using eq by simp
  qed
qed (simp add: trim_front_rev.simps)

lemma trim_id: "trim s = s \<longleftrightarrow> ws_width s = 0 \<and> ws_width_rev (rev s) = 0"
proof
  assume t: "trim s = s"
  have "length (trim s) \<le> length (trim_start s)"
    by (simp add: trim_def trim_end_def) (metis length_rev trim_front_rev_length)
  with t trim_start_length [of s] have len: "length (trim_start s) = length s" by simp
  have ws: "ws_width s = 0"
  proof (rule ccontr)
    assume w: "ws_width s \<noteq> 0"
    then have "length (trim_start s) \<le> length (drop (ws_width s) s)"
      by (subst trim_start.simps) (simp add: trim_start_length del: length_drop)
    with len drop_shorter(1) [OF w] show False by simp
  qed
  then have "trim_start s = s" by (simp add: trim_start_id)
  with t have "trim_front_rev (rev s) = rev s"
    by (simp add: trim_def trim_end_def) (metis rev_rev_ident)
  with ws show "ws_width s = 0 \<and> ws_width_rev (rev s) = 0"
    by (simp add: trim_front_rev_id)
next
  assume "ws_width s = 0 \<and> ws_width_rev (rev s) = 0"
  then show "trim s = s"
    by (simp add: trim_def trim_end_def trim_start.simps trim_front_rev.simps)
qed

subsection \<open>Splitting and joining\<close>

text \<open>\<open>split\<close> on one byte, \<open>split_once\<close>, \<open>rsplit_once\<close>, \<open>strip_prefix\<close>, \<open>strip_suffix\<close>,
  \<open>contains\<close> and \<open>trim_matches\<close> of Rust's \<open>str\<close>.\<close>

fun split_on :: "char \<Rightarrow> string \<Rightarrow> string list" where
  "split_on c [] = [[]]"
| "split_on c (x # xs) =
     (if x = c then [] # split_on c xs
      else (case split_on c xs of [] \<Rightarrow> [[x]] | s # ss \<Rightarrow> (x # s) # ss))"

fun join_with :: "char \<Rightarrow> string list \<Rightarrow> string" where
  "join_with c [] = []"
| "join_with c [s] = s"
| "join_with c (s # ss) = s @ c # join_with c ss"

fun split_once :: "char \<Rightarrow> string \<Rightarrow> (string \<times> string) option" where
  "split_once c [] = None"
| "split_once c (x # xs) =
     (if x = c then Some ([], xs) else map_option (\<lambda>(a, b). (x # a, b)) (split_once c xs))"

definition rsplit_once :: "char \<Rightarrow> string \<Rightarrow> (string \<times> string) option" where
  "rsplit_once c s = map_option (\<lambda>(a, b). (rev b, rev a)) (split_once c (rev s))"

definition strip_prefix :: "string \<Rightarrow> string \<Rightarrow> string option" where
  "strip_prefix p s = (if starts_with s p then Some (drop (length p) s) else None)"

definition strip_suffix :: "string \<Rightarrow> string \<Rightarrow> string option" where
  "strip_suffix p s = (if ends_with s p then Some (take (length s - length p) s) else None)"

fun contains_text :: "string \<Rightarrow> string \<Rightarrow> bool" where
  "contains_text [] p = (p = [])"
| "contains_text (x # xs) p = (starts_with (x # xs) p \<or> contains_text xs p)"

definition trim_matches :: "char \<Rightarrow> string \<Rightarrow> string" where
  "trim_matches c s = rev (dropWhile (\<lambda>x. x = c) (rev (dropWhile (\<lambda>x. x = c) s)))"

text \<open>\<open>to_string\<close> of numbers.\<close>

fun decimal_text :: "nat \<Rightarrow> string" where
  "decimal_text n = (if n < 10 then [char_of (48 + n)] else decimal_text (n div 10) @ [char_of (48 + n mod 10)])"

declare decimal_text.simps [simp del]

definition signed_text :: "int \<Rightarrow> string" where
  "signed_text i = (if i < 0 then CHR ''-'' # decimal_text (nat (- i)) else decimal_text (nat i))"

lemma split_on_not_Nil [simp]: "split_on c s \<noteq> []"
  by (induction s) (auto split: list.splits)

lemma join_split [simp]: "join_with c (split_on c s) = s"
proof (induction s)
  case (Cons x xs)
  obtain p ps where eq: "split_on c xs = p # ps" by (cases "split_on c xs") auto
  with Cons show ?case by (cases ps) auto
qed simp

lemma split_on_parts: "p \<in> set (split_on c s) \<Longrightarrow> c \<notin> set p"
proof (induction s arbitrary: p)
  case (Cons x xs)
  then show ?case by (auto split: if_splits list.splits)
qed simp

lemma split_on_append: "c \<notin> set p \<Longrightarrow> split_on c (p @ c # s) = p # split_on c s"
  by (induction p) auto

lemma split_on_single: "c \<notin> set p \<Longrightarrow> split_on c p = [p]"
  by (induction p) auto

lemma split_join: "ps \<noteq> [] \<Longrightarrow> (\<And>p. p \<in> set ps \<Longrightarrow> c \<notin> set p) \<Longrightarrow> split_on c (join_with c ps) = ps"
proof (induction ps rule: induct_list012)
  case (3 p q ps)
  then have "split_on c (p @ c # join_with c (q # ps)) = p # split_on c (join_with c (q # ps))"
    by (intro split_on_append) simp
  with 3 show ?case by simp
qed (simp_all add: split_on_single)

lemma split_once_Some: "split_once c s = Some (a, b) \<longleftrightarrow> s = a @ c # b \<and> c \<notin> set a"
proof (induction s arbitrary: a)
  case (Cons x xs)
  show ?case
  proof (cases a)
    case Nil
    then show ?thesis by auto
  next
    case (Cons y ys)
    with Cons.IH [of ys] show ?thesis by auto
  qed
qed simp

lemma split_once_None: "split_once c s = None \<longleftrightarrow> c \<notin> set s"
  by (induction s) auto

section \<open>Text codecs\<close>

text \<open>
  An enumeration that is stored as text: \<open>print\<close> is the source's \<open>as_str\<close> or \<open>Display\<close>,
  \<open>parse\<close> its \<open>parse\<close> or \<open>FromStr\<close>.
\<close>

locale text_codec =
  fixes print :: "'a \<Rightarrow> string"
    and parse :: "string \<Rightarrow> 'a result"
  assumes parse_print: "parse (print x) = Inr x"
    and parse_sound: "parse s = Inr x \<Longrightarrow> s = print x"
begin

lemma print_inj: "print x = print y \<longleftrightarrow> x = y"
  by (metis parse_print sum.inject(2))

lemma parse_iff: "parse s = Inr x \<longleftrightarrow> s = print x"
  using parse_print parse_sound by blast

lemma parse_rejects: "(\<exists>e. parse s = Inl e) \<longleftrightarrow> s \<notin> range print"
proof (cases "parse s")
  case (Inl e)
  then have "s \<noteq> print x" for x using parse_print [of x] by auto
  with Inl show ?thesis by auto
next
  case (Inr x)
  then show ?thesis using parse_sound [OF Inr] by auto
qed

end

end
