(* ===== verification/Git_Object.thy ===== *)
theory Git_Object
  imports Prelude
begin

text \<open>
  \<open>git_object.rs\<close>: the object format of a repository and the check that a string is a full
  object identifier of that format.
\<close>

datatype git_object_format = Sha1 | Sha256

definition parse_format :: "string \<Rightarrow> string \<Rightarrow> git_object_format result" where
  "parse_format label value =
     (if value = ''sha1'' then Ok Sha1
      else if value = ''sha256'' then Ok Sha256
      else Err (Bail (label @ '' reported unsupported Git object format '' @ value)))"

fun format_as_str :: "git_object_format \<Rightarrow> string" where
  "format_as_str Sha1 = ''sha1''"
| "format_as_str Sha256 = ''sha256''"

fun oid_length :: "git_object_format \<Rightarrow> nat" where
  "oid_length Sha1 = 40"
| "oid_length Sha256 = 64"

definition zero_oid :: "git_object_format \<Rightarrow> string" where
  "zero_oid f = replicate (oid_length f) (CHR ''0'')"

definition require_oid :: "git_object_format \<Rightarrow> string \<Rightarrow> string \<Rightarrow> unit result" where
  "require_oid f value label =
     (if length value \<noteq> oid_length f \<or> \<not> list_all is_ascii_hexdigit value
      then Err (Bail (label @ '' must be a full hexadecimal '' @ format_as_str f @ '' Git object ID''))
      else Ok ())"

definition is_oid :: "git_object_format \<Rightarrow> string \<Rightarrow> bool" where
  "is_oid f value \<longleftrightarrow> length value = oid_length f \<and> list_all is_ascii_hexdigit value"

lemma require_oid_iff [result_simps]: "require_oid f v l = Inr u \<longleftrightarrow> is_oid f v"
  by (auto simp: require_oid_def is_oid_def)

lemma is_ok_require_oid [simp]: "is_ok (require_oid f v l) \<longleftrightarrow> is_oid f v"
  by (simp add: require_oid_def is_oid_def)

lemma is_oid_replicate_40 [simp]: "is_oid Sha1 (replicate 40 c) \<longleftrightarrow> is_ascii_hexdigit c"
  by (simp add: is_oid_def list_all_iff)

lemma is_oid_zero: "is_oid f (zero_oid f)"
  by (simp add: is_oid_def zero_oid_def list_all_length ascii_defs)

lemma is_oid_format_unique: "is_oid f v \<Longrightarrow> is_oid g v \<Longrightarrow> f = g"
  by (cases f; cases g) (auto simp: is_oid_def)

interpretation format_codec: text_codec format_as_str "parse_format label" for label
proof unfold_locales
  fix x show "parse_format label (format_as_str x) = Inr x"
    by (cases x) (simp_all add: parse_format_def)
next
  fix s x assume "parse_format label s = Inr x"
  then show "s = format_as_str x"
    by (auto simp: parse_format_def split: if_splits)
qed

end
