(* ===== verification/Domain_Types.thy ===== *)
theory Domain_Types
  imports Git_Object
begin

text \<open>
  \<open>control_domain.rs\<close>, first part: the vocabulary of an integration effort.  It holds the
  checks on exact text and systemd identities, the state-repository and runner snapshots with
  their validation, and the payload of every effort state and blocker.  A struct is a record
  whose fields carry a short prefix for the struct, an enum a datatype; \<open>u8\<close>, \<open>u32\<close> and
  \<open>u64\<close> fields are natural numbers (nothing here adds to them).
\<close>

section \<open>Exact text and systemd identities\<close>

definition AUTOMATIC_CYCLE_LIMIT :: nat where
  "AUTOMATIC_CYCLE_LIMIT = 10"

definition PROTOCOL_VERSION :: nat where
  "PROTOCOL_VERSION = 2"

definition require_exact_text :: "string \<Rightarrow> string \<Rightarrow> string result" where
  "require_exact_text value label =
     (if value = [] \<or> trim value \<noteq> value
      then Err (Bail (label @ '' must be non-empty with no surrounding whitespace''))
      else Ok value)"

definition exact_text :: "string \<Rightarrow> bool" where
  "exact_text value \<longleftrightarrow> value \<noteq> [] \<and> ws_width value = 0 \<and> ws_width_rev (rev value) = 0"

lemma require_exact_text_iff [result_simps]:
  "require_exact_text v l = Inr r \<longleftrightarrow> exact_text v \<and> r = v"
  by (auto simp: require_exact_text_def exact_text_def trim_id)

lemma is_ok_require_exact_text [simp]: "is_ok (require_exact_text v l) \<longleftrightarrow> exact_text v"
  by (simp add: require_exact_text_def exact_text_def trim_id)

definition cycle_id_byte :: "char \<Rightarrow> bool" where
  "cycle_id_byte c \<longleftrightarrow> is_ascii_lowercase c \<or> is_ascii_digit c \<or> c = CHR ''-''"

definition validate_cycle_id :: "string \<Rightarrow> unit result" where
  "validate_cycle_id cycle_id =
     (if cycle_id = [] \<or> length cycle_id > 128 \<or> \<not> list_all cycle_id_byte cycle_id
         \<or> \<not> (case cycle_id of [] \<Rightarrow> False | c # _ \<Rightarrow> is_ascii_alphanumeric c)
         \<or> \<not> (case rev cycle_id of [] \<Rightarrow> False | c # _ \<Rightarrow> is_ascii_alphanumeric c)
      then Err (Bail ''cycle ID has invalid systemd identity grammar'')
      else Ok ())"

definition systemd_unit_name :: "string \<Rightarrow> string result" where
  "systemd_unit_name cycle_id =
     bnd (validate_cycle_id cycle_id) (\<lambda>_. Ok (''iq-agent-'' @ cycle_id @ ''.service''))"

definition validate_systemd_unit_name :: "string \<Rightarrow> string \<Rightarrow> unit result" where
  "validate_systemd_unit_name cycle_id unit_name =
     bnd (systemd_unit_name cycle_id) (\<lambda>expected.
       require (unit_name = expected) (Bail ''systemd unit name differs from exact cycle authority''))"

definition validate_legacy_systemd_scope_name :: "string \<Rightarrow> string \<Rightarrow> unit result" where
  "validate_legacy_systemd_scope_name cycle_id unit_name =
     bnd (validate_cycle_id cycle_id) (\<lambda>_.
       require (unit_name = ''iq-agent-'' @ cycle_id @ ''.scope'')
         (Bail ''legacy systemd unit name differs from exact cycle authority''))"

definition is_sha256_digest :: "string \<Rightarrow> bool" where
  "is_sha256_digest s \<longleftrightarrow> length s = 64 \<and> list_all is_ascii_hexdigit s"

section \<open>State repository snapshots\<close>

datatype issue_visibility = Minimal | Full

record issue_repository_snapshot =
  irs_repository :: string
  irs_visibility :: issue_visibility
  irs_allowed_responders :: "string list"

datatype state_repository_snapshot =
    Local
  | GithubIssue issue_repository_snapshot
  | GitlabIssue issue_repository_snapshot

fun snapshot_issue :: "state_repository_snapshot \<Rightarrow> issue_repository_snapshot option" where
  "snapshot_issue Local = None"
| "snapshot_issue (GithubIssue issue) = Some issue"
| "snapshot_issue (GitlabIssue issue) = Some issue"

fun check_responders :: "string list \<Rightarrow> string list \<Rightarrow> unit result" where
  "check_responders seen [] = Ok ()"
| "check_responders seen (r # rs) =
     bnd (require_exact_text r ''allowed responder'') (\<lambda>_.
     bnd (require (to_ascii_lowercase r \<notin> set seen)
            (Bail ''issue state repository has a duplicate allowed responder'')) (\<lambda>_.
     check_responders (to_ascii_lowercase r # seen) rs))"

definition snapshot_validate :: "state_repository_snapshot \<Rightarrow> state_repository_snapshot result" where
  "snapshot_validate self =
     (case snapshot_issue self of
        None \<Rightarrow> Ok self
      | Some issue \<Rightarrow>
          bnd (require_exact_text (irs_repository issue) ''state repository identity'') (\<lambda>_.
          bnd (require (CHR ''/'' \<in> set (irs_repository issue)
                 \<and> \<not> starts_with (irs_repository issue) ''/''
                 \<and> \<not> ends_with (irs_repository issue) ''/'')
                 (Bail ''state repository identity must be an exact owner/repository path'')) (\<lambda>_.
          bnd (require (irs_allowed_responders issue \<noteq> [])
                 (Bail ''issue state repository requires allowed responders'')) (\<lambda>_.
          bnd (check_responders [] (irs_allowed_responders issue)) (\<lambda>_. Ok self)))))"

definition snapshot_visibility :: "state_repository_snapshot \<Rightarrow> issue_visibility option" where
  "snapshot_visibility self = map_option irs_visibility (snapshot_issue self)"

definition permits_actor :: "state_repository_snapshot \<Rightarrow> string \<Rightarrow> bool" where
  "permits_actor self actor =
     (case snapshot_issue self of
        None \<Rightarrow> False
      | Some issue \<Rightarrow> list_ex (\<lambda>allowed. eq_ignore_ascii_case allowed actor) (irs_allowed_responders issue))"

section \<open>Runner snapshots\<close>

datatype runner_kind = Opencode

record executable_identity =
  ei_path :: string
  ei_device :: nat
  ei_inode :: nat
  ei_sha256 :: string

record runner_bounds =
  rb_max_log_bytes :: nat
  rb_max_result_bytes :: nat
  rb_max_processes :: nat
  rb_memory_bytes :: nat
  rb_cpu_seconds :: nat
  rb_writable_bytes :: nat
  rb_open_files :: nat

record sandbox_identity =
  sb_implementation :: string
  sb_bubblewrap :: executable_identity
  sb_unshare :: executable_identity
  sb_systemd_run :: executable_identity
  sb_systemctl :: executable_identity

record runner_snapshot =
  rs_kind :: runner_kind
  rs_executable :: executable_identity
  rs_agent :: string
  rs_model :: string
  rs_cycle_timeout_seconds :: nat
  rs_bounds :: runner_bounds
  rs_sandbox :: sandbox_identity
  rs_credential_env :: string

definition executable_identity_valid :: "executable_identity \<Rightarrow> bool" where
  "executable_identity_valid e \<longleftrightarrow>
     is_absolute (ei_path e) \<and> ei_device e \<noteq> 0 \<and> ei_inode e \<noteq> 0 \<and> is_sha256_digest (ei_sha256 e)"

definition credential_env_valid :: "string \<Rightarrow> bool" where
  "credential_env_valid s \<longleftrightarrow>
     list_all (\<lambda>(i, c). c = CHR ''_'' \<or> is_ascii_uppercase c \<or> (i > 0 \<and> is_ascii_digit c)) (enumerate 0 s)"

definition bounds_positive :: "runner_snapshot \<Rightarrow> bool" where
  "bounds_positive r \<longleftrightarrow>
     rs_cycle_timeout_seconds r \<noteq> 0 \<and> rb_max_log_bytes (rs_bounds r) \<noteq> 0
     \<and> rb_max_result_bytes (rs_bounds r) \<noteq> 0 \<and> rb_max_processes (rs_bounds r) \<noteq> 0
     \<and> rb_memory_bytes (rs_bounds r) \<noteq> 0 \<and> rb_cpu_seconds (rs_bounds r) \<noteq> 0
     \<and> rb_writable_bytes (rs_bounds r) \<noteq> 0 \<and> rb_open_files (rs_bounds r) \<noteq> 0"

definition runner_validate :: "runner_snapshot \<Rightarrow> runner_snapshot result" where
  "runner_validate self =
     bnd (require_exact_text (rs_agent self) ''runner agent'') (\<lambda>_.
     bnd (require_exact_text (rs_model self) ''runner model'') (\<lambda>_.
     bnd (require_exact_text (rs_credential_env self) ''runner credential environment variable'') (\<lambda>_.
     bnd (require (credential_env_valid (rs_credential_env self))
            (Bail ''runner credential environment variable must be a valid uppercase environment name'')) (\<lambda>_.
     bnd (require (executable_identity_valid (rs_executable self))
            (Bail ''runner executable identity is invalid'')) (\<lambda>_.
     bnd (require (bounds_positive self) (Bail ''runner limits must all be positive'')) (\<lambda>_.
     bnd (require_exact_text (sb_implementation (rs_sandbox self)) ''runner sandbox implementation'') (\<lambda>_.
     bnd (for_each (\<lambda>(e, label). require (executable_identity_valid e) (Bail (label @ '' identity is invalid'')))
            [(sb_bubblewrap (rs_sandbox self), ''runner bubblewrap executable''),
             (sb_unshare (rs_sandbox self), ''runner unshare executable''),
             (sb_systemd_run (rs_sandbox self), ''runner systemd-run executable''),
             (sb_systemctl (rs_sandbox self), ''runner systemctl executable'')]) (\<lambda>_.
     Ok self))))))))"

section \<open>Payloads of the effort states\<close>

record replacement_pending =
  rp_old_attempt_id :: string
  rp_replaced_at :: string

record agent_ready =
  ar_next_cycle :: nat

record launcher_authority =
  la_pid :: nat
  la_process_start_ticks :: nat
  la_token :: string

datatype spawn_authority = SpawnOpen | CloseRequested | Surrendered | Closed

record agent_launching =
  al_launch_operation_id :: string
  al_unit_name :: string
  al_cycle_id :: string
  al_cycle_number :: nat
  al_authority_lease_id :: string
  al_launcher :: launcher_authority
  al_input_sha256 :: string
  al_protocol_directory :: string
  al_prepared_at :: string
  al_spawn_authority :: spawn_authority

datatype atomic_result_state =
    Absent
  | Writing nat nat
  | Complete nat nat string

record agent_running =
  ag_launch_operation_id :: string
  ag_unit_name :: string
  ag_cycle_id :: string
  ag_cycle_number :: nat
  ag_pid :: nat
  ag_process_start_ticks :: nat
  ag_control_group :: string
  ag_authority_lease_id :: string
  ag_launcher :: launcher_authority
  ag_sandbox_id :: string
  ag_input_sha256 :: string
  ag_result :: atomic_result_state
  ag_started_at :: string

record runner_service_authority =
  sa_cycle_id :: string
  sa_unit_name :: string
  sa_control_group :: string
  sa_pid :: nat
  sa_process_start_ticks :: nat

record legacy_runner_scope_authority =
  ls_cycle_id :: string
  ls_unit_name :: string
  ls_control_group :: string
  ls_pid :: nat
  ls_process_start_ticks :: nat

datatype candidate_classification = ClsMechanical | ClsSemantic

record candidate_building =
  cb_operation_id :: string
  cb_cycle_id :: string
  cb_staged_tree_sha256 :: string
  cb_tree_sha :: string
  cb_parent_shas :: "string list"
  cb_author_name :: string
  cb_author_email :: string
  cb_author_timestamp :: string
  cb_committer_name :: string
  cb_committer_email :: string
  cb_committer_timestamp :: string
  cb_message :: string
  cb_operation_ref :: string
  cb_classification :: candidate_classification

datatype composition_evidence =
    Clean string
  | TargetMoved string
  | Conflicted string
  | MigratedUnknown nat
  | MigratedPostRelease nat

record candidate_review_required =
  rr_review_id :: string
  rr_cycle_id :: string
  rr_candidate_sha :: string

datatype candidate_review = RevMechanical | RevApproved string

record candidate_ready =
  cr_cycle_id :: string
  cr_candidate_sha :: string
  cr_review :: candidate_review

datatype validation_stage = Running | Gates

record validating =
  va_candidate_sha :: string
  va_policy_digest :: string
  va_stage :: validation_stage

datatype signoff_disposition =
    NoValidation string
  | ValidationWithoutSignoff string
  | Evidence string string string

record landing =
  ld_candidate_sha :: string
  ld_expected_target_sha :: string
  ld_lease_id :: string
  ld_signoff :: signoff_disposition

record landing_uncertain =
  lu_candidate_sha :: string
  lu_expected_target_sha :: string
  lu_command_id :: string
  lu_evidence :: string

record integrated =
  in_candidate_sha :: string
  in_landed_sha :: string
  in_attempt_id :: string
  in_event_id :: string

record cancelled =
  ca_actor :: string
  ca_reason :: string
  ca_cancelled_at :: string

record exact_effort_identity =
  xi_effort_id :: string
  xi_item_id :: string
  xi_attempt_id :: string
  xi_cycle_id :: string
  xi_target_sha :: string
  xi_source_sha :: string
  xi_candidate_sha :: "string option"

datatype encoded_path_component = HexComponent (ec_hex: string)
datatype encoded_path = EncodedPath (ep_components: "encoded_path_component list")
datatype encoded_absolute_path = EncodedAbsolutePath (ea_components: "encoded_path_component list")

datatype guidance_alternatives = Explicit "string list" | FreeText

record semantic_guidance_blocker =
  sg_request_id :: string
  sg_question :: string
  sg_affected_contracts :: "string list"
  sg_affected_paths :: "encoded_path list"
  sg_alternatives :: guidance_alternatives
  sg_evidence :: string
  sg_identity :: exact_effort_identity

datatype infrastructure_component =
  Configuration | Sandbox | Runner | Filesystem | Database | Validation

datatype infrastructure_cause =
    Unavailable string
  | IdentityChanged string string
  | CauseInterrupted string
  | LimitUnavailable string string

record infrastructure_blocker =
  ib_component :: infrastructure_component
  ib_operation :: string
  ib_cause :: infrastructure_cause

datatype cycle_failure =
    MechanicalFailure string string string
  | InvalidResult string
  | RunnerCrash "int option"
  | Timeout
  | Interrupted
  | CandidateDefect string

record cycle_limit_blocker =
  cl_count :: nat
  cl_cycle_ids :: "string list"
  cl_last_failure :: cycle_failure
  cl_alert_event_id :: string

datatype provider_gate_kind = GateProvider | GateSignoff
datatype provider_gate_status = GatePending | GateFailed

record provider_signoff_blocker =
  ps_gate :: provider_gate_kind
  ps_repository :: string
  ps_context :: string
  ps_candidate_sha :: string
  ps_status :: provider_gate_status
  ps_evidence :: string

datatype integration_blocker =
    SemanticGuidance semantic_guidance_blocker
  | Infrastructure infrastructure_blocker
  | CycleLimit cycle_limit_blocker
  | ProviderSignoff provider_signoff_blocker

datatype resume_state =
    RsAgentReady agent_ready
  | RsCandidateBuilding candidate_building
  | RsReviewRequired candidate_review_required
  | RsCandidateReady candidate_ready
  | RsValidating validating
  | RsLanding landing
  | RsLandingUncertain landing_uncertain

record blocked_effort =
  be_blocker :: integration_blocker
  be_resume :: resume_state

datatype target_move_cause =
    Observed string
  | StaleLandingLease string string

record target_move_pending =
  tm_target_sha :: string
  tm_source_sha :: string
  tm_previous :: resume_state
  tm_cause :: target_move_cause

datatype integration_effort_state =
    ReplacementPending replacement_pending
  | AgentReady agent_ready
  | AgentLaunching agent_launching
  | AgentRunning agent_running
  | CandidateBuilding candidate_building
  | ReviewRequired candidate_review_required
  | CandidateReady candidate_ready
  | Validating validating
  | GuidanceRequired blocked_effort
  | InfrastructureBlocked blocked_effort
  | CycleLimitBlocked blocked_effort
  | ProviderBlocked blocked_effort
  | Landing landing
  | LandingUncertain landing_uncertain
  | TargetMovePending target_move_pending
  | Integrated integrated
  | Cancelled cancelled

end
