(* ===== verification/Control_Domain.thy ===== *)
theory Control_Domain
  imports Domain_Types
begin

text \<open>
  \<open>control_domain.rs\<close>, second part: the functions on effort states.  They give the stored name
  of a state, its blocker and candidate, whether it holds landing authority that has left the
  process, the validation of a state for a count of failed cycles, the object identifiers a
  state may hold, the suspension of a state behind a blocker, and the hexadecimal encoding of
  protocol paths.
\<close>

section \<open>Names, blockers and candidates\<close>

fun state_name :: "integration_effort_state \<Rightarrow> string" where
  "state_name (ReplacementPending _) = ''replacement_pending''"
| "state_name (AgentReady _) = ''agent_ready''"
| "state_name (AgentLaunching _) = ''agent_launching''"
| "state_name (AgentRunning _) = ''agent_running''"
| "state_name (CandidateBuilding _) = ''candidate_building''"
| "state_name (ReviewRequired _) = ''review_required''"
| "state_name (CandidateReady _) = ''candidate_ready''"
| "state_name (Validating _) = ''validating''"
| "state_name (GuidanceRequired _) = ''guidance_required''"
| "state_name (InfrastructureBlocked _) = ''infrastructure_blocked''"
| "state_name (CycleLimitBlocked _) = ''cycle_limit_blocked''"
| "state_name (ProviderBlocked _) = ''provider_blocked''"
| "state_name (Landing _) = ''landing''"
| "state_name (LandingUncertain _) = ''landing_uncertain''"
| "state_name (TargetMovePending _) = ''target_move_pending''"
| "state_name (Integrated _) = ''integrated''"
| "state_name (Cancelled _) = ''cancelled''"

fun state_blocker :: "integration_effort_state \<Rightarrow> integration_blocker option" where
  "state_blocker (GuidanceRequired value) = Some (be_blocker value)"
| "state_blocker (InfrastructureBlocked value) = Some (be_blocker value)"
| "state_blocker (CycleLimitBlocked value) = Some (be_blocker value)"
| "state_blocker (ProviderBlocked value) = Some (be_blocker value)"
| "state_blocker _ = None"

fun blocker_kind :: "integration_blocker \<Rightarrow> string" where
  "blocker_kind (SemanticGuidance _) = ''semantic_guidance''"
| "blocker_kind (Infrastructure _) = ''infrastructure''"
| "blocker_kind (CycleLimit _) = ''cycle_limit''"
| "blocker_kind (ProviderSignoff _) = ''provider_signoff''"

fun is_provider_input_state :: "integration_effort_state \<Rightarrow> bool" where
  "is_provider_input_state (GuidanceRequired _) = True"
| "is_provider_input_state (ReviewRequired _) = True"
| "is_provider_input_state _ = False"

fun resume_candidate_sha :: "resume_state \<Rightarrow> string option" where
  "resume_candidate_sha (RsReviewRequired value) = Some (rr_candidate_sha value)"
| "resume_candidate_sha (RsCandidateReady value) = Some (cr_candidate_sha value)"
| "resume_candidate_sha (RsValidating value) = Some (va_candidate_sha value)"
| "resume_candidate_sha (RsLanding value) = Some (ld_candidate_sha value)"
| "resume_candidate_sha (RsLandingUncertain value) = Some (lu_candidate_sha value)"
| "resume_candidate_sha (RsAgentReady _) = None"
| "resume_candidate_sha (RsCandidateBuilding _) = None"

fun state_candidate_sha :: "integration_effort_state \<Rightarrow> string option" where
  "state_candidate_sha (ReviewRequired value) = Some (rr_candidate_sha value)"
| "state_candidate_sha (CandidateReady value) = Some (cr_candidate_sha value)"
| "state_candidate_sha (Validating value) = Some (va_candidate_sha value)"
| "state_candidate_sha (Landing value) = Some (ld_candidate_sha value)"
| "state_candidate_sha (LandingUncertain value) = Some (lu_candidate_sha value)"
| "state_candidate_sha (TargetMovePending value) = resume_candidate_sha (tm_previous value)"
| "state_candidate_sha (InfrastructureBlocked value) = resume_candidate_sha (be_resume value)"
| "state_candidate_sha (ProviderBlocked value) = resume_candidate_sha (be_resume value)"
| "state_candidate_sha (Integrated value) = Some (in_candidate_sha value)"
| "state_candidate_sha _ = None"

section \<open>External landing authority\<close>

fun resume_external_landing :: "resume_state \<Rightarrow> bool" where
  "resume_external_landing (RsLandingUncertain _) = True"
| "resume_external_landing (RsAgentReady _) = False"
| "resume_external_landing (RsCandidateBuilding _) = False"
| "resume_external_landing (RsReviewRequired _) = False"
| "resume_external_landing (RsCandidateReady _) = False"
| "resume_external_landing (RsValidating _) = False"
| "resume_external_landing (RsLanding _) = False"

fun contains_external_landing_authority :: "integration_effort_state \<Rightarrow> bool" where
  "contains_external_landing_authority (GuidanceRequired b) = resume_external_landing (be_resume b)"
| "contains_external_landing_authority (InfrastructureBlocked b) = resume_external_landing (be_resume b)"
| "contains_external_landing_authority (CycleLimitBlocked b) = resume_external_landing (be_resume b)"
| "contains_external_landing_authority (ProviderBlocked b) = resume_external_landing (be_resume b)"
| "contains_external_landing_authority (LandingUncertain _) = True"
| "contains_external_landing_authority (Integrated _) = True"
| "contains_external_landing_authority _ = False"

section \<open>Suspension and resumption\<close>

fun capture :: "integration_effort_state \<Rightarrow> resume_state result" where
  "capture (AgentReady value) = Ok (RsAgentReady value)"
| "capture (CandidateBuilding value) = Ok (RsCandidateBuilding value)"
| "capture (ReviewRequired value) = Ok (RsReviewRequired value)"
| "capture (CandidateReady value) = Ok (RsCandidateReady value)"
| "capture (Validating value) = Ok (RsValidating value)"
| "capture (Landing value) = Ok (RsLanding value)"
| "capture (LandingUncertain value) = Ok (RsLandingUncertain value)"
| "capture _ = Err (Bail ''effort state cannot be suspended for external repair'')"

fun restore :: "resume_state \<Rightarrow> integration_effort_state" where
  "restore (RsAgentReady value) = AgentReady value"
| "restore (RsCandidateBuilding value) = CandidateBuilding value"
| "restore (RsReviewRequired value) = ReviewRequired value"
| "restore (RsCandidateReady value) = CandidateReady value"
| "restore (RsValidating value) = Validating value"
| "restore (RsLanding value) = Landing value"
| "restore (RsLandingUncertain value) = LandingUncertain value"

text \<open>
  The contract of suspension: a state that can be captured is restored exactly, and every
  captured form comes from the state it restores to.
\<close>

locale suspension =
  fixes suspend :: "'s \<Rightarrow> 'r result"
    and resume :: "'r \<Rightarrow> 's"
  assumes suspend_resume: "suspend (resume r) = Inr r"
    and resume_suspend: "suspend s = Inr r \<Longrightarrow> resume r = s"
begin

lemma suspend_iff: "suspend s = Inr r \<longleftrightarrow> resume r = s"
  using suspend_resume resume_suspend by blast

lemma resume_inj: "resume r = resume q \<Longrightarrow> r = q"
  by (metis suspend_resume sum.inject(2))

lemma transport: "suspend s = Inr r \<Longrightarrow> (\<And>q. f (resume q) = g q) \<Longrightarrow> g r = f s"
  using resume_suspend by metis

end

interpretation resume: suspension capture restore
proof unfold_locales
  fix r show "capture (restore r) = Inr r" by (cases r) simp_all
next
  fix s r assume "capture s = Inr r" then show "restore r = s" by (cases s) auto
qed

lemma restore_candidate [simp]: "state_candidate_sha (restore r) = resume_candidate_sha r"
  by (cases r) simp_all

lemma restore_external [simp]: "contains_external_landing_authority (restore r) = resume_external_landing r"
  by (cases r) simp_all

lemma capture_external: "capture s = Inr r \<Longrightarrow> resume_external_landing r = contains_external_landing_authority s"
  by (rule resume.transport) simp_all

lemma capture_candidate: "capture s = Inr r \<Longrightarrow> resume_candidate_sha r = state_candidate_sha s"
  by (rule resume.transport) simp_all

lemma capture_not_integrated: "capture s = Inr r \<Longrightarrow> contains_external_landing_authority s \<Longrightarrow> \<exists>l. s = LandingUncertain l"
  by (cases s) simp_all

section \<open>Validation of a state for a count of failed cycles\<close>

definition launcher_authority_valid :: "launcher_authority \<Rightarrow> bool" where
  "launcher_authority_valid l \<longleftrightarrow>
     la_pid l \<noteq> 0 \<and> la_process_start_ticks l \<noteq> 0 \<and> \<not> length (la_token l) < 32
     \<and> list_all (\<lambda>c. is_ascii_alphanumeric c \<or> c = CHR ''-'') (la_token l)"

definition service_authority_validate :: "runner_service_authority \<Rightarrow> unit result" where
  "service_authority_validate self =
     bnd (validate_systemd_unit_name (sa_cycle_id self) (sa_unit_name self)) (\<lambda>_.
     bnd (require (\<not> (sa_pid self = 0 \<or> sa_process_start_ticks self = 0))
            (Bail ''runner service process identity is invalid'')) (\<lambda>_.
     require (starts_with (sa_control_group self) ''/user.slice/''
              \<and> ends_with (sa_control_group self) (''/'' @ sa_unit_name self))
       (Bail ''runner control group differs from its exact systemd unit'')))"

definition legacy_scope_validate :: "legacy_runner_scope_authority \<Rightarrow> unit result" where
  "legacy_scope_validate self =
     bnd (validate_legacy_systemd_scope_name (ls_cycle_id self) (ls_unit_name self)) (\<lambda>_.
     bnd (require (\<not> (ls_pid self = 0 \<or> ls_process_start_ticks self = 0))
            (Bail ''legacy runner scope process identity is invalid'')) (\<lambda>_.
     require (starts_with (ls_control_group self) ''/user.slice/''
              \<and> ends_with (ls_control_group self) (''/'' @ ls_unit_name self))
       (Bail ''legacy runner cgroup differs from its exact systemd scope'')))"

definition termination_authority :: "agent_running \<Rightarrow> runner_service_authority" where
  "termination_authority r = \<lparr>
     sa_cycle_id = ag_cycle_id r, sa_unit_name = ag_unit_name r,
     sa_control_group = ag_control_group r, sa_pid = ag_pid r,
     sa_process_start_ticks = ag_process_start_ticks r \<rparr>"

fun validate_infrastructure :: "resume_state \<Rightarrow> unit result" where
  "validate_infrastructure (RsAgentReady _) = Ok ()"
| "validate_infrastructure (RsCandidateBuilding _) = Ok ()"
| "validate_infrastructure (RsReviewRequired _) = Ok ()"
| "validate_infrastructure (RsCandidateReady _) = Ok ()"
| "validate_infrastructure (RsValidating _) = Ok ()"
| "validate_infrastructure (RsLanding _) = Ok ()"
| "validate_infrastructure (RsLandingUncertain _) = Ok ()"

fun landing_gate_candidate :: "resume_state \<Rightarrow> string option" where
  "landing_gate_candidate (RsValidating v) = (if va_stage v = Gates then Some (va_candidate_sha v) else None)"
| "landing_gate_candidate (RsLanding l) = Some (ld_candidate_sha l)"
| "landing_gate_candidate (RsLandingUncertain l) = Some (lu_candidate_sha l)"
| "landing_gate_candidate _ = None"

definition validate_provider :: "resume_state \<Rightarrow> provider_signoff_blocker \<Rightarrow> unit result" where
  "validate_provider self blocker =
     (case landing_gate_candidate self of
        None \<Rightarrow> Err (Bail ''provider blocker requires a landing-gate resume state'')
      | Some candidate \<Rightarrow>
          require (candidate = ps_candidate_sha blocker)
            (Bail ''provider blocker candidate differs from its resume state''))"

definition validate_launching :: "agent_launching \<Rightarrow> unit result" where
  "validate_launching v =
     bnd (require (\<not> (al_launch_operation_id v = [] \<or> al_unit_name v = [] \<or> al_cycle_id v = []
              \<or> al_cycle_number v = 0 \<or> al_authority_lease_id v = []
              \<or> \<not> launcher_authority_valid (al_launcher v)
              \<or> \<not> is_sha256_digest (al_input_sha256 v)
              \<or> \<not> (al_spawn_authority v = SpawnOpen \<or> al_spawn_authority v = Surrendered)))
            (Bail ''agent_launching has invalid launch authority'')) (\<lambda>_.
     validate_systemd_unit_name (al_cycle_id v) (al_unit_name v))"

definition validate_running :: "agent_running \<Rightarrow> unit result" where
  "validate_running v =
     bnd (require (\<not> (ag_launch_operation_id v = [] \<or> ag_unit_name v = [] \<or> ag_cycle_id v = []
              \<or> ag_cycle_number v = 0 \<or> ag_pid v = 0
              \<or> \<not> starts_with (ag_control_group v) ''/user.slice/''
              \<or> ag_authority_lease_id v = []
              \<or> \<not> launcher_authority_valid (ag_launcher v)
              \<or> \<not> is_sha256_digest (ag_input_sha256 v)))
            (Bail ''agent_running has invalid launch authority'')) (\<lambda>_.
     bnd (validate_systemd_unit_name (ag_cycle_id v) (ag_unit_name v)) (\<lambda>_.
     service_authority_validate (termination_authority v)))"

definition validate_target_move :: "target_move_pending \<Rightarrow> unit result" where
  "validate_target_move v =
     bnd (require_exact_text (tm_target_sha v) ''pending target move target'') (\<lambda>_.
     bnd (require_exact_text (tm_source_sha v) ''pending target move source'') (\<lambda>_.
     (case tm_cause v of
        Observed previous \<Rightarrow>
          bnd (require_exact_text previous ''previous target'') (\<lambda>_. Ok ())
      | StaleLandingLease command_id expected \<Rightarrow>
          bnd (require_exact_text command_id ''stale landing command'') (\<lambda>_.
          bnd (require_exact_text expected ''stale landing expected target'') (\<lambda>_. Ok ())))))"

definition count_within_limit :: "nat \<Rightarrow> unit result" where
  "count_within_limit failed_cycles =
     require (\<not> failed_cycles > AUTOMATIC_CYCLE_LIMIT) (Bail ''failed consumed-cycle count exceeds ten'')"

fun validate_for_count :: "integration_effort_state \<Rightarrow> nat \<Rightarrow> unit result" where
  "validate_for_count (ReplacementPending v) n =
     (if n \<noteq> 0 \<or> rp_old_attempt_id v = [] \<or> rp_replaced_at v = []
      then Err (Bail ''replacement_pending requires its old attempt, replacement time, and zero failed cycles'')
      else count_within_limit n)"
| "validate_for_count (GuidanceRequired v) n =
     (case be_blocker v of
        SemanticGuidance _ \<Rightarrow> count_within_limit n
      | _ \<Rightarrow> Err (Bail ''guidance_required requires semantic_guidance''))"
| "validate_for_count (InfrastructureBlocked v) n =
     (case be_blocker v of
        Infrastructure _ \<Rightarrow> validate_infrastructure (be_resume v)
      | _ \<Rightarrow> Err (Bail ''infrastructure_blocked requires infrastructure''))"
| "validate_for_count (CycleLimitBlocked v) n =
     (case be_blocker v of
        CycleLimit blocker \<Rightarrow>
          require (n = AUTOMATIC_CYCLE_LIMIT \<and> cl_count blocker = AUTOMATIC_CYCLE_LIMIT)
            (Bail ''cycle_limit_blocked requires exactly ten failed cycles'')
      | _ \<Rightarrow> Err (Bail ''cycle_limit_blocked requires exactly ten failed cycles''))"
| "validate_for_count (ProviderBlocked v) n =
     (case be_blocker v of
        ProviderSignoff blocker \<Rightarrow> validate_provider (be_resume v) blocker
      | _ \<Rightarrow> Err (Bail ''provider_blocked requires provider_signoff''))"
| "validate_for_count (AgentLaunching v) n = bnd (count_within_limit n) (\<lambda>_. validate_launching v)"
| "validate_for_count (AgentRunning v) n = bnd (count_within_limit n) (\<lambda>_. validate_running v)"
| "validate_for_count (TargetMovePending v) n = bnd (count_within_limit n) (\<lambda>_. validate_target_move v)"
| "validate_for_count _ n = count_within_limit n"

section \<open>Object identifiers\<close>

definition validate_exact_effort_object_ids :: "exact_effort_identity \<Rightarrow> git_object_format \<Rightarrow> unit result" where
  "validate_exact_effort_object_ids identity f =
     bnd (require_oid f (xi_target_sha identity) ''effort identity target'') (\<lambda>_.
     bnd (require_oid f (xi_source_sha identity) ''effort identity source'') (\<lambda>_.
     (case xi_candidate_sha identity of
        None \<Rightarrow> Ok ()
      | Some candidate \<Rightarrow> require_oid f candidate ''effort identity candidate'')))"

definition validate_landing_object_ids :: "landing \<Rightarrow> git_object_format \<Rightarrow> unit result" where
  "validate_landing_object_ids l f =
     bnd (require_oid f (ld_candidate_sha l) ''landing candidate'') (\<lambda>_.
     bnd (require_oid f (ld_expected_target_sha l) ''landing expected target'') (\<lambda>_.
     (case ld_signoff l of
        Evidence _ candidate _ \<Rightarrow> require_oid f candidate ''landing signoff candidate''
      | _ \<Rightarrow> Ok ())))"

definition validate_landing_uncertain_object_ids :: "landing_uncertain \<Rightarrow> git_object_format \<Rightarrow> unit result" where
  "validate_landing_uncertain_object_ids l f =
     bnd (require_oid f (lu_candidate_sha l) ''uncertain landing candidate'') (\<lambda>_.
     require_oid f (lu_expected_target_sha l) ''uncertain landing expected target'')"

fun resume_validate_object_ids :: "resume_state \<Rightarrow> git_object_format \<Rightarrow> unit result" where
  "resume_validate_object_ids (RsCandidateBuilding v) f =
     bnd (require_oid f (cb_tree_sha v) ''blocked candidate-building tree'') (\<lambda>_.
     for_each (\<lambda>p. require_oid f p ''blocked candidate-building parent'') (cb_parent_shas v))"
| "resume_validate_object_ids (RsCandidateReady v) f = require_oid f (cr_candidate_sha v) ''blocked ready candidate''"
| "resume_validate_object_ids (RsReviewRequired v) f = require_oid f (rr_candidate_sha v) ''blocked review candidate''"
| "resume_validate_object_ids (RsValidating v) f = require_oid f (va_candidate_sha v) ''blocked validating candidate''"
| "resume_validate_object_ids (RsLanding v) f = validate_landing_object_ids v f"
| "resume_validate_object_ids (RsLandingUncertain v) f = validate_landing_uncertain_object_ids v f"
| "resume_validate_object_ids (RsAgentReady _) f = Ok ()"

definition blocked_validate_object_ids :: "blocked_effort \<Rightarrow> git_object_format \<Rightarrow> unit result" where
  "blocked_validate_object_ids v f =
     bnd (resume_validate_object_ids (be_resume v) f) (\<lambda>_.
     (case be_blocker v of
        SemanticGuidance b \<Rightarrow> validate_exact_effort_object_ids (sg_identity b) f
      | ProviderSignoff b \<Rightarrow> require_oid f (ps_candidate_sha b) ''provider-blocker candidate''
      | Infrastructure _ \<Rightarrow> Ok ()
      | CycleLimit _ \<Rightarrow> Ok ()))"

fun validate_object_ids :: "integration_effort_state \<Rightarrow> git_object_format \<Rightarrow> unit result" where
  "validate_object_ids (CandidateBuilding v) f =
     bnd (require_oid f (cb_tree_sha v) ''candidate-building tree'') (\<lambda>_.
     for_each (\<lambda>p. require_oid f p ''candidate-building parent'') (cb_parent_shas v))"
| "validate_object_ids (CandidateReady v) f = require_oid f (cr_candidate_sha v) ''ready candidate''"
| "validate_object_ids (ReviewRequired v) f = require_oid f (rr_candidate_sha v) ''candidate awaiting review''"
| "validate_object_ids (Validating v) f = require_oid f (va_candidate_sha v) ''validating candidate''"
| "validate_object_ids (GuidanceRequired v) f = blocked_validate_object_ids v f"
| "validate_object_ids (InfrastructureBlocked v) f = blocked_validate_object_ids v f"
| "validate_object_ids (CycleLimitBlocked v) f = blocked_validate_object_ids v f"
| "validate_object_ids (ProviderBlocked v) f = blocked_validate_object_ids v f"
| "validate_object_ids (Landing v) f = validate_landing_object_ids v f"
| "validate_object_ids (LandingUncertain v) f = validate_landing_uncertain_object_ids v f"
| "validate_object_ids (TargetMovePending v) f =
     bnd (require_oid f (tm_target_sha v) ''pending target move target'') (\<lambda>_.
     bnd (require_oid f (tm_source_sha v) ''pending target move source'') (\<lambda>_.
     bnd (resume_validate_object_ids (tm_previous v) f) (\<lambda>_.
     (case tm_cause v of
        Observed previous \<Rightarrow> require_oid f previous ''previous target''
      | StaleLandingLease _ expected \<Rightarrow> require_oid f expected ''stale landing expected target''))))"
| "validate_object_ids (Integrated v) f =
     bnd (require_oid f (in_candidate_sha v) ''integrated candidate'') (\<lambda>_.
     require_oid f (in_landed_sha v) ''integrated commit'')"
| "validate_object_ids _ f = Ok ()"

section \<open>Composition evidence\<close>

fun composition_classification :: "composition_evidence \<Rightarrow> string \<Rightarrow> candidate_classification" where
  "composition_classification (Clean tree) accepted = (if tree = accepted then ClsMechanical else ClsSemantic)"
| "composition_classification (TargetMoved _) accepted = ClsSemantic"
| "composition_classification (Conflicted _) accepted = ClsSemantic"
| "composition_classification (MigratedUnknown _) accepted = ClsSemantic"
| "composition_classification (MigratedPostRelease _) accepted = ClsSemantic"

fun composition_validate :: "composition_evidence \<Rightarrow> git_object_format \<Rightarrow> bool \<Rightarrow> unit result" where
  "composition_validate (Clean tree) f m = require_oid f tree ''mechanical composition tree''"
| "composition_validate (TargetMoved tree) f m = require_oid f tree ''mechanical composition tree''"
| "composition_validate (Conflicted digest) f m =
     require (is_sha256_digest digest) (Bail ''conflict-path evidence must be an exact SHA-256 digest'')"
| "composition_validate (MigratedUnknown source_schema) f m =
     require (m \<and> (source_schema = 3 \<or> source_schema = 5))
       (Bail ''migrated composition evidence is not valid runtime composition'')"
| "composition_validate (MigratedPostRelease source_schema) f m =
     require (m \<and> (source_schema = 3 \<or> source_schema = 5))
       (Bail ''migrated composition evidence is not valid runtime composition'')"

section \<open>Encoded paths\<close>

definition hex_digit :: "nat \<Rightarrow> char" where
  "hex_digit n = (if n < 10 then char_of (48 + n) else char_of (87 + n))"

definition hex_value :: "char \<Rightarrow> nat" where
  "hex_value c =
     (if is_ascii_digit c then byte c - 48
      else if 97 \<le> byte c \<and> byte c \<le> 102 then byte c - 87
      else byte c - 55)"

definition hex_byte :: "char \<Rightarrow> string" where
  "hex_byte c = [hex_digit (byte c div 16), hex_digit (byte c mod 16)]"

definition encode_component :: "string \<Rightarrow> encoded_path_component" where
  "encode_component bytes = HexComponent (concat (map hex_byte bytes))"

fun decode_hex :: "string \<Rightarrow> string" where
  "decode_hex (a # b # r) = char_of (16 * hex_value a + hex_value b) # decode_hex r"
| "decode_hex _ = []"

definition valid_component :: "string \<Rightarrow> bool" where
  "valid_component bytes \<longleftrightarrow>
     bytes \<noteq> [] \<and> bytes \<noteq> ''.'' \<and> bytes \<noteq> ''..'' \<and> char_of (0::nat) \<notin> set bytes \<and> CHR ''/'' \<notin> set bytes"

definition decode_path_component :: "encoded_path_component \<Rightarrow> string result" where
  "decode_path_component component =
     (if ec_hex component = [] \<or> \<not> even (length (ec_hex component))
         \<or> \<not> list_all is_ascii_hexdigit (ec_hex component)
      then Err (Bail ''encoded path component is not canonical hexadecimal'')
      else if \<not> valid_component (decode_hex (ec_hex component))
      then Err (Bail ''encoded path component is invalid'')
      else Ok (decode_hex (ec_hex component)))"

fun encode_components :: "string list \<Rightarrow> encoded_path_component list result" where
  "encode_components [] = Ok []"
| "encode_components (s # ss) =
     (if s = [] \<or> s = ''.'' \<or> s = ''..'' \<or> char_of (0::nat) \<in> set s
      then Err (Bail ''protocol path has an invalid component'')
      else bnd (encode_components ss) (\<lambda>cs. Ok (encode_component s # cs)))"

definition path_from_bytes :: "string \<Rightarrow> encoded_path result" where
  "path_from_bytes path =
     (if path = [] \<or> starts_with path ''/'' \<or> ends_with path ''/''
      then Err (Bail ''protocol path must be a non-empty relative path'')
      else bnd (encode_components (split_on (CHR ''/'') path)) (\<lambda>cs. Ok (EncodedPath cs)))"

fun decode_components :: "encoded_path_component list \<Rightarrow> string list result" where
  "decode_components [] = Ok []"
| "decode_components (c # cs) =
     bnd (decode_path_component c) (\<lambda>b. bnd (decode_components cs) (\<lambda>bs. Ok (b # bs)))"

definition path_to_bytes :: "encoded_path \<Rightarrow> string result" where
  "path_to_bytes self =
     (if ep_components self = [] then Err (Bail ''encoded path has no components'')
      else bnd (decode_components (ep_components self)) (\<lambda>bs. Ok (join_with (CHR ''/'') bs)))"

definition absolute_from_components :: "encoded_path_component list \<Rightarrow> encoded_absolute_path result" where
  "absolute_from_components cs =
     (if cs = [] then Err (Bail ''encoded absolute path has no components'')
      else bnd (decode_components cs) (\<lambda>_. Ok (EncodedAbsolutePath cs)))"

definition absolute_to_path_buf :: "encoded_absolute_path \<Rightarrow> string result" where
  "absolute_to_path_buf self =
     bnd (decode_components (ea_components self)) (\<lambda>bs. Ok (''/'' @ join_with (CHR ''/'') bs))"

text \<open>
  \<open>Path::components\<close> of an absolute path: the root, then the parts between separators, with
  empty parts and single dots dropped.  A double dot is a parent component, which
  \<open>from_path\<close> refuses.
\<close>

definition path_parts :: "string \<Rightarrow> string list" where
  "path_parts path = filter (\<lambda>s. s \<noteq> [] \<and> s \<noteq> ''.'') (split_on (CHR ''/'') path)"

definition absolute_from_path :: "string \<Rightarrow> encoded_absolute_path result" where
  "absolute_from_path path =
     (if \<not> is_absolute path then Err (Bail ''encoded absolute path requires an absolute path'')
      else if ''..'' \<in> set (path_parts path) then Err (Bail ''encoded absolute path is not canonical'')
      else bnd (absolute_from_components (map encode_component (path_parts path))) (\<lambda>encoded.
           bnd (absolute_to_path_buf encoded) (\<lambda>back.
           if back \<noteq> path then Err (Bail ''encoded absolute path is not canonical'') else Ok encoded)))"

section \<open>Properties\<close>

lemma byte_div_16: "byte c div 16 < (16::nat)"
  using nat_of_char_less_256 [of c] by (simp add: div_less_iff_less_mult del: nat_of_char_less_256)

lemma hex_value_digit: "n < 16 \<Longrightarrow> hex_value (hex_digit n) = n"
  by (auto simp: hex_digit_def hex_value_def ascii_defs)

lemma hex_digit_hex: "n < 16 \<Longrightarrow> is_ascii_hexdigit (hex_digit n)"
  by (auto simp: hex_digit_def ascii_defs)

lemma decode_encode_hex [simp]: "decode_hex (concat (map hex_byte s)) = s"
proof (induction s)
  case (Cons c s)
  have "byte c div 16 < (16::nat)" by (rule byte_div_16)
  with Cons show ?case by (simp add: hex_byte_def hex_value_digit)
qed simp

lemma encoded_hex: "list_all is_ascii_hexdigit (concat (map hex_byte s))"
proof (induction s)
  case (Cons c s)
  have "byte c div 16 < (16::nat)" by (rule byte_div_16)
  with Cons show ?case by (simp add: hex_byte_def hex_digit_hex)
qed simp

lemma encoded_length [simp]: "length (concat (map hex_byte s)) = 2 * length s"
  by (induction s) (simp_all add: hex_byte_def)

lemma decode_encode_component: "valid_component s \<Longrightarrow> decode_path_component (encode_component s) = Inr s"
  using encoded_length [of s] encoded_hex [of s]
  by (auto simp: decode_path_component_def encode_component_def valid_component_def hex_byte_def
      simp del: encoded_length)

lemma decode_encode_components:
  "encode_components ss = Inr cs \<Longrightarrow> (\<And>s. s \<in> set ss \<Longrightarrow> CHR ''/'' \<notin> set s) \<Longrightarrow> decode_components cs = Inr ss"
proof (induction ss arbitrary: cs)
  case (Cons s ss)
  then obtain ds where ds: "encode_components ss = Inr ds" "cs = encode_component s # ds"
    and s: "s \<noteq> []" "s \<noteq> ''.''" "s \<noteq> ''..''" "char_of (0::nat) \<notin> set s"
    by (auto simp: bnd_eq_Ok split: if_splits)
  with Cons.prems have "valid_component s" by (simp add: valid_component_def)
  with ds Cons.IH [OF ds(1)] Cons.prems show ?case by (simp add: decode_encode_component)
qed simp

text \<open>A relative protocol path that \<open>EncodedPath::from_bytes\<close> accepts is decoded by
  \<open>EncodedPath::to_bytes\<close> to exactly the bytes it was built from, whatever bytes they are.\<close>

theorem path_roundtrip:
  "path_from_bytes p = Inr e \<Longrightarrow> path_to_bytes e = Inr p"
proof -
  assume "path_from_bytes p = Inr e"
  then obtain cs where cs: "encode_components (split_on (CHR ''/'') p) = Inr cs" "e = EncodedPath cs"
    by (auto simp: path_from_bytes_def bnd_eq_Ok split: if_splits)
  with decode_encode_components [OF cs(1)] have d: "decode_components cs = Inr (split_on (CHR ''/'') p)"
    using split_on_parts by blast
  then have "cs \<noteq> []" using split_on_not_Nil [of "CHR ''/''" p] by (metis Inr_inject decode_components.simps(1))
  with d cs show ?thesis by (simp add: path_to_bytes_def)
qed

theorem path_roundtrip_witness: "\<exists>e. path_from_bytes ''src/lib.rs'' = Inr e \<and> path_to_bytes e = Inr ''src/lib.rs''"
proof -
  have "is_ok (path_from_bytes ''src/lib.rs'')" by code_simp
  then obtain e where e: "path_from_bytes ''src/lib.rs'' = Inr e" by (auto simp: is_ok_iff)
  from path_roundtrip [OF e] e show ?thesis by blast
qed

text \<open>a state is captured as a suspended state exactly when that suspended state restores
  to it, so a blocker or a pending target move never loses part of the state it suspends.\<close>

theorem capture_iff_restore: "capture s = Inr r \<longleftrightarrow> restore r = s"
  by (rule resume.suspend_iff)

text \<open>two cycle identifiers never share a systemd unit name, and every accepted unit name
  is that of its cycle.\<close>

theorem systemd_unit_names:
  "validate_systemd_unit_name a u = Inr () \<Longrightarrow> validate_systemd_unit_name b u = Inr () \<Longrightarrow> a = b"
  by (auto simp: validate_systemd_unit_name_def systemd_unit_name_def result_simps)

theorem systemd_unit_names_witness:
  "validate_systemd_unit_name ''c1'' ''iq-agent-c1.service'' = Inr () \<and> \<not> is_ok (validate_systemd_unit_name ''c2'' ''iq-agent-c1.service'')"
proof -
  have ok: "validate_systemd_unit_name ''c1'' ''iq-agent-c1.service'' = Inr ()" by code_simp
  have "validate_systemd_unit_name ''c2'' ''iq-agent-c1.service'' = Inr () \<Longrightarrow> False"
    using systemd_unit_names [OF ok, of "''c2''"] by simp
  with ok show ?thesis by (auto simp: is_ok_iff)
qed

text \<open>The decoder of path components accepts upper-case digits as well, so that one path has several encodings.\<close>

theorem uppercase_paths_alias:
  "path_to_bytes (EncodedPath [HexComponent ''4a'']) = Inr ''J'' \<and> path_to_bytes (EncodedPath [HexComponent ''4A'']) = Inr ''J''"
  by (simp add: path_to_bytes_def decode_path_component_def hex_value_def valid_component_def ascii_defs) code_simp

end
