(* ===== verification/Repository_Policy.thy ===== *)
theory Repository_Policy
  imports Git_Object
begin

text \<open>
  \<open>repository_policy.rs\<close> and the target references of \<open>repository.rs\<close>: the operation state
  that authorises work, the canonical repository and its replicas with the validation of
  their Git transports, and the validation of a whole policy.  Paths and URLs are strings.
  The physical identity of a repository is stored as JSON text in the source and compared for
  equality only; the model keeps the value that is serialised.
\<close>

section \<open>Target references\<close>

datatype target_ref = TargetRef (target_ref_str: string)

definition validate_target_branch :: "string \<Rightarrow> string result" where
  "validate_target_branch value =
     (if value = ''main'' \<or> value = ''master'' then Ok value
      else Err (Bail ''IQ target branch must be main or master''))"

definition branch_byte_forbidden :: "char \<Rightarrow> bool" where
  "branch_byte_forbidden c \<longleftrightarrow>
     byte c \<le> 32 \<or> byte c = 127 \<or> c = CHR ''~'' \<or> c = CHR ''^'' \<or> c = CHR '':'' \<or> c = CHR ''?''
     \<or> c = CHR ''*'' \<or> c = CHR ''['' \<or> byte c = 92"

definition validate_git_branch_name :: "string \<Rightarrow> unit result" where
  "validate_git_branch_name value =
     (if value = [] \<or> value = ''@'' \<or> starts_with value ''-'' \<or> starts_with value ''/''
         \<or> ends_with value ''/'' \<or> ends_with value ''.'' \<or> contains_text value ''..''
         \<or> contains_text value [CHR ''@'', CHR ''{''] \<or> contains_text value ''//''
         \<or> list_ex branch_byte_forbidden value
         \<or> list_ex (\<lambda>p. p = [] \<or> starts_with p ''.'' \<or> ends_with p ''.lock'') (split_on (CHR ''/'') value)
      then Err (Bail ''target branch is not a valid Git branch name'')
      else Ok ())"

definition target_ref_from_full :: "string \<Rightarrow> target_ref result" where
  "target_ref_from_full value =
     (case strip_prefix ''refs/heads/'' value of
        None \<Rightarrow> Err (Bail ''target ref must be below refs/heads'')
      | Some branch \<Rightarrow> bnd (validate_git_branch_name branch) (\<lambda>_. Ok (TargetRef value)))"

definition target_ref_from_branch :: "string \<Rightarrow> target_ref result" where
  "target_ref_from_branch branch =
     bnd (validate_git_branch_name branch) (\<lambda>_. target_ref_from_full (''refs/heads/'' @ branch))"

definition target_ref_branch :: "target_ref \<Rightarrow> string" where
  "target_ref_branch t = (case strip_prefix ''refs/heads/'' (target_ref_str t) of None \<Rightarrow> [] | Some b \<Rightarrow> b)"

section \<open>Operation state\<close>

datatype obligation =
    WorkspaceObligation string
  | QueueItemObligation string
  | ReplicationObligation string

datatype operation_state = Enabled | Draining "obligation set" | Disabled

fun require_new_work :: "operation_state \<Rightarrow> unit result" where
  "require_new_work Enabled = Ok ()"
| "require_new_work (Draining _) = Err (Bail ''repository is draining and rejects new work'')"
| "require_new_work Disabled = Err (Bail ''repository is disabled'')"

fun require_obligation :: "operation_state \<Rightarrow> obligation \<Rightarrow> unit result" where
  "require_obligation Enabled obligation = Ok ()"
| "require_obligation (Draining obligations) obligation =
     (if obligation \<in> obligations then Ok ()
      else Err (Bail ''operation is not a captured draining obligation''))"
| "require_obligation Disabled obligation = Err (Bail ''repository is disabled'')"

definition permits_obligation :: "operation_state \<Rightarrow> obligation \<Rightarrow> bool" where
  "permits_obligation st ob \<longleftrightarrow> (case st of Enabled \<Rightarrow> True | Draining obs \<Rightarrow> ob \<in> obs | Disabled \<Rightarrow> False)"

lemma require_obligation_iff [result_simps]: "require_obligation st ob = Inr u \<longleftrightarrow> permits_obligation st ob"
  by (cases st) (auto simp: permits_obligation_def)

lemma is_ok_require_obligation [simp]: "is_ok (require_obligation st ob) \<longleftrightarrow> permits_obligation st ob"
  by (cases st) (auto simp: permits_obligation_def)

section \<open>Repositories\<close>

datatype integration_policy = Direct | MergeRequestRequired
datatype provider = Github | Gitlab

record provider_repository =
  pr_provider :: provider
  pr_host :: string
  pr_repository :: string
  pr_repository_id :: string

datatype git_repository =
    LocalBare (lb_path: string) (lb_device: nat) (lb_inode: nat) (lb_object_format: git_object_format)
  | Accessible (ac_fetch_url: string) (ac_push_url: string) (ac_repository_id: string)
      (ac_provider: provider_repository) (ac_object_format: git_object_format)

datatype physical_repository_identity =
    PhysicalLocalBare nat nat
  | PhysicalProvider provider string string

definition require_nonblank :: "string \<Rightarrow> string \<Rightarrow> string result" where
  "require_nonblank value label =
     (if value = [] \<or> trim value \<noteq> value
      then Err (Bail (label @ '' must be non-empty and have no surrounding whitespace''))
      else Ok value)"

text \<open>\<open>str::parse::<u16>\<close>: an optional plus sign, at least one digit, at most 65535.\<close>

definition decimal_value :: "string \<Rightarrow> nat" where
  "decimal_value s = foldl (\<lambda>n c. 10 * n + (byte c - 48)) 0 s"

definition parse_u16 :: "string \<Rightarrow> nat result" where
  "parse_u16 s =
     (let d = (case s of CHR ''+'' # r \<Rightarrow> r | _ \<Rightarrow> s)
      in if d \<noteq> [] \<and> list_all is_ascii_digit d \<and> decimal_value d \<le> 65535 then Ok (decimal_value d)
         else Err (Bail ''provider Git transport has an invalid endpoint port''))"

definition transport_authority_host :: "string \<Rightarrow> nat \<Rightarrow> string result" where
  "transport_authority_host authority default_port =
     (let host = (case rsplit_once (CHR ''@'') authority of None \<Rightarrow> authority | Some (_, h) \<Rightarrow> h)
      in case rsplit_once (CHR '':'') host of
           None \<Rightarrow> Ok host
         | Some (h, port) \<Rightarrow>
             bnd (parse_u16 port) (\<lambda>p.
               if p \<noteq> default_port
               then Err (Bail ''provider Git transport uses a non-default endpoint port'')
               else Ok h))"

definition parse_git_transport :: "string \<Rightarrow> (string \<times> string) result" where
  "parse_git_transport value =
     bnd (case strip_prefix ''https://'' value of
            Some rest \<Rightarrow>
              (case split_once (CHR ''/'') rest of
                 None \<Rightarrow> Err (Bail ''URL Git transport has no repository path'')
               | Some (authority, path) \<Rightarrow>
                   if CHR ''@'' \<in> set authority
                   then Err (Bail ''HTTPS Git transport must not contain credentials or userinfo'')
                   else bnd (transport_authority_host authority 443) (\<lambda>h. Ok (h, path)))
          | None \<Rightarrow>
              (case strip_prefix ''ssh://'' value of
                 Some rest \<Rightarrow>
                   (case split_once (CHR ''/'') rest of
                      None \<Rightarrow> Err (Bail ''SSH Git transport has no repository path'')
                    | Some (authority, path) \<Rightarrow>
                        bnd (transport_authority_host authority 22) (\<lambda>h. Ok (h, path)))
               | None \<Rightarrow>
                   (case split_once (CHR '':'') value of
                      None \<Rightarrow> Err (Bail ''Git transport must be HTTPS, SSH, or SCP syntax'')
                    | Some (authority, path) \<Rightarrow>
                        Ok (case rsplit_once (CHR ''@'') authority of None \<Rightarrow> authority | Some (_, h) \<Rightarrow> h, path))))
     (\<lambda>(host, path).
        let host = to_ascii_lowercase host;
            repository = trim_matches (CHR ''/'')
              (case strip_suffix ''.git'' path of None \<Rightarrow> path | Some p \<Rightarrow> p)
        in if host = [] \<or> repository = [] \<or> list_ex (\<lambda>p. p = []) (split_on (CHR ''/'') repository)
           then Err (Bail ''Git transport has invalid host or repository path'')
           else Ok (host, repository))"

definition validate_accessible_transport :: "string \<Rightarrow> string \<Rightarrow> unit result" where
  "validate_accessible_transport value label =
     (if starts_with value ''https://'' \<or> starts_with value ''ssh://''
      then bnd (parse_git_transport value) (\<lambda>_. Ok ())
      else if contains_text value ''://'' \<or> contains_text value ''::'' \<or> starts_with value ''ext::''
      then Err (Bail (label @ '' Git transport must use HTTPS, SSH, or SCP syntax''))
      else (case split_once (CHR '':'') value of
              None \<Rightarrow> Err (Bail ''Git transport must use HTTPS, SSH, or SCP syntax'')
            | Some (authority, path) \<Rightarrow>
                if CHR ''/'' \<in> set authority \<or> authority = [] \<or> path = []
                then Err (Bail (label @ '' Git transport must use HTTPS, SSH, or SCP syntax''))
                else bnd (parse_git_transport value) (\<lambda>_. Ok ())))"

definition is_local_git_transport :: "string \<Rightarrow> bool" where
  "is_local_git_transport value \<longleftrightarrow>
     (if starts_with value ''file://'' \<or> is_absolute value then True
      else if contains_text value ''://'' then False
      else (case split_once (CHR '':'') value of None \<Rightarrow> True | Some (authority, _) \<Rightarrow> CHR ''/'' \<in> set authority))"

definition validate_provider_repository :: "provider_repository \<Rightarrow> string \<Rightarrow> unit result" where
  "validate_provider_repository value label =
     bnd (require_nonblank (pr_host value) (label @ '' provider host'')) (\<lambda>host.
     bnd (require (\<not> (host \<noteq> to_ascii_lowercase host \<or> CHR ''/'' \<in> set host \<or> CHR '':'' \<in> set host
              \<or> CHR ''@'' \<in> set host \<or> starts_with host ''.'' \<or> ends_with host ''.''))
            (Bail (label @ '' provider host must be one canonical lowercase DNS name''))) (\<lambda>_.
     bnd (require_nonblank (pr_repository value) (label @ '' provider repository'')) (\<lambda>repository.
     bnd (require (\<not> (CHR ''/'' \<notin> set repository \<or> list_ex (\<lambda>p. p = []) (split_on (CHR ''/'') repository)))
            (Bail (label @ '' provider repository must contain non-empty path components''))) (\<lambda>_.
     bnd (require_nonblank (pr_repository_id value) (label @ '' immutable provider repository ID'')) (\<lambda>_.
     Ok ())))))"

definition validate_provider_transport :: "string \<Rightarrow> provider_repository \<Rightarrow> string \<Rightarrow> unit result" where
  "validate_provider_transport transport p label =
     bnd (parse_git_transport transport) (\<lambda>(host, repository).
       require (host = pr_host p \<and> repository = pr_repository p)
         (Bail (label @ '' Git transport does not identify provider repository '' @ pr_host p @ ''/'' @ pr_repository p)))"

text \<open>The path of a local bare repository must be valid UTF-8, a property of the path's bytes that
  is a parameter here.\<close>

definition git_repository_validate :: "(string \<Rightarrow> bool) \<Rightarrow> git_repository \<Rightarrow> string \<Rightarrow> git_repository result" where
  "git_repository_validate utf8 self label =
     (case self of
        LocalBare path device inode _ \<Rightarrow>
          bnd (require (is_absolute path) (Bail (label @ '' local bare path must be absolute''))) (\<lambda>_.
          bnd (require (utf8 path) (Bail (label @ '' local bare path must be valid UTF-8''))) (\<lambda>_.
          bnd (require (\<not> (device = 0 \<or> inode = 0))
                 (Bail (label @ '' local bare identity must contain device and inode''))) (\<lambda>_.
          Ok self)))
      | Accessible fetch_url push_url repository_id p _ \<Rightarrow>
          bnd (require_nonblank fetch_url (label @ '' fetch URL'')) (\<lambda>_.
          bnd (require_nonblank push_url (label @ '' push URL'')) (\<lambda>_.
          bnd (require (\<not> (is_local_git_transport fetch_url \<or> is_local_git_transport push_url))
                 (Bail (label @ '' local transport must use the local_bare variant''))) (\<lambda>_.
          bnd (validate_accessible_transport fetch_url label) (\<lambda>_.
          bnd (validate_accessible_transport push_url label) (\<lambda>_.
          bnd (require_nonblank repository_id (label @ '' immutable repository ID'')) (\<lambda>_.
          bnd (validate_provider_repository p label) (\<lambda>_.
          bnd (require (repository_id = pr_repository_id p)
                 (Bail (label @ '' repository ID must equal its immutable provider repository ID''))) (\<lambda>_.
          bnd (validate_provider_transport fetch_url p label) (\<lambda>_.
          bnd (validate_provider_transport push_url p label) (\<lambda>_.
          Ok self)))))))))))"

fun fetch_argument :: "git_repository \<Rightarrow> string" where
  "fetch_argument (LocalBare path _ _ _) = path"
| "fetch_argument (Accessible fetch_url _ _ _ _) = fetch_url"

fun push_argument :: "git_repository \<Rightarrow> string" where
  "push_argument (LocalBare path _ _ _) = path"
| "push_argument (Accessible _ push_url _ _ _) = push_url"

fun repository_provider :: "git_repository \<Rightarrow> provider_repository option" where
  "repository_provider (LocalBare _ _ _ _) = None"
| "repository_provider (Accessible _ _ _ p _) = Some p"

fun object_format :: "git_repository \<Rightarrow> git_object_format" where
  "object_format (LocalBare _ _ _ f) = f"
| "object_format (Accessible _ _ _ _ f) = f"

fun physical_identity_key :: "git_repository \<Rightarrow> physical_repository_identity" where
  "physical_identity_key (LocalBare _ device inode _) = PhysicalLocalBare device inode"
| "physical_identity_key (Accessible _ _ _ p _) = PhysicalProvider (pr_provider p) (pr_host p) (pr_repository_id p)"

definition destination_identity_key :: "git_repository \<Rightarrow> physical_repository_identity" where
  "destination_identity_key r = physical_identity_key r"

definition has_same_push_destination :: "git_repository \<Rightarrow> git_repository \<Rightarrow> bool" where
  "has_same_push_destination a b \<longleftrightarrow> push_argument a = push_argument b"

section \<open>Policies\<close>

datatype replication_policy = NoReplication | Replicate "git_repository list"

record repository_policy =
  po_operation_state :: operation_state
  po_canonical_repository :: git_repository
  po_target_branch :: string
  po_integration_policy :: integration_policy
  po_replication_policy :: replication_policy

text \<open>The loop over the replication targets, with the identities and targets accepted so far.\<close>

fun validate_targets :: "(string \<Rightarrow> bool) \<Rightarrow> git_repository \<Rightarrow> physical_repository_identity set \<Rightarrow>
    git_repository list \<Rightarrow> git_repository list \<Rightarrow> git_repository list result" where
  "validate_targets utf8 canonical identities validated [] = Ok validated"
| "validate_targets utf8 canonical identities validated (t # ts) =
     bnd (git_repository_validate utf8 t ''replica'') (\<lambda>target.
     bnd (require (object_format target = object_format canonical)
            (Bail ''replica object format must equal canonical repository object format'')) (\<lambda>_.
     bnd (require (\<not> (destination_identity_key target = destination_identity_key canonical
                 \<or> has_same_push_destination target canonical))
            (Bail ''canonical repository cannot also be a replica'')) (\<lambda>_.
     bnd (require (\<not> (destination_identity_key target \<in> identities
                 \<or> list_ex (\<lambda>existing. has_same_push_destination target existing) validated))
            (Bail ''replication policy contains a duplicate target'')) (\<lambda>_.
     validate_targets utf8 canonical (insert (destination_identity_key target) identities) (validated @ [target]) ts))))"

definition policy_validate :: "(string \<Rightarrow> bool) \<Rightarrow> repository_policy \<Rightarrow> repository_policy result" where
  "policy_validate utf8 self =
     bnd (validate_target_branch (po_target_branch self)) (\<lambda>_.
     bnd (git_repository_validate utf8 (po_canonical_repository self) ''canonical repository'') (\<lambda>canonical.
     bnd (case po_replication_policy self of
            NoReplication \<Rightarrow> Ok NoReplication
          | Replicate targets \<Rightarrow>
              if targets = [] then Err (Bail ''replication policy must contain at least one target'')
              else bnd (validate_targets utf8 canonical {} [] targets) (\<lambda>v. Ok (Replicate v))) (\<lambda>replication.
     bnd (require (\<not> (po_integration_policy self = MergeRequestRequired \<and> repository_provider canonical = None))
            (Bail ''merge-request-required integration needs a provider canonical repository'')) (\<lambda>_.
     Ok (self\<lparr>po_canonical_repository := canonical, po_replication_policy := replication\<rparr>)))))"

definition physical_repositories :: "repository_policy \<Rightarrow> (git_repository \<times> string \<times> nat) list" where
  "physical_repositories self =
     (po_canonical_repository self, ''canonical'', 0) #
     (case po_replication_policy self of
        NoReplication \<Rightarrow> []
      | Replicate targets \<Rightarrow> map (\<lambda>(i, r). (r, ''replica'', i)) (enumerate 0 targets))"

definition require_queue_mutation :: "repository_policy \<Rightarrow> string \<Rightarrow> unit result" where
  "require_queue_mutation self item_id = require_obligation (po_operation_state self) (QueueItemObligation item_id)"

definition require_workspace_mutation :: "repository_policy \<Rightarrow> string \<Rightarrow> unit result" where
  "require_workspace_mutation self workspace_id =
     require_obligation (po_operation_state self) (WorkspaceObligation workspace_id)"

definition require_replication :: "repository_policy \<Rightarrow> string \<Rightarrow> unit result" where
  "require_replication self debt_id = require_obligation (po_operation_state self) (ReplicationObligation debt_id)"

end
