(* ===== verification/Queue_Core.thy ===== *)
theory Queue_Core
  imports Prelude
begin

text \<open>
  The module \<open>core\<close> of \<open>lib.rs\<close>: the lifecycle of a queue item before an integration effort
  owns it, with the text form of each enumeration.  Constructors of \<open>QueueStatus\<close> carry a
  \<open>Q\<close>, those of \<open>BlockedPhase\<close> a \<open>Phase\<close>.
\<close>

datatype queue_status =
    QReady | QMerging | QMerged | QValidating | QValidated | QIntegrating | QIntegrated | QBlocked | QCancelled

datatype landing_policy = LandProvider | LandDirect | LandSquash

datatype queue_source =
    RemoteBranch string
  | LocalSubmission string string

datatype blocked_phase = PhaseMerging | PhaseValidating | PhaseIntegrating

datatype blocked_reason =
  NeedsUserInput | NeedsAgentFix | Infra | Dependency | Credentials | ProviderReason

record blocked_state =
  bs_phase :: blocked_phase
  bs_reason :: blocked_reason
  bs_prompt_id :: "string option"

fun status_of_phase :: "blocked_phase \<Rightarrow> queue_status" where
  "status_of_phase PhaseMerging = QMerging"
| "status_of_phase PhaseValidating = QValidating"
| "status_of_phase PhaseIntegrating = QIntegrating"

fun status_text :: "queue_status \<Rightarrow> string" where
  "status_text QReady = ''ready''"
| "status_text QMerging = ''merging''"
| "status_text QMerged = ''merged''"
| "status_text QValidating = ''validating''"
| "status_text QValidated = ''validated''"
| "status_text QIntegrating = ''integrating''"
| "status_text QIntegrated = ''integrated''"
| "status_text QBlocked = ''blocked''"
| "status_text QCancelled = ''cancelled''"

definition status_parse :: "string \<Rightarrow> queue_status result" where
  "status_parse input =
     (if input = ''ready'' then Ok QReady
      else if input = ''merging'' then Ok QMerging
      else if input = ''merged'' then Ok QMerged
      else if input = ''validating'' then Ok QValidating
      else if input = ''validated'' then Ok QValidated
      else if input = ''integrating'' then Ok QIntegrating
      else if input = ''integrated'' then Ok QIntegrated
      else if input = ''blocked'' then Ok QBlocked
      else if input = ''cancelled'' then Ok QCancelled
      else Err (Bail (''unknown QueueStatus: '' @ input)))"

fun phase_text :: "blocked_phase \<Rightarrow> string" where
  "phase_text PhaseMerging = ''merging''"
| "phase_text PhaseValidating = ''validating''"
| "phase_text PhaseIntegrating = ''integrating''"

definition phase_parse :: "string \<Rightarrow> blocked_phase result" where
  "phase_parse input =
     (if input = ''merging'' then Ok PhaseMerging
      else if input = ''validating'' then Ok PhaseValidating
      else if input = ''integrating'' then Ok PhaseIntegrating
      else Err (Bail (''unknown BlockedPhase: '' @ input)))"

fun reason_text :: "blocked_reason \<Rightarrow> string" where
  "reason_text NeedsUserInput = ''needs_user_input''"
| "reason_text NeedsAgentFix = ''needs_agent_fix''"
| "reason_text Infra = ''infra''"
| "reason_text Dependency = ''dependency''"
| "reason_text Credentials = ''credentials''"
| "reason_text ProviderReason = ''provider''"

definition reason_parse :: "string \<Rightarrow> blocked_reason result" where
  "reason_parse input =
     (if input = ''needs_user_input'' then Ok NeedsUserInput
      else if input = ''needs_agent_fix'' then Ok NeedsAgentFix
      else if input = ''infra'' then Ok Infra
      else if input = ''dependency'' then Ok Dependency
      else if input = ''credentials'' then Ok Credentials
      else if input = ''provider'' then Ok ProviderReason
      else Err (Bail (''unknown BlockedReason: '' @ input)))"

fun allowed_transition :: "queue_status \<Rightarrow> queue_status \<Rightarrow> bool" where
  "allowed_transition QReady QMerging = True"
| "allowed_transition QReady QBlocked = True"
| "allowed_transition QMerging QMerged = True"
| "allowed_transition QMerging QBlocked = True"
| "allowed_transition QMerged QValidating = True"
| "allowed_transition QMerged QBlocked = True"
| "allowed_transition QValidating QValidated = True"
| "allowed_transition QValidating QBlocked = True"
| "allowed_transition QValidated QIntegrating = True"
| "allowed_transition QValidated QBlocked = True"
| "allowed_transition QIntegrating QIntegrated = True"
| "allowed_transition QIntegrating QBlocked = True"
| "allowed_transition QReady QCancelled = True"
| "allowed_transition QMerging QCancelled = True"
| "allowed_transition QMerged QCancelled = True"
| "allowed_transition QValidating QCancelled = True"
| "allowed_transition QValidated QCancelled = True"
| "allowed_transition QIntegrating QCancelled = True"
| "allowed_transition QBlocked QCancelled = True"
| "allowed_transition _ _ = False"

definition queue_transition :: "queue_status \<Rightarrow> queue_status \<Rightarrow> unit result" where
  "queue_transition current target =
     (if current = QCancelled \<or> current = QIntegrated
      then Err (Bail (''terminal item cannot transition from '' @ status_text current))
      else if allowed_transition current target then Ok ()
      else Err (Bail (''invalid transition '' @ status_text current @ '' -> '' @ status_text target)))"

definition block_phase_for_status :: "queue_status \<Rightarrow> blocked_phase result" where
  "block_phase_for_status current =
     (case current of
        QMerging \<Rightarrow> Ok PhaseMerging
      | QValidating \<Rightarrow> Ok PhaseValidating
      | QIntegrating \<Rightarrow> Ok PhaseIntegrating
      | _ \<Rightarrow> Err (Bail (''status '' @ status_text current @ '' cannot be blocked'')))"

definition resume_target :: "blocked_state \<Rightarrow> queue_status result" where
  "resume_target blocked =
     (case bs_reason blocked of
        NeedsAgentFix \<Rightarrow> Err (Bail ''needs_agent_fix requires explicit requeue to ready'')
      | _ \<Rightarrow> Ok (status_of_phase (bs_phase blocked)))"

interpretation status_codec: text_codec status_text status_parse
proof unfold_locales
  fix x show "status_parse (status_text x) = Inr x"
    by (cases x) (simp_all add: status_parse_def)
next
  fix s x assume "status_parse s = Inr x"
  then show "s = status_text x" by (auto simp: status_parse_def split: if_splits)
qed

interpretation phase_codec: text_codec phase_text phase_parse
proof unfold_locales
  fix x show "phase_parse (phase_text x) = Inr x"
    by (cases x) (simp_all add: phase_parse_def)
next
  fix s x assume "phase_parse s = Inr x"
  then show "s = phase_text x" by (auto simp: phase_parse_def split: if_splits)
qed

interpretation reason_codec: text_codec reason_text reason_parse
proof unfold_locales
  fix x show "reason_parse (reason_text x) = Inr x"
    by (cases x) (simp_all add: reason_parse_def)
next
  fix s x assume "reason_parse s = Inr x"
  then show "s = reason_text x" by (auto simp: reason_parse_def split: if_splits)
qed

lemma queue_transition_iff [result_simps]:
  "queue_transition a b = Inr u \<longleftrightarrow> allowed_transition a b"
  by (cases a; cases b) (simp_all add: queue_transition_def)

end
