(* ===== verification/Store_Rows.thy ===== *)
theory Store_Rows
  imports Control_Domain Repository_Policy Queue_Core
begin

text \<open>
  The tables the control store works on, as the schema constants of \<open>control_store.rs\<close>
  (\<open>CONTROL_SCHEMA\<close>, \<open>CLEANUP_SCHEMA\<close>) and of \<open>lib.rs\<close> (\<open>SCHEMA4\<close>, the policy, submission and debt
  tables) declare them.  A row is a record; columns that no operation of the development reads
  or writes are left out.  A column that holds serialised JSON holds the value that is
  serialised: serde writes and reads the same type, so comparing the text is comparing the value.
  The columns \<open>state\<close> and \<open>blocker_kind\<close> of an effort are always written together with
  \<open>state_json\<close> and are computed from it.  A timestamp is a string.
\<close>

section \<open>Queue items and attempts\<close>

record workspace_identity =
  ws_path :: string
  ws_rift_id :: string
  ws_source_rift_id :: string

datatype landing_state =
    LandingReady
  | LandingStateUncertain string string
  | LandingLanded string string

fun landing_external_authority :: "landing_state \<Rightarrow> bool" where
  "landing_external_authority (LandingStateUncertain _ _) = True"
| "landing_external_authority (LandingLanded _ _) = True"
| "landing_external_authority LandingReady = False"

datatype replacement_state = NoReplacement | CleanupPending string workspace_identity

datatype moved_base_state =
    MovedNone
  | MovedPending string string
  | MovedApplied string string string

datatype blocked_message = MessageText string | MessageBlocker integration_blocker

record queue_item =
  qi_id :: string
  qi_repo_key :: string
  qi_target_ref :: string
  qi_status :: queue_status
  qi_current_attempt_id :: "string option"
  qi_blocked_phase :: "blocked_phase option"
  qi_blocked_reason :: "blocked_reason option"
  qi_blocked_message :: "blocked_message option"
  qi_prompt_id :: "string option"
  qi_conflict :: "string option"
  qi_workspace_path :: "string option"
  qi_workspace_rift_id :: "string option"
  qi_workspace_source_rift_id :: "string option"
  qi_workspace_cleaned_at :: "string option"
  qi_target_sha :: "string option"
  qi_source_sha :: "string option"
  qi_landed_commit_sha :: "string option"
  qi_landing_state :: landing_state
  qi_replacement :: "replacement_state option"
  qi_created_at :: string
  qi_updated_at :: string

record attempt =
  at_id :: string
  at_item_id :: string
  at_number :: nat
  at_source_head_sha :: string
  at_target_base_sha :: "string option"
  at_merge_commit_sha :: "string option"
  at_validated_commit_sha :: "string option"
  at_landed_commit_sha :: "string option"
  at_validation_command :: "string option"
  at_validation_exit_code :: "int option"
  at_validation_log_path :: "string option"
  at_policy_snapshot :: "string option"
  at_policy_digest :: "string option"
  at_signoff_evidence :: "string option"
  at_moved_base :: moved_base_state
  at_finished_at :: "string option"
  at_result :: "string option"

record validation_invocation =
  vi_attempt_id :: string
  vi_invocation_number :: nat
  vi_target_base_sha :: string
  vi_candidate_sha :: string
  vi_command :: string
  vi_exit_code :: int
  vi_log_path :: string
  vi_validated_commit_sha :: "string option"
  vi_invalidated_at :: "string option"

section \<open>Efforts, cycles and candidates\<close>

record effort =
  ef_id :: string
  ef_item_id :: string
  ef_attempt_id :: string
  ef_target_sha :: string
  ef_source_sha :: string
  ef_source_variant :: string
  ef_landing_variant :: string
  ef_composition :: composition_evidence
  ef_workspace :: workspace_identity
  ef_runner :: runner_snapshot
  ef_state_repository :: state_repository_snapshot
  ef_failed_cycles :: nat
  ef_state :: integration_effort_state
  ef_created_at :: string
  ef_updated_at :: string

datatype cycle_status =
  CyStarting | CyRunning | CyResolved | CyGuidanceRequired | CyFailed | CySuperseded | CyCancelled

datatype cycle_process = ProcessLaunching agent_launching | ProcessRunning agent_running

record cycle =
  cy_id :: string
  cy_effort_id :: string
  cy_number :: nat
  cy_status :: cycle_status
  cy_process :: cycle_process
  cy_input_digest :: string
  cy_result_state :: atomic_result_state
  cy_log :: "string option"
  cy_failure :: "cycle_failure option"
  cy_created_at :: string
  cy_finished_at :: "string option"

datatype runner_termination_authority =
    TermLaunching agent_launching
  | TermService runner_service_authority
  | TermLegacyScope legacy_runner_scope_authority

record termination_debt =
  td_effort_id :: string
  td_authority :: runner_termination_authority
  td_created_at :: string

datatype request_status = RequestOpen | RequestAnswered | RequestCancelled

record guidance_request =
  gr_id :: string
  gr_effort_id :: string
  gr_cycle_id :: string
  gr_request :: semantic_guidance_blocker
  gr_status :: request_status
  gr_created_at :: string
  gr_answered_at :: "string option"

record evidence =
  ce_effort_id :: string
  ce_cycle_id :: string
  ce_candidate_sha :: string
  ce_builder_operation_id :: string
  ce_classification :: candidate_classification
  ce_created_at :: string

datatype responder_identity = LocalPeer nat | ProviderActor string

datatype review_status =
  ReviewOpen | ReviewApproved | ReviewChangesRequested | ReviewSuperseded | ReviewCancelled

record review =
  rv_id :: string
  rv_effort_id :: string
  rv_attempt_id :: string
  rv_cycle_id :: string
  rv_target_sha :: string
  rv_source_sha :: string
  rv_candidate_sha :: string
  rv_status :: review_status
  rv_responder :: "responder_identity option"
  rv_text :: "string option"
  rv_created_at :: string
  rv_answered_at :: "string option"

section \<open>Commands and receipts\<close>

datatype answer_disposition = Applied | Duplicate | Stale | Malformed | Unauthorized

record answer_command =
  ac_external_id :: string
  ac_request_id :: string
  ac_effort_id :: string
  ac_attempt_id :: string
  ac_cycle_id :: string
  ac_target_sha :: string
  ac_source_sha :: string
  ac_candidate_sha :: "string option"
  ac_answer :: string

datatype review_decision = Approve "string option" | RequestChanges string

record review_command =
  rm_external_id :: string
  rm_review_id :: string
  rm_effort_id :: string
  rm_attempt_id :: string
  rm_cycle_id :: string
  rm_target_ref :: target_ref
  rm_target_sha :: string
  rm_source_sha :: string
  rm_candidate_sha :: string
  rm_decision :: review_decision

text \<open>The receipt repeats the ten fields of the command; they are kept together as the command.\<close>

record review_receipt =
  rt_command :: review_command
  rt_disposition :: answer_disposition
  rt_resulting_effort_state :: "string option"

record review_receipt_row =
  rx_external_id :: string
  rx_effort_id :: string
  rx_command :: review_command
  rx_responder :: responder_identity
  rx_receipt :: review_receipt
  rx_created_at :: string

record answer_receipt_row =
  ax_external_id :: string
  ax_effort_id :: string
  ax_request_id :: string
  ax_responder :: responder_identity
  ax_answer :: string
  ax_disposition :: answer_disposition
  ax_created_at :: string

record candidate_intent =
  ci_operation_id :: string
  ci_cycle_id :: string
  ci_staged_tree_sha256 :: string
  ci_tree_sha :: string
  ci_parents :: "string list"
  ci_author_name :: string
  ci_author_email :: string
  ci_author_timestamp :: string
  ci_committer_name :: string
  ci_committer_email :: string
  ci_committer_timestamp :: string
  ci_message :: string
  ci_operation_ref :: string

record candidate_observation =
  co_operation_id :: string
  co_candidate_sha :: string
  co_tree_sha :: string
  co_parent_shas :: "string list"
  co_author_name :: string
  co_author_email :: string
  co_author_timestamp :: string
  co_committer_name :: string
  co_committer_email :: string
  co_committer_timestamp :: string
  co_message :: string
  co_operation_ref :: string

section \<open>Events and notifications\<close>

text \<open>The JSON payload of an event: the value that is serialised, or the fields of a literal object.\<close>

datatype payload_field =
    FText string | FNumber nat | FNull | FFailure cycle_failure | FClass candidate_classification | FProjectionError string

datatype event_payload =
    PayloadState integration_effort_state
  | PayloadFailure cycle_failure
  | PayloadIntent candidate_intent
  | PayloadResponder responder_identity
  | PayloadFields "(string \<times> payload_field) list"

record event =
  ev_sequence :: nat
  ev_id :: string
  ev_item_id :: string
  ev_effort_id :: "string option"
  ev_type :: string
  ev_payload :: event_payload
  ev_alert :: bool
  ev_created_at :: string

datatype delivery_state =
  DeliveryPending | DeliveryClaimed | DeliveryRunning | DeliveryDelivered | DeliveryUnknown | DeliveryFailed | DeliveryExpired

text \<open>\<open>last_error_json\<close>: the literal objects of \<open>notifications.rs\<close> by their \<open>kind\<close>.\<close>

datatype delivery_note =
    NoteClaimed string
  | NoteClaimRecoveredBeforeStart
  | NoteCommandStarted
  | NoteAuthorityLostAfterStart
  | NoteBackend string

record delivery =
  nd_id :: nat
  nd_event_id :: string
  nd_backend :: string
  nd_state :: delivery_state
  nd_claim_id :: "string option"
  nd_claimed_at :: "string option"
  nd_attempt_count :: nat
  nd_next_attempt_at :: "string option"
  nd_last_error :: "delivery_note option"
  nd_redelivery_of :: "nat option"
  nd_redelivery_actor :: "string option"
  nd_created_at :: string
  nd_updated_at :: string

section \<open>Debts\<close>

datatype cleanup_target = CreationIntent string | Retained workspace_identity
datatype preservation_reason = Dirty | ActiveGitOperation | DirtyAndActiveGitOperation
datatype cleanup_state = CleanupStatePending | CleanupStatePreserved

record cleanup_debt =
  wd_item_id :: string
  wd_target :: cleanup_target
  wd_state :: cleanup_state
  wd_reason :: "preservation_reason option"
  wd_observation_count :: nat
  wd_next_retry_at :: string
  wd_alert_event_id :: "string option"

datatype private_ref_kind = RefRepositoryTarget | RefLanding

record ref_debt =
  rd_repo_key :: string
  rd_kind :: private_ref_kind
  rd_owner_id :: string
  rd_ref_name :: string
  rd_expected_sha :: string

datatype replication_operation = PinSource | ResolveDestination | AdvanceExactTarget
datatype replication_outcome =
  OutPinning | OutPending | OutApplying | OutUncertain | OutApplied | OutSucceeded | OutFailed
  | OutSupersededCleanupPending | OutSuperseded

record replication_debt =
  xd_id :: string
  xd_item_id :: string
  xd_repo_key :: string
  xd_canonical_source_sha :: string
  xd_destination_key :: physical_repository_identity
  xd_target_ref :: string
  xd_sequence :: nat
  xd_replica :: git_repository
  xd_expected_destination_sha :: "string option"
  xd_operation :: replication_operation
  xd_outcome :: replication_outcome
  xd_application_id :: "string option"
  xd_failure :: "string option"
  xd_superseded_by_id :: "string option"

section \<open>Repositories and local submissions\<close>

datatype checkout_state = CheckoutReady string string | CheckoutPending string string | CheckoutFailed string string string

record registered_repository =
  rg_repo_key :: string
  rg_owned_root_path :: string
  rg_source_sha :: string
  rg_checkout :: checkout_state

record policy_row =
  pl_repo_key :: string
  pl_revision :: nat
  pl_policy :: repository_policy

datatype admission_kind = AdmitLocalSubmission | AdmitDirect | AdmitMergeRequest | AdmitHistoricalMergeRequest

record admission =
  ad_item_id :: string
  ad_kind :: admission_kind
  ad_source_branch :: string
  ad_head_sha :: string
  ad_source_ref :: "string option"
  ad_submission_id :: "string option"
  ad_provider :: "provider_repository option"
  ad_target_ref :: string
  ad_base_sha :: "string option"
  ad_merge_request_identity :: "string option"
  ad_merge_request_url :: "string option"
  ad_admitted_at :: string

datatype submission_state = SubCreating | SubQueued | SubReplaced | SubCancelled | SubIntegrated

record submission =
  su_id :: string
  su_queue_item_id :: string
  su_repo_key :: string
  su_workspace_id :: string
  su_base_sha :: string
  su_commit_sha :: string
  su_private_ref :: string
  su_staging_ref :: string
  su_replaces_item_id :: "string option"
  su_state :: submission_state
  su_created_at :: string

datatype workspace_status = WsCreating | WsActive | WsSubmitted | WsCleanupPending | WsCleanupFailed | WsRemoved

datatype workspace_cleanup =
  CleanReady | CleanPending | OperatorRequested | OperatorFailed string | CleanFailed string | ResidueDiscard string
  | CleanComplete string

record development_workspace =
  dw_id :: string
  dw_repo_key :: string
  dw_name :: string
  dw_path :: string
  dw_rift_id :: "string option"
  dw_source_rift_id :: "string option"
  dw_branch :: string
  dw_target_ref :: string
  dw_expected_target_sha :: string
  dw_status :: workspace_status
  dw_cleanup :: workspace_cleanup
  dw_created_at :: string

record prompt =
  pm_id :: string
  pm_item_id :: string
  pm_attempt_id :: "string option"
  pm_blocked_phase :: blocked_phase
  pm_status :: string
  pm_question :: string
  pm_created_at :: string

record artifact =
  sr_effort_id :: string
  sr_provider :: string
  sr_repository :: string
  sr_artifact_id :: string
  sr_artifact_url :: string
  sr_projection_revision :: nat
  sr_last_event_sequence :: nat
  sr_state :: string
  sr_created_at :: string
  sr_updated_at :: string

record reservation =
  rz_item_id :: string
  rz_provider :: string
  rz_repository :: string
  rz_artifact_id :: string
  rz_artifact_url :: string
  rz_created_at :: string

section \<open>Leases, ownership and the queue log\<close>

record repo_lease =
  rl_repo_key :: string
  rl_owner_id :: string
  rl_heartbeat_at :: string
  rl_expires_at :: string

record physical_lease =
  ph_identity_key :: physical_repository_identity
  ph_repo_key :: string
  ph_owner_id :: string
  ph_heartbeat_at :: string
  ph_expires_at :: string

record physical_ownership =
  ow_identity_key :: physical_repository_identity
  ow_repo_key :: string
  ow_role :: string
  ow_ordinal :: nat
  ow_repository :: git_repository

record queue_event =
  qe_id :: string
  qe_item_id :: string
  qe_event_type :: string
  qe_message :: string
  qe_created_at :: string

datatype reservation_state = ReservationNone | ReservationPending | Reserved

record state_binding =
  sr_item_id :: string
  sr_snapshot :: state_repository_snapshot
  sr_reservation_state :: reservation_state
  sr_bound_at :: string

datatype root_kind = RootDevelopment | RootIntegration

record workspace_root =
  wr_repo_key :: string
  wr_kind :: root_kind
  wr_generation :: int
  wr_pending_generation :: "int option"

record git_binding_row =
  gb_owner_kind :: root_kind
  gb_owner_id :: string
  gb_top_level :: string
  gb_created_at :: string

section \<open>State repositories\<close>

record projection_debt =
  pb_effort_id :: string
  pb_attempt_count :: nat
  pb_next_attempt_at :: string
  pb_last_error :: string
  pb_created_at :: string
  pb_updated_at :: string

record projection_alert =
  pa_effort_id :: string
  pa_event_id :: string
  pa_created_at :: string

record comment_receipt =
  pc_provider :: string
  pc_repository :: string
  pc_artifact_id :: string
  pc_comment_id :: string
  pc_effort_id :: string
  pc_actor :: "string option"
  pc_body :: string
  pc_disposition :: string
  pc_created_at :: string

section \<open>The database\<close>

text \<open>\<open>event_sequence\<close> and \<open>delivery_sequence\<close> are the rows of \<open>sqlite_sequence\<close> for \<open>durable_events\<close> and
  \<open>notification_deliveries\<close>.\<close>

record db =
  queue_items :: "queue_item list"
  attempts :: "attempt list"
  validation_invocations :: "validation_invocation list"
  efforts :: "effort list"
  cycles :: "cycle list"
  termination_debts :: "termination_debt list"
  guidance_requests :: "guidance_request list"
  evidences :: "evidence list"
  reviews :: "review list"
  review_receipts :: "review_receipt_row list"
  answer_receipts :: "answer_receipt_row list"
  events :: "event list"
  event_sequence :: nat
  backends :: "(string \<times> bool) list"
  deliveries :: "delivery list"
  delivery_sequence :: nat
  cleanup_debts :: "cleanup_debt list"
  ref_debts :: "ref_debt list"
  replication_debts :: "replication_debt list"
  repositories :: "registered_repository list"
  policies :: "policy_row list"
  admissions :: "admission list"
  submissions :: "submission list"
  workspaces :: "development_workspace list"
  prompts :: "prompt list"
  artifacts :: "artifact list"
  reservations :: "reservation list"
  purge_authority :: "string list"
  repo_leases :: "repo_lease list"
  physical_leases :: "physical_lease list"
  ownerships :: "physical_ownership list"
  queue_events :: "queue_event list"
  bindings :: "state_binding list"
  workspace_roots :: "workspace_root list"
  git_bindings :: "git_binding_row list"
  projection_debts :: "projection_debt list"
  projection_alerts :: "projection_alert list"
  comment_receipts :: "comment_receipt list"

end
