(* ===== verification/Store_Schema.thy ===== *)
theory Store_Schema
  imports Store_Rows
begin

text \<open>
  The constraints, unique indexes, foreign keys and triggers of the schema, and the statements
  of the control store that they guard.  A statement returns the changed database, with the
  number of changed rows where the code reads it, or \<open>Abort\<close> where SQLite refuses it.  The
  triggers that check the keys of JSON objects hold by typing and have no counterpart.
\<close>

section \<open>Constraints of an effort row\<close>

definition sha_check :: "string \<Rightarrow> bool" where
  "sha_check s \<longleftrightarrow> (length s = 40 \<or> length s = 64) \<and> list_all is_ascii_hexdigit s"

text \<open>\<open>target_ref LIKE 'refs/heads/%'\<close>; SQLite compares ASCII letters without regard to case.\<close>

definition like_heads :: "string \<Rightarrow> bool" where
  "like_heads s \<longleftrightarrow> eq_ignore_ascii_case (take 11 s) ''refs/heads/''"

fun payload_check :: "integration_effort_state \<Rightarrow> string \<Rightarrow> nat \<Rightarrow> bool" where
  "payload_check (ReplacementPending v) attempt n \<longleftrightarrow> n = 0 \<and> rp_old_attempt_id v = attempt"
| "payload_check (AgentReady v) attempt n \<longleftrightarrow> ar_next_cycle v \<ge> 1"
| "payload_check (AgentLaunching v) attempt n \<longleftrightarrow>
     (al_spawn_authority v = SpawnOpen \<or> al_spawn_authority v = Surrendered)
     \<and> la_pid (al_launcher v) > 0 \<and> la_process_start_ticks (al_launcher v) > 0"
| "payload_check (AgentRunning v) attempt n \<longleftrightarrow>
     la_pid (ag_launcher v) > 0 \<and> la_process_start_ticks (ag_launcher v) > 0"
| "payload_check (CandidateBuilding v) attempt n \<longleftrightarrow> length (cb_parent_shas v) \<ge> 1"
| "payload_check (GuidanceRequired v) attempt n \<longleftrightarrow>
     (case be_blocker v of SemanticGuidance _ \<Rightarrow> True | _ \<Rightarrow> False)
     \<and> (case be_resume v of RsAgentReady _ \<Rightarrow> True | _ \<Rightarrow> False)"
| "payload_check (InfrastructureBlocked v) attempt n \<longleftrightarrow> (case be_blocker v of Infrastructure _ \<Rightarrow> True | _ \<Rightarrow> False)"
| "payload_check (CycleLimitBlocked v) attempt n \<longleftrightarrow> (case be_blocker v of CycleLimit b \<Rightarrow> cl_count b = 10 | _ \<Rightarrow> False)"
| "payload_check (ProviderBlocked v) attempt n \<longleftrightarrow> (case be_blocker v of ProviderSignoff _ \<Rightarrow> True | _ \<Rightarrow> False)"
| "payload_check _ attempt n \<longleftrightarrow> True"

fun is_cycle_limit :: "integration_effort_state \<Rightarrow> bool" where
  "is_cycle_limit (CycleLimitBlocked _) = True"
| "is_cycle_limit _ = False"

definition effort_check :: "effort \<Rightarrow> bool" where
  "effort_check e \<longleftrightarrow>
     ef_id e \<noteq> [] \<and> sha_check (ef_target_sha e) \<and> sha_check (ef_source_sha e)
     \<and> (ef_source_variant e = ''remote_branch'' \<or> ef_source_variant e = ''local_submission'')
     \<and> (ef_landing_variant e = ''direct'' \<or> ef_landing_variant e = ''provider'' \<or> ef_landing_variant e = ''squash'')
     \<and> ef_failed_cycles e \<le> 10
     \<and> (is_cycle_limit (ef_state e) \<longleftrightarrow> ef_failed_cycles e = 10)
     \<and> payload_check (ef_state e) (ef_attempt_id e) (ef_failed_cycles e)"

definition effort_attempt_fk :: "db \<Rightarrow> effort \<Rightarrow> bool" where
  "effort_attempt_fk d e \<longleftrightarrow> list_ex (\<lambda>a. at_id a = ef_attempt_id e \<and> at_item_id a = ef_item_id e) (attempts d)"

section \<open>The transition trigger\<close>

definition transition_table :: "(string \<times> string list) list" where
  "transition_table =
    [(''replacement_pending'', [''agent_ready'']),
     (''agent_ready'', [''agent_launching'', ''infrastructure_blocked'', ''cancelled'']),
     (''agent_launching'', [''agent_ready'', ''agent_running'', ''infrastructure_blocked'', ''cancelled'']),
     (''agent_running'', [''candidate_building'', ''agent_ready'', ''guidance_required'', ''infrastructure_blocked'',
        ''cycle_limit_blocked'', ''cancelled'']),
     (''candidate_building'', [''review_required'', ''candidate_ready'', ''agent_ready'', ''infrastructure_blocked'',
        ''cancelled'']),
     (''review_required'', [''candidate_ready'', ''agent_ready'', ''target_move_pending'', ''infrastructure_blocked'',
        ''cancelled'']),
     (''candidate_ready'', [''validating'', ''agent_ready'', ''target_move_pending'', ''infrastructure_blocked'',
        ''cancelled'']),
     (''validating'', [''validating'', ''landing'', ''agent_ready'', ''target_move_pending'', ''guidance_required'',
        ''infrastructure_blocked'', ''provider_blocked'', ''cycle_limit_blocked'', ''cancelled'']),
     (''guidance_required'', [''agent_ready'', ''cancelled'']),
     (''infrastructure_blocked'', [''agent_ready'', ''candidate_building'', ''review_required'', ''candidate_ready'',
        ''validating'', ''landing'', ''landing_uncertain'', ''cancelled'']),
     (''cycle_limit_blocked'', [''replacement_pending'', ''agent_ready'', ''cancelled'']),
     (''provider_blocked'', [''validating'', ''landing'', ''landing_uncertain'', ''agent_ready'', ''cancelled'']),
     (''landing'', [''landing_uncertain'', ''target_move_pending'', ''integrated'', ''agent_ready'',
        ''provider_blocked'', ''infrastructure_blocked'', ''cancelled'']),
     (''landing_uncertain'', [''target_move_pending'', ''integrated'', ''landing'', ''agent_ready'',
        ''provider_blocked'', ''infrastructure_blocked'']),
     (''target_move_pending'', [''agent_ready'', ''cancelled''])]"

definition legal_transition :: "integration_effort_state \<Rightarrow> integration_effort_state \<Rightarrow> bool" where
  "legal_transition old new \<longleftrightarrow>
     state_name new = state_name old
     \<or> list_ex (\<lambda>(s, ts). state_name old = s \<and> list_ex (\<lambda>t. state_name new = t) ts) transition_table"

section \<open>The related-state trigger\<close>

definition cycle_in_status :: "db \<Rightarrow> string \<Rightarrow> string \<Rightarrow> cycle_status \<Rightarrow> bool" where
  "cycle_in_status d effort_id cycle_id st \<longleftrightarrow>
     list_ex (\<lambda>c. cy_effort_id c = effort_id \<and> cy_id c = cycle_id \<and> cy_status c = st) (cycles d)"

text \<open>The classification the triggers compute from the composition: mechanical when it is clean and
  its tree is the accepted one.\<close>

definition composition_class :: "composition_evidence \<Rightarrow> string \<Rightarrow> candidate_classification" where
  "composition_class composition tree =
     (case composition of Clean t \<Rightarrow> if t = tree then ClsMechanical else ClsSemantic | _ \<Rightarrow> ClsSemantic)"

definition review_for :: "effort \<Rightarrow> string \<Rightarrow> string \<Rightarrow> review_status \<Rightarrow> review \<Rightarrow> bool" where
  "review_for e cycle_id candidate st r \<longleftrightarrow>
     rv_effort_id r = ef_id e \<and> rv_attempt_id r = ef_attempt_id e \<and> rv_cycle_id r = cycle_id
     \<and> rv_target_sha r = ef_target_sha e \<and> rv_source_sha r = ef_source_sha e
     \<and> rv_candidate_sha r = candidate \<and> rv_status r = st"

text \<open>The gate of every state from validation to integration: the exact candidate is recorded, and it
  is mechanical, migrated after release, or approved for the current attempt, target and source.\<close>

definition landing_gate :: "db \<Rightarrow> effort \<Rightarrow> string \<Rightarrow> bool" where
  "landing_gate d e candidate \<longleftrightarrow>
     list_ex (\<lambda>c. ce_effort_id c = ef_id e \<and> ce_candidate_sha c = candidate
       \<and> (ce_classification c = ClsMechanical
          \<or> (case ef_composition e of MigratedPostRelease _ \<Rightarrow> True | _ \<Rightarrow> False)
          \<or> list_ex (review_for e (ce_cycle_id c) (ce_candidate_sha c) ReviewApproved) (reviews d)))
     (evidences d)"

fun blocker_candidate :: "integration_blocker \<Rightarrow> string option" where
  "blocker_candidate (ProviderSignoff b) = Some (ps_candidate_sha b)"
| "blocker_candidate _ = None"

definition related_state :: "db \<Rightarrow> effort \<Rightarrow> bool" where
  "related_state d e \<longleftrightarrow>
     (case ef_state e of
        AgentLaunching v \<Rightarrow> cycle_in_status d (ef_id e) (al_cycle_id v) CyStarting
      | AgentRunning v \<Rightarrow> cycle_in_status d (ef_id e) (ag_cycle_id v) CyRunning
      | CandidateBuilding v \<Rightarrow>
          cycle_in_status d (ef_id e) (cb_cycle_id v) CyResolved
          \<and> cb_classification v = composition_class (ef_composition e) (cb_tree_sha v)
      | ReviewRequired v \<Rightarrow>
          list_ex (\<lambda>c. ce_effort_id c = ef_id e \<and> ce_candidate_sha c = rr_candidate_sha v
            \<and> ce_classification c = ClsSemantic) (evidences d)
          \<and> list_ex (\<lambda>r. rv_id r = rr_review_id v \<and> review_for e (rr_cycle_id v) (rr_candidate_sha v) ReviewOpen r)
              (reviews d)
      | CandidateReady v \<Rightarrow>
          list_ex (\<lambda>c. ce_effort_id c = ef_id e \<and> ce_candidate_sha c = cr_candidate_sha v
            \<and> (case cr_review v of
                  RevMechanical \<Rightarrow> ce_classification c = ClsMechanical
                | RevApproved _ \<Rightarrow> ce_classification c = ClsSemantic)) (evidences d)
          \<and> (case cr_review v of
                RevMechanical \<Rightarrow> True
              | RevApproved review_id \<Rightarrow>
                  list_ex (\<lambda>c. ce_effort_id c = ef_id e
                    \<and> list_ex (\<lambda>r. rv_id r = review_id
                        \<and> review_for e (ce_cycle_id c) (cr_candidate_sha v) ReviewApproved r) (reviews d)) (evidences d))
      | Validating v \<Rightarrow> landing_gate d e (va_candidate_sha v)
      | Landing v \<Rightarrow> landing_gate d e (ld_candidate_sha v)
      | LandingUncertain v \<Rightarrow> landing_gate d e (lu_candidate_sha v)
      | ProviderBlocked v \<Rightarrow>
          (case blocker_candidate (be_blocker v) of None \<Rightarrow> False | Some c \<Rightarrow> landing_gate d e c)
      | Integrated v \<Rightarrow> landing_gate d e (in_candidate_sha v)
      | TargetMovePending v \<Rightarrow>
          list_ex (\<lambda>c. ce_effort_id c = ef_id e \<and> resume_candidate_sha (tm_previous v) = Some (ce_candidate_sha c))
            (evidences d)
      | GuidanceRequired v \<Rightarrow>
          list_ex (\<lambda>g. gr_effort_id g = ef_id e \<and> gr_status g = RequestOpen) (guidance_requests d)
      | ReplacementPending _ \<Rightarrow> True
      | AgentReady _ \<Rightarrow> True
      | InfrastructureBlocked _ \<Rightarrow> True
      | CycleLimitBlocked _ \<Rightarrow> True
      | Cancelled _ \<Rightarrow> True)"

section \<open>Statements on efforts\<close>

definition active_cycle :: "db \<Rightarrow> string \<Rightarrow> bool" where
  "active_cycle d effort_id \<longleftrightarrow>
     list_ex (\<lambda>c. cy_effort_id c = effort_id \<and> (cy_status c = CyStarting \<or> cy_status c = CyRunning)) (cycles d)"

definition insert_effort :: "effort \<Rightarrow> db \<Rightarrow> db result" where
  "insert_effort e d =
     (if \<not> effort_check e then Err (Abort ''CHECK constraint failed: integration_efforts'')
      else if list_ex (\<lambda>x. ef_id x = ef_id e \<or> ef_item_id x = ef_item_id e) (efforts d)
      then Err (Abort ''UNIQUE constraint failed: integration_efforts'')
      else if \<not> effort_attempt_fk d e \<or> \<not> list_ex (\<lambda>i. qi_id i = ef_item_id e) (queue_items d)
      then Err (Abort ''FOREIGN KEY constraint failed'')
      else if (case ef_state e of AgentReady _ \<Rightarrow> active_cycle d (ef_id e) | _ \<Rightarrow> False)
      then Err (Abort ''integration effort related state is invalid'')
      else Ok (d\<lparr>efforts := efforts d @ [e]\<rparr>))"

text \<open>An \<open>UPDATE\<close> whose column list has \<open>state\<close>: both state triggers fire for every changed row.\<close>

definition update_effort_state :: "(effort \<Rightarrow> bool) \<Rightarrow> (effort \<Rightarrow> effort) \<Rightarrow> db \<Rightarrow> (db \<times> nat) result" where
  "update_effort_state p f d =
     (let old = filter p (efforts d); d' = d\<lparr>efforts := modify p f (efforts d)\<rparr>
      in if list_ex (\<lambda>e. \<not> legal_transition (ef_state e) (ef_state (f e))) old
         then Err (Abort ''illegal integration_effort transition'')
         else if list_ex (\<lambda>e. \<not> effort_check (f e)) old
         then Err (Abort ''CHECK constraint failed: integration_efforts'')
         else if list_ex (\<lambda>e. (ef_attempt_id (f e) \<noteq> ef_attempt_id e \<or> ef_item_id (f e) \<noteq> ef_item_id e)
                   \<and> \<not> effort_attempt_fk d (f e)) old
         then Err (Abort ''FOREIGN KEY constraint failed'')
         else if list_ex (\<lambda>e. \<not> related_state d' (f e)) old
         then Err (Abort ''integration effort related state is invalid'')
         else Ok (d', length old))"

definition update_effort_columns :: "(effort \<Rightarrow> bool) \<Rightarrow> (effort \<Rightarrow> effort) \<Rightarrow> db \<Rightarrow> db result" where
  "update_effort_columns p f d =
     (if list_ex (\<lambda>e. \<not> effort_check (f e)) (filter p (efforts d))
      then Err (Abort ''CHECK constraint failed: integration_efforts'')
      else Ok (d\<lparr>efforts := modify p f (efforts d)\<rparr>))"

section \<open>Statements on cycles, requests, reviews and evidence\<close>

definition insert_cycle :: "cycle \<Rightarrow> db \<Rightarrow> db result" where
  "insert_cycle c d =
     (if cy_number c < 1 then Err (Abort ''CHECK constraint failed: integration_cycles'')
      else if list_ex (\<lambda>x. cy_id x = cy_id c) (cycles d)
         \<or> list_ex (\<lambda>x. cy_effort_id x = cy_effort_id c \<and> cy_number x = cy_number c) (cycles d)
         \<or> ((cy_status c = CyStarting \<or> cy_status c = CyRunning) \<and> active_cycle d (cy_effort_id c))
      then Err (Abort ''UNIQUE constraint failed: integration_cycles'')
      else if \<not> list_ex (\<lambda>e. ef_id e = cy_effort_id c) (efforts d)
      then Err (Abort ''FOREIGN KEY constraint failed'')
      else Ok (d\<lparr>cycles := cycles d @ [c]\<rparr>))"

definition update_cycles :: "(cycle \<Rightarrow> bool) \<Rightarrow> (cycle \<Rightarrow> cycle) \<Rightarrow> db \<Rightarrow> db \<times> nat" where
  "update_cycles p f d = (d\<lparr>cycles := modify p f (cycles d)\<rparr>, changed p (cycles d))"

definition insert_termination_debt :: "termination_debt \<Rightarrow> db \<Rightarrow> db result" where
  "insert_termination_debt t d =
     (if list_ex (\<lambda>x. td_effort_id x = td_effort_id t) (termination_debts d)
      then Err (Abort ''UNIQUE constraint failed: runner_termination_debt.effort_id'')
      else Ok (d\<lparr>termination_debts := termination_debts d @ [t]\<rparr>))"

definition insert_guidance_request :: "guidance_request \<Rightarrow> db \<Rightarrow> db result" where
  "insert_guidance_request g d =
     (if list_ex (\<lambda>x. gr_id x = gr_id g) (guidance_requests d)
         \<or> (gr_status g = RequestOpen
            \<and> list_ex (\<lambda>x. gr_effort_id x = gr_effort_id g \<and> gr_status x = RequestOpen) (guidance_requests d))
      then Err (Abort ''UNIQUE constraint failed: guidance_requests'')
      else if \<not> list_ex (\<lambda>c. cy_id c = gr_cycle_id g \<and> cy_effort_id c = gr_effort_id g) (cycles d)
      then Err (Abort ''FOREIGN KEY constraint failed'')
      else Ok (d\<lparr>guidance_requests := guidance_requests d @ [g]\<rparr>))"

definition update_guidance_requests ::
    "(guidance_request \<Rightarrow> bool) \<Rightarrow> (guidance_request \<Rightarrow> guidance_request) \<Rightarrow> db \<Rightarrow> db \<times> nat" where
  "update_guidance_requests p f d =
     (d\<lparr>guidance_requests := modify p f (guidance_requests d)\<rparr>, changed p (guidance_requests d))"

definition review_check :: "review \<Rightarrow> bool" where
  "review_check r \<longleftrightarrow>
     sha_check (rv_target_sha r) \<and> sha_check (rv_source_sha r) \<and> sha_check (rv_candidate_sha r)
     \<and> (rv_status r = ReviewOpen \<longleftrightarrow> rv_responder r = None \<and> rv_text r = None \<and> rv_answered_at r = None)"

definition insert_review :: "review \<Rightarrow> db \<Rightarrow> db result" where
  "insert_review r d =
     (if \<not> review_check r then Err (Abort ''CHECK constraint failed: candidate_reviews'')
      else if list_ex (\<lambda>x. rv_id x = rv_id r) (reviews d)
         \<or> (rv_status r = ReviewOpen
            \<and> list_ex (\<lambda>x. rv_effort_id x = rv_effort_id r \<and> rv_status x = ReviewOpen) (reviews d))
      then Err (Abort ''UNIQUE constraint failed: candidate_reviews'')
      else if \<not> list_ex (\<lambda>c. cy_id c = rv_cycle_id r \<and> cy_effort_id c = rv_effort_id r) (cycles d)
      then Err (Abort ''FOREIGN KEY constraint failed'')
      else Ok (d\<lparr>reviews := reviews d @ [r]\<rparr>))"

definition review_identity_kept :: "review \<Rightarrow> review \<Rightarrow> bool" where
  "review_identity_kept old new \<longleftrightarrow>
     rv_id new = rv_id old \<and> rv_effort_id new = rv_effort_id old \<and> rv_attempt_id new = rv_attempt_id old
     \<and> rv_cycle_id new = rv_cycle_id old \<and> rv_target_sha new = rv_target_sha old
     \<and> rv_source_sha new = rv_source_sha old \<and> rv_candidate_sha new = rv_candidate_sha old
     \<and> rv_status old = ReviewOpen \<and> rv_status new \<noteq> ReviewOpen"

definition update_reviews :: "(review \<Rightarrow> bool) \<Rightarrow> (review \<Rightarrow> review) \<Rightarrow> db \<Rightarrow> (db \<times> nat) result" where
  "update_reviews p f d =
     (if list_ex (\<lambda>r. \<not> review_identity_kept r (f r)) (filter p (reviews d))
      then Err (Abort ''candidate review identity or terminal result is immutable'')
      else if list_ex (\<lambda>r. \<not> review_check (f r)) (filter p (reviews d))
      then Err (Abort ''CHECK constraint failed: candidate_reviews'')
      else Ok (d\<lparr>reviews := modify p f (reviews d)\<rparr>, changed p (reviews d)))"

definition evidence_authority :: "db \<Rightarrow> evidence \<Rightarrow> bool" where
  "evidence_authority d c \<longleftrightarrow>
     list_ex (\<lambda>e. ef_id e = ce_effort_id c
       \<and> (case ef_state e of
            CandidateBuilding b \<Rightarrow>
              cb_cycle_id b = ce_cycle_id c \<and> cb_operation_id b = ce_builder_operation_id c
              \<and> ce_classification c = composition_class (ef_composition e) (cb_tree_sha b)
          | _ \<Rightarrow> False)) (efforts d)"

text \<open>\<open>INSERT \<dots> ON CONFLICT(effort_id) DO UPDATE\<close>: the insert trigger fires for the new row and the
  update trigger, with the same condition, for the row it replaces.\<close>

definition upsert_evidence :: "evidence \<Rightarrow> db \<Rightarrow> db result" where
  "upsert_evidence c d =
     (if \<not> evidence_authority d c
      then Err (Abort ''candidate classification differs from composition authority'')
      else if \<not> sha_check (ce_candidate_sha c)
      then Err (Abort ''CHECK constraint failed: candidate_evidence'')
      else if list_ex (\<lambda>x. ce_effort_id x \<noteq> ce_effort_id c
               \<and> ce_builder_operation_id x = ce_builder_operation_id c) (evidences d)
      then Err (Abort ''UNIQUE constraint failed: candidate_evidence.builder_operation_id'')
      else if \<not> list_ex (\<lambda>y. cy_id y = ce_cycle_id c \<and> cy_effort_id y = ce_effort_id c) (cycles d)
      then Err (Abort ''FOREIGN KEY constraint failed'')
      else Ok (d\<lparr>evidences :=
             (if list_ex (\<lambda>x. ce_effort_id x = ce_effort_id c) (evidences d)
              then modify (\<lambda>x. ce_effort_id x = ce_effort_id c) (\<lambda>_. c) (evidences d)
              else evidences d @ [c])\<rparr>))"

definition evidence_delete_refused :: "db \<Rightarrow> evidence \<Rightarrow> bool" where
  "evidence_delete_refused d c \<longleftrightarrow>
     list_ex (\<lambda>e. ef_id e = ce_effort_id c
       \<and> (case ef_state e of TargetMovePending _ \<Rightarrow> False | _ \<Rightarrow> True)
       \<and> \<not> list_ex (\<lambda>i. i = ef_item_id e) (purge_authority d)
       \<and> \<not> cycle_in_status d (ce_effort_id c) (ce_cycle_id c) CyFailed
       \<and> \<not> list_ex (\<lambda>r. rv_effort_id r = ce_effort_id c \<and> rv_cycle_id r = ce_cycle_id c
              \<and> rv_candidate_sha r = ce_candidate_sha c \<and> rv_status r = ReviewChangesRequested) (reviews d))
     (efforts d)"

definition delete_evidence :: "(evidence \<Rightarrow> bool) \<Rightarrow> db \<Rightarrow> db result" where
  "delete_evidence p d =
     (if list_ex (evidence_delete_refused d) (filter p (evidences d))
      then Err (Abort ''active candidate evidence is immutable'')
      else Ok (d\<lparr>evidences := remove_rows p (evidences d)\<rparr>))"

section \<open>Statements on queue items\<close>

definition item_workspace_ok :: "queue_item \<Rightarrow> bool" where
  "item_workspace_ok i \<longleftrightarrow>
     (qi_workspace_cleaned_at i = None \<and> qi_workspace_path i = None \<and> qi_workspace_rift_id i = None
      \<and> qi_workspace_source_rift_id i = None
      \<and> list_ex (\<lambda>s. qi_status i = s) [QReady, QMerging, QBlocked, QCancelled])
     \<or> (qi_workspace_cleaned_at i = None \<and> qi_workspace_path i \<noteq> None \<and> qi_workspace_rift_id i = None
        \<and> qi_workspace_source_rift_id i = None \<and> (qi_status i = QMerging \<or> qi_status i = QCancelled))
     \<or> (qi_workspace_cleaned_at i = None \<and> qi_workspace_path i \<noteq> None \<and> qi_workspace_rift_id i \<noteq> None
        \<and> qi_workspace_source_rift_id i \<noteq> None)
     \<or> (qi_workspace_cleaned_at i \<noteq> None \<and> (qi_status i = QIntegrated \<or> qi_status i = QCancelled)
        \<and> qi_workspace_path i = None \<and> qi_workspace_rift_id i = None \<and> qi_workspace_source_rift_id i = None)"

definition item_landing_ok :: "queue_item \<Rightarrow> bool" where
  "item_landing_ok i \<longleftrightarrow>
     (case qi_landing_state i of
        LandingReady \<Rightarrow> qi_status i \<noteq> QIntegrated
      | LandingStateUncertain candidate expected \<Rightarrow>
          (qi_status i = QIntegrating \<or> (qi_status i = QBlocked \<and> qi_blocked_phase i = Some PhaseIntegrating))
          \<and> sha_check candidate \<and> sha_check expected
      | LandingLanded candidate commit \<Rightarrow>
          qi_status i = QIntegrated \<and> sha_check candidate \<and> qi_landed_commit_sha i = Some commit)"

fun guard_status :: "integration_effort_state \<Rightarrow> string \<Rightarrow> string option \<Rightarrow> queue_status" where
  "guard_status (ReplacementPending _) attempt current =
     (if current = None \<or> current = Some attempt then QReady else QMerging)"
| "guard_status (AgentReady _) _ _ = QMerging"
| "guard_status (AgentLaunching _) _ _ = QMerging"
| "guard_status (AgentRunning _) _ _ = QMerging"
| "guard_status (CandidateBuilding _) _ _ = QMerging"
| "guard_status (ReviewRequired _) _ _ = QBlocked"
| "guard_status (CandidateReady _) _ _ = QMerged"
| "guard_status (Validating v) _ _ = (case va_stage v of Running \<Rightarrow> QValidating | Gates \<Rightarrow> QIntegrating)"
| "guard_status (GuidanceRequired _) _ _ = QBlocked"
| "guard_status (InfrastructureBlocked _) _ _ = QBlocked"
| "guard_status (CycleLimitBlocked _) _ _ = QBlocked"
| "guard_status (ProviderBlocked _) _ _ = QBlocked"
| "guard_status (Landing _) _ _ = QIntegrating"
| "guard_status (LandingUncertain _) _ _ = QIntegrating"
| "guard_status (TargetMovePending _) _ _ = QIntegrating"
| "guard_status (Integrated _) _ _ = QIntegrated"
| "guard_status (Cancelled _) _ _ = QCancelled"

fun resume_phase :: "resume_state \<Rightarrow> blocked_phase" where
  "resume_phase (RsAgentReady _) = PhaseMerging"
| "resume_phase (RsCandidateBuilding _) = PhaseMerging"
| "resume_phase (RsReviewRequired _) = PhaseValidating"
| "resume_phase (RsCandidateReady _) = PhaseValidating"
| "resume_phase (RsValidating v) = (case va_stage v of Running \<Rightarrow> PhaseValidating | Gates \<Rightarrow> PhaseIntegrating)"
| "resume_phase (RsLanding _) = PhaseIntegrating"
| "resume_phase (RsLandingUncertain _) = PhaseIntegrating"

fun guard_phase :: "integration_effort_state \<Rightarrow> blocked_phase option" where
  "guard_phase (ReviewRequired _) = Some PhaseValidating"
| "guard_phase (GuidanceRequired _) = Some PhaseMerging"
| "guard_phase (CycleLimitBlocked _) = Some PhaseMerging"
| "guard_phase (ProviderBlocked _) = Some PhaseIntegrating"
| "guard_phase (InfrastructureBlocked b) = Some (resume_phase (be_resume b))"
| "guard_phase _ = None"

fun guard_reason :: "integration_effort_state \<Rightarrow> blocked_reason option" where
  "guard_reason (ReviewRequired _) = Some NeedsUserInput"
| "guard_reason (GuidanceRequired _) = Some NeedsUserInput"
| "guard_reason (InfrastructureBlocked _) = Some Infra"
| "guard_reason (CycleLimitBlocked _) = Some NeedsAgentFix"
| "guard_reason (ProviderBlocked _) = Some ProviderReason"
| "guard_reason _ = None"

fun guard_landed :: "integration_effort_state \<Rightarrow> string option" where
  "guard_landed (Integrated v) = Some (in_landed_sha v)"
| "guard_landed _ = None"

fun resume_landing :: "resume_state \<Rightarrow> landing_state" where
  "resume_landing (RsLandingUncertain l) = LandingStateUncertain (lu_candidate_sha l) (lu_expected_target_sha l)"
| "resume_landing _ = LandingReady"

fun guard_landing :: "integration_effort_state \<Rightarrow> landing_state" where
  "guard_landing (LandingUncertain l) = LandingStateUncertain (lu_candidate_sha l) (lu_expected_target_sha l)"
| "guard_landing (InfrastructureBlocked b) = resume_landing (be_resume b)"
| "guard_landing (ProviderBlocked b) = resume_landing (be_resume b)"
| "guard_landing (Integrated v) = LandingLanded (in_candidate_sha v) (in_landed_sha v)"
| "guard_landing _ = LandingReady"

text \<open>The item is the projection of the effort.\<close>

definition item_projects :: "effort \<Rightarrow> queue_item \<Rightarrow> bool" where
  "item_projects e i \<longleftrightarrow>
     qi_prompt_id i = None
     \<and> qi_status i = guard_status (ef_state e) (ef_attempt_id e) (qi_current_attempt_id i)
     \<and> qi_blocked_phase i = guard_phase (ef_state e)
     \<and> qi_blocked_reason i = guard_reason (ef_state e)
     \<and> qi_landed_commit_sha i = guard_landed (ef_state e)
     \<and> qi_landing_state i = guard_landing (ef_state e)"

definition item_projection_ok :: "db \<Rightarrow> queue_item \<Rightarrow> queue_item \<Rightarrow> bool" where
  "item_projection_ok d old new \<longleftrightarrow>
     \<not> list_ex (\<lambda>e. ef_item_id e = qi_id old) (efforts d)
     \<or> list_ex (\<lambda>e. ef_item_id e = qi_id old \<and> item_projects e new) (efforts d)"

definition target_matches_item :: "cleanup_target \<Rightarrow> queue_item \<Rightarrow> bool" where
  "target_matches_item t i \<longleftrightarrow>
     (case t of
        CreationIntent path \<Rightarrow>
          qi_workspace_rift_id i = None \<and> qi_workspace_source_rift_id i = None \<and> qi_workspace_path i = Some path
      | Retained w \<Rightarrow>
          qi_workspace_rift_id i = Some (ws_rift_id w) \<and> qi_workspace_source_rift_id i = Some (ws_source_rift_id w)
          \<and> qi_workspace_path i = Some (ws_path w))"

definition item_cleanup_ok :: "db \<Rightarrow> queue_item \<Rightarrow> bool" where
  "item_cleanup_ok d i \<longleftrightarrow>
     \<not> ((qi_status i = QIntegrated \<or> qi_status i = QCancelled) \<and> qi_workspace_cleaned_at i = None
        \<and> qi_workspace_path i \<noteq> None)
     \<or> list_ex (\<lambda>w. wd_item_id w = qi_id i \<and> target_matches_item (wd_target w) i) (cleanup_debts d)"

text \<open>An \<open>UPDATE\<close> of the lifecycle columns of queue items, which fires four triggers per row.\<close>

definition update_item_status :: "(queue_item \<Rightarrow> bool) \<Rightarrow> (queue_item \<Rightarrow> queue_item) \<Rightarrow> db \<Rightarrow> (db \<times> nat) result" where
  "update_item_status p f d =
     (let old = filter p (queue_items d)
      in if list_ex (\<lambda>i. \<not> item_workspace_ok (f i)) old
         then Err (Abort ''invalid queue item workspace state'')
         else if list_ex (\<lambda>i. \<not> item_landing_ok (f i)) old
         then Err (Abort ''invalid queue landing state'')
         else if list_ex (\<lambda>i. \<not> item_projection_ok d i (f i)) old
         then Err (Abort ''queue lifecycle is a projection of integration_effort'')
         else if list_ex (\<lambda>i. \<not> item_cleanup_ok d (f i)) old
         then Err (Abort ''terminal queue transition requires exact cleanup debt'')
         else Ok (d\<lparr>queue_items := modify p f (queue_items d)\<rparr>, length old))"

definition update_item_columns :: "(queue_item \<Rightarrow> bool) \<Rightarrow> (queue_item \<Rightarrow> queue_item) \<Rightarrow> db \<Rightarrow> db \<times> nat" where
  "update_item_columns p f d = (d\<lparr>queue_items := modify p f (queue_items d)\<rparr>, changed p (queue_items d))"

section \<open>Statements on attempts and debts\<close>

definition update_attempts :: "(attempt \<Rightarrow> bool) \<Rightarrow> (attempt \<Rightarrow> attempt) \<Rightarrow> db \<Rightarrow> db \<times> nat" where
  "update_attempts p f d = (d\<lparr>attempts := modify p f (attempts d)\<rparr>, changed p (attempts d))"

definition workspace_json_ok :: "cleanup_target \<Rightarrow> bool" where
  "workspace_json_ok t \<longleftrightarrow>
     (case t of
        CreationIntent path \<Rightarrow> path \<noteq> []
      | Retained w \<Rightarrow> ws_path w \<noteq> [] \<and> ws_rift_id w \<noteq> [] \<and> ws_source_rift_id w \<noteq> [])"

text \<open>\<open>INSERT OR IGNORE\<close> of a pending debt: the guard trigger aborts, while a violated check or an
  existing row only skips the insertion.\<close>

definition insert_cleanup_debt :: "string \<Rightarrow> cleanup_target \<Rightarrow> string \<Rightarrow> db \<Rightarrow> db result" where
  "insert_cleanup_debt item_id target now d =
     (if \<not> list_ex (\<lambda>i. qi_id i = item_id \<and> qi_workspace_cleaned_at i = None \<and> target_matches_item target i) (queue_items d)
      then Err (Abort ''cleanup debt must match queue workspace authority'')
      else if \<not> workspace_json_ok target \<or> list_ex (\<lambda>w. wd_item_id w = item_id) (cleanup_debts d) then Ok d
      else Ok (d\<lparr>cleanup_debts := cleanup_debts d @
             [\<lparr>wd_item_id = item_id, wd_target = target, wd_state = CleanupStatePending, wd_reason = None,
               wd_observation_count = 0, wd_next_retry_at = now, wd_alert_event_id = None\<rparr>]\<rparr>))"

definition ref_debt_check :: "ref_debt \<Rightarrow> bool" where
  "ref_debt_check r \<longleftrightarrow>
     rd_owner_id r \<noteq> [] \<and> rd_ref_name r \<noteq> [] \<and> sha_check (rd_expected_sha r)
     \<and> (case rd_kind r of
          RefRepositoryTarget \<Rightarrow>
            rd_owner_id r = rd_expected_sha r
            \<and> rd_ref_name r = ''refs/iq/repository-targets/'' @ rd_repo_key r @ ''/'' @ rd_expected_sha r
        | RefLanding \<Rightarrow> CHR ''/'' \<notin> set (rd_owner_id r) \<and> rd_ref_name r = ''refs/iq/landings/'' @ rd_owner_id r)"

text \<open>\<open>INSERT \<dots> ON CONFLICT(repo_key,ref_name) DO NOTHING\<close>, with the number of inserted rows.\<close>

definition insert_ref_debt :: "ref_debt \<Rightarrow> db \<Rightarrow> (db \<times> nat) result" where
  "insert_ref_debt r d =
     (if \<not> ref_debt_check r then Err (Abort ''CHECK constraint failed: private_ref_cleanup_debt'')
      else if list_ex (\<lambda>x. rd_repo_key x = rd_repo_key r \<and> rd_ref_name x = rd_ref_name r) (ref_debts d)
      then Ok (d, 0)
      else if \<not> list_ex (\<lambda>g. rg_repo_key g = rd_repo_key r) (repositories d)
      then Err (Abort ''FOREIGN KEY constraint failed'')
      else Ok (d\<lparr>ref_debts := ref_debts d @ [r]\<rparr>, 1))"

definition insert_replication_debt :: "replication_debt \<Rightarrow> db \<Rightarrow> db result" where
  "insert_replication_debt x d =
     (if \<not> sha_check (xd_canonical_source_sha x) \<or> \<not> like_heads (xd_target_ref x)
      then Err (Abort ''CHECK constraint failed: replication_debt'')
      else if list_ex (\<lambda>y. xd_id y = xd_id x
              \<or> (xd_item_id y = xd_item_id x \<and> xd_destination_key y = xd_destination_key x)
              \<or> (xd_destination_key y = xd_destination_key x \<and> xd_target_ref y = xd_target_ref x
                 \<and> xd_sequence y = xd_sequence x)) (replication_debts d)
      then Err (Abort ''UNIQUE constraint failed: replication_debt'')
      else if \<not> list_ex (\<lambda>i. qi_id i = xd_item_id x) (queue_items d) \<or> \<not> list_ex (\<lambda>g. rg_repo_key g = xd_repo_key x) (repositories d)
      then Err (Abort ''FOREIGN KEY constraint failed'')
      else Ok (d\<lparr>replication_debts := replication_debts d @ [x]\<rparr>))"

definition update_checkout :: "string \<Rightarrow> string \<Rightarrow> string \<Rightarrow> db \<Rightarrow> (db \<times> nat) result" where
  "update_checkout repo_key target_ref target_sha d =
     (if list_ex (\<lambda>g. rg_repo_key g = repo_key) (repositories d)
         \<and> \<not> (like_heads target_ref \<and> sha_check target_sha)
      then Err (Abort ''owned repository checkout state is invalid'')
      else Ok (d\<lparr>repositories := modify (\<lambda>g. rg_repo_key g = repo_key)
                  (\<lambda>g. g\<lparr>rg_checkout := CheckoutPending target_ref target_sha\<rparr>) (repositories d)\<rparr>,
               changed (\<lambda>g. rg_repo_key g = repo_key) (repositories d)))"

section \<open>Facts about the statements\<close>

lemma composition_class_eq [simp]: "composition_class c t = composition_classification c t"
  by (cases c) (simp_all add: composition_class_def)

text \<open>What a successful statement leaves alone.  Each fact gives the new database as an update of one
  table, from which the simplifier reads every other table.\<close>

lemma insert_effort_Ok [result_simps]:
  "insert_effort e d = Inr d' \<longleftrightarrow>
     effort_check e \<and> \<not> list_ex (\<lambda>x. ef_id x = ef_id e \<or> ef_item_id x = ef_item_id e) (efforts d)
     \<and> effort_attempt_fk d e \<and> list_ex (\<lambda>i. qi_id i = ef_item_id e) (queue_items d)
     \<and> \<not> (case ef_state e of AgentReady _ \<Rightarrow> active_cycle d (ef_id e) | _ \<Rightarrow> False)
     \<and> d' = d\<lparr>efforts := efforts d @ [e]\<rparr>"
  by (auto simp: insert_effort_def)

lemma update_effort_state_Ok [result_simps]:
  "update_effort_state p f d = Inr (d', n) \<longleftrightarrow>
     (\<forall>e \<in> set (efforts d). p e \<longrightarrow>
        legal_transition (ef_state e) (ef_state (f e)) \<and> effort_check (f e)
        \<and> (ef_attempt_id (f e) = ef_attempt_id e \<and> ef_item_id (f e) = ef_item_id e \<or> effort_attempt_fk d (f e))
        \<and> related_state d' (f e))
     \<and> d' = d\<lparr>efforts := modify p f (efforts d)\<rparr> \<and> n = length (filter p (efforts d))"
  by (auto simp: update_effort_state_def Let_def list_ex_iff)

lemma update_item_status_Ok [result_simps]:
  "update_item_status p f d = Inr (d', n) \<longleftrightarrow>
     (\<forall>i \<in> set (queue_items d). p i \<longrightarrow>
        item_workspace_ok (f i) \<and> item_landing_ok (f i) \<and> item_projection_ok d i (f i) \<and> item_cleanup_ok d (f i))
     \<and> d' = d\<lparr>queue_items := modify p f (queue_items d)\<rparr> \<and> n = length (filter p (queue_items d))"
  by (auto simp: update_item_status_def Let_def list_ex_iff)

lemma insert_cycle_Ok [result_simps]:
  "insert_cycle c d = Inr d' \<longleftrightarrow>
     cy_number c \<ge> 1
     \<and> (\<forall>x \<in> set (cycles d). cy_id x \<noteq> cy_id c \<and> (cy_effort_id x = cy_effort_id c \<longrightarrow> cy_number x \<noteq> cy_number c))
     \<and> \<not> ((cy_status c = CyStarting \<or> cy_status c = CyRunning) \<and> active_cycle d (cy_effort_id c))
     \<and> list_ex (\<lambda>e. ef_id e = cy_effort_id c) (efforts d)
     \<and> d' = d\<lparr>cycles := cycles d @ [c]\<rparr>"
  by (auto simp: insert_cycle_def list_ex_iff)

end
