(* ===== verification/Store_Update.thy ===== *)
theory Store_Update
  imports Store_Schema
begin

text \<open>
  The functions of \<open>control_store.rs\<close> that every operation shares: reading an effort and the policy
  of its repository, the one path by which the state of an effort changes
  (\<open>update_state_and_count_with_resolution\<close>) with the projection of the state onto the queue item,
  the durable event log, and the numbering of cycles.  An operation reads the clock once: \<open>now\<close>
  is a parameter, as are the identifiers that \<open>Uuid::new_v4\<close> generates.
\<close>

section \<open>Reading\<close>

definition required_effort :: "string \<Rightarrow> db \<Rightarrow> effort result" where
  "required_effort effort_id d =
     bnd (fetch (\<lambda>e. ef_id e = effort_id) (efforts d) (NoRow (''integration effort not found: '' @ effort_id))) (\<lambda>e.
     bnd (validate_for_count (ef_state e) (ef_failed_cycles e)) (\<lambda>_.
     Ok e))"

definition item_policy :: "string \<Rightarrow> db \<Rightarrow> repository_policy result" where
  "item_policy item_id d =
     bnd (fetch (\<lambda>i. qi_id i = item_id) (queue_items d) (NoRow ''queue_items'')) (\<lambda>i.
     bnd (fetch (\<lambda>p. pl_repo_key p = qi_repo_key i) (policies d) (NoRow ''repository_policies'')) (\<lambda>p.
     Ok (pl_policy p)))"

definition item_object_format :: "string \<Rightarrow> db \<Rightarrow> git_object_format result" where
  "item_object_format item_id d =
     bnd (item_policy item_id d) (\<lambda>p. Ok (object_format (po_canonical_repository p)))"

definition effort_object_format :: "string \<Rightarrow> db \<Rightarrow> git_object_format result" where
  "effort_object_format effort_id d =
     bnd (fetch (\<lambda>e. ef_id e = effort_id) (efforts d) (NoRow ''integration_efforts'')) (\<lambda>e.
     item_object_format (ef_item_id e) d)"

definition require_item_obligation :: "string \<Rightarrow> db \<Rightarrow> unit result" where
  "require_item_obligation item_id d =
     bnd (item_policy item_id d) (\<lambda>p. require_obligation (po_operation_state p) (QueueItemObligation item_id))"

section \<open>Events\<close>

text \<open>The rows that \<open>INSERT OR IGNORE\<close> adds take consecutive identifiers.\<close>

definition enqueue_deliveries :: "string \<Rightarrow> string \<Rightarrow> db \<Rightarrow> db" where
  "enqueue_deliveries now event_id d =
     (let names = map fst (filter (\<lambda>(backend, enabled). enabled
             \<and> \<not> list_ex (\<lambda>x. nd_event_id x = event_id \<and> nd_backend x = backend \<and> nd_redelivery_of x = None) (deliveries d))
             (backends d))
      in d\<lparr>deliveries := deliveries d @
           map2 (\<lambda>n backend. \<lparr>nd_id = n, nd_event_id = event_id, nd_backend = backend, nd_state = DeliveryPending,
               nd_claim_id = None, nd_claimed_at = None, nd_attempt_count = 0, nd_next_attempt_at = Some now,
               nd_last_error = None, nd_redelivery_of = None, nd_redelivery_actor = None, nd_created_at = now,
               nd_updated_at = now\<rparr>)
             [Suc (delivery_sequence d)..<Suc (delivery_sequence d + length names)] names,
           delivery_sequence := delivery_sequence d + length names\<rparr>)"

definition append_event_with_id ::
    "string \<Rightarrow> string \<Rightarrow> effort \<Rightarrow> string \<Rightarrow> event_payload \<Rightarrow> bool \<Rightarrow> db \<Rightarrow> db result" where
  "append_event_with_id now event_id e event_type payload alert d =
     (if list_ex (\<lambda>x. ev_id x = event_id) (events d)
      then Err (Abort ''UNIQUE constraint failed: durable_events.id'')
      else if \<not> list_ex (\<lambda>i. qi_id i = ef_item_id e) (queue_items d) \<or> \<not> list_ex (\<lambda>x. ef_id x = ef_id e) (efforts d)
      then Err (Abort ''FOREIGN KEY constraint failed'')
      else let d' = d\<lparr>event_sequence := Suc (event_sequence d),
                      events := events d @ [\<lparr>ev_sequence = Suc (event_sequence d), ev_id = event_id,
                        ev_item_id = ef_item_id e, ev_effort_id = Some (ef_id e), ev_type = event_type,
                        ev_payload = payload, ev_alert = alert, ev_created_at = now\<rparr>]\<rparr>
           in Ok (if alert then enqueue_deliveries now event_id d' else d'))"

definition append_event ::
    "string \<Rightarrow> string \<Rightarrow> effort \<Rightarrow> string \<Rightarrow> event_payload \<Rightarrow> bool \<Rightarrow> db \<Rightarrow> db result" where
  "append_event now uuid e event_type payload alert d = append_event_with_id now uuid e event_type payload alert d"

section \<open>Cycle numbers\<close>

definition max_cycle_number :: "string \<Rightarrow> db \<Rightarrow> nat" where
  "max_cycle_number effort_id d =
     foldr max (map cy_number (filter (\<lambda>c. cy_effort_id c = effort_id) (cycles d))) 0"

definition next_cycle_number :: "string \<Rightarrow> db \<Rightarrow> nat result" where
  "next_cycle_number effort_id d =
     (let next = Suc (max_cycle_number effort_id d)
      in if next \<le> 255 then Ok next else Err (Bail ''integration effort exceeds cycle identity range''))"

definition cycle_ids :: "string \<Rightarrow> string \<Rightarrow> db \<Rightarrow> string list" where
  "cycle_ids effort_id current d =
     (let ids = map cy_id (sort_key cy_number
                  (filter (\<lambda>c. cy_effort_id c = effort_id \<and> cy_status c = CyFailed) (cycles d)))
      in if list_ex (\<lambda>i. i = current) ids then ids else ids @ [current])"

section \<open>Target movement authority\<close>

record definite_landing_rejection =
  dl_effort_id :: string
  dl_command_id :: string
  dl_expected_target_sha :: string

definition require_target_move_authority :: "effort \<Rightarrow> definite_landing_rejection option \<Rightarrow> unit result" where
  "require_target_move_authority e rejection =
     (if \<not> contains_external_landing_authority (ef_state e)
      then (if rejection \<noteq> None then Err (Bail ''definite landing rejection has no released landing authority'') else Ok ())
      else (case rejection of
              None \<Rightarrow> Err (Bail ''external landing authority cannot enter target movement'')
            | Some r \<Rightarrow>
                (case ef_state e of
                   LandingUncertain l \<Rightarrow>
                     (if ef_landing_variant e \<noteq> ''direct'' \<or> dl_effort_id r \<noteq> ef_id e
                         \<or> dl_command_id r \<noteq> lu_command_id l
                         \<or> dl_expected_target_sha r \<noteq> lu_expected_target_sha l
                      then Err (Bail ''definite landing rejection differs from released landing authority'')
                      else Ok ())
                 | _ \<Rightarrow> Err (Bail ''only direct uncertain landing authority can use definite rejection''))))"

definition target_move_cause_matches :: "target_move_cause \<Rightarrow> definite_landing_rejection option \<Rightarrow> bool" where
  "target_move_cause_matches cause rejection \<longleftrightarrow>
     (case rejection of
        None \<Rightarrow> True
      | Some r \<Rightarrow>
          (case cause of
             StaleLandingLease command_id expected \<Rightarrow> command_id = dl_command_id r \<and> expected = dl_expected_target_sha r
           | Observed _ \<Rightarrow> False))"

section \<open>Projection onto the queue item\<close>

fun legacy_landing_state :: "integration_effort_state \<Rightarrow> landing_state" where
  "legacy_landing_state (Landing _) = LandingReady"
| "legacy_landing_state (LandingUncertain l) =
     LandingStateUncertain (lu_candidate_sha l) (lu_expected_target_sha l)"
| "legacy_landing_state (InfrastructureBlocked b) =
     (case be_resume b of
        RsLanding _ \<Rightarrow> LandingReady
      | RsLandingUncertain l \<Rightarrow> LandingStateUncertain (lu_candidate_sha l) (lu_expected_target_sha l)
      | _ \<Rightarrow> LandingReady)"
| "legacy_landing_state (ProviderBlocked b) =
     (case be_resume b of
        RsLanding _ \<Rightarrow> LandingReady
      | RsLandingUncertain l \<Rightarrow> LandingStateUncertain (lu_candidate_sha l) (lu_expected_target_sha l)
      | _ \<Rightarrow> LandingReady)"
| "legacy_landing_state _ = LandingReady"

text \<open>The arm for \<open>Integrated\<close>, which is handled before, is \<open>unreachable!\<close> in the source.\<close>

fun projection_columns ::
    "integration_effort_state \<Rightarrow> queue_status \<times> blocked_phase option \<times> blocked_reason option \<times> blocked_message option" where
  "projection_columns (ReplacementPending _) = (QReady, None, None, None)"
| "projection_columns (AgentReady _) = (QMerging, None, None, None)"
| "projection_columns (AgentLaunching _) = (QMerging, None, None, None)"
| "projection_columns (AgentRunning _) = (QMerging, None, None, None)"
| "projection_columns (CandidateBuilding _) = (QMerging, None, None, None)"
| "projection_columns (ReviewRequired _) =
     (QBlocked, Some PhaseValidating, Some NeedsUserInput, Some (MessageText ''semantic candidate requires exact review''))"
| "projection_columns (CandidateReady _) = (QMerged, None, None, None)"
| "projection_columns (Validating v) =
     (case va_stage v of
        Running \<Rightarrow> (QValidating, None, None, None)
      | Gates \<Rightarrow> (QIntegrating, None, None, None))"
| "projection_columns (GuidanceRequired b) =
     (QBlocked, Some PhaseMerging, Some NeedsUserInput, Some (MessageBlocker (be_blocker b)))"
| "projection_columns (InfrastructureBlocked b) =
     (QBlocked,
      Some (case be_resume b of
              RsAgentReady _ \<Rightarrow> PhaseMerging
            | RsCandidateBuilding _ \<Rightarrow> PhaseMerging
            | RsReviewRequired _ \<Rightarrow> PhaseValidating
            | RsCandidateReady _ \<Rightarrow> PhaseValidating
            | RsValidating v \<Rightarrow> (case va_stage v of Running \<Rightarrow> PhaseValidating | Gates \<Rightarrow> PhaseIntegrating)
            | RsLanding _ \<Rightarrow> PhaseIntegrating
            | RsLandingUncertain _ \<Rightarrow> PhaseIntegrating),
      Some Infra, Some (MessageBlocker (be_blocker b)))"
| "projection_columns (CycleLimitBlocked b) =
     (QBlocked, Some PhaseMerging, Some NeedsAgentFix, Some (MessageBlocker (be_blocker b)))"
| "projection_columns (ProviderBlocked b) =
     (QBlocked, Some PhaseIntegrating, Some ProviderReason, Some (MessageBlocker (be_blocker b)))"
| "projection_columns (Landing _) = (QIntegrating, None, None, None)"
| "projection_columns (LandingUncertain _) = (QIntegrating, None, None, None)"
| "projection_columns (TargetMovePending _) = (QIntegrating, None, None, None)"
| "projection_columns (Integrated _) = (QIntegrated, None, None, None)"
| "projection_columns (Cancelled _) = (QCancelled, None, None, None)"

definition project_queue_state :: "string \<Rightarrow> effort \<Rightarrow> integration_effort_state \<Rightarrow> db \<Rightarrow> db result" where
  "project_queue_state now e state d =
     (case state of
        Integrated v \<Rightarrow>
          bnd (update_item_status (\<lambda>i. qi_id i = ef_item_id e)
                 (\<lambda>i. i\<lparr>qi_status := QIntegrated, qi_blocked_phase := None, qi_blocked_reason := None,
                        qi_blocked_message := None, qi_prompt_id := None,
                        qi_landed_commit_sha := Some (in_landed_sha v),
                        qi_landing_state := LandingLanded (in_candidate_sha v) (in_landed_sha v),
                        qi_updated_at := now\<rparr>) d) (\<lambda>(d, changed).
          if changed \<noteq> 1 then Err (Bail ''queue terminal projection lost item identity'') else Ok d)
      | _ \<Rightarrow>
          (case projection_columns state of (status, phase, reason, message) \<Rightarrow>
             bnd (update_item_status
                    (\<lambda>i. qi_id i = ef_item_id e \<and> qi_current_attempt_id i = Some (ef_attempt_id e))
                    (\<lambda>i. i\<lparr>qi_status := status, qi_blocked_phase := phase, qi_blocked_reason := reason,
                           qi_blocked_message := message, qi_prompt_id := None,
                           qi_landing_state := legacy_landing_state state,
                           qi_replacement := (if status = QCancelled then None else qi_replacement i),
                           qi_updated_at := now\<rparr>) d) (\<lambda>(d, changed).
             if changed \<noteq> 1 then Err (Bail ''queue compatibility projection lost item or attempt identity'')
             else Ok d)))"

section \<open>The update of the state of an effort\<close>

definition update_state_and_count_with_resolution ::
    "string \<Rightarrow> effort \<Rightarrow> integration_effort_state \<Rightarrow> nat \<Rightarrow> definite_landing_rejection option \<Rightarrow> db \<Rightarrow> db result" where
  "update_state_and_count_with_resolution now e state failed_cycles rejection d =
     bnd (if contains_external_landing_authority (ef_state e) \<and> \<not> contains_external_landing_authority state
          then require_target_move_authority e rejection
          else if rejection \<noteq> None
          then Err (Bail ''definite landing rejection does not authorize this effort transition'')
          else Ok ()) (\<lambda>_.
     bnd (validate_for_count state failed_cycles) (\<lambda>_.
     bnd (case state of Cancelled _ \<Rightarrow> Ok () | _ \<Rightarrow> require_item_obligation (ef_item_id e) d) (\<lambda>_.
     bnd (update_effort_state (\<lambda>x. ef_id x = ef_id e \<and> state_name (ef_state x) = state_name (ef_state e))
            (\<lambda>x. x\<lparr>ef_failed_cycles := failed_cycles, ef_state := state, ef_updated_at := now\<rparr>) d) (\<lambda>(d, changed).
     bnd (require (changed = 1) (Bail ''integration effort state changed concurrently'')) (\<lambda>_.
     project_queue_state now e state d)))))"

definition update_state_and_count :: "string \<Rightarrow> effort \<Rightarrow> integration_effort_state \<Rightarrow> nat \<Rightarrow> db \<Rightarrow> db result" where
  "update_state_and_count now e state failed_cycles d =
     update_state_and_count_with_resolution now e state failed_cycles None d"

definition update_state :: "string \<Rightarrow> effort \<Rightarrow> integration_effort_state \<Rightarrow> db \<Rightarrow> db result" where
  "update_state now e state d = update_state_and_count now e state (ef_failed_cycles e) d"

section \<open>Facts about the update\<close>

definition set_state :: "string \<Rightarrow> integration_effort_state \<Rightarrow> nat \<Rightarrow> effort \<Rightarrow> effort" where
  "set_state now s n e = e\<lparr>ef_failed_cycles := n, ef_state := s, ef_updated_at := now\<rparr>"

text \<open>The queue item after the projection, and the row that the projection changes.\<close>

definition projected_item :: "string \<Rightarrow> integration_effort_state \<Rightarrow> queue_item \<Rightarrow> queue_item" where
  "projected_item now s i =
     (case s of
        Integrated v \<Rightarrow> i\<lparr>qi_status := QIntegrated, qi_blocked_phase := None, qi_blocked_reason := None,
            qi_blocked_message := None, qi_prompt_id := None, qi_landed_commit_sha := Some (in_landed_sha v),
            qi_landing_state := LandingLanded (in_candidate_sha v) (in_landed_sha v), qi_updated_at := now\<rparr>
      | _ \<Rightarrow> (case projection_columns s of (status, phase, reason, message) \<Rightarrow>
            i\<lparr>qi_status := status, qi_blocked_phase := phase, qi_blocked_reason := reason,
              qi_blocked_message := message, qi_prompt_id := None,
              qi_landing_state := legacy_landing_state s,
              qi_replacement := (if status = QCancelled then None else qi_replacement i),
              qi_updated_at := now\<rparr>))"

definition projection_row :: "effort \<Rightarrow> integration_effort_state \<Rightarrow> queue_item \<Rightarrow> bool" where
  "projection_row e s i \<longleftrightarrow> qi_id i = ef_item_id e
     \<and> (case s of Integrated _ \<Rightarrow> True | _ \<Rightarrow> qi_current_attempt_id i = Some (ef_attempt_id e))"

lemma bnd_one: "bnd (m :: (db \<times> nat) result) (\<lambda>(d, n). if n \<noteq> 1 then Err x else Ok d) = Inr d' \<longleftrightarrow> m = Inr (d', 1)"
  by (cases m) (auto split: if_splits)

lemma project_queue_state_Ok [result_simps]:
  "project_queue_state now e s d = Inr d' \<longleftrightarrow>
     update_item_status (projection_row e s) (projected_item now s) d = Inr (d', 1)"
  by (cases s; simp add: project_queue_state_def projection_row_def [abs_def] projected_item_def [abs_def] bnd_one
        del: One_nat_def split: prod.split)

lemma projected_item_id [simp]: "qi_id (projected_item now s i) = qi_id i"
  "qi_current_attempt_id (projected_item now s i) = qi_current_attempt_id i"
  by (auto simp: projected_item_def split: integration_effort_state.splits prod.splits)


lemma required_effort_Ok [result_simps]:
  "required_effort i d = Inr e \<longleftrightarrow>
     find (\<lambda>x. ef_id x = i) (efforts d) = Some e \<and> is_ok (validate_for_count (ef_state e) (ef_failed_cycles e))"
  by (auto simp: required_effort_def bnd_eq_Ok fetch_eq_Ok is_ok_iff)

lemma append_event_with_id_frame:
  assumes "append_event_with_id now i e t p a d = Inr d'"
  shows "efforts d' = efforts d" "queue_items d' = queue_items d" "cycles d' = cycles d"
    "evidences d' = evidences d" "reviews d' = reviews d" "guidance_requests d' = guidance_requests d"
    "policies d' = policies d"
  using assms by (auto simp: append_event_with_id_def Let_def enqueue_deliveries_def split: if_splits)

abbreviation effort_ids :: "db \<Rightarrow> string list" where
  "effort_ids d \<equiv> map ef_id (efforts d)"

definition transition_authorized :: "effort \<Rightarrow> integration_effort_state \<Rightarrow> definite_landing_rejection option \<Rightarrow> bool" where
  "transition_authorized e s rejection \<longleftrightarrow>
     (if contains_external_landing_authority (ef_state e) \<and> \<not> contains_external_landing_authority s
      then is_ok (require_target_move_authority e rejection) else rejection = None)"

lemma related_state_frame:
  "cycles d = cycles d' \<Longrightarrow> evidences d = evidences d' \<Longrightarrow> reviews d = reviews d' \<Longrightarrow>
   guidance_requests d = guidance_requests d' \<Longrightarrow> related_state d e = related_state d' e"
  by (cases "ef_state e")
    (simp_all add: related_state_def cycle_in_status_def landing_gate_def cong: option.case_cong candidate_review.case_cong)

lemma update_state_Ok:
  "update_state_and_count_with_resolution now e s n rejection d = Inr d' \<longleftrightarrow>
     transition_authorized e s rejection \<and> is_ok (validate_for_count s n)
     \<and> ((\<exists>c. s = Cancelled c) \<or> is_ok (require_item_obligation (ef_item_id e) d))
     \<and> (\<exists>d1. update_effort_state (\<lambda>x. ef_id x = ef_id e \<and> state_name (ef_state x) = state_name (ef_state e))
            (set_state now s n) d = Inr (d1, 1)
          \<and> update_item_status (projection_row e s) (projected_item now s) d1 = Inr (d', 1))"
proof -
  have A: "(if contains_external_landing_authority (ef_state e) \<and> \<not> contains_external_landing_authority s
      then require_target_move_authority e rejection
      else if rejection \<noteq> None then Err x else Ok ()) = Inr u \<longleftrightarrow> transition_authorized e s rejection" for x u
    by (auto simp: transition_authorized_def is_ok_iff)
  have B: "(case s of Cancelled _ \<Rightarrow> Ok () | _ \<Rightarrow> require_item_obligation (ef_item_id e) d) = Inr u \<longleftrightarrow>
     (\<exists>c. s = Cancelled c) \<or> is_ok (require_item_obligation (ef_item_id e) d)" for u
    by (cases s) (auto simp: is_ok_iff)
  have C: "validate_for_count s n = Inr u \<longleftrightarrow> is_ok (validate_for_count s n)" for u
    by (simp add: unit_result_eq_Ok)
  show ?thesis
    unfolding update_state_and_count_with_resolution_def bnd_eq_Ok A B C set_state_def [abs_def]
    by (auto simp: bnd_eq_Ok require_eq_Ok project_queue_state_Ok)
qed


lemma distinct_ids_same:
  "distinct (effort_ids d) \<Longrightarrow> x \<in> set (efforts d) \<Longrightarrow> y \<in> set (efforts d) \<Longrightarrow> ef_id x = ef_id y \<Longrightarrow> x = y"
  by (auto simp: distinct_map dest: inj_onD)

lemma set_state_simps [simp]:
  "ef_id (set_state now s n e) = ef_id e" "ef_item_id (set_state now s n e) = ef_item_id e"
  "ef_attempt_id (set_state now s n e) = ef_attempt_id e" "ef_state (set_state now s n e) = s"
  "ef_failed_cycles (set_state now s n e) = n" "ef_target_sha (set_state now s n e) = ef_target_sha e"
  "ef_source_sha (set_state now s n e) = ef_source_sha e" "ef_composition (set_state now s n e) = ef_composition e"
  "ef_landing_variant (set_state now s n e) = ef_landing_variant e"
  by (simp_all add: set_state_def)

lemma update_state_frame:
  assumes "update_state_and_count_with_resolution now e s n rejection d = Inr d'"
  shows "cycles d' = cycles d" "evidences d' = evidences d" "reviews d' = reviews d"
    "guidance_requests d' = guidance_requests d" "policies d' = policies d" "attempts d' = attempts d"
    "map qi_id (queue_items d') = map qi_id (queue_items d)"
  using assms by (auto simp: update_state_Ok update_effort_state_Ok update_item_status_Ok map_key_modify)

lemma update_state_row:
  assumes u: "update_state_and_count_with_resolution now e s n rejection d = Inr d'"
    and dis: "distinct (effort_ids d)"
    and x: "x \<in> set (efforts d)" "ef_id x = ef_id e"
  shows "efforts d' = modify (\<lambda>y. ef_id y = ef_id e) (set_state now s n) (efforts d)"
    and "state_name (ef_state x) = state_name (ef_state e)"
    and "legal_transition (ef_state x) s" "effort_check (set_state now s n x)"
    and "related_state d' (set_state now s n x)"
proof -
  let ?p = "\<lambda>y. ef_id y = ef_id e \<and> state_name (ef_state y) = state_name (ef_state e)"
  from u obtain d1 where d1: "update_effort_state ?p (set_state now s n) d = Inr (d1, 1)"
    and d': "update_item_status (projection_row e s) (projected_item now s) d1 = Inr (d', 1)"
    by (auto simp: update_state_Ok)
  from d1 have one: "length (filter ?p (efforts d)) = 1" by (simp add: update_effort_state_Ok)
  obtain y where "y \<in> set (efforts d)" "?p y" 
    using one changed_one_ex [of ?p "efforts d"] by (auto simp: changed_def)
  with x dis distinct_ids_same [of d x y] have px: "?p x" by simp
  then show "state_name (ef_state x) = state_name (ef_state e)" by simp
  have "modify ?p (set_state now s n) (efforts d) = modify (\<lambda>y. ef_id y = ef_id e) (set_state now s n) (efforts d)"
  proof (rule modify_cong)
    fix y assume "y \<in> set (efforts d)"
    then show "?p y \<longleftrightarrow> ef_id y = ef_id e"
      using px x(2) distinct_ids_same [OF dis x(1), of y] by metis
  qed
  with d1 d' show "efforts d' = modify (\<lambda>y. ef_id y = ef_id e) (set_state now s n) (efforts d)"
    by (simp add: update_effort_state_Ok update_item_status_Ok)
  from d1 x(1) px have ok: "legal_transition (ef_state x) s" "effort_check (set_state now s n x)"
    "related_state d1 (set_state now s n x)"
    by (auto simp: update_effort_state_Ok)
  then show "legal_transition (ef_state x) s" "effort_check (set_state now s n x)" by simp_all
  from ok(3) d' show "related_state d' (set_state now s n x)"
    by (simp add: update_item_status_Ok cong: related_state_frame)
qed

end
