(* ===== verification/Store_Cycles.thy ===== *)
theory Store_Cycles
  imports Store_Update
begin

text \<open>
  The operations of \<open>control_store.rs\<close> on the life of an effort and its agent cycles: creation and
  replacement of an effort, the preparation of a launch, the surrender and authorisation of the
  spawn, its failure, the start of the process, the recorded result, and the failure of a cycle.
  The observation of processes (\<open>exact_process_is_alive\<close>) and of systemd units
  (\<open>systemd_unit_state\<close>) by \<open>agent_runner.rs\<close> are parameters: they read the operating system.
\<close>

section \<open>Creation and replacement\<close>

record new_effort =
  ne_item_id :: string
  ne_attempt_id :: string
  ne_target_sha :: string
  ne_source_sha :: string
  ne_source_variant :: string
  ne_landing_variant :: string
  ne_composition :: composition_evidence
  ne_workspace :: workspace_identity
  ne_runner :: runner_snapshot
  ne_state_repository :: state_repository_snapshot

definition effort_of_new :: "string \<Rightarrow> string \<Rightarrow> new_effort \<Rightarrow> effort" where
  "effort_of_new effort_id now new = \<lparr>
     ef_id = effort_id, ef_item_id = ne_item_id new, ef_attempt_id = ne_attempt_id new,
     ef_target_sha = ne_target_sha new, ef_source_sha = ne_source_sha new,
     ef_source_variant = ne_source_variant new, ef_landing_variant = ne_landing_variant new,
     ef_composition = ne_composition new, ef_workspace = ne_workspace new, ef_runner = ne_runner new,
     ef_state_repository = ne_state_repository new, ef_failed_cycles = 0,
     ef_state = AgentReady \<lparr>ar_next_cycle = 1\<rparr>, ef_created_at = now, ef_updated_at = now \<rparr>"

definition effort_matches_new :: "effort \<Rightarrow> new_effort \<Rightarrow> bool" where
  "effort_matches_new e new \<longleftrightarrow>
     ef_attempt_id e = ne_attempt_id new \<and> ef_target_sha e = ne_target_sha new
     \<and> ef_source_sha e = ne_source_sha new \<and> ef_composition e = ne_composition new
     \<and> ef_workspace e = ne_workspace new \<and> ef_runner e = ne_runner new
     \<and> ef_state_repository e = ne_state_repository new"

definition replace_effort :: "string \<Rightarrow> string \<Rightarrow> new_effort \<Rightarrow> effort \<Rightarrow> replacement_pending \<Rightarrow> db \<Rightarrow> (db \<times> effort) result" where
  "replace_effort now uuid new existing pending d =
     bnd (require (ef_attempt_id existing \<noteq> ne_attempt_id new)
            (Bail ''replacement effort still references its superseded attempt'')) (\<lambda>_.
     bnd (require (list_ex (\<lambda>a. at_id a = rp_old_attempt_id pending \<and> at_item_id a = ne_item_id new
              \<and> at_result a = Some ''superseded'' \<and> at_finished_at a \<noteq> None) (attempts d)
            \<and> ef_attempt_id existing = rp_old_attempt_id pending)
            (Bail ''replacement effort does not reference a superseded attempt'')) (\<lambda>_.
     let next = Suc (max_cycle_number (ef_id existing) d) in
     bnd (require (next \<le> 255) (Bail ''Integer out of range'')) (\<lambda>_.
     bnd (update_effort_state
            (\<lambda>x. ef_id x = ef_id existing \<and> ef_item_id x = ne_item_id new
               \<and> state_name (ef_state x) = ''replacement_pending'' \<and> ef_attempt_id x = rp_old_attempt_id pending)
            (\<lambda>x. x\<lparr>ef_attempt_id := ne_attempt_id new, ef_target_sha := ne_target_sha new,
               ef_source_sha := ne_source_sha new, ef_source_variant := ne_source_variant new,
               ef_landing_variant := ne_landing_variant new, ef_composition := ne_composition new,
               ef_workspace := ne_workspace new, ef_runner := ne_runner new,
               ef_state_repository := ne_state_repository new, ef_failed_cycles := 0,
               ef_state := AgentReady \<lparr>ar_next_cycle = next\<rparr>, ef_updated_at := now\<rparr>) d) (\<lambda>(d, changed).
     bnd (require (changed = 1) (Bail ''replacement effort identity changed before composition'')) (\<lambda>_.
     bnd (required_effort (ef_id existing) d) (\<lambda>e.
     bnd (append_event now uuid e ''agent_ready''
            (PayloadFields [(''cycle'', FNumber next), (''replacement_attempt_id'', FText (ne_attempt_id new))])
            False d) (\<lambda>d.
     bnd (required_effort (ef_id existing) d) (\<lambda>e.
     Ok (d, e)))))))))"

definition move_reservation :: "string \<Rightarrow> string \<Rightarrow> string \<Rightarrow> db \<Rightarrow> db" where
  "move_reservation now effort_id item_id d =
     d\<lparr>artifacts := artifacts d @
         map (\<lambda>r. \<lparr>sr_effort_id = effort_id, sr_provider = rz_provider r, sr_repository = rz_repository r,
                sr_artifact_id = rz_artifact_id r, sr_artifact_url = rz_artifact_url r,
                sr_projection_revision = 0, sr_last_event_sequence = 0, sr_state = ''reserved'',
                sr_created_at = rz_created_at r, sr_updated_at = now\<rparr>)
           (filter (\<lambda>r. rz_item_id r = item_id) (reservations d)),
       reservations := remove_rows (\<lambda>r. rz_item_id r = item_id) (reservations d)\<rparr>"

definition create_effort :: "string \<Rightarrow> string \<Rightarrow> string \<Rightarrow> new_effort \<Rightarrow> db \<Rightarrow> (db \<times> effort) result" where
  "create_effort now effort_id event_id new d =
     bnd (item_object_format (ne_item_id new) d) (\<lambda>f.
     bnd (require_oid f (ne_target_sha new) ''effort target SHA'') (\<lambda>_.
     bnd (require_oid f (ne_source_sha new) ''effort source SHA'') (\<lambda>_.
     bnd (composition_validate (ne_composition new) f False) (\<lambda>_.
     bnd (fetch (\<lambda>i. qi_id i = ne_item_id new) (queue_items d) (NoRow ''queue_items'')) (\<lambda>item.
     bnd (require (qi_status item \<noteq> QCancelled)
            (Bail (''queue item '' @ ne_item_id new @ '' was cancelled before effort creation''))) (\<lambda>_.
     bnd (require (qi_status item = QMerging \<and> qi_current_attempt_id item = Some (ne_attempt_id new)
              \<and> list_ex (\<lambda>a. at_id a = ne_attempt_id new \<and> at_item_id a = ne_item_id new
                    \<and> at_finished_at a = None \<and> at_result a = None) (attempts d))
            (Bail (''queue item '' @ ne_item_id new @ '' no longer has merging authority for attempt ''
               @ ne_attempt_id new))) (\<lambda>_.
     (case find (\<lambda>e. ef_item_id e = ne_item_id new) (efforts d) of
        Some existing \<Rightarrow>
          bnd (validate_for_count (ef_state existing) (ef_failed_cycles existing)) (\<lambda>_.
          (case ef_state existing of
             ReplacementPending pending \<Rightarrow> replace_effort now event_id new existing pending d
           | _ \<Rightarrow>
               bnd (require (effort_matches_new existing new)
                      (Bail ''existing integration effort identity differs from composition'')) (\<lambda>_.
               Ok (d, existing))))
      | None \<Rightarrow>
          bnd (insert_effort (effort_of_new effort_id now new) d) (\<lambda>d.
          bnd (required_effort effort_id d) (\<lambda>e.
          bnd (append_event now event_id e ''agent_ready'' (PayloadFields [(''cycle'', FNumber 1)]) False
                 (move_reservation now effort_id (ne_item_id new) d)) (\<lambda>d.
          bnd (required_effort effort_id d) (\<lambda>e.
          Ok (d, e)))))))))))))"

definition mark_effort_replacement_pending :: "string \<Rightarrow> string \<Rightarrow> string \<Rightarrow> string \<Rightarrow> db \<Rightarrow> (db \<times> bool) result" where
  "mark_effort_replacement_pending now uuid item_id old_attempt_id d =
     (case find (\<lambda>e. ef_item_id e = item_id) (efforts d) of
        None \<Rightarrow> Ok (d, False)
      | Some e \<Rightarrow>
          bnd (validate_for_count (ef_state e) (ef_failed_cycles e)) (\<lambda>_.
          bnd (require (ef_attempt_id e = old_attempt_id \<and> is_cycle_limit (ef_state e))
                 (Bail ''replacement cleanup requires the blocked effort for the old attempt'')) (\<lambda>_.
          let state = ReplacementPending \<lparr>rp_old_attempt_id = old_attempt_id, rp_replaced_at = now\<rparr> in
          bnd (update_state_and_count now e state 0 d) (\<lambda>d.
          bnd (append_event now uuid e ''replacement_pending'' (PayloadState state) False d) (\<lambda>d.
          Ok (d, True))))))"

section \<open>Launch\<close>

definition prepare_cycle_launch :: "string \<Rightarrow> string \<Rightarrow> string \<Rightarrow> agent_launching \<Rightarrow> db \<Rightarrow> db result" where
  "prepare_cycle_launch now uuid effort_id launch d =
     bnd (require (al_spawn_authority launch = SpawnOpen)
            (Bail ''prepared cycle requires open spawn authority'')) (\<lambda>_.
     bnd (required_effort effort_id d) (\<lambda>e.
     bnd (require_item_obligation (ef_item_id e) d) (\<lambda>_.
     (case ef_state e of
        AgentReady ready \<Rightarrow>
          bnd (require (ar_next_cycle ready = al_cycle_number launch \<and> ef_failed_cycles e < AUTOMATIC_CYCLE_LIMIT)
                 (Bail ''cycle number does not match effort authority'')) (\<lambda>_.
          bnd (insert_cycle \<lparr>cy_id = al_cycle_id launch, cy_effort_id = effort_id,
                 cy_number = al_cycle_number launch, cy_status = CyStarting,
                 cy_process = ProcessLaunching launch, cy_input_digest = al_input_sha256 launch,
                 cy_result_state = Absent, cy_log = None, cy_failure = None,
                 cy_created_at = al_prepared_at launch, cy_finished_at = None\<rparr> d) (\<lambda>d.
          bnd (update_state now e (AgentLaunching launch) d) (\<lambda>d.
          append_event now uuid e ''agent_launching''
            (PayloadFields [(''cycle_id'', FText (al_cycle_id launch)),
               (''operation_id'', FText (al_launch_operation_id launch)),
               (''unit_name'', FText (al_unit_name launch))]) False d)))
      | _ \<Rightarrow> Err (Bail ''cycle start requires agent_ready effort'')))))"

text \<open>A launch or a running process holds the authority that a caller presents.\<close>

definition launch_held_by :: "agent_launching \<Rightarrow> string \<Rightarrow> string \<Rightarrow> launcher_authority \<Rightarrow> bool" where
  "launch_held_by launch operation_id lease_id launcher \<longleftrightarrow>
     al_launch_operation_id launch = operation_id \<and> al_authority_lease_id launch = lease_id
     \<and> al_launcher launch = launcher"

definition running_held_by :: "agent_running \<Rightarrow> string \<Rightarrow> string \<Rightarrow> launcher_authority \<Rightarrow> bool" where
  "running_held_by running operation_id lease_id launcher \<longleftrightarrow>
     ag_launch_operation_id running = operation_id \<and> ag_authority_lease_id running = lease_id
     \<and> ag_launcher running = launcher"

definition update_cancelled_spawn_authority ::
    "string \<Rightarrow> string \<Rightarrow> string \<Rightarrow> launcher_authority \<Rightarrow> spawn_authority \<Rightarrow> db \<Rightarrow> (db \<times> bool) result" where
  "update_cancelled_spawn_authority effort_id operation_id lease_id launcher expected d =
     (case find (\<lambda>t. td_effort_id t = effort_id) (termination_debts d) of
        None \<Rightarrow> Ok (d, False)
      | Some debt \<Rightarrow>
          (case td_authority debt of
             TermLaunching launching \<Rightarrow>
               (if \<not> launch_held_by launching operation_id lease_id launcher
                   \<or> al_spawn_authority launching \<noteq> expected
                then Ok (d, False)
                else let p = (\<lambda>t. td_effort_id t = effort_id \<and> td_authority t = td_authority debt)
                     in bnd (require (changed p (termination_debts d) = 1)
                               (Bail ''runner spawn close authority changed concurrently'')) (\<lambda>_.
                        Ok (d\<lparr>termination_debts := modify p
                              (\<lambda>t. t\<lparr>td_authority := TermLaunching (launching\<lparr>al_spawn_authority := Closed\<rparr>)\<rparr>)
                              (termination_debts d)\<rparr>, True)))
           | _ \<Rightarrow> Ok (d, False)))"

definition close_requested_spawn_authority ::
    "string \<Rightarrow> string \<Rightarrow> string \<Rightarrow> launcher_authority \<Rightarrow> db \<Rightarrow> (db \<times> bool) result" where
  "close_requested_spawn_authority effort_id operation_id lease_id launcher d =
     update_cancelled_spawn_authority effort_id operation_id lease_id launcher CloseRequested d"

definition close_surrendered_spawn_authority ::
    "string \<Rightarrow> string \<Rightarrow> string \<Rightarrow> launcher_authority \<Rightarrow> db \<Rightarrow> (db \<times> bool) result" where
  "close_surrendered_spawn_authority effort_id operation_id lease_id launcher d =
     update_cancelled_spawn_authority effort_id operation_id lease_id launcher Surrendered d"

definition require_cancelled_launcher_authority ::
    "string \<Rightarrow> string \<Rightarrow> string \<Rightarrow> launcher_authority \<Rightarrow> spawn_authority \<Rightarrow> db \<Rightarrow> unit result" where
  "require_cancelled_launcher_authority effort_id operation_id lease_id launcher expected d =
     bnd (fetch (\<lambda>t. td_effort_id t = effort_id) (termination_debts d) (NoRow ''runner_termination_debt'')) (\<lambda>debt.
     (case td_authority debt of
        TermLaunching launching \<Rightarrow>
          require (launch_held_by launching operation_id lease_id launcher \<and> al_spawn_authority launching = expected)
            (Bail ''cancelled launch acknowledgement differs from launcher authority'')
      | _ \<Rightarrow> Err (Bail ''cancelled launch acknowledgement has no launch authority'')))"

definition surrender_cycle_spawn_authority ::
    "(nat \<Rightarrow> nat \<Rightarrow> bool result) \<Rightarrow> string \<Rightarrow> string \<Rightarrow> string \<Rightarrow> string \<Rightarrow> string \<Rightarrow> launcher_authority \<Rightarrow> db \<Rightarrow> (db \<times> bool) result" where
  "surrender_cycle_spawn_authority alive now uuid effort_id operation_id lease_id launcher d =
     bnd (alive (la_pid launcher) (la_process_start_ticks launcher)) (\<lambda>living.
     bnd (require living (Bail ''runner launcher process identity is not alive'')) (\<lambda>_.
     bnd (required_effort effort_id d) (\<lambda>e.
     let refused = Err (Bail ''runner spawn authority is not open for this launch operation'') in
     (case ef_state e of
        AgentLaunching launch \<Rightarrow>
          if launch_held_by launch operation_id lease_id launcher \<and> al_spawn_authority launch = SpawnOpen
          then let surrendered = launch\<lparr>al_spawn_authority := Surrendered\<rparr> in
               bnd (update_state now e (AgentLaunching surrendered) d) (\<lambda>d.
               (case update_cycles
                       (\<lambda>c. cy_id c = al_cycle_id surrendered \<and> cy_effort_id c = effort_id \<and> cy_status c = CyStarting)
                       (\<lambda>c. c\<lparr>cy_process := ProcessLaunching surrendered\<rparr>) d of
                  (d, n) \<Rightarrow>
                    bnd (require (n = 1) (Bail ''prepared cycle disappeared before spawn surrender'')) (\<lambda>_.
                    bnd (append_event now uuid e ''runner_spawn_surrendered''
                           (PayloadFields [(''cycle_id'', FText (al_cycle_id surrendered)),
                              (''operation_id'', FText operation_id)]) False d) (\<lambda>d.
                    Ok (d, True)))))
          else refused
      | Cancelled _ \<Rightarrow>
          bnd (close_requested_spawn_authority effort_id operation_id lease_id launcher d) (\<lambda>(d, closed).
          if closed then Ok (d, False) else refused)
      | _ \<Rightarrow> refused))))"

definition authorize_cycle_spawn ::
    "(nat \<Rightarrow> nat \<Rightarrow> bool result) \<Rightarrow> string \<Rightarrow> string \<Rightarrow> string \<Rightarrow> launcher_authority \<Rightarrow> db \<Rightarrow> bool result" where
  "authorize_cycle_spawn alive effort_id operation_id lease_id launcher d =
     bnd (required_effort effort_id d) (\<lambda>e.
     (case ef_state e of
        AgentLaunching launch \<Rightarrow>
          bnd (require (launch_held_by launch operation_id lease_id launcher \<and> al_spawn_authority launch = Surrendered)
                 (Bail ''runner spawn authorization differs from surrendered authority'')) (\<lambda>_.
          alive (la_pid launcher) (la_process_start_ticks launcher))
      | Cancelled _ \<Rightarrow>
          bnd (require_cancelled_launcher_authority effort_id operation_id lease_id launcher Surrendered d) (\<lambda>_.
          Ok False)
      | _ \<Rightarrow> Err (Bail ''runner spawn authorization requires agent_launching effort'')))"

section \<open>Failed spawns\<close>

datatype systemd_unit_state = UnitMissing | UnitInactive | UnitActive

definition require_terminal_systemd_unit ::
    "(executable_identity \<Rightarrow> string \<Rightarrow> systemd_unit_state result) \<Rightarrow> executable_identity \<Rightarrow> string \<Rightarrow> unit result" where
  "require_terminal_systemd_unit unit_state systemctl unit_name =
     bnd (unit_state systemctl unit_name) (\<lambda>s.
     require (s \<noteq> UnitActive) (Bail ''failed runner spawn systemd service is still active''))"

text \<open>\<open>UPDATE integration_cycles SET status='failed',failure_json,finished_at WHERE id AND effort_id AND
  status\<close>, which four operations share.\<close>

definition fail_cycle :: "string \<Rightarrow> string \<Rightarrow> string \<Rightarrow> cycle_status \<Rightarrow> cycle_failure \<Rightarrow> db \<Rightarrow> db \<times> nat" where
  "fail_cycle now cycle_id effort_id st failure d =
     update_cycles (\<lambda>c. cy_id c = cycle_id \<and> cy_effort_id c = effort_id \<and> cy_status c = st)
       (\<lambda>c. c\<lparr>cy_status := CyFailed, cy_failure := Some failure, cy_finished_at := Some now\<rparr>) d"

definition acknowledge_terminated_cycle_spawn ::
    "string \<Rightarrow> string \<Rightarrow> string \<Rightarrow> string \<Rightarrow> launcher_authority \<Rightarrow> db \<Rightarrow> db result" where
  "acknowledge_terminated_cycle_spawn now effort_id operation_id lease_id launcher d =
     bnd (required_effort effort_id d) (\<lambda>e.
     let refused = Err (Bail ''failed spawn does not match durable launch authority'') in
     (case ef_state e of
        AgentLaunching launch \<Rightarrow>
          if launch_held_by launch operation_id lease_id launcher \<and> al_spawn_authority launch = Surrendered
          then (case fail_cycle now (al_cycle_id launch) effort_id CyStarting Interrupted d of
                  (d, n) \<Rightarrow>
                    bnd (require (n = 1) (Bail ''prepared cycle authority changed after failed spawn'')) (\<lambda>_.
                    bnd (next_cycle_number effort_id d) (\<lambda>next.
                    update_state now e (AgentReady \<lparr>ar_next_cycle = next\<rparr>) d)))
          else refused
      | AgentRunning running \<Rightarrow>
          if running_held_by running operation_id lease_id launcher
          then (case fail_cycle now (ag_cycle_id running) effort_id CyRunning Interrupted d of
                  (d, n) \<Rightarrow>
                    bnd (require (n = 1) (Bail ''running cycle authority changed after failed launch admission'')) (\<lambda>_.
                    bnd (next_cycle_number effort_id d) (\<lambda>next.
                    update_state now e (AgentReady \<lparr>ar_next_cycle = next\<rparr>) d)))
          else refused
      | Cancelled _ \<Rightarrow>
          (case find (\<lambda>t. td_effort_id t = effort_id) (termination_debts d) of
             None \<Rightarrow> Err (Bail ''cancelled failed spawn has no termination authority'')
           | Some debt \<Rightarrow>
               (case td_authority debt of
                  TermLaunching launching \<Rightarrow>
                    bnd (require (launch_held_by launching operation_id lease_id launcher)
                           (Bail ''cancelled failed spawn differs from termination authority'')) (\<lambda>_.
                    if al_spawn_authority launching = Surrendered
                    then bnd (close_surrendered_spawn_authority effort_id operation_id lease_id launcher d) (\<lambda>(d, closed).
                         if closed then Ok d else Err (Bail ''cancelled failed spawn authority did not close''))
                    else Ok d)
                | _ \<Rightarrow> Err (Bail ''cancelled failed spawn differs from termination authority'')))
      | _ \<Rightarrow> refused))"

definition acknowledge_cycle_spawn_failed ::
    "(executable_identity \<Rightarrow> string \<Rightarrow> systemd_unit_state result) \<Rightarrow> string \<Rightarrow> string \<Rightarrow> string \<Rightarrow> string \<Rightarrow>
     launcher_authority \<Rightarrow> db \<Rightarrow> db result" where
  "acknowledge_cycle_spawn_failed unit_state now effort_id operation_id lease_id launcher d =
     bnd (required_effort effort_id d) (\<lambda>observed.
     let refused = Err (Bail ''failed spawn does not match durable launch authority'') in
     bnd (case ef_state observed of
            AgentLaunching launch \<Rightarrow>
              if launch_held_by launch operation_id lease_id launcher then Ok (al_unit_name launch) else refused
          | AgentRunning running \<Rightarrow>
              if running_held_by running operation_id lease_id launcher then Ok (ag_unit_name running) else refused
          | Cancelled _ \<Rightarrow>
              bnd (fetch (\<lambda>t. td_effort_id t = effort_id) (termination_debts d) (NoRow ''runner_termination_debt'')) (\<lambda>debt.
              (case td_authority debt of
                 TermLaunching launching \<Rightarrow>
                   bnd (require (launch_held_by launching operation_id lease_id launcher)
                          (Bail ''cancelled failed spawn differs from termination authority'')) (\<lambda>_.
                   Ok (al_unit_name launching))
               | _ \<Rightarrow> Err (Bail ''cancelled failed spawn has only systemd termination authority'')))
          | _ \<Rightarrow> refused) (\<lambda>unit_name.
     bnd (require_terminal_systemd_unit unit_state (sb_systemctl (rs_sandbox (ef_runner observed))) unit_name) (\<lambda>_.
     acknowledge_terminated_cycle_spawn now effort_id operation_id lease_id launcher d)))"

section \<open>Running cycles\<close>

definition running_matches_launch :: "agent_launching \<Rightarrow> agent_running \<Rightarrow> string \<Rightarrow> launcher_authority \<Rightarrow> bool" where
  "running_matches_launch launch running lease_id launcher \<longleftrightarrow>
     al_launch_operation_id launch = ag_launch_operation_id running \<and> al_unit_name launch = ag_unit_name running
     \<and> al_cycle_id launch = ag_cycle_id running \<and> al_cycle_number launch = ag_cycle_number running
     \<and> al_authority_lease_id launch = ag_authority_lease_id running \<and> al_authority_lease_id launch = lease_id
     \<and> al_launcher launch = launcher \<and> ag_launcher running = launcher
     \<and> al_input_sha256 launch = ag_input_sha256 running \<and> al_spawn_authority launch = Surrendered"

definition record_cycle_started ::
    "string \<Rightarrow> string \<Rightarrow> string \<Rightarrow> agent_running \<Rightarrow> string \<Rightarrow> launcher_authority \<Rightarrow> db \<Rightarrow> (db \<times> bool) result" where
  "record_cycle_started now uuid effort_id running lease_id launcher d =
     bnd (required_effort effort_id d) (\<lambda>e.
     (case ef_state e of
        AgentLaunching launch \<Rightarrow>
          bnd (require (running_matches_launch launch running lease_id launcher)
                 (Bail ''started process differs from prepared launch authority'')) (\<lambda>_.
          (case update_cycles
                  (\<lambda>c. cy_id c = ag_cycle_id running \<and> cy_effort_id c = effort_id \<and> cy_status c = CyStarting)
                  (\<lambda>c. c\<lparr>cy_status := CyRunning, cy_process := ProcessRunning running\<rparr>) d of
             (d, n) \<Rightarrow>
               bnd (require (n = 1) (Bail ''prepared cycle authority changed before process start'')) (\<lambda>_.
               bnd (update_state now e (AgentRunning running) d) (\<lambda>d.
               bnd (append_event now uuid e ''agent_running''
                      (PayloadFields [(''cycle_id'', FText (ag_cycle_id running)),
                         (''operation_id'', FText (ag_launch_operation_id running)),
                         (''unit_name'', FText (ag_unit_name running))]) False d) (\<lambda>d.
               Ok (d, True))))))
      | Cancelled _ \<Rightarrow>
          bnd (require_cancelled_launcher_authority effort_id (ag_launch_operation_id running) lease_id launcher
                 Surrendered d) (\<lambda>_.
          Ok (d, False))
      | _ \<Rightarrow> Err (Bail ''cycle start requires agent_launching effort'')))"

definition reset_prepared_launch ::
    "(nat \<Rightarrow> nat \<Rightarrow> bool result) \<Rightarrow> string \<Rightarrow> string \<Rightarrow> string \<Rightarrow> string \<Rightarrow> db \<Rightarrow> db result" where
  "reset_prepared_launch alive now uuid effort_id cycle_id d =
     bnd (required_effort effort_id d) (\<lambda>e.
     (case ef_state e of
        AgentLaunching launch \<Rightarrow>
          bnd (require (al_cycle_id launch = cycle_id) (Bail ''launch reset differs from prepared cycle'')) (\<lambda>_.
          bnd (alive (la_pid (al_launcher launch)) (la_process_start_ticks (al_launcher launch))) (\<lambda>living.
          bnd (require (\<not> living) (Bail ''launch reset cannot revoke a live launcher process'')) (\<lambda>_.
          (case fail_cycle now cycle_id effort_id CyStarting Interrupted d of
             (d, n) \<Rightarrow>
               bnd (require (n = 1) (Bail ''prepared cycle authority changed before reset'')) (\<lambda>_.
               bnd (next_cycle_number effort_id d) (\<lambda>next.
               bnd (update_state now e (AgentReady \<lparr>ar_next_cycle = next\<rparr>) d) (\<lambda>d.
               append_event now uuid e ''agent_launch_reset''
                 (PayloadFields [(''cycle_id'', FText cycle_id),
                    (''operation_id'', FText (al_launch_operation_id launch)),
                    (''failure'', FFailure Interrupted)]) False d)))))))
      | _ \<Rightarrow> Err (Bail ''launch reset requires agent_launching effort'')))"

fun result_transition_ok :: "atomic_result_state \<Rightarrow> atomic_result_state \<Rightarrow> bool" where
  "result_transition_ok Absent (Writing _ _) = True"
| "result_transition_ok (Writing device inode) (Complete device' inode' _) = (device = device' \<and> inode = inode')"
| "result_transition_ok _ _ = False"

definition record_result_state ::
    "string \<Rightarrow> string \<Rightarrow> string \<Rightarrow> atomic_result_state \<Rightarrow> db \<Rightarrow> db result" where
  "record_result_state now effort_id cycle_id result d =
     bnd (require (result \<noteq> Absent) (Bail ''result state recording requires writing or complete identity'')) (\<lambda>_.
     bnd (required_effort effort_id d) (\<lambda>e.
     (case ef_state e of
        AgentRunning running \<Rightarrow>
          bnd (require (ag_cycle_id running = cycle_id) (Bail ''result state differs from running cycle authority'')) (\<lambda>_.
          bnd (require (result_transition_ok (ag_result running) result) (Bail ''result state transition is invalid'')) (\<lambda>_.
          let completed = running\<lparr>ag_result := result\<rparr> in
          (case update_cycles
                  (\<lambda>c. cy_id c = cycle_id \<and> cy_effort_id c = effort_id \<and> cy_status c = CyRunning)
                  (\<lambda>c. c\<lparr>cy_process := ProcessRunning completed, cy_result_state := result\<rparr>) d of
             (d, n) \<Rightarrow>
               bnd (require (n = 1) (Bail ''running cycle authority changed before result recording'')) (\<lambda>_.
               update_state now e (AgentRunning completed) d))))
      | _ \<Rightarrow> Err (Bail ''result recording requires agent_running effort''))))"

definition record_cycle_log :: "string \<Rightarrow> string \<Rightarrow> string \<Rightarrow> db \<Rightarrow> db result" where
  "record_cycle_log effort_id cycle_id log d =
     (case update_cycles (\<lambda>c. cy_id c = cycle_id \<and> cy_effort_id c = effort_id \<and> cy_status c = CyRunning)
             (\<lambda>c. c\<lparr>cy_log := Some log\<rparr>) d of
        (d, n) \<Rightarrow>
          bnd (require (n = 1) (Bail ''running cycle authority changed before log recording'')) (\<lambda>_. Ok d))"

text \<open>The state after one more failed cycle, which candidate rejection shares except for the number of
  the next cycle: the limit blocks the effort and records its event first, a lower count returns it
  to the agent.\<close>

definition cycle_limit_state :: "string \<Rightarrow> string \<Rightarrow> nat \<Rightarrow> cycle_failure \<Rightarrow> string \<Rightarrow> nat \<Rightarrow> db \<Rightarrow> integration_effort_state" where
  "cycle_limit_state effort_id cycle_id count failure alert_event_id next d =
     CycleLimitBlocked \<lparr>
       be_blocker = CycleLimit \<lparr>cl_count = count, cl_cycle_ids = cycle_ids effort_id cycle_id d,
                                cl_last_failure = failure, cl_alert_event_id = alert_event_id\<rparr>,
       be_resume = RsAgentReady \<lparr>ar_next_cycle = next\<rparr>\<rparr>"

definition checked_increment :: "nat \<Rightarrow> nat result" where
  "checked_increment n = (if n < 255 then Ok (Suc n) else Err (Bail ''cycle count overflow''))"

definition consume_cycle_failure ::
    "string \<Rightarrow> string \<Rightarrow> string \<Rightarrow> string \<Rightarrow> cycle_failure \<Rightarrow> db \<Rightarrow> (db \<times> effort) result" where
  "consume_cycle_failure now uuid effort_id cycle_id failure d =
     bnd (required_effort effort_id d) (\<lambda>e.
     bnd (checked_increment (ef_failed_cycles e)) (\<lambda>count.
     bnd (if count = AUTOMATIC_CYCLE_LIMIT
          then bnd (next_cycle_number effort_id d) (\<lambda>next.
               let state = cycle_limit_state effort_id cycle_id count failure uuid next d in
               bnd (append_event_with_id now uuid e ''cycle_limit'' (PayloadState state) True d) (\<lambda>d.
               Ok (d, state)))
          else if count < AUTOMATIC_CYCLE_LIMIT
          then bnd (next_cycle_number effort_id d) (\<lambda>next. Ok (d, AgentReady \<lparr>ar_next_cycle = next\<rparr>))
          else Err (Bail ''automatic cycle limit is already reached'')) (\<lambda>(d, state).
     (case fail_cycle now cycle_id effort_id CyRunning failure d of
        (d, n) \<Rightarrow>
          bnd (require (n = 1) (Bail ''failed cycle does not match one running cycle authority'')) (\<lambda>_.
          bnd (update_state_and_count now e state count d) (\<lambda>d.
          bnd (if count < AUTOMATIC_CYCLE_LIMIT
               then append_event now uuid e ''cycle_failed'' (PayloadFailure failure) False d
               else Ok d) (\<lambda>d.
          bnd (required_effort effort_id d) (\<lambda>e'.
          Ok (d, e')))))))))"

end
