(* ===== verification/Store_Candidate.thy ===== *)
theory Store_Candidate
  imports Store_Cycles
begin

text \<open>
  The operations of \<open>control_store.rs\<close> on candidates: the acceptance of a resolved cycle, the record
  of the observed candidate commit with its classification, the review of a semantic candidate
  with its receipts, validation, and rejection.  The Git observation of a candidate is the value
  \<open>CandidateObservation::read\<close> returns.
\<close>

section \<open>Building\<close>

definition building_of_intent :: "effort \<Rightarrow> candidate_intent \<Rightarrow> candidate_building" where
  "building_of_intent e intent = \<lparr>
     cb_operation_id = ci_operation_id intent, cb_cycle_id = ci_cycle_id intent,
     cb_staged_tree_sha256 = ci_staged_tree_sha256 intent, cb_tree_sha = ci_tree_sha intent,
     cb_parent_shas = ci_parents intent, cb_author_name = ci_author_name intent,
     cb_author_email = ci_author_email intent, cb_author_timestamp = ci_author_timestamp intent,
     cb_committer_name = ci_committer_name intent, cb_committer_email = ci_committer_email intent,
     cb_committer_timestamp = ci_committer_timestamp intent, cb_message = ci_message intent,
     cb_operation_ref = ci_operation_ref intent,
     cb_classification = composition_classification (ef_composition e) (ci_tree_sha intent) \<rparr>"

definition start_candidate_build :: "string \<Rightarrow> string \<Rightarrow> string \<Rightarrow> candidate_intent \<Rightarrow> db \<Rightarrow> db result" where
  "start_candidate_build now uuid effort_id intent d =
     bnd (required_effort effort_id d) (\<lambda>e.
     (case ef_state e of
        AgentRunning running \<Rightarrow>
          bnd (require (ag_cycle_id running = ci_cycle_id intent \<and> ci_parents intent \<noteq> [])
                 (Bail ''candidate intent does not match accepted cycle'')) (\<lambda>_.
          bnd (update_state now e (CandidateBuilding (building_of_intent e intent)) d) (\<lambda>d.
          append_event now uuid e ''candidate_building'' (PayloadIntent intent) False d))
      | _ \<Rightarrow> Err (Bail ''candidate build requires agent_running effort'')))"

definition accept_resolved_cycle :: "string \<Rightarrow> string \<Rightarrow> string \<Rightarrow> candidate_intent \<Rightarrow> db \<Rightarrow> db result" where
  "accept_resolved_cycle now uuid effort_id intent d =
     bnd (required_effort effort_id d) (\<lambda>e.
     (case ef_state e of
        AgentRunning running \<Rightarrow>
          bnd (require (ag_cycle_id running = ci_cycle_id intent \<and> ci_parents intent \<noteq> [])
                 (Bail ''resolved result does not match running cycle'')) (\<lambda>_.
          (case update_cycles (\<lambda>c. cy_id c = ag_cycle_id running \<and> cy_status c = CyRunning)
                  (\<lambda>c. c\<lparr>cy_status := CyResolved, cy_finished_at := Some now\<rparr>) d of
             (d, n) \<Rightarrow>
               bnd (require (n = 1) (Bail ''running cycle authority changed before resolved result acceptance'')) (\<lambda>_.
               bnd (update_state now e (CandidateBuilding (building_of_intent e intent)) d) (\<lambda>d.
               append_event now uuid e ''candidate_building'' (PayloadIntent intent) False d))))
      | _ \<Rightarrow> Err (Bail ''resolved result requires agent_running effort'')))"

definition observation_matches :: "candidate_building \<Rightarrow> candidate_observation \<Rightarrow> bool" where
  "observation_matches b obs \<longleftrightarrow>
     cb_operation_id b = co_operation_id obs \<and> cb_tree_sha b = co_tree_sha obs
     \<and> cb_parent_shas b = co_parent_shas obs \<and> cb_author_name b = co_author_name obs
     \<and> cb_author_email b = co_author_email obs \<and> cb_author_timestamp b = co_author_timestamp obs
     \<and> cb_committer_name b = co_committer_name obs \<and> cb_committer_email b = co_committer_email obs
     \<and> cb_committer_timestamp b = co_committer_timestamp obs \<and> cb_message b = co_message obs
     \<and> cb_operation_ref b = co_operation_ref obs"

definition invalidate_validation_invocations :: "string \<Rightarrow> string \<Rightarrow> db \<Rightarrow> db" where
  "invalidate_validation_invocations now attempt_id d =
     d\<lparr>validation_invocations := modify (\<lambda>v. vi_attempt_id v = attempt_id \<and> vi_invalidated_at v = None)
        (\<lambda>v. v\<lparr>vi_invalidated_at := Some now\<rparr>) (validation_invocations d)\<rparr>"

definition landing_cleanup_pending :: "string \<Rightarrow> db \<Rightarrow> bool" where
  "landing_cleanup_pending attempt_id d \<longleftrightarrow>
     list_ex (\<lambda>r. rd_kind r = RefLanding \<and> rd_owner_id r = attempt_id) (ref_debts d)"

fun apply_moved_base :: "moved_base_state \<Rightarrow> string \<Rightarrow> moved_base_state" where
  "apply_moved_base MovedNone candidate = MovedNone"
| "apply_moved_base (MovedPending target source) candidate = MovedApplied target source candidate"
| "apply_moved_base (MovedApplied target source _) candidate = MovedApplied target source candidate"

text \<open>The columns of an attempt that hold evidence about one candidate are cleared.\<close>

definition clear_validation :: "attempt \<Rightarrow> attempt" where
  "clear_validation a = a\<lparr>at_validated_commit_sha := None, at_validation_command := None,
     at_validation_exit_code := None, at_validation_log_path := None, at_signoff_evidence := None\<rparr>"

definition publish_candidate_state ::
    "string \<Rightarrow> string \<Rightarrow> effort \<Rightarrow> candidate_building \<Rightarrow> candidate_observation \<Rightarrow> db \<Rightarrow> (db \<times> integration_effort_state) result" where
  "publish_candidate_state now review_id e building obs d =
     (case cb_classification building of
        ClsMechanical \<Rightarrow>
          Ok (d, CandidateReady \<lparr>cr_cycle_id = cb_cycle_id building, cr_candidate_sha = co_candidate_sha obs,
                                 cr_review = RevMechanical\<rparr>)
      | ClsSemantic \<Rightarrow>
          bnd (insert_review \<lparr>rv_id = review_id, rv_effort_id = ef_id e, rv_attempt_id = ef_attempt_id e,
                 rv_cycle_id = cb_cycle_id building, rv_target_sha = ef_target_sha e,
                 rv_source_sha = ef_source_sha e, rv_candidate_sha = co_candidate_sha obs,
                 rv_status = ReviewOpen, rv_responder = None, rv_text = None, rv_created_at = now,
                 rv_answered_at = None\<rparr> d) (\<lambda>d.
          Ok (d, ReviewRequired \<lparr>rr_review_id = review_id, rr_cycle_id = cb_cycle_id building,
                                 rr_candidate_sha = co_candidate_sha obs\<rparr>)))"

definition candidate_event :: "effort \<Rightarrow> target_ref \<Rightarrow> candidate_building \<Rightarrow> integration_effort_state \<Rightarrow> event_payload" where
  "candidate_event e target_ref building state =
     (case state of
        ReviewRequired review \<Rightarrow>
          PayloadFields [(''review_id'', FText (rr_review_id review)), (''attempt_id'', FText (ef_attempt_id e)),
            (''cycle_id'', FText (rr_cycle_id review)), (''target_ref'', FText (target_ref_str target_ref)),
            (''target_sha'', FText (ef_target_sha e)), (''source_sha'', FText (ef_source_sha e)),
            (''candidate_sha'', FText (rr_candidate_sha review)),
            (''classification'', FClass (cb_classification building))]
      | CandidateReady ready \<Rightarrow>
          PayloadFields [(''cycle_id'', FText (cr_cycle_id ready)), (''candidate_sha'', FText (cr_candidate_sha ready)),
            (''classification'', FClass (cb_classification building))]
      | _ \<Rightarrow> PayloadFields [])"

definition record_candidate :: "string \<Rightarrow> string \<Rightarrow> string \<Rightarrow> string \<Rightarrow> candidate_observation \<Rightarrow> db \<Rightarrow> db result" where
  "record_candidate now review_id uuid effort_id obs d =
     bnd (required_effort effort_id d) (\<lambda>e.
     bnd (fetch (\<lambda>i. qi_id i = ef_item_id e) (queue_items d) (NoRow ''queue_items'')) (\<lambda>item.
     bnd (target_ref_from_full (qi_target_ref item)) (\<lambda>target_ref.
     bnd (effort_object_format effort_id d) (\<lambda>f.
     bnd (require_oid f (co_candidate_sha obs) ''candidate SHA'') (\<lambda>_.
     bnd (require_oid f (co_tree_sha obs) ''candidate tree'') (\<lambda>_.
     bnd (for_each (\<lambda>p. require_oid f p ''candidate parent'') (co_parent_shas obs)) (\<lambda>_.
     (case ef_state e of
        CandidateBuilding building \<Rightarrow>
          bnd (require (\<not> landing_cleanup_pending (ef_attempt_id e) d)
                 (Bail ''candidate publication waits for old landing-ref cleanup'')) (\<lambda>_.
          bnd (require (observation_matches building obs)
                 (Bail ''complete candidate Git observation differs from durable builder intent'')) (\<lambda>_.
          bnd (publish_candidate_state now review_id e building obs d) (\<lambda>(d, state).
          bnd (upsert_evidence \<lparr>ce_effort_id = effort_id, ce_cycle_id = cb_cycle_id building,
                 ce_candidate_sha = co_candidate_sha obs, ce_builder_operation_id = co_operation_id obs,
                 ce_classification = cb_classification building, ce_created_at = now\<rparr> d) (\<lambda>d.
          bnd (fetch (\<lambda>a. at_id a = ef_attempt_id e \<and> at_item_id a = ef_item_id e) (attempts d)
                 (NoRow ''integration_attempts'')) (\<lambda>attempt.
          let moved_base = apply_moved_base (at_moved_base attempt) (co_candidate_sha obs);
              d = invalidate_validation_invocations now (ef_attempt_id e) d in
          (case update_attempts (\<lambda>a. at_id a = ef_attempt_id e \<and> at_item_id a = ef_item_id e)
                  (\<lambda>a. (clear_validation a)\<lparr>at_merge_commit_sha := Some (co_candidate_sha obs),
                                            at_moved_base := moved_base\<rparr>) d of
             (d, projected) \<Rightarrow>
               bnd (require (projected = 1) (Bail ''candidate attempt projection lost exact effort authority'')) (\<lambda>_.
               bnd (update_state now e state d) (\<lambda>d.
               append_event now uuid e (state_name state) (candidate_event e target_ref building state)
                 (case state of ReviewRequired _ \<Rightarrow> True | _ \<Rightarrow> False) d))))))))
      | _ \<Rightarrow> Err (Bail ''candidate record requires candidate_building effort'')))))))))"

definition candidate_publication_waits_for_cleanup :: "string \<Rightarrow> db \<Rightarrow> bool result" where
  "candidate_publication_waits_for_cleanup effort_id d =
     bnd (required_effort effort_id d) (\<lambda>e. Ok (landing_cleanup_pending (ef_attempt_id e) d))"

definition reset_interrupted_candidate_build :: "string \<Rightarrow> string \<Rightarrow> string \<Rightarrow> db \<Rightarrow> (db \<times> effort) result" where
  "reset_interrupted_candidate_build now uuid effort_id d =
     bnd (required_effort effort_id d) (\<lambda>e.
     (case ef_state e of
        CandidateBuilding _ \<Rightarrow>
          bnd (next_cycle_number effort_id d) (\<lambda>next.
          bnd (update_state now e (AgentReady \<lparr>ar_next_cycle = next\<rparr>) d) (\<lambda>d.
          bnd (append_event now uuid e ''candidate_build_interrupted''
                 (PayloadFields [(''resume'', FText ''agent_ready'')]) False d) (\<lambda>d.
          bnd (required_effort effort_id d) (\<lambda>e'.
          Ok (d, e')))))
      | _ \<Rightarrow> Err (Bail ''candidate reset requires candidate_building effort'')))"

section \<open>Validation\<close>

definition start_validation :: "string \<Rightarrow> string \<Rightarrow> string \<Rightarrow> string \<Rightarrow> db \<Rightarrow> db result" where
  "start_validation now uuid effort_id policy_digest d =
     bnd (require (is_sha256_digest policy_digest)
            (Bail ''validation policy digest must be an exact SHA-256 digest'')) (\<lambda>_.
     bnd (required_effort effort_id d) (\<lambda>e.
     (case ef_state e of
        CandidateReady candidate \<Rightarrow>
          bnd (update_state now e (Validating \<lparr>va_candidate_sha = cr_candidate_sha candidate,
                 va_policy_digest = policy_digest, va_stage = Running\<rparr>) d) (\<lambda>d.
          append_event now uuid e ''validating''
            (PayloadFields [(''candidate_sha'', FText (cr_candidate_sha candidate)),
               (''policy_digest'', FText policy_digest)]) False d)
      | _ \<Rightarrow> Err (Bail ''validation requires candidate_ready effort''))))"

definition complete_validation :: "string \<Rightarrow> string \<Rightarrow> string \<Rightarrow> string \<Rightarrow> db \<Rightarrow> db result" where
  "complete_validation now uuid effort_id candidate_sha d =
     bnd (required_effort effort_id d) (\<lambda>e.
     bnd (effort_object_format effort_id d) (\<lambda>f.
     bnd (require_oid f candidate_sha ''validated candidate SHA'') (\<lambda>_.
     (case ef_state e of
        Validating v \<Rightarrow>
          bnd (require (va_stage v = Running \<and> va_candidate_sha v = candidate_sha)
                 (Bail ''validation completion differs from current candidate authority'')) (\<lambda>_.
          bnd (require ((case find (\<lambda>a. at_id a = ef_attempt_id e \<and> at_item_id a = ef_item_id e) (attempts d) of
                  None \<Rightarrow> None | Some a \<Rightarrow> at_validated_commit_sha a) = Some candidate_sha)
                 (Bail ''validation completion differs from exact attempt evidence'')) (\<lambda>_.
          bnd (update_state now e (Validating \<lparr>va_candidate_sha = candidate_sha,
                 va_policy_digest = va_policy_digest v, va_stage = Gates\<rparr>) d) (\<lambda>d.
          append_event now uuid e ''validation_succeeded''
            (PayloadFields [(''candidate_sha'', FText candidate_sha)]) False d)))
      | _ \<Rightarrow> Err (Bail ''validation completion requires validating effort'')))))"

section \<open>Rejection\<close>

definition evidence_cycle :: "string \<Rightarrow> string \<Rightarrow> db \<Rightarrow> string result" where
  "evidence_cycle effort_id candidate d =
     bnd (fetch (\<lambda>c. ce_effort_id c = effort_id \<and> ce_candidate_sha c = candidate) (evidences d)
            (NoRow ''candidate_evidence'')) (\<lambda>c. Ok (ce_cycle_id c))"

definition rejected_cycle :: "effort \<Rightarrow> db \<Rightarrow> string result" where
  "rejected_cycle e d =
     (case ef_state e of
        CandidateReady candidate \<Rightarrow> Ok (cr_cycle_id candidate)
      | Validating v \<Rightarrow> evidence_cycle (ef_id e) (va_candidate_sha v) d
      | Landing l \<Rightarrow> evidence_cycle (ef_id e) (ld_candidate_sha l) d
      | _ \<Rightarrow> Err (Bail ''candidate rejection requires current candidate authority''))"

definition reject_candidate :: "string \<Rightarrow> string \<Rightarrow> string \<Rightarrow> string \<Rightarrow> db \<Rightarrow> (db \<times> effort) result" where
  "reject_candidate now uuid effort_id evidence d =
     bnd (require_exact_text evidence ''candidate defect evidence'') (\<lambda>_.
     bnd (required_effort effort_id d) (\<lambda>e.
     bnd (require (\<not> contains_external_landing_authority (ef_state e))
            (Bail ''external landing authority cannot be replaced by candidate rejection'')) (\<lambda>_.
     bnd (rejected_cycle e d) (\<lambda>cycle_id.
     bnd (checked_increment (ef_failed_cycles e)) (\<lambda>count.
     let failure = CandidateDefect evidence in
     bnd (if count = AUTOMATIC_CYCLE_LIMIT
          then bnd (next_cycle_number effort_id d) (\<lambda>next.
               let state = cycle_limit_state effort_id cycle_id count failure uuid next d in
               bnd (append_event_with_id now uuid e ''cycle_limit'' (PayloadState state) True d) (\<lambda>d.
               Ok (d, state)))
          else if count < AUTOMATIC_CYCLE_LIMIT
          then Ok (d, AgentReady \<lparr>ar_next_cycle = count + 1\<rparr>)
          else Err (Bail ''automatic cycle limit is already reached'')) (\<lambda>(d, state).
     (case fail_cycle now cycle_id effort_id CyResolved failure d of
        (d, n) \<Rightarrow>
          bnd (require (n = 1) (Bail ''candidate cycle is not available for one defect classification'')) (\<lambda>_.
          bnd (delete_evidence (\<lambda>c. ce_effort_id c = effort_id) d) (\<lambda>d.
          (case update_attempts (\<lambda>a. at_id a = ef_attempt_id e)
                  (\<lambda>a. (clear_validation a)\<lparr>at_merge_commit_sha := None\<rparr>)
                  (invalidate_validation_invocations now (ef_attempt_id e) d) of
             (d, _) \<Rightarrow>
               bnd (update_state_and_count now e state count d) (\<lambda>d.
               bnd (if count < AUTOMATIC_CYCLE_LIMIT
                    then append_event now uuid e ''candidate_rejected'' (PayloadFailure failure) False d
                    else Ok d) (\<lambda>d.
               bnd (required_effort effort_id d) (\<lambda>e'.
               Ok (d, e'))))))))))))))"

section \<open>Review\<close>

definition responder_authorized :: "responder_identity \<Rightarrow> nat \<Rightarrow> state_repository_snapshot \<Rightarrow> bool" where
  "responder_authorized responder daemon_uid snapshot \<longleftrightarrow>
     (case responder of
        LocalPeer uid \<Rightarrow> uid = daemon_uid \<and> snapshot = Local
      | ProviderActor actor \<Rightarrow> permits_actor snapshot actor)"

definition command_identity_matches :: "review_command \<Rightarrow> review_command \<Rightarrow> bool" where
  "command_identity_matches left right \<longleftrightarrow>
     rm_external_id left = rm_external_id right \<and> rm_review_id left = rm_review_id right
     \<and> rm_effort_id left = rm_effort_id right \<and> rm_attempt_id left = rm_attempt_id right
     \<and> rm_cycle_id left = rm_cycle_id right \<and> rm_target_ref left = rm_target_ref right
     \<and> rm_target_sha left = rm_target_sha right \<and> rm_source_sha left = rm_source_sha right
     \<and> rm_candidate_sha left = rm_candidate_sha right"

definition command_is_malformed :: "review_command \<Rightarrow> git_object_format \<Rightarrow> bool" where
  "command_is_malformed command f \<longleftrightarrow>
     list_ex (\<lambda>(value, label). length value > 1024 \<or> \<not> is_ok (require_exact_text value label))
       [(rm_external_id command, ''candidate review external ID''), (rm_review_id command, ''candidate review ID''),
        (rm_effort_id command, ''candidate review effort ID''), (rm_attempt_id command, ''candidate review attempt ID''),
        (rm_cycle_id command, ''candidate review cycle ID'')]
     \<or> length (target_ref_str (rm_target_ref command)) > 1024
     \<or> \<not> is_ok (require_oid f (rm_target_sha command) ''candidate review target'')
     \<or> \<not> is_ok (require_oid f (rm_source_sha command) ''candidate review source'')
     \<or> \<not> is_ok (require_oid f (rm_candidate_sha command) ''candidate review candidate'')"

definition candidate_review_receipt :: "review_command \<Rightarrow> answer_disposition \<Rightarrow> string option \<Rightarrow> review_receipt" where
  "candidate_review_receipt command disposition state =
     \<lparr>rt_command = command, rt_disposition = disposition, rt_resulting_effort_state = state\<rparr>"

fun decision_text :: "review_decision \<Rightarrow> string option" where
  "decision_text (Approve text) = text"
| "decision_text (RequestChanges text) = Some text"

definition text_is_malformed :: "string option \<Rightarrow> bool" where
  "text_is_malformed text \<longleftrightarrow>
     (case text of None \<Rightarrow> False | Some t \<Rightarrow> trim t = [] \<or> t \<noteq> trim t \<or> length t > 16 * 1024)"

definition command_names_review :: "review_command \<Rightarrow> effort \<Rightarrow> target_ref \<Rightarrow> candidate_review_required \<Rightarrow> bool" where
  "command_names_review command e item_target_ref review \<longleftrightarrow>
     ef_id e = rm_effort_id command \<and> rr_review_id review = rm_review_id command
     \<and> ef_attempt_id e = rm_attempt_id command \<and> rr_cycle_id review = rm_cycle_id command
     \<and> item_target_ref = rm_target_ref command \<and> ef_target_sha e = rm_target_sha command
     \<and> ef_source_sha e = rm_source_sha command \<and> rr_candidate_sha review = rm_candidate_sha command"

definition reviewed_state :: "review_decision \<Rightarrow> effort \<Rightarrow> candidate_review_required \<Rightarrow> db \<Rightarrow>
    (review_status \<times> integration_effort_state \<times> string) result" where
  "reviewed_state decision e review d =
     (case decision of
        Approve _ \<Rightarrow>
          Ok (ReviewApproved,
              CandidateReady \<lparr>cr_cycle_id = rr_cycle_id review, cr_candidate_sha = rr_candidate_sha review,
                              cr_review = RevApproved (rr_review_id review)\<rparr>,
              ''candidate_review_approved'')
      | RequestChanges _ \<Rightarrow>
          bnd (next_cycle_number (ef_id e) d) (\<lambda>next.
          Ok (ReviewChangesRequested, AgentReady \<lparr>ar_next_cycle = next\<rparr>, ''candidate_changes_requested'')))"

definition apply_review ::
    "string \<Rightarrow> string \<Rightarrow> review_command \<Rightarrow> responder_identity \<Rightarrow> effort \<Rightarrow> candidate_review_required \<Rightarrow> db \<Rightarrow>
     (db \<times> integration_effort_state) result" where
  "apply_review now uuid command responder e review d =
     bnd (reviewed_state (rm_decision command) e review d) (\<lambda>(status, state, event_type).
     bnd (update_reviews (\<lambda>r. rv_id r = rr_review_id review \<and> rv_effort_id r = ef_id e \<and> rv_status r = ReviewOpen)
            (\<lambda>r. r\<lparr>rv_status := status, rv_responder := Some responder,
                   rv_text := decision_text (rm_decision command), rv_answered_at := Some now\<rparr>) d) (\<lambda>(d, n).
     bnd (require (n = 1) (Bail ''required candidate review authority changed'')) (\<lambda>_.
     bnd (case rm_decision command of
            Approve _ \<Rightarrow> Ok d
          | RequestChanges _ \<Rightarrow>
              bnd (delete_evidence (\<lambda>c. ce_effort_id c = ef_id e) d) (\<lambda>d.
              Ok (fst (update_attempts (\<lambda>a. at_id a = ef_attempt_id e \<and> at_item_id a = ef_item_id e)
                         (\<lambda>a. (clear_validation a)\<lparr>at_merge_commit_sha := None\<rparr>)
                         (invalidate_validation_invocations now (ef_attempt_id e) d))))) (\<lambda>d.
     bnd (update_state now e state d) (\<lambda>d.
     bnd (append_event now uuid e event_type
            (PayloadFields [(''review_id'', FText (rr_review_id review)),
               (''candidate_sha'', FText (rr_candidate_sha review)),
               (''text'', case decision_text (rm_decision command) of None \<Rightarrow> FNull | Some t \<Rightarrow> FText t)]) False d) (\<lambda>d.
     Ok (d, state)))))))"

text \<open>A known external identifier: the stored receipt is returned for the same command from the same
  responder, and nothing is applied.\<close>

definition known_review :: "review_command \<Rightarrow> responder_identity \<Rightarrow> review_receipt_row \<Rightarrow> review_receipt" where
  "known_review command responder stored =
     (if command = rx_command stored \<and> responder = rx_responder stored then rx_receipt stored
      else candidate_review_receipt command
             (if responder \<noteq> rx_responder stored then Unauthorized
              else if command_identity_matches (rx_command stored) command then Malformed
              else Stale) None)"

definition review_candidate_for_effort ::
    "string \<Rightarrow> string \<Rightarrow> review_command \<Rightarrow> string \<Rightarrow> responder_identity \<Rightarrow> nat \<Rightarrow> db \<Rightarrow> (db \<times> review_receipt) result" where
  "review_candidate_for_effort now uuid command effort_id responder daemon_uid d =
     (case find (\<lambda>r. rx_external_id r = rm_external_id command) (review_receipts d) of
        Some stored \<Rightarrow> Ok (d, known_review command responder stored)
      | None \<Rightarrow>
          bnd (required_effort effort_id d) (\<lambda>e.
          bnd (fetch (\<lambda>i. qi_id i = ef_item_id e) (queue_items d) (NoRow ''queue_items'')) (\<lambda>item.
          bnd (item_policy (ef_item_id e) d) (\<lambda>policy.
          bnd (target_ref_from_full (qi_target_ref item)) (\<lambda>item_target_ref.
          bnd (if \<not> responder_authorized responder daemon_uid (ef_state_repository e)
               then Ok (d, Unauthorized, state_name (ef_state e))
               else if command_is_malformed command (object_format (po_canonical_repository policy))
                 \<or> text_is_malformed (decision_text (rm_decision command))
               then Ok (d, Malformed, state_name (ef_state e))
               else (case ef_state e of
                       ReviewRequired review \<Rightarrow>
                         if command_names_review command e item_target_ref review
                         then bnd (apply_review now uuid command responder e review d) (\<lambda>(d, state).
                              Ok (d, Applied, state_name state))
                         else Ok (d, Stale, state_name (ef_state e))
                     | _ \<Rightarrow> Ok (d, Stale, state_name (ef_state e)))) (\<lambda>(d, disposition, resulting).
          let receipt = candidate_review_receipt command disposition
                          (if disposition = Applied then Some resulting else None) in
          Ok (d\<lparr>review_receipts := review_receipts d @
                [\<lparr>rx_external_id = rm_external_id command, rx_effort_id = rm_effort_id command,
                  rx_command = command, rx_responder = responder, rx_receipt = receipt, rx_created_at = now\<rparr>]\<rparr>,
              receipt)))))))"

definition review_candidate ::
    "string \<Rightarrow> string \<Rightarrow> review_command \<Rightarrow> responder_identity \<Rightarrow> nat \<Rightarrow> db \<Rightarrow> (db \<times> review_receipt) result" where
  "review_candidate now uuid command responder daemon_uid d =
     review_candidate_for_effort now uuid command (rm_effort_id command) responder daemon_uid d"

end
