(* ===== verification/Store_Landing.thy ===== *)
theory Store_Landing
  imports Store_Candidate
begin

text \<open>
  The operations of \<open>control_store.rs\<close> from the landing of a candidate to its integration, and the
  movement of the target under a candidate: preparation and release of the landing command, the
  terminal record with its cleanup, checkout and replication debts, and the two phases of target
  movement with the definite rejection of a stale landing lease.
\<close>

section \<open>Landing\<close>

fun signoff_policy_digest :: "signoff_disposition \<Rightarrow> string" where
  "signoff_policy_digest (NoValidation digest) = digest"
| "signoff_policy_digest (ValidationWithoutSignoff digest) = digest"
| "signoff_policy_digest (Evidence digest _ _) = digest"

definition begin_landing ::
    "string \<Rightarrow> string \<Rightarrow> string \<Rightarrow> string \<Rightarrow> string \<Rightarrow> string \<Rightarrow> signoff_disposition \<Rightarrow> db \<Rightarrow> db result" where
  "begin_landing now uuid effort_id expected_target_sha lease_id command_id signoff d =
     bnd (require_exact_text lease_id ''landing lease identity'') (\<lambda>_.
     bnd (require_exact_text command_id ''landing command identity'') (\<lambda>_.
     bnd (required_effort effort_id d) (\<lambda>e.
     bnd (effort_object_format effort_id d) (\<lambda>f.
     bnd (require_oid f expected_target_sha ''landing target SHA'') (\<lambda>_.
     (case ef_state e of
        Validating v \<Rightarrow>
          bnd (require (is_sha256_digest (signoff_policy_digest signoff))
                 (Bail ''landing policy digest must be an exact SHA-256 digest'')) (\<lambda>_.
          bnd (require (signoff_policy_digest signoff = va_policy_digest v)
                 (Bail ''landing evidence policy digest differs from validation authority'')) (\<lambda>_.
          bnd (require (case signoff of Evidence _ candidate _ \<Rightarrow> candidate = va_candidate_sha v | _ \<Rightarrow> True)
                 (Bail ''signoff evidence names a different candidate'')) (\<lambda>_.
          let state = Landing \<lparr>ld_candidate_sha = va_candidate_sha v, ld_expected_target_sha = expected_target_sha,
                        ld_lease_id = lease_id, ld_signoff = signoff\<rparr> in
          bnd (update_state now e state d) (\<lambda>d.
          append_event now uuid e ''landing_prepared'' (PayloadState state) False d))))
      | _ \<Rightarrow> Err (Bail ''landing requires validating effort'')))))))"

definition release_landing :: "string \<Rightarrow> string \<Rightarrow> string \<Rightarrow> string \<Rightarrow> db \<Rightarrow> db result" where
  "release_landing now uuid effort_id command_id d =
     bnd (require_exact_text command_id ''landing command identity'') (\<lambda>_.
     bnd (required_effort effort_id d) (\<lambda>e.
     (case ef_state e of
        Landing l \<Rightarrow>
          let state = LandingUncertain \<lparr>lu_candidate_sha = ld_candidate_sha l,
                        lu_expected_target_sha = ld_expected_target_sha l, lu_command_id = command_id,
                        lu_evidence = ''command_gate_released''\<rparr> in
          bnd (update_state now e state d) (\<lambda>d.
          append_event now uuid e ''landing_released'' (PayloadState state) False d)
      | _ \<Rightarrow> Err (Bail ''landing command release requires prepared landing effort''))))"

section \<open>Integration\<close>

definition landing_ref :: "string \<Rightarrow> string" where
  "landing_ref attempt_id = ''refs/iq/landings/'' @ attempt_id"

text \<open>The landing ref of an attempt becomes a cleanup debt; an existing debt must be the same.\<close>

definition record_landing_ref_debt :: "string \<Rightarrow> string \<Rightarrow> string \<Rightarrow> string \<Rightarrow> db \<Rightarrow> db result" where
  "record_landing_ref_debt repo_key attempt_id candidate message d =
     bnd (insert_ref_debt \<lparr>rd_repo_key = repo_key, rd_kind = RefLanding, rd_owner_id = attempt_id,
            rd_ref_name = landing_ref attempt_id, rd_expected_sha = candidate\<rparr> d) (\<lambda>(d, inserted).
     if inserted = 0
     then bnd (fetch (\<lambda>r. rd_repo_key r = repo_key \<and> rd_ref_name r = landing_ref attempt_id) (ref_debts d)
                 (NoRow ''private_ref_cleanup_debt'')) (\<lambda>r.
          bnd (require (rd_kind r = RefLanding \<and> rd_owner_id r = attempt_id \<and> rd_expected_sha r = candidate)
                 (Bail message)) (\<lambda>_. Ok d))
     else Ok d)"

definition item_submission :: "string \<Rightarrow> db \<Rightarrow> submission option" where
  "item_submission item_id d =
     (case find (\<lambda>a. ad_item_id a = item_id \<and> ad_kind a = AdmitLocalSubmission
                 \<and> list_ex (\<lambda>s. ad_submission_id a = Some (su_id s)) (submissions d)) (admissions d) of
        None \<Rightarrow> None
      | Some a \<Rightarrow> find (\<lambda>s. ad_submission_id a = Some (su_id s)) (submissions d))"

definition integrate_local_submission :: "string \<Rightarrow> db \<Rightarrow> db result" where
  "integrate_local_submission item_id d =
     (case item_submission item_id d of
        None \<Rightarrow> Ok d
      | Some s \<Rightarrow>
          let p = (\<lambda>x. su_id x = su_id s \<and> su_state x = SubQueued);
              w = (\<lambda>x. dw_id x = su_workspace_id s
                     \<and> list_ex (\<lambda>st. dw_status x = st) [WsSubmitted, WsCleanupPending, WsCleanupFailed])
          in bnd (require (changed p (submissions d) = 1 \<and> changed w (workspaces d) = 1)
                    (Bail ''local submission cannot enter integrated cleanup debt'')) (\<lambda>_.
             Ok (d\<lparr>submissions := modify p (\<lambda>x. x\<lparr>su_state := SubIntegrated\<rparr>) (submissions d),
                   workspaces := modify w (\<lambda>x. x\<lparr>dw_status := WsCleanupPending, dw_cleanup := CleanPending\<rparr>)
                                   (workspaces d)\<rparr>)))"

definition cancel_local_submission :: "string \<Rightarrow> db \<Rightarrow> db result" where
  "cancel_local_submission item_id d =
     (case item_submission item_id d of
        None \<Rightarrow> Ok d
      | Some s \<Rightarrow>
          let p = (\<lambda>x. su_id x = su_id s \<and> su_state x = SubQueued);
              w = (\<lambda>x. dw_id x = su_workspace_id s \<and> dw_status x = WsSubmitted)
          in bnd (require (changed p (submissions d) = 1 \<and> changed w (workspaces d) = 1)
                    (Bail ''cancelled local submission cannot return its workspace to active'')) (\<lambda>_.
             Ok (d\<lparr>submissions := modify p (\<lambda>x. x\<lparr>su_state := SubCancelled\<rparr>) (submissions d),
                   workspaces := modify w (\<lambda>x. x\<lparr>dw_status := WsActive, dw_cleanup := CleanPending\<rparr>)
                                   (workspaces d)\<rparr>)))"

definition next_replication_sequence :: "physical_repository_identity \<Rightarrow> string \<Rightarrow> db \<Rightarrow> nat" where
  "next_replication_sequence destination target_ref d =
     Suc (foldr max (map xd_sequence
       (filter (\<lambda>x. xd_destination_key x = destination \<and> xd_target_ref x = target_ref) (replication_debts d))) 0)"

text \<open>One debt per replica of the policy, in the order of the policy; \<open>fresh\<close> gives the
  generated identifiers of the debts.\<close>

fun record_replication_debts ::
    "string \<Rightarrow> string \<Rightarrow> string \<Rightarrow> string \<Rightarrow> git_repository list \<Rightarrow> (nat \<Rightarrow> string) \<Rightarrow> db \<Rightarrow> db result" where
  "record_replication_debts item_id repo_key target_ref landed_sha [] fresh d = Ok d"
| "record_replication_debts item_id repo_key target_ref landed_sha (r # rs) fresh d =
     bnd (insert_replication_debt \<lparr>xd_id = fresh 0, xd_item_id = item_id, xd_repo_key = repo_key,
            xd_canonical_source_sha = landed_sha, xd_destination_key = destination_identity_key r,
            xd_target_ref = target_ref,
            xd_sequence = next_replication_sequence (destination_identity_key r) target_ref d,
            xd_replica = r, xd_expected_destination_sha = None, xd_operation = PinSource,
            xd_outcome = OutPinning, xd_application_id = None, xd_failure = None,
            xd_superseded_by_id = None\<rparr> d) (\<lambda>d.
     record_replication_debts item_id repo_key target_ref landed_sha rs (\<lambda>n. fresh (Suc n)) d)"

definition landing_candidate :: "integration_effort_state \<Rightarrow> string result" where
  "landing_candidate state =
     (case state of
        Landing l \<Rightarrow> Ok (ld_candidate_sha l)
      | LandingUncertain l \<Rightarrow> Ok (lu_candidate_sha l)
      | _ \<Rightarrow> Err (Bail ''integration completion requires landing authority''))"

definition mark_integrated ::
    "string \<Rightarrow> string \<Rightarrow> (nat \<Rightarrow> string) \<Rightarrow> string \<Rightarrow> string \<Rightarrow> string \<Rightarrow> db \<Rightarrow> db result" where
  "mark_integrated now event_id fresh effort_id landed_sha remote_target_sha d =
     bnd (required_effort effort_id d) (\<lambda>e.
     bnd (effort_object_format effort_id d) (\<lambda>f.
     bnd (require_oid f landed_sha ''landed SHA'') (\<lambda>_.
     bnd (require_oid f remote_target_sha ''remote target SHA'') (\<lambda>_.
     bnd (fetch (\<lambda>i. qi_id i = ef_item_id e) (queue_items d) (NoRow ''queue_items'')) (\<lambda>item.
     bnd (item_policy (ef_item_id e) d) (\<lambda>policy.
     bnd (require_obligation (po_operation_state policy) (QueueItemObligation (ef_item_id e))) (\<lambda>_.
     bnd (landing_candidate (ef_state e)) (\<lambda>candidate_sha.
     let state = Integrated \<lparr>in_candidate_sha = candidate_sha, in_landed_sha = landed_sha,
                   in_attempt_id = ef_attempt_id e, in_event_id = event_id\<rparr> in
     bnd (insert_cleanup_debt (ef_item_id e) (Retained (ef_workspace e)) now d) (\<lambda>d.
     let d = fst (update_attempts (\<lambda>a. at_id a = ef_attempt_id e \<and> at_item_id a = ef_item_id e)
                    (\<lambda>a. a\<lparr>at_landed_commit_sha := Some landed_sha, at_result := Some ''integrated'',
                           at_finished_at := Some now\<rparr>) d) in
     bnd (update_state now e state d) (\<lambda>d.
     bnd (record_landing_ref_debt (qi_repo_key item) (ef_attempt_id e) candidate_sha
            ''landing cleanup debt differs from integration authority'' d) (\<lambda>d.
     bnd (integrate_local_submission (ef_item_id e) d) (\<lambda>d.
     bnd (update_checkout (qi_repo_key item) (qi_target_ref item) remote_target_sha d) (\<lambda>(d, _).
     bnd (case po_replication_policy policy of
            NoReplication \<Rightarrow> Ok d
          | Replicate targets \<Rightarrow>
              record_replication_debts (ef_item_id e) (qi_repo_key item) (qi_target_ref item) landed_sha targets fresh d) (\<lambda>d.
     append_event_with_id now event_id e ''integrated'' (PayloadState state) False d))))))))))))))"

section \<open>Target movement\<close>

definition authorize_definite_landing_rejection ::
    "string \<Rightarrow> string \<Rightarrow> string \<Rightarrow> db \<Rightarrow> definite_landing_rejection result" where
  "authorize_definite_landing_rejection effort_id command_id expected_target_sha d =
     bnd (require_exact_text command_id ''landing command identity'') (\<lambda>_.
     bnd (required_effort effort_id d) (\<lambda>e.
     bnd (effort_object_format effort_id d) (\<lambda>f.
     bnd (require_oid f expected_target_sha ''expected landing target SHA'') (\<lambda>_.
     let rejection = \<lparr>dl_effort_id = effort_id, dl_command_id = command_id,
                      dl_expected_target_sha = expected_target_sha\<rparr> in
     bnd (require_target_move_authority e (Some rejection)) (\<lambda>_.
     Ok rejection)))))"

fun movable_state :: "integration_effort_state \<Rightarrow> bool" where
  "movable_state (ReviewRequired _) = True"
| "movable_state (CandidateReady _) = True"
| "movable_state (Validating _) = True"
| "movable_state (Landing _) = True"
| "movable_state (LandingUncertain _) = True"
| "movable_state _ = False"

definition supersede_open_review :: "string \<Rightarrow> string \<Rightarrow> effort \<Rightarrow> candidate_review_required \<Rightarrow> db \<Rightarrow> db result" where
  "supersede_open_review now target_sha e review d =
     bnd (update_reviews
            (\<lambda>r. rv_id r = rr_review_id review \<and> rv_effort_id r = ef_id e \<and> rv_cycle_id r = rr_cycle_id review
               \<and> rv_candidate_sha r = rr_candidate_sha review \<and> rv_status r = ReviewOpen)
            (\<lambda>r. r\<lparr>rv_status := ReviewSuperseded, rv_answered_at := Some now\<rparr>) d) (\<lambda>(d, superseded).
     bnd (require (superseded = 1) (Bail ''open candidate review changed before target movement'')) (\<lambda>_.
     (case update_cycles (\<lambda>c. cy_id c = rr_cycle_id review \<and> cy_effort_id c = ef_id e \<and> cy_status c = CyResolved)
             (\<lambda>c. c\<lparr>cy_status := CySuperseded, cy_finished_at := Some now\<rparr>) d of
        (d, n) \<Rightarrow>
          bnd (require (n = 1) (Bail ''candidate review cycle changed before target movement'')) (\<lambda>_.
          let d = invalidate_validation_invocations now (ef_attempt_id e) d in
          (case find (\<lambda>i. qi_id i = ef_item_id e) (queue_items d) of
             None \<Rightarrow> Err (Bail ''review target movement lost registered checkout authority'')
           | Some item \<Rightarrow>
               bnd (update_checkout (qi_repo_key item) (qi_target_ref item) target_sha d) (\<lambda>(d, pending).
               bnd (require (pending = 1) (Bail ''review target movement lost registered checkout authority'')) (\<lambda>_.
               Ok d)))))))"

definition move_cause :: "effort \<Rightarrow> definite_landing_rejection option \<Rightarrow> target_move_cause" where
  "move_cause e rejection =
     (case rejection of
        Some r \<Rightarrow> StaleLandingLease (dl_command_id r) (dl_expected_target_sha r)
      | None \<Rightarrow> Observed (ef_target_sha e))"

definition begin_target_move_with_resolution ::
    "string \<Rightarrow> string \<Rightarrow> string \<Rightarrow> string \<Rightarrow> definite_landing_rejection option \<Rightarrow> db \<Rightarrow> db result" where
  "begin_target_move_with_resolution now uuid effort_id target_sha rejection d =
     bnd (required_effort effort_id d) (\<lambda>e.
     bnd (effort_object_format effort_id d) (\<lambda>f.
     bnd (require_oid f target_sha ''replacement target SHA'') (\<lambda>_.
     (case ef_state e of
        TargetMovePending pending \<Rightarrow>
          bnd (require (tm_target_sha pending = target_sha \<and> tm_source_sha pending = ef_source_sha e
                  \<and> target_move_cause_matches (tm_cause pending) rejection)
                 (Bail ''pending target movement differs from durable authority'')) (\<lambda>_. Ok d)
      | _ \<Rightarrow>
          bnd (require_target_move_authority e rejection) (\<lambda>_.
          bnd (require (movable_state (ef_state e))
                 (Bail ''target movement requires candidate or landing authority'')) (\<lambda>_.
          bnd (capture (ef_state e)) (\<lambda>previous.
          let state = TargetMovePending \<lparr>tm_target_sha = target_sha, tm_source_sha = ef_source_sha e,
                        tm_previous = previous, tm_cause = move_cause e rejection\<rparr> in
          bnd (case ef_state e of
                 ReviewRequired review \<Rightarrow> supersede_open_review now target_sha e review d
               | _ \<Rightarrow> Ok d) (\<lambda>d.
          (case update_attempts (\<lambda>a. at_id a = ef_attempt_id e \<and> at_item_id a = ef_item_id e)
                  (\<lambda>a. a\<lparr>at_moved_base := MovedPending target_sha (ef_source_sha e)\<rparr>) d of
             (d, n) \<Rightarrow>
               bnd (require (n = 1) (Bail ''target movement lost exact attempt authority'')) (\<lambda>_.
               bnd (update_state_and_count_with_resolution now e state (ef_failed_cycles e) rejection d) (\<lambda>d.
               (case update_item_columns
                       (\<lambda>i. qi_id i = ef_item_id e \<and> qi_current_attempt_id i = Some (ef_attempt_id e))
                       (\<lambda>i. i\<lparr>qi_target_sha := Some target_sha, qi_source_sha := Some (ef_source_sha e),
                              qi_updated_at := now\<rparr>) d of
                  (d, projected) \<Rightarrow>
                    bnd (require (projected = 1) (Bail ''pending target movement lost queue projection authority'')) (\<lambda>_.
                    append_event now uuid e ''target_move_pending''
                      (PayloadFields [(''old_target_sha'', FText (ef_target_sha e)),
                         (''target_sha'', FText target_sha)]) False d)))))))))))))"

definition begin_target_move :: "string \<Rightarrow> string \<Rightarrow> string \<Rightarrow> string \<Rightarrow> db \<Rightarrow> db result" where
  "begin_target_move now uuid effort_id target_sha d =
     begin_target_move_with_resolution now uuid effort_id target_sha None d"

definition begin_target_move_after_definite_landing_rejection ::
    "string \<Rightarrow> string \<Rightarrow> string \<Rightarrow> string \<Rightarrow> definite_landing_rejection \<Rightarrow> db \<Rightarrow> db result" where
  "begin_target_move_after_definite_landing_rejection now uuid effort_id target_sha rejection d =
     begin_target_move_with_resolution now uuid effort_id target_sha (Some rejection) d"

definition prepare_target_recomposition_with_resolution ::
    "string \<Rightarrow> string \<Rightarrow> definite_landing_rejection option \<Rightarrow> db \<Rightarrow> (db \<times> effort) result" where
  "prepare_target_recomposition_with_resolution effort_id target_sha rejection d =
     bnd (required_effort effort_id d) (\<lambda>e.
     bnd (effort_object_format effort_id d) (\<lambda>f.
     bnd (require_oid f target_sha ''replacement target SHA'') (\<lambda>_.
     (case ef_state e of
        TargetMovePending pending \<Rightarrow>
          bnd (require (tm_target_sha pending = target_sha \<and> tm_source_sha pending = ef_source_sha e
                  \<and> target_move_cause_matches (tm_cause pending) rejection)
                 (Bail ''target recomposition differs from pending target authority'')) (\<lambda>_.
          (case resume_candidate_sha (tm_previous pending) of
             None \<Rightarrow> Err (Bail ''target recomposition has no old candidate cleanup authority'')
           | Some old_candidate \<Rightarrow>
               bnd (fetch (\<lambda>i. qi_id i = ef_item_id e) (queue_items d) (NoRow ''queue_items'')) (\<lambda>item.
               bnd (fetch (\<lambda>a. at_id a = ef_attempt_id e \<and> at_item_id a = ef_item_id e) (attempts d)
                      (NoRow ''integration_attempts'')) (\<lambda>attempt.
               bnd (require (at_merge_commit_sha attempt = Some old_candidate)
                      (Bail ''old landing-ref candidate differs from exact attempt binding'')) (\<lambda>_.
               bnd (record_landing_ref_debt (qi_repo_key item) (ef_attempt_id e) old_candidate
                      ''old landing-ref cleanup debt differs from recomposition authority'' d) (\<lambda>d.
               bnd (required_effort effort_id d) (\<lambda>e'.
               Ok (d, e'))))))))
      | _ \<Rightarrow>
          bnd (require_target_move_authority e rejection) (\<lambda>_.
          Err (Bail ''target recomposition requires durable pending target movement''))))))"

definition landing_debt_for :: "effort \<Rightarrow> string \<Rightarrow> db \<Rightarrow> bool" where
  "landing_debt_for e candidate d \<longleftrightarrow>
     list_ex (\<lambda>r. rd_kind r = RefLanding \<and> rd_owner_id r = ef_attempt_id e
       \<and> rd_ref_name r = landing_ref (ef_attempt_id e) \<and> rd_expected_sha r = candidate
       \<and> list_ex (\<lambda>i. qi_id i = ef_item_id e \<and> qi_repo_key i = rd_repo_key r) (queue_items d)) (ref_debts d)"

definition clear_candidate :: "string \<Rightarrow> effort \<Rightarrow> string \<Rightarrow> db \<Rightarrow> db result" where
  "clear_candidate now e target_sha d =
     (let d = fst (update_cycles (\<lambda>c. cy_effort_id c = ef_id e \<and> cy_status c = CyResolved)
                     (\<lambda>c. c\<lparr>cy_status := CySuperseded, cy_finished_at := Some now\<rparr>) d) in
      bnd (delete_evidence (\<lambda>c. ce_effort_id c = ef_id e) d) (\<lambda>d.
      bnd (update_reviews (\<lambda>r. rv_effort_id r = ef_id e \<and> rv_status r = ReviewOpen)
             (\<lambda>r. r\<lparr>rv_status := ReviewSuperseded, rv_answered_at := Some now\<rparr>) d) (\<lambda>(d, _).
      Ok (fst (update_attempts (\<lambda>a. at_id a = ef_attempt_id e)
                 (\<lambda>a. (clear_validation a)\<lparr>at_target_base_sha := Some target_sha, at_merge_commit_sha := None,
                        at_moved_base := MovedPending target_sha (ef_source_sha e)\<rparr>)
                 (invalidate_validation_invocations now (ef_attempt_id e) d))))))"

definition complete_target_recomposition ::
    "string \<Rightarrow> string \<Rightarrow> string \<Rightarrow> string \<Rightarrow> string \<Rightarrow> composition_evidence \<Rightarrow> db \<Rightarrow> (db \<times> effort) result" where
  "complete_target_recomposition now uuid effort_id target_sha conflict composition d =
     bnd (required_effort effort_id d) (\<lambda>e.
     bnd (effort_object_format effort_id d) (\<lambda>f.
     bnd (require_oid f target_sha ''replacement target SHA'') (\<lambda>_.
     bnd (composition_validate composition f False) (\<lambda>_.
     (case ef_state e of
        TargetMovePending pending \<Rightarrow>
          bnd (require (tm_target_sha pending = target_sha \<and> tm_source_sha pending = ef_source_sha e)
                 (Bail ''target recomposition differs from pending target authority'')) (\<lambda>_.
          (case resume_candidate_sha (tm_previous pending) of
             None \<Rightarrow> Err (Bail ''target recomposition has no old candidate cleanup authority'')
           | Some old_candidate \<Rightarrow>
               bnd (fetch (\<lambda>a. at_id a = ef_attempt_id e \<and> at_item_id a = ef_item_id e) (attempts d)
                      (NoRow ''integration_attempts'')) (\<lambda>attempt.
               bnd (require (at_merge_commit_sha attempt = Some old_candidate)
                      (Bail ''old landing-ref candidate differs from exact attempt binding'')) (\<lambda>_.
               bnd (require (\<not> landing_debt_for e old_candidate d)
                      (Bail ''target recomposition cannot clear candidate authority before landing-ref cleanup'')) (\<lambda>_.
               bnd (clear_candidate now e target_sha d) (\<lambda>d.
               bnd (update_effort_columns (\<lambda>x. ef_id x = effort_id)
                      (\<lambda>x. x\<lparr>ef_target_sha := target_sha, ef_composition := composition\<rparr>) d) (\<lambda>d.
               bnd (next_cycle_number effort_id d) (\<lambda>next.
               bnd (update_state_and_count_with_resolution now e (AgentReady \<lparr>ar_next_cycle = next\<rparr>)
                      (ef_failed_cycles e) None d) (\<lambda>d.
               (case update_item_columns
                       (\<lambda>i. qi_id i = ef_item_id e \<and> qi_current_attempt_id i = Some (ef_attempt_id e))
                       (\<lambda>i. i\<lparr>qi_target_sha := Some target_sha, qi_source_sha := Some (ef_source_sha e),
                              qi_conflict := Some conflict, qi_updated_at := now\<rparr>) d of
                  (d, projected) \<Rightarrow>
                    bnd (require (projected = 1)
                           (Bail ''target recomposition projection lost queue item or attempt identity'')) (\<lambda>_.
                    bnd (append_event now uuid e ''target_moved''
                           (PayloadFields [(''old_target_sha'', FText (ef_target_sha e)),
                              (''target_sha'', FText target_sha)]) False d) (\<lambda>d.
                    bnd (required_effort effort_id d) (\<lambda>e'.
                    Ok (d, e'))))))))))))))
      | _ \<Rightarrow> Err (Bail ''target recomposition requires durable pending target movement''))))))"

end
