(* ===== verification/Store_Blockers.thy ===== *)
theory Store_Blockers
  imports Store_Landing "HOL-Library.Char_ord" "HOL-Library.List_Lexorder" "HOL-Library.Product_Lexorder"
begin

text \<open>
  The operations of \<open>control_store.rs\<close> on blocked and cancelled efforts: guidance and its answers,
  infrastructure and provider blockers, retries, cancellation with the debt to terminate the
  runner, and the reconciliation of that debt.
\<close>

section \<open>Blockers\<close>

definition require_guidance :: "string \<Rightarrow> string \<Rightarrow> string \<Rightarrow> semantic_guidance_blocker \<Rightarrow> db \<Rightarrow> db result" where
  "require_guidance now uuid effort_id guidance d =
     bnd (required_effort effort_id d) (\<lambda>e.
     (case ef_state e of
        AgentRunning running \<Rightarrow>
          bnd (require (xi_cycle_id (sg_identity guidance) = ag_cycle_id running)
                 (Bail ''guidance identity differs from running cycle'')) (\<lambda>_.
          let count = ef_failed_cycles e + 1;
              d = fst (update_cycles (\<lambda>c. cy_id c = ag_cycle_id running \<and> cy_status c = CyRunning)
                         (\<lambda>c. c\<lparr>cy_status := CyGuidanceRequired, cy_finished_at := Some now\<rparr>) d) in
          bnd (insert_guidance_request \<lparr>gr_id = sg_request_id guidance, gr_effort_id = effort_id,
                 gr_cycle_id = ag_cycle_id running, gr_request = guidance, gr_status = RequestOpen,
                 gr_created_at = now, gr_answered_at = None\<rparr> d) (\<lambda>d.
          bnd (next_cycle_number effort_id d) (\<lambda>next.
          let state = GuidanceRequired \<lparr>be_blocker = SemanticGuidance guidance,
                        be_resume = RsAgentReady \<lparr>ar_next_cycle = next\<rparr>\<rparr> in
          bnd (update_state_and_count now e state count d) (\<lambda>d.
          append_event now uuid e ''guidance_required'' (PayloadState state) True d))))
      | _ \<Rightarrow> Err (Bail ''guidance requires agent_running effort'')))"

definition block_infrastructure :: "string \<Rightarrow> string \<Rightarrow> string \<Rightarrow> infrastructure_blocker \<Rightarrow> db \<Rightarrow> db result" where
  "block_infrastructure now uuid effort_id blocker d =
     bnd (required_effort effort_id d) (\<lambda>e.
     bnd (capture (ef_state e)) (\<lambda>resume.
     let state = InfrastructureBlocked \<lparr>be_blocker = Infrastructure blocker, be_resume = resume\<rparr> in
     bnd (update_state now e state d) (\<lambda>d.
     append_event now uuid e ''infrastructure_blocked'' (PayloadState state) True d)))"

definition block_provider :: "string \<Rightarrow> string \<Rightarrow> string \<Rightarrow> provider_signoff_blocker \<Rightarrow> db \<Rightarrow> db result" where
  "block_provider now uuid effort_id blocker d =
     bnd (required_effort effort_id d) (\<lambda>e.
     bnd (capture (ef_state e)) (\<lambda>resume.
     let state = ProviderBlocked \<lparr>be_blocker = ProviderSignoff blocker, be_resume = resume\<rparr> in
     bnd (update_state now e state d) (\<lambda>d.
     append_event now uuid e ''provider_blocked'' (PayloadState state) True d)))"

section \<open>Answers and retries\<close>

definition answer_names_request :: "answer_command \<Rightarrow> effort \<Rightarrow> semantic_guidance_blocker \<Rightarrow> bool" where
  "answer_names_request command e guidance \<longleftrightarrow>
     ef_id e = ac_effort_id command \<and> sg_request_id guidance = ac_request_id command
     \<and> xi_attempt_id (sg_identity guidance) = ac_attempt_id command
     \<and> xi_cycle_id (sg_identity guidance) = ac_cycle_id command
     \<and> xi_target_sha (sg_identity guidance) = ac_target_sha command
     \<and> xi_source_sha (sg_identity guidance) = ac_source_sha command
     \<and> xi_candidate_sha (sg_identity guidance) = ac_candidate_sha command"

definition apply_answer :: "string \<Rightarrow> string \<Rightarrow> answer_command \<Rightarrow> effort \<Rightarrow> db \<Rightarrow> db result" where
  "apply_answer now uuid command e d =
     bnd (next_cycle_number (ef_id e) d) (\<lambda>next.
     (case update_guidance_requests
             (\<lambda>g. gr_id g = ac_request_id command \<and> gr_effort_id g = ef_id e \<and> gr_status g = RequestOpen)
             (\<lambda>g. g\<lparr>gr_status := RequestAnswered, gr_answered_at := Some now\<rparr>) d of
        (d, n) \<Rightarrow>
          bnd (require (n = 1) (Bail ''open guidance request authority changed before answer'')) (\<lambda>_.
          bnd (update_state now e (AgentReady \<lparr>ar_next_cycle = next\<rparr>) d) (\<lambda>d.
          append_event now uuid e ''answer_applied''
            (PayloadFields [(''request_id'', FText (ac_request_id command))]) False d))))"

text \<open>The arm for a guidance state whose blocker is no semantic guidance is \<open>unreachable!\<close> in the source:
  \<open>required_effort\<close> has refused such a state.\<close>

definition answer_for_effort ::
    "string \<Rightarrow> string \<Rightarrow> answer_command \<Rightarrow> string \<Rightarrow> responder_identity \<Rightarrow> nat \<Rightarrow> db \<Rightarrow> (db \<times> answer_disposition) result" where
  "answer_for_effort now uuid command effort_id responder daemon_uid d =
     (if list_ex (\<lambda>r. ax_external_id r = ac_external_id command) (answer_receipts d) then Ok (d, Duplicate)
      else
        bnd (required_effort effort_id d) (\<lambda>e.
        bnd (require_item_obligation (ef_item_id e) d) (\<lambda>_.
        bnd (if \<not> responder_authorized responder daemon_uid (ef_state_repository e) then Ok (d, Unauthorized)
             else if trim (ac_answer command) = [] \<or> ac_answer command \<noteq> trim (ac_answer command)
             then Ok (d, Malformed)
             else (case ef_state e of
                     GuidanceRequired blocked \<Rightarrow>
                       (case be_blocker blocked of
                          SemanticGuidance guidance \<Rightarrow>
                            if answer_names_request command e guidance
                            then bnd (apply_answer now uuid command e d) (\<lambda>d. Ok (d, Applied))
                            else Ok (d, Stale)
                        | _ \<Rightarrow> Err (Bail ''internal error: entered unreachable code''))
                   | _ \<Rightarrow> Ok (d, Stale))) (\<lambda>(d, disposition).
        Ok (d\<lparr>answer_receipts := answer_receipts d @
              [\<lparr>ax_external_id = ac_external_id command, ax_effort_id = ef_id e,
                ax_request_id = ac_request_id command, ax_responder = responder, ax_answer = ac_answer command,
                ax_disposition = disposition, ax_created_at = now\<rparr>]\<rparr>, disposition)))))"

definition answer ::
    "string \<Rightarrow> string \<Rightarrow> answer_command \<Rightarrow> responder_identity \<Rightarrow> nat \<Rightarrow> db \<Rightarrow> (db \<times> answer_disposition) result" where
  "answer now uuid command responder daemon_uid d =
     answer_for_effort now uuid command (ac_effort_id command) responder daemon_uid d"

definition retry_permitted :: "operation_state \<Rightarrow> string \<Rightarrow> unit result" where
  "retry_permitted st item_id =
     (case st of
        Enabled \<Rightarrow> Ok ()
      | Draining obligations \<Rightarrow>
          if QueueItemObligation item_id \<in> obligations then Ok ()
          else Err (Bail ''retry is not a captured draining obligation'')
      | Disabled \<Rightarrow> Err (Bail ''repository is disabled''))"

definition retried_state :: "effort \<Rightarrow> db \<Rightarrow> (integration_effort_state \<times> nat \<times> string) result" where
  "retried_state e d =
     (case ef_state e of
        CycleLimitBlocked _ \<Rightarrow>
          bnd (next_cycle_number (ef_id e) d) (\<lambda>next.
          Ok (AgentReady \<lparr>ar_next_cycle = next\<rparr>, 0, ''cycle_limit_retry_authorized''))
      | InfrastructureBlocked blocked \<Rightarrow>
          Ok (restore (be_resume blocked), ef_failed_cycles e, ''infrastructure_retry_authorized'')
      | ProviderBlocked blocked \<Rightarrow>
          Ok (restore (be_resume blocked), ef_failed_cycles e, ''provider_retry_authorized'')
      | _ \<Rightarrow> Err (Bail ''effort is not explicitly retryable''))"

definition retry_blocked ::
    "string \<Rightarrow> string \<Rightarrow> string \<Rightarrow> responder_identity \<Rightarrow> nat \<Rightarrow> db \<Rightarrow> (db \<times> effort) result" where
  "retry_blocked now uuid effort_id responder daemon_uid d =
     bnd (required_effort effort_id d) (\<lambda>e.
     bnd (require (responder = LocalPeer daemon_uid) (Bail ''explicit blocker retry is not authorized'')) (\<lambda>_.
     bnd (item_policy (ef_item_id e) d) (\<lambda>policy.
     bnd (retry_permitted (po_operation_state policy) (ef_item_id e)) (\<lambda>_.
     bnd (retried_state e d) (\<lambda>(state, failed_cycles, event_type).
     bnd (update_state_and_count now e state failed_cycles d) (\<lambda>d.
     bnd (append_event now uuid e event_type (PayloadResponder responder) False d) (\<lambda>d.
     bnd (required_effort effort_id d) (\<lambda>e'.
     Ok (d, e')))))))))"

definition resume_provider_reconciliation :: "string \<Rightarrow> string \<Rightarrow> string \<Rightarrow> db \<Rightarrow> (db \<times> effort) result" where
  "resume_provider_reconciliation now uuid effort_id d =
     bnd (required_effort effort_id d) (\<lambda>e.
     (case ef_state e of
        ProviderBlocked blocked \<Rightarrow>
          let state = restore (be_resume blocked) in
          bnd (update_state now e state d) (\<lambda>d.
          bnd (append_event now uuid e ''provider_reconciliation_resumed'' (PayloadState state) False d) (\<lambda>d.
          bnd (required_effort effort_id d) (\<lambda>e'.
          Ok (d, e'))))
      | _ \<Rightarrow> Err (Bail ''provider reconciliation requires provider_blocked effort'')))"

section \<open>Cancellation\<close>

definition item_contains_external_landing_authority ::
    "string \<Rightarrow> integration_effort_state option \<Rightarrow> db \<Rightarrow> bool result" where
  "item_contains_external_landing_authority item_id state d =
     bnd (fetch (\<lambda>i. qi_id i = item_id) (queue_items d) (NoRow ''queue_items'')) (\<lambda>item.
     Ok (landing_external_authority (qi_landing_state item)
         \<or> (case state of None \<Rightarrow> False | Some s \<Rightarrow> contains_external_landing_authority s)))"

definition cancel_termination :: "integration_effort_state \<Rightarrow> runner_termination_authority option result" where
  "cancel_termination state =
     (case state of
        AgentLaunching launching \<Rightarrow>
          (case al_spawn_authority launching of
             SpawnOpen \<Rightarrow> Ok (Some (TermLaunching (launching\<lparr>al_spawn_authority := CloseRequested\<rparr>)))
           | Surrendered \<Rightarrow> Ok (Some (TermLaunching (launching\<lparr>al_spawn_authority := Surrendered\<rparr>)))
           | _ \<Rightarrow> Err (Bail ''active launch has invalid spawn authority''))
      | AgentRunning running \<Rightarrow> Ok (Some (TermService (termination_authority running)))
      | _ \<Rightarrow> Ok None)"

definition cancel_related :: "string \<Rightarrow> effort \<Rightarrow> db \<Rightarrow> db result" where
  "cancel_related now e d =
     (let d = fst (update_cycles (\<lambda>c. cy_effort_id c = ef_id e \<and> (cy_status c = CyStarting \<or> cy_status c = CyRunning))
                     (\<lambda>c. c\<lparr>cy_status := CyCancelled, cy_finished_at := Some now\<rparr>) d);
          d = fst (update_guidance_requests (\<lambda>g. gr_effort_id g = ef_id e \<and> gr_status g = RequestOpen)
                     (\<lambda>g. g\<lparr>gr_status := RequestCancelled\<rparr>) d) in
      bnd (update_reviews (\<lambda>r. rv_effort_id r = ef_id e \<and> rv_status r = ReviewOpen)
             (\<lambda>r. r\<lparr>rv_status := ReviewCancelled, rv_answered_at := Some now\<rparr>) d) (\<lambda>(d, _).
      Ok (d\<lparr>prompts := modify (\<lambda>p. pm_item_id p = ef_item_id e \<and> pm_status p = ''open'')
             (\<lambda>p. p\<lparr>pm_status := ''cancelled''\<rparr>) (prompts d)\<rparr>)))"

definition cancel_effort_transaction :: "string \<Rightarrow> string \<Rightarrow> effort \<Rightarrow> string \<Rightarrow> string \<Rightarrow> db \<Rightarrow> db result" where
  "cancel_effort_transaction now uuid e actor reason d =
     bnd (cancel_termination (ef_state e)) (\<lambda>termination.
     bnd (case termination of
            None \<Rightarrow> Ok d
          | Some authority \<Rightarrow>
              insert_termination_debt \<lparr>td_effort_id = ef_id e, td_authority = authority, td_created_at = now\<rparr> d) (\<lambda>d.
     bnd (cancel_related now e d) (\<lambda>d.
     (case update_attempts (\<lambda>a. at_id a = ef_attempt_id e \<and> at_result a = None)
             (\<lambda>a. a\<lparr>at_result := Some ''cancelled'', at_finished_at := Some now\<rparr>) d of
        (d, n) \<Rightarrow>
          bnd (require (n = 1) (Bail ''cancelled effort attempt is not active'')) (\<lambda>_.
          bnd (cancel_local_submission (ef_item_id e) d) (\<lambda>d.
          let state = Cancelled \<lparr>ca_actor = actor, ca_reason = reason, ca_cancelled_at = now\<rparr> in
          bnd (insert_cleanup_debt (ef_item_id e) (Retained (ef_workspace e)) now d) (\<lambda>d.
          bnd (update_state_and_count now e state 0 d) (\<lambda>d.
          append_event now uuid e ''cancelled'' (PayloadState state) False d))))))))"

definition cancel :: "string \<Rightarrow> string \<Rightarrow> string \<Rightarrow> string \<Rightarrow> string \<Rightarrow> db \<Rightarrow> (db \<times> effort) result" where
  "cancel now uuid effort_id actor reason d =
     bnd (require_exact_text actor ''cancellation actor'') (\<lambda>_.
     bnd (require_exact_text reason ''cancellation reason'') (\<lambda>_.
     bnd (required_effort effort_id d) (\<lambda>e.
     bnd (item_contains_external_landing_authority (ef_item_id e) (Some (ef_state e)) d) (\<lambda>external.
     bnd (require (\<not> external) (Bail ''external landing authority cannot be cancelled'')) (\<lambda>_.
     bnd (case ef_state e of
            Cancelled _ \<Rightarrow> Ok d
          | _ \<Rightarrow> cancel_effort_transaction now uuid e actor reason d) (\<lambda>d.
     bnd (required_effort effort_id d) (\<lambda>e'.
     Ok (d, e'))))))))"

section \<open>Termination of cancelled runners\<close>

definition require_launcher_authority :: "launcher_authority \<Rightarrow> unit result" where
  "require_launcher_authority launcher =
     (if la_pid launcher = 0 \<or> la_process_start_ticks launcher = 0 \<or> length (la_token launcher) < 32
         \<or> \<not> list_all (\<lambda>c. is_ascii_alphanumeric c \<or> c = CHR ''-'') (la_token launcher)
      then Err (Bail ''runner launcher authority is invalid'') else Ok ())"

definition termination_authority_validate :: "runner_termination_authority \<Rightarrow> unit result" where
  "termination_authority_validate self =
     (case self of
        TermLaunching launching \<Rightarrow>
          bnd (validate_systemd_unit_name (al_cycle_id launching) (al_unit_name launching)) (\<lambda>_.
          bnd (require (al_spawn_authority launching \<noteq> SpawnOpen)
                 (Bail ''termination debt has invalid spawn authority'')) (\<lambda>_.
          require_launcher_authority (al_launcher launching)))
      | TermService service \<Rightarrow> service_authority_validate service
      | TermLegacyScope scope \<Rightarrow> legacy_scope_validate scope)"

text \<open>The effects on processes and units are parameters: whether the launcher is alive, the state of
  the unit, and the three ways to stop one, each of which may fail.\<close>

record runner_effects =
  rn_alive :: "nat \<Rightarrow> nat \<Rightarrow> bool result"
  rn_unit_state :: "executable_identity \<Rightarrow> string \<Rightarrow> systemd_unit_state result"
  rn_stop_unit :: "executable_identity \<Rightarrow> string \<Rightarrow> unit result"
  rn_stop_service :: "executable_identity \<Rightarrow> runner_service_authority \<Rightarrow> unit result"
  rn_stop_scope :: "executable_identity \<Rightarrow> legacy_runner_scope_authority \<Rightarrow> unit result"

text \<open>Whether the runner is terminated: a live launcher that may still spawn leaves the debt.\<close>

definition terminate_runner :: "runner_effects \<Rightarrow> executable_identity \<Rightarrow> runner_termination_authority \<Rightarrow> bool result" where
  "terminate_runner fx systemctl authority =
     (case authority of
        TermLaunching launching \<Rightarrow>
          bnd (if al_spawn_authority launching \<noteq> Closed
               then rn_alive fx (la_pid (al_launcher launching)) (la_process_start_ticks (al_launcher launching))
               else Ok False) (\<lambda>may_spawn.
          if may_spawn
          then bnd (rn_unit_state fx systemctl (al_unit_name launching)) (\<lambda>s.
               bnd (if s = UnitActive then rn_stop_unit fx systemctl (al_unit_name launching) else Ok ()) (\<lambda>_.
               Ok False))
          else bnd (rn_stop_unit fx systemctl (al_unit_name launching)) (\<lambda>_. Ok True))
      | TermService service \<Rightarrow> bnd (rn_stop_service fx systemctl service) (\<lambda>_. Ok True)
      | TermLegacyScope scope \<Rightarrow> bnd (rn_stop_scope fx systemctl scope) (\<lambda>_. Ok True))"

definition is_cancelled :: "integration_effort_state \<Rightarrow> bool" where
  "is_cancelled s \<longleftrightarrow> (case s of Cancelled _ \<Rightarrow> True | _ \<Rightarrow> False)"

definition reconcile_cancelled_runner_termination ::
    "runner_effects \<Rightarrow> string \<Rightarrow> db \<Rightarrow> (db \<times> bool) result" where
  "reconcile_cancelled_runner_termination fx effort_id d =
     (case find (\<lambda>t. td_effort_id t = effort_id) (termination_debts d) of
        None \<Rightarrow> Ok (d, True)
      | Some debt \<Rightarrow>
          (case find (\<lambda>e. ef_id e = effort_id \<and> is_cancelled (ef_state e)) (efforts d) of
             None \<Rightarrow> Ok (d, True)
           | Some e \<Rightarrow>
               bnd (termination_authority_validate (td_authority debt)) (\<lambda>_.
               bnd (terminate_runner fx (sb_systemctl (rs_sandbox (ef_runner e))) (td_authority debt)) (\<lambda>resolved.
               if \<not> resolved then Ok (d, False)
               else let p = (\<lambda>t. td_effort_id t = effort_id \<and> td_authority t = td_authority debt)
                    in bnd (require (changed p (termination_debts d) = 1)
                              (Bail ''runner termination debt authority changed during reconciliation'')) (\<lambda>_.
                       Ok (d\<lparr>termination_debts := remove_rows p (termination_debts d)\<rparr>, True))))))"

fun reconcile_each :: "runner_effects \<Rightarrow> string list \<Rightarrow> nat \<Rightarrow> db \<Rightarrow> (db \<times> nat) result" where
  "reconcile_each fx [] reconciled d = Ok (d, reconciled)"
| "reconcile_each fx (i # is) reconciled d =
     bnd (reconcile_cancelled_runner_termination fx i d) (\<lambda>(d, done).
     reconcile_each fx is (if done then Suc reconciled else reconciled) d)"

text \<open>\<open>ORDER BY debt.created_at,debt.effort_id\<close>, compared byte by byte.\<close>

definition reconcile_cancelled_runner_terminations :: "runner_effects \<Rightarrow> db \<Rightarrow> (db \<times> nat) result" where
  "reconcile_cancelled_runner_terminations fx d =
     reconcile_each fx
       (map td_effort_id (sort_key (\<lambda>t. (td_created_at t, td_effort_id t))
          (filter (\<lambda>t. list_ex (\<lambda>e. ef_id e = td_effort_id t \<and> is_cancelled (ef_state e)) (efforts d))
             (termination_debts d)))) 0 d"

definition record_alert :: "string \<Rightarrow> string \<Rightarrow> string \<Rightarrow> string \<Rightarrow> event_payload \<Rightarrow> db \<Rightarrow> (db \<times> string) result" where
  "record_alert now uuid effort_id event_type payload d =
     bnd (require_exact_text event_type ''alert event type'') (\<lambda>_.
     bnd (required_effort effort_id d) (\<lambda>e.
     bnd (append_event now uuid e event_type payload True d) (\<lambda>d.
     Ok (d, uuid))))"

end
