(* ===== verification/Store_Machine.thy ===== *)
theory Store_Machine
  imports Store_Blockers
begin

text \<open>
  The abstract machine of one integration effort: the moves that the operations of the control store
  are allowed to make on a row of \<open>integration_efforts\<close>, as one step relation.  Its invariants are proved
  here once, by rule induction: terminal rows have no move, the count of failed cycles stays within the
  limit, and authority that has left the process is given up only to a definite rejection.
  \<open>Store_Effects\<close> shows that the operations refine this machine.
\<close>

section \<open>The machine of one effort\<close>

text \<open>Composition evidence of the running program, not of a migrated database.\<close>

fun native_composition :: "composition_evidence \<Rightarrow> bool" where
  "native_composition (MigratedUnknown _) = False"
| "native_composition (MigratedPostRelease _) = False"
| "native_composition _ = True"

lemma composition_validate_native: "composition_validate c f False = Inr u \<Longrightarrow> native_composition c"
  by (cases c) simp_all

inductive effort_move :: "effort \<Rightarrow> effort \<Rightarrow> bool" where
  move_launch:
    "\<lbrakk>ef_state e = AgentReady r; al_cycle_number l = ar_next_cycle r; al_spawn_authority l = SpawnOpen;
      ef_failed_cycles e < 10\<rbrakk> \<Longrightarrow>
     effort_move e (set_state now (AgentLaunching l) (ef_failed_cycles e) e)"
| move_surrender:
    "\<lbrakk>ef_state e = AgentLaunching l; al_spawn_authority l = SpawnOpen\<rbrakk> \<Longrightarrow>
     effort_move e (set_state now (AgentLaunching (l\<lparr>al_spawn_authority := Surrendered\<rparr>)) (ef_failed_cycles e) e)"
| move_unlaunch:
    "ef_state e = AgentLaunching l \<Longrightarrow> effort_move e (set_state now (AgentReady r) (ef_failed_cycles e) e)"
| move_started:
    "\<lbrakk>ef_state e = AgentLaunching l; al_spawn_authority l = Surrendered; ag_cycle_id g = al_cycle_id l;
      ag_launcher g = al_launcher l\<rbrakk> \<Longrightarrow>
     effort_move e (set_state now (AgentRunning g) (ef_failed_cycles e) e)"
| move_result:
    "\<lbrakk>ef_state e = AgentRunning g; result_transition_ok (ag_result g) result\<rbrakk> \<Longrightarrow>
     effort_move e (set_state now (AgentRunning (g\<lparr>ag_result := result\<rparr>)) (ef_failed_cycles e) e)"
| move_interrupted:
    "ef_state e = AgentRunning g \<Longrightarrow> effort_move e (set_state now (AgentReady r) (ef_failed_cycles e) e)"
| move_cycle_failed:
    "\<lbrakk>legal_transition (ef_state e) (AgentReady r); \<not> contains_external_landing_authority (ef_state e);
      Suc (ef_failed_cycles e) < 10\<rbrakk> \<Longrightarrow>
     effort_move e (set_state now (AgentReady r) (Suc (ef_failed_cycles e)) e)"
| move_cycle_limit:
    "\<lbrakk>legal_transition (ef_state e) (CycleLimitBlocked b); \<not> contains_external_landing_authority (ef_state e);
      Suc (ef_failed_cycles e) = 10; \<not> resume_external_landing (be_resume b)\<rbrakk> \<Longrightarrow>
     effort_move e (set_state now (CycleLimitBlocked b) 10 e)"
| move_guidance:
    "\<lbrakk>ef_state e = AgentRunning g; be_blocker b = SemanticGuidance q; be_resume b = RsAgentReady r;
      Suc (ef_failed_cycles e) < 10\<rbrakk> \<Longrightarrow>
     effort_move e (set_state now (GuidanceRequired b) (Suc (ef_failed_cycles e)) e)"
| move_build:
    "\<lbrakk>ef_state e = AgentRunning g; cb_cycle_id b = ag_cycle_id g;
      cb_classification b = composition_classification (ef_composition e) (cb_tree_sha b)\<rbrakk> \<Longrightarrow>
     effort_move e (set_state now (CandidateBuilding b) (ef_failed_cycles e) e)"
| move_build_reset:
    "ef_state e = CandidateBuilding b \<Longrightarrow> effort_move e (set_state now (AgentReady r) (ef_failed_cycles e) e)"
| move_publish:
    "\<lbrakk>ef_state e = CandidateBuilding b; cb_classification b = ClsMechanical; cr_review c = RevMechanical\<rbrakk> \<Longrightarrow>
     effort_move e (set_state now (CandidateReady c) (ef_failed_cycles e) e)"
| move_ask_review:
    "\<lbrakk>ef_state e = CandidateBuilding b; cb_classification b = ClsSemantic\<rbrakk> \<Longrightarrow>
     effort_move e (set_state now (ReviewRequired v) (ef_failed_cycles e) e)"
| move_approve:
    "\<lbrakk>ef_state e = ReviewRequired v; cr_candidate_sha c = rr_candidate_sha v; cr_review c = RevApproved (rr_review_id v)\<rbrakk> \<Longrightarrow>
     effort_move e (set_state now (CandidateReady c) (ef_failed_cycles e) e)"
| move_changes:
    "ef_state e = ReviewRequired v \<Longrightarrow> effort_move e (set_state now (AgentReady r) (ef_failed_cycles e) e)"
| move_validate:
    "\<lbrakk>ef_state e = CandidateReady c; va_candidate_sha v = cr_candidate_sha c; va_stage v = Running\<rbrakk> \<Longrightarrow>
     effort_move e (set_state now (Validating v) (ef_failed_cycles e) e)"
| move_validated:
    "\<lbrakk>ef_state e = Validating v; va_stage v = Running\<rbrakk> \<Longrightarrow>
     effort_move e (set_state now (Validating (v\<lparr>va_stage := Gates\<rparr>)) (ef_failed_cycles e) e)"
| move_block_infrastructure:
    "\<lbrakk>capture (ef_state e) = Inr (be_resume b); be_blocker b = Infrastructure i\<rbrakk> \<Longrightarrow>
     effort_move e (set_state now (InfrastructureBlocked b) (ef_failed_cycles e) e)"
| move_block_provider:
    "\<lbrakk>capture (ef_state e) = Inr (be_resume b); be_blocker b = ProviderSignoff p;
      landing_gate_candidate (be_resume b) = Some (ps_candidate_sha p)\<rbrakk> \<Longrightarrow>
     effort_move e (set_state now (ProviderBlocked b) (ef_failed_cycles e) e)"
| move_resume:
    "ef_state e = InfrastructureBlocked b \<or> ef_state e = ProviderBlocked b \<Longrightarrow>
     effort_move e (set_state now (restore (be_resume b)) (ef_failed_cycles e) e)"
| move_limit_retry:
    "\<lbrakk>ef_state e = CycleLimitBlocked b; \<not> contains_external_landing_authority (ef_state e)\<rbrakk> \<Longrightarrow>
     effort_move e (set_state now (AgentReady r) 0 e)"
| move_answer:
    "\<lbrakk>ef_state e = GuidanceRequired b; \<not> contains_external_landing_authority (ef_state e)\<rbrakk> \<Longrightarrow>
     effort_move e (set_state now (AgentReady r) (ef_failed_cycles e) e)"
| move_land:
    "\<lbrakk>ef_state e = Validating v; ld_candidate_sha l = va_candidate_sha v\<rbrakk> \<Longrightarrow>
     effort_move e (set_state now (Landing l) (ef_failed_cycles e) e)"
| move_release:
    "\<lbrakk>ef_state e = Landing l; lu_candidate_sha u = ld_candidate_sha l;
      lu_expected_target_sha u = ld_expected_target_sha l\<rbrakk> \<Longrightarrow>
     effort_move e (set_state now (LandingUncertain u) (ef_failed_cycles e) e)"
| move_integrate:
    "\<lbrakk>landing_candidate (ef_state e) = Inr (in_candidate_sha v); in_attempt_id v = ef_attempt_id e\<rbrakk> \<Longrightarrow>
     effort_move e (set_state now (Integrated v) (ef_failed_cycles e) e)"
| move_target:
    "\<lbrakk>movable_state (ef_state e); capture (ef_state e) = Inr (tm_previous t); tm_source_sha t = ef_source_sha e;
      is_ok (require_target_move_authority e rejection); tm_cause t = move_cause e rejection\<rbrakk> \<Longrightarrow>
     effort_move e (set_state now (TargetMovePending t) (ef_failed_cycles e) e)"
| move_recompose:
    "\<lbrakk>ef_state e = TargetMovePending t; native_composition c\<rbrakk> \<Longrightarrow>
     effort_move e (set_state now (AgentReady r) (ef_failed_cycles e)
       (e\<lparr>ef_target_sha := tm_target_sha t, ef_composition := c\<rparr>))"
| move_cancel:
    "\<lbrakk>\<not> contains_external_landing_authority (ef_state e); \<not> is_cancelled (ef_state e)\<rbrakk> \<Longrightarrow>
     effort_move e (set_state now (Cancelled c) 0 e)"
| move_replacement:
    "\<lbrakk>ef_state e = CycleLimitBlocked b; rp_old_attempt_id p = ef_attempt_id e;
      \<not> contains_external_landing_authority (ef_state e)\<rbrakk> \<Longrightarrow>
     effort_move e (set_state now (ReplacementPending p) 0 e)"
| move_replace:
    "\<lbrakk>ef_state e = ReplacementPending p; ne_attempt_id n \<noteq> ef_attempt_id e; ne_item_id n = ef_item_id e;
      native_composition (ne_composition n)\<rbrakk> \<Longrightarrow>
     effort_move e ((effort_of_new (ef_id e) now n)\<lparr>ef_state := AgentReady r, ef_created_at := ef_created_at e\<rparr>)"

definition terminal :: "integration_effort_state \<Rightarrow> bool" where
  "terminal s \<longleftrightarrow> (case s of Integrated _ \<Rightarrow> True | Cancelled _ \<Rightarrow> True | _ \<Rightarrow> False)"

lemma legal_from_terminal: "legal_transition s t \<Longrightarrow> terminal s \<Longrightarrow> state_name t = state_name s"
  by (cases s) (auto simp: legal_transition_def transition_table_def terminal_def)

lemma state_names [simp]: "state_name s = ''integrated'' \<longleftrightarrow> (\<exists>v. s = Integrated v)" "state_name s = ''cancelled'' \<longleftrightarrow> (\<exists>v. s = Cancelled v)"
  by (cases s; simp)+

lemma move_terminal: "effort_move e e' \<Longrightarrow> \<not> terminal (ef_state e)"
  by (induction rule: effort_move.induct)
    (auto simp: terminal_def landing_candidate_def is_cancelled_def dest: legal_from_terminal split: integration_effort_state.splits)

lemma move_identity: "effort_move e e' \<Longrightarrow> ef_id e' = ef_id e \<and> ef_item_id e' = ef_item_id e"
  by (induction rule: effort_move.induct) (auto simp: effort_of_new_def)

lemma move_native: "effort_move e e' \<Longrightarrow> native_composition (ef_composition e) \<Longrightarrow> native_composition (ef_composition e')"
  by (induction rule: effort_move.induct) (auto simp: effort_of_new_def)

definition count_ok :: "effort \<Rightarrow> bool" where
  "count_ok e \<longleftrightarrow> ef_failed_cycles e \<le> 10 \<and> (ef_failed_cycles e = 10 \<longleftrightarrow> is_cycle_limit (ef_state e))"

lemma restore_not_limit [simp]: "\<not> is_cycle_limit (restore r)"
  by (cases r) simp_all

lemma capture_not_limit: "capture s = Inr r \<Longrightarrow> \<not> is_cycle_limit s"
  by (cases s) auto

lemma move_count: "effort_move e e' \<Longrightarrow> count_ok e \<Longrightarrow> count_ok e'"
proof (induction rule: effort_move.induct)
qed (auto simp: count_ok_def effort_of_new_def landing_candidate_def dest: capture_not_limit split: integration_effort_state.splits)

text \<open>Authority that has left the process is only given up to a definite rejection.\<close>

definition definite_release :: "effort \<Rightarrow> effort \<Rightarrow> bool" where
  "definite_release e e' \<longleftrightarrow>
     (\<exists>l t. ef_state e = LandingUncertain l \<and> ef_landing_variant e = ''direct'' \<and> ef_state e' = TargetMovePending t
        \<and> tm_cause t = StaleLandingLease (lu_command_id l) (lu_expected_target_sha l) \<and> tm_previous t = RsLandingUncertain l)"

lemma target_move_external:
  assumes "contains_external_landing_authority (ef_state e)" "is_ok (require_target_move_authority e rejection)"
  shows "\<exists>l r. rejection = Some r \<and> ef_state e = LandingUncertain l \<and> ef_landing_variant e = ''direct''
    \<and> dl_command_id r = lu_command_id l \<and> dl_expected_target_sha r = lu_expected_target_sha l"
  using assms
  by (auto simp: require_target_move_authority_def split: option.splits integration_effort_state.splits if_splits)

lemma move_external:
  assumes "effort_move e e'" "contains_external_landing_authority (ef_state e)"
  shows "contains_external_landing_authority (ef_state e') \<or> definite_release e e'"
  using assms
proof (induction rule: effort_move.induct)
  case (move_target e t rejection now)
  then show ?case
    using target_move_external [of e rejection]
    by (auto simp: definite_release_def move_cause_def)
next
  case (move_block_infrastructure e b i now)
  then show ?case using capture_external by auto
next
  case (move_block_provider e b p now)
  then show ?case using capture_external by auto
qed (auto split: integration_effort_state.splits)

section \<open>Sequences of moves\<close>

lemma moves_identity: "effort_move\<^sup>*\<^sup>* e e' \<Longrightarrow> ef_id e' = ef_id e \<and> ef_item_id e' = ef_item_id e"
  by (induction rule: rtranclp_induct) (auto dest: move_identity)

lemma moves_terminal: "effort_move\<^sup>*\<^sup>* e e' \<Longrightarrow> terminal (ef_state e) \<Longrightarrow> e' = e"
  by (induction rule: rtranclp_induct) (auto dest: move_terminal)

lemma moves_external:
  assumes "effort_move\<^sup>*\<^sup>* e e'" "contains_external_landing_authority (ef_state e)"
  shows "contains_external_landing_authority (ef_state e')
    \<or> (\<exists>e1 e2. effort_move\<^sup>*\<^sup>* e e1 \<and> effort_move e1 e2 \<and> effort_move\<^sup>*\<^sup>* e2 e' \<and> definite_release e1 e2)"
  using assms
proof (induction rule: rtranclp_induct)
  case (step x y)
  show ?case
  proof (cases "contains_external_landing_authority (ef_state x)")
    case True
    with move_external [OF step(2)] show ?thesis using step(1,2) by blast
  next
    case False
    with step obtain e1 e2 where
      "effort_move\<^sup>*\<^sup>* e e1" "effort_move e1 e2" "effort_move\<^sup>*\<^sup>* e2 x" "definite_release e1 e2"
      by blast
    with step(2) show ?thesis by (blast intro: rtranclp.rtrancl_into_rtrancl)
  qed
qed simp

end
