(* ===== verification/Store_Effects.thy ===== *)
theory Store_Effects
  imports Store_Machine
begin

text \<open>
  What one operation does to the tables of the control store: the statements that stay within the rows
  of one effort, the invariant of the store, and \<open>op_effect\<close>, the effect every operation has: it changes
  rows of one effort only, and that effort makes one move of the machine, is created, or stays.
\<close>

definition local_to :: "string \<Rightarrow> db \<Rightarrow> db \<Rightarrow> bool" where
  "local_to i d d' \<longleftrightarrow>
     filter (\<lambda>c. cy_effort_id c \<noteq> i) (cycles d') = filter (\<lambda>c. cy_effort_id c \<noteq> i) (cycles d)
     \<and> filter (\<lambda>c. ce_effort_id c \<noteq> i) (evidences d') = filter (\<lambda>c. ce_effort_id c \<noteq> i) (evidences d)
     \<and> filter (\<lambda>c. rv_effort_id c \<noteq> i) (reviews d') = filter (\<lambda>c. rv_effort_id c \<noteq> i) (reviews d)
     \<and> filter (\<lambda>c. gr_effort_id c \<noteq> i) (guidance_requests d') = filter (\<lambda>c. gr_effort_id c \<noteq> i) (guidance_requests d)"

lemma local_refl [simp]: "local_to i d d"
  by (simp add: local_to_def)

lemma local_trans: "local_to i d1 d2 \<Longrightarrow> local_to i d2 d3 \<Longrightarrow> local_to i d1 d3"
  by (simp add: local_to_def)

lemma filter_modify_other:
  "(\<And>r. r \<in> set t \<Longrightarrow> p r \<Longrightarrow> k r = i \<and> k (f r) = i) \<Longrightarrow>
   filter (\<lambda>r. k r \<noteq> i) (modify p f t) = filter (\<lambda>r. k r \<noteq> i) t"
  by (induction t) (auto simp: modify_simps)

lemma filter_remove_other:
  "(\<And>r. r \<in> set t \<Longrightarrow> p r \<Longrightarrow> k r = i) \<Longrightarrow> filter (\<lambda>r. k r \<noteq> i) (remove_rows p t) = filter (\<lambda>r. k r \<noteq> i) t"
  by (induction t) (auto simp: remove_rows_def)

lemma list_ex_via_filter:
  assumes "filter q t' = filter q t" "\<And>r. P r \<Longrightarrow> q r"
  shows "list_ex P t' = list_ex P t"
proof -
  have A: "list_ex P u \<longleftrightarrow> list_ex P (filter q u)" for u
    using assms(2) by (auto simp: list_ex_iff)
  show ?thesis using A [of t] A [of t'] assms(1) by simp
qed

lemma list_ex_other:
  assumes "filter (\<lambda>r. k r \<noteq> i) t' = filter (\<lambda>r. k r \<noteq> i) t" "j \<noteq> i"
  shows "list_ex (\<lambda>r. k r = j \<and> P r) t' = list_ex (\<lambda>r. k r = j \<and> P r) t"
  by (rule list_ex_via_filter [OF assms(1)]) (use assms(2) in auto)

lemma list_ex_review_for_other:
  assumes f: "filter (\<lambda>r. rv_effort_id r \<noteq> i) t' = filter (\<lambda>r. rv_effort_id r \<noteq> i) t" and e: "ef_id e \<noteq> i"
  shows "list_ex (\<lambda>r. P r \<and> review_for e c s st r) t' = list_ex (\<lambda>r. P r \<and> review_for e c s st r) t"
    "list_ex (review_for e c s st) t' = list_ex (review_for e c s st) t"
  by (rule list_ex_via_filter [OF f], use e in \<open>simp add: review_for_def\<close>)+

lemma landing_gate_other:
  assumes l: "local_to i d d'" and e: "ef_id e \<noteq> i"
  shows "landing_gate d' e c = landing_gate d e c"
proof -
  note f = l [unfolded local_to_def]
  have rv: "list_ex (review_for e k s st) (reviews d') = list_ex (review_for e k s st) (reviews d)" for k s st
    by (rule list_ex_review_for_other(2)) (use f e in auto)
  show ?thesis
    unfolding landing_gate_def rv by (rule list_ex_other) (use f e in auto)
qed

lemma cycle_in_status_other:
  assumes l: "local_to i d d'" and e: "j \<noteq> i"
  shows "cycle_in_status d' j c st = cycle_in_status d j c st"
  unfolding cycle_in_status_def by (rule list_ex_other) (use l [unfolded local_to_def] e in auto)

lemma related_other: 
  assumes l: "local_to i d d'" and e: "ef_id e \<noteq> i"
  shows "related_state d' e = related_state d e"
proof -
  note f = l [unfolded local_to_def]
  have ev: "list_ex (\<lambda>c. ce_effort_id c = ef_id e \<and> P c) (evidences d') = list_ex (\<lambda>c. ce_effort_id c = ef_id e \<and> P c) (evidences d)" for P
    by (rule list_ex_other) (use f e in auto)
  have gr: "list_ex (\<lambda>c. gr_effort_id c = ef_id e \<and> P c) (guidance_requests d') = list_ex (\<lambda>c. gr_effort_id c = ef_id e \<and> P c) (guidance_requests d)" for P
    by (rule list_ex_other) (use f e in auto)
  have rv: "list_ex (\<lambda>r. P r \<and> review_for e c s st r) (reviews d') = list_ex (\<lambda>r. P r \<and> review_for e c s st r) (reviews d)" for P c s st
    by (rule list_ex_review_for_other) (use f e in auto)
  show ?thesis
    by (cases "ef_state e")
      (simp_all add: related_state_def landing_gate_other [OF l e] cycle_in_status_other [OF l e] ev gr rv
        cong: option.case_cong candidate_review.case_cong)
qed


section \<open>Statements that stay local to one effort\<close>

definition same_core :: "db \<Rightarrow> db \<Rightarrow> bool" where
  "same_core d d' \<longleftrightarrow> efforts d' = efforts d \<and> cycles d' = cycles d \<and> evidences d' = evidences d
     \<and> reviews d' = reviews d \<and> guidance_requests d' = guidance_requests d"

definition local_step :: "string \<Rightarrow> db \<Rightarrow> db \<Rightarrow> bool" where
  "local_step i d d' \<longleftrightarrow> efforts d' = efforts d \<and> local_to i d d'
     \<and> (distinct (map cy_id (cycles d)) \<longrightarrow> distinct (map cy_id (cycles d')))"

lemma same_core_trans: "same_core d1 d2 \<Longrightarrow> same_core d2 d3 \<Longrightarrow> same_core d1 d3"
  by (simp add: same_core_def)

lemma same_core_local: "same_core d d' \<Longrightarrow> local_step i d d'"
  by (simp add: same_core_def local_step_def local_to_def)

lemma same_core_related: "same_core d d' \<Longrightarrow> related_state d' e = related_state d e"
  by (rule related_state_frame) (simp_all add: same_core_def)

lemma local_step_trans: "local_step i d1 d2 \<Longrightarrow> local_step i d2 d3 \<Longrightarrow> local_step i d1 d3"
  by (simp add: local_step_def local_to_def)

named_theorems core_steps \<open>statements that leave the effort tables alone or change only the rows of one effort\<close>

lemma same_core_refl [core_steps]: "same_core d d"
  by (simp add: same_core_def)

lemma local_step_refl: "local_step i d d"
  by (simp add: same_core_local core_steps)

lemma append_event_with_id_core [core_steps]: "append_event_with_id now i e t p a d = Inr d' \<Longrightarrow> same_core d d'"
  by (simp add: same_core_def append_event_with_id_frame)

lemma append_event_core [core_steps]: "append_event now i e t p a d = Inr d' \<Longrightarrow> same_core d d'"
  by (simp add: append_event_def append_event_with_id_core)

lemma update_attempts_core [core_steps]:
  "same_core d (fst (update_attempts p f d))" "update_attempts p f d = (d', n) \<Longrightarrow> same_core d d'"
  by (auto simp: update_attempts_def same_core_def)

lemma invalidate_core [core_steps]: "same_core d (invalidate_validation_invocations now a d)"
  by (simp add: invalidate_validation_invocations_def same_core_def)

lemma insert_cleanup_debt_core [core_steps]: "insert_cleanup_debt i t now d = Inr d' \<Longrightarrow> same_core d d'"
  by (auto simp: insert_cleanup_debt_def same_core_def split: if_splits)

lemma insert_termination_debt_core [core_steps]: "insert_termination_debt t d = Inr d' \<Longrightarrow> same_core d d'"
  by (auto simp: insert_termination_debt_def same_core_def split: if_splits)

lemma insert_ref_debt_core: "insert_ref_debt r d = Inr (d', n) \<Longrightarrow> same_core d d'"
  by (auto simp: insert_ref_debt_def same_core_def split: if_splits)

lemma record_landing_ref_debt_core [core_steps]: "record_landing_ref_debt k a c m d = Inr d' \<Longrightarrow> same_core d d'"
  by (auto simp: record_landing_ref_debt_def bnd_eq_Ok split: if_splits dest: insert_ref_debt_core)

lemma update_checkout_core [core_steps]: "update_checkout k r t d = Inr (d', n) \<Longrightarrow> same_core d d'"
  by (auto simp: update_checkout_def same_core_def split: if_splits)

lemma integrate_submission_core [core_steps]: "integrate_local_submission i d = Inr d' \<Longrightarrow> same_core d d'"
  by (auto simp: integrate_local_submission_def same_core_def Let_def bnd_eq_Ok split: option.splits)

lemma cancel_submission_core [core_steps]: "cancel_local_submission i d = Inr d' \<Longrightarrow> same_core d d'"
  by (auto simp: cancel_local_submission_def same_core_def Let_def bnd_eq_Ok split: option.splits)

lemma insert_replication_debt_core: "insert_replication_debt x d = Inr d' \<Longrightarrow> same_core d d'"
  by (auto simp: insert_replication_debt_def same_core_def split: if_splits)

lemma record_replication_debts_core [core_steps]:
  "record_replication_debts i k t l rs fresh d = Inr d' \<Longrightarrow> same_core d d'"
proof (induction rs arbitrary: fresh d)
  case Nil
  then show ?case by (simp add: core_steps)
next
  case (Cons r rs)
  then show ?case by (auto simp: bnd_eq_Ok intro: same_core_trans dest: insert_replication_debt_core)
qed

lemma update_item_columns_core [core_steps]: "update_item_columns p f d = (d', n) \<Longrightarrow> same_core d d'"
  by (auto simp: update_item_columns_def same_core_def)

lemma insert_cycle_local: "insert_cycle c d = Inr d' \<Longrightarrow> cy_effort_id c = i \<Longrightarrow> local_step i d d'"
  by (auto simp: insert_cycle_Ok local_step_def local_to_def)

lemma update_cycles_local:
  assumes "update_cycles p f d = (d', n)"
    and "\<And>c. c \<in> set (cycles d) \<Longrightarrow> p c \<Longrightarrow> cy_effort_id c = i"
    and "\<And>c. cy_effort_id (f c) = cy_effort_id c" "\<And>c. cy_id (f c) = cy_id c"
  shows "local_step i d d'"
  using assms by (auto simp: update_cycles_def local_step_def local_to_def map_key_modify intro!: filter_modify_other)

lemma fail_cycle_local: "fail_cycle now c i st failure d = (d', n) \<Longrightarrow> local_step i d d'"
  unfolding fail_cycle_def by (erule update_cycles_local) auto

lemma insert_review_local: "insert_review r d = Inr d' \<Longrightarrow> rv_effort_id r = i \<Longrightarrow> local_step i d d'"
  by (auto simp: insert_review_def local_step_def local_to_def split: if_splits)

lemma update_reviews_local:
  assumes "update_reviews p f d = Inr (d', n)"
    and "\<And>c. p c \<Longrightarrow> rv_effort_id c = i" "\<And>c. rv_effort_id (f c) = rv_effort_id c"
  shows "local_step i d d'"
  using assms by (auto simp: update_reviews_def local_step_def local_to_def split: if_splits intro!: filter_modify_other)

lemma upsert_evidence_local: "upsert_evidence c d = Inr d' \<Longrightarrow> ce_effort_id c = i \<Longrightarrow> local_step i d d'"
  by (auto simp: upsert_evidence_def local_step_def local_to_def split: if_splits intro!: filter_modify_other)

lemma delete_evidence_local:
  "delete_evidence p d = Inr d' \<Longrightarrow> (\<And>c. p c \<Longrightarrow> ce_effort_id c = i) \<Longrightarrow> local_step i d d'"
  by (auto simp: delete_evidence_def local_step_def local_to_def split: if_splits intro!: filter_remove_other)

lemma insert_guidance_request_local:
  "insert_guidance_request g d = Inr d' \<Longrightarrow> gr_effort_id g = i \<Longrightarrow> local_step i d d'"
  by (auto simp: insert_guidance_request_def local_step_def local_to_def split: if_splits)

lemma update_guidance_requests_local:
  assumes "update_guidance_requests p f d = (d', n)"
    and "\<And>c. p c \<Longrightarrow> gr_effort_id c = i" "\<And>c. gr_effort_id (f c) = gr_effort_id c"
  shows "local_step i d d'"
  using assms by (auto simp: update_guidance_requests_def local_step_def local_to_def intro!: filter_modify_other)


section \<open>The effect of an operation\<close>

definition store_inv :: "db \<Rightarrow> bool" where
  "store_inv d \<longleftrightarrow>
     distinct (effort_ids d) \<and> distinct (map ef_item_id (efforts d)) \<and> distinct (map cy_id (cycles d))
     \<and> (\<forall>e \<in> set (efforts d). count_ok e \<and> related_state d e)"

definition created :: "db \<Rightarrow> effort \<Rightarrow> bool" where
  "created d e \<longleftrightarrow> (\<forall>x \<in> set (efforts d). ef_id x \<noteq> ef_id e \<and> ef_item_id x \<noteq> ef_item_id e)
     \<and> native_composition (ef_composition e) \<and> ef_failed_cycles e = 0 \<and> ef_state e = AgentReady \<lparr>ar_next_cycle = 1\<rparr>"

definition op_effect :: "db \<Rightarrow> db \<Rightarrow> bool" where
  "op_effect d d' \<longleftrightarrow>
     distinct (map cy_id (cycles d')) \<and>
     (\<exists>i. local_to i d d' \<and>
       ((efforts d' = efforts d \<and> (\<forall>e \<in> set (efforts d). ef_id e = i \<longrightarrow> related_state d' e))
        \<or> (\<exists>e e'. e \<in> set (efforts d) \<and> ef_id e = i \<and> effort_move e e' \<and> related_state d' e'
              \<and> efforts d' = modify (\<lambda>x. ef_id x = i) (\<lambda>_. e') (efforts d))
        \<or> (\<exists>e'. created d e' \<and> ef_id e' = i \<and> efforts d' = efforts d @ [e'])))"

lemma op_effect_inv:
  assumes inv: "store_inv d" and eff: "op_effect d d'"
  shows "store_inv d'"
proof -
  from eff obtain i where cy: "distinct (map cy_id (cycles d'))" and l: "local_to i d d'" and
    c: "(efforts d' = efforts d \<and> (\<forall>e \<in> set (efforts d). ef_id e = i \<longrightarrow> related_state d' e))
        \<or> (\<exists>e e'. e \<in> set (efforts d) \<and> ef_id e = i \<and> effort_move e e' \<and> related_state d' e'
              \<and> efforts d' = modify (\<lambda>x. ef_id x = i) (\<lambda>_. e') (efforts d))
        \<or> (\<exists>e'. created d e' \<and> ef_id e' = i \<and> efforts d' = efforts d @ [e'])"
    by (auto simp: op_effect_def)
  have others: "count_ok x \<and> related_state d' x" if "x \<in> set (efforts d)" "ef_id x \<noteq> i" for x
    using inv that related_other [OF l that(2)] by (simp add: store_inv_def)
  from inv have ids: "distinct (effort_ids d)" "distinct (map ef_item_id (efforts d))"
    and old: "\<And>x. x \<in> set (efforts d) \<Longrightarrow> count_ok x"
    by (simp_all add: store_inv_def)
  from c show ?thesis
  proof (elim disjE exE conjE)
    assume "efforts d' = efforts d" "\<forall>e \<in> set (efforts d). ef_id e = i \<longrightarrow> related_state d' e"
    with ids cy old others show ?thesis by (auto simp: store_inv_def)
  next
    fix e e' assume m: "e \<in> set (efforts d)" "ef_id e = i" "effort_move e e'" "related_state d' e'"
      "efforts d' = modify (\<lambda>x. ef_id x = i) (\<lambda>_. e') (efforts d)"
    have same: "x = e" if "x \<in> set (efforts d)" "ef_id x = i" for x
      using distinct_ids_same [OF ids(1)] that m by metis
    have "effort_ids d' = effort_ids d" "map ef_item_id (efforts d') = map ef_item_id (efforts d)"
      unfolding m(5) using same move_identity [OF m(3)] by (auto intro!: map_key_modify)
    moreover have "count_ok x \<and> related_state d' x" if "x \<in> set (efforts d')" for x
      using that others m(4) move_count [OF m(3)] old [OF m(1)] by (auto simp: m(5) set_modify)
    ultimately show ?thesis using ids cy by (simp add: store_inv_def)
  next
    fix e' assume n: "created d e'" "ef_id e' = i" "efforts d' = efforts d @ [e']"
    then have "count_ok e' \<and> related_state d' e'" by (simp add: created_def count_ok_def related_state_def)
    moreover have "count_ok x \<and> related_state d' x" if "x \<in> set (efforts d)" for x
      using others [OF that] n that by (auto simp: created_def)
    ultimately show ?thesis using n ids cy by (auto simp: store_inv_def created_def)
  qed
qed

lemma required_effort_facts:
  assumes "required_effort i d = Inr e"
  shows "e \<in> set (efforts d)" "ef_id e = i"
  using assms by (auto simp: required_effort_Ok dest: find_Some_mem)

lemma op_effect_late:
  assumes inv: "store_inv d" and r: "required_effort i d = Inr e"
    and u: "update_state_and_count_with_resolution now e s n rejection d1 = Inr d2"
    and pre: "local_step i d d1" and post: "local_step i d2 d'"
    and rel: "related_state d2 (set_state now s n e) \<Longrightarrow> related_state d' (set_state now s n e)"
    and mv: "\<lbrakk>transition_authorized e s rejection; is_ok (validate_for_count s n); legal_transition (ef_state e) s;
        effort_check (set_state now s n e)\<rbrakk> \<Longrightarrow> effort_move e (set_state now s n e)"
  shows "op_effect d d'"
proof -
  note e = required_effort_facts [OF r]
  from pre have d1: "efforts d1 = efforts d" "local_to i d d1" by (simp_all add: local_step_def)
  from inv have dis: "distinct (effort_ids d1)" and cy: "distinct (map cy_id (cycles d1))"
    using pre by (simp_all add: store_inv_def local_step_def)
  from e d1 have e1: "e \<in> set (efforts d1)" by simp
  note row = update_state_row [OF u dis e1 refl]
  note fr = update_state_frame [OF u]
  have "local_to i d1 d'" using fr post by (simp add: local_to_def local_step_def)
  with d1 have l: "local_to i d d'" by (metis local_trans)
  have "modify (\<lambda>y. ef_id y = i) (set_state now s n) (efforts d) = modify (\<lambda>x. ef_id x = i) (\<lambda>_. set_state now s n e) (efforts d)"
    unfolding modify_def using distinct_ids_same [OF _ e(1)] dis d1 e(2) by (intro map_cong) auto
  with row(1) post d1 e(2) have "efforts d' = modify (\<lambda>x. ef_id x = i) (\<lambda>_. set_state now s n e) (efforts d)"
    by (simp add: local_step_def)
  moreover have "effort_move e (set_state now s n e)"
    using u row(3,4) by (intro mv) (auto simp: update_state_Ok)
  moreover have "distinct (map cy_id (cycles d'))" using cy fr(1) post by (simp add: local_step_def)
  ultimately show ?thesis using l rel [OF row(5)] e by (auto simp: op_effect_def)
qed

lemma op_effectI:
  assumes "store_inv d" "required_effort i d = Inr e"
    "update_state_and_count_with_resolution now e s n rejection d1 = Inr d2"
    "local_step i d d1" "same_core d2 d'"
    "\<lbrakk>transition_authorized e s rejection; is_ok (validate_for_count s n); legal_transition (ef_state e) s;
        effort_check (set_state now s n e)\<rbrakk> \<Longrightarrow> effort_move e (set_state now s n e)"
  shows "op_effect d d'"
  using assms by (intro op_effect_late [OF assms(1-4)]) (auto simp: same_core_local same_core_related)

lemma op_effect_quiet:
  assumes inv: "store_inv d" and l: "local_step i d d'"
    and rel: "\<And>e. related_state d e \<Longrightarrow> related_state d' e"
  shows "op_effect d d'"
  using inv l rel by (auto simp: op_effect_def store_inv_def local_step_def)

lemma op_effect_same: "store_inv d \<Longrightarrow> same_core d d' \<Longrightarrow> op_effect d d'"
  by (rule op_effect_quiet) (auto simp: same_core_local same_core_related)

lemma required_effortI:
  assumes "store_inv d" "e \<in> set (efforts d)" "is_ok (validate_for_count (ef_state e) (ef_failed_cycles e))"
  shows "required_effort (ef_id e) d = Inr e"
proof -
  have "find (\<lambda>x. ef_id x = ef_id e) (efforts d) = Some e"
  proof (cases "find (\<lambda>x. ef_id x = ef_id e) (efforts d)")
    case None
    with assms show ?thesis by (auto simp: find_None_mem)
  next
    case (Some x)
    with assms find_Some_mem [OF Some] show ?thesis using distinct_ids_same [of d x e] by (simp add: store_inv_def)
  qed
  with assms show ?thesis by (simp add: required_effort_Ok)
qed

definition cycle_key :: "cycle \<Rightarrow> string \<times> string \<times> cycle_status" where
  "cycle_key c = (cy_id c, cy_effort_id c, cy_status c)"

lemma cycle_in_status_key: "map cycle_key (cycles d') = map cycle_key (cycles d) \<Longrightarrow> cycle_in_status d' i c st = cycle_in_status d i c st"
proof -
  have "cycle_in_status x i c st \<longleftrightarrow> (c, i, st) \<in> set (map cycle_key (cycles x))" for x
    by (auto simp: cycle_in_status_def cycle_key_def list_ex_iff image_iff)
  then show "map cycle_key (cycles d') = map cycle_key (cycles d) \<Longrightarrow> ?thesis" by metis
qed

lemma update_cycles_related:
  assumes u: "update_cycles p f d = (d', n)" and k: "\<And>c. p c \<Longrightarrow> cycle_key (f c) = cycle_key c"
  shows "related_state d' e = related_state d e"
proof -
  have "map cycle_key (cycles d') = map cycle_key (cycles d)"
    using u k by (auto simp: update_cycles_def map_key_modify)
  note c = cycle_in_status_key [OF this]
  have "evidences d' = evidences d" "reviews d' = reviews d" "guidance_requests d' = guidance_requests d"
    using u by (auto simp: update_cycles_def)
  then show ?thesis
    by (cases "ef_state e") (simp_all add: related_state_def c landing_gate_def cong: option.case_cong candidate_review.case_cong)
qed

lemma state_case_Ok [result_simps]:
  "(case s of AgentReady v \<Rightarrow> F0 v | _ \<Rightarrow> Err x) = Inr (y0 :: 'a0) \<longleftrightarrow> (\<exists>v. s = AgentReady v \<and> F0 v = Inr y0)"
  "(case s of AgentLaunching v \<Rightarrow> F1 v | _ \<Rightarrow> Err x) = Inr (y1 :: 'a1) \<longleftrightarrow> (\<exists>v. s = AgentLaunching v \<and> F1 v = Inr y1)"
  "(case s of AgentRunning v \<Rightarrow> F2 v | _ \<Rightarrow> Err x) = Inr (y2 :: 'a2) \<longleftrightarrow> (\<exists>v. s = AgentRunning v \<and> F2 v = Inr y2)"
  "(case s of CandidateBuilding v \<Rightarrow> F3 v | _ \<Rightarrow> Err x) = Inr (y3 :: 'a3) \<longleftrightarrow> (\<exists>v. s = CandidateBuilding v \<and> F3 v = Inr y3)"
  "(case s of CandidateReady v \<Rightarrow> F4 v | _ \<Rightarrow> Err x) = Inr (y4 :: 'a4) \<longleftrightarrow> (\<exists>v. s = CandidateReady v \<and> F4 v = Inr y4)"
  "(case s of Validating v \<Rightarrow> F5 v | _ \<Rightarrow> Err x) = Inr (y5 :: 'a5) \<longleftrightarrow> (\<exists>v. s = Validating v \<and> F5 v = Inr y5)"
  "(case s of Landing v \<Rightarrow> F6 v | _ \<Rightarrow> Err x) = Inr (y6 :: 'a6) \<longleftrightarrow> (\<exists>v. s = Landing v \<and> F6 v = Inr y6)"
  "(case s of ProviderBlocked v \<Rightarrow> F7 v | _ \<Rightarrow> Err x) = Inr (y7 :: 'a7) \<longleftrightarrow> (\<exists>v. s = ProviderBlocked v \<and> F7 v = Inr y7)"
  "(case s of TargetMovePending v \<Rightarrow> F8 v | _ \<Rightarrow> Err x) = Inr (y8 :: 'a8) \<longleftrightarrow> (\<exists>v. s = TargetMovePending v \<and> F8 v = Inr y8)"
  by (cases s; simp)+

lemmas update_defs = update_state_def update_state_and_count_def

lemma prod_case_Ok: "(case p of (a, b) \<Rightarrow> F a b) = Inr y \<longleftrightarrow> (\<exists>a b. p = (a, b) \<and> F a b = Inr y)"
  by (cases p) simp

lemmas op_elim = bnd_eq_Ok require_eq_Ok state_case_Ok prod_case_Ok update_defs Let_def

lemma op_effect_refl: "store_inv d \<Longrightarrow> op_effect d d"
  by (erule op_effect_same) (rule same_core_refl)

lemma op_effect_then:
  assumes "op_effect d d1" "same_core d1 d'"
  shows "op_effect d d'"
proof -
  have "related_state d' = related_state d1" using same_core_related [OF assms(2)] by blast
  with assms show ?thesis by (simp add: op_effect_def same_core_def local_to_def)
qed

lemma authorized_internal:
  assumes "transition_authorized e s None" "\<not> contains_external_landing_authority s"
  shows "\<not> contains_external_landing_authority (ef_state e)"
  using assms target_move_external [of e None] by (auto simp: transition_authorized_def)

lemma modify_modify: "(\<And>r. p (g r) = p r) \<Longrightarrow> modify p f (modify p g t) = modify p (\<lambda>r. f (g r)) t"
  by (simp add: modify_def)

lemma option_case_Ok: "(case x of None \<Rightarrow> Err z | Some y \<Rightarrow> F y) = Inr v \<longleftrightarrow> (\<exists>y. x = Some y \<and> F y = Inr v)"
  by (cases x) auto

end
