(* ===== verification/Effects_Cycles.thy ===== *)
theory Effects_Cycles
  imports Store_Effects
begin

text \<open>
  The operations of \<open>Store_Cycles\<close> refine the machine of one effort.
\<close>

section \<open>Creation and replacement\<close>

lemma find_item_effort:
  assumes "store_inv d" "find (\<lambda>e. ef_item_id e = item) (efforts d) = Some e"
    "is_ok (validate_for_count (ef_state e) (ef_failed_cycles e))"
  shows "required_effort (ef_id e) d = Inr e" "ef_item_id e = item"
  using assms find_Some_mem [OF assms(2)] required_effortI [of d e] by auto

lemma mark_effort_replacement_pending_effect:
  assumes inv: "store_inv d" and op: "mark_effort_replacement_pending now uuid item a d = Inr (d', b)"
  shows "op_effect d d'"
proof (cases "find (\<lambda>e. ef_item_id e = item) (efforts d)")
  case None
  with op inv show ?thesis by (auto simp: mark_effort_replacement_pending_def op_effect_refl)
next
  case (Some e)
  let ?s = "ReplacementPending \<lparr>rp_old_attempt_id = a, rp_replaced_at = now\<rparr>"
  from op Some obtain d1 where ok: "is_ok (validate_for_count (ef_state e) (ef_failed_cycles e))"
    and g: "ef_attempt_id e = a" "is_cycle_limit (ef_state e)"
    and u: "update_state_and_count_with_resolution now e ?s 0 None d = Inr d1" and z: "same_core d1 d'"
    by (auto simp: mark_effort_replacement_pending_def op_elim is_ok_iff intro: core_steps)
  from g(2) obtain l where "ef_state e = CycleLimitBlocked l" by (cases "ef_state e") auto
  then show ?thesis
    by (intro op_effectI [OF inv find_item_effort(1) [OF inv Some ok] u local_step_refl z] move_replacement)
      (auto simp: g dest: authorized_internal)
qed

lemma replace_effort_effect:
  assumes inv: "store_inv d" and r: "required_effort (ef_id e) d = Inr e" "ef_item_id e = ne_item_id new"
    "ef_state e = ReplacementPending p" "native_composition (ne_composition new)"
    and op: "replace_effort now uuid new e p d = Inr (d', e')"
  shows "op_effect d d'"
  using op unfolding replace_effort_def op_elim
proof (elim exE conjE, goal_cases)
  case (1 _ _ _ _ d1 n _ e1 d2 e2)
  define m where "m = (effort_of_new (ef_id e) now new)
    \<lparr>ef_state := AgentReady \<lparr>ar_next_cycle = Suc (max_cycle_number (ef_id e) d)\<rparr>, ef_created_at := ef_created_at e\<rparr>"
  note e = required_effort_facts [OF r(1)]
  have dis: "distinct (effort_ids d)" using inv by (simp add: store_inv_def)
  have row: "(ef_id x = ef_id e \<and> ef_item_id x = ne_item_id new \<and> state_name (ef_state x) = ''replacement_pending''
      \<and> ef_attempt_id x = rp_old_attempt_id p) \<longleftrightarrow> ef_id x = ef_id e" if "x \<in> set (efforts d)" for x
    using distinct_ids_same [OF dis that e(1)] r 1 by auto
  have "efforts d1 = modify (\<lambda>x. ef_id x = ef_id e) (\<lambda>_. m) (efforts d)"
    using 1(5) unfolding 1(6) update_effort_state_Ok
  proof (elim conjE, goal_cases)
    case 1
    have "ef_created_at y = ef_created_at e" "ef_item_id y = ne_item_id new" if "y \<in> set (efforts d)" "ef_id y = ef_id e" for y
      using distinct_ids_same [OF dis that(1) e(1) that(2)] r(2) by simp_all
    then show ?case
      unfolding 1(2) using row r(2)
      by (auto simp: modify_def m_def effort_of_new_def intro!: map_cong effort.equality)
  qed
  moreover have "related_state d1 m" by (simp add: m_def related_state_def)
  moreover have "effort_move e m" unfolding m_def using r 1(1) by (intro move_replace) auto
  moreover have "cycles d1 = cycles d" "evidences d1 = evidences d" "reviews d1 = reviews d" "guidance_requests d1 = guidance_requests d"
    using 1 by (auto simp: update_effort_state_Ok)
  ultimately have "op_effect d d1"
    using e inv unfolding op_effect_def by (auto simp: local_to_def store_inv_def)
  moreover have "same_core d1 d'" using 1 by (auto intro: core_steps)
  ultimately show ?case by (rule op_effect_then)
qed

lemma create_effort_effect:
  assumes inv: "store_inv d" and op: "create_effort now i uuid new d = Inr (d', e')"
  shows "op_effect d d'"
proof (cases "find (\<lambda>e. ef_item_id e = ne_item_id new) (efforts d)")
  case None
  from op have native: "native_composition (ne_composition new)"
    by (auto simp: create_effort_def bnd_eq_Ok dest: composition_validate_native)
  let ?e = "effort_of_new i now new"
  from op None obtain d1 d2 where d1: "insert_effort ?e d = Inr d1"
    and d2: "same_core (move_reservation now i (ne_item_id new) d1) d2" and "d' = d2"
    by (auto simp: create_effort_def op_elim intro: core_steps)
  then have d': "same_core d1 d'" by (simp add: same_core_def move_reservation_def)
  from d1 native have "created d ?e" "d1 = d\<lparr>efforts := efforts d @ [?e]\<rparr>"
    by (auto simp: insert_effort_Ok created_def list_ex_iff effort_of_new_def)
  with inv have "op_effect d d1" by (auto simp: op_effect_def local_to_def store_inv_def)
  with d' show ?thesis by (blast intro: op_effect_then)
next
  case (Some e)
  with op have ok: "is_ok (validate_for_count (ef_state e) (ef_failed_cycles e))"
    by (auto simp: create_effort_def op_elim is_ok_iff)
  note r = find_item_effort [OF inv Some ok]
  from op have native: "native_composition (ne_composition new)"
    by (auto simp: create_effort_def bnd_eq_Ok dest: composition_validate_native)
  show ?thesis
  proof (cases "ef_state e")
    case (ReplacementPending p)
    with op Some have "replace_effort now uuid new e p d = Inr (d', e')"
      by (auto simp: create_effort_def op_elim)
    then show ?thesis by (rule replace_effort_effect [OF inv r ReplacementPending native])
  qed (use op Some inv in \<open>auto simp: create_effort_def op_elim intro: op_effect_refl\<close>)
qed

section \<open>Launch\<close>

lemma prepare_cycle_launch_effect:
  assumes inv: "store_inv d" and op: "prepare_cycle_launch now uuid i launch d = Inr d'"
  shows "op_effect d d'"
  using op unfolding prepare_cycle_launch_def op_elim
proof (elim exE conjE, goal_cases)
  case (1 _ e _ r _ d1 d2)
  then show ?case
    by (intro op_effectI [OF inv 1(2) _ insert_cycle_local append_event_core move_launch]) 
      (auto simp: AUTOMATIC_CYCLE_LIMIT_def)
qed

lemma surrender_effect:
  assumes inv: "store_inv d" and op: "surrender_cycle_spawn_authority alive now uuid i oid lease launcher d = Inr (d', b)"
  shows "op_effect d d'"
proof -
  from op obtain e where r: "required_effort i d = Inr e"
    by (auto simp: surrender_cycle_spawn_authority_def bnd_eq_Ok)
  show ?thesis
  proof (cases "ef_state e")
    case (AgentLaunching l)
    let ?s = "l\<lparr>al_spawn_authority := Surrendered\<rparr>"
    let ?p = "\<lambda>c. cy_id c = al_cycle_id ?s \<and> cy_effort_id c = i \<and> cy_status c = CyStarting"
    let ?f = "\<lambda>c. c\<lparr>cy_process := ProcessLaunching ?s\<rparr>"
    from op r AgentLaunching obtain d2 d3 where open_: "al_spawn_authority l = SpawnOpen"
      and u: "update_state_and_count_with_resolution now e (AgentLaunching ?s) (ef_failed_cycles e) None d = Inr d2"
      and c: "update_cycles ?p ?f d2 = (d3, 1)"
      and a: "same_core d3 d'"
      by (auto simp: surrender_cycle_spawn_authority_def op_elim intro: core_steps split: if_splits)
    have l: "local_step i d2 d3" by (rule update_cycles_local [OF c]) auto
    have rel: "related_state d' x = related_state d2 x" for x
      using same_core_related [OF a] update_cycles_related [OF c] by (simp add: cycle_key_def)
    show ?thesis
      by (rule op_effect_late [OF inv r u local_step_refl local_step_trans [OF l same_core_local [OF a]]])
        (simp_all add: rel move_surrender [OF AgentLaunching open_])
  next
    case (Cancelled x)
    with op r have "close_requested_spawn_authority i oid lease launcher d = Inr (d', True)"
      by (auto simp: surrender_cycle_spawn_authority_def op_elim split: if_splits)
    then show ?thesis
      by (intro op_effect_same [OF inv])
        (auto simp: close_requested_spawn_authority_def update_cancelled_spawn_authority_def same_core_def op_elim
          split: option.splits runner_termination_authority.splits if_splits)
  qed (use op r in \<open>auto simp: surrender_cycle_spawn_authority_def bnd_eq_Ok Let_def\<close>)
qed

lemma close_spawn_core: "update_cancelled_spawn_authority i oid lease launcher x d = Inr (d', b) \<Longrightarrow> same_core d d'"
  by (auto simp: update_cancelled_spawn_authority_def same_core_def op_elim
      split: option.splits runner_termination_authority.splits if_splits)

lemma acknowledge_terminated_effect:
  assumes inv: "store_inv d" and op: "acknowledge_terminated_cycle_spawn now i oid lease launcher d = Inr d'"
  shows "op_effect d d'"
proof -
  from op obtain e where r: "required_effort i d = Inr e"
    by (auto simp: acknowledge_terminated_cycle_spawn_def bnd_eq_Ok)
  show ?thesis
  proof (cases "ef_state e")
    case (AgentLaunching l)
    with op r obtain d1 n where c: "fail_cycle now (al_cycle_id l) i CyStarting Interrupted d = (d1, 1)"
      and u: "update_state_and_count_with_resolution now e (AgentReady \<lparr>ar_next_cycle = n\<rparr>) (ef_failed_cycles e) None d1 = Inr d'"
      by (auto simp: acknowledge_terminated_cycle_spawn_def op_elim split: if_splits)
    show ?thesis
      by (rule op_effectI [OF inv r u fail_cycle_local [OF c] same_core_refl]) (rule move_unlaunch [OF AgentLaunching])
  next
    case (AgentRunning g)
    with op r obtain d1 n where c: "fail_cycle now (ag_cycle_id g) i CyRunning Interrupted d = (d1, 1)"
      and u: "update_state_and_count_with_resolution now e (AgentReady \<lparr>ar_next_cycle = n\<rparr>) (ef_failed_cycles e) None d1 = Inr d'"
      by (auto simp: acknowledge_terminated_cycle_spawn_def op_elim split: if_splits)
    show ?thesis
      by (rule op_effectI [OF inv r u fail_cycle_local [OF c] same_core_refl]) (rule move_interrupted [OF AgentRunning])
  next
    case (Cancelled x)
    with op r have "same_core d d'"
      by (auto simp: acknowledge_terminated_cycle_spawn_def op_elim close_surrendered_spawn_authority_def
          intro: close_spawn_core core_steps split: option.splits runner_termination_authority.splits if_splits)
    then show ?thesis by (rule op_effect_same [OF inv])
  qed (use op r in \<open>auto simp: acknowledge_terminated_cycle_spawn_def bnd_eq_Ok Let_def\<close>)
qed

lemma acknowledge_failed_effect:
  assumes "store_inv d" "acknowledge_cycle_spawn_failed us now i oid lease launcher d = Inr d'"
  shows "op_effect d d'"
  using assms acknowledge_terminated_effect by (auto simp: acknowledge_cycle_spawn_failed_def bnd_eq_Ok Let_def)

lemma reset_prepared_launch_effect:
  assumes inv: "store_inv d" and op: "reset_prepared_launch alive now uuid i c d = Inr d'"
  shows "op_effect d d'"
  using op unfolding reset_prepared_launch_def op_elim
proof (elim exE conjE, goal_cases)
  case (1 e l _ living _ d1 n _ nx d2)
  then show ?case
    by (intro op_effectI [OF inv 1(1) _ fail_cycle_local append_event_core move_unlaunch])
qed

section \<open>Running and failed cycles\<close>

lemma record_cycle_started_effect:
  assumes inv: "store_inv d" and op: "record_cycle_started now uuid i g lease launcher d = Inr (d', b)"
  shows "op_effect d d'"
proof -
  from op obtain e where r: "required_effort i d = Inr e"
    by (auto simp: record_cycle_started_def bnd_eq_Ok)
  show ?thesis
  proof (cases "ef_state e")
    case (AgentLaunching l)
    with op r obtain d1 d2 where m: "running_matches_launch l g lease launcher"
      and c: "update_cycles (\<lambda>c. cy_id c = ag_cycle_id g \<and> cy_effort_id c = i \<and> cy_status c = CyStarting)
                  (\<lambda>c. c\<lparr>cy_status := CyRunning, cy_process := ProcessRunning g\<rparr>) d = (d1, 1)"
      and u: "update_state_and_count_with_resolution now e (AgentRunning g) (ef_failed_cycles e) None d1 = Inr d2"
      and a: "same_core d2 d'"
      by (auto simp: record_cycle_started_def op_elim intro: core_steps split: if_splits)
    have l: "local_step i d d1" by (rule update_cycles_local [OF c]) auto
    show ?thesis
      using m by (intro op_effectI [OF inv r u l a] move_started [OF AgentLaunching]) (auto simp: running_matches_launch_def)
  next
    case (Cancelled x)
    with op r have "d' = d" by (auto simp: record_cycle_started_def op_elim)
    then show ?thesis by (simp add: op_effect_same [OF inv] core_steps)
  qed (use op r in \<open>auto simp: record_cycle_started_def bnd_eq_Ok Let_def\<close>)
qed

lemma record_result_state_effect:
  assumes inv: "store_inv d" and op: "record_result_state now i c result d = Inr d'"
  shows "op_effect d d'"
  using op unfolding record_result_state_def op_elim
proof (elim exE conjE, goal_cases)
  case (1 _ e g _ _ d1 n _)
  have l: "local_step i d d1" by (rule update_cycles_local [OF 1(6)]) auto
  from 1 show ?case
    by (intro op_effectI [OF inv 1(2) _ l same_core_refl move_result])
qed

lemma record_cycle_log_effect:
  assumes inv: "store_inv d" and op: "record_cycle_log i c log d = Inr d'"
  shows "op_effect d d'"
proof -
  from op have u: "update_cycles (\<lambda>x. cy_id x = c \<and> cy_effort_id x = i \<and> cy_status x = CyRunning)
      (\<lambda>x. x\<lparr>cy_log := Some log\<rparr>) d = (d', 1)"
    by (auto simp: record_cycle_log_def bnd_eq_Ok require_eq_Ok split: prod.splits)
  have "local_step i d d'" by (rule update_cycles_local [OF u]) auto
  then show ?thesis
    by (rule op_effect_quiet [OF inv]) (simp add: update_cycles_related [OF u] cycle_key_def)
qed

lemma move_failed_cycle:
  assumes "n = Suc (ef_failed_cycles e)" "s = AgentReady r \<and> n < 10 \<or> s = CycleLimitBlocked b \<and> n = 10"
    "\<not> resume_external_landing (be_resume b)"
    "transition_authorized e s None" "legal_transition (ef_state e) s"
  shows "effort_move e (set_state now s n e)"
  using assms authorized_internal [of e s] move_cycle_failed [of e r now] move_cycle_limit [of e b now] by auto

lemma checked_increment_Ok [result_simps]: "checked_increment n = Inr m \<longleftrightarrow> n < 255 \<and> m = Suc n"
  by (auto simp: checked_increment_def)

lemma failed_state_Ok:
  assumes "(if count = AUTOMATIC_CYCLE_LIMIT
      then bnd (next_cycle_number i d) (\<lambda>nx. bnd (append_event_with_id now uuid e t
             (PayloadState (cycle_limit_state i c count failure uuid nx d)) True d) (\<lambda>d1.
             Ok (d1, cycle_limit_state i c count failure uuid nx d)))
      else if count < AUTOMATIC_CYCLE_LIMIT then ready else Err x) = Inr (d1, s)"
    and "\<And>d1 s. ready = Inr (d1, s) \<Longrightarrow> d1 = d \<and> (\<exists>nx. s = AgentReady \<lparr>ar_next_cycle = nx\<rparr>)"
  shows "same_core d d1 \<and> (\<exists>nx. s = AgentReady \<lparr>ar_next_cycle = nx\<rparr> \<and> count < 10
           \<or> s = cycle_limit_state i c count failure uuid nx d \<and> count = 10)"
  using assms by (auto simp: bnd_eq_Ok AUTOMATIC_CYCLE_LIMIT_def intro: core_steps split: if_splits)

lemma failed_event_core: "(if b then append_event now uuid e t p a d else Ok d) = Inr d' \<Longrightarrow> same_core d d'"
  by (auto intro: core_steps split: if_splits)

lemma consume_cycle_failure_effect:
  assumes inv: "store_inv d" and op: "consume_cycle_failure now uuid i c failure d = Inr (d', e')"
  shows "op_effect d d'"
  using op unfolding consume_cycle_failure_def op_elim checked_increment_Ok
proof (elim exE conjE, goal_cases)
  case (1 e count p d1 s d2 _ _ d3 d4)
  have "same_core d d1 \<and> (\<exists>nx. s = AgentReady \<lparr>ar_next_cycle = nx\<rparr> \<and> count < 10
           \<or> s = cycle_limit_state i c count failure uuid nx d \<and> count = 10)"
    by (rule failed_state_Ok [OF 1(4) [unfolded 1(5)]]) (auto simp: bnd_eq_Ok)
  then obtain nx where a: "same_core d d1" and
    s: "s = AgentReady \<lparr>ar_next_cycle = nx\<rparr> \<and> count < 10 \<or> s = cycle_limit_state i c count failure uuid nx d \<and> count = 10"
    by blast
  have z: "same_core d3 d'" using failed_event_core [OF 1(9)] 1(11) by simp
  show ?case
    by (rule op_effectI [OF inv 1(1,8) local_step_trans [OF same_core_local [OF a] fail_cycle_local [OF 1(6)]] z])
      (rule move_failed_cycle [OF 1(3) s [unfolded cycle_limit_state_def]], simp_all)
qed

end
