(* ===== verification/Effects_Candidate.thy ===== *)
theory Effects_Candidate
  imports Effects_Cycles
begin

text \<open>
  The operations of \<open>Store_Candidate\<close> refine the machine of one effort.  An update of a running cycle by
  its identifier alone stays within the effort: identifiers of cycles are unique, and a running effort
  names a running cycle of its own.
\<close>

section \<open>Building\<close>

lemma running_cycle_owner:
  assumes inv: "store_inv d" and e: "e \<in> set (efforts d)" "ef_state e = AgentRunning g"
    and c: "c \<in> set (cycles d)" "cy_id c = ag_cycle_id g"
  shows "cy_effort_id c = ef_id e"
proof -
  from inv e have "cycle_in_status d (ef_id e) (ag_cycle_id g) CyRunning"
    by (auto simp: store_inv_def related_state_def)
  then obtain x where x: "x \<in> set (cycles d)" "cy_id x = ag_cycle_id g" "cy_effort_id x = ef_id e"
    by (auto simp: cycle_in_status_def list_ex_iff)
  have "inj_on cy_id (set (cycles d))" using inv by (simp add: store_inv_def distinct_map)
  then have "c = x" using c x by (simp add: inj_on_def)
  with x show ?thesis by simp
qed

lemma start_candidate_build_effect:
  assumes inv: "store_inv d" and op: "start_candidate_build now uuid i intent d = Inr d'"
  shows "op_effect d d'"
  using op unfolding start_candidate_build_def op_elim
  by (elim exE conjE) (rule op_effectI [OF inv], assumption, assumption, rule local_step_refl, erule append_event_core,
    auto intro: move_build simp: building_of_intent_def)

lemma accept_resolved_cycle_effect:
  assumes inv: "store_inv d" and op: "accept_resolved_cycle now uuid i intent d = Inr d'"
  shows "op_effect d d'"
  using op unfolding accept_resolved_cycle_def op_elim
proof (elim exE conjE, goal_cases)
  case (1 e g _ d1 n _ d2)
  note e = required_effort_facts [OF 1(1)]
  have "local_step i d d1"
    by (rule update_cycles_local [OF 1(5)]) (use running_cycle_owner [OF inv e(1) 1(2)] e(2) in auto)
  with 1 show ?case
    by (intro op_effectI [OF inv 1(1) _ _ append_event_core move_build]) (auto simp: building_of_intent_def)
qed

lemma publish_local:
  assumes "publish_candidate_state now review_id e b obs d = Inr (d', s)"
  shows "local_step (ef_id e) d d'"
    "cb_classification b = ClsMechanical \<and> (\<exists>c. s = CandidateReady c \<and> cr_review c = RevMechanical)
     \<or> cb_classification b = ClsSemantic \<and> (\<exists>v. s = ReviewRequired v)"
  using assms
  by (auto simp: publish_candidate_state_def bnd_eq_Ok intro: local_step_refl insert_review_local split: candidate_classification.splits)

lemma record_candidate_effect:
  assumes inv: "store_inv d" and op: "record_candidate now review_id uuid i obs d = Inr d'"
  shows "op_effect d d'"
  using op unfolding record_candidate_def op_elim
proof (elim exE conjE, goal_cases)
  case (1 e _ _ _ _ _ _ b _ _ _ d1 s d2 _ d3 _ _ d4)
  note e = required_effort_facts [OF 1(1)]
  note p = publish_local [OF 1(11) [unfolded 1(12)]]
  have "same_core d2 d3" using update_attempts_core(2) [OF 1(15)] invalidate_core same_core_trans by blast
  moreover have "local_step i d1 d2" by (rule upsert_evidence_local [OF 1(13)]) simp
  ultimately have l: "local_step i d d3"
    using p(1) e(2) same_core_local by (meson local_step_trans)
  show ?case
    by (rule op_effectI [OF inv 1(1,17) l append_event_core [OF 1(18)]])
      (use p(2) 1(8) in \<open>auto intro: move_publish move_ask_review\<close>)
qed

lemma reset_interrupted_candidate_build_effect:
  assumes inv: "store_inv d" and op: "reset_interrupted_candidate_build now uuid i d = Inr (d', e')"
  shows "op_effect d d'"
  using op unfolding reset_interrupted_candidate_build_def op_elim
  by (elim exE conjE) (rule op_effectI [OF inv], assumption, assumption, rule local_step_refl, auto intro: core_steps move_build_reset)

section \<open>Validation and rejection\<close>

lemma start_validation_effect:
  assumes inv: "store_inv d" and op: "start_validation now uuid i digest d = Inr d'"
  shows "op_effect d d'"
  using op unfolding start_validation_def op_elim
  by (elim exE conjE) (rule op_effectI [OF inv], assumption, assumption, rule local_step_refl, erule append_event_core, auto intro: move_validate)

lemma complete_validation_effect:
  assumes inv: "store_inv d" and op: "complete_validation now uuid i candidate d = Inr d'"
  shows "op_effect d d'"
  using op unfolding complete_validation_def op_elim
proof (elim exE conjE, goal_cases)
  case (1 e f _ v _ _ d2)
  then have "Validating \<lparr>va_candidate_sha = candidate, va_policy_digest = va_policy_digest v, va_stage = Gates\<rparr> = Validating (v\<lparr>va_stage := Gates\<rparr>)"
    by (cases v) simp
  with 1 show ?case
    by (intro op_effectI [OF inv 1(1) _ local_step_refl append_event_core move_validated]) auto
qed

lemma reject_candidate_effect:
  assumes inv: "store_inv d" and op: "reject_candidate now uuid i text d = Inr (d', e')"
  shows "op_effect d d'"
  using op unfolding reject_candidate_def op_elim checked_increment_Ok
proof (elim exE conjE, goal_cases)
  case (1 _ e _ c count p d1 s d2 _ _ d3 d4 _ d5 d6)
  have "same_core d d1 \<and> (\<exists>nx. s = AgentReady \<lparr>ar_next_cycle = nx\<rparr> \<and> count < 10
           \<or> s = cycle_limit_state i c count (CandidateDefect text) uuid nx d \<and> count = 10)"
    by (rule failed_state_Ok [OF 1(7) [unfolded 1(8)]]) auto
  then obtain nx where a: "same_core d d1" and
    s: "s = AgentReady \<lparr>ar_next_cycle = nx\<rparr> \<and> count < 10
      \<or> s = cycle_limit_state i c count (CandidateDefect text) uuid nx d \<and> count = 10"
    by blast
  have z: "same_core d5 d'" using failed_event_core [OF 1(14)] 1(16) by simp
  have "same_core d3 d4" using update_attempts_core(2) [OF 1(12)] invalidate_core same_core_trans by blast
  moreover have "local_step i d2 d3" by (rule delete_evidence_local [OF 1(11)]) simp
  ultimately have l: "local_step i d d4"
    using same_core_local [OF a] fail_cycle_local [OF 1(9)] same_core_local by (meson local_step_trans)
  show ?case
    by (rule op_effectI [OF inv 1(2,13) l z])
      (rule move_failed_cycle [OF 1(6) s [unfolded cycle_limit_state_def]], simp_all)
qed

section \<open>Review\<close>

lemma review_change_local:
  assumes "(case decision of Approve x \<Rightarrow> Ok d
      | RequestChanges x \<Rightarrow> bnd (delete_evidence (\<lambda>c. ce_effort_id c = i) d)
          (\<lambda>d. Ok (fst (update_attempts p f (invalidate_validation_invocations now a d))))) = Inr d'"
  shows "local_step i d d'"
proof (cases decision)
  case (RequestChanges t)
  with assms obtain d1 where d1: "delete_evidence (\<lambda>c. ce_effort_id c = i) d = Inr d1"
    and d': "d' = fst (update_attempts p f (invalidate_validation_invocations now a d1))"
    by (auto simp: bnd_eq_Ok)
  have "same_core d1 d'" unfolding d' by (rule same_core_trans [OF invalidate_core update_attempts_core(1)])
  moreover have "local_step i d d1" by (rule delete_evidence_local [OF d1]) simp
  ultimately show ?thesis using local_step_trans same_core_local by blast
qed (use assms in \<open>simp add: local_step_refl\<close>)

lemma apply_review_effect:
  assumes inv: "store_inv d" and r: "required_effort (ef_id e) d = Inr e" "ef_state e = ReviewRequired review"
    and op: "apply_review now uuid command responder e review d = Inr (d', s)"
  shows "op_effect d d'"
  using op unfolding apply_review_def op_elim
proof (elim exE conjE, goal_cases)
  case (1 x status y t event p d1 n _ d2 d3 d4)
  have "local_step (ef_id e) d d1" by (rule update_reviews_local [OF 1(4) [unfolded 1(5)]]) auto
  with review_change_local [OF 1(7)] have l: "local_step (ef_id e) d d2" by (blast intro: local_step_trans)
  have z: "same_core d3 d'" using 1(9,10) by (auto intro: core_steps)
  show ?case
    by (rule op_effectI [OF inv r(1) 1(8) l z])
      (use r(2) 1(1-3) in \<open>auto simp: reviewed_state_def bnd_eq_Ok intro: move_approve move_changes split: review_decision.splits\<close>)
qed

lemma review_body:
  assumes "(if a then Ok (d, Unauthorized, n) else if m then Ok (d, Malformed, n)
      else (case st of ReviewRequired v \<Rightarrow> if q v then bnd (A v) (\<lambda>(d, s). Ok (d, Applied, N s)) else Ok (d, Stale, n)
            | _ \<Rightarrow> Ok (d, Stale, n))) = Inr (d1, x)"
  shows "d1 = d \<or> (\<exists>v s. st = ReviewRequired v \<and> A v = Inr (d1, s))"
  using assms by (cases st) (auto simp: bnd_eq_Ok split: if_splits)

lemma review_candidate_effect:
  assumes inv: "store_inv d" and op: "review_candidate_for_effort now uuid command i responder uid d = Inr (d', receipt)"
  shows "op_effect d d'"
proof (cases "find (\<lambda>r. rx_external_id r = rm_external_id command) (review_receipts d)")
  case None
  show ?thesis
    using op unfolding review_candidate_for_effort_def None option.case op_elim
  proof (elim exE conjE, goal_cases)
    case (1 e _ _ _ p d1 _ _ _)
    note e = required_effort_facts(2) [OF 1(1)]
    have "op_effect d d1"
      using review_body [OF 1(5) [unfolded 1(6)]] apply_review_effect [OF inv] op_effect_refl [OF inv] 1(1) e by blast
    moreover have "same_core d1 d'" using 1 by (auto simp: same_core_def)
    ultimately show ?case by (rule op_effect_then)
  qed
qed (use op inv in \<open>auto simp: review_candidate_for_effort_def intro: op_effect_refl\<close>)

end
