(* ===== verification/Effects_Landing.thy ===== *)
theory Effects_Landing
  imports Effects_Candidate
begin

text \<open>
  The operations of \<open>Store_Landing\<close> and \<open>Store_Blockers\<close> refine the machine of one effort.
\<close>

section \<open>Landing\<close>

lemma begin_landing_effect:
  assumes inv: "store_inv d" and op: "begin_landing now uuid i target lease command signoff d = Inr d'"
  shows "op_effect d d'"
  using op unfolding begin_landing_def op_elim
  by (elim exE conjE) (rule op_effectI [OF inv], assumption, assumption, rule local_step_refl, erule append_event_core, auto intro: move_land)

lemma release_landing_effect:
  assumes inv: "store_inv d" and op: "release_landing now uuid i command d = Inr d'"
  shows "op_effect d d'"
  using op unfolding release_landing_def op_elim
  by (elim exE conjE) (rule op_effectI [OF inv], assumption, assumption, rule local_step_refl, erule append_event_core, auto intro: move_release)

lemma replication_core:
  assumes "(case p of NoReplication \<Rightarrow> Ok d | Replicate targets \<Rightarrow> record_replication_debts i k t l targets fresh d) = Inr d'"
  shows "same_core d d'"
  using assms by (auto intro: core_steps split: replication_policy.splits)

lemma mark_integrated_effect:
  assumes inv: "store_inv d" and op: "mark_integrated now uuid fresh i landed remote d = Inr d'"
  shows "op_effect d d'"
  using op unfolding mark_integrated_def op_elim
proof (elim exE conjE, goal_cases)
  case (1 e _ _ _ _ _ _ c d1 d2 d3 d4 _ d5 _ d6)
  have l: "local_step i d (fst (update_attempts p f d1))" for p f
    using insert_cleanup_debt_core [OF 1(9)] update_attempts_core(1) same_core_trans same_core_local by blast
  have z: "same_core d2 d'"
    using record_landing_ref_debt_core [OF 1(11)] integrate_submission_core [OF 1(12)]
      update_checkout_core [OF 1(13) [unfolded 1(14)]] replication_core [OF 1(15)] append_event_with_id_core [OF 1(16)]
    by (meson same_core_trans)
  show ?case
    by (rule op_effectI [OF inv 1(1,10) l z]) (use 1(8) in \<open>auto intro: move_integrate\<close>)
qed

section \<open>Target movement\<close>

lemma supersede_open_review_local:
  assumes "supersede_open_review now target e review d = Inr d'"
  shows "local_step (ef_id e) d d'"
  using assms unfolding supersede_open_review_def op_elim
proof (elim exE conjE, goal_cases)
  case (1 x d1 _ _ d2 _ _)
  have "local_step (ef_id e) d d1" by (rule update_reviews_local [OF 1(1) [unfolded 1(2)]]) auto
  moreover have "local_step (ef_id e) d1 d2" by (rule update_cycles_local [OF 1(4)]) auto
  moreover have "same_core (invalidate_validation_invocations now (ef_attempt_id e) d2) d'"
    using 1(6) by (auto simp: op_elim intro: core_steps split: option.splits)
  with invalidate_core have "same_core d2 d'" by (rule same_core_trans)
  ultimately show ?case by (meson same_core_local local_step_trans)
qed

lemma target_move_local:
  assumes "(case st of ReviewRequired review \<Rightarrow> supersede_open_review now target e review d | _ \<Rightarrow> Ok d) = Inr d'"
  shows "local_step (ef_id e) d d'"
  using assms by (cases st) (auto intro: supersede_open_review_local local_step_refl)

lemma pending_case_Ok:
  "(case s of TargetMovePending p \<Rightarrow> A p | _ \<Rightarrow> B) = Inr y \<longleftrightarrow>
     (\<exists>p. s = TargetMovePending p \<and> A p = Inr y) \<or> (\<nexists>p. s = TargetMovePending p) \<and> B = Inr y"
  by (cases s) auto

lemma begin_target_move_effect:
  assumes inv: "store_inv d" and op: "begin_target_move_with_resolution now uuid i target rejection d = Inr d'"
  shows "op_effect d d'"
  using op unfolding begin_target_move_with_resolution_def bnd_eq_Ok pending_case_Ok op_elim
proof (elim exE conjE disjE, goal_cases)
  case (1 e _ _ _)
  then show ?case using op_effect_refl [OF inv] by simp
next
  case (2 e _ _ _ _ previous d1 d2 _ _ d3 d4 _ _)
  note e = required_effort_facts(2) [OF 2(1)]
  have l: "local_step i d d2"
    using target_move_local [OF 2(8)] update_attempts_core(2) [OF 2(9)] e by (metis same_core_local local_step_trans)
  have z: "same_core d3 d'"
    using update_item_columns_core [OF 2(12)] append_event_core [OF 2(14)] by (rule same_core_trans)
  show ?case
    by (rule op_effectI [OF inv 2(1,11) l z]) (use 2(5-7) in \<open>auto intro!: move_target simp: is_ok_iff\<close>)
qed

lemma prepare_target_recomposition_effect:
  assumes inv: "store_inv d" and op: "prepare_target_recomposition_with_resolution i target rejection d = Inr (d', e')"
  shows "op_effect d d'"
proof -
  from op obtain e where r: "required_effort i d = Inr e"
    by (auto simp: prepare_target_recomposition_with_resolution_def bnd_eq_Ok)
  have "same_core d d'"
    using op r by (cases "ef_state e")
      (auto simp: prepare_target_recomposition_with_resolution_def op_elim intro: core_steps split: option.splits)
  then show ?thesis by (rule op_effect_same [OF inv])
qed

lemma clear_candidate_local:
  assumes "clear_candidate now e target d = Inr d'"
  shows "local_step (ef_id e) d d'"
  using assms unfolding clear_candidate_def op_elim
proof (elim exE conjE, goal_cases)
  case (1 d2 x d3 _)
  let ?d1 = "fst (update_cycles (\<lambda>c. cy_effort_id c = ef_id e \<and> cy_status c = CyResolved)
                     (\<lambda>c. c\<lparr>cy_status := CySuperseded, cy_finished_at := Some now\<rparr>) d)"
  have "local_step (ef_id e) d ?d1" by (rule update_cycles_local [OF prod.collapse [symmetric]]) auto
  moreover have "local_step (ef_id e) ?d1 d2" by (rule delete_evidence_local [OF 1(1)]) simp
  moreover have "local_step (ef_id e) d2 d3" by (rule update_reviews_local [OF 1(2) [unfolded 1(3)]]) auto
  moreover have "same_core d3 d'" using 1(4) invalidate_core update_attempts_core(1) same_core_trans by blast
  ultimately show ?case by (meson same_core_local local_step_trans)
qed

lemma complete_target_recomposition_effect:
  assumes inv: "store_inv d" and op: "complete_target_recomposition now uuid i target conflict composition d = Inr (d', e')"
  shows "op_effect d d'"
  using op unfolding complete_target_recomposition_def op_elim option_case_Ok
proof (elim exE conjE, goal_cases)
  case (1 e _ _ _ t _ _ _ _ _ d1 d2 nx d3 d4 _ _ d5 _)
  note e = required_effort_facts [OF 1(1)]
  let ?e = "e\<lparr>ef_target_sha := target, ef_composition := composition\<rparr>"
  let ?f = "set_state now (AgentReady \<lparr>ar_next_cycle = nx\<rparr>) (ef_failed_cycles e)"
  have l1: "local_step i d d1" using clear_candidate_local [OF 1(12)] e(2) by simp
  have d2: "d2 = d1\<lparr>efforts := modify (\<lambda>x. ef_id x = i) (\<lambda>x. x\<lparr>ef_target_sha := target, ef_composition := composition\<rparr>) (efforts d1)\<rparr>"
    using 1(13) by (simp add: update_effort_columns_def split: if_splits)
  have only: "modify (\<lambda>x. ef_id x = i) f (efforts d) = modify (\<lambda>x. ef_id x = i) (\<lambda>_. f e) (efforts d)" for f :: "effort \<Rightarrow> effort"
    unfolding modify_def using distinct_ids_same [OF _ e(1)] inv e(2) by (intro map_cong) (auto simp: store_inv_def)
  have dis: "distinct (effort_ids d2)" and e2: "?e \<in> set (efforts d2)"
    using inv l1 e by (auto simp: d2 local_step_def store_inv_def map_key_modify set_modify)
  note row = update_state_row [OF 1(15) dis e2]
  have z: "same_core d3 d'" using update_item_columns_core [OF 1(16)] append_event_core [OF 1(18)] 1(20) by (auto intro: same_core_trans)
  have ef: "efforts d' = modify (\<lambda>x. ef_id x = i) (\<lambda>_. ?f ?e) (efforts d)"
    using row(1) z l1 e(2) only [of "\<lambda>x. ?f (x\<lparr>ef_target_sha := target, ef_composition := composition\<rparr>)"]
    by (simp add: d2 modify_modify local_step_def same_core_def)
  have l: "local_to i d d'" and cy: "distinct (map cy_id (cycles d'))"
    using l1 z inv by (auto simp: d2 update_state_frame [OF 1(15)] local_step_def local_to_def same_core_def store_inv_def)
  have "effort_move e (?f ?e)" using move_recompose [OF 1(5) composition_validate_native [OF 1(4)]] 1(6) by simp
  moreover have "related_state d' (?f ?e)" using row(5) same_core_related [OF z] by simp
  ultimately show ?case using e ef l cy unfolding op_effect_def by blast
qed

section \<open>Blockers and answers\<close>

lemma require_guidance_effect:
  assumes inv: "store_inv d" and op: "require_guidance now uuid i guidance d = Inr d'"
  shows "op_effect d d'"
  using op unfolding require_guidance_def op_elim
proof (elim exE conjE, goal_cases)
  case (1 e g _ d2 nx d3)
  note e = required_effort_facts [OF 1(1)]
  let ?d1 = "fst (update_cycles (\<lambda>c. cy_id c = ag_cycle_id g \<and> cy_status c = CyRunning)
                 (\<lambda>c. c\<lparr>cy_status := CyGuidanceRequired, cy_finished_at := Some now\<rparr>) d)"
  have "local_step i d ?d1"
    by (rule update_cycles_local [OF prod.collapse [symmetric]])
      (use running_cycle_owner [OF inv e(1) 1(2)] e(2) in auto)
  moreover have "local_step i ?d1 d2" by (rule insert_guidance_request_local [OF 1(4)]) simp
  ultimately have l: "local_step i d d2" by (rule local_step_trans)
  have "Suc (ef_failed_cycles e) < 10" if "effort_check (set_state now (GuidanceRequired
      \<lparr>be_blocker = SemanticGuidance guidance, be_resume = RsAgentReady \<lparr>ar_next_cycle = nx\<rparr>\<rparr>) (ef_failed_cycles e + 1) e)"
    using that by (auto simp: effort_check_def)
  with 1(2) have m: "effort_check (set_state now (GuidanceRequired
      \<lparr>be_blocker = SemanticGuidance guidance, be_resume = RsAgentReady \<lparr>ar_next_cycle = nx\<rparr>\<rparr>) (ef_failed_cycles e + 1) e)
    \<Longrightarrow> effort_move e (set_state now (GuidanceRequired
      \<lparr>be_blocker = SemanticGuidance guidance, be_resume = RsAgentReady \<lparr>ar_next_cycle = nx\<rparr>\<rparr>) (ef_failed_cycles e + 1) e)"
    using move_guidance [of e g] by simp
  from 1 show ?case by (intro op_effectI [OF inv 1(1,6) l append_event_core m])
qed

lemma block_infrastructure_effect:
  assumes inv: "store_inv d" and op: "block_infrastructure now uuid i blocker d = Inr d'"
  shows "op_effect d d'"
  using op unfolding block_infrastructure_def op_elim
  by (elim exE conjE) (rule op_effectI [OF inv], assumption, assumption, rule local_step_refl, erule append_event_core, auto intro: move_block_infrastructure)

lemma block_provider_effect:
  assumes inv: "store_inv d" and op: "block_provider now uuid i blocker d = Inr d'"
  shows "op_effect d d'"
  using op unfolding block_provider_def op_elim
proof (elim exE conjE, goal_cases)
  case (1 e resume d2)
  then show ?case
    by (intro op_effectI [OF inv 1(1) _ local_step_refl append_event_core move_block_provider])
      (auto simp: validate_provider_def split: option.splits)
qed

lemma resume_provider_reconciliation_effect:
  assumes inv: "store_inv d" and op: "resume_provider_reconciliation now uuid i d = Inr (d', e')"
  shows "op_effect d d'"
  using op unfolding resume_provider_reconciliation_def op_elim
  by (elim exE conjE) (rule op_effectI [OF inv], assumption, assumption, rule local_step_refl, auto intro: core_steps move_resume)

lemma retry_blocked_effect:
  assumes inv: "store_inv d" and op: "retry_blocked now uuid i responder uid d = Inr (d', e')"
  shows "op_effect d d'"
  using op unfolding retry_blocked_def op_elim
proof (elim exE conjE, goal_cases)
  case (1 e _ _ _ x s y n event d1 d2 _)
  have z: "same_core d1 d'" using 1 by (auto intro: core_steps)
  show ?case
    by (rule op_effectI [OF inv 1(1,8) local_step_refl z])
      (use 1(5-7) in \<open>cases "ef_state e"; auto simp: retried_state_def bnd_eq_Ok intro: move_resume
         move_limit_retry dest: authorized_internal\<close>)
qed

lemma apply_answer_effect:
  assumes inv: "store_inv d" and r: "required_effort (ef_id e) d = Inr e" "ef_state e = GuidanceRequired b"
    and op: "apply_answer now uuid command e d = Inr d'"
  shows "op_effect d d'"
  using op unfolding apply_answer_def op_elim
proof (elim exE conjE, goal_cases)
  case (1 nx d1 _ _ d2)
  have l: "local_step (ef_id e) d d1" by (rule update_guidance_requests_local [OF 1(2)]) auto
  show ?case
    by (rule op_effectI [OF inv r(1) 1(4) l append_event_core [OF 1(5)]])
      (auto intro: move_answer [OF r(2)] dest: authorized_internal)
qed

lemma answer_body:
  assumes "(if a then Ok (d, Unauthorized) else if m then Ok (d, Malformed)
      else (case st of GuidanceRequired b \<Rightarrow>
              (case be_blocker b of SemanticGuidance g \<Rightarrow> if q g then bnd A (\<lambda>d. Ok (d, Applied)) else Ok (d, Stale)
               | _ \<Rightarrow> Err z)
            | _ \<Rightarrow> Ok (d, Stale))) = Inr (d1, x)"
  shows "d1 = d \<or> (\<exists>b. st = GuidanceRequired b \<and> A = Inr d1)"
  using assms by (cases st) (auto simp: bnd_eq_Ok split: if_splits integration_blocker.splits)

lemma answer_for_effort_effect:
  assumes inv: "store_inv d" and op: "answer_for_effort now uuid command i responder uid d = Inr (d', x)"
  shows "op_effect d d'"
proof (cases "list_ex (\<lambda>r. ax_external_id r = ac_external_id command) (answer_receipts d)")
  case False
  show ?thesis
    using op unfolding answer_for_effort_def if_not_P [OF False] op_elim
  proof (elim exE conjE, goal_cases)
    case (1 e _ p d1 _)
    note e = required_effort_facts(2) [OF 1(1)]
    have "op_effect d d1"
      using answer_body [OF 1(3) [unfolded 1(4)]] apply_answer_effect [OF inv] op_effect_refl [OF inv] 1(1) e by blast
    moreover have "same_core d1 d'" using 1 by (auto simp: same_core_def)
    ultimately show ?case by (rule op_effect_then)
  qed
qed (use op inv in \<open>auto simp: answer_for_effort_def intro: op_effect_refl\<close>)

section \<open>Cancellation\<close>

lemma cancel_related_local:
  assumes "cancel_related now e d = Inr d'"
  shows "local_step (ef_id e) d d'"
  using assms unfolding cancel_related_def op_elim
proof (elim exE conjE, goal_cases)
  case (1 x d3 _)
  let ?d1 = "fst (update_cycles (\<lambda>c. cy_effort_id c = ef_id e \<and> (cy_status c = CyStarting \<or> cy_status c = CyRunning))
                 (\<lambda>c. c\<lparr>cy_status := CyCancelled, cy_finished_at := Some now\<rparr>) d)"
  let ?d2 = "fst (update_guidance_requests (\<lambda>g. gr_effort_id g = ef_id e \<and> gr_status g = RequestOpen)
                 (\<lambda>g. g\<lparr>gr_status := RequestCancelled\<rparr>) ?d1)"
  have "local_step (ef_id e) d ?d1" by (rule update_cycles_local [OF prod.collapse [symmetric]]) auto
  moreover have "local_step (ef_id e) ?d1 ?d2" by (rule update_guidance_requests_local [OF prod.collapse [symmetric]]) auto
  moreover have "local_step (ef_id e) ?d2 d3" by (rule update_reviews_local [OF 1(1) [unfolded 1(2)]]) auto
  moreover have "same_core d3 d'" using 1 by (auto simp: same_core_def)
  ultimately show ?case by (meson same_core_local local_step_trans)
qed

lemma cancel_effort_effect:
  assumes inv: "store_inv d" and r: "required_effort (ef_id e) d = Inr e" "\<not> is_cancelled (ef_state e)"
    and op: "cancel_effort_transaction now uuid e actor reason d = Inr d'"
  shows "op_effect d d'"
  using op unfolding cancel_effort_transaction_def op_elim
proof (elim exE conjE, goal_cases)
  case (1 t d1 d2 d3 _ _ d4 d5 d6)
  have "same_core d d1" using 1(2) by (auto intro: core_steps split: option.splits)
  moreover note cancel_related_local [OF 1(3)] update_attempts_core(2) [OF 1(4)] cancel_submission_core [OF 1(6)]
    insert_cleanup_debt_core [OF 1(7)]
  ultimately have l: "local_step (ef_id e) d d5" by (meson same_core_local local_step_trans)
  show ?case
    by (rule op_effectI [OF inv r(1) 1(8) l append_event_core [OF 1(9)]])
      (rule move_cancel, drule authorized_internal, simp_all add: r(2))
qed

lemma cancel_effect:
  assumes inv: "store_inv d" and op: "cancel now uuid i actor reason d = Inr (d', e')"
  shows "op_effect d d'"
  using op unfolding cancel_def op_elim
proof (elim exE conjE, goal_cases)
  case (1 _ _ e _ _ d1 _)
  note e = required_effort_facts(2) [OF 1(3)]
  show ?case
  proof (cases "is_cancelled (ef_state e)")
    case True
    then have "d' = d" using 1 by (auto simp: is_cancelled_def split: integration_effort_state.splits)
    with inv show ?thesis by (simp add: op_effect_refl)
  next
    case False
    with 1 have "cancel_effort_transaction now uuid e actor reason d = Inr d'"
      by (cases "ef_state e") (auto simp: is_cancelled_def)
    with False 1(3) e inv show ?thesis by (blast intro: cancel_effort_effect)
  qed
qed

lemma reconcile_termination_core:
  "reconcile_cancelled_runner_termination fx i d = Inr (d', b) \<Longrightarrow> same_core d d'"
  by (auto simp: reconcile_cancelled_runner_termination_def op_elim same_core_def split: option.splits if_splits)

lemma reconcile_each_core: "reconcile_each fx is n d = Inr (d', m) \<Longrightarrow> same_core d d'"
  by (induction "is" arbitrary: n d) (auto simp: op_elim intro: core_steps same_core_trans dest: reconcile_termination_core)

lemma reconcile_effect:
  assumes inv: "store_inv d" and op: "reconcile_cancelled_runner_terminations fx d = Inr (d', n)"
  shows "op_effect d d'"
  using op op_effect_same [OF inv] reconcile_each_core by (simp add: reconcile_cancelled_runner_terminations_def)

lemma record_alert_effect:
  assumes inv: "store_inv d" and op: "record_alert now uuid i t p d = Inr (d', x)"
  shows "op_effect d d'"
  using op by (intro op_effect_same [OF inv]) (auto simp: record_alert_def op_elim intro: core_steps)

end
