(* ===== verification/Store_Runs.thy ===== *)
theory Store_Runs
  imports Effects_Landing
begin

text \<open>
  Runs of the control store.  A request is one call of a method of \<open>ControlStore\<close> that changes the
  database; \<open>perform\<close> dispatches it.  Every method runs in one immediate transaction, so a failed request
  leaves the database as it was (\<open>transact\<close>).  The step relation also lets the rest of the program write
  every table but the five the store owns.  The locale states what a run needs of a step, its lemmas
  follow one effort through a run, and the interpretation discharges the contract for the store.
\<close>

section \<open>Requests\<close>

datatype request =
    CreateEffort new_effort
  | MarkEffortReplacementPending string string
  | PrepareCycleLaunch string agent_launching
  | SurrenderCycleSpawnAuthority string string string launcher_authority
  | AcknowledgeCycleSpawnFailed string string string launcher_authority
  | RecordCycleStarted string agent_running string launcher_authority
  | ResetPreparedLaunch string string
  | RecordResultState string string atomic_result_state
  | RecordCycleLog string string string
  | ConsumeCycleFailure string string cycle_failure
  | RequireGuidance string semantic_guidance_blocker
  | BlockInfrastructure string infrastructure_blocker
  | BlockProvider string provider_signoff_blocker
  | StartCandidateBuild string candidate_intent
  | AcceptResolvedCycle string candidate_intent
  | RecordCandidate string candidate_observation
  | ResetInterruptedCandidateBuild string
  | StartValidation string string
  | CompleteValidation string string
  | RejectCandidate string string
  | ReviewCandidate review_command string responder_identity nat
  | BeginLanding string string string string signoff_disposition
  | ReleaseLanding string string
  | MarkIntegrated string string string
  | BeginTargetMove string string "definite_landing_rejection option"
  | PrepareTargetRecomposition string string "definite_landing_rejection option"
  | CompleteTargetRecomposition string string string composition_evidence
  | AnswerRequest answer_command string responder_identity nat
  | RetryBlocked string responder_identity nat
  | ResumeProviderReconciliation string
  | CancelEffort string string string
  | ReconcileCancelledRunnerTermination string
  | ReconcileCancelledRunnerTerminations
  | RecordAlert string string event_payload

text \<open>What a request takes from its surroundings: the time, generated identifiers, and the processes and
  units of the host.\<close>

record environment =
  en_now :: string
  en_uuid :: "nat \<Rightarrow> string"
  en_runner :: runner_effects

definition stored :: "(db \<times> 'a) result \<Rightarrow> db result" where
  "stored r = bnd r (\<lambda>(d, _). Ok d)"

fun perform :: "environment \<Rightarrow> request \<Rightarrow> db \<Rightarrow> db result" where
  "perform env (CreateEffort new) d = stored (create_effort (en_now env) (en_uuid env 0) (en_uuid env 1) new d)"
| "perform env (MarkEffortReplacementPending item attempt) d =
     stored (mark_effort_replacement_pending (en_now env) (en_uuid env 0) item attempt d)"
| "perform env (PrepareCycleLaunch i launch) d = prepare_cycle_launch (en_now env) (en_uuid env 0) i launch d"
| "perform env (SurrenderCycleSpawnAuthority i operation lease launcher) d =
     stored (surrender_cycle_spawn_authority (rn_alive (en_runner env)) (en_now env) (en_uuid env 0) i operation lease launcher d)"
| "perform env (AcknowledgeCycleSpawnFailed i operation lease launcher) d =
     acknowledge_cycle_spawn_failed (rn_unit_state (en_runner env)) (en_now env) i operation lease launcher d"
| "perform env (RecordCycleStarted i running lease launcher) d =
     stored (record_cycle_started (en_now env) (en_uuid env 0) i running lease launcher d)"
| "perform env (ResetPreparedLaunch i cycle) d =
     reset_prepared_launch (rn_alive (en_runner env)) (en_now env) (en_uuid env 0) i cycle d"
| "perform env (RecordResultState i cycle result) d = record_result_state (en_now env) i cycle result d"
| "perform env (RecordCycleLog i cycle log) d = record_cycle_log i cycle log d"
| "perform env (ConsumeCycleFailure i cycle failure) d =
     stored (consume_cycle_failure (en_now env) (en_uuid env 0) i cycle failure d)"
| "perform env (RequireGuidance i guidance) d = require_guidance (en_now env) (en_uuid env 0) i guidance d"
| "perform env (BlockInfrastructure i blocker) d = block_infrastructure (en_now env) (en_uuid env 0) i blocker d"
| "perform env (BlockProvider i blocker) d = block_provider (en_now env) (en_uuid env 0) i blocker d"
| "perform env (StartCandidateBuild i intent) d = start_candidate_build (en_now env) (en_uuid env 0) i intent d"
| "perform env (AcceptResolvedCycle i intent) d = accept_resolved_cycle (en_now env) (en_uuid env 0) i intent d"
| "perform env (RecordCandidate i obs) d = record_candidate (en_now env) (en_uuid env 0) (en_uuid env 1) i obs d"
| "perform env (ResetInterruptedCandidateBuild i) d =
     stored (reset_interrupted_candidate_build (en_now env) (en_uuid env 0) i d)"
| "perform env (StartValidation i digest) d = start_validation (en_now env) (en_uuid env 0) i digest d"
| "perform env (CompleteValidation i candidate) d = complete_validation (en_now env) (en_uuid env 0) i candidate d"
| "perform env (RejectCandidate i defect) d = stored (reject_candidate (en_now env) (en_uuid env 0) i defect d)"
| "perform env (ReviewCandidate command i responder uid) d =
     stored (review_candidate_for_effort (en_now env) (en_uuid env 0) command i responder uid d)"
| "perform env (BeginLanding i target lease command signoff) d =
     begin_landing (en_now env) (en_uuid env 0) i target lease command signoff d"
| "perform env (ReleaseLanding i command) d = release_landing (en_now env) (en_uuid env 0) i command d"
| "perform env (MarkIntegrated i landed remote) d =
     mark_integrated (en_now env) (en_uuid env 0) (\<lambda>n. en_uuid env (Suc n)) i landed remote d"
| "perform env (BeginTargetMove i target rejection) d =
     begin_target_move_with_resolution (en_now env) (en_uuid env 0) i target rejection d"
| "perform env (PrepareTargetRecomposition i target rejection) d =
     stored (prepare_target_recomposition_with_resolution i target rejection d)"
| "perform env (CompleteTargetRecomposition i target conflict composition) d =
     stored (complete_target_recomposition (en_now env) (en_uuid env 0) i target conflict composition d)"
| "perform env (AnswerRequest command i responder uid) d =
     stored (answer_for_effort (en_now env) (en_uuid env 0) command i responder uid d)"
| "perform env (RetryBlocked i responder uid) d = stored (retry_blocked (en_now env) (en_uuid env 0) i responder uid d)"
| "perform env (ResumeProviderReconciliation i) d =
     stored (resume_provider_reconciliation (en_now env) (en_uuid env 0) i d)"
| "perform env (CancelEffort i actor reason) d = stored (cancel (en_now env) (en_uuid env 0) i actor reason d)"
| "perform env (ReconcileCancelledRunnerTermination i) d =
     stored (reconcile_cancelled_runner_termination (en_runner env) i d)"
| "perform env ReconcileCancelledRunnerTerminations d =
     stored (reconcile_cancelled_runner_terminations (en_runner env) d)"
| "perform env (RecordAlert i event_type payload) d =
     stored (record_alert (en_now env) (en_uuid env 0) i event_type payload d)"

definition transact :: "environment \<Rightarrow> request \<Rightarrow> db \<Rightarrow> db" where
  "transact env r d = (case perform env r d of Inl _ \<Rightarrow> d | Inr d' \<Rightarrow> d')"

section \<open>Steps\<close>

inductive store_step :: "db \<Rightarrow> db \<Rightarrow> bool" where
  request_step: "perform env r d = Inr d' \<Longrightarrow> store_step d d'"
| other_step: "same_core d d' \<Longrightarrow> store_step d d'"

abbreviation store_run :: "db \<Rightarrow> db \<Rightarrow> bool" where
  "store_run \<equiv> store_step\<^sup>*\<^sup>*"

definition fresh_store :: "db \<Rightarrow> bool" where
  "fresh_store d \<longleftrightarrow> efforts d = [] \<and> cycles d = []"

lemma stored_Ok: "stored r = Inr d' \<longleftrightarrow> (\<exists>x. r = Inr (d', x))"
  by (cases r) (auto simp: stored_def)

lemmas request_effects =
  create_effort_effect mark_effort_replacement_pending_effect prepare_cycle_launch_effect surrender_effect
  acknowledge_failed_effect record_cycle_started_effect reset_prepared_launch_effect record_result_state_effect
  record_cycle_log_effect consume_cycle_failure_effect require_guidance_effect block_infrastructure_effect
  block_provider_effect start_candidate_build_effect accept_resolved_cycle_effect record_candidate_effect
  reset_interrupted_candidate_build_effect start_validation_effect complete_validation_effect
  reject_candidate_effect review_candidate_effect begin_landing_effect release_landing_effect
  mark_integrated_effect begin_target_move_effect prepare_target_recomposition_effect
  complete_target_recomposition_effect answer_for_effort_effect retry_blocked_effect
  resume_provider_reconciliation_effect cancel_effect reconcile_effect record_alert_effect

lemma reconcile_one_effect:
  "store_inv d \<Longrightarrow> reconcile_cancelled_runner_termination fx i d = Inr (d', b) \<Longrightarrow> op_effect d d'"
  by (blast intro: op_effect_same reconcile_termination_core)

lemma perform_effect: "perform env r d = Inr d' \<Longrightarrow> store_inv d \<Longrightarrow> op_effect d d'"
  by (cases r; simp only: perform.simps stored_Ok)
    (elim exE | erule request_effects [rotated] reconcile_one_effect [rotated] | assumption)+

lemma transact_step: "store_step d (transact env r d)"
  by (auto simp: transact_def intro: request_step other_step same_core_refl split: sum.split)

section \<open>One effort through a run\<close>

locale effort_store =
  fixes step :: "db \<Rightarrow> db \<Rightarrow> bool" and inv :: "db \<Rightarrow> bool"
  assumes step_effect: "step d d' \<Longrightarrow> inv d \<Longrightarrow> op_effect d d'"
    and inv_effect: "inv d \<Longrightarrow> op_effect d d' \<Longrightarrow> inv d'"
    and inv_ids: "inv d \<Longrightarrow> distinct (effort_ids d)"
begin

lemma run_inv: "step\<^sup>*\<^sup>* d d' \<Longrightarrow> inv d \<Longrightarrow> inv d'"
  by (induction rule: rtranclp_induct) (auto intro: inv_effect step_effect)

lemma step_row:
  assumes s: "step d d'" and i: "inv d" and e: "e \<in> set (efforts d)"
  shows "\<exists>e' \<in> set (efforts d'). e' = e \<or> effort_move e e'"
proof -
  from step_effect [OF s i] obtain i where
    "efforts d' = efforts d \<or>
     (\<exists>x x'. x \<in> set (efforts d) \<and> ef_id x = i \<and> effort_move x x' \<and> efforts d' = modify (\<lambda>y. ef_id y = i) (\<lambda>_. x') (efforts d))
     \<or> (\<exists>x'. efforts d' = efforts d @ [x'])"
    by (auto simp: op_effect_def)
  then show ?thesis
  proof (elim disjE exE conjE)
    fix x x' assume m: "x \<in> set (efforts d)" "ef_id x = i" "effort_move x x'"
      "efforts d' = modify (\<lambda>y. ef_id y = i) (\<lambda>_. x') (efforts d)"
    show ?thesis
    proof (cases "ef_id e = i")
      case True
      with m(1,2) e have "e = x" using distinct_ids_same [OF inv_ids [OF \<open>inv d\<close>]] by metis
      with m True e show ?thesis by (auto simp: set_modify)
    next
      case False
      with m e show ?thesis by (auto simp: set_modify)
    qed
  qed (use e in auto)
qed

lemma run_row:
  assumes "step\<^sup>*\<^sup>* d d'" "inv d" "e \<in> set (efforts d)"
  shows "\<exists>e' \<in> set (efforts d'). effort_move\<^sup>*\<^sup>* e e'"
  using assms
proof (induction rule: rtranclp_induct)
  case (step d1 d2)
  then obtain e1 where e1: "e1 \<in> set (efforts d1)" "effort_move\<^sup>*\<^sup>* e e1" by blast
  with step_row [OF step(2) run_inv [OF step(1,4)]] obtain e2 where
    "e2 \<in> set (efforts d2)" "e2 = e1 \<or> effort_move e1 e2" by blast
  with e1(2) show ?case by (metis rtranclp.rtrancl_into_rtrancl)
qed auto

lemma run_row_id:
  assumes "step\<^sup>*\<^sup>* d d'" "inv d" "e \<in> set (efforts d)" "e' \<in> set (efforts d')" "ef_id e' = ef_id e"
  shows "effort_move\<^sup>*\<^sup>* e e'"
proof -
  obtain e1 where e1: "e1 \<in> set (efforts d')" "effort_move\<^sup>*\<^sup>* e e1" using run_row [OF assms(1-3)] by blast
  then have "ef_id e1 = ef_id e" by (blast dest: moves_identity)
  with e1 assms distinct_ids_same [OF inv_ids [OF run_inv [OF assms(1,2)]]] show ?thesis by metis
qed

end

interpretation es: effort_store store_step store_inv
proof unfold_locales
  fix d d' assume "store_step d d'" "store_inv d"
  then show "op_effect d d'"
    by (cases rule: store_step.cases) (auto intro: perform_effect op_effect_same)
qed (blast intro: op_effect_inv, simp add: store_inv_def)

lemma fresh_inv: "fresh_store d \<Longrightarrow> store_inv d"
  by (simp add: fresh_store_def store_inv_def)

lemma fresh_run_inv: "fresh_store d \<Longrightarrow> store_run d d' \<Longrightarrow> store_inv d'"
  by (blast intro: fresh_inv es.run_inv)

end
