(* ===== verification/Example_Run.thy ===== *)
theory Example_Run
  imports Store_Runs
begin

text \<open>
  A concrete repository and the life of one effort in it, evaluated request by request: an agent cycle,
  a semantic candidate, its review, validation, the landing and the terminal record.  The theorems about
  runs are instantiated here.
\<close>

section \<open>The repository\<close>

definition sha :: "char \<Rightarrow> string" where "sha c = replicate 40 c"
definition digest :: "char \<Rightarrow> string" where "digest c = replicate 64 c"

definition ex_executable :: executable_identity where
  "ex_executable = \<lparr>ei_path = ''/x'', ei_device = 1, ei_inode = 1, ei_sha256 = digest (CHR ''1'')\<rparr>"

definition ex_runner :: runner_snapshot where
  "ex_runner = \<lparr>rs_kind = Opencode, rs_executable = ex_executable, rs_agent = ''a'', rs_model = ''m'',
     rs_cycle_timeout_seconds = 1,
     rs_bounds = \<lparr>rb_max_log_bytes = 1, rb_max_result_bytes = 1, rb_max_processes = 1, rb_memory_bytes = 1,
                  rb_cpu_seconds = 1, rb_writable_bytes = 1, rb_open_files = 1\<rparr>,
     rs_sandbox = \<lparr>sb_implementation = ''b'', sb_bubblewrap = ex_executable, sb_unshare = ex_executable,
                   sb_systemd_run = ex_executable, sb_systemctl = ex_executable\<rparr>,
     rs_credential_env = ''K''\<rparr>"

definition ex_canonical :: git_repository where "ex_canonical = LocalBare ''/c'' 1 2 Sha1"
definition ex_replica :: git_repository where "ex_replica = LocalBare ''/r'' 1 3 Sha1"

definition ex_policy :: repository_policy where
  "ex_policy = \<lparr>po_operation_state = Enabled, po_canonical_repository = ex_canonical, po_target_branch = ''main'',
     po_integration_policy = Direct, po_replication_policy = Replicate [ex_replica]\<rparr>"

definition ex_workspace :: workspace_identity where
  "ex_workspace = \<lparr>ws_path = ''/w'', ws_rift_id = ''w'', ws_source_rift_id = ''s''\<rparr>"

definition ex_item :: queue_item where
  "ex_item = \<lparr>qi_id = ''i'', qi_repo_key = ''r'', qi_target_ref = ''refs/heads/main'', qi_status = QMerging,
     qi_current_attempt_id = Some ''a'', qi_blocked_phase = None, qi_blocked_reason = None,
     qi_blocked_message = None, qi_prompt_id = None, qi_conflict = None, qi_workspace_path = Some ''/w'',
     qi_workspace_rift_id = Some ''w'', qi_workspace_source_rift_id = Some ''s'', qi_workspace_cleaned_at = None,
     qi_target_sha = None, qi_source_sha = None, qi_landed_commit_sha = None, qi_landing_state = LandingReady,
     qi_replacement = None, qi_created_at = ''t'', qi_updated_at = ''t''\<rparr>"

definition ex_attempt :: attempt where
  "ex_attempt = \<lparr>at_id = ''a'', at_item_id = ''i'', at_number = 1, at_source_head_sha = sha (CHR ''1''), at_target_base_sha = None, at_merge_commit_sha = None,
     at_validated_commit_sha = None, at_landed_commit_sha = None, at_validation_command = None,
     at_validation_exit_code = None, at_validation_log_path = None, at_policy_snapshot = None, at_policy_digest = None, at_signoff_evidence = None,
     at_moved_base = MovedNone, at_finished_at = None, at_result = None\<rparr>"

definition ex_db :: db where
  "ex_db = \<lparr>queue_items = [ex_item], attempts = [ex_attempt], validation_invocations = [], efforts = [], cycles = [],
     termination_debts = [], guidance_requests = [], evidences = [], reviews = [], review_receipts = [],
     answer_receipts = [], events = [], event_sequence = 0, backends = [], deliveries = [], delivery_sequence = 0, cleanup_debts = [],
     ref_debts = [], replication_debts = [],
     repositories = [\<lparr>rg_repo_key = ''r'', rg_owned_root_path = ''/o'', rg_source_sha = sha (CHR ''0''),
                      rg_checkout = CheckoutReady ''refs/heads/main'' (sha (CHR ''0''))\<rparr>],
     policies = [\<lparr>pl_repo_key = ''r'', pl_revision = 1, pl_policy = ex_policy\<rparr>], admissions = [],
     submissions = [], workspaces = [], prompts = [], artifacts = [], reservations = [], purge_authority = [],
     repo_leases = [], physical_leases = [], ownerships = [], queue_events = [], bindings = [], workspace_roots = [],
     git_bindings = [], projection_debts = [], projection_alerts = [],
     comment_receipts = []\<rparr>"

section \<open>The requests\<close>

definition ex_new :: new_effort where
  "ex_new = \<lparr>ne_item_id = ''i'', ne_attempt_id = ''a'', ne_target_sha = sha (CHR ''0''), ne_source_sha = sha (CHR ''1''),
     ne_source_variant = ''remote_branch'', ne_landing_variant = ''direct'', ne_composition = Clean (sha (CHR ''2'')),
     ne_workspace = ex_workspace, ne_runner = ex_runner, ne_state_repository = Local\<rparr>"

definition ex_unit :: "string \<Rightarrow> string" where
  "ex_unit c = (case systemd_unit_name c of Inr u \<Rightarrow> u | Inl _ \<Rightarrow> [])"

definition ex_launcher :: launcher_authority where
  "ex_launcher = \<lparr>la_pid = 7, la_process_start_ticks = 9, la_token = replicate 32 (CHR ''f'')\<rparr>"

definition ex_launch :: "string \<Rightarrow> nat \<Rightarrow> agent_launching" where
  "ex_launch c n = \<lparr>al_launch_operation_id = ''o'', al_unit_name = ex_unit c, al_cycle_id = c,
     al_cycle_number = n, al_authority_lease_id = ''l'', al_launcher = ex_launcher,
     al_input_sha256 = digest (CHR ''3''), al_protocol_directory = ''/p'', al_prepared_at = ''t'',
     al_spawn_authority = SpawnOpen\<rparr>"

definition ex_running :: "string \<Rightarrow> nat \<Rightarrow> agent_running" where
  "ex_running c n = \<lparr>ag_launch_operation_id = ''o'', ag_unit_name = ex_unit c, ag_cycle_id = c,
     ag_cycle_number = n, ag_pid = 8, ag_process_start_ticks = 10,
     ag_control_group = ''/user.slice/'' @ ex_unit c, ag_authority_lease_id = ''l'',
     ag_launcher = ex_launcher, ag_sandbox_id = ''b'', ag_input_sha256 = digest (CHR ''3''), ag_result = Absent,
     ag_started_at = ''t''\<rparr>"

definition ex_intent :: "string \<Rightarrow> char \<Rightarrow> candidate_intent" where
  "ex_intent c tree = \<lparr>ci_operation_id = ''b'' @ c, ci_cycle_id = c, ci_staged_tree_sha256 = digest (CHR ''4''),
     ci_tree_sha = sha tree, ci_parents = [sha (CHR ''0''), sha (CHR ''1'')], ci_author_name = ''n'',
     ci_author_email = ''e'', ci_author_timestamp = ''t'', ci_committer_name = ''n'', ci_committer_email = ''e'',
     ci_committer_timestamp = ''t'', ci_message = ''m'', ci_operation_ref = ''q''\<rparr>"

definition ex_observation :: "string \<Rightarrow> char \<Rightarrow> candidate_observation" where
  "ex_observation c tree = \<lparr>co_operation_id = ''b'' @ c, co_candidate_sha = sha (CHR ''6''), co_tree_sha = sha tree,
     co_parent_shas = [sha (CHR ''0''), sha (CHR ''1'')], co_author_name = ''n'', co_author_email = ''e'',
     co_author_timestamp = ''t'', co_committer_name = ''n'', co_committer_email = ''e'',
     co_committer_timestamp = ''t'', co_message = ''m'', co_operation_ref = ''q''\<rparr>"

definition ex_approval :: review_command where
  "ex_approval = \<lparr>rm_external_id = ''x'', rm_review_id = ''uuuuuuuuv'', rm_effort_id = ''uv'', rm_attempt_id = ''a'',
     rm_cycle_id = ''c'', rm_target_ref = TargetRef ''refs/heads/main'', rm_target_sha = sha (CHR ''0''),
     rm_source_sha = sha (CHR ''1''), rm_candidate_sha = sha (CHR ''6''), rm_decision = Approve None\<rparr>"

definition ex_effects :: runner_effects where
  "ex_effects = \<lparr>rn_alive = (\<lambda>_ _. Ok True), rn_unit_state = (\<lambda>_ _. Ok UnitInactive), rn_stop_unit = (\<lambda>_ _. Ok ()),
     rn_stop_service = (\<lambda>_ _. Ok ()), rn_stop_scope = (\<lambda>_ _. Ok ())\<rparr>"

definition ex_env :: "nat \<Rightarrow> environment" where
  "ex_env k = \<lparr>en_now = ''t'', en_uuid = (\<lambda>n. replicate k (CHR ''u'') @ replicate (Suc n) (CHR ''v'')),
     en_runner = ex_effects\<rparr>"

fun perform_all :: "nat \<Rightarrow> request list \<Rightarrow> db \<Rightarrow> db result" where
  "perform_all k [] d = Ok d"
| "perform_all k (r # rs) d = bnd (perform (ex_env k) r d) (perform_all (Suc k) rs)"

lemma perform_all_run: "perform_all k rs d = Inr d' \<Longrightarrow> store_run d d'"
  by (induction k rs d rule: perform_all.induct)
    (auto simp: bnd_eq_Ok intro: converse_rtranclp_into_rtranclp request_step)

definition ex_cycle :: "string \<Rightarrow> nat \<Rightarrow> request list" where
  "ex_cycle c n =
    [PrepareCycleLaunch ''uv'' (ex_launch c n), SurrenderCycleSpawnAuthority ''uv'' ''o'' ''l'' ex_launcher,
     RecordCycleStarted ''uv'' (ex_running c n) ''l'' ex_launcher]"

definition ex_candidate :: "string \<Rightarrow> char \<Rightarrow> request list" where
  "ex_candidate c tree =
    [RecordResultState ''uv'' c (Writing 1 2), RecordResultState ''uv'' c (Complete 1 2 (digest (CHR ''7''))),
     AcceptResolvedCycle ''uv'' (ex_intent c tree), RecordCandidate ''uv'' (ex_observation c tree)]"

definition ex_guidance :: semantic_guidance_blocker where
  "ex_guidance = \<lparr>sg_request_id = ''g'', sg_question = ''q'', sg_affected_contracts = [], sg_affected_paths = [],
     sg_alternatives = FreeText, sg_evidence = ''e'',
     sg_identity = \<lparr>xi_effort_id = ''uv'', xi_item_id = ''i'', xi_attempt_id = ''a'', xi_cycle_id = ''c'',
       xi_target_sha = sha (CHR ''0''), xi_source_sha = sha (CHR ''1''), xi_candidate_sha = None\<rparr>\<rparr>"

definition ex_answer :: answer_command where
  "ex_answer = \<lparr>ac_external_id = ''y'', ac_request_id = ''g'', ac_effort_id = ''uv'', ac_attempt_id = ''a'',
     ac_cycle_id = ''c'', ac_target_sha = sha (CHR ''0''), ac_source_sha = sha (CHR ''1''), ac_candidate_sha = None,
     ac_answer = ''z''\<rparr>"

section \<open>The runs\<close>

text \<open>From the queue to a running agent; from there to a reviewed candidate and the target, to a question and its
  answer, to cancellation, and, after an interrupted first cycle, to the rejection of a mechanical candidate.\<close>

definition ex_start :: "request list" where
  "ex_start = [CreateEffort ex_new] @ ex_cycle ''c'' 1"

definition ex_review :: "request list" where
  "ex_review = [ReviewCandidate ex_approval ''uv'' (LocalPeer 5) 5, StartValidation ''uv'' (digest (CHR ''8''))]"

definition ex_landing :: "request list" where
  "ex_landing = [CompleteValidation ''uv'' (sha (CHR ''6'')),
     BeginLanding ''uv'' (sha (CHR ''0'')) ''l'' ''k'' (NoValidation (digest (CHR ''8''))), ReleaseLanding ''uv'' ''k'']"

definition ex_terminal :: "request list" where
  "ex_terminal = [MarkIntegrated ''uv'' (sha (CHR ''9'')) (sha (CHR ''9''))]"

definition ex_interrupted :: "request list" where
  "ex_interrupted = AcknowledgeCycleSpawnFailed ''uv'' ''o'' ''l'' ex_launcher # ex_cycle ''e'' 2 @ ex_candidate ''e'' (CHR ''2'')"

text \<open>The integrator records the validated commit on the attempt between the requests.\<close>

definition ex_validated :: "db \<Rightarrow> db" where
  "ex_validated d = d\<lparr>attempts := map (\<lambda>a. a\<lparr>at_validated_commit_sha := Some (sha (CHR ''6''))\<rparr>) (attempts d)\<rparr>"

definition summary :: "db \<Rightarrow> (string \<times> integration_effort_state \<times> nat) list \<times> (string \<times> nat) list" where
  "summary d = (map (\<lambda>e. (ef_id e, ef_state e, ef_failed_cycles e)) (efforts d),
                map (\<lambda>c. (cy_effort_id c, cy_number c)) (cycles d))"

definition ex_summaries ::
    "((answer_disposition \<times> review_receipt_row list) \<times> ((string \<times> integration_effort_state \<times> nat) list \<times> (string \<times> nat) list) list) result" where
  "ex_summaries =
     bnd (perform_all 1 ex_start ex_db) (\<lambda>s.
     bnd (perform_all 5 (ex_candidate ''c'' (CHR ''5'')) s) (\<lambda>b.
     bnd (review_candidate_for_effort ''t'' ''uuuuuuuuuv'' ex_approval ''uv'' (LocalPeer 5) 5 b) (\<lambda>(w, receipt).
     bnd (perform_all 9 ex_review b) (\<lambda>v.
     bnd (perform_all 11 ex_landing (ex_validated v)) (\<lambda>r.
     bnd (perform_all 14 ex_terminal r) (\<lambda>t.
     bnd (perform_all 5 [RequireGuidance ''uv'' ex_guidance] s) (\<lambda>g.
     bnd (perform_all 6 [AnswerRequest ex_answer ''uv'' (LocalPeer 5) 5] g) (\<lambda>a.
     bnd (perform_all 5 [CancelEffort ''uv'' ''me'' ''why''] s) (\<lambda>c.
     bnd (perform_all 5 ex_interrupted s) (\<lambda>m.
     bnd (perform_all 13 [RejectCandidate ''uv'' ''bad''] m) (\<lambda>j.
     bnd (perform_all 5 [ConsumeCycleFailure ''uv'' ''c'' Timeout] s) (\<lambda>f.
     Ok ((rt_disposition receipt, review_receipts b), map summary [s, b, r, t, g, a, c, m, j, f])))))))))))))"

lemma ex_summaries_value:
  "ex_summaries = Inr ((Applied, []),
     [([(''uv'', AgentRunning (ex_running ''c'' 1), 0)], [(''uv'', 1)]),
      ([(''uv'', ReviewRequired \<lparr>rr_review_id = ''uuuuuuuuv'', rr_cycle_id = ''c'', rr_candidate_sha = sha (CHR ''6'')\<rparr>, 0)], [(''uv'', 1)]),
      ([(''uv'', LandingUncertain \<lparr>lu_candidate_sha = sha (CHR ''6''), lu_expected_target_sha = sha (CHR ''0''),
          lu_command_id = ''k'', lu_evidence = ''command_gate_released''\<rparr>, 0)], [(''uv'', 1)]),
      ([(''uv'', Integrated \<lparr>in_candidate_sha = sha (CHR ''6''), in_landed_sha = sha (CHR ''9''),
          in_attempt_id = ''a'', in_event_id = ''uuuuuuuuuuuuuuv''\<rparr>, 0)], [(''uv'', 1)]),
      ([(''uv'', GuidanceRequired \<lparr>be_blocker = SemanticGuidance ex_guidance,
          be_resume = RsAgentReady \<lparr>ar_next_cycle = 2\<rparr>\<rparr>, 1)], [(''uv'', 1)]),
      ([(''uv'', AgentReady \<lparr>ar_next_cycle = 2\<rparr>, 1)], [(''uv'', 1)]),
      ([(''uv'', Cancelled \<lparr>ca_actor = ''me'', ca_reason = ''why'', ca_cancelled_at = ''t''\<rparr>, 0)], [(''uv'', 1)]),
      ([(''uv'', CandidateReady \<lparr>cr_cycle_id = ''e'', cr_candidate_sha = sha (CHR ''6''), cr_review = RevMechanical\<rparr>, 0)], [(''uv'', 1), (''uv'', 2)]),
      ([(''uv'', AgentReady \<lparr>ar_next_cycle = 2\<rparr>, 1)], [(''uv'', 1), (''uv'', 2)]),
      ([(''uv'', AgentReady \<lparr>ar_next_cycle = 2\<rparr>, 1)], [(''uv'', 1)])])"
  by code_simp

section \<open>The databases of the runs\<close>

definition the_ok :: "db result \<Rightarrow> db" where
  "the_ok r = (case r of Inr d \<Rightarrow> d | Inl _ \<Rightarrow> ex_db)"

definition ex_agent :: db where "ex_agent = the_ok (perform_all 1 ex_start ex_db)"
definition ex_built :: db where "ex_built = the_ok (perform_all 5 (ex_candidate ''c'' (CHR ''5'')) ex_agent)"
definition ex_checked :: db where "ex_checked = the_ok (perform_all 9 ex_review ex_built)"
definition ex_released :: db where "ex_released = the_ok (perform_all 11 ex_landing (ex_validated ex_checked))"
definition ex_landed :: db where "ex_landed = the_ok (perform_all 14 ex_terminal ex_released)"
definition ex_asked :: db where "ex_asked = the_ok (perform_all 5 [RequireGuidance ''uv'' ex_guidance] ex_agent)"
definition ex_answered :: db where
  "ex_answered = the_ok (perform_all 6 [AnswerRequest ex_answer ''uv'' (LocalPeer 5) 5] ex_asked)"
definition ex_stopped :: db where "ex_stopped = the_ok (perform_all 5 [CancelEffort ''uv'' ''me'' ''why''] ex_agent)"
definition ex_ready :: db where "ex_ready = the_ok (perform_all 5 ex_interrupted ex_agent)"
definition ex_rejected :: db where "ex_rejected = the_ok (perform_all 13 [RejectCandidate ''uv'' ''bad''] ex_ready)"

definition ex_failed :: db where "ex_failed = the_ok (perform_all 5 [ConsumeCycleFailure ''uv'' ''c'' Timeout] ex_agent)"

lemma ex_runs:
  "perform_all 1 ex_start ex_db = Inr ex_agent" "perform_all 5 (ex_candidate ''c'' (CHR ''5'')) ex_agent = Inr ex_built"
  "perform_all 9 ex_review ex_built = Inr ex_checked" "perform_all 11 ex_landing (ex_validated ex_checked) = Inr ex_released"
  "perform_all 14 ex_terminal ex_released = Inr ex_landed" "perform_all 5 [RequireGuidance ''uv'' ex_guidance] ex_agent = Inr ex_asked"
  "perform_all 6 [AnswerRequest ex_answer ''uv'' (LocalPeer 5) 5] ex_asked = Inr ex_answered"
  "perform_all 5 [CancelEffort ''uv'' ''me'' ''why''] ex_agent = Inr ex_stopped"
  "perform_all 5 ex_interrupted ex_agent = Inr ex_ready" "perform_all 13 [RejectCandidate ''uv'' ''bad''] ex_ready = Inr ex_rejected"
  "perform_all 5 [ConsumeCycleFailure ''uv'' ''c'' Timeout] ex_agent = Inr ex_failed"
  and ex_summaries_states:
  "ex_summaries = Inr ((Applied, []), map summary [ex_agent, ex_built, ex_released, ex_landed, ex_asked, ex_answered, ex_stopped,
     ex_ready, ex_rejected, ex_failed])"
  and ex_approved: "\<exists>w receipt. review_candidate_for_effort ''t'' ''uuuuuuuuuv'' ex_approval ''uv'' (LocalPeer 5) 5 ex_built
     = Inr (w, receipt) \<and> rt_disposition receipt = Applied"
  and ex_built_receipts: "review_receipts ex_built = []"
proof -
  from ex_summaries_value obtain xs where xs: "ex_summaries = Inr xs" by blast
  from this [unfolded ex_summaries_def bnd_eq_Ok prod_case_Ok] obtain s b w receipt v r t g a c m j f where x:
    "perform_all 1 ex_start ex_db = Inr s" "perform_all 5 (ex_candidate ''c'' (CHR ''5'')) s = Inr b"
    "perform_all 9 ex_review b = Inr v" "perform_all 11 ex_landing (ex_validated v) = Inr r"
    "perform_all 14 ex_terminal r = Inr t" "perform_all 5 [RequireGuidance ''uv'' ex_guidance] s = Inr g"
    "perform_all 6 [AnswerRequest ex_answer ''uv'' (LocalPeer 5) 5] g = Inr a"
    "perform_all 5 [CancelEffort ''uv'' ''me'' ''why''] s = Inr c" "perform_all 5 ex_interrupted s = Inr m"
    "perform_all 13 [RejectCandidate ''uv'' ''bad''] m = Inr j"
    "perform_all 5 [ConsumeCycleFailure ''uv'' ''c'' Timeout] s = Inr f"
    "review_candidate_for_effort ''t'' ''uuuuuuuuuv'' ex_approval ''uv'' (LocalPeer 5) 5 b = Inr (w, receipt)"
    and y: "Ok ((rt_disposition receipt, review_receipts b), map summary [s, b, r, t, g, a, c, m, j, f]) = Inr xs"
    by (elim exE conjE) (rule that, assumption+, simp)
  have all: "ex_summaries = Inr ((rt_disposition receipt, review_receipts b), map summary [s, b, r, t, g, a, c, m, j, f])" using xs y by simp
  then have applied: "rt_disposition receipt = Applied" "review_receipts b = []"
    unfolding ex_summaries_value sum.inject prod.inject by simp_all
  have e1: "ex_agent = s" by (simp only: ex_agent_def x the_ok_def sum.case)
  have e2: "ex_built = b" by (simp only: ex_built_def e1 x the_ok_def sum.case)
  have e3: "ex_checked = v" by (simp only: ex_checked_def e2 x the_ok_def sum.case)
  have e4: "ex_released = r" by (simp only: ex_released_def e3 x the_ok_def sum.case)
  have e5: "ex_landed = t" by (simp only: ex_landed_def e4 x the_ok_def sum.case)
  have e6: "ex_asked = g" by (simp only: ex_asked_def e1 x the_ok_def sum.case)
  have e7: "ex_answered = a" by (simp only: ex_answered_def e6 x the_ok_def sum.case)
  have e8: "ex_stopped = c" by (simp only: ex_stopped_def e1 x the_ok_def sum.case)
  have e9: "ex_ready = m" by (simp only: ex_ready_def e1 x the_ok_def sum.case)
  have e10: "ex_rejected = j" by (simp only: ex_rejected_def e9 x the_ok_def sum.case)
  have e11: "ex_failed = f" by (simp only: ex_failed_def e1 x the_ok_def sum.case)
  show "\<exists>w receipt. review_candidate_for_effort ''t'' ''uuuuuuuuuv'' ex_approval ''uv'' (LocalPeer 5) 5 ex_built
     = Inr (w, receipt) \<and> rt_disposition receipt = Applied"
    using x(12) applied unfolding e2 by blast
  show "review_receipts ex_built = []" using applied(2) unfolding e2 .
  from x all [unfolded applied] show
    "perform_all 1 ex_start ex_db = Inr ex_agent" "perform_all 5 (ex_candidate ''c'' (CHR ''5'')) ex_agent = Inr ex_built"
    "perform_all 9 ex_review ex_built = Inr ex_checked" "perform_all 11 ex_landing (ex_validated ex_checked) = Inr ex_released"
    "perform_all 14 ex_terminal ex_released = Inr ex_landed" "perform_all 5 [RequireGuidance ''uv'' ex_guidance] ex_agent = Inr ex_asked"
    "perform_all 6 [AnswerRequest ex_answer ''uv'' (LocalPeer 5) 5] ex_asked = Inr ex_answered"
    "perform_all 5 [CancelEffort ''uv'' ''me'' ''why''] ex_agent = Inr ex_stopped"
    "perform_all 5 ex_interrupted ex_agent = Inr ex_ready" "perform_all 13 [RejectCandidate ''uv'' ''bad''] ex_ready = Inr ex_rejected"
    "perform_all 5 [ConsumeCycleFailure ''uv'' ''c'' Timeout] ex_agent = Inr ex_failed"
    "ex_summaries = Inr ((Applied, []), map summary [ex_agent, ex_built, ex_released, ex_landed, ex_asked, ex_answered, ex_stopped,
       ex_ready, ex_rejected, ex_failed])"
    by (simp_all only: e1 e2 e3 e4 e5 e6 e7 e8 e9 e10 e11)
qed

definition ex_effort :: "db \<Rightarrow> effort" where
  "ex_effort d = hd (efforts d)"

lemma summary_one:
  assumes "([(i, s, n)], ns) = summary d"
  shows "efforts d = [ex_effort d]" "ef_id (ex_effort d) = i" "ef_state (ex_effort d) = s"
    "ef_failed_cycles (ex_effort d) = n" "map (\<lambda>c. (cy_effort_id c, cy_number c)) (cycles d) = ns"
  using assms by (auto simp: summary_def ex_effort_def map_eq_Cons_conv)

lemmas ex_summaries_list = ex_summaries_states [unfolded ex_summaries_value, THEN sum.inject(2) [THEN iffD1],
  THEN prod.inject [THEN iffD1], THEN conjunct2]

lemmas ex_states = ex_summaries_list [unfolded list.map list.inject]

lemmas ex_agent_effort = summary_one [OF conjunct1 [OF ex_states]]
  and ex_built_effort = summary_one [OF conjunct1 [OF conjunct2 [OF ex_states]]]
  and ex_released_effort = summary_one [OF conjunct1 [OF conjunct2 [OF conjunct2 [OF ex_states]]]]
  and ex_landed_effort = summary_one [OF conjunct1 [OF conjunct2 [OF conjunct2 [OF conjunct2 [OF ex_states]]]]]
  and ex_asked_effort = summary_one [OF conjunct1 [OF conjunct2 [OF conjunct2 [OF conjunct2 [OF conjunct2 [OF ex_states]]]]]]
  and ex_ready_effort = summary_one [OF conjunct1 [OF conjunct2 [OF conjunct2 [OF conjunct2 [OF conjunct2 [OF conjunct2
    [OF conjunct2 [OF conjunct2 [OF ex_states]]]]]]]]]
  and ex_rejected_effort = summary_one [OF conjunct1 [OF conjunct2 [OF conjunct2 [OF conjunct2 [OF conjunct2 [OF conjunct2
    [OF conjunct2 [OF conjunct2 [OF conjunct2 [OF ex_states]]]]]]]]]]

lemma ex_fresh: "fresh_store ex_db"
  by (simp add: fresh_store_def ex_db_def)

lemma ex_agent_run: "store_run ex_db ex_agent"
  by (rule perform_all_run [OF ex_runs(1)])

lemma ex_built_run: "store_run ex_db ex_built"
  by (rule rtranclp_trans [OF ex_agent_run perform_all_run [OF ex_runs(2)]])

lemma ex_released_run: "store_run ex_db ex_released"
proof -
  have "store_run ex_checked (ex_validated ex_checked)"
    by (rule r_into_rtranclp, rule other_step) (simp add: same_core_def ex_validated_def)
  then show ?thesis
    using ex_built_run perform_all_run [OF ex_runs(3)] perform_all_run [OF ex_runs(4)] by (meson rtranclp_trans)
qed

lemma ex_landed_run: "store_run ex_released ex_landed"
  by (rule perform_all_run [OF ex_runs(5)])

lemma ex_ready_run: "store_run ex_db ex_ready"
  by (rule rtranclp_trans [OF ex_agent_run perform_all_run [OF ex_runs(9)]])

lemma ex_rejected_run: "store_run ex_db ex_rejected"
  by (rule rtranclp_trans [OF ex_ready_run perform_all_run [OF ex_runs(10)]])

section \<open>Single requests of the runs\<close>

lemma perform_one: "perform_all k [r] d = Inr d' \<Longrightarrow> perform (ex_env k) r d = Inr d'"
  by (auto simp: bnd_eq_Ok)

lemma ex_now [simp]: "en_now (ex_env k) = ''t''"
  by (simp add: ex_env_def)

lemma ex_terminal_request:
  "mark_integrated ''t'' (en_uuid (ex_env 14) 0) (\<lambda>n. en_uuid (ex_env 14) (Suc n)) ''uv'' (sha (CHR ''9'')) (sha (CHR ''9''))
     ex_released = Inr ex_landed"
  using perform_one [OF ex_runs(5) [unfolded ex_terminal_def]] by simp

lemma ex_answer_request:
  "\<exists>x. answer_for_effort ''t'' (en_uuid (ex_env 6) 0) ex_answer ''uv'' (LocalPeer 5) 5 ex_asked = Inr (ex_answered, x)"
  using perform_one [OF ex_runs(7)] by (simp add: stored_Ok)

lemma ex_cancel_request: "\<exists>e. cancel ''t'' (en_uuid (ex_env 5) 0) ''uv'' ''me'' ''why'' ex_agent = Inr (ex_stopped, e)"
  using perform_one [OF ex_runs(8)] by (simp add: stored_Ok)

lemma ex_reject_request: "\<exists>e. reject_candidate ''t'' (en_uuid (ex_env 13) 0) ''uv'' ''bad'' ex_ready = Inr (ex_rejected, e)"
  using perform_one [OF ex_runs(10)] by (simp add: stored_Ok)

lemma ex_failure_request: "\<exists>e. consume_cycle_failure ''t'' (en_uuid (ex_env 5) 0) ''uv'' ''c'' Timeout ex_agent = Inr (ex_failed, e)"
  using perform_one [OF ex_runs(11)] by (simp add: stored_Ok)

lemma ex_record_request:
  "\<exists>d. store_run ex_db d \<and> record_candidate ''t'' (en_uuid (ex_env 8) 0) (en_uuid (ex_env 8) 1) ''uv''
     (ex_observation ''c'' (CHR ''5'')) d = Inr ex_built"
proof -
  from ex_runs(2) [unfolded ex_candidate_def perform_all.simps bnd_eq_Ok] obtain d1 d2 d3 where
    d: "perform (ex_env 5) (RecordResultState ''uv'' ''c'' (Writing 1 2)) ex_agent = Inr d1"
    "perform (ex_env (Suc 5)) (RecordResultState ''uv'' ''c'' (Complete 1 2 (digest (CHR ''7'')))) d1 = Inr d2"
    "perform (ex_env (Suc (Suc 5))) (AcceptResolvedCycle ''uv'' (ex_intent ''c'' (CHR ''5''))) d2 = Inr d3"
    "perform (ex_env (Suc (Suc (Suc 5)))) (RecordCandidate ''uv'' (ex_observation ''c'' (CHR ''5''))) d3 = Inr ex_built"
    by auto
  have "store_run ex_db d3"
    using ex_agent_run request_step [OF d(1)] request_step [OF d(2)] request_step [OF d(3)] by (meson rtranclp.rtrancl_into_rtrancl)
  with d(4) show ?thesis by (auto simp: eval_nat_numeral)
qed

lemma ex_required:
  "required_effort ''uv'' ex_agent = Inr (ex_effort ex_agent)" "required_effort ''uv'' ex_released = Inr (ex_effort ex_released)"
  "required_effort ''uv'' ex_ready = Inr (ex_effort ex_ready)" "required_effort ''uv'' ex_rejected = Inr (ex_effort ex_rejected)"
proof -
  have only: "required_effort i d = Inr (ex_effort d)" if "required_effort i d = Inr e" "efforts d = [ex_effort d]" for i d e
    using that required_effort_facts [OF that(1)] by auto
  show "required_effort ''uv'' ex_agent = Inr (ex_effort ex_agent)"
    using ex_cancel_request only [OF _ ex_agent_effort(1)] by (auto simp: cancel_def bnd_eq_Ok)
  show "required_effort ''uv'' ex_released = Inr (ex_effort ex_released)"
    using ex_terminal_request only [OF _ ex_released_effort(1)] by (auto simp: mark_integrated_def bnd_eq_Ok)
  show "required_effort ''uv'' ex_ready = Inr (ex_effort ex_ready)"
    using ex_reject_request only [OF _ ex_ready_effort(1)] by (auto simp: reject_candidate_def bnd_eq_Ok)
  obtain e where "required_effort ''uv'' ex_rejected = Inr e"
    using ex_reject_request unfolding reject_candidate_def op_elim by blast
  then show "required_effort ''uv'' ex_rejected = Inr (ex_effort ex_rejected)" by (rule only [OF _ ex_rejected_effort(1)])
qed

end
