(* ===== verification/Store_Properties.thy ===== *)
theory Store_Properties
  imports Example_Run
begin

text \<open>
  What the single operations of the control store (src/control_store.rs) promise: integration and the
  replication debts it leaves, the projection of an effort onto its queue item, the handling of answers and
  reviews, cancellation and the launcher debts it leaves, the numbering and counting of cycles, and the
  classification of candidates. The last sections hold the places where the code refuses or loses work it
  means to accept.
\<close>

section \<open>Integration\<close>

fun replica_targets :: "replication_policy \<Rightarrow> git_repository list" where
  "replica_targets NoReplication = []"
| "replica_targets (Replicate targets) = targets"

definition sequence_above :: "replication_debt list \<Rightarrow> replication_debt \<Rightarrow> bool" where
  "sequence_above old x \<longleftrightarrow> (\<forall>y \<in> set old. xd_destination_key y = xd_destination_key x \<and> xd_target_ref y = xd_target_ref x
     \<longrightarrow> xd_sequence y < xd_sequence x)"

lemma foldr_max_ge: "n \<in> set ns \<Longrightarrow> n \<le> foldr max ns (0 :: nat)"
  by (induction ns) auto

lemma record_replication_debts_new:
  assumes "record_replication_debts i k t l rs fresh d = Inr d'"
  shows "\<exists>new. replication_debts d' = replication_debts d @ new
    \<and> map xd_destination_key new = map destination_identity_key rs
    \<and> (\<forall>x \<in> set new. xd_item_id x = i \<and> xd_target_ref x = t \<and> xd_canonical_source_sha x = l \<and> xd_outcome x = OutPinning
         \<and> sequence_above (replication_debts d) x)"
  using assms
proof (induction rs arbitrary: fresh d)
  case (Cons r rs)
  then obtain d1 where d1: "insert_replication_debt \<lparr>xd_id = fresh 0, xd_item_id = i, xd_repo_key = k,
            xd_canonical_source_sha = l, xd_destination_key = destination_identity_key r, xd_target_ref = t,
            xd_sequence = next_replication_sequence (destination_identity_key r) t d, xd_replica = r,
            xd_expected_destination_sha = None, xd_operation = PinSource, xd_outcome = OutPinning,
            xd_application_id = None, xd_failure = None, xd_superseded_by_id = None\<rparr> d = Inr d1"
      (is "insert_replication_debt ?x d = _")
    and rest: "record_replication_debts i k t l rs (\<lambda>n. fresh (Suc n)) d1 = Inr d'"
    by (auto simp: bnd_eq_Ok)
  from d1 have d1': "replication_debts d1 = replication_debts d @ [?x]"
    by (auto simp: insert_replication_debt_def split: if_splits)
  from Cons.IH [OF rest] obtain new where new: "replication_debts d' = replication_debts d1 @ new"
    "map xd_destination_key new = map destination_identity_key rs"
    "\<forall>x \<in> set new. xd_item_id x = i \<and> xd_target_ref x = t \<and> xd_canonical_source_sha x = l \<and> xd_outcome x = OutPinning
         \<and> sequence_above (replication_debts d1) x" by blast
  have "sequence_above (replication_debts d) ?x"
    by (auto simp: sequence_above_def next_replication_sequence_def less_Suc_eq_le intro!: foldr_max_ge)
  with new d1' show ?case by (intro exI [of _ "?x # new"]) (auto simp: sequence_above_def)
qed simp

text \<open>The debts that the statements of the terminal record leave alone.\<close>

lemmas terminal_statement_defs = record_landing_ref_debt_def insert_ref_debt_def integrate_local_submission_def
  update_checkout_def append_event_with_id_def enqueue_deliveries_def Let_def bnd_eq_Ok require_eq_Ok
  update_state_Ok update_effort_state_Ok update_item_status_Ok

lemma terminal_statements_replication:
  "insert_cleanup_debt i w now d = Inr d' \<Longrightarrow> replication_debts d' = replication_debts d"
  "record_landing_ref_debt k a c m d = Inr d' \<Longrightarrow> replication_debts d' = replication_debts d"
  "integrate_local_submission i d = Inr d' \<Longrightarrow> replication_debts d' = replication_debts d"
  "update_checkout k r t d = Inr (d', n) \<Longrightarrow> replication_debts d' = replication_debts d"
  "append_event_with_id now i e ty p al d = Inr d' \<Longrightarrow> replication_debts d' = replication_debts d"
  "update_state_and_count_with_resolution now e s count rej d = Inr d' \<Longrightarrow> replication_debts d' = replication_debts d"
  by (auto simp: insert_cleanup_debt_def terminal_statement_defs split: if_splits option.splits)

lemma terminal_statements_cleanup:
  "record_landing_ref_debt k a c m d = Inr d' \<Longrightarrow> cleanup_debts d' = cleanup_debts d"
  "integrate_local_submission i d = Inr d' \<Longrightarrow> cleanup_debts d' = cleanup_debts d"
  "update_checkout k r t d = Inr (d', n) \<Longrightarrow> cleanup_debts d' = cleanup_debts d"
  "append_event_with_id now i e ty p al d = Inr d' \<Longrightarrow> cleanup_debts d' = cleanup_debts d"
  "update_state_and_count_with_resolution now e s count rej d = Inr d' \<Longrightarrow> cleanup_debts d' = cleanup_debts d"
  by (auto simp: terminal_statement_defs split: if_splits option.splits)

text \<open>C16: Integration leaves exactly one replication debt per replica of the policy, in the order of the policy,
  each for the landed commit, still to be pinned, and numbered above every earlier debt of the same
  destination and target.\<close>

theorem integration_leaves_replication_debts:
  assumes "mark_integrated now uuid fresh i landed remote d = Inr d'"
    and "required_effort i d = Inr e" and "item_policy (ef_item_id e) d = Inr p"
  shows "\<exists>new. replication_debts d' = replication_debts d @ new
    \<and> map xd_destination_key new = map destination_identity_key (replica_targets (po_replication_policy p))
    \<and> (\<forall>x \<in> set new. xd_item_id x = ef_item_id e \<and> xd_canonical_source_sha x = landed \<and> xd_outcome x = OutPinning
         \<and> sequence_above (replication_debts d) x)"
  using assms(1) unfolding mark_integrated_def op_elim assms(2,3)
proof (elim exE conjE, goal_cases)
  case (1 e' _ _ _ item p' _ c d1 d2 d3 d4 x d5 n d6)
  from 1(1) assms(3) 1(6) have ep: "e' = e" "p' = p" by auto
  have old: "replication_debts d5 = replication_debts d"
    using terminal_statements_replication(1) [OF 1(9)] terminal_statements_replication(6) [OF 1(10)]
      terminal_statements_replication(2) [OF 1(11)] terminal_statements_replication(3) [OF 1(12)]
      terminal_statements_replication(4) [OF 1(13) [unfolded 1(14)]]
    by (simp add: update_attempts_def)
  have new: "replication_debts d' = replication_debts d6"
    by (rule terminal_statements_replication(5) [OF 1(16)])
  show ?case
  proof (cases "po_replication_policy p")
    case (Replicate rs)
    with 1(15) ep have "record_replication_debts (ef_item_id e) (qi_repo_key item) (qi_target_ref item) landed rs fresh d5 = Inr d6"
      by simp
    from record_replication_debts_new [OF this] show ?thesis using old new Replicate by auto
  qed (use 1(15) ep old new in simp)
qed

theorem integration_leaves_replication_debts_witness:
  "\<exists>e p new. required_effort ''uv'' ex_released = Inr e \<and> item_policy (ef_item_id e) ex_released = Inr p
     \<and> replication_debts ex_landed = replication_debts ex_released @ new
     \<and> map xd_destination_key new = map destination_identity_key (replica_targets (po_replication_policy p))"
proof -
  from ex_terminal_request obtain e p where
    "required_effort ''uv'' ex_released = Inr e" "item_policy (ef_item_id e) ex_released = Inr p"
    unfolding mark_integrated_def bnd_eq_Ok by blast
  note p = this
  from integration_leaves_replication_debts [OF ex_terminal_request this] obtain new where new:
    "replication_debts ex_landed = replication_debts ex_released @ new
     \<and> map xd_destination_key new = map destination_identity_key (replica_targets (po_replication_policy p))"
    by (elim exE conjE) (rule that, simp)
  show ?thesis by (rule exI [of _ e], rule exI [of _ p], rule exI [of _ new]) (use p new in simp)
qed

section \<open>The queue\<close>



text \<open>In a disabled repository the state of an effort cannot change, except by cancellation.\<close>

theorem disabled_repository_freezes_efforts:
  assumes "item_policy (ef_item_id e) d = Inr p" "po_operation_state p = Disabled" "\<nexists>c. s = Cancelled c"
  shows "\<not> is_ok (update_state_and_count_with_resolution now e s n rejection d)"
  using assms by (auto simp: is_ok_iff update_state_Ok require_item_obligation_def)

theorem disabled_repository_freezes_efforts_witness:
  "\<not> is_ok (update_state_and_count_with_resolution ''t'' (effort_of_new ''uv'' ''t'' ex_new)
     (AgentReady \<lparr>ar_next_cycle = 1\<rparr>) 0 None
     (ex_db\<lparr>policies := [\<lparr>pl_repo_key = ''r'', pl_revision = 1, pl_policy = ex_policy\<lparr>po_operation_state := Disabled\<rparr>\<rparr>]\<rparr>))"
  by (rule disabled_repository_freezes_efforts [where p = "ex_policy\<lparr>po_operation_state := Disabled\<rparr>"])
    (simp_all add: item_policy_def fetch_def ex_db_def ex_item_def effort_of_new_def ex_new_def)

section \<open>Answers and reviews\<close>

text \<open>An answer is applied at most once: after any accepted call, every further command with the same external
  identifier, from whomever and with whatever content, is a duplicate that changes nothing.\<close>

theorem answers_are_applied_once:
  assumes "answer_for_effort now uuid command i responder uid d = Inr (d', disposition)"
    and "ac_external_id command' = ac_external_id command"
  shows "answer_for_effort now' uuid' command' i' responder' uid' d' = Inr (d', Duplicate)"
proof -
  have "list_ex (\<lambda>r. ax_external_id r = ac_external_id command) (answer_receipts d')"
    using assms(1) unfolding answer_for_effort_def
    by (auto simp: bnd_eq_Ok split: if_splits)
  with assms(2) show ?thesis by (simp add: answer_for_effort_def)
qed

theorem answers_are_applied_once_witness:
  "answer_for_effort ''u'' ''z'' (ex_answer\<lparr>ac_answer := ''other''\<rparr>) ''uv'' (LocalPeer 6) 6 ex_answered = Inr (ex_answered, Duplicate)"
  using ex_answer_request answers_are_applied_once [where command' = "ex_answer\<lparr>ac_answer := ''other''\<rparr>"] by auto

lemma apply_review_receipts:
  assumes "apply_review now uuid command responder e review d = Inr (d', s)"
  shows "review_receipts d' = review_receipts d"
  using assms unfolding apply_review_def op_elim
proof (elim exE conjE, goal_cases)
  case (1 x status y t event p d1 n _ d2 d3 d4)
  have "review_receipts d1 = review_receipts d" using 1(4,5) by (auto simp: update_reviews_def split: if_splits)
  moreover have "review_receipts d2 = review_receipts d1"
    using 1(7) by (auto simp: bnd_eq_Ok delete_evidence_def update_attempts_def invalidate_validation_invocations_def
        split: review_decision.splits if_splits)
  moreover have "review_receipts d3 = review_receipts d2"
    using 1(8) by (auto simp: update_state_Ok update_effort_state_Ok update_item_status_Ok)
  moreover have "review_receipts d' = review_receipts d3"
    using 1(9,10) by (auto simp: append_event_def append_event_with_id_def enqueue_deliveries_def Let_def split: if_splits)
  ultimately show ?case by simp
qed

text \<open>A review is applied at most once: replaying the command from the same responder returns the stored receipt
  and changes nothing.\<close>

theorem reviews_replay_their_receipt:
  assumes "review_candidate_for_effort now uuid command i responder uid d = Inr (d', receipt)"
  shows "review_candidate_for_effort now' uuid' command i' responder uid' d' = Inr (d', receipt)"
proof (cases "find (\<lambda>r. rx_external_id r = rm_external_id command) (review_receipts d)")
  case None
  show ?thesis
    using assms unfolding review_candidate_for_effort_def [of now] None option.case op_elim
  proof (elim exE conjE, goal_cases)
    case (1 e item policy ref p d1 x disposition resulting)
    have "review_receipts d1 = review_receipts d"
      using review_body [OF 1(5) [unfolded 1(6)]] apply_review_receipts by blast
    with 1 None show ?case
      by (auto simp: review_candidate_for_effort_def known_review_def find_append_new)
  qed
next
  case (Some stored)
  with assms show ?thesis by (auto simp: review_candidate_for_effort_def)
qed

theorem reviews_replay_their_receipt_witness:
  "\<exists>d receipt. review_candidate_for_effort ''t'' ''uuuuuuuuuv'' ex_approval ''uv'' (LocalPeer 5) 5 ex_built = Inr (d, receipt)
     \<and> review_candidate_for_effort ''u'' ''z'' ex_approval ''uv'' (LocalPeer 5) 5 d = Inr (d, receipt)"
  using ex_approved reviews_replay_their_receipt by blast

text \<open>A responder without authority cannot move an effort: its answer or review is recorded as unauthorized, and
  nothing else in the database changes.\<close>

theorem unauthorized_responders_are_only_recorded:
  assumes "required_effort i d = Inr e" "\<not> responder_authorized responder uid (ef_state_repository e)"
    and "require_item_obligation (ef_item_id e) d = Inr ()"
    and "find (\<lambda>x. qi_id x = ef_item_id e) (queue_items d) = Some item" "target_ref_from_full (qi_target_ref item) = Inr ref"
    and "\<not> list_ex (\<lambda>r. ax_external_id r = ac_external_id command) (answer_receipts d)"
    and "find (\<lambda>r. rx_external_id r = rm_external_id review) (review_receipts d) = None"
  shows "(\<exists>row. answer_for_effort now uuid command i responder uid d = Inr (d\<lparr>answer_receipts := answer_receipts d @ [row]\<rparr>, Unauthorized))
    \<and> (\<exists>row receipt. review_candidate_for_effort now uuid review i responder uid d
          = Inr (d\<lparr>review_receipts := review_receipts d @ [row]\<rparr>, receipt) \<and> rt_disposition receipt = Unauthorized)"
proof -
  obtain p where "item_policy (ef_item_id e) d = Inr p"
    using assms(3) by (auto simp: require_item_obligation_def bnd_eq_Ok)
  with assms show ?thesis
    by (simp add: answer_for_effort_def review_candidate_for_effort_def Let_def fetch_def candidate_review_receipt_def) blast
qed

lemma ex_target: "target_ref_from_full ''refs/heads/main'' = Inr (TargetRef ''refs/heads/main'')"
  by code_simp

theorem unauthorized_responders_are_only_recorded_witness:
  "\<exists>row. answer_for_effort ''t'' ''z'' ex_answer ''uv'' (LocalPeer 6) 5 (ex_db\<lparr>efforts := [effort_of_new ''uv'' ''t'' ex_new]\<rparr>)
     = Inr (ex_db\<lparr>efforts := [effort_of_new ''uv'' ''t'' ex_new], answer_receipts := [row]\<rparr>, Unauthorized)"
proof -
  let ?e = "effort_of_new ''uv'' ''t'' ex_new"
  have "required_effort ''uv'' (ex_db\<lparr>efforts := [?e]\<rparr>) = Inr ?e"
    by (simp add: required_effort_def fetch_def effort_of_new_def count_within_limit_def AUTOMATIC_CYCLE_LIMIT_def)
  from unauthorized_responders_are_only_recorded [OF this, of "LocalPeer 6" 5 ex_item "TargetRef ''refs/heads/main''" ex_answer ex_approval
      "''t''" "''z''"]
  show ?thesis
    by (simp add: effort_of_new_def ex_new_def responder_authorized_def require_item_obligation_def item_policy_def fetch_def ex_db_def
        ex_item_def ex_policy_def ex_target)
qed

text \<open>A review is applied only when an authorised responder names exactly the candidate that waits for review: the
  effort, attempt, cycle, target ref, target, source and candidate of the command are those of the effort.\<close>

theorem applied_reviews_name_the_candidate:
  assumes "find (\<lambda>r. rx_external_id r = rm_external_id command) (review_receipts d) = None"
    and "review_candidate_for_effort now uuid command i responder uid d = Inr (d', receipt)"
    and "rt_disposition receipt = Applied"
  shows "\<exists>e v. required_effort i d = Inr e \<and> responder_authorized responder uid (ef_state_repository e)
    \<and> ef_state e = ReviewRequired v \<and> rr_review_id v = rm_review_id command \<and> rr_cycle_id v = rm_cycle_id command
    \<and> rr_candidate_sha v = rm_candidate_sha command \<and> ef_id e = rm_effort_id command
    \<and> ef_attempt_id e = rm_attempt_id command \<and> ef_target_sha e = rm_target_sha command
    \<and> ef_source_sha e = rm_source_sha command"
proof -
  obtain e where r: "required_effort i d = Inr e"
    using assms(1,2) by (auto simp: review_candidate_for_effort_def bnd_eq_Ok)
  show ?thesis
    using assms r
    by (cases "ef_state e") (auto simp: review_candidate_for_effort_def bnd_eq_Ok Let_def candidate_review_receipt_def
        command_names_review_def split: if_splits)
qed

theorem applied_reviews_name_the_candidate_witness:
  "\<exists>e v. required_effort ''uv'' ex_built = Inr e \<and> ef_state e = ReviewRequired v
     \<and> rr_candidate_sha v = rm_candidate_sha ex_approval"
proof -
  from ex_approved obtain w receipt where
    w: "review_candidate_for_effort ''t'' ''uuuuuuuuuv'' ex_approval ''uv'' (LocalPeer 5) 5 ex_built = Inr (w, receipt)"
    "rt_disposition receipt = Applied" by blast
  from ex_built_receipts have "find (\<lambda>r. rx_external_id r = rm_external_id ex_approval) (review_receipts ex_built) = None" by simp
  from applied_reviews_name_the_candidate [OF this w] show ?thesis by blast
qed

section \<open>Cancellation\<close>

text \<open>An effort whose landing authority has left the process cannot be cancelled.\<close>

theorem external_authority_cannot_be_cancelled:
  assumes "required_effort i d = Inr e" "contains_external_landing_authority (ef_state e)"
  shows "\<not> is_ok (cancel now uuid i actor reason d)"
  using assms by (auto simp: cancel_def is_ok_iff op_elim item_contains_external_landing_authority_def fetch_eq_Ok)

theorem external_authority_cannot_be_cancelled_witness: "\<not> is_ok (cancel ''t'' ''z'' ''uv'' ''me'' ''why'' ex_released)"
  by (rule external_authority_cannot_be_cancelled [OF ex_required(2)]) (simp add: ex_released_effort)

lemma cancel_tables:
  "cancel_related now e d = Inr d' \<Longrightarrow> termination_debts d' = termination_debts d"
  "cancel_local_submission i d = Inr d' \<Longrightarrow> termination_debts d' = termination_debts d"
  "insert_cleanup_debt i w now d = Inr d' \<Longrightarrow> termination_debts d' = termination_debts d"
  "update_state_and_count_with_resolution now e s count rej d = Inr d' \<Longrightarrow> termination_debts d' = termination_debts d"
  "append_event now i e ty p al d = Inr d' \<Longrightarrow> termination_debts d' = termination_debts d"
  "update_attempts q f d = (d', n) \<Longrightarrow> termination_debts d' = termination_debts d"
  by (auto simp: cancel_related_def cancel_local_submission_def insert_cleanup_debt_def append_event_def terminal_statement_defs
      update_cycles_def update_guidance_requests_def update_reviews_def update_attempts_def split: if_splits option.splits)

text \<open>Cancelling an effort whose agent is running leaves the debt to terminate exactly the unit, control group and
  process of that agent.\<close>

theorem cancellation_leaves_termination_debt:
  assumes "required_effort i d = Inr e" "ef_state e = AgentRunning g"
    and "cancel now uuid i actor reason d = Inr (d', e')"
  shows "\<exists>t \<in> set (termination_debts d'). td_effort_id t = i \<and> td_authority t = TermService (termination_authority g)"
proof -
  note id = required_effort_facts(2) [OF assms(1)]
  from assms have "cancel_effort_transaction now uuid e actor reason d = Inr d'"
    by (auto simp: cancel_def op_elim)
  then show ?thesis
    unfolding cancel_effort_transaction_def op_elim
  proof (elim exE conjE, goal_cases)
    case (1 t d1 d2 d3 _ _ d4 d5 d6)
    have "insert_termination_debt \<lparr>td_effort_id = ef_id e, td_authority = TermService (termination_authority g),
        td_created_at = now\<rparr> d = Inr d1"
      using 1(1,2) assms(2) by (auto simp: cancel_termination_def)
    then have "\<exists>t \<in> set (termination_debts d1). td_effort_id t = ef_id e \<and> td_authority t = TermService (termination_authority g)"
      by (auto simp: insert_termination_debt_def split: if_splits)
    then show ?case
      using cancel_tables(1) [OF 1(3)] cancel_tables(6) [OF 1(4)] cancel_tables(2) [OF 1(6)] cancel_tables(3) [OF 1(7)]
        cancel_tables(4) [OF 1(8)] cancel_tables(5) [OF 1(9)] id by simp
  qed
qed

theorem cancellation_leaves_termination_debt_witness:
  "\<exists>t \<in> set (termination_debts ex_stopped). td_effort_id t = ''uv''
     \<and> td_authority t = TermService (termination_authority (ex_running ''c'' 1))"
  using ex_cancel_request cancellation_leaves_termination_debt [OF ex_required(1)] ex_agent_effort(3) by auto

text \<open>The debt of a cancelled launch stays while its launcher is alive and may still spawn the agent.\<close>

theorem live_launchers_keep_their_debt:
  assumes "find (\<lambda>t. td_effort_id t = i) (termination_debts d) = Some debt"
    and "td_authority debt = TermLaunching l" "al_spawn_authority l \<noteq> Closed"
    and "rn_alive fx (la_pid (al_launcher l)) (la_process_start_ticks (al_launcher l)) = Ok True"
    and "reconcile_cancelled_runner_termination fx i d = Inr (d', resolved)"
  shows "d' = d"
  using assms
  by (auto simp: reconcile_cancelled_runner_termination_def terminate_runner_def bnd_eq_Ok split: option.splits if_splits)

definition ex_closing :: agent_launching where
  "ex_closing = (ex_launch ''c'' 1)\<lparr>al_spawn_authority := CloseRequested\<rparr>"

definition ex_closing_db :: db where
  "ex_closing_db = ex_db\<lparr>
     efforts := [(effort_of_new ''uv'' ''t'' ex_new)\<lparr>ef_state := Cancelled \<lparr>ca_actor = ''me'', ca_reason = ''why'', ca_cancelled_at = ''t''\<rparr>\<rparr>],
     termination_debts := [\<lparr>td_effort_id = ''uv'', td_authority = TermLaunching ex_closing, td_created_at = ''t''\<rparr>]\<rparr>"

theorem live_launchers_keep_their_debt_witness:
  "\<exists>d. reconcile_cancelled_runner_termination ex_effects ''uv'' ex_closing_db = Inr (d, False) \<and> d = ex_closing_db"
proof -
  have "(case reconcile_cancelled_runner_termination ex_effects ''uv'' ex_closing_db of Inr (_, b) \<Rightarrow> \<not> b | Inl _ \<Rightarrow> False)"
    by code_simp
  then obtain d where d: "reconcile_cancelled_runner_termination ex_effects ''uv'' ex_closing_db = Inr (d, False)"
    by (auto split: sum.splits)
  have "d = ex_closing_db"
    by (rule live_launchers_keep_their_debt [OF _ _ _ _ d, of
        "\<lparr>td_effort_id = ''uv'', td_authority = TermLaunching ex_closing, td_created_at = ''t''\<rparr>" ex_closing])
      (simp_all add: ex_closing_db_def ex_closing_def ex_effects_def)
  with d show ?thesis by blast
qed

section \<open>Cycles\<close>

lemma max_cycle_number_ge: "c \<in> set (cycles d) \<Longrightarrow> cy_effort_id c = i \<Longrightarrow> cy_number c \<le> max_cycle_number i d"
  unfolding max_cycle_number_def by (rule foldr_max_ge) auto

text \<open>The number for the next cycle is new for the effort, at least one and within a byte.\<close>

theorem next_cycle_number_is_fresh:
  assumes "next_cycle_number i d = Inr n"
  shows "1 \<le> n \<and> n \<le> 255 \<and> (\<forall>c \<in> set (cycles d). cy_effort_id c = i \<longrightarrow> cy_number c < n)"
  using assms max_cycle_number_ge by (auto simp: next_cycle_number_def Let_def less_Suc_eq_le split: if_splits)

theorem next_cycle_number_is_fresh_witness: "next_cycle_number ''uv'' ex_db = Inr 1 \<and> (1 :: nat) \<le> 255"
  using next_cycle_number_is_fresh [of "''uv''" ex_db 1]
  by (simp add: next_cycle_number_def max_cycle_number_def ex_db_def)

text \<open>A failed cycle is counted once: below the limit the effort returns to the agent with a fresh cycle number, the
  tenth failure blocks it at the limit with the number of failures and the failure recorded.\<close>

theorem cycle_failure_counts:
  assumes inv: "store_inv d" and r: "required_effort i d = Inr e"
    and op: "consume_cycle_failure now uuid i c failure d = Inr (d', e')"
  shows "ef_failed_cycles e' = Suc (ef_failed_cycles e)
    \<and> (if ef_failed_cycles e' < AUTOMATIC_CYCLE_LIMIT
       then \<exists>n. ef_state e' = AgentReady \<lparr>ar_next_cycle = n\<rparr> \<and> next_cycle_number i d = Inr n
       else \<exists>b l. ef_state e' = CycleLimitBlocked b \<and> be_blocker b = CycleLimit l \<and> cl_count l = AUTOMATIC_CYCLE_LIMIT
              \<and> cl_last_failure l = failure \<and> cl_alert_event_id l = uuid)"
  using op unfolding consume_cycle_failure_def op_elim checked_increment_Ok r
proof (elim exE conjE, goal_cases)
  case (1 x count p d1 s d2 n _ d3 d4 e2)
  have x: "x = e" using 1(1) by simp
  note e = required_effort_facts [OF r]
  have core: "same_core d d1" using 1(4,5) by (auto simp: bnd_eq_Ok Let_def intro: core_steps split: if_splits)
  have d2: "efforts d2 = efforts d" using core 1(6) by (auto simp: same_core_def fail_cycle_def update_cycles_def)
  have "efforts d3 = modify (\<lambda>y. ef_id y = ef_id e) (set_state now s count) (efforts d2)"
    by (rule update_state_row(1)) (use 1(8) inv d2 x e in \<open>auto simp: store_inv_def\<close>)
  moreover have "efforts d' = efforts d3" using failed_event_core [OF 1(9)] 1(11) by (simp add: same_core_def)
  ultimately have "efforts d' = modify (\<lambda>y. ef_id y = i) (set_state now s count) (efforts d)" using d2 e by simp
  moreover have "e' \<in> set (efforts d')" "ef_id e' = i" using required_effort_facts [OF 1(10)] 1(11) by auto
  ultimately have "\<exists>y \<in> set (efforts d). ef_id y = i \<and> e' = set_state now s count y" by (auto simp: set_modify)
  then have e': "e' = set_state now s count e" using inv e distinct_ids_same [of d] by (metis store_inv_def)
  show ?case
    using 1(2-5) x unfolding e'
    by (auto simp: bnd_eq_Ok cycle_limit_state_def AUTOMATIC_CYCLE_LIMIT_def split: if_splits)
qed

theorem cycle_failure_counts_witness:
  "\<exists>e n. consume_cycle_failure ''t'' (en_uuid (ex_env 5) 0) ''uv'' ''c'' Timeout ex_agent = Inr (ex_failed, e)
     \<and> ef_failed_cycles e = 1 \<and> ef_state e = AgentReady \<lparr>ar_next_cycle = n\<rparr>"
proof -
  from ex_failure_request obtain e where
    e: "consume_cycle_failure ''t'' (en_uuid (ex_env 5) 0) ''uv'' ''c'' Timeout ex_agent = Inr (ex_failed, e)" by blast
  from cycle_failure_counts [OF fresh_run_inv [OF ex_fresh ex_agent_run] ex_required(1) e] e show ?thesis
    by (auto simp: ex_agent_effort(4) AUTOMATIC_CYCLE_LIMIT_def)
qed

section \<open>Candidates\<close>

text \<open>A candidate counts as mechanical exactly when the tree of the observed commit is the tree of the clean
  mechanical composition; every other candidate is recorded as semantic and waits for a review.\<close>

theorem mechanical_candidates_are_clean_compositions:
  assumes inv: "store_inv d" and r: "required_effort i d = Inr e"
    and op: "record_candidate now review_id uuid i obs d = Inr d'"
  shows "\<exists>c \<in> set (evidences d'). ce_effort_id c = i \<and> ce_candidate_sha c = co_candidate_sha obs
    \<and> (ce_classification c = ClsMechanical \<longleftrightarrow> ef_composition e = Clean (co_tree_sha obs))"
  using op unfolding record_candidate_def op_elim r
proof (elim exE conjE, goal_cases)
  case (1 x _ _ _ _ _ _ b _ _ p d1 s d2 _ d3 _ _ d4)
  have x: "x = e" using 1(1) by simp
  note e = required_effort_facts [OF r]
  have ef: "efforts d1 = efforts d" using publish_local(1) [OF 1(11) [unfolded 1(12)]] by (simp add: local_step_def)
  let ?c = "\<lparr>ce_effort_id = i, ce_cycle_id = cb_cycle_id b, ce_candidate_sha = co_candidate_sha obs,
    ce_builder_operation_id = co_operation_id obs, ce_classification = cb_classification b, ce_created_at = now\<rparr>"
  from 1(13) have auth: "evidence_authority d1 ?c" and mem: "?c \<in> set (evidences d2)"
    by (auto simp: upsert_evidence_def set_modify list_ex_iff split: if_splits)
  from auth obtain y where y: "y \<in> set (efforts d)" "ef_id y = i"
    "case ef_state y of CandidateBuilding b' \<Rightarrow> cb_cycle_id b' = cb_cycle_id b \<and> cb_operation_id b' = co_operation_id obs
       \<and> cb_classification b = composition_class (ef_composition y) (cb_tree_sha b') | _ \<Rightarrow> False"
    by (auto simp: evidence_authority_def list_ex_iff ef cong: integration_effort_state.case_cong)
  have "y = e" using distinct_ids_same [of d y e] inv e y by (simp add: store_inv_def)
  with y(3) 1(8,10) x have "cb_classification b = composition_class (ef_composition e) (co_tree_sha obs)"
    by (simp add: observation_matches_def)
  then have "cb_classification b = ClsMechanical \<longleftrightarrow> ef_composition e = Clean (co_tree_sha obs)"
    by (cases "ef_composition e") auto
  moreover have "evidences d' = evidences d2"
    using update_attempts_core(2) [OF 1(15)] invalidate_core [of d2] append_event_core [OF 1(18)] update_state_frame(2) [OF 1(17)]
    by (auto simp: same_core_def)
  ultimately show ?case using mem by (intro bexI [of _ ?c]) auto
qed

theorem mechanical_candidates_are_clean_compositions_witness:
  "\<exists>d e. record_candidate ''t'' (en_uuid (ex_env 8) 0) (en_uuid (ex_env 8) 1) ''uv'' (ex_observation ''c'' (CHR ''5'')) d = Inr ex_built
     \<and> required_effort ''uv'' d = Inr e \<and> (\<exists>c \<in> set (evidences ex_built). ce_effort_id c = ''uv''
       \<and> (ce_classification c = ClsMechanical \<longleftrightarrow> ef_composition e = Clean (sha (CHR ''5''))))"
proof -
  from ex_record_request obtain d where run: "store_run ex_db d" and
    d: "record_candidate ''t'' (en_uuid (ex_env 8) 0) (en_uuid (ex_env 8) 1) ''uv'' (ex_observation ''c'' (CHR ''5'')) d = Inr ex_built"
    by blast
  then obtain e where e: "required_effort ''uv'' d = Inr e" by (auto simp: record_candidate_def bnd_eq_Ok)
  from mechanical_candidates_are_clean_compositions [OF fresh_run_inv [OF ex_fresh run] e d] have
    "\<exists>c \<in> set (evidences ex_built). ce_effort_id c = ''uv''
       \<and> (ce_classification c = ClsMechanical \<longleftrightarrow> ef_composition e = Clean (sha (CHR ''5'')))"
    by (auto simp: ex_observation_def)
  with d e show ?thesis by blast
qed

section \<open>Requests that the schema refuses\<close>

lemma update_state_illegal:
  assumes "required_effort i d = Inr e" "efforts d1 = efforts d" "\<not> legal_transition (ef_state e) s"
  shows "\<not> is_ok (update_state_and_count_with_resolution now e s n rejection d1)"
  using assms required_effort_facts [OF assms(1)] by (force simp: is_ok_iff update_state_Ok update_effort_state_Ok)

lemma update_state_unchecked:
  assumes "required_effort i d = Inr e" "efforts d1 = efforts d" "\<not> effort_check (set_state now s n e)"
  shows "\<not> is_ok (update_state_and_count_with_resolution now e s n rejection d1)"
  using assms required_effort_facts [OF assms(1)] by (force simp: is_ok_iff update_state_Ok update_effort_state_Ok)

text \<open>An effort that has failed nine cycles cannot ask for guidance: the question would count as the tenth failure, and
  the schema admits that count only in the blocked state.\<close>

theorem guidance_after_nine_failures_is_refused:
  assumes "required_effort i d = Inr e" "ef_failed_cycles e = 9"
  shows "\<not> is_ok (require_guidance now uuid i guidance d)"
proof
  assume "is_ok (require_guidance now uuid i guidance d)"
  then obtain d' where "require_guidance now uuid i guidance d = Inr d'" by (auto simp: is_ok_iff)
  then show False
    unfolding require_guidance_def op_elim
  proof (elim exE conjE, goal_cases)
    case (1 x g _ d2 nx d3)
    have "efforts d2 = efforts d"
      using 1(4) by (auto simp: insert_guidance_request_def update_cycles_def split: if_splits)
    from update_state_unchecked [OF 1(1) this, of now _ "ef_failed_cycles x + 1"] 1 assms show False
      by (simp add: is_ok_iff effort_check_def)
  qed
qed

text \<open>An effort of the example repository in a given state.\<close>

definition ex_effort_in :: "integration_effort_state \<Rightarrow> nat \<Rightarrow> effort" where
  "ex_effort_in s n = (effort_of_new ''uv'' ''t'' ex_new)\<lparr>ef_state := s, ef_failed_cycles := n\<rparr>"

lemma ex_required_in:
  "is_ok (validate_for_count s n) \<Longrightarrow> required_effort ''uv'' (ex_db\<lparr>efforts := [ex_effort_in s n]\<rparr>) = Inr (ex_effort_in s n)"
  by (simp add: required_effort_Ok ex_effort_in_def effort_of_new_def)

theorem guidance_after_nine_failures_is_refused_witness:
  "\<not> is_ok (require_guidance ''t'' ''z'' ''uv'' ex_guidance (ex_db\<lparr>efforts := [ex_effort_in (AgentRunning (ex_running ''c'' 1)) 9]\<rparr>))"
proof (rule guidance_after_nine_failures_is_refused [OF ex_required_in])
  show "is_ok (validate_for_count (AgentRunning (ex_running ''c'' 1)) 9)" by code_simp
  show "ef_failed_cycles (ex_effort_in (AgentRunning (ex_running ''c'' 1)) 9) = 9" by (simp add: ex_effort_in_def)
qed

text \<open>A candidate whose effort has failed nine cycles cannot be rejected once it is ready or landing: the tenth failure
  would block the effort at the limit, which the transition trigger does not allow from those states.\<close>

theorem rejection_after_nine_failures_is_refused:
  assumes "required_effort i d = Inr e" "ef_failed_cycles e = 9"
    and "(\<exists>c. ef_state e = CandidateReady c) \<or> (\<exists>l. ef_state e = Landing l)"
  shows "\<not> is_ok (reject_candidate now uuid i defect d)"
proof
  assume "is_ok (reject_candidate now uuid i defect d)"
  then obtain d' e' where "reject_candidate now uuid i defect d = Inr (d', e')" by (auto simp: is_ok_iff)
  then show False
    unfolding reject_candidate_def op_elim checked_increment_Ok
  proof (elim exE conjE, goal_cases)
    case (1 _ x _ c count p d1 s d2 _ _ d3 d4 _ d5 d6)
    have x: "x = e" using 1(2) assms(1) by simp
    have "\<exists>nx. s = cycle_limit_state i c count (CandidateDefect defect) uuid nx d" "same_core d d1"
      using failed_state_Ok [OF 1(7) [unfolded 1(8)]] 1(6) x assms(2) by auto
    then obtain nx where s: "s = cycle_limit_state i c count (CandidateDefect defect) uuid nx d" and core: "same_core d d1" by blast
    have "efforts d4 = efforts d"
      using core 1(9,11,12) by (auto simp: same_core_def fail_cycle_def update_cycles_def delete_evidence_def update_attempts_def
          invalidate_validation_invocations_def split: if_splits)
    moreover have "\<not> legal_transition (ef_state e) s"
      using assms(3) by (auto simp: s cycle_limit_state_def legal_transition_def transition_table_def)
    ultimately show False using update_state_illegal [OF assms(1)] 1(13) x by (auto simp: is_ok_iff)
  qed
qed

theorem rejection_after_nine_failures_is_refused_witness:
  "\<not> is_ok (reject_candidate ''t'' ''z'' ''uv'' ''bad'' (ex_db\<lparr>efforts := [ex_effort_in (CandidateReady
     \<lparr>cr_cycle_id = ''c'', cr_candidate_sha = sha (CHR ''6''), cr_review = RevMechanical\<rparr>) 9]\<rparr>))"
  by (rule rejection_after_nine_failures_is_refused [OF ex_required_in])
    (simp_all add: ex_effort_in_def count_within_limit_def AUTOMATIC_CYCLE_LIMIT_def)

text \<open>An effort that waits for its replacement cannot be cancelled: the transition trigger lets it go back to the agent
  only.\<close>

theorem replacement_cannot_be_cancelled:
  assumes "required_effort i d = Inr e" "ef_state e = ReplacementPending p"
  shows "\<not> is_ok (cancel now uuid i actor reason d)"
proof
  assume "is_ok (cancel now uuid i actor reason d)"
  then obtain d' where "cancel_effort_transaction now uuid e actor reason d = Inr d'"
    using assms by (auto simp: is_ok_iff cancel_def op_elim)
  then show False
    unfolding cancel_effort_transaction_def op_elim
  proof (elim exE conjE, goal_cases)
    case (1 t d1 d2 d3 _ _ d4 d5 d6)
    have "same_core d d1" using 1(2) by (auto intro: core_steps split: option.splits)
    then have "efforts d5 = efforts d"
      using cancel_related_local [OF 1(3)] update_attempts_core(2) [OF 1(4)] cancel_submission_core [OF 1(6)]
        insert_cleanup_debt_core [OF 1(7)] by (simp add: same_core_def local_step_def)
    moreover have "\<not> legal_transition (ef_state e) (Cancelled c)" for c
      by (simp add: assms(2) legal_transition_def transition_table_def)
    ultimately show False using update_state_illegal [OF assms(1)] 1(8) by (auto simp: is_ok_iff)
  qed
qed

theorem replacement_cannot_be_cancelled_witness:
  "\<not> is_ok (cancel ''t'' ''z'' ''uv'' ''me'' ''why''
     (ex_db\<lparr>efforts := [ex_effort_in (ReplacementPending \<lparr>rp_old_attempt_id = ''a'', rp_replaced_at = ''t''\<rparr>) 0]\<rparr>))"
  by (rule replacement_cannot_be_cancelled [OF ex_required_in])
    (simp_all add: ex_effort_in_def count_within_limit_def AUTOMATIC_CYCLE_LIMIT_def)

text \<open>The request to start a candidate build never succeeds: it leaves the cycle running, while the trigger on the state
  of the effort requires the cycle of a candidate under construction to be resolved.\<close>

theorem start_candidate_build_is_always_refused:
  assumes inv: "store_inv d"
  shows "\<not> is_ok (start_candidate_build now uuid i intent d)"
proof
  assume "is_ok (start_candidate_build now uuid i intent d)"
  then obtain d' where "start_candidate_build now uuid i intent d = Inr d'" by (auto simp: is_ok_iff)
  then show False
    unfolding start_candidate_build_def op_elim
  proof (elim exE conjE, goal_cases)
    case (1 e g _ d1)
    note e = required_effort_facts [OF 1(1)]
    have dis: "distinct (effort_ids d)" "inj_on cy_id (set (cycles d))" using inv by (simp_all add: store_inv_def distinct_map)
    have "cycle_in_status d (ef_id e) (ag_cycle_id g) CyRunning"
      using inv e 1(2) by (auto simp: store_inv_def related_state_def)
    moreover have "cycle_in_status d1 (ef_id e) (ag_cycle_id g) CyResolved"
      using update_state_row(5) [OF 1(5) dis(1) e(1) refl] 1(3) by (simp add: related_state_def building_of_intent_def)
    ultimately show False
      using dis(2) update_state_frame(1) [OF 1(5)] by (auto simp: cycle_in_status_def list_ex_iff inj_on_def)
  qed
qed

theorem start_candidate_build_is_always_refused_witness:
  "\<not> is_ok (start_candidate_build ''t'' ''z'' ''uv'' (ex_intent ''c'' (CHR ''5'')) ex_agent)"
  by (rule start_candidate_build_is_always_refused [OF fresh_run_inv [OF ex_fresh ex_agent_run]])

lemma taken_number_refused:
  assumes "required_effort i d = Inr e" "ef_state e = AgentReady r" "c \<in> set (cycles d)" "cy_effort_id c = i"
    "cy_number c = ar_next_cycle r"
  shows "\<not> is_ok (prepare_cycle_launch now uuid i launch d)"
  using assms by (auto simp: is_ok_iff prepare_cycle_launch_def op_elim insert_cycle_Ok)

text \<open>C29: Rejecting a candidate can strand its effort: the next cycle is numbered by the count of failures instead of the
  cycles the effort has had, and an interrupted cycle is not counted.  After one interrupted cycle and one rejected
  candidate the effort is ready for cycle two, which exists, so that no launch can be prepared.\<close>

theorem rejection_can_strand_an_effort:
  "fresh_store ex_db \<and> store_run ex_db ex_rejected
   \<and> ef_state (ex_effort ex_rejected) = AgentReady \<lparr>ar_next_cycle = 2\<rparr>
   \<and> map (\<lambda>c. (cy_effort_id c, cy_number c)) (cycles ex_rejected) = [(''uv'', 1), (''uv'', 2)]
   \<and> (\<forall>now uuid launch. \<not> is_ok (prepare_cycle_launch now uuid ''uv'' launch ex_rejected))"
proof -
  have "(''uv'', 2) \<in> set (map (\<lambda>c. (cy_effort_id c, cy_number c)) (cycles ex_rejected))"
    unfolding ex_rejected_effort(5) by simp
  then obtain c where "c \<in> set (cycles ex_rejected)" "cy_effort_id c = ''uv''" "cy_number c = 2" by auto
  with taken_number_refused [OF ex_required(4) ex_rejected_effort(3)] show ?thesis
    using ex_fresh ex_rejected_run ex_rejected_effort(3,5) by auto
qed

end
