(* ===== verification/Queue_Leases.thy ===== *)
theory Queue_Leases
  imports Store_Update "HOL-Library.Char_ord" "HOL-Library.List_Lexorder"
begin

text \<open>
  The leases of \<open>SqliteQueue\<close> in \<open>lib.rs\<close>.  A repository operation holds one lease on the repository and
  one on every physical repository (canonical or replica) that the policy reserves.  Every later
  transaction of the operation renews them all or refuses to start (\<open>composition_transaction\<close>).
  Timestamps are RFC 3339 texts, which SQLite compares byte by byte, as the order on strings does here.
\<close>

section \<open>Reading\<close>

definition repo_policy :: "string \<Rightarrow> db \<Rightarrow> repository_policy result" where
  "repo_policy repo_key d =
     bnd (fetch (\<lambda>p. pl_repo_key p = repo_key) (policies d) (NoRow ''repository_policies'')) (\<lambda>p. Ok (pl_policy p))"

definition repository_object_format :: "string \<Rightarrow> db \<Rightarrow> git_object_format result" where
  "repository_object_format repo_key d =
     bnd (repo_policy repo_key d) (\<lambda>p. Ok (object_format (po_canonical_repository p)))"

definition attempt_object_format :: "string \<Rightarrow> db \<Rightarrow> git_object_format result" where
  "attempt_object_format attempt_id d =
     bnd (fetch (\<lambda>a. at_id a = attempt_id) (attempts d) (NoRow ''integration_attempts'')) (\<lambda>a.
     item_object_format (at_item_id a) d)"

definition require_new_work_tx :: "string \<Rightarrow> db \<Rightarrow> unit result" where
  "require_new_work_tx repo_key d = bnd (repo_policy repo_key d) (\<lambda>p. require_new_work (po_operation_state p))"

definition require_obligation_tx :: "string \<Rightarrow> obligation \<Rightarrow> db \<Rightarrow> unit result" where
  "require_obligation_tx repo_key ob d = bnd (repo_policy repo_key d) (\<lambda>p. require_obligation (po_operation_state p) ob)"

section \<open>Physical ownership\<close>

text \<open>One policy reserves every physical repository it names, for its role and position.\<close>

fun reserve_each :: "string \<Rightarrow> (git_repository \<times> string \<times> nat) list \<Rightarrow> db \<Rightarrow> db result" where
  "reserve_each repo_key [] d = Ok d"
| "reserve_each repo_key ((repository, role, ordinal) # rest) d =
     (let key = physical_identity_key repository;
          row = \<lparr>ow_identity_key = key, ow_repo_key = repo_key, ow_role = role, ow_ordinal = ordinal,
                 ow_repository = repository\<rparr>
      in (case find (\<lambda>o'. ow_identity_key o' = key) (ownerships d) of
            Some o' \<Rightarrow>
              if o' = row then reserve_each repo_key rest d
              else Err (Bail (''physical repository is already reserved as '' @ ow_role o' @ '' by repository '' @ ow_repo_key o'))
          | None \<Rightarrow>
              if list_ex (\<lambda>o'. ow_repo_key o' = repo_key \<and> ow_role o' = role \<and> ow_ordinal o' = ordinal) (ownerships d)
              then Err (Abort ''physical repository ownership authority already exists'')
              else if \<not> list_ex (\<lambda>p. pl_repo_key p = repo_key) (policies d)
              then Err (Abort ''FOREIGN KEY constraint failed'')
              else reserve_each repo_key rest (d\<lparr>ownerships := ownerships d @ [row]\<rparr>)))"

definition owned_by :: "string \<Rightarrow> db \<Rightarrow> physical_ownership list" where
  "owned_by repo_key d = filter (\<lambda>o'. ow_repo_key o' = repo_key) (ownerships d)"

definition reserve_policy_physical_ownership :: "string \<Rightarrow> repository_policy \<Rightarrow> db \<Rightarrow> db result" where
  "reserve_policy_physical_ownership repo_key policy d =
     bnd (reserve_each repo_key (physical_repositories policy) d) (\<lambda>d.
     bnd (require (length (owned_by repo_key d) = length (physical_repositories policy))
            (Bail ''repository physical ownership inventory differs from policy'')) (\<lambda>_.
     Ok d))"

section \<open>Acquisition, renewal and release\<close>

definition validate_repository_binding :: "string \<Rightarrow> string \<Rightarrow> string \<Rightarrow> db \<Rightarrow> unit result" where
  "validate_repository_binding repo_key repository target d =
     (let registered = filter (\<lambda>g. rg_repo_key g = repo_key) (repositories d);
          missing = (if length registered = 1 then 0 else 1);
          differing = length (filter (\<lambda>g. list_ex (\<lambda>p. pl_repo_key p = repo_key
                        \<and> (rg_owned_root_path g \<noteq> repository \<or> po_target_branch (pl_policy p) \<noteq> target)) (policies d)) registered);
          shared = length (filter (\<lambda>g. rg_repo_key g \<noteq> repo_key \<and> rg_owned_root_path g = repository) (repositories d))
      in require (missing + differing + shared = (0 :: nat)) (Bail ''durable repository binding conflict''))"

text \<open>\<open>INSERT \<dots> ON CONFLICT(identity_key) DO UPDATE \<dots> WHERE\<close>: a live lease of another repository is kept.  The code
  visits the identities in the order of their keys, which all give the same refusal.\<close>

fun acquire_physical ::
    "string \<Rightarrow> string \<Rightarrow> string \<Rightarrow> string \<Rightarrow> physical_repository_identity list \<Rightarrow> db \<Rightarrow> db result" where
  "acquire_physical now expires repo_key owner_id [] d = Ok d"
| "acquire_physical now expires repo_key owner_id (k # ks) d =
     (let row = \<lparr>ph_identity_key = k, ph_repo_key = repo_key, ph_owner_id = owner_id, ph_heartbeat_at = now,
                 ph_expires_at = expires\<rparr>
      in (case find (\<lambda>l. ph_identity_key l = k) (physical_leases d) of
            None \<Rightarrow> acquire_physical now expires repo_key owner_id ks (d\<lparr>physical_leases := physical_leases d @ [row]\<rparr>)
          | Some l \<Rightarrow>
              if ph_expires_at l \<le> now \<or> ph_repo_key l = repo_key
              then acquire_physical now expires repo_key owner_id ks
                     (d\<lparr>physical_leases := modify (\<lambda>l. ph_identity_key l = k) (\<lambda>_. row) (physical_leases d)\<rparr>)
              else Err (Bail ''physical repository has an active operation'')))"

definition upsert_repo_lease :: "repo_lease \<Rightarrow> db \<Rightarrow> db" where
  "upsert_repo_lease row d =
     (if list_ex (\<lambda>l. rl_repo_key l = rl_repo_key row) (repo_leases d)
      then d\<lparr>repo_leases := modify (\<lambda>l. rl_repo_key l = rl_repo_key row) (\<lambda>_. row) (repo_leases d)\<rparr>
      else d\<lparr>repo_leases := repo_leases d @ [row]\<rparr>)"

definition acquire_repo_operation_lease ::
    "string \<Rightarrow> string \<Rightarrow> string \<Rightarrow> string \<Rightarrow> string \<Rightarrow> string \<Rightarrow> db \<Rightarrow> db result" where
  "acquire_repo_operation_lease now expires repo_key owner_id repository target d =
     bnd (validate_repository_binding repo_key repository target d) (\<lambda>_.
     bnd (require (owned_by repo_key d \<noteq> []) (Bail ''repository has no physical ownership authority'')) (\<lambda>_.
     bnd (acquire_physical now expires repo_key owner_id (map ow_identity_key (owned_by repo_key d)) d) (\<lambda>d.
     Ok (upsert_repo_lease \<lparr>rl_repo_key = repo_key, rl_owner_id = owner_id, rl_heartbeat_at = now,
           rl_expires_at = expires\<rparr> d))))"

definition physical_mine :: "string \<Rightarrow> string \<Rightarrow> string \<Rightarrow> physical_lease \<Rightarrow> bool" where
  "physical_mine now repo_key owner_id l \<longleftrightarrow>
     ph_repo_key l = repo_key \<and> ph_owner_id l = owner_id \<and> ph_expires_at l > now"

definition repo_mine :: "string \<Rightarrow> string \<Rightarrow> string \<Rightarrow> repo_lease \<Rightarrow> bool" where
  "repo_mine now repo_key owner_id l \<longleftrightarrow>
     rl_repo_key l = repo_key \<and> rl_owner_id l = owner_id \<and> rl_expires_at l > now"

definition renew_physical :: "string \<Rightarrow> string \<Rightarrow> string \<Rightarrow> string \<Rightarrow> db \<Rightarrow> db" where
  "renew_physical now expires repo_key owner_id d =
     d\<lparr>physical_leases := modify (physical_mine now repo_key owner_id)
         (\<lambda>l. l\<lparr>ph_heartbeat_at := now, ph_expires_at := expires\<rparr>) (physical_leases d)\<rparr>"

definition renew_repo :: "string \<Rightarrow> string \<Rightarrow> string \<Rightarrow> string \<Rightarrow> db \<Rightarrow> db" where
  "renew_repo now expires repo_key owner_id d =
     d\<lparr>repo_leases := modify (repo_mine now repo_key owner_id)
         (\<lambda>l. l\<lparr>rl_heartbeat_at := now, rl_expires_at := expires\<rparr>) (repo_leases d)\<rparr>"

definition holds_physical :: "string \<Rightarrow> string \<Rightarrow> string \<Rightarrow> db \<Rightarrow> bool" where
  "holds_physical now repo_key owner_id d \<longleftrightarrow>
     owned_by repo_key d \<noteq> []
     \<and> changed (physical_mine now repo_key owner_id) (physical_leases d) = length (owned_by repo_key d)"

text \<open>A missing physical lease returns without a commit; a missing repository lease commits the renewal of the
  physical ones.\<close>

definition heartbeat_repo_lease :: "string \<Rightarrow> string \<Rightarrow> string \<Rightarrow> string \<Rightarrow> db \<Rightarrow> db \<times> bool" where
  "heartbeat_repo_lease now expires repo_key owner_id d =
     (if \<not> holds_physical now repo_key owner_id d then (d, False)
      else (renew_repo now expires repo_key owner_id (renew_physical now expires repo_key owner_id d),
            changed (repo_mine now repo_key owner_id) (repo_leases d) = 1))"

definition release_repo_lease :: "string \<Rightarrow> string \<Rightarrow> db \<Rightarrow> db \<times> bool" where
  "release_repo_lease repo_key owner_id d =
     (let p = (\<lambda>l. ph_repo_key l = repo_key \<and> ph_owner_id l = owner_id);
          q = (\<lambda>l. rl_repo_key l = repo_key \<and> rl_owner_id l = owner_id)
      in (d\<lparr>physical_leases := remove_rows p (physical_leases d), repo_leases := remove_rows q (repo_leases d)\<rparr>,
          changed q (repo_leases d) = 1))"

section \<open>Transactions under a lease\<close>

definition enter_composition :: "string \<Rightarrow> string \<Rightarrow> string \<Rightarrow> string \<Rightarrow> db \<Rightarrow> db result" where
  "enter_composition now expires repo_key owner_id d =
     bnd (require (holds_physical now repo_key owner_id d) (Bail ''physical composition lease is not owned'')) (\<lambda>_.
     bnd (require (changed (repo_mine now repo_key owner_id) (repo_leases d) = 1) (Bail ''composition lease is not owned'')) (\<lambda>_.
     Ok (renew_repo now expires repo_key owner_id (renew_physical now expires repo_key owner_id d))))"

definition composition_transaction ::
    "string \<Rightarrow> string \<Rightarrow> string \<Rightarrow> string \<Rightarrow> (db \<Rightarrow> db result) \<Rightarrow> db \<Rightarrow> db result" where
  "composition_transaction now expires repo_key owner_id operation d =
     bnd (enter_composition now expires repo_key owner_id d) operation"

datatype mutation_authority = RepositoryLease string string | Cancellation

definition require_mutation_authority :: "string \<Rightarrow> string \<Rightarrow> mutation_authority \<Rightarrow> db \<Rightarrow> unit result" where
  "require_mutation_authority now item_repo_key authority d =
     (case authority of
        Cancellation \<Rightarrow> Ok ()
      | RepositoryLease repo_key owner_id \<Rightarrow>
          bnd (require (item_repo_key = repo_key) (Bail ''repository mutation authority does not match queue item'')) (\<lambda>_.
          require (list_ex (repo_mine now repo_key owner_id) (repo_leases d)
               \<and> list_all (\<lambda>o'. case find (\<lambda>l. ph_identity_key l = ow_identity_key o') (physical_leases d) of
                     None \<Rightarrow> False | Some l \<Rightarrow> ph_owner_id l = owner_id \<and> \<not> ph_expires_at l \<le> now)
                   (owned_by repo_key d))
            (Bail ''repository operation lease is not owned'')))"

section \<open>The authority to start a command\<close>

datatype execution_authority =
    LeaseAuthority string string
  | ProviderVerified string string nat git_repository

definition authority_lease :: "execution_authority \<Rightarrow> mutation_authority" where
  "authority_lease a = (case a of LeaseAuthority k w \<Rightarrow> RepositoryLease k w | ProviderVerified k w _ _ \<Rightarrow> RepositoryLease k w)"

text \<open>\<open>verify\<close> inspects a local bare repository on disk; \<open>release_gate\<close> runs inside the transaction.\<close>

definition authorize_execution_start ::
    "(git_repository \<Rightarrow> unit result) \<Rightarrow> (db \<Rightarrow> db result) \<Rightarrow> string \<Rightarrow> string \<Rightarrow> string \<Rightarrow> queue_status \<Rightarrow> execution_authority
     \<Rightarrow> db \<Rightarrow> (db \<times> bool) result" where
  "authorize_execution_start verify release_gate now item_id attempt_id expected_status authority d =
     bnd (fetch (\<lambda>i. qi_id i = item_id) (queue_items d) (NoRow (''queue item not found: '' @ item_id))) (\<lambda>item.
     if \<not> (qi_status item = expected_status \<and> qi_current_attempt_id item = Some attempt_id) then Ok (d, False)
     else
       bnd (require_mutation_authority now (qi_repo_key item) (authority_lease authority) d) (\<lambda>_.
       bnd (fetch (\<lambda>p. pl_repo_key p = qi_repo_key item) (policies d) (NoRow ''repository_policies'')) (\<lambda>row.
       bnd (require_obligation (po_operation_state (pl_policy row)) (QueueItemObligation item_id)) (\<lambda>_.
       bnd (verify (po_canonical_repository (pl_policy row))) (\<lambda>_.
       bnd (case authority of
              LeaseAuthority _ _ \<Rightarrow> Ok ()
            | ProviderVerified _ _ revision canonical \<Rightarrow>
                require (pl_revision row = revision \<and> po_canonical_repository (pl_policy row) = canonical)
                  (Bail ''repository policy changed after provider identity verification'')) (\<lambda>_.
       bnd (release_gate d) (\<lambda>d. Ok (d, True))))))))"

definition authorize_new_work :: "(git_repository \<Rightarrow> unit result) \<Rightarrow> string \<Rightarrow> db \<Rightarrow> unit result" where
  "authorize_new_work verify repo_key d =
     bnd (repo_policy repo_key d) (\<lambda>p.
     bnd (require_new_work (po_operation_state p)) (\<lambda>_. verify (po_canonical_repository p)))"

definition authorize_obligation :: "(git_repository \<Rightarrow> unit result) \<Rightarrow> string \<Rightarrow> obligation \<Rightarrow> db \<Rightarrow> unit result" where
  "authorize_obligation verify repo_key ob d =
     bnd (repo_policy repo_key d) (\<lambda>p.
     bnd (require_obligation (po_operation_state p) ob) (\<lambda>_. verify (po_canonical_repository p)))"

section \<open>The lease tables\<close>

text \<open>The primary keys and the foreign key of the lease tables.  A lease names the repository that owns its
  physical repository, because only the owner acquires it.\<close>

definition lease_inv :: "db \<Rightarrow> bool" where
  "lease_inv d \<longleftrightarrow>
     distinct (map ow_identity_key (ownerships d)) \<and> distinct (map ph_identity_key (physical_leases d))
     \<and> distinct (map rl_repo_key (repo_leases d))
     \<and> (\<forall>l \<in> set (physical_leases d). \<exists>w \<in> set (ownerships d).
          ow_identity_key w = ph_identity_key l \<and> ow_repo_key w = ph_repo_key l)"

lemma set_owned_by: "w \<in> set (owned_by k d) \<longleftrightarrow> w \<in> set (ownerships d) \<and> ow_repo_key w = k"
  by (auto simp: owned_by_def)

lemma ownership_unique:
  "lease_inv d \<Longrightarrow> v \<in> set (ownerships d) \<Longrightarrow> w \<in> set (ownerships d) \<Longrightarrow> ow_identity_key v = ow_identity_key w \<Longrightarrow> v = w"
  by (auto simp: lease_inv_def distinct_map inj_on_def)

lemma lease_unique:
  "lease_inv d \<Longrightarrow> l \<in> set (physical_leases d) \<Longrightarrow> m \<in> set (physical_leases d) \<Longrightarrow> ph_identity_key l = ph_identity_key m \<Longrightarrow> l = m"
  by (auto simp: lease_inv_def distinct_map inj_on_def)

lemma find_lease:
  assumes "lease_inv d"
  shows "find (\<lambda>l. ph_identity_key l = k) (physical_leases d) = Some l \<longleftrightarrow> l \<in> set (physical_leases d) \<and> ph_identity_key l = k"
    (is "?f = _ \<longleftrightarrow> _")
proof
  assume l: "l \<in> set (physical_leases d) \<and> ph_identity_key l = k"
  then obtain m where m: "?f = Some m" by (cases ?f) (auto simp: find_None_iff)
  then have "m \<in> set (physical_leases d)" "ph_identity_key m = k" by (auto dest: find_Some_mem)
  with lease_unique [OF assms, of m l] l m show "?f = Some l" by simp
qed (auto dest: find_Some_mem)

text \<open>Counting the live leases of an owner is comparing them with the ownership, one by one.\<close>

lemma counted_leases_cover_ownership:
  assumes "lease_inv d"
  shows "changed (physical_mine now k w) (physical_leases d) = length (owned_by k d)
    \<longleftrightarrow> (\<forall>v \<in> set (owned_by k d). \<exists>l \<in> set (physical_leases d). ph_identity_key l = ow_identity_key v \<and> physical_mine now k w l)"
proof -
  let ?mine = "filter (physical_mine now k w) (physical_leases d)"
  let ?L = "ph_identity_key ` set ?mine" and ?O = "ow_identity_key ` set (owned_by k d)"
  have dm: "distinct (map ph_identity_key ?mine)" and do': "distinct (map ow_identity_key (owned_by k d))"
    using assms by (auto simp: lease_inv_def owned_by_def distinct_map inj_on_def)
  have cl: "card ?L = changed (physical_mine now k w) (physical_leases d)"
    using distinct_card [OF dm] by (simp add: changed_def)
  have co: "card ?O = length (owned_by k d)" using distinct_card [OF do'] by simp
  have sub: "?L \<subseteq> ?O"
  proof (rule image_subsetI)
    fix l assume "l \<in> set ?mine"
    then have l: "l \<in> set (physical_leases d)" "ph_repo_key l = k" by (auto simp: physical_mine_def)
    then obtain v where "v \<in> set (ownerships d)" "ow_identity_key v = ph_identity_key l" "ow_repo_key v = ph_repo_key l"
      using assms by (auto simp: lease_inv_def)
    with l show "ph_identity_key l \<in> ?O" by (metis image_eqI set_owned_by)
  qed
  have "changed (physical_mine now k w) (physical_leases d) = length (owned_by k d) \<longleftrightarrow> ?L = ?O"
    using card_subset_eq [OF _ sub] cl co by auto
  also have "\<dots> \<longleftrightarrow> ?O \<subseteq> ?L" using sub by blast
  also have "\<dots> \<longleftrightarrow> (\<forall>v \<in> set (owned_by k d). \<exists>l \<in> set (physical_leases d). ph_identity_key l = ow_identity_key v \<and> physical_mine now k w l)"
    by (fastforce simp: image_iff)
  finally show ?thesis .
qed

lemma changed_key_one:
  "distinct (map f t) \<Longrightarrow> (\<And>r. p r \<Longrightarrow> f r = k) \<Longrightarrow> changed p t = 1 \<longleftrightarrow> list_ex p t"
proof (induction t)
  case (Cons r t)
  have "p r \<Longrightarrow> changed p t = 0" using Cons.prems by (fastforce simp: changed_def filter_empty_conv)
  with Cons show ?case by auto
qed simp

text \<open>The two ways in which the code checks a lease agree: a transaction of the owner can start, where the live
  leases of the owner are counted, exactly when the owner may change a queue item, where every physical
  repository is looked up with its lease.\<close>

theorem lease_checks_agree:
  assumes "lease_inv d" "owned_by k d \<noteq> []"
  shows "is_ok (enter_composition now expires k w d) \<longleftrightarrow> is_ok (require_mutation_authority now k (RepositoryLease k w) d)"
proof -
  have "changed (repo_mine now k w) (repo_leases d) = 1 \<longleftrightarrow> list_ex (repo_mine now k w) (repo_leases d)"
    by (rule changed_key_one [of rl_repo_key _ _ k]) (use assms(1) in \<open>auto simp: lease_inv_def repo_mine_def\<close>)
  note repo = this
  have each: "(\<exists>l \<in> set (physical_leases d). ph_identity_key l = ow_identity_key v \<and> physical_mine now k w l)
      \<longleftrightarrow> (case find (\<lambda>l. ph_identity_key l = ow_identity_key v) (physical_leases d) of
            None \<Rightarrow> False | Some l \<Rightarrow> ph_owner_id l = w \<and> \<not> ph_expires_at l \<le> now)"
    if "v \<in> set (owned_by k d)" for v
  proof (cases "find (\<lambda>l. ph_identity_key l = ow_identity_key v) (physical_leases d)")
    case (Some l)
    then have l: "l \<in> set (physical_leases d)" "ph_identity_key l = ow_identity_key v"
      using find_lease [OF assms(1)] by auto
    then obtain x where x: "x \<in> set (ownerships d)" "ow_identity_key x = ow_identity_key v" "ow_repo_key x = ph_repo_key l"
      using assms(1) by (auto simp: lease_inv_def)
    have k: "ph_repo_key l = k" using ownership_unique [OF assms(1) x(1) _ x(2)] x(3) that by (auto simp: set_owned_by)
    have "m = l" if "m \<in> set (physical_leases d)" "ph_identity_key m = ow_identity_key v" for m
      using lease_unique [OF assms(1) that(1) l(1)] that(2) l(2) by simp
    with l have "(\<exists>m \<in> set (physical_leases d). ph_identity_key m = ow_identity_key v \<and> physical_mine now k w m)
        \<longleftrightarrow> physical_mine now k w l" by blast
    with Some k show ?thesis by (simp add: physical_mine_def not_le)
  next
    case None
    moreover from None have "\<forall>l \<in> set (physical_leases d). ph_identity_key l \<noteq> ow_identity_key v" by (simp add: find_None_mem)
    ultimately show ?thesis by simp
  qed
  have "holds_physical now k w d \<longleftrightarrow> list_all (\<lambda>v. case find (\<lambda>l. ph_identity_key l = ow_identity_key v) (physical_leases d) of
            None \<Rightarrow> False | Some l \<Rightarrow> ph_owner_id l = w \<and> \<not> ph_expires_at l \<le> now) (owned_by k d)"
    unfolding holds_physical_def counted_leases_cover_ownership [OF assms(1)] list_all_iff
    by (subst ball_cong [OF refl each]) (use assms(2) in blast)+
  then show ?thesis using repo by (auto simp: enter_composition_def require_mutation_authority_def require_eq_Ok)
qed

section \<open>The invariant\<close>

lemma reserve_each_inv: "reserve_each k rs d = Inr d' \<Longrightarrow> lease_inv d \<Longrightarrow> lease_inv d'"
proof (induction k rs d rule: reserve_each.induct)
  case (2 k repository role ordinal rest d)
  show ?case
  proof (cases "find (\<lambda>w. ow_identity_key w = physical_identity_key repository) (ownerships d)")
    case None
    moreover from None have "physical_identity_key repository \<notin> ow_identity_key ` set (ownerships d)"
      by (auto simp: find_None_mem)
    ultimately show ?thesis using 2 by (auto simp: lease_inv_def Let_def split: if_splits)
  next
    case (Some w)
    with 2 show ?thesis by (auto simp: Let_def split: if_splits)
  qed
qed simp

lemma lease_inv_append:
  assumes "lease_inv d" "\<forall>l \<in> set (physical_leases d). ph_identity_key l \<noteq> ph_identity_key row"
    and "w \<in> set (ownerships d)" "ow_identity_key w = ph_identity_key row" "ow_repo_key w = ph_repo_key row"
  shows "lease_inv (d\<lparr>physical_leases := physical_leases d @ [row]\<rparr>)"
  using assms by (auto simp: lease_inv_def)

lemma lease_inv_modify:
  assumes "lease_inv d" "\<And>l. p l \<Longrightarrow> ph_identity_key (f l) = ph_identity_key l"
    and "\<And>l. l \<in> set (physical_leases d) \<Longrightarrow> p l \<Longrightarrow> ph_repo_key (f l) = ph_repo_key l"
  shows "lease_inv (d\<lparr>physical_leases := modify p f (physical_leases d)\<rparr>)"
proof -
  have "map ph_identity_key (modify p f (physical_leases d)) = map ph_identity_key (physical_leases d)"
    by (rule map_key_modify) (use assms(2) in auto)
  with assms show ?thesis by (fastforce simp: lease_inv_def set_modify)
qed

lemma acquire_physical_inv:
  assumes "acquire_physical now expires k w ks d = Inr d'" "lease_inv d" "set ks \<subseteq> ow_identity_key ` set (owned_by k d)"
  shows "lease_inv d' \<and> ownerships d' = ownerships d"
  using assms
proof (induction now expires k w ks d rule: acquire_physical.induct)
  case (2 now expires k w i ks d)
  let ?row = "\<lparr>ph_identity_key = i, ph_repo_key = k, ph_owner_id = w, ph_heartbeat_at = now, ph_expires_at = expires\<rparr>"
  from 2(5) obtain v where v: "v \<in> set (ownerships d)" "ow_repo_key v = k" "ow_identity_key v = i"
    by (auto simp: set_owned_by)
  show ?case
  proof (cases "find (\<lambda>l. ph_identity_key l = i) (physical_leases d)")
    case None
    then have "lease_inv (d\<lparr>physical_leases := physical_leases d @ [?row]\<rparr>)"
      using v by (intro lease_inv_append [OF 2(4)]) (auto simp: find_None_mem)
    with None 2 show ?thesis by (simp add: owned_by_def)
  next
    case (Some l)
    have "ph_repo_key m = k" if "m \<in> set (physical_leases d)" "ph_identity_key m = i" for m
    proof -
      from that 2(4) obtain x where x: "x \<in> set (ownerships d)" "ow_identity_key x = i" "ow_repo_key x = ph_repo_key m"
        by (auto simp: lease_inv_def)
      with ownership_unique [OF 2(4) x(1) v(1)] v show ?thesis by simp
    qed
    then have "lease_inv (d\<lparr>physical_leases := modify (\<lambda>l. ph_identity_key l = i) (\<lambda>_. ?row) (physical_leases d)\<rparr>)"
      by (intro lease_inv_modify [OF 2(4)]) auto
    with Some 2 show ?thesis by (simp add: owned_by_def split: if_splits)
  qed
qed simp

lemma renew_inv: "lease_inv d \<Longrightarrow> lease_inv (renew_repo now expires k w (renew_physical now expires k w d))"
proof -
  assume inv: "lease_inv d"
  have "lease_inv (renew_physical now expires k w d)" unfolding renew_physical_def by (rule lease_inv_modify [OF inv]) auto
  moreover have "map rl_repo_key (modify p (\<lambda>l. l\<lparr>rl_heartbeat_at := now, rl_expires_at := expires\<rparr>) t) = map rl_repo_key t"
    for p and t :: "repo_lease list"
    by (rule map_key_modify) simp
  ultimately show ?thesis by (simp add: lease_inv_def renew_repo_def)
qed

lemma upsert_repo_lease_inv: "lease_inv d \<Longrightarrow> lease_inv (upsert_repo_lease row d)"
proof -
  assume inv: "lease_inv d"
  have "map rl_repo_key (modify (\<lambda>l. rl_repo_key l = rl_repo_key row) (\<lambda>_. row) t) = map rl_repo_key t" for t
    by (rule map_key_modify) simp
  with inv show ?thesis by (auto simp: upsert_repo_lease_def lease_inv_def list_ex_iff)
qed

text \<open>The lease tables stay consistent under every operation on them: a physical repository has one owner and at
  most one lease, a repository has at most one lease, and a physical lease belongs to the repository that owns
  the physical one.\<close>

theorem lease_operations_keep_invariant:
  assumes "lease_inv d"
  shows "(\<forall>d'. reserve_policy_physical_ownership k policy d = Inr d' \<longrightarrow> lease_inv d')
    \<and> (\<forall>d'. acquire_repo_operation_lease now expires k w repository target d = Inr d' \<longrightarrow> lease_inv d')
    \<and> lease_inv (fst (heartbeat_repo_lease now expires k w d)) \<and> lease_inv (fst (release_repo_lease k w d))
    \<and> (\<forall>d'. enter_composition now expires k w d = Inr d' \<longrightarrow> lease_inv d')"
proof (intro conjI allI impI)
  fix d'
  show "reserve_policy_physical_ownership k policy d = Inr d' \<Longrightarrow> lease_inv d'"
    using assms by (auto simp: reserve_policy_physical_ownership_def bnd_eq_Ok require_eq_Ok intro: reserve_each_inv)
  show "acquire_repo_operation_lease now expires k w repository target d = Inr d' \<Longrightarrow> lease_inv d'"
    using assms by (auto simp: acquire_repo_operation_lease_def bnd_eq_Ok intro!: upsert_repo_lease_inv dest: acquire_physical_inv)
  show "lease_inv (fst (heartbeat_repo_lease now expires k w d))"
    using assms by (simp add: heartbeat_repo_lease_def renew_inv)
  show "lease_inv (fst (release_repo_lease k w d))"
    using assms by (auto simp: release_repo_lease_def lease_inv_def remove_rows_def distinct_map inj_on_def)
  show "enter_composition now expires k w d = Inr d' \<Longrightarrow> lease_inv d'"
    using assms by (auto simp: enter_composition_def bnd_eq_Ok renew_inv)
qed

section \<open>Exclusion\<close>

text \<open>What a transaction of \<open>SqliteQueue\<close> relies on: it starts for one owner at most, and starting it changes the lease
  tables only.\<close>

locale exclusive_entry =
  fixes enter :: "string \<Rightarrow> string \<Rightarrow> db \<Rightarrow> db result" and ok :: "db \<Rightarrow> bool"
  assumes enter_one: "ok d \<Longrightarrow> enter k a d = Inr d1 \<Longrightarrow> enter k b d = Inr d2 \<Longrightarrow> a = b"
    and enter_ok: "ok d \<Longrightarrow> enter k a d = Inr d' \<Longrightarrow> ok d'"
    and enter_leases: "enter k a d = Inr d' \<Longrightarrow> \<exists>x y. d' = d\<lparr>physical_leases := x, repo_leases := y\<rparr>"
begin

lemma transaction_exclusive:
  "ok d \<Longrightarrow> is_ok (bnd (enter k a d) f) \<Longrightarrow> is_ok (bnd (enter k b d) g) \<Longrightarrow> a = b"
  using enter_one by (auto simp: is_ok_iff bnd_eq_Ok)

lemma transaction_body:
  "bnd (enter k a d) f = Inr r \<Longrightarrow> \<exists>x y. f (d\<lparr>physical_leases := x, repo_leases := y\<rparr>) = Inr r"
  by (clarsimp simp: bnd_eq_Ok) (metis enter_leases)

end

interpretation lease: exclusive_entry "enter_composition now expires" lease_inv for now expires
proof
  fix d k a b d1 d2
  assume "lease_inv d" "enter_composition now expires k a d = Inr d1" "enter_composition now expires k b d = Inr d2"
  then have "changed (repo_mine now k a) (repo_leases d) = 1" "changed (repo_mine now k b) (repo_leases d) = 1"
    by (auto simp: enter_composition_def bnd_eq_Ok require_eq_Ok)
  then obtain l m where "l \<in> set (repo_leases d)" "repo_mine now k a l" "m \<in> set (repo_leases d)" "repo_mine now k b m"
    using changed_one_ex by meson
  with \<open>lease_inv d\<close> show "a = b" by (auto simp: repo_mine_def lease_inv_def distinct_map inj_on_def)
next
  fix d k a d' assume "lease_inv d" "enter_composition now expires k a d = Inr d'"
  then show "lease_inv d'" by (auto simp: enter_composition_def bnd_eq_Ok renew_inv)
next
  fix d k a d' assume "enter_composition now expires k a d = Inr d'"
  then show "\<exists>x y. d' = d\<lparr>physical_leases := x, repo_leases := y\<rparr>"
    by (auto simp: enter_composition_def bnd_eq_Ok renew_repo_def renew_physical_def)
qed

lemma repo_lease_after_acquisition:
  assumes "acquire_repo_operation_lease now expires k w repository target d = Inr d'"
    "l \<in> set (repo_leases d')" "rl_repo_key l = k"
  shows "rl_owner_id l = w"
proof -
  from assms(1) obtain d1 row where "d' = upsert_repo_lease row d1" "rl_repo_key row = k" "rl_owner_id row = w"
    by (fastforce simp: acquire_repo_operation_lease_def bnd_eq_Ok)
  with assms(2,3) show ?thesis
    by (cases "list_ex (\<lambda>l. rl_repo_key l = k) (repo_leases d1)") (auto simp: upsert_repo_lease_def set_modify list_ex_iff)
qed

text \<open>Acquiring the lease of a repository fences off the previous holder: whatever the clock says, no transaction and
  no change of a queue item succeeds for any other owner until it acquires the lease again.\<close>

theorem acquisition_fences_other_owners:
  assumes "acquire_repo_operation_lease now expires k w repository target d = Inr d'" "w' \<noteq> w"
  shows "\<not> is_ok (composition_transaction now' expires' k w' operation d')
    \<and> \<not> is_ok (require_mutation_authority now' k (RepositoryLease k w') d')
    \<and> snd (heartbeat_repo_lease now' expires' k w' d') = False"
proof -
  have "\<not> repo_mine now' k w' l" if "l \<in> set (repo_leases d')" for l
    using repo_lease_after_acquisition [OF assms(1) that] assms(2) by (auto simp: repo_mine_def)
  then have "changed (repo_mine now' k w') (repo_leases d') = 0" "\<not> list_ex (repo_mine now' k w') (repo_leases d')"
    by (auto simp: changed_def list_ex_iff filter_empty_conv)
  then show ?thesis
    by (auto simp: composition_transaction_def enter_composition_def require_mutation_authority_def heartbeat_repo_lease_def)
qed


end
