(* ===== verification/Git_Output.thy ===== *)
theory Git_Output
  imports Git_Object
begin

text \<open>
  Reading what git prints (\<open>composition.rs\<close>): the functions of the standard library that the parsers of
  \<open>git ls-remote\<close> use (\<open>str::from_utf8\<close>, \<open>str::lines\<close>, \<open>str::split_whitespace\<close>) on byte sequences, and the
  parsers of one remote ref.
\<close>

section \<open>Text of the standard library\<close>

text \<open>The length of a well-formed UTF-8 character at the front, 0 when there is none.\<close>

definition tail_byte :: "char \<Rightarrow> bool" where
  "tail_byte c \<longleftrightarrow> 128 \<le> byte c \<and> byte c \<le> 191"

fun utf8_width :: "string \<Rightarrow> nat" where
  "utf8_width [] = 0"
| "utf8_width (a # s) =
     (let n = byte a in
      if n < 128 then 1
      else if 194 \<le> n \<and> n \<le> 223
      then (case s of b # _ \<Rightarrow> if tail_byte b then 2 else 0 | _ \<Rightarrow> 0)
      else if 224 \<le> n \<and> n \<le> 239
      then (case s of
              b # c # _ \<Rightarrow>
                if tail_byte b \<and> tail_byte c \<and> (n = 224 \<longrightarrow> 160 \<le> byte b) \<and> (n = 237 \<longrightarrow> byte b \<le> 159) then 3 else 0
            | _ \<Rightarrow> 0)
      else if 240 \<le> n \<and> n \<le> 244
      then (case s of
              b # c # e # _ \<Rightarrow>
                if tail_byte b \<and> tail_byte c \<and> tail_byte e \<and> (n = 240 \<longrightarrow> 144 \<le> byte b) \<and> (n = 244 \<longrightarrow> byte b \<le> 143)
                then 4 else 0
            | _ \<Rightarrow> 0)
      else 0)"

function is_utf8 :: "string \<Rightarrow> bool" where
  "is_utf8 s = (if s = [] then True else if utf8_width s = 0 then False else is_utf8 (drop (utf8_width s) s))"
  by pat_completeness auto
termination
  by (relation "measure length") auto

declare is_utf8.simps [simp del]

text \<open>\<open>str::lines\<close>: a line break ends its line, together with a carriage return before it.\<close>

definition strip_cr :: "string \<Rightarrow> string" where
  "strip_cr s = (if s \<noteq> [] \<and> last s = CHR 0x0D then butlast s else s)"

definition lines_of :: "string \<Rightarrow> string list" where
  "lines_of s =
     (let parts = split_on (CHR 0x0A) s
      in map strip_cr (butlast parts) @ (if last parts = [] then [] else [last parts]))"

fun word_of :: "string \<Rightarrow> string \<times> string" where
  "word_of [] = ([], [])"
| "word_of (c # s) =
     (if ws_width (c # s) \<noteq> 0 then ([], c # s) else (let (word, rest) = word_of s in (c # word, rest)))"

lemma word_of_length: "length (snd (word_of s)) \<le> length s"
  by (induction s rule: word_of.induct) (auto simp: case_prod_unfold Let_def)

lemma word_of_shorter: "s \<noteq> [] \<Longrightarrow> ws_width s = 0 \<Longrightarrow> length (snd (word_of s)) < length s"
  by (cases s) (auto simp: case_prod_unfold Let_def le_imp_less_Suc word_of_length)

lemma ws_width_trim_start: "ws_width (trim_start s) = 0"
proof (induction s rule: trim_start.induct)
  case (1 s)
  then show ?case by (cases "ws_width s = 0") (simp_all add: trim_start.simps [of s])
qed

function split_whitespace :: "string \<Rightarrow> string list" where
  "split_whitespace s =
     (if trim_start s = [] then []
      else fst (word_of (trim_start s)) # split_whitespace (snd (word_of (trim_start s))))"
  by pat_completeness auto
termination
proof (relation "measure length")
  fix s assume "trim_start s \<noteq> []"
  from word_of_shorter [OF this ws_width_trim_start]
  show "(snd (word_of (trim_start s)), s) \<in> measure length" using trim_start_length [of s] by simp
qed simp

declare split_whitespace.simps [simp del]

lemma split_whitespace_code [code]:
  "split_whitespace s =
     (let t = trim_start s in if t = [] then [] else (case word_of t of (word, rest) \<Rightarrow> word # split_whitespace rest))"
  by (simp add: split_whitespace.simps [of s] Let_def case_prod_unfold)

section \<open>The parsers\<close>

definition parse_exact_remote_ref :: "string \<Rightarrow> string \<Rightarrow> git_object_format \<Rightarrow> string result" where
  "parse_exact_remote_ref out expected_ref f =
     bnd (require (is_utf8 out) (Bail ''remote ref output is not UTF-8'')) (\<lambda>_.
     case lines_of out of
       [] \<Rightarrow> Err (Bail ''remote ref did not resolve'')
     | _ # _ # _ \<Rightarrow> Err (Bail ''remote ref resolved more than once'')
     | [line] \<Rightarrow>
         (case split_whitespace line of
            [] \<Rightarrow> Err (Bail ''remote ref has no object ID'')
          | sha # fields \<Rightarrow>
              if fields \<noteq> [expected_ref] then Err (Bail ''remote ref output differs from requested ref'')
              else bnd (require_oid f sha ''remote ref object ID'') (\<lambda>_. Ok sha)))"

definition parse_optional_remote_ref :: "string \<Rightarrow> string \<Rightarrow> git_object_format \<Rightarrow> string option result" where
  "parse_optional_remote_ref out expected_ref f =
     (if out = [] then Ok None else bnd (parse_exact_remote_ref out expected_ref f) (\<lambda>sha. Ok (Some sha)))"

section \<open>Facts\<close>

text \<open>The characters of a ref name and of an object identifier.\<close>

definition graphic :: "char \<Rightarrow> bool" where
  "graphic c \<longleftrightarrow> 33 \<le> byte c \<and> byte c < 127"

lemma graphic_width: "graphic c \<Longrightarrow> ws_width (c # s) = 0"
  by (cases "c # s" rule: ws_width.cases) (auto simp: graphic_def ws1_def ws2_def ws3_def)

lemma ascii_utf8: "list_all (\<lambda>c. byte c < 128) s \<Longrightarrow> is_utf8 s"
proof (induction s)
  case (Cons c s)
  then show ?case by (simp add: is_utf8.simps [of "c # s"])
qed (simp add: is_utf8.simps [of "[]"])

lemma word_of_graphic:
  "list_all graphic w \<Longrightarrow> s = [] \<or> ws_width s \<noteq> 0 \<Longrightarrow> word_of (w @ s) = (w, s)"
proof (induction w)
  case Nil
  then show ?case by (cases s) auto
next
  case (Cons c w)
  then show ?case by (simp add: graphic_width)
qed

lemma trim_start_graphic: "list_all graphic w \<Longrightarrow> w \<noteq> [] \<Longrightarrow> trim_start (w @ s) = w @ s"
  by (cases w) (simp_all add: trim_start_id graphic_width)

lemma split_whitespace_Nil [simp]: "split_whitespace [] = []"
  by (simp add: split_whitespace.simps [of "[]"] trim_start_id)

lemma split_whitespace_word:
  assumes "list_all graphic w" "w \<noteq> []" "s = [] \<or> ws_width s \<noteq> 0"
  shows "split_whitespace (w @ s) = w # split_whitespace s"
  using assms by (simp add: split_whitespace.simps [of "w @ s"] trim_start_graphic word_of_graphic)

lemma split_whitespace_tab: "split_whitespace (CHR 0x09 # s) = split_whitespace s"
proof -
  have "ws_width (CHR 0x09 # s) = 1" by (cases "CHR 0x09 # s" rule: ws_width.cases) (simp_all add: ws1_def)
  then have "trim_start (CHR 0x09 # s) = trim_start s" by (simp add: trim_start.simps [of "CHR 0x09 # s"])
  then show ?thesis by (simp add: split_whitespace.simps [of "CHR 0x09 # s"] split_whitespace.simps [of s])
qed

lemma lines_of_one:
  assumes "CHR 0x0A \<notin> set s" "CHR 0x0D \<notin> set s"
  shows "lines_of (s @ [CHR 0x0A]) = [s]"
proof -
  have "split_on (CHR 0x0A) (s @ [CHR 0x0A]) = [s, []]" using split_on_append [OF assms(1), of "[]"] by simp
  moreover have "strip_cr s = s" using assms(2) last_in_set [of s] by (cases "s = []") (auto simp: strip_cr_def simp del: last_in_set)
  ultimately show ?thesis by (simp add: lines_of_def)
qed

lemma hex_graphic: "is_ascii_hexdigit c \<Longrightarrow> graphic c"
  by (auto simp: ascii_defs graphic_def)

lemma oid_graphic: "is_oid f v \<Longrightarrow> list_all graphic v \<and> v \<noteq> []"
  by (cases f) (auto simp: is_oid_def list_all_iff hex_graphic)

lemma parse_exact_remote_ref_oid: "parse_exact_remote_ref out r f = Inr v \<Longrightarrow> is_oid f v"
  by (auto simp: parse_exact_remote_ref_def result_simps split: list.splits if_splits)

lemma parse_optional_remote_ref_oid: "parse_optional_remote_ref out r f = Inr (Some v) \<Longrightarrow> is_oid f v"
  by (auto simp: parse_optional_remote_ref_def result_simps parse_exact_remote_ref_oid split: if_splits)

text \<open>The line that git prints for one remote ref is read back exactly: an object identifier of the format of the
  repository, a tab, the name of the ref and a line break.\<close>

theorem remote_ref_roundtrip:
  assumes "is_oid f sha" "list_all graphic name" "name \<noteq> []"
  shows "parse_optional_remote_ref (sha @ CHR 0x09 # name @ [CHR 0x0A]) name f = Inr (Some sha)"
proof -
  note sha = oid_graphic [OF assms(1)]
  have g: "graphic c \<Longrightarrow> byte c < 128 \<and> c \<noteq> CHR 0x0A \<and> c \<noteq> CHR 0x0D" for c by (auto simp: graphic_def)
  have line: "CHR 0x0A \<notin> set (sha @ CHR 0x09 # name)" "CHR 0x0D \<notin> set (sha @ CHR 0x09 # name)"
    using sha assms(2) g by (auto simp: list_all_iff)
  have "list_all (\<lambda>c. byte c < 128) (sha @ CHR 0x09 # name @ [CHR 0x0A])" using sha assms(2) g by (auto simp: list_all_iff)
  then have utf8: "is_utf8 (sha @ CHR 0x09 # name @ [CHR 0x0A])" by (rule ascii_utf8)
  have lines: "lines_of (sha @ CHR 0x09 # name @ [CHR 0x0A]) = [sha @ CHR 0x09 # name]"
    using lines_of_one [OF line] by simp
  have "ws_width (CHR 0x09 # name) \<noteq> 0" by (cases "CHR 0x09 # name" rule: ws_width.cases) (simp_all add: ws1_def)
  then have "split_whitespace (sha @ CHR 0x09 # name) = [sha, name]"
    using split_whitespace_word [of sha "CHR 0x09 # name"] split_whitespace_word [of name "[]"] sha assms(2,3)
    by (simp add: split_whitespace_tab)
  then show ?thesis using utf8 lines assms(1) by (simp add: parse_optional_remote_ref_def parse_exact_remote_ref_def require_oid_def is_oid_def)
qed

theorem remote_ref_roundtrip_witness:
  "parse_optional_remote_ref (replicate 40 (CHR ''a'') @ CHR 0x09 # ''refs/heads/main'' @ [CHR 0x0A]) ''refs/heads/main'' Sha1
   = Inr (Some (replicate 40 (CHR ''a'')))"
  by (rule remote_ref_roundtrip) (simp_all add: graphic_def ascii_defs)

end
