(* ===== verification/Actions.thy ===== *)
theory Actions
  imports Store_Rows
begin

text \<open>
  Operations that alternate transactions with commands outside the database.  An action carries the state \<open>'w\<close> of the
  world outside the database beside the database and returns both also when it fails: what was committed
  before a failure stays.
\<close>

type_synonym ('w, 'a) act = "'w \<times> db \<Rightarrow> 'a result \<times> ('w \<times> db)"

definition act_bind :: "('w, 'a) act \<Rightarrow> ('a \<Rightarrow> ('w, 'b) act) \<Rightarrow> ('w, 'b) act" where
  "act_bind m f s = (case m s of (Inr x, s') \<Rightarrow> f x s' | (Inl e, s') \<Rightarrow> (Inl e, s'))"

definition act_try :: "('w, 'a) act \<Rightarrow> ('w, 'a result) act" where
  "act_try m s = (case m s of (r, s') \<Rightarrow> (Inr r, s'))"

definition act_return :: "'a result \<Rightarrow> ('w, 'a) act" where
  "act_return r s = (r, s)"

definition act_read :: "(db \<Rightarrow> 'a result) \<Rightarrow> ('w, 'a) act" where
  "act_read f s = (f (snd s), s)"

definition act_check :: "('w \<Rightarrow> 'a result) \<Rightarrow> ('w, 'a) act" where
  "act_check f s = (f (fst s), s)"

definition act_world :: "('w \<Rightarrow> 'a result \<times> 'w) \<Rightarrow> ('w, 'a) act" where
  "act_world f s = (case f (fst s) of (r, w) \<Rightarrow> (r, (w, snd s)))"

text \<open>The message of an error.\<close>

fun error_text :: "error \<Rightarrow> string" where
  "error_text (Bail m) = m"
| "error_text (Abort m) = m"
| "error_text (NoRow m) = m"

text \<open>A transaction that fails leaves the database alone.\<close>

definition act_commit :: "(db \<Rightarrow> db result) \<Rightarrow> ('w, unit) act" where
  "act_commit f s = (case f (snd s) of Inr d \<Rightarrow> (Inr (), (fst s, d)) | Inl e \<Rightarrow> (Inl e, s))"

end
