(* ===== verification/Queue_Replication.thy ===== *)
theory Queue_Replication
  imports Queue_Leases Git_Output Actions "HOL-Library.Product_Lexorder"
begin

text \<open>
  Replication of landed commits: the debts of \<open>lib.rs\<close> (\<open>replication_debt\<close> and the methods of
  \<open>SqliteQueue\<close> on it) and their reconciliation in \<open>composition.rs\<close>
  (\<open>reconcile_replication_debt\<close> and its helpers).  Every method is one transaction; the
  reconciliation is a sequence of transactions and git commands, so an action returns the database
  also when it fails.  Git, the clock and generated identifiers are parameters of an action.
\<close>

section \<open>Reading debts\<close>

definition replication_debt_row :: "string \<Rightarrow> db \<Rightarrow> replication_debt result" where
  "replication_debt_row debt_id d =
     bnd (fetch (\<lambda>x. xd_id x = debt_id) (replication_debts d) (NoRow (''replication debt not found: '' @ debt_id))) (\<lambda>x.
     bnd (target_ref_from_full (xd_target_ref x)) (\<lambda>_. Ok x))"

definition finished :: "replication_debt \<Rightarrow> bool" where
  "finished x \<longleftrightarrow> xd_outcome x = OutSucceeded \<or> xd_outcome x = OutSuperseded"

definition same_target :: "replication_debt \<Rightarrow> replication_debt \<Rightarrow> bool" where
  "same_target x y \<longleftrightarrow> xd_destination_key x = xd_destination_key y \<and> xd_target_ref x = xd_target_ref y"

text \<open>\<open>ORDER BY sequence LIMIT 1\<close> and \<open>ORDER BY sequence DESC LIMIT 1\<close>.\<close>

definition older_unfinished_replication :: "replication_debt \<Rightarrow> db \<Rightarrow> replication_debt option" where
  "older_unfinished_replication debt d =
     (case sort_key xd_sequence
             (filter (\<lambda>x. same_target x debt \<and> xd_sequence x < xd_sequence debt \<and> \<not> finished x) (replication_debts d)) of
        [] \<Rightarrow> None | x # _ \<Rightarrow> Some x)"

definition newer_completed_replication :: "replication_debt \<Rightarrow> db \<Rightarrow> replication_debt option" where
  "newer_completed_replication debt d =
     (case rev (sort_key xd_sequence
             (filter (\<lambda>x. same_target x debt \<and> xd_sequence x > xd_sequence debt \<and> finished x) (replication_debts d))) of
        [] \<Rightarrow> None | x # _ \<Rightarrow> Some x)"

section \<open>The authority of a replication\<close>

definition validate_replication_binding :: "string \<Rightarrow> string \<Rightarrow> (string \<times> string) option \<Rightarrow> db \<Rightarrow> replication_debt result" where
  "validate_replication_binding repo_key debt_id lease d =
     bnd (fetch (\<lambda>x. xd_id x = debt_id \<and> xd_repo_key x = repo_key) (replication_debts d)
            (NoRow (''replication debt not found: '' @ debt_id))) (\<lambda>debt.
     bnd (target_ref_from_full (xd_target_ref debt)) (\<lambda>_.
     bnd (repo_policy repo_key d) (\<lambda>policy.
     bnd (fetch (\<lambda>i. qi_id i = xd_item_id debt \<and> qi_repo_key i = repo_key \<and> qi_status i = QIntegrated) (queue_items d)
            (NoRow ''queue_items'')) (\<lambda>item.
     bnd (case qi_landed_commit_sha item of None \<Rightarrow> Err (NoRow ''landed_commit_sha'') | Some s \<Rightarrow> Ok s) (\<lambda>landed.
     bnd (case po_replication_policy policy of
            Replicate targets \<Rightarrow> Ok targets
          | NoReplication \<Rightarrow> Err (Bail ''replication debt has no immutable policy replica'')) (\<lambda>configured.
     bnd (require (xd_target_ref debt = qi_target_ref item \<and> xd_canonical_source_sha debt = landed
             \<and> xd_destination_key debt = destination_identity_key (xd_replica debt) \<and> xd_replica debt \<in> set configured)
            (Bail ''replication debt differs from immutable policy or landed item'')) (\<lambda>_.
     bnd (require (list_ex (\<lambda>w. ow_identity_key w = xd_destination_key debt \<and> ow_repo_key w = repo_key \<and> ow_role w = ''replica''
             \<and> ow_repository w = xd_replica debt) (ownerships d))
            (Bail ''replication debt has no exact global destination ownership'')) (\<lambda>_.
     bnd (case lease of
            None \<Rightarrow> Ok ()
          | Some (now, owner_id) \<Rightarrow>
              require (list_ex (\<lambda>l. ph_identity_key l = xd_destination_key debt \<and> physical_mine now repo_key owner_id l) (physical_leases d))
                (Bail ''replication destination physical lease is not active'')) (\<lambda>_.
     Ok debt)))))))))"

definition require_replication_state :: "operation_state \<Rightarrow> replication_debt \<Rightarrow> unit result" where
  "require_replication_state state debt =
     (case state of
        Draining obligations \<Rightarrow>
          if QueueItemObligation (xd_item_id debt) \<in> obligations then Ok ()
          else require_obligation state (ReplicationObligation (xd_id debt))
      | _ \<Rightarrow> require_obligation state (ReplicationObligation (xd_id debt)))"

definition require_replication_tx :: "string \<Rightarrow> string \<Rightarrow> db \<Rightarrow> unit result" where
  "require_replication_tx repo_key debt_id d =
     bnd (validate_replication_binding repo_key debt_id None d) (\<lambda>debt.
     bnd (repo_policy repo_key d) (\<lambda>policy.
     require_replication_state (po_operation_state policy) debt))"

definition authorize_replication :: "(git_repository \<Rightarrow> unit result) \<Rightarrow> string \<Rightarrow> string \<Rightarrow> string \<Rightarrow> string \<Rightarrow> db \<Rightarrow> unit result" where
  "authorize_replication verify now repo_key debt_id owner_id d =
     bnd (validate_replication_binding repo_key debt_id (Some (now, owner_id)) d) (\<lambda>debt.
     bnd (repo_policy repo_key d) (\<lambda>policy.
     bnd (require_replication_state (po_operation_state policy) debt) (\<lambda>_.
     verify (po_canonical_repository policy))))"

definition preserved_ref :: "string \<Rightarrow> string" where
  "preserved_ref debt_id = ''refs/iq/replication/'' @ debt_id"

definition commit_object :: "string \<Rightarrow> string" where
  "commit_object sha = sha @ ''^{commit}''"

text \<open>The argument lists of the git commands of a replication.\<close>

type_synonym git_args = "string list"

definition verify_args :: "replication_debt \<Rightarrow> git_args" where
  "verify_args debt = [''cat-file'', ''-e'', commit_object (xd_canonical_source_sha debt)]"

definition pin_args :: "replication_debt \<Rightarrow> string \<Rightarrow> git_args" where
  "pin_args debt old = [''update-ref'', preserved_ref (xd_id debt), xd_canonical_source_sha debt, old]"

definition unpin_args :: "replication_debt \<Rightarrow> git_args" where
  "unpin_args debt = [''update-ref'', ''-d'', preserved_ref (xd_id debt), xd_canonical_source_sha debt]"

definition observe_args :: "replication_debt \<Rightarrow> git_args" where
  "observe_args debt = [''ls-remote'', ''--heads'', fetch_argument (xd_replica debt), xd_target_ref debt]"

definition push_args :: "replication_debt \<Rightarrow> string \<Rightarrow> git_args" where
  "push_args debt expected =
     [''push'', ''--porcelain'', ''--force-with-lease='' @ xd_target_ref debt @ '':'' @ expected, push_argument (xd_replica debt),
      xd_canonical_source_sha debt @ '':'' @ xd_target_ref debt]"

text \<open>A debt whose source is not pinned yet permits three exact commands.\<close>

definition authorize_replication_command ::
    "(git_repository \<Rightarrow> unit result) \<Rightarrow> string \<Rightarrow> string \<Rightarrow> string \<Rightarrow> string \<Rightarrow> git_args \<Rightarrow> db \<Rightarrow> replication_debt result" where
  "authorize_replication_command verify now repo_key debt_id owner_id args d =
     bnd (authorize_replication verify now repo_key debt_id owner_id d) (\<lambda>_.
     bnd (replication_debt_row debt_id d) (\<lambda>debt.
     bnd (require (xd_operation debt = PinSource \<longrightarrow>
              args = verify_args debt \<or> args = pin_args debt (zero_oid (object_format (xd_replica debt)))
              \<or> args = pin_args debt (xd_canonical_source_sha debt))
            (Bail ''pin_source permits only exact source verification and pin publication'')) (\<lambda>_.
     Ok debt)))"

section \<open>Changing a debt\<close>

definition replication_check :: "replication_debt \<Rightarrow> bool" where
  "replication_check x \<longleftrightarrow>
     (xd_operation x = AdvanceExactTarget \<longleftrightarrow> xd_expected_destination_sha x \<noteq> None)
     \<and> (if xd_outcome x = OutFailed \<or> xd_outcome x = OutUncertain
        then xd_failure x \<noteq> None \<and> xd_failure x \<noteq> Some [] else xd_failure x = None)
     \<and> (xd_outcome x = OutApplying \<or> xd_outcome x = OutUncertain \<longleftrightarrow> xd_application_id x \<noteq> None)
     \<and> (xd_outcome x = OutPinning \<longrightarrow> xd_operation x = PinSource)
     \<and> (xd_outcome x = OutSupersededCleanupPending \<or> xd_outcome x = OutSuperseded \<longleftrightarrow> xd_superseded_by_id x \<noteq> None)"

definition update_replication :: "(replication_debt \<Rightarrow> bool) \<Rightarrow> (replication_debt \<Rightarrow> replication_debt) \<Rightarrow> db \<Rightarrow> (db \<times> nat) result" where
  "update_replication p f d =
     (if list_ex (\<lambda>x. p x \<and> \<not> replication_check (f x)) (replication_debts d)
      then Err (Abort ''CHECK constraint failed: replication_debt'')
      else Ok (d\<lparr>replication_debts := modify p f (replication_debts d)\<rparr>, changed p (replication_debts d)))"

text \<open>The transaction that all changes of a debt share: the leases, the authority of the debt, one guarded update.\<close>

record moment =
  mo_now :: string
  mo_expires :: string
  mo_uuid :: string

definition replication_transaction ::
    "moment \<Rightarrow> string \<Rightarrow> string \<Rightarrow> string \<Rightarrow> (replication_debt \<Rightarrow> bool) \<Rightarrow> (replication_debt \<Rightarrow> replication_debt) \<Rightarrow> string \<Rightarrow> db \<Rightarrow> db result" where
  "replication_transaction t repo_key owner_id debt_id p f lost d =
     composition_transaction (mo_now t) (mo_expires t) repo_key owner_id (\<lambda>d.
       bnd (require_replication_tx repo_key debt_id d) (\<lambda>_.
       bnd (update_replication (\<lambda>x. xd_id x = debt_id \<and> xd_repo_key x = repo_key \<and> p x) f d) (\<lambda>(d, n).
       bnd (require (n = 1) (Bail lost)) (\<lambda>_. Ok d)))) d"

definition outcome_in :: "replication_outcome list \<Rightarrow> replication_debt \<Rightarrow> bool" where
  "outcome_in os x \<longleftrightarrow> xd_outcome x \<in> set os"

text \<open>The result is \<open>None\<close> for success or the message of a failure.\<close>

definition finish_replication_debt :: "moment \<Rightarrow> string \<Rightarrow> string \<Rightarrow> string \<Rightarrow> string option \<Rightarrow> db \<Rightarrow> db result" where
  "finish_replication_debt t repo_key owner_id debt_id failure d =
     (let p = outcome_in [OutPinning, OutPending, OutApplying, OutUncertain, OutFailed];
          lost = ''replication debt authority changed''
      in (case failure of
            None \<Rightarrow> replication_transaction t repo_key owner_id debt_id p
                 (\<lambda>x. x\<lparr>xd_outcome := OutApplied, xd_application_id := None, xd_failure := None\<rparr>) lost d
          | Some message \<Rightarrow>
              if trim message = []
              then composition_transaction (mo_now t) (mo_expires t) repo_key owner_id
                     (\<lambda>d. bnd (require_replication_tx repo_key debt_id d) (\<lambda>_.
                        Err (Bail ''replication failure must not be empty''))) d
              else replication_transaction t repo_key owner_id debt_id p
                 (\<lambda>x. x\<lparr>xd_outcome := OutFailed, xd_application_id := None, xd_failure := Some message\<rparr>) lost d))"

definition complete_replication_source_pin :: "moment \<Rightarrow> string \<Rightarrow> string \<Rightarrow> string \<Rightarrow> db \<Rightarrow> db result" where
  "complete_replication_source_pin t repo_key owner_id debt_id d =
     replication_transaction t repo_key owner_id debt_id
       (\<lambda>x. xd_operation x = PinSource \<and> outcome_in [OutPinning, OutFailed] x)
       (\<lambda>x. x\<lparr>xd_operation := ResolveDestination, xd_outcome := OutPending, xd_failure := None\<rparr>)
       ''replication source pin authority changed'' d"

definition complete_replication_source_cleanup_tx :: "moment \<Rightarrow> string \<Rightarrow> string \<Rightarrow> string \<Rightarrow> db \<Rightarrow> db result" where
  "complete_replication_source_cleanup_tx t repo_key owner_id debt_id d =
     replication_transaction t repo_key owner_id debt_id (outcome_in [OutApplied]) (\<lambda>x. x\<lparr>xd_outcome := OutSucceeded\<rparr>)
       ''replication source cleanup authority changed'' d"

definition begin_replication_application :: "moment \<Rightarrow> string \<Rightarrow> string \<Rightarrow> string \<Rightarrow> string \<Rightarrow> db \<Rightarrow> db result" where
  "begin_replication_application t repo_key owner_id debt_id expected d =
     composition_transaction (mo_now t) (mo_expires t) repo_key owner_id (\<lambda>d.
       bnd (repository_object_format repo_key d) (\<lambda>format.
       bnd (require_oid format expected ''replication expected destination SHA'') (\<lambda>_.
       bnd (require_replication_tx repo_key debt_id d) (\<lambda>_.
       bnd (update_replication (\<lambda>x. xd_id x = debt_id \<and> xd_repo_key x = repo_key \<and> outcome_in [OutPending, OutFailed] x)
              (\<lambda>x. x\<lparr>xd_expected_destination_sha := Some expected, xd_operation := AdvanceExactTarget, xd_outcome := OutApplying,
                     xd_application_id := Some (mo_uuid t), xd_failure := None\<rparr>) d) (\<lambda>(d, n).
       bnd (require (n = 1) (Bail ''replication debt cannot begin an application'')) (\<lambda>_. Ok d)))))) d"

definition resume_replication_application :: "moment \<Rightarrow> string \<Rightarrow> string \<Rightarrow> string \<Rightarrow> db \<Rightarrow> db result" where
  "resume_replication_application t repo_key owner_id debt_id d =
     replication_transaction t repo_key owner_id debt_id
       (\<lambda>x. outcome_in [OutUncertain] x \<and> xd_application_id x \<noteq> None \<and> xd_expected_destination_sha x \<noteq> None)
       (\<lambda>x. x\<lparr>xd_outcome := OutApplying, xd_failure := None\<rparr>) ''uncertain replication application cannot resume'' d"

definition mark_replication_uncertain :: "moment \<Rightarrow> string \<Rightarrow> string \<Rightarrow> string \<Rightarrow> string \<Rightarrow> db \<Rightarrow> db result" where
  "mark_replication_uncertain t repo_key owner_id debt_id failure d =
     (if trim failure = [] then Err (Bail ''replication uncertainty evidence must not be empty'')
      else replication_transaction t repo_key owner_id debt_id
             (\<lambda>x. outcome_in [OutApplying, OutUncertain] x \<and> xd_application_id x \<noteq> None)
             (\<lambda>x. x\<lparr>xd_outcome := OutUncertain, xd_failure := Some failure\<rparr>) ''replication application is not in flight'' d)"

definition begin_replication_supersession :: "moment \<Rightarrow> string \<Rightarrow> string \<Rightarrow> string \<Rightarrow> string \<Rightarrow> db \<Rightarrow> db result" where
  "begin_replication_supersession t repo_key owner_id debt_id newer_id d =
     composition_transaction (mo_now t) (mo_expires t) repo_key owner_id (\<lambda>d.
       bnd (require_replication_tx repo_key debt_id d) (\<lambda>_.
       bnd (update_replication
              (\<lambda>x. xd_id x = debt_id \<and> xd_repo_key x = repo_key
                 \<and> \<not> outcome_in [OutSucceeded, OutSuperseded, OutSupersededCleanupPending] x
                 \<and> list_ex (\<lambda>y. xd_id y = newer_id \<and> same_target y x \<and> xd_sequence y > xd_sequence x \<and> finished y) (replication_debts d))
              (\<lambda>x. x\<lparr>xd_outcome := OutSupersededCleanupPending, xd_application_id := None, xd_failure := None,
                     xd_superseded_by_id := Some newer_id\<rparr>) d) (\<lambda>(d, n).
       bnd (require (n = 1) (Bail ''replication debt cannot begin supersession cleanup'')) (\<lambda>_. Ok d)))) d"

definition complete_replication_supersession :: "moment \<Rightarrow> string \<Rightarrow> string \<Rightarrow> string \<Rightarrow> db \<Rightarrow> db result" where
  "complete_replication_supersession t repo_key owner_id debt_id d =
     replication_transaction t repo_key owner_id debt_id
       (\<lambda>x. outcome_in [OutSupersededCleanupPending] x \<and> xd_superseded_by_id x \<noteq> None) (\<lambda>x. x\<lparr>xd_outcome := OutSuperseded\<rparr>)
       ''replication supersession cleanup authority changed'' d"

section \<open>Actions on git and the database\<close>

text \<open>The world of a reconciliation gives the clock (with
  a generated identifier), runs git commands (the standard output of a successful one), reads a ref
  (exit code, standard output and standard error), and verifies repositories on disk and at their providers.\<close>

record 'w git_world =
  gw_tick :: "'w \<Rightarrow> moment \<times> 'w"
  gw_git :: "git_args \<Rightarrow> 'w \<Rightarrow> string result \<times> 'w"
  gw_rev_parse :: "string \<Rightarrow> 'w \<Rightarrow> (nat option \<times> string \<times> string) result \<times> 'w"
  gw_verify_local :: "git_repository \<Rightarrow> 'w \<Rightarrow> unit result"
  gw_verify_remote :: "git_repository \<Rightarrow> 'w \<Rightarrow> unit result"
  gw_external :: "git_args \<Rightarrow> git_repository \<Rightarrow> bool \<Rightarrow> 'w \<Rightarrow> unit result"
  gw_registered :: "string \<Rightarrow> 'w \<Rightarrow> unit result"

definition act_clock :: "'w git_world \<Rightarrow> ('w, moment) act" where
  "act_clock ops s = (case gw_tick ops (fst s) of (t, w) \<Rightarrow> (Inr t, (w, snd s)))"

text \<open>A method of the queue: a transaction, then the debt is read again.\<close>

definition debt_method :: "'w git_world \<Rightarrow> string \<Rightarrow> (moment \<Rightarrow> db \<Rightarrow> db result) \<Rightarrow> ('w, replication_debt) act" where
  "debt_method ops debt_id f =
     act_bind (act_clock ops) (\<lambda>t.
     act_bind (act_commit (f t)) (\<lambda>_.
     act_read (replication_debt_row debt_id)))"

section \<open>Running git for a debt\<close>

definition external_transport :: "git_args \<Rightarrow> (string \<times> string) option result" where
  "external_transport args =
     (case dropWhile (\<lambda>a. a \<notin> {''clone'', ''fetch'', ''ls-remote'', ''push''}) args of
        [] \<Rightarrow> Ok None
      | command # rest \<Rightarrow>
          (case find (\<lambda>a. \<not> starts_with a ''-'') rest of
             None \<Rightarrow> Err (Bail ''external Git command has no explicit destination'')
           | Some transport \<Rightarrow> Ok (Some (command, transport))))"

definition is_external_operation :: "git_args \<Rightarrow> bool" where
  "is_external_operation args \<longleftrightarrow> (case external_transport args of Inr (Some _) \<Rightarrow> True | _ \<Rightarrow> False)"

definition ensure_repo_lease :: "'w git_world \<Rightarrow> string \<Rightarrow> string \<Rightarrow> ('w, moment) act" where
  "ensure_repo_lease ops repo_key owner_id =
     act_bind (act_clock ops) (\<lambda>t s.
       (case heartbeat_repo_lease (mo_now t) (mo_expires t) repo_key owner_id (snd s) of
          (d, owned) \<Rightarrow>
            (if owned then Ok t
             else Err (Bail (''repo queue '' @ repo_key @ '' lease is no longer owned by '' @ owner_id)), (fst s, d))))"

definition authorize_command :: "'w git_world \<Rightarrow> string \<Rightarrow> string \<Rightarrow> string \<Rightarrow> git_args \<Rightarrow> ('w, replication_debt) act" where
  "authorize_command ops repo_key owner_id debt_id args =
     act_bind (ensure_repo_lease ops repo_key owner_id) (\<lambda>t s.
       (authorize_replication_command (\<lambda>r. gw_verify_local ops r (fst s)) (mo_now t) repo_key debt_id owner_id args (snd s), s))"

text \<open>The repository of the policy with its registration, which the world checks on disk.\<close>

definition registered_policy :: "'w git_world \<Rightarrow> string \<Rightarrow> ('w, repository_policy) act" where
  "registered_policy ops repo_key =
     act_bind (act_check (gw_registered ops repo_key)) (\<lambda>_.
     act_read (\<lambda>d.
       bnd (fetch (\<lambda>g. rg_repo_key g = repo_key) (repositories d) (NoRow (''registered repository not found: '' @ repo_key))) (\<lambda>_.
       repo_policy repo_key d)))"

definition run_replication_git :: "'w git_world \<Rightarrow> string \<Rightarrow> string \<Rightarrow> string \<Rightarrow> git_args \<Rightarrow> ('w, string) act" where
  "run_replication_git ops repo_key owner_id debt_id args =
     act_bind (authorize_command ops repo_key owner_id debt_id args) (\<lambda>debt.
     act_bind (if xd_operation debt = PinSource then act_return (Ok ())
               else act_bind (registered_policy ops repo_key) (\<lambda>_.
                    act_bind (act_world (gw_rev_parse ops (preserved_ref debt_id))) (\<lambda>(code, out, err).
                    act_return (bnd (require (code = Some 0) (Bail (''git rev-parse failed: '' @ err))) (\<lambda>_.
                      require (trim out = xd_canonical_source_sha debt)
                        (Bail ''replication source pin differs from landed item authority'')))))) (\<lambda>_.
     act_bind (if \<not> is_external_operation args then act_return (Ok ())
               else act_bind (act_check (gw_external ops args (xd_replica debt) True)) (\<lambda>_.
                    act_bind (authorize_command ops repo_key owner_id debt_id args) (\<lambda>current.
                    act_bind (act_return (require (current = debt) (Bail ''replication debt changed during provider verification''))) (\<lambda>_.
                    act_check (gw_external ops args (xd_replica debt) False))))) (\<lambda>_.
     act_world (gw_git ops args))))"

section \<open>Reconciliation\<close>

text \<open>The \<open>Debug\<close> form of an optional text: a quoted text escapes quotes, backslashes and control characters.\<close>

definition hex_lower :: "nat \<Rightarrow> char" where
  "hex_lower n = (if n < 10 then char_of (48 + n) else char_of (87 + n))"

definition debug_char :: "char \<Rightarrow> string" where
  "debug_char c =
     (if c = CHR 0x00 then [CHR 0x5C, CHR ''0'']
      else if c = CHR 0x09 then [CHR 0x5C, CHR ''t'']
      else if c = CHR 0x0A then [CHR 0x5C, CHR ''n'']
      else if c = CHR 0x0D then [CHR 0x5C, CHR ''r'']
      else if c = CHR 0x22 \<or> c = CHR 0x5C then [CHR 0x5C, c]
      else if byte c < 16 then [CHR 0x5C, CHR ''u'', CHR 0x7B, hex_lower (byte c), CHR 0x7D]
      else if byte c < 32 \<or> byte c = 127
      then [CHR 0x5C, CHR ''u'', CHR 0x7B, hex_lower (byte c div 16), hex_lower (byte c mod 16), CHR 0x7D]
      else [c])"

definition debug_option :: "string option \<Rightarrow> string" where
  "debug_option v = (case v of None \<Rightarrow> ''None'' | Some s \<Rightarrow> ''Some('' @ CHR 0x22 # concat (map debug_char s) @ CHR 0x22 # '')'')"

text \<open>The pin of the source, while the debt needs it.\<close>

definition publish_replication_source_pin ::
    "'w git_world \<Rightarrow> (string \<Rightarrow> git_args \<Rightarrow> ('w, string) act) \<Rightarrow> string \<Rightarrow> string \<Rightarrow> git_object_format \<Rightarrow> replication_debt
     \<Rightarrow> ('w, replication_debt) act" where
  "publish_replication_source_pin ops run_git repo_key owner_id f debt =
     act_bind (act_try (run_git (xd_id debt) (verify_args debt))) (\<lambda>verified.
     if \<not> is_ok verified
     then debt_method ops (xd_id debt) (\<lambda>t. finish_replication_debt t repo_key owner_id (xd_id debt)
            (Some ''recorded canonical replication source object is unavailable''))
     else
       act_bind (act_try (run_git (xd_id debt) (pin_args debt (zero_oid f)))) (\<lambda>published.
       act_bind (if is_ok published then act_return (Ok [])
                 else run_git (xd_id debt) (pin_args debt (xd_canonical_source_sha debt))) (\<lambda>_.
       debt_method ops (xd_id debt) (\<lambda>t. complete_replication_source_pin t repo_key owner_id (xd_id debt)))))"

text \<open>The exit code of \<open>rev-parse --verify --quiet\<close> is 0 when the ref exists and 1 when it does not.  \<open>label\<close> is the
  message for any other result.\<close>

definition pin_present :: "string \<Rightarrow> string \<Rightarrow> replication_debt \<Rightarrow> nat option \<times> string \<times> string \<Rightarrow> bool result" where
  "pin_present lifecycle label debt = (\<lambda>(code, out, err).
     if code = Some 0
     then bnd (require (is_utf8 out) (Bail ''invalid utf-8 sequence'')) (\<lambda>_.
          bnd (require (trim out = xd_canonical_source_sha debt)
                 (Bail (''replication source pin drifted from canonical source authority during '' @ lifecycle @ '' cleanup''))) (\<lambda>_.
          Ok True))
     else if code = Some 1 then Ok False
     else Err (Bail (label @ '': '' @ trim err)))"

definition inspect_pin :: "'w git_world \<Rightarrow> string \<Rightarrow> string \<Rightarrow> replication_debt \<Rightarrow> ('w, bool) act" where
  "inspect_pin ops lifecycle label debt =
     act_bind (act_world (gw_rev_parse ops (preserved_ref (xd_id debt)))) (\<lambda>r. act_return (pin_present lifecycle label debt r))"

definition compare_and_delete_replication_source_pin ::
    "'w git_world \<Rightarrow> (string \<Rightarrow> git_args \<Rightarrow> ('w, string) act) \<Rightarrow> string \<Rightarrow> replication_debt \<Rightarrow> ('w, unit) act" where
  "compare_and_delete_replication_source_pin ops run_git lifecycle debt =
     act_bind (inspect_pin ops lifecycle (''cannot inspect '' @ lifecycle @ '' replication source pin'') debt) (\<lambda>present.
     act_bind (if \<not> present then act_return (Ok ())
               else act_bind (act_try (run_git (xd_id debt) (unpin_args debt))) (\<lambda>deletion.
                 case deletion of
                   Inr _ \<Rightarrow> act_return (Ok ())
                 | Inl e \<Rightarrow>
                     act_bind (inspect_pin ops lifecycle
                       (''cannot inspect replication source pin after failed '' @ lifecycle @ '' cleanup'') debt) (\<lambda>still.
                     act_return (if still then Err (Bail (''compare-and-delete '' @ lifecycle @ '' replication source pin: '' @ error_text e))
                                 else Ok ())))) (\<lambda>_.
     act_bind (inspect_pin ops lifecycle (''cannot verify '' @ lifecycle @ '' replication source pin cleanup'') debt) (\<lambda>remaining.
     act_return (require (\<not> remaining) (Bail (lifecycle @ '' replication source pin still exists after compare-and-delete''))))))"

definition complete_replication_source_cleanup ::
    "'w git_world \<Rightarrow> (string \<Rightarrow> git_args \<Rightarrow> ('w, string) act) \<Rightarrow> string \<Rightarrow> string \<Rightarrow> replication_debt \<Rightarrow> ('w, replication_debt) act" where
  "complete_replication_source_cleanup ops run_git repo_key owner_id debt =
     act_bind (compare_and_delete_replication_source_pin ops run_git ''applied'' debt) (\<lambda>_.
     debt_method ops (xd_id debt) (\<lambda>t. complete_replication_source_cleanup_tx t repo_key owner_id (xd_id debt)))"

definition complete_superseded_source_cleanup ::
    "'w git_world \<Rightarrow> (string \<Rightarrow> git_args \<Rightarrow> ('w, string) act) \<Rightarrow> string \<Rightarrow> string \<Rightarrow> replication_debt \<Rightarrow> ('w, replication_debt) act" where
  "complete_superseded_source_cleanup ops run_git repo_key owner_id debt =
     act_bind (act_return (require (xd_outcome debt = OutSupersededCleanupPending \<and> xd_superseded_by_id debt \<noteq> None)
       (Bail ''replication debt has no pending supersession cleanup authority''))) (\<lambda>_.
     act_bind (compare_and_delete_replication_source_pin ops run_git ''superseded'' debt) (\<lambda>_.
     debt_method ops (xd_id debt) (\<lambda>t. complete_replication_supersession t repo_key owner_id (xd_id debt))))"

definition in_flight :: "replication_debt \<Rightarrow> bool" where
  "in_flight debt \<longleftrightarrow> xd_outcome debt = OutApplying \<or> xd_outcome debt = OutUncertain"

text \<open>What the replica shows for the target: the object of the exact ref, or none.\<close>

definition observe_replica ::
    "(string \<Rightarrow> git_args \<Rightarrow> ('w, string) act) \<Rightarrow> replication_debt \<Rightarrow> ('w, string option) act" where
  "observe_replica run_git debt =
     act_bind (run_git (xd_id debt) (observe_args debt)) (\<lambda>out.
     act_return (parse_optional_remote_ref out (xd_target_ref debt) (object_format (xd_replica debt))))"

definition uncertain_or_failed :: "'w git_world \<Rightarrow> string \<Rightarrow> string \<Rightarrow> replication_debt \<Rightarrow> string \<Rightarrow> string \<Rightarrow> ('w, replication_debt) act" where
  "uncertain_or_failed ops repo_key owner_id debt uncertain failed =
     (if in_flight debt
      then debt_method ops (xd_id debt) (\<lambda>t. mark_replication_uncertain t repo_key owner_id (xd_id debt) uncertain)
      else debt_method ops (xd_id debt) (\<lambda>t. finish_replication_debt t repo_key owner_id (xd_id debt) (Some failed)))"

definition finish_applied ::
    "'w git_world \<Rightarrow> (string \<Rightarrow> git_args \<Rightarrow> ('w, string) act) \<Rightarrow> string \<Rightarrow> string \<Rightarrow> replication_debt \<Rightarrow> ('w, replication_debt) act" where
  "finish_applied ops run_git repo_key owner_id debt =
     act_bind (debt_method ops (xd_id debt) (\<lambda>t. finish_replication_debt t repo_key owner_id (xd_id debt) None)) (\<lambda>applied.
     complete_replication_source_cleanup ops run_git repo_key owner_id applied)"

text \<open>The destination that the push expects: the recorded one for a push in flight, the observed one for a new push.\<close>

definition expected_destination ::
    "'w git_world \<Rightarrow> string \<Rightarrow> string \<Rightarrow> replication_debt \<Rightarrow> string \<Rightarrow> ('w, replication_debt + string) act" where
  "expected_destination ops repo_key owner_id debt actual =
     (if in_flight debt
      then (case xd_expected_destination_sha debt of
              None \<Rightarrow> act_return (Err (Bail ''applying replication has no expected destination''))
            | Some expected \<Rightarrow>
                if actual \<noteq> expected
                then act_bind (debt_method ops (xd_id debt) (\<lambda>t. mark_replication_uncertain t repo_key owner_id (xd_id debt)
                       (''applying replica moved from '' @ expected @ '' to '' @ actual))) (\<lambda>x. act_return (Ok (Inl x)))
                else if xd_outcome debt = OutUncertain
                then act_bind (debt_method ops (xd_id debt) (\<lambda>t. resume_replication_application t repo_key owner_id (xd_id debt)))
                       (\<lambda>_. act_return (Ok (Inr expected)))
                else act_return (Ok (Inr expected)))
      else act_bind (debt_method ops (xd_id debt) (\<lambda>t. begin_replication_application t repo_key owner_id (xd_id debt) actual))
             (\<lambda>_. act_return (Ok (Inr actual))))"

text \<open>The push and what the replica shows after it.\<close>

definition settle_push ::
    "'w git_world \<Rightarrow> (string \<Rightarrow> git_args \<Rightarrow> ('w, string) act) \<Rightarrow> string \<Rightarrow> string \<Rightarrow> replication_debt \<Rightarrow> string \<Rightarrow> string option
     \<Rightarrow> string option result \<Rightarrow> ('w, replication_debt) act" where
  "settle_push ops run_git repo_key owner_id debt expected push_failure verification =
     (let uncertain = (\<lambda>message. debt_method ops (xd_id debt) (\<lambda>t. mark_replication_uncertain t repo_key owner_id (xd_id debt) message))
      in (case verification of
            Inr actual \<Rightarrow>
              if actual = Some (xd_canonical_source_sha debt) then finish_applied ops run_git repo_key owner_id debt
              else if actual = Some expected \<and> push_failure \<noteq> None
              then debt_method ops (xd_id debt) (\<lambda>t. finish_replication_debt t repo_key owner_id (xd_id debt) push_failure)
              else uncertain (''exact replica result is uncertain after '' @ debug_option push_failure @ ''; observed ''
                     @ debug_option actual)
          | Inl e \<Rightarrow> uncertain (''cannot verify replica after '' @ debug_option push_failure @ '': '' @ error_text e)))"

definition push_and_verify ::
    "'w git_world \<Rightarrow> (string \<Rightarrow> git_args \<Rightarrow> ('w, string) act) \<Rightarrow> string \<Rightarrow> string \<Rightarrow> replication_debt \<Rightarrow> string \<Rightarrow> ('w, replication_debt) act" where
  "push_and_verify ops run_git repo_key owner_id debt expected =
     act_bind (act_try (run_git (xd_id debt) (push_args debt expected))) (\<lambda>pushed.
     act_bind (act_try (observe_replica run_git debt)) (\<lambda>verification.
     settle_push ops run_git repo_key owner_id debt expected
       (case pushed of Inl e \<Rightarrow> Some (error_text e) | Inr _ \<Rightarrow> None) verification))"

text \<open>What follows the first observation of the replica.\<close>

definition settle_observation ::
    "'w git_world \<Rightarrow> (string \<Rightarrow> git_args \<Rightarrow> ('w, string) act) \<Rightarrow> string \<Rightarrow> string \<Rightarrow> replication_debt \<Rightarrow> string option result
     \<Rightarrow> ('w, replication_debt) act" where
  "settle_observation ops run_git repo_key owner_id debt observation =
     (case observation of
        Inl e \<Rightarrow> uncertain_or_failed ops repo_key owner_id debt (''cannot observe applying replica target: '' @ error_text e)
                  (''cannot observe replica target: '' @ error_text e)
      | Inr observed \<Rightarrow>
          (let actual = (case observed of Some a \<Rightarrow> a | None \<Rightarrow> zero_oid (object_format (xd_replica debt)))
           in if actual = xd_canonical_source_sha debt then finish_applied ops run_git repo_key owner_id debt
              else act_bind (expected_destination ops repo_key owner_id debt actual) (\<lambda>r.
                case r of
                  Inl x \<Rightarrow> act_return (Ok x)
                | Inr expected \<Rightarrow> push_and_verify ops run_git repo_key owner_id debt expected)))"

text \<open>From a pinned source to the replica: only the oldest unfinished debt of a target goes on.\<close>

definition advance_oldest ::
    "'w git_world \<Rightarrow> (string \<Rightarrow> git_args \<Rightarrow> ('w, string) act) \<Rightarrow> string \<Rightarrow> string \<Rightarrow> git_repository \<Rightarrow> replication_debt
     \<Rightarrow> ('w, replication_debt) act" where
  "advance_oldest ops run_git repo_key owner_id canonical debt =
     act_bind (act_try (act_check (gw_verify_local ops (xd_replica debt)))) (\<lambda>local.
     case local of
       Inl e \<Rightarrow> uncertain_or_failed ops repo_key owner_id debt (''cannot verify applying replica identity: '' @ error_text e)
                 (''cannot verify replica identity: '' @ error_text e)
     | Inr _ \<Rightarrow>
         act_bind (act_check (gw_verify_remote ops canonical)) (\<lambda>_.
         act_bind (act_try (observe_replica run_git debt)) (\<lambda>observation.
         settle_observation ops run_git repo_key owner_id debt observation)))"

definition advance_replica ::
    "'w git_world \<Rightarrow> (string \<Rightarrow> git_args \<Rightarrow> ('w, string) act) \<Rightarrow> string \<Rightarrow> string \<Rightarrow> git_repository \<Rightarrow> replication_debt
     \<Rightarrow> ('w, replication_debt) act" where
  "advance_replica ops run_git repo_key owner_id canonical debt =
     act_bind (act_read (\<lambda>d. Ok (older_unfinished_replication debt d))) (\<lambda>earlier.
     case earlier of
       Some x \<Rightarrow> act_return (Err (Bail (''replication debt '' @ xd_id debt @ '' is blocked by older debt '' @ xd_id x
                   @ '' for the same target'')))
     | None \<Rightarrow> advance_oldest ops run_git repo_key owner_id canonical debt)"

text \<open>An unfinished debt of a registered repository: supersession, the pin, the cleanup of an applied debt, or the replica.\<close>

definition reconcile_unfinished ::
    "'w git_world \<Rightarrow> (string \<Rightarrow> git_args \<Rightarrow> ('w, string) act) \<Rightarrow> string \<Rightarrow> string \<Rightarrow> git_repository \<Rightarrow> replication_debt
     \<Rightarrow> ('w, replication_debt) act" where
  "reconcile_unfinished ops run_git repo_key owner_id canonical debt =
     (if xd_outcome debt = OutSupersededCleanupPending
      then complete_superseded_source_cleanup ops run_git repo_key owner_id debt
      else
        act_bind (act_read (\<lambda>d. Ok (newer_completed_replication debt d))) (\<lambda>newer.
        case newer of
          Some n \<Rightarrow>
            act_bind (debt_method ops (xd_id debt) (\<lambda>t. begin_replication_supersession t repo_key owner_id (xd_id debt) (xd_id n))) (\<lambda>x.
            complete_superseded_source_cleanup ops run_git repo_key owner_id x)
        | None \<Rightarrow>
            act_bind (if xd_operation debt = PinSource
                      then publish_replication_source_pin ops run_git repo_key owner_id (object_format canonical) debt
                      else act_return (Ok debt)) (\<lambda>debt.
            if xd_outcome debt = OutApplied then complete_replication_source_cleanup ops run_git repo_key owner_id debt
            else advance_replica ops run_git repo_key owner_id canonical debt)))"

definition reconcile_replication_debt ::
    "'w git_world \<Rightarrow> (string \<Rightarrow> git_args \<Rightarrow> ('w, string) act) \<Rightarrow> string \<Rightarrow> string \<Rightarrow> bool \<Rightarrow> ('w, replication_debt) act" where
  "reconcile_replication_debt ops run_git owner_id debt_id allow_failed =
     act_bind (act_read (replication_debt_row debt_id)) (\<lambda>debt.
     if finished debt \<or> (xd_outcome debt = OutFailed \<and> \<not> allow_failed) then act_return (Ok debt)
     else
       act_bind (registered_policy ops (xd_repo_key debt)) (\<lambda>policy.
       reconcile_unfinished ops run_git (xd_repo_key debt) owner_id (po_canonical_repository policy) debt))"

text \<open>One pass over the debts of a repository: the first unfinished debt of every target.\<close>

fun first_of_targets :: "(physical_repository_identity \<times> string) list \<Rightarrow> replication_debt list \<Rightarrow> replication_debt list" where
  "first_of_targets seen [] = []"
| "first_of_targets seen (x # xs) =
     (let target = (xd_destination_key x, xd_target_ref x)
      in if finished x \<or> target \<in> set seen then first_of_targets seen xs
         else x # first_of_targets (target # seen) xs)"

fun act_each :: "('a \<Rightarrow> ('w, 'b) act) \<Rightarrow> 'a list \<Rightarrow> ('w, unit) act" where
  "act_each f [] = act_return (Ok ())"
| "act_each f (x # xs) = act_bind (f x) (\<lambda>_. act_each f xs)"

text \<open>\<open>key_text\<close> is the JSON text of a destination, by which SQLite sorts.\<close>

definition repository_debts :: "(physical_repository_identity \<Rightarrow> string) \<Rightarrow> string \<Rightarrow> db \<Rightarrow> replication_debt list" where
  "repository_debts key_text repo_key d =
     sort_key (\<lambda>x. (key_text (xd_destination_key x), xd_target_ref x, xd_sequence x))
       (filter (\<lambda>x. xd_repo_key x = repo_key) (replication_debts d))"

definition reconcile_pending_replication ::
    "'w git_world \<Rightarrow> (physical_repository_identity \<Rightarrow> string) \<Rightarrow> string \<Rightarrow> string \<Rightarrow> ('w, unit) act" where
  "reconcile_pending_replication ops key_text repo_key owner_id =
     act_bind (act_read (\<lambda>d. Ok (repository_debts key_text repo_key d))) (\<lambda>debts.
     act_each (\<lambda>debt. reconcile_replication_debt ops (run_replication_git ops repo_key owner_id) owner_id (xd_id debt) True)
       (first_of_targets [] debts))"

text \<open>After a landing: the sources of the new debts are pinned, then the pending debts are reconciled.\<close>

definition replicate_canonical_landing ::
    "'w git_world \<Rightarrow> (physical_repository_identity \<Rightarrow> string) \<Rightarrow> string \<Rightarrow> string \<Rightarrow> queue_item \<Rightarrow> string \<Rightarrow> ('w, unit) act" where
  "replicate_canonical_landing ops key_text repo_key owner_id item landed_sha =
     act_bind (act_read (\<lambda>d. Ok (filter (\<lambda>x. xd_item_id x = qi_id item) (repository_debts key_text (qi_repo_key item) d)))) (\<lambda>debts.
     act_bind (act_each (\<lambda>debt.
         act_bind (act_return (require (xd_canonical_source_sha debt = landed_sha)
           (Bail ''replication debt differs from exact canonical landing''))) (\<lambda>_.
         if xd_operation debt = PinSource
         then act_bind (registered_policy ops (qi_repo_key item)) (\<lambda>policy.
              act_bind (publish_replication_source_pin ops (run_replication_git ops repo_key owner_id) (qi_repo_key item) owner_id
                (object_format (po_canonical_repository policy)) debt) (\<lambda>_. act_return (Ok ())))
         else act_return (Ok ()))) debts) (\<lambda>_.
     reconcile_pending_replication ops key_text repo_key owner_id))"

end
