(* ===== verification/Replication_Runs.thy ===== *)
theory Replication_Runs
  imports Queue_Replication
begin

text \<open>
  What reconciliation does to the debts.  \<open>debt_move\<close> is the machine of one debt; \<open>debt_step\<close> is a committed
  transaction that moves one debt.  Every action of \<open>composition.rs\<close> on a debt is a sequence of such
  steps, which gives the order of the debts of a target, the finality of finished debts and the
  evidence that an applied debt has.
\<close>

section \<open>The machine of one debt\<close>

definition ident :: "replication_debt \<Rightarrow> replication_debt" where
  "ident x = x\<lparr>xd_expected_destination_sha := None, xd_operation := PinSource, xd_outcome := OutPinning,
     xd_application_id := None, xd_failure := None, xd_superseded_by_id := None\<rparr>"

definition older_finished :: "db \<Rightarrow> replication_debt \<Rightarrow> bool" where
  "older_finished d x \<longleftrightarrow>
     (\<forall>y \<in> set (replication_debts d). same_target y x \<and> xd_sequence y < xd_sequence x \<longrightarrow> finished y)"

text \<open>\<open>seen\<close>: some observation of the replica can show the source of the debt.\<close>

inductive debt_move :: "(replication_debt \<Rightarrow> bool) \<Rightarrow> db \<Rightarrow> replication_debt \<Rightarrow> replication_debt \<Rightarrow> bool"
  for seen d where
  pinned: "xd_operation x = PinSource \<Longrightarrow> outcome_in [OutPinning, OutFailed] x \<Longrightarrow>
     debt_move seen d x (x\<lparr>xd_operation := ResolveDestination, xd_outcome := OutPending, xd_failure := None\<rparr>)"
| began: "outcome_in [OutPending, OutFailed] x \<Longrightarrow> older_finished d x \<Longrightarrow>
     debt_move seen d x (x\<lparr>xd_expected_destination_sha := Some expected, xd_operation := AdvanceExactTarget,
       xd_outcome := OutApplying, xd_application_id := Some u, xd_failure := None\<rparr>)"
| resumed: "outcome_in [OutUncertain] x \<Longrightarrow> xd_expected_destination_sha x \<noteq> None \<Longrightarrow>
     debt_move seen d x (x\<lparr>xd_outcome := OutApplying, xd_failure := None\<rparr>)"
| uncertain: "in_flight x \<Longrightarrow> debt_move seen d x (x\<lparr>xd_outcome := OutUncertain, xd_failure := Some m\<rparr>)"
| failed: "outcome_in [OutPinning, OutPending, OutApplying, OutUncertain, OutFailed] x \<Longrightarrow>
     debt_move seen d x (x\<lparr>xd_outcome := OutFailed, xd_application_id := None, xd_failure := Some m\<rparr>)"
| applied: "outcome_in [OutPinning, OutPending, OutApplying, OutUncertain, OutFailed] x \<Longrightarrow> older_finished d x \<Longrightarrow> seen (ident x) \<Longrightarrow>
     debt_move seen d x (x\<lparr>xd_outcome := OutApplied, xd_application_id := None, xd_failure := None\<rparr>)"
| cleaned: "outcome_in [OutApplied] x \<Longrightarrow> debt_move seen d x (x\<lparr>xd_outcome := OutSucceeded\<rparr>)"
| superseding: "\<not> finished x \<Longrightarrow> xd_outcome x \<noteq> OutSupersededCleanupPending \<Longrightarrow>
     y \<in> set (replication_debts d) \<Longrightarrow> same_target y x \<Longrightarrow> xd_sequence x < xd_sequence y \<Longrightarrow> finished y \<Longrightarrow>
     debt_move seen d x (x\<lparr>xd_outcome := OutSupersededCleanupPending, xd_application_id := None, xd_failure := None,
       xd_superseded_by_id := Some (xd_id y)\<rparr>)"
| superseded: "outcome_in [OutSupersededCleanupPending] x \<Longrightarrow> debt_move seen d x (x\<lparr>xd_outcome := OutSuperseded\<rparr>)"

definition debt_step :: "(replication_debt \<Rightarrow> bool) \<Rightarrow> string \<Rightarrow> db \<Rightarrow> db \<Rightarrow> bool" where
  "debt_step seen i d d' \<longleftrightarrow>
     replication_debts d' = replication_debts d
     \<or> (\<exists>x x'. x \<in> set (replication_debts d) \<and> xd_id x = i \<and> debt_move seen d x x' \<and> replication_check x'
          \<and> replication_debts d' = modify (\<lambda>y. xd_id y = i) (\<lambda>_. x') (replication_debts d))"

lemma debt_move_ident: "debt_move seen d x x' \<Longrightarrow> ident x' = ident x"
  by (erule debt_move.cases) (simp_all add: ident_def)

lemma ident_fields:
  assumes "ident x = ident y"
  shows "xd_id x = xd_id y" "xd_item_id x = xd_item_id y" "xd_repo_key x = xd_repo_key y"
    "xd_canonical_source_sha x = xd_canonical_source_sha y" "xd_destination_key x = xd_destination_key y"
    "xd_target_ref x = xd_target_ref y" "xd_sequence x = xd_sequence y" "xd_replica x = xd_replica y"
  using assms by (cases x; cases y; simp add: ident_def)+

lemma debt_move_unfinished: "debt_move seen d x x' \<Longrightarrow> \<not> finished x"
  by (erule debt_move.cases) (auto simp: finished_def outcome_in_def in_flight_def)

section \<open>Transactions are steps\<close>

lemma update_replication_step:
  assumes u: "update_replication (\<lambda>x. xd_id x = i \<and> xd_repo_key x = k \<and> p x) f d = Inr (d', n)" "n = 1"
    and dist: "distinct (map xd_id (replication_debts d))"
    and move: "\<And>x. x \<in> set (replication_debts d) \<Longrightarrow> xd_id x = i \<Longrightarrow> p x \<Longrightarrow> debt_move seen d x (f x)"
  shows "debt_step seen i d d'"
proof -
  let ?p = "\<lambda>x. xd_id x = i \<and> xd_repo_key x = k \<and> p x"
  from u have d': "d' = d\<lparr>replication_debts := modify ?p f (replication_debts d)\<rparr>" "changed ?p (replication_debts d) = 1"
    and check: "\<forall>x \<in> set (replication_debts d). ?p x \<longrightarrow> replication_check (f x)"
    by (auto simp: update_replication_def list_ex_iff split: if_splits)
  from changed_one_ex [OF d'(2)] obtain x where x: "x \<in> set (replication_debts d)" "?p x" by blast
  have "modify ?p f (replication_debts d) = modify (\<lambda>y. xd_id y = i) (\<lambda>_. f x) (replication_debts d)"
  proof -
    have "y = x" if "y \<in> set (replication_debts d)" "xd_id y = i" for y
      using that x dist by (auto simp: distinct_map inj_on_def)
    with x(2) show ?thesis unfolding modify_def by (intro map_cong) auto
  qed
  with x check move [of x] d' show ?thesis unfolding debt_step_def by auto
qed

lemma composition_transaction_debts:
  assumes "composition_transaction now expires k w f d = Inr d'"
  obtains d1 where "f d1 = Inr d'" "replication_debts d1 = replication_debts d"
  using assms lease.transaction_body unfolding composition_transaction_def by fastforce

lemma debt_move_cong: "replication_debts d = replication_debts d1 \<Longrightarrow> debt_move seen d x x' = debt_move seen d1 x x'"
  by (simp add: debt_move.simps older_finished_def)

lemma debt_step_cong: "replication_debts d = replication_debts d1 \<Longrightarrow> debt_step seen i d d' = debt_step seen i d1 d'"
  by (simp add: debt_step_def debt_move_cong [of d d1])

lemma replication_transaction_step:
  assumes "replication_transaction t k w i p f lost d = Inr d'" "distinct (map xd_id (replication_debts d))"
    and move: "\<And>x. x \<in> set (replication_debts d) \<Longrightarrow> xd_id x = i \<Longrightarrow> p x \<Longrightarrow> debt_move seen d x (f x)"
  shows "debt_step seen i d d'"
proof -
  from assms(1) obtain d1 n where u: "update_replication (\<lambda>x. xd_id x = i \<and> xd_repo_key x = k \<and> p x) f d1 = Inr (d', n)" "n = 1"
    and d1: "replication_debts d1 = replication_debts d"
    unfolding replication_transaction_def by (elim composition_transaction_debts) (auto simp: result_simps)
  have "debt_step seen i d1 d'"
    by (rule update_replication_step [OF u]) (use assms(2) move in \<open>simp_all add: d1 debt_move_cong [OF d1]\<close>)
  then show ?thesis by (simp add: debt_step_cong [OF d1])
qed

lemmas move_defs = outcome_in_def in_flight_def finished_def

lemma finish_failed_step:
  assumes "finish_replication_debt t k w i (Some m) d = Inr d'" "distinct (map xd_id (replication_debts d))"
  shows "debt_step seen i d d'"
proof (cases "trim m = []")
  case True
  with assms(1) show ?thesis
    by (simp add: finish_replication_debt_def Let_def) (auto elim!: composition_transaction_debts simp: result_simps)
next
  case False
  with assms(1) have "replication_transaction t k w i (outcome_in [OutPinning, OutPending, OutApplying, OutUncertain, OutFailed])
      (\<lambda>x. x\<lparr>xd_outcome := OutFailed, xd_application_id := None, xd_failure := Some m\<rparr>)
      ''replication debt authority changed'' d = Inr d'"
    by (simp add: finish_replication_debt_def Let_def)
  then show ?thesis by (rule replication_transaction_step) (auto intro: assms(2) debt_move.failed)
qed

lemma finish_applied_step:
  assumes "finish_replication_debt t k w i None d = Inr d'" "distinct (map xd_id (replication_debts d))"
    and "\<And>x. x \<in> set (replication_debts d) \<Longrightarrow> xd_id x = i \<Longrightarrow> older_finished d x \<and> seen (ident x)"
  shows "debt_step seen i d d'"
  using assms unfolding finish_replication_debt_def Let_def option.case
  by (elim replication_transaction_step) (auto intro: debt_move.applied)

lemma complete_pin_step:
  assumes "complete_replication_source_pin t k w i d = Inr d'" "distinct (map xd_id (replication_debts d))"
  shows "debt_step seen i d d'"
  using assms unfolding complete_replication_source_pin_def
  by (elim replication_transaction_step) (auto intro: debt_move.pinned)

lemma complete_cleanup_step:
  assumes "complete_replication_source_cleanup_tx t k w i d = Inr d'" "distinct (map xd_id (replication_debts d))"
  shows "debt_step seen i d d'"
  using assms unfolding complete_replication_source_cleanup_tx_def
  by (elim replication_transaction_step) (auto intro: debt_move.cleaned)

lemma resume_step:
  assumes "resume_replication_application t k w i d = Inr d'" "distinct (map xd_id (replication_debts d))"
  shows "debt_step seen i d d'"
  using assms unfolding resume_replication_application_def
  by (elim replication_transaction_step) (auto intro: debt_move.resumed)

lemma mark_uncertain_step:
  assumes "mark_replication_uncertain t k w i m d = Inr d'" "distinct (map xd_id (replication_debts d))"
  shows "debt_step seen i d d'"
  using assms unfolding mark_replication_uncertain_def
  by (auto split: if_splits elim!: replication_transaction_step intro!: debt_move.uncertain simp: move_defs)

lemma complete_supersession_step:
  assumes "complete_replication_supersession t k w i d = Inr d'" "distinct (map xd_id (replication_debts d))"
  shows "debt_step seen i d d'"
  using assms unfolding complete_replication_supersession_def
  by (elim replication_transaction_step) (auto intro: debt_move.superseded)

lemma begin_application_step:
  assumes "begin_replication_application t k w i e d = Inr d'" "distinct (map xd_id (replication_debts d))"
    and "\<And>x. x \<in> set (replication_debts d) \<Longrightarrow> xd_id x = i \<Longrightarrow> older_finished d x"
  shows "debt_step seen i d d'"
proof -
  from assms(1) obtain d1 n where u: "update_replication (\<lambda>x. xd_id x = i \<and> xd_repo_key x = k \<and> outcome_in [OutPending, OutFailed] x)
      (\<lambda>x. x\<lparr>xd_expected_destination_sha := Some e, xd_operation := AdvanceExactTarget, xd_outcome := OutApplying,
             xd_application_id := Some (mo_uuid t), xd_failure := None\<rparr>) d1 = Inr (d', n)" "n = 1"
    and d1: "replication_debts d1 = replication_debts d"
    unfolding begin_replication_application_def by (elim composition_transaction_debts) (auto simp: result_simps)
  have "debt_step seen i d1 d'"
    by (rule update_replication_step [OF u]) (use assms(2,3) in \<open>auto simp: d1 debt_move_cong [OF d1] intro: debt_move.began\<close>)
  then show ?thesis by (simp add: debt_step_cong [OF d1])
qed

lemma begin_supersession_step:
  assumes "begin_replication_supersession t k w i newer d = Inr d'" "distinct (map xd_id (replication_debts d))"
  shows "debt_step seen i d d'"
proof -
  let ?p = "\<lambda>x. \<not> outcome_in [OutSucceeded, OutSuperseded, OutSupersededCleanupPending] x
    \<and> list_ex (\<lambda>y. xd_id y = newer \<and> same_target y x \<and> xd_sequence y > xd_sequence x \<and> finished y) (replication_debts d)"
  let ?f = "\<lambda>x. x\<lparr>xd_outcome := OutSupersededCleanupPending, xd_application_id := None, xd_failure := None,
                     xd_superseded_by_id := Some newer\<rparr>"
  from assms(1) obtain d1 n where u: "update_replication (\<lambda>x. xd_id x = i \<and> xd_repo_key x = k \<and> ?p x) ?f d1 = Inr (d', n)" "n = 1"
    and d1: "replication_debts d1 = replication_debts d"
    unfolding begin_replication_supersession_def by (elim composition_transaction_debts) (auto simp: result_simps)
  have "debt_move seen d x (?f x)" if "?p x" for x
    using that by (auto simp: list_ex_iff move_defs intro: debt_move.superseding)
  then have "debt_step seen i d1 d'"
    by (intro update_replication_step [OF u]) (use assms(2) in \<open>simp_all add: d1 debt_move_cong [OF d1]\<close>)
  then show ?thesis by (simp add: debt_step_cong [OF d1])
qed

section \<open>Sequences of steps\<close>

abbreviation debt_steps :: "(replication_debt \<Rightarrow> bool) \<Rightarrow> string \<Rightarrow> db \<Rightarrow> db \<Rightarrow> bool" where
  "debt_steps seen i \<equiv> (debt_step seen i)\<^sup>*\<^sup>*"

lemma debt_step_same: "replication_debts d' = replication_debts d \<Longrightarrow> debt_step seen i d d'"
  by (simp add: debt_step_def)

lemma debt_step_rows:
  assumes "debt_step seen i d d'" "distinct (map xd_id (replication_debts d))"
  shows "distinct (map xd_id (replication_debts d'))"
    and "y' \<in> set (replication_debts d') \<Longrightarrow> \<exists>y \<in> set (replication_debts d). ident y' = ident y \<and>
      (y' = y \<or> xd_id y = i \<and> debt_move seen d y y' \<and> replication_check y')"
    and "y \<in> set (replication_debts d) \<Longrightarrow> \<exists>y' \<in> set (replication_debts d'). ident y' = ident y \<and>
      (y' = y \<or> xd_id y = i \<and> debt_move seen d y y' \<and> replication_check y')"
proof -
  consider (same) "replication_debts d' = replication_debts d"
    | (move) x x' where "x \<in> set (replication_debts d)" "xd_id x = i" "debt_move seen d x x'" "replication_check x'"
        "replication_debts d' = modify (\<lambda>y. xd_id y = i) (\<lambda>_. x') (replication_debts d)"
    using assms(1) unfolding debt_step_def by blast
  then have "distinct (map xd_id (replication_debts d'))
    \<and> (y' \<in> set (replication_debts d') \<longrightarrow> (\<exists>y \<in> set (replication_debts d). ident y' = ident y \<and>
         (y' = y \<or> xd_id y = i \<and> debt_move seen d y y' \<and> replication_check y')))
    \<and> (y \<in> set (replication_debts d) \<longrightarrow> (\<exists>y' \<in> set (replication_debts d'). ident y' = ident y \<and>
         (y' = y \<or> xd_id y = i \<and> debt_move seen d y y' \<and> replication_check y')))"
  proof cases
    case same
    with assms(2) show ?thesis by auto
  next
    case move
    have id: "xd_id x' = i" using debt_move_ident [OF move(3)] move(2) ident_fields(1) by metis
    have one: "y = x" if "y \<in> set (replication_debts d)" "xd_id y = i" for y
      using that move(1,2) assms(2) by (auto simp: distinct_map inj_on_def)
    have "map xd_id (replication_debts d') = map xd_id (replication_debts d)"
      unfolding move(5) by (rule map_key_modify) (simp add: id)
    then have dist: "distinct (map xd_id (replication_debts d'))" using assms(2) by simp
    have rows: "set (replication_debts d') = (\<lambda>y. if xd_id y = i then x' else y) ` set (replication_debts d)"
      unfolding move(5) by (simp add: set_modify)
    have "ident (if xd_id y = i then x' else y) = ident y \<and> ((if xd_id y = i then x' else y) = y
        \<or> xd_id y = i \<and> debt_move seen d y (if xd_id y = i then x' else y) \<and> replication_check (if xd_id y = i then x' else y))"
      if "y \<in> set (replication_debts d)" for y
      using one [OF that] move debt_move_ident [OF move(3)] by (cases "xd_id y = i") auto
    then show ?thesis using dist unfolding rows by blast
  qed
  then show "distinct (map xd_id (replication_debts d'))"
    and "y' \<in> set (replication_debts d') \<Longrightarrow> \<exists>y \<in> set (replication_debts d). ident y' = ident y \<and>
      (y' = y \<or> xd_id y = i \<and> debt_move seen d y y' \<and> replication_check y')"
    and "y \<in> set (replication_debts d) \<Longrightarrow> \<exists>y' \<in> set (replication_debts d'). ident y' = ident y \<and>
      (y' = y \<or> xd_id y = i \<and> debt_move seen d y y' \<and> replication_check y')"
    by blast+
qed

text \<open>What an action on one debt assumes: the debts have unique identifiers and the debt is one of them; and, once the
  older debts were checked, that they are finished.  Steps of the debt keep both.\<close>

definition has_debt :: "replication_debt \<Rightarrow> db \<Rightarrow> bool" where
  "has_debt x d \<longleftrightarrow> distinct (map xd_id (replication_debts d)) \<and> (\<exists>y \<in> set (replication_debts d). ident y = ident x)"

definition oldest_debt :: "replication_debt \<Rightarrow> db \<Rightarrow> bool" where
  "oldest_debt x d \<longleftrightarrow> has_debt x d \<and> older_finished d x"

definition stable :: "(replication_debt \<Rightarrow> bool) \<Rightarrow> string \<Rightarrow> (db \<Rightarrow> bool) \<Rightarrow> bool" where
  "stable seen i P \<longleftrightarrow> (\<forall>d d'. P d \<longrightarrow> debt_step seen i d d' \<longrightarrow> P d')"

lemma stable_has_debt: "stable seen i (has_debt x)"
  unfolding stable_def has_debt_def
proof (intro allI impI conjI)
  fix d d' assume p: "distinct (map xd_id (replication_debts d)) \<and> (\<exists>y \<in> set (replication_debts d). ident y = ident x)"
    and st: "debt_step seen i d d'"
  then show "distinct (map xd_id (replication_debts d'))" using debt_step_rows(1) by blast
  from p obtain y where "y \<in> set (replication_debts d)" "ident y = ident x" by blast
  with debt_step_rows(3) [OF st, of y] p show "\<exists>y \<in> set (replication_debts d'). ident y = ident x" by auto
qed

lemma stable_oldest_debt: "stable seen (xd_id x) (oldest_debt x)"
  unfolding stable_def oldest_debt_def
proof (intro allI impI conjI)
  fix d d' assume p: "has_debt x d \<and> older_finished d x" and st: "debt_step seen (xd_id x) d d'"
  show "has_debt x d'" using stable_has_debt p st unfolding stable_def by blast
  have dist: "distinct (map xd_id (replication_debts d))" using p by (simp add: has_debt_def)
  show "older_finished d' x"
    unfolding older_finished_def
  proof (intro ballI impI)
    fix y' assume y': "y' \<in> set (replication_debts d')" "same_target y' x \<and> xd_sequence y' < xd_sequence x"
    from debt_step_rows(2) [OF st dist y'(1)] obtain y where y: "y \<in> set (replication_debts d)" "ident y' = ident y"
      "y' = y \<or> xd_id y = xd_id x" by blast
    from p obtain z where z: "z \<in> set (replication_debts d)" "ident z = ident x" by (auto simp: has_debt_def)
    have "xd_id y \<noteq> xd_id x"
    proof
      assume "xd_id y = xd_id x"
      then have "y = z" using y(1) z ident_fields(1) [OF z(2)] dist by (auto simp: distinct_map inj_on_def)
      then show False using y'(2) ident_fields(7) [OF y(2)] ident_fields(7) [OF z(2)] by simp
    qed
    with y(3) have "y' = y" by simp
    with p y y'(2) show "finished y'" by (auto simp: older_finished_def)
  qed
qed

lemma same_row:
  assumes "has_debt x d" "y \<in> set (replication_debts d)" "xd_id y = xd_id x"
  shows "ident y = ident x"
proof -
  from assms(1) obtain z where "z \<in> set (replication_debts d)" "ident z = ident x" by (auto simp: has_debt_def)
  with assms show ?thesis using ident_fields(1) [of z x] by (auto simp: has_debt_def distinct_map inj_on_def)
qed

lemma older_finished_ident: "ident x = ident y \<Longrightarrow> older_finished d x = older_finished d y"
  using ident_fields [of x y] by (simp add: older_finished_def same_target_def)

section \<open>Actions\<close>

text \<open>The action \<open>m\<close> starts in \<open>P\<close>, takes steps of the debt \<open>i\<close> only, and its result satisfies \<open>Q\<close>.\<close>

definition acts :: "(replication_debt \<Rightarrow> bool) \<Rightarrow> string \<Rightarrow> (db \<Rightarrow> bool) \<Rightarrow> ('w, 'a) act \<Rightarrow> ('a \<Rightarrow> bool) \<Rightarrow> bool" where
  "acts seen i P m Q \<longleftrightarrow> (\<forall>s r s'. P (snd s) \<longrightarrow> m s = (r, s') \<longrightarrow>
     debt_steps seen i (snd s) (snd s') \<and> (\<forall>x. r = Inr x \<longrightarrow> Q x))"

lemma stable_steps: "stable seen i P \<Longrightarrow> debt_steps seen i d d' \<Longrightarrow> P d \<Longrightarrow> P d'"
  by (rotate_tac 1, induction rule: rtranclp_induct) (auto simp: stable_def)

lemma actsD:
  assumes "acts seen i P m Q" "P (snd s)" "m s = (r, s')"
  shows "debt_steps seen i (snd s) (snd s')" and "r = Inr x \<Longrightarrow> Q x"
  using assms unfolding acts_def by blast+

lemma acts_bind:
  assumes "stable seen i P" "acts seen i P m Q" "\<And>x. Q x \<Longrightarrow> acts seen i P (f x) R"
  shows "acts seen i P (act_bind m f) R"
  unfolding acts_def
proof (intro allI impI)
  fix s r s' assume p: "P (snd s)" and run: "act_bind m f s = (r, s')"
  obtain r1 s1 where m: "m s = (r1, s1)" by (cases "m s")
  note st = actsD [OF assms(2) p m]
  show "debt_steps seen i (snd s) (snd s') \<and> (\<forall>x. r = Inr x \<longrightarrow> R x)"
  proof (cases r1)
    case (Inl e)
    with run m st show ?thesis by (auto simp: act_bind_def)
  next
    case (Inr x)
    with run m have "f x s1 = (r, s')" by (simp add: act_bind_def)
    moreover have "P (snd s1)" by (rule stable_steps [OF assms(1) st(1) p])
    ultimately show ?thesis
      using actsD [OF assms(3) [OF st(2) [OF Inr]], of s1 r s'] rtranclp_trans [OF st(1)] by blast
  qed
qed

lemma acts_read:
  assumes "\<And>x. acts seen i (\<lambda>d. P d \<and> g d = Inr x) (f x) R"
  shows "acts seen i P (act_bind (act_read g) f) R"
  unfolding acts_def
proof (intro allI impI)
  fix s r s' assume p: "P (snd s)" and run: "act_bind (act_read g) f s = (r, s')"
  show "debt_steps seen i (snd s) (snd s') \<and> (\<forall>x. r = Inr x \<longrightarrow> R x)"
  proof (cases "g (snd s)")
    case (Inl e)
    with run show ?thesis by (auto simp: act_bind_def act_read_def)
  next
    case (Inr x)
    with run have "f x s = (r, s')" by (simp add: act_bind_def act_read_def)
    with p Inr actsD [OF assms [of x]] show ?thesis by blast
  qed
qed

lemma acts_weaken: "acts seen i P m Q \<Longrightarrow> (\<And>d. P' d \<Longrightarrow> P d) \<Longrightarrow> (\<And>x. Q x \<Longrightarrow> Q' x) \<Longrightarrow> acts seen i P' m Q'"
  unfolding acts_def by blast

lemma acts_try: "acts seen i P m Q \<Longrightarrow> acts seen i P (act_try m) (\<lambda>r. \<forall>x. r = Inr x \<longrightarrow> Q x)"
  by (auto simp: acts_def act_try_def split: prod.splits)

lemma acts_return: "(\<And>x. r = Inr x \<Longrightarrow> Q x) \<Longrightarrow> acts seen i P (act_return r) Q"
  by (auto simp: acts_def act_return_def)

lemma acts_outside:
  "acts seen i P (act_check f) (\<lambda>_. True)" "acts seen i P (act_world g) (\<lambda>_. True)" "acts seen i P (act_clock ops) (\<lambda>_. True)"
  by (auto simp: acts_def act_check_def act_world_def act_clock_def intro!: r_into_rtranclp debt_step_same split: prod.splits)

lemma acts_method:
  assumes "\<And>t d d'. P d \<Longrightarrow> f t d = Inr d' \<Longrightarrow> debt_step seen (xd_id x) d d'" "\<And>d. P d \<Longrightarrow> has_debt x d"
  shows "acts seen (xd_id x) P (debt_method ops (xd_id x) f) (\<lambda>y. ident y = ident x)"
  unfolding acts_def
proof (intro allI impI)
  fix s r s' assume p: "P (snd s)" and run: "debt_method ops (xd_id x) f s = (r, s')"
  obtain t w where t: "gw_tick ops (fst s) = (t, w)" by fastforce
  show "debt_steps seen (xd_id x) (snd s) (snd s') \<and> (\<forall>y. r = Inr y \<longrightarrow> ident y = ident x)"
  proof (cases "f t (snd s)")
    case (Inl e)
    with run t show ?thesis by (auto simp: debt_method_def act_bind_def act_clock_def act_commit_def)
  next
    case (Inr d')
    with run t have r: "r = replication_debt_row (xd_id x) d'" "snd s' = d'"
      by (auto simp: debt_method_def act_bind_def act_clock_def act_commit_def act_read_def)
    have st: "debt_step seen (xd_id x) (snd s) d'" by (rule assms(1) [OF p Inr])
    have "has_debt x d'" using stable_has_debt st assms(2) [OF p] unfolding stable_def by blast
    then have "r = Inr y \<Longrightarrow> ident y = ident x" for y
      using r same_row by (auto simp: replication_debt_row_def result_simps dest!: find_Some_mem)
    with st r(2) show ?thesis by blast
  qed
qed

text \<open>Rules for actions whose result does not matter.\<close>

lemma acts_any: "acts seen i P m Q \<Longrightarrow> acts seen i P m (\<lambda>_. True)"
  by (erule acts_weaken) auto

lemma acts_bind_any:
  "stable seen i P \<Longrightarrow> acts seen i P m (\<lambda>_. True) \<Longrightarrow> (\<And>x. acts seen i P (f x) R) \<Longrightarrow> acts seen i P (act_bind m f) R"
  by (erule acts_bind)

lemma acts_return_any: "acts seen i P (act_return r) (\<lambda>_. True)"
  by (rule acts_return) simp

lemma acts_if: "(b \<Longrightarrow> acts seen i P m Q) \<Longrightarrow> (\<not> b \<Longrightarrow> acts seen i P m' Q) \<Longrightarrow> acts seen i P (if b then m else m') Q"
  by simp

lemma acts_sum:
  "(\<And>e. r = Inl e \<Longrightarrow> acts seen i P (f e) Q) \<Longrightarrow> (\<And>x. r = Inr x \<Longrightarrow> acts seen i P (g x) Q) \<Longrightarrow>
   acts seen i P (case r of Inl e \<Rightarrow> f e | Inr x \<Rightarrow> g x) Q"
  by (cases r) simp_all

lemma acts_option:
  "(r = None \<Longrightarrow> acts seen i P f Q) \<Longrightarrow> (\<And>x. r = Some x \<Longrightarrow> acts seen i P (g x) Q) \<Longrightarrow>
   acts seen i P (case r of None \<Rightarrow> f | Some x \<Rightarrow> g x) Q"
  by (cases r) simp_all

lemma acts_tuple: "(\<And>a b c. r = (a, b, c) \<Longrightarrow> acts seen i P (f a b c) Q) \<Longrightarrow> acts seen i P (case r of (a, b, c) \<Rightarrow> f a b c) Q"
  by (cases r) simp

lemmas acts_control = acts_bind_any acts_if acts_sum acts_option acts_tuple acts_return_any acts_outside

section \<open>Reconciliation takes steps\<close>

text \<open>Some run of the observing command can print the source of the debt as the target of the replica.\<close>

definition observed_value :: "replication_debt \<Rightarrow> string option \<Rightarrow> string" where
  "observed_value x v = (case v of Some a \<Rightarrow> a | None \<Rightarrow> zero_oid (object_format (xd_replica x)))"

definition shows_source :: "'w git_world \<Rightarrow> replication_debt \<Rightarrow> bool" where
  "shows_source ops x \<longleftrightarrow> (\<exists>w out v. fst (gw_git ops (observe_args x) w) = Inr out
     \<and> parse_optional_remote_ref out (xd_target_ref x) (object_format (xd_replica x)) = Inr v
     \<and> observed_value x v = xd_canonical_source_sha x)"

lemma shows_source_ident: "ident x = ident y \<Longrightarrow> shows_source ops x = shows_source ops y"
  using ident_fields [of x y] by (simp add: shows_source_def observe_args_def observed_value_def cong: option.case_cong)

lemma ident_ident: "ident (ident x) = ident x"
  by (simp add: ident_def)

text \<open>What reconciliation relies on to run git: a command never touches a debt, and its output is one that git printed.\<close>

locale debt_runner =
  fixes ops :: "'w git_world" and run_git :: "string \<Rightarrow> git_args \<Rightarrow> ('w, string) act"
  assumes run_keeps: "run_git i args s = (r, s') \<Longrightarrow> replication_debts (snd s') = replication_debts (snd s)"
    and run_output: "run_git i args s = (Inr out, s') \<Longrightarrow> \<exists>w. fst (gw_git ops args w) = Inr out"
begin

lemma acts_git: "acts seen i P (run_git j args) (\<lambda>out. \<exists>w. fst (gw_git ops args w) = Inr out)"
  using run_keeps run_output unfolding acts_def by (auto intro!: r_into_rtranclp debt_step_same)

lemma acts_observe:
  "acts seen i P (observe_replica run_git x) (\<lambda>v. observed_value x v = xd_canonical_source_sha x \<longrightarrow> shows_source ops x)"
  unfolding observe_replica_def acts_def
proof (intro allI impI)
  fix s r s'
  assume "act_bind (run_git (xd_id x) (observe_args x)) (\<lambda>out. act_return
      (parse_optional_remote_ref out (xd_target_ref x) (object_format (xd_replica x)))) s = (r, s')"
  then have "(\<exists>out s1. run_git (xd_id x) (observe_args x) s = (Inr out, s1) \<and> s' = s1
      \<and> r = parse_optional_remote_ref out (xd_target_ref x) (object_format (xd_replica x)))
    \<or> (\<exists>e s1. run_git (xd_id x) (observe_args x) s = (Inl e, s1) \<and> s' = s1 \<and> r = Inl e)"
    by (auto simp: act_bind_def act_return_def split: prod.splits sum.splits)
  then show "debt_steps seen i (snd s) (snd s')
      \<and> (\<forall>v. r = Inr v \<longrightarrow> observed_value x v = xd_canonical_source_sha x \<longrightarrow> shows_source ops x)"
  proof (elim disjE exE conjE)
    fix out s1 assume run: "run_git (xd_id x) (observe_args x) s = (Inr out, s1)" and s': "s' = s1"
      and r: "r = parse_optional_remote_ref out (xd_target_ref x) (object_format (xd_replica x))"
    from run_output [OF run] obtain w where "fst (gw_git ops (observe_args x) w) = Inr out" by blast
    then show ?thesis using run_keeps [OF run] r s' unfolding shows_source_def
      by (metis debt_step_same r_into_rtranclp)
  next
    fix e s1 assume run: "run_git (xd_id x) (observe_args x) s = (Inl e, s1)" and "s' = s1" "r = Inl e"
    then show ?thesis using run_keeps [OF run] by (simp add: r_into_rtranclp debt_step_same)
  qed
qed

lemma acts_inspect: "stable seen i P \<Longrightarrow> acts seen i P (inspect_pin ops lifecycle label x) (\<lambda>_. True)"
  unfolding inspect_pin_def by (intro acts_control)

lemmas acts_try_git = acts_any [OF acts_try [OF acts_git]]

lemma acts_delete_pin:
  "stable seen i P \<Longrightarrow> acts seen i P (compare_and_delete_replication_source_pin ops run_git lifecycle x) (\<lambda>_. True)"
  unfolding compare_and_delete_replication_source_pin_def by (intro acts_control acts_inspect acts_try_git)

lemma distinct_has_debt: "has_debt x d \<Longrightarrow> distinct (map xd_id (replication_debts d))"
  by (simp add: has_debt_def)

lemma oldest_rows:
  "oldest_debt x d \<Longrightarrow> y \<in> set (replication_debts d) \<Longrightarrow> xd_id y = xd_id x \<Longrightarrow> older_finished d y \<and> ident y = ident x"
  using same_row older_finished_ident unfolding oldest_debt_def by blast

text \<open>The methods of the queue on one debt.\<close>

lemma acts_fail:
  "acts seen (xd_id x) (has_debt x) (debt_method ops (xd_id x) (\<lambda>t. finish_replication_debt t k w (xd_id x) (Some m)))
     (\<lambda>y. ident y = ident x)"
  by (rule acts_method) (auto intro: finish_failed_step distinct_has_debt)

lemma acts_uncertain:
  "acts seen (xd_id x) (has_debt x) (debt_method ops (xd_id x) (\<lambda>t. mark_replication_uncertain t k w (xd_id x) m))
     (\<lambda>y. ident y = ident x)"
  by (rule acts_method) (auto intro: mark_uncertain_step distinct_has_debt)

lemma acts_publish:
  "acts seen (xd_id x) (has_debt x) (publish_replication_source_pin ops run_git k w f x) (\<lambda>y. ident y = ident x)"
proof -
  have "acts seen (xd_id x) (has_debt x) (debt_method ops (xd_id x) (\<lambda>t. complete_replication_source_pin t k w (xd_id x)))
      (\<lambda>y. ident y = ident x)"
    by (rule acts_method) (auto intro: complete_pin_step distinct_has_debt)
  then show ?thesis
    unfolding publish_replication_source_pin_def
    by (intro acts_control stable_has_debt acts_try_git acts_any [OF acts_git] acts_fail)
qed

lemma acts_cleanup:
  assumes "ident y = ident x"
  shows "acts seen (xd_id x) (has_debt x) (complete_replication_source_cleanup ops run_git k w y) (\<lambda>z. ident z = ident x)"
proof -
  have "acts seen (xd_id x) (has_debt x) (debt_method ops (xd_id x) (\<lambda>t. complete_replication_source_cleanup_tx t k w (xd_id x)))
      (\<lambda>y. ident y = ident x)"
    by (rule acts_method) (auto intro: complete_cleanup_step distinct_has_debt)
  then show ?thesis
    unfolding complete_replication_source_cleanup_def ident_fields(1) [OF assms]
    by (intro acts_control stable_has_debt acts_delete_pin)
qed

lemma acts_superseded_cleanup:
  assumes "ident y = ident x"
  shows "acts seen (xd_id x) (has_debt x) (complete_superseded_source_cleanup ops run_git k w y) (\<lambda>z. ident z = ident x)"
proof -
  have "acts seen (xd_id x) (has_debt x) (debt_method ops (xd_id x) (\<lambda>t. complete_replication_supersession t k w (xd_id x)))
      (\<lambda>y. ident y = ident x)"
    by (rule acts_method) (auto intro: complete_supersession_step distinct_has_debt)
  then show ?thesis
    unfolding complete_superseded_source_cleanup_def ident_fields(1) [OF assms]
    by (intro acts_control stable_has_debt acts_delete_pin)
qed

lemma oldest_has: "oldest_debt x d \<Longrightarrow> has_debt x d"
  by (simp add: oldest_debt_def)

lemma acts_finish_applied:
  assumes "shows_source ops x"
  shows "acts (shows_source ops) (xd_id x) (oldest_debt x) (finish_applied ops run_git k w x) (\<lambda>z. ident z = ident x)"
  unfolding finish_applied_def
proof (rule acts_bind [OF stable_oldest_debt])
  have "shows_source ops (ident y)" if "ident y = ident x" for y
    using shows_source_ident [of "ident y" x] that ident_ident assms by metis
  then show "acts (shows_source ops) (xd_id x) (oldest_debt x)
      (debt_method ops (xd_id x) (\<lambda>t. finish_replication_debt t k w (xd_id x) None)) (\<lambda>y. ident y = ident x)"
    by (intro acts_method) (auto intro!: finish_applied_step oldest_has dest: oldest_rows oldest_has simp: distinct_has_debt)
  fix y assume "ident y = ident x"
  then show "acts (shows_source ops) (xd_id x) (oldest_debt x) (complete_replication_source_cleanup ops run_git k w y)
      (\<lambda>z. ident z = ident x)"
    by (rule acts_weaken [OF acts_cleanup]) (auto intro: oldest_has)
qed

lemmas acts_old = acts_weaken [where P = "has_debt x" and P' = "oldest_debt x" for x, OF _ oldest_has]

lemma acts_expected:
  "acts (shows_source ops) (xd_id x) (oldest_debt x) (expected_destination ops k w x actual) (\<lambda>_. True)"
proof -
  have "acts (shows_source ops) (xd_id x) (oldest_debt x)
      (debt_method ops (xd_id x) (\<lambda>t. begin_replication_application t k w (xd_id x) actual)) (\<lambda>y. ident y = ident x)"
    by (rule acts_method) (auto intro!: begin_application_step oldest_has dest: oldest_rows oldest_has simp: distinct_has_debt)
  moreover have "acts (shows_source ops) (xd_id x) (has_debt x)
      (debt_method ops (xd_id x) (\<lambda>t. resume_replication_application t k w (xd_id x))) (\<lambda>y. ident y = ident x)"
    by (rule acts_method) (auto intro: resume_step distinct_has_debt)
  ultimately show ?thesis
    unfolding expected_destination_def
    by (intro acts_control stable_oldest_debt acts_any [OF acts_old [OF acts_uncertain]] acts_any acts_any [OF acts_old])
qed

lemma acts_settle_push:
  assumes "\<And>v. verification = Inr v \<Longrightarrow> observed_value x v = xd_canonical_source_sha x \<Longrightarrow> shows_source ops x"
  shows "acts (shows_source ops) (xd_id x) (oldest_debt x)
     (settle_push ops run_git k w x expected push_failure verification) (\<lambda>z. ident z = ident x)"
  unfolding settle_push_def Let_def
proof (intro acts_control acts_old [OF acts_uncertain] acts_finish_applied)
  fix actual assume "verification = Inr actual" "actual = Some (xd_canonical_source_sha x)"
  with assms show "shows_source ops x" by (simp add: observed_value_def)
next
  fix actual assume "actual = Some expected \<and> push_failure \<noteq> None"
  then obtain m where m: "push_failure = Some m" by blast
  show "acts (shows_source ops) (xd_id x) (oldest_debt x)
      (debt_method ops (xd_id x) (\<lambda>t. finish_replication_debt t k w (xd_id x) push_failure)) (\<lambda>z. ident z = ident x)"
    unfolding m by (rule acts_old [OF acts_fail])
qed

lemma acts_push:
  "acts (shows_source ops) (xd_id x) (oldest_debt x) (push_and_verify ops run_git k w x expected) (\<lambda>z. ident z = ident x)"
  unfolding push_and_verify_def
  by (rule acts_bind_any [OF stable_oldest_debt acts_try_git], rule acts_bind [OF stable_oldest_debt acts_try [OF acts_observe]],
      rule acts_settle_push) blast

lemma older_check: "has_debt x d \<Longrightarrow> older_unfinished_replication x d = None \<Longrightarrow> oldest_debt x d"
proof -
  assume has: "has_debt x d" and none: "older_unfinished_replication x d = None"
  let ?older = "filter (\<lambda>y. same_target y x \<and> xd_sequence y < xd_sequence x \<and> \<not> finished y) (replication_debts d)"
  from none have "sort_key xd_sequence ?older = []"
    by (simp add: older_unfinished_replication_def split: list.splits)
  then have "set (sort_key xd_sequence ?older) = {}" by simp
  then have "set ?older = {}" by (simp only: set_sort)
  with has show ?thesis by (auto simp: oldest_debt_def older_finished_def)
qed

lemma acts_uncertain_or_failed:
  "acts (shows_source ops) (xd_id x) (oldest_debt x) (uncertain_or_failed ops k w x m m') (\<lambda>z. ident z = ident x)"
  unfolding uncertain_or_failed_def by (intro acts_control acts_old [OF acts_uncertain] acts_old [OF acts_fail])

lemma acts_settle_observation:
  assumes "\<And>v. observation = Inr v \<Longrightarrow> observed_value x v = xd_canonical_source_sha x \<Longrightarrow> shows_source ops x"
  shows "acts (shows_source ops) (xd_id x) (oldest_debt x) (settle_observation ops run_git k w x observation) (\<lambda>_. True)"
  unfolding settle_observation_def Let_def observed_value_def [symmetric]
proof (intro acts_sum acts_if acts_any [OF acts_uncertain_or_failed] acts_any [OF acts_finish_applied])
  fix v assume "observation = Inr v" "observed_value x v = xd_canonical_source_sha x"
  then show "shows_source ops x" by (rule assms)
next
  fix v
  show "acts (shows_source ops) (xd_id x) (oldest_debt x) (act_bind (expected_destination ops k w x (observed_value x v)) (\<lambda>r.
      case r of Inl y \<Rightarrow> act_return (Ok y) | Inr expected \<Rightarrow> push_and_verify ops run_git k w x expected)) (\<lambda>_. True)"
    by (rule acts_bind_any [OF stable_oldest_debt acts_expected], rule acts_sum, rule acts_return_any, rule acts_any [OF acts_push])
qed

lemma acts_advance_oldest:
  "acts (shows_source ops) (xd_id x) (oldest_debt x) (advance_oldest ops run_git k w canonical x) (\<lambda>_. True)"
  unfolding advance_oldest_def
proof (rule acts_bind_any [OF stable_oldest_debt acts_any [OF acts_try [OF acts_outside(1)]]], rule acts_sum)
  show "acts (shows_source ops) (xd_id x) (oldest_debt x) (act_bind (act_check (gw_verify_remote ops canonical)) (\<lambda>_.
      act_bind (act_try (observe_replica run_git x)) (settle_observation ops run_git k w x))) (\<lambda>_. True)"
    by (rule acts_bind_any [OF stable_oldest_debt acts_outside(1)],
        rule acts_bind [OF stable_oldest_debt acts_try [OF acts_observe]], rule acts_settle_observation) blast
qed (rule acts_any [OF acts_uncertain_or_failed])

lemma acts_advance:
  "acts (shows_source ops) (xd_id x) (has_debt x) (advance_replica ops run_git k w canonical x) (\<lambda>_. True)"
  unfolding advance_replica_def
  by (rule acts_read, intro acts_option acts_return_any, rule acts_weaken [OF acts_advance_oldest]) (auto intro: older_check)

text \<open>The debt read first may not exist.\<close>

lemma debt_row_has:
  "distinct (map xd_id (replication_debts d)) \<and> replication_debt_row i d = Inr x \<Longrightarrow> has_debt x d \<and> xd_id x = i"
  by (auto simp: replication_debt_row_def result_simps has_debt_def dest!: find_Some_mem)

lemma acts_registered: "stable seen i P \<Longrightarrow> acts seen i P (registered_policy ops k) (\<lambda>_. True)"
  unfolding registered_policy_def
  by (rule acts_bind_any, assumption, rule acts_outside) (auto simp: acts_def act_read_def)

lemma acts_supersede:
  "acts seen (xd_id x) (has_debt x) (act_bind (debt_method ops (xd_id x) (\<lambda>t. begin_replication_supersession t k w (xd_id x) n))
     (\<lambda>y. complete_superseded_source_cleanup ops run_git k w y)) (\<lambda>_. True)"
proof (rule acts_bind [OF stable_has_debt])
  show "acts seen (xd_id x) (has_debt x) (debt_method ops (xd_id x) (\<lambda>t. begin_replication_supersession t k w (xd_id x) n))
      (\<lambda>y. ident y = ident x)"
    by (rule acts_method) (auto intro: begin_supersession_step distinct_has_debt)
qed (rule acts_any [OF acts_superseded_cleanup])

lemma acts_pin_then_advance:
  "acts (shows_source ops) (xd_id x) (has_debt x)
     (act_bind (if b then publish_replication_source_pin ops run_git k w f x else act_return (Ok x)) (\<lambda>y.
      if xd_outcome y = OutApplied then complete_replication_source_cleanup ops run_git k w y
      else advance_replica ops run_git k w canonical y)) (\<lambda>_. True)"
proof (rule acts_bind [OF stable_has_debt])
  show "acts (shows_source ops) (xd_id x) (has_debt x)
      (if b then publish_replication_source_pin ops run_git k w f x else act_return (Ok x)) (\<lambda>y. ident y = ident x)"
    by (intro acts_if acts_publish acts_return) simp
  fix y assume y: "ident y = ident x"
  have "acts (shows_source ops) (xd_id y) (has_debt y) (advance_replica ops run_git k w canonical y) (\<lambda>_. True)"
    by (rule acts_advance)
  then have "acts (shows_source ops) (xd_id x) (has_debt x) (advance_replica ops run_git k w canonical y) (\<lambda>_. True)"
    unfolding ident_fields(1) [OF y] by (rule acts_weaken) (simp_all add: has_debt_def y)
  then show "acts (shows_source ops) (xd_id x) (has_debt x) (if xd_outcome y = OutApplied
      then complete_replication_source_cleanup ops run_git k w y else advance_replica ops run_git k w canonical y) (\<lambda>_. True)"
    by (intro acts_if acts_any [OF acts_cleanup [OF y]])
qed

lemma acts_unfinished:
  "acts (shows_source ops) (xd_id x) (has_debt x) (reconcile_unfinished ops run_git k w canonical x) (\<lambda>_. True)"
  unfolding reconcile_unfinished_def
proof (rule acts_if [OF acts_any [OF acts_superseded_cleanup [OF refl]]], rule acts_read, rule acts_option)
qed (rule acts_weaken [OF acts_pin_then_advance] acts_weaken [OF acts_supersede], simp, simp)+

lemma acts_reconcile:
  "acts (shows_source ops) i (\<lambda>d. distinct (map xd_id (replication_debts d)))
     (reconcile_replication_debt ops run_git w i allow_failed) (\<lambda>_. True)"
  unfolding reconcile_replication_debt_def
proof (rule acts_read)
  fix x
  let ?P = "\<lambda>d. distinct (map xd_id (replication_debts d)) \<and> replication_debt_row i d = Inr x"
  let ?m = "if finished x \<or> xd_outcome x = OutFailed \<and> \<not> allow_failed then act_return (Ok x)
    else act_bind (registered_policy ops (xd_repo_key x)) (\<lambda>policy.
      reconcile_unfinished ops run_git (xd_repo_key x) w (po_canonical_repository policy) x)"
  have m: "acts (shows_source ops) (xd_id x) (has_debt x) ?m (\<lambda>_. True)"
    by (intro acts_if acts_return_any acts_bind_any [OF stable_has_debt acts_registered [OF stable_has_debt]] acts_unfinished)
  show "acts (shows_source ops) i ?P ?m (\<lambda>_. True)"
  proof (cases "xd_id x = i")
    case True
    with m have "acts (shows_source ops) i (has_debt x) ?m (\<lambda>_. True)" by simp
    then show ?thesis by (rule acts_weaken) (use debt_row_has in auto)
  next
    case False
    then have "\<not> ?P d" for d using debt_row_has by blast
    then show ?thesis unfolding acts_def by blast
  qed
qed

end

section \<open>The integrator runs git\<close>

text \<open>Actions that never touch a debt.\<close>

definition silent :: "('w, 'a) act \<Rightarrow> bool" where
  "silent m \<longleftrightarrow> (\<forall>s r s'. m s = (r, s') \<longrightarrow> replication_debts (snd s') = replication_debts (snd s))"

lemma silent_bind: "silent m \<Longrightarrow> (\<And>x. silent (f x)) \<Longrightarrow> silent (act_bind m f)"
  unfolding silent_def act_bind_def by (fastforce split: prod.splits sum.splits)

lemma silent_basic:
  "silent (act_return r)" "silent (act_read g)" "silent (act_check h)" "silent (act_world f)" "silent (act_clock ops)"
  by (auto simp: silent_def act_return_def act_read_def act_check_def act_world_def act_clock_def split: prod.splits)

lemma silent_if: "silent m \<Longrightarrow> silent m' \<Longrightarrow> silent (if b then m else m')"
  by simp

lemma silent_lease: "silent (ensure_repo_lease ops k w)"
  unfolding ensure_repo_lease_def
  by (rule silent_bind [OF silent_basic(5)])
    (auto simp: silent_def heartbeat_repo_lease_def renew_repo_def renew_physical_def split: if_splits)

lemma silent_authorize: "silent (authorize_command ops k w i args)"
  unfolding authorize_command_def by (rule silent_bind [OF silent_lease]) (auto simp: silent_def)

lemma silent_registered: "silent (registered_policy ops k)"
  unfolding registered_policy_def by (intro silent_bind silent_basic)

lemma silent_tuple: "(\<And>a b c. silent (f a b c)) \<Longrightarrow> silent (case x of (a, b, c) \<Rightarrow> f a b c)"
  by (cases x) simp

lemma silent_replication_git: "silent (run_replication_git ops k w i args)"
  unfolding run_replication_git_def
  by (intro silent_bind silent_if silent_tuple silent_basic silent_authorize silent_registered)

lemma act_bind_Inr: "act_bind m f s = (Inr y, s') \<longleftrightarrow> (\<exists>x s1. m s = (Inr x, s1) \<and> f x s1 = (Inr y, s'))"
  by (auto simp: act_bind_def split: prod.splits sum.splits)

interpretation integrator: debt_runner ops "run_replication_git ops k w" for ops k w
proof
  fix i args s r s'
  show "run_replication_git ops k w i args s = (r, s') \<Longrightarrow> replication_debts (snd s') = replication_debts (snd s)"
    using silent_replication_git unfolding silent_def by blast
next
  fix i args s out s'
  assume "run_replication_git ops k w i args s = (Inr out, s')"
  then obtain s1 where "act_world (gw_git ops args) s1 = (Inr out, s')"
    unfolding run_replication_git_def act_bind_Inr by blast
  then show "\<exists>x. fst (gw_git ops args x) = Inr out"
    by (auto simp: act_world_def split: prod.splits intro!: exI [of _ "fst s1"])
qed

section \<open>Passes over the debts\<close>

abbreviation any_steps :: "(replication_debt \<Rightarrow> bool) \<Rightarrow> db \<Rightarrow> db \<Rightarrow> bool" where
  "any_steps seen \<equiv> (\<lambda>d d'. \<exists>i. debt_step seen i d d')\<^sup>*\<^sup>*"

abbreviation unique_debts :: "db \<Rightarrow> bool" where
  "unique_debts d \<equiv> distinct (map xd_id (replication_debts d))"

lemma debt_steps_any: "debt_steps seen i d d' \<Longrightarrow> any_steps seen d d'"
  by (induction rule: rtranclp_induct) (auto intro: rtranclp.rtrancl_into_rtrancl)

lemma any_steps_unique: "any_steps seen d d' \<Longrightarrow> unique_debts d \<Longrightarrow> unique_debts d'"
  by (induction rule: rtranclp_induct) (auto dest: debt_step_rows(1))

lemma each_steps:
  assumes "\<And>x s r s'. x \<in> set xs \<Longrightarrow> I (snd s) \<Longrightarrow> f x s = (r, s') \<Longrightarrow> any_steps seen (snd s) (snd s') \<and> I (snd s')"
    and "act_each f xs s = (r, s')" "I (snd s)"
  shows "any_steps seen (snd s) (snd s')"
  using assms
proof (induction xs arbitrary: s)
  case (Cons x xs)
  obtain r1 s1 where m: "f x s = (r1, s1)" by (cases "f x s")
  then have st: "any_steps seen (snd s) (snd s1)" "I (snd s1)" using Cons.prems(1) [OF _ Cons.prems(3) m] by auto
  show ?case
  proof (cases r1)
    case (Inr y)
    with Cons.prems(2) m have "act_each f xs s1 = (r, s')" by (simp add: act_bind_def)
    then have "any_steps seen (snd s1) (snd s')" using Cons.IH Cons.prems(1) st(2) by (meson list.set_intros(2))
    with st(1) show ?thesis by (rule rtranclp_trans)
  qed (use Cons.prems(2) m st in \<open>simp add: act_bind_def\<close>)
qed (simp add: act_return_def)

lemma reconcile_pending_steps:
  assumes "reconcile_pending_replication ops key_text k w s = (r, s')" "unique_debts (snd s)"
  shows "any_steps (shows_source ops) (snd s) (snd s')"
proof -
  let ?f = "\<lambda>x. reconcile_replication_debt ops (run_replication_git ops k w) w (xd_id x) True"
  from assms(1) have run: "act_each ?f (first_of_targets [] (repository_debts key_text k (snd s))) s = (r, s')"
    by (simp add: reconcile_pending_replication_def act_bind_def act_read_def)
  have "any_steps (shows_source ops) (snd s1) (snd s2) \<and> unique_debts (snd s2)" if "unique_debts (snd s1)" "?f x s1 = (r1, s2)" for x s1 r1 s2
    using debt_steps_any [OF actsD(1) [OF integrator.acts_reconcile that]] any_steps_unique that(1) by blast
  then show ?thesis using each_steps [where I = unique_debts, OF _ run assms(2)] by blast
qed

section \<open>What the steps keep\<close>

text \<open>The debts of a destination and target are worked off in the order of their landings: a debt that has touched the
  replica, or is closed, has only finished debts before it.\<close>

definition started :: "replication_debt \<Rightarrow> bool" where
  "started x \<longleftrightarrow> xd_operation x = AdvanceExactTarget
     \<or> outcome_in [OutApplied, OutSucceeded, OutSupersededCleanupPending, OutSuperseded] x"

definition ordered_debts :: "db \<Rightarrow> bool" where
  "ordered_debts d \<longleftrightarrow> unique_debts d \<and> (\<forall>x \<in> set (replication_debts d). started x \<longrightarrow> older_finished d x)"

lemma finished_started: "finished x \<Longrightarrow> started x"
  by (auto simp: finished_def started_def outcome_in_def)

lemma ordered_not_superseding:
  assumes "ordered_debts d" "x \<in> set (replication_debts d)" "y \<in> set (replication_debts d)"
    "same_target y x" "xd_sequence x < xd_sequence y" "finished y"
  shows "finished x"
proof -
  have "older_finished d y" using assms(1,3) finished_started [OF assms(6)] by (simp add: ordered_debts_def)
  with assms show ?thesis by (auto simp: older_finished_def same_target_def)
qed

lemma move_started:
  assumes "debt_move seen d x x'" "ordered_debts d" "x \<in> set (replication_debts d)" "started x'"
  shows "older_finished d x"
  using assms(1)
proof cases
  case superseding
  with ordered_not_superseding [OF assms(2,3)] show ?thesis by blast
qed (use assms in \<open>auto simp: ordered_debts_def started_def outcome_in_def in_flight_def\<close>)

lemma step_older_finished:
  assumes "debt_step seen i d d'" "unique_debts d" "older_finished d x" "ident x' = ident x"
    and "x \<in> set (replication_debts d)"
  shows "older_finished d' x'"
  unfolding older_finished_def
proof (intro ballI impI)
  fix y' assume y': "y' \<in> set (replication_debts d')" "same_target y' x' \<and> xd_sequence y' < xd_sequence x'"
  from debt_step_rows(2) [OF assms(1,2) y'(1)] obtain y where y: "y \<in> set (replication_debts d)" "ident y' = ident y"
    "y' = y \<or> debt_move seen d y y'" by blast
  have "same_target y x \<and> xd_sequence y < xd_sequence x"
    using y'(2) ident_fields [OF y(2)] ident_fields [OF assms(4)] by (simp add: same_target_def)
  with assms(3) y(1) have "finished y" by (auto simp: older_finished_def)
  with y(3) debt_move_unfinished show "finished y'" by blast
qed

lemma step_ordered:
  assumes "debt_step seen i d d'" "ordered_debts d"
  shows "ordered_debts d'"
  unfolding ordered_debts_def
proof (intro conjI ballI impI)
  have u: "unique_debts d" using assms(2) by (simp add: ordered_debts_def)
  show "unique_debts d'" by (rule debt_step_rows(1) [OF assms(1) u])
  fix x' assume x': "x' \<in> set (replication_debts d')" "started x'"
  from debt_step_rows(2) [OF assms(1) u x'(1)] obtain x where x: "x \<in> set (replication_debts d)" "ident x' = ident x"
    "x' = x \<or> debt_move seen d x x'" by blast
  have "older_finished d x" using x(1,3) x'(2) assms(2) move_started by (auto simp: ordered_debts_def)
  then show "older_finished d' x'" by (rule step_older_finished [OF assms(1) u _ x(2,1)])
qed

lemma any_steps_ordered: "any_steps seen d d' \<Longrightarrow> ordered_debts d \<Longrightarrow> ordered_debts d'"
  by (induction rule: rtranclp_induct) (auto intro: step_ordered)

lemma any_steps_finished:
  "any_steps seen d d' \<Longrightarrow> unique_debts d \<Longrightarrow> x \<in> set (replication_debts d) \<Longrightarrow> finished x \<Longrightarrow> x \<in> set (replication_debts d')"
proof (induction rule: rtranclp_induct)
  case (step d1 d2)
  then obtain i where st: "debt_step seen i d1 d2" and x: "x \<in> set (replication_debts d1)" by blast
  from debt_step_rows(3) [OF st any_steps_unique [OF step(1,4)] x] debt_move_unfinished [of seen d1 x] step(6)
  show ?case by blast
qed

lemma any_steps_row:
  assumes "any_steps seen d d'" "unique_debts d" "x' \<in> set (replication_debts d')"
    and "\<And>d x y. unique_debts d \<Longrightarrow> I d \<Longrightarrow> x \<in> set (replication_debts d) \<Longrightarrow> debt_move seen d x y \<Longrightarrow> \<not> bad x \<Longrightarrow> \<not> bad y"
    and "\<And>d d' i. debt_step seen i d d' \<Longrightarrow> I d \<Longrightarrow> I d'" "I d" "bad x'"
  shows "\<exists>x \<in> set (replication_debts d). ident x = ident x' \<and> bad x"
proof -
  have "I d' \<and> (\<forall>x' \<in> set (replication_debts d'). bad x' \<longrightarrow> (\<exists>x \<in> set (replication_debts d). ident x = ident x' \<and> bad x))"
    using assms(1,2)
  proof (induction rule: rtranclp_induct)
    case base
    then show ?case using assms(6) by blast
  next
    case (step d1 d2)
    then obtain i where st: "debt_step seen i d1 d2" and ih: "I d1"
      "\<And>z. z \<in> set (replication_debts d1) \<Longrightarrow> bad z \<Longrightarrow> \<exists>x \<in> set (replication_debts d). ident x = ident z \<and> bad x" by blast
    have u: "unique_debts d1" by (rule any_steps_unique [OF step(1,4)])
    have "\<exists>x \<in> set (replication_debts d). ident x = ident z \<and> bad x" if z: "z \<in> set (replication_debts d2)" "bad z" for z
    proof -
      from debt_step_rows(2) [OF st u z(1)] obtain y where y: "y \<in> set (replication_debts d1)" "ident z = ident y"
        "z = y \<or> debt_move seen d1 y z" by blast
      have "bad y" using y z(2) assms(4) [OF u ih(1) y(1)] by blast
      with ih(2) [OF y(1)] y(2) show ?thesis by simp
    qed
    with assms(5) [OF st ih(1)] show ?case by blast
  qed
  with assms(3,7) show ?thesis by blast
qed

end
