(* ===== verification/Queue_Example.thy ===== *)
theory Queue_Example
  imports Replication_Runs
begin

text \<open>
  A concrete repository with one replica, a landed item and its replication debt, and a small world of git
  refs.  The reconciliation of the debt is evaluated in it, and the theorems about leases and
  replication are instantiated here.
\<close>

section \<open>The database\<close>

definition qx_sha :: "char \<Rightarrow> string" where "qx_sha c = replicate 40 c"

definition qx_canonical :: git_repository where "qx_canonical = LocalBare ''/c'' 1 2 Sha1"
definition qx_replica :: git_repository where "qx_replica = LocalBare ''/r'' 1 3 Sha1"

definition qx_policy :: repository_policy where
  "qx_policy = \<lparr>po_operation_state = Enabled, po_canonical_repository = qx_canonical, po_target_branch = ''main'',
     po_integration_policy = Direct, po_replication_policy = Replicate [qx_replica]\<rparr>"

definition qx_item :: queue_item where
  "qx_item = \<lparr>qi_id = ''i'', qi_repo_key = ''k'', qi_target_ref = ''refs/heads/main'', qi_status = QIntegrated,
     qi_current_attempt_id = Some ''a'', qi_blocked_phase = None, qi_blocked_reason = None,
     qi_blocked_message = None, qi_prompt_id = None, qi_conflict = None, qi_workspace_path = None,
     qi_workspace_rift_id = None, qi_workspace_source_rift_id = None, qi_workspace_cleaned_at = None,
     qi_target_sha = None, qi_source_sha = None, qi_landed_commit_sha = Some (qx_sha (CHR ''5'')), qi_landing_state = LandingReady,
     qi_replacement = None, qi_created_at = ''t'', qi_updated_at = ''t''\<rparr>"

definition qx_debt :: replication_debt where
  "qx_debt = \<lparr>xd_id = ''x'', xd_item_id = ''i'', xd_repo_key = ''k'', xd_canonical_source_sha = qx_sha (CHR ''5''),
     xd_destination_key = destination_identity_key qx_replica, xd_target_ref = ''refs/heads/main'', xd_sequence = 1,
     xd_replica = qx_replica, xd_expected_destination_sha = None, xd_operation = PinSource, xd_outcome = OutPinning,
     xd_application_id = None, xd_failure = None, xd_superseded_by_id = None\<rparr>"

definition qx_empty :: db where
  "qx_empty = \<lparr>queue_items = [], attempts = [], validation_invocations = [], efforts = [], cycles = [],
     termination_debts = [], guidance_requests = [], evidences = [], reviews = [], review_receipts = [],
     answer_receipts = [], events = [], event_sequence = 0, backends = [], deliveries = [], delivery_sequence = 0,
     cleanup_debts = [], ref_debts = [], replication_debts = [], repositories = [], policies = [], admissions = [],
     submissions = [], workspaces = [], prompts = [], artifacts = [], reservations = [], purge_authority = [],
     repo_leases = [], physical_leases = [], ownerships = [], queue_events = [], bindings = [], workspace_roots = [],
     git_bindings = [], projection_debts = [], projection_alerts = [],
     comment_receipts = []\<rparr>"

definition qx_registered :: db where
  "qx_registered = qx_empty\<lparr>queue_items := [qx_item],
     repositories := [\<lparr>rg_repo_key = ''k'', rg_owned_root_path = ''/o'', rg_source_sha = qx_sha (CHR ''5''),
                       rg_checkout = CheckoutReady ''refs/heads/main'' (qx_sha (CHR ''5''))\<rparr>],
     policies := [\<lparr>pl_repo_key = ''k'', pl_revision = 1, pl_policy = qx_policy\<rparr>], replication_debts := [qx_debt]\<rparr>"

text \<open>The owner \<open>w\<close> reserves the physical repositories and acquires the lease.\<close>

definition qx_owned :: db where
  "qx_owned = (case reserve_policy_physical_ownership ''k'' qx_policy qx_registered of Inr d \<Rightarrow> d | Inl _ \<Rightarrow> qx_registered)"

definition qx_leased :: db where
  "qx_leased = (case acquire_repo_operation_lease ''1'' ''9'' ''k'' ''w'' ''/o'' ''main'' qx_owned of Inr d \<Rightarrow> d | Inl _ \<Rightarrow> qx_owned)"

lemma qx_owned_value:
  "reserve_policy_physical_ownership ''k'' qx_policy qx_registered = Inr qx_owned"
  "ownerships qx_owned = [\<lparr>ow_identity_key = physical_identity_key qx_canonical, ow_repo_key = ''k'', ow_role = ''canonical'',
     ow_ordinal = 0, ow_repository = qx_canonical\<rparr>, \<lparr>ow_identity_key = physical_identity_key qx_replica, ow_repo_key = ''k'',
     ow_role = ''replica'', ow_ordinal = 0, ow_repository = qx_replica\<rparr>]"
  by code_simp+

lemma qx_leased_value: "acquire_repo_operation_lease ''1'' ''9'' ''k'' ''w'' ''/o'' ''main'' qx_owned = Inr qx_leased"
  by code_simp

section \<open>The world\<close>

text \<open>The head of the target at the replica and the pin in the owned repository.\<close>

type_synonym qx_world = "string option \<times> string option"

definition qx_git :: "git_args \<Rightarrow> qx_world \<Rightarrow> string result \<times> qx_world" where
  "qx_git args = (\<lambda>(remote, pin).
     (case args of
        command # rest \<Rightarrow>
          if command = ''ls-remote''
          then (Ok (case remote of None \<Rightarrow> [] | Some a \<Rightarrow> a @ CHR 0x09 # rest ! 2 @ [CHR 0x0A]), remote, pin)
          else if command = ''push'' then (Ok [], Some (takeWhile (\<lambda>c. c \<noteq> CHR '':'') (rest ! 3)), pin)
          else if command = ''update-ref'' then (Ok [], remote, if hd rest = ''-d'' then None else Some (rest ! 1))
          else (Ok [], remote, pin)
      | [] \<Rightarrow> (Ok [], remote, pin)))"

definition qx_ops :: "qx_world git_world" where
  "qx_ops = \<lparr>gw_tick = (\<lambda>s. (\<lparr>mo_now = ''2'', mo_expires = ''9'', mo_uuid = ''u''\<rparr>, s)), gw_git = qx_git,
     gw_rev_parse = (\<lambda>_ (remote, pin). (Ok (case pin of None \<Rightarrow> (Some 1, [], []) | Some a \<Rightarrow> (Some 0, a @ [CHR 0x0A], [])), remote, pin)),
     gw_verify_local = (\<lambda>_ _. Ok ()), gw_verify_remote = (\<lambda>_ _. Ok ()), gw_external = (\<lambda>_ _ _ _. Ok ()),
     gw_registered = (\<lambda>_ _. Ok ())\<rparr>"

definition qx_key_text :: "physical_repository_identity \<Rightarrow> string" where
  "qx_key_text _ = []"

definition qx_pass :: "unit result \<times> (qx_world \<times> db)" where
  "qx_pass = reconcile_pending_replication qx_ops qx_key_text ''k'' ''w'' ((None, None), qx_leased)"


lemma qx_pass_value:
  "(fst qx_pass, fst (snd qx_pass), map xd_outcome (replication_debts (snd (snd qx_pass))))
   = (Inr (), (Some (qx_sha (CHR ''5'')), None), [OutSucceeded])"
  by code_simp

text \<open>A world whose owned repository has lost the source object.\<close>

definition qx_lost :: "qx_world git_world" where
  "qx_lost = qx_ops\<lparr>gw_git := (\<lambda>args s. if args = verify_args qx_debt then (Err (Bail ''missing''), s) else qx_git args s)\<rparr>"

definition qx_lost_pass :: "unit result \<times> (qx_world \<times> db)" where
  "qx_lost_pass = reconcile_pending_replication qx_lost qx_key_text ''k'' ''w'' ((None, None), qx_leased)"

lemma qx_lost_value:
  "(fst qx_lost_pass, map xd_outcome (replication_debts (snd (snd qx_lost_pass))), map xd_failure (replication_debts (snd (snd qx_lost_pass))))
   = (Inr (), [OutFailed], [Some ''cannot observe replica target: pin_source permits only exact source verification and pin publication''])"
  by code_simp

end
