(* ===== verification/Queue_Properties.thy ===== *)
theory Queue_Properties
  imports Queue_Example Store_Landing
begin

text \<open>
  The properties of replication, and the instances of the properties of leases and replication in the concrete
  repository.
\<close>

section \<open>Leases\<close>

lemma qx_leased_inv: "lease_inv qx_leased" "owned_by ''k'' qx_leased \<noteq> []"
  by code_simp+

theorem lease_operations_keep_invariant_witness: "lease_inv qx_owned"
proof -
  have "lease_inv qx_registered" by (simp add: lease_inv_def qx_registered_def qx_empty_def)
  from conjunct1 [OF lease_operations_keep_invariant [OF this]] qx_owned_value(1) show ?thesis by blast
qed

theorem lease_checks_agree_witness:
  "is_ok (enter_composition ''2'' ''9'' ''k'' ''w'' qx_leased)
   \<longleftrightarrow> is_ok (require_mutation_authority ''2'' ''k'' (RepositoryLease ''k'' ''w'') qx_leased)"
  by (rule lease_checks_agree [OF qx_leased_inv])

theorem acquisition_fences_other_owners_witness:
  "\<not> is_ok (composition_transaction ''2'' ''9'' ''k'' ''v'' Ok qx_leased)"
  using acquisition_fences_other_owners [OF qx_leased_value, of "''v''" "''2''" "''9''" Ok] by simp


section \<open>Replication\<close>

lemma record_debts_ordered:
  "record_replication_debts i k t l rs fresh d = Inr d' \<Longrightarrow> ordered_debts d \<Longrightarrow> ordered_debts d'"
proof (induction rs arbitrary: fresh d)
  case (Cons r rs)
  let ?x = "\<lparr>xd_id = fresh 0, xd_item_id = i, xd_repo_key = k, xd_canonical_source_sha = l,
      xd_destination_key = destination_identity_key r, xd_target_ref = t,
      xd_sequence = next_replication_sequence (destination_identity_key r) t d, xd_replica = r,
      xd_expected_destination_sha = None, xd_operation = PinSource, xd_outcome = OutPinning, xd_application_id = None,
      xd_failure = None, xd_superseded_by_id = None\<rparr>"
  from Cons.prems(1) obtain d1 where d1: "insert_replication_debt ?x d = Inr d1"
    and rest: "record_replication_debts i k t l rs (\<lambda>n. fresh (Suc n)) d1 = Inr d'"
    by (auto simp: result_simps)
  then have debts: "replication_debts d1 = replication_debts d @ [?x]" and new: "fresh 0 \<notin> xd_id ` set (replication_debts d)"
    by (auto simp: insert_replication_debt_def list_ex_iff split: if_splits)
  have above: "\<not> xd_sequence ?x < xd_sequence y" if "y \<in> set (replication_debts d)" "same_target ?x y" for y
  proof -
    have mono: "n \<in> set ns \<Longrightarrow> n \<le> foldr max ns 0" for n :: nat and ns by (induction ns) (auto simp: max_def)
    have "xd_sequence y \<le> foldr max (map xd_sequence (filter (\<lambda>x. xd_destination_key x = destination_identity_key r \<and> xd_target_ref x = t)
        (replication_debts d))) 0"
      using that by (intro mono) (auto simp: same_target_def)
    then show ?thesis by (simp add: next_replication_sequence_def)
  qed
  have "ordered_debts d1"
    unfolding ordered_debts_def
  proof (intro conjI ballI impI)
    show "unique_debts d1" using Cons.prems(2) debts new by (auto simp: ordered_debts_def)
    fix y assume "y \<in> set (replication_debts d1)" "started y"
    then have "y \<in> set (replication_debts d)" "older_finished d y"
      using Cons.prems(2) debts by (auto simp: ordered_debts_def started_def outcome_in_def)
    with above show "older_finished d1 y" by (auto simp: older_finished_def debts)
  qed
  with Cons.IH [OF rest] show ?case .
qed simp

text \<open>C18: Replicas receive landed commits in the order of their landings: recording the debts of a landing and reconciling
  the debts of a repository, whatever git and the replicas do and whether or not the pass fails, keep
  that a debt which has touched the replica or is closed has only finished debts before it, among those
  of the same destination and target.\<close>

theorem replication_keeps_landing_order:
  assumes "ordered_debts d"
  shows "(\<forall>d'. record_replication_debts item repo target landed replicas fresh d = Inr d' \<longrightarrow> ordered_debts d')
    \<and> ordered_debts (snd (snd (reconcile_pending_replication ops key_text k owner (world, d))))"
proof (intro conjI allI impI)
  fix d' assume "record_replication_debts item repo target landed replicas fresh d = Inr d'"
  then show "ordered_debts d'" using assms by (rule record_debts_ordered)
next
  obtain r s' where run: "reconcile_pending_replication ops key_text k owner (world, d) = (r, s')"
    by (cases "reconcile_pending_replication ops key_text k owner (world, d)")
  have "unique_debts d" using assms by (simp add: ordered_debts_def)
  with reconcile_pending_steps [OF run] have "any_steps (shows_source ops) d (snd s')" by simp
  then show "ordered_debts (snd (snd (reconcile_pending_replication ops key_text k owner (world, d))))"
    unfolding run using any_steps_ordered assms by simp
qed

lemma qx_ordered: "ordered_debts qx_leased"
proof -
  have "replication_debts qx_leased = [qx_debt]" by code_simp
  then show ?thesis by (simp add: ordered_debts_def older_finished_def same_target_def)
qed

theorem replication_keeps_landing_order_witness: "ordered_debts (snd (snd qx_pass))"
  unfolding qx_pass_def by (rule conjunct2 [OF replication_keeps_landing_order [OF qx_ordered]])

text \<open>C6: Every pass over the debts of a repository refines the machine of one debt: it is a sequence of committed
  transactions, each of which leaves the debts alone or moves one debt by \<^const>\<open>debt_move\<close> to a row that
  satisfies the constraints of the table.  In the machine a debt begins to apply or is applied only
  when the older debts of its target are finished.\<close>

theorem replication_refines_debt_machine:
  assumes "unique_debts d" "reconcile_pending_replication ops key_text k owner (world, d) = (r, (world', d'))"
  shows "(\<lambda>d d'. \<exists>i. debt_step (shows_source ops) i d d')\<^sup>*\<^sup>* d d'"
  using reconcile_pending_steps [OF assms(2)] assms(1) by simp

theorem replication_refines_debt_machine_witness:
  "(\<lambda>d d'. \<exists>i. debt_step (shows_source qx_ops) i d d')\<^sup>*\<^sup>* qx_leased (snd (snd qx_pass))"
proof -
  have u: "unique_debts qx_leased" using qx_ordered by (simp add: ordered_debts_def)
  show ?thesis
    by (rule replication_refines_debt_machine [OF u, of qx_ops qx_key_text "''k''" "''w''" "(None, None)" "fst qx_pass" "fst (snd qx_pass)"])
      (simp add: qx_pass_def)
qed

text \<open>A finished debt is final: no pass over the debts changes its row.\<close>

theorem finished_debts_are_final:
  assumes "unique_debts d" "x \<in> set (replication_debts d)" "finished x"
  shows "x \<in> set (replication_debts (snd (snd (reconcile_pending_replication ops key_text k owner (world, d)))))"
proof -
  obtain r s' where run: "reconcile_pending_replication ops key_text k owner (world, d) = (r, s')"
    by (cases "reconcile_pending_replication ops key_text k owner (world, d)")
  with reconcile_pending_steps [OF run] assms(1) have "any_steps (shows_source ops) d (snd s')" by simp
  from any_steps_finished [OF this assms] show ?thesis by (simp add: run)
qed

theorem finished_debts_are_final_witness:
  "qx_debt\<lparr>xd_outcome := OutSucceeded\<rparr> \<in> set (replication_debts (snd (snd (reconcile_pending_replication qx_ops qx_key_text ''k'' ''w''
     ((None, None), qx_leased\<lparr>replication_debts := [qx_debt\<lparr>xd_outcome := OutSucceeded\<rparr>]\<rparr>)))))"
  by (rule finished_debts_are_final) (simp_all add: finished_def)

text \<open>A debt is never marked as applied without evidence: when a pass leaves a debt applied or succeeded that was not so
  before, then an observation of the exact target ref at the replica can print the landed commit
  of the debt.\<close>

theorem applied_debts_were_observed:
  assumes "unique_debts d" "reconcile_pending_replication ops key_text k owner (world, d) = (r, (world', d'))"
    and "x' \<in> set (replication_debts d')" "xd_outcome x' = OutApplied \<or> xd_outcome x' = OutSucceeded"
    and "\<not> (\<exists>x \<in> set (replication_debts d). xd_id x = xd_id x' \<and> (xd_outcome x = OutApplied \<or> xd_outcome x = OutSucceeded))"
  shows "\<exists>w out v. fst (gw_git ops (observe_args x') w) = Inr out
     \<and> parse_optional_remote_ref out (xd_target_ref x') (object_format (xd_replica x')) = Inr v
     \<and> (case v of Some a \<Rightarrow> a | None \<Rightarrow> zero_oid (object_format (xd_replica x'))) = xd_canonical_source_sha x'"
proof (rule ccontr)
  assume "\<not> ?thesis"
  then have none: "\<not> shows_source ops x'" by (simp add: shows_source_def observed_value_def)
  let ?bad = "\<lambda>x. (xd_outcome x = OutApplied \<or> xd_outcome x = OutSucceeded) \<and> \<not> shows_source ops x"
  have "any_steps (shows_source ops) d d'" using reconcile_pending_steps [OF assms(2)] assms(1) by simp
  then have "\<exists>x \<in> set (replication_debts d). ident x = ident x' \<and> ?bad x"
  proof (rule any_steps_row [where I = "\<lambda>_. True" and bad = ?bad, OF _ assms(1,3)])
    fix d1 x y assume m: "debt_move (shows_source ops) d1 x y" and good: "\<not> ?bad x"
    show "\<not> ?bad y"
      using m good shows_source_ident [OF debt_move_ident [OF m]] shows_source_ident [OF ident_ident [of x]]
      by cases (auto simp: outcome_in_def)
  qed (use none assms(4) in auto)
  then show False using assms(5) ident_fields(1) by blast
qed

theorem applied_debts_were_observed_witness:
  "\<exists>w out v. fst (gw_git qx_ops (observe_args qx_debt) w) = Inr out
     \<and> parse_optional_remote_ref out ''refs/heads/main'' Sha1 = Inr v
     \<and> (case v of Some a \<Rightarrow> a | None \<Rightarrow> zero_oid Sha1) = qx_sha (CHR ''5'')"
proof -
  have u: "unique_debts qx_leased" using qx_ordered by (simp add: ordered_debts_def)
  have debts: "replication_debts qx_leased = [qx_debt]" by code_simp
  let ?d = "snd (snd qx_pass)"
  have run: "reconcile_pending_replication qx_ops qx_key_text ''k'' ''w'' ((None, None), qx_leased) = (fst qx_pass, (fst (snd qx_pass), ?d))"
    by (simp add: qx_pass_def)
  have one: "map xd_outcome (replication_debts ?d) = [OutSucceeded]" using qx_pass_value by simp
  then obtain x' where x': "replication_debts ?d = [x']" "xd_outcome x' = OutSucceeded" by auto
  have "any_steps (shows_source qx_ops) qx_leased ?d" using reconcile_pending_steps [OF run] u by simp
  then have "\<exists>x \<in> set (replication_debts qx_leased). ident x = ident x' \<and> True"
    by (rule any_steps_row [where I = "\<lambda>_. True" and bad = "\<lambda>_. True", OF _ u]) (simp_all add: x')
  then have id: "ident qx_debt = ident x'" by (simp add: debts)
  note f = ident_fields [OF id]
  have "xd_outcome qx_debt = OutPinning" by (simp add: qx_debt_def)
  then have "\<exists>w out v. fst (gw_git qx_ops (observe_args x') w) = Inr out
     \<and> parse_optional_remote_ref out (xd_target_ref x') (object_format (xd_replica x')) = Inr v
     \<and> (case v of Some a \<Rightarrow> a | None \<Rightarrow> zero_oid (object_format (xd_replica x'))) = xd_canonical_source_sha x'"
    by (intro applied_debts_were_observed [OF u run]) (auto simp: x' debts)
  then show ?thesis
    unfolding observe_args_def f [symmetric] by (simp add: qx_debt_def qx_replica_def cong: option.case_cong)
qed

text \<open>Supersession never happens: from debts in the order of their landings, no pass supersedes a debt, although the code
  handles it.\<close>

theorem supersession_never_happens:
  assumes "ordered_debts d" "reconcile_pending_replication ops key_text k owner (world, d) = (r, (world', d'))"
    and "x' \<in> set (replication_debts d')" "xd_outcome x' = OutSupersededCleanupPending \<or> xd_outcome x' = OutSuperseded"
  shows "\<exists>x \<in> set (replication_debts d). xd_id x = xd_id x' \<and> (xd_outcome x = OutSupersededCleanupPending \<or> xd_outcome x = OutSuperseded)"
proof -
  let ?bad = "\<lambda>x. xd_outcome x = OutSupersededCleanupPending \<or> xd_outcome x = OutSuperseded"
  have u: "unique_debts d" using assms(1) by (simp add: ordered_debts_def)
  then have "any_steps (shows_source ops) d d'" using reconcile_pending_steps [OF assms(2)] by simp
  then have "\<exists>x \<in> set (replication_debts d). ident x = ident x' \<and> ?bad x"
  proof (rule any_steps_row [where I = ordered_debts and bad = ?bad, OF _ u assms(3)])
    fix d1 x y assume o: "ordered_debts d1" "x \<in> set (replication_debts d1)" and m: "debt_move (shows_source ops) d1 x y" and good: "\<not> ?bad x"
    from m show "\<not> ?bad y"
    proof cases
      case superseding
      with ordered_not_superseding [OF o] show ?thesis by blast
    qed (use good in \<open>auto simp: outcome_in_def\<close>)
  qed (use assms step_ordered in auto)
  then show ?thesis using ident_fields(1) by blast
qed

theorem supersession_never_happens_witness:
  "OutSuperseded \<notin> set (map xd_outcome (replication_debts (snd (snd qx_lost_pass))))"
proof
  assume "OutSuperseded \<in> set (map xd_outcome (replication_debts (snd (snd qx_lost_pass))))"
  then obtain x' where x': "x' \<in> set (replication_debts (snd (snd qx_lost_pass)))" "xd_outcome x' = OutSuperseded" by auto
  have "\<exists>x \<in> set (replication_debts qx_leased). xd_id x = xd_id x' \<and> (xd_outcome x = OutSupersededCleanupPending \<or> xd_outcome x = OutSuperseded)"
    by (rule supersession_never_happens [OF qx_ordered, of qx_lost qx_key_text "''k''" "''w''" "(None, None)" "fst qx_lost_pass"
        "fst (snd qx_lost_pass)" "snd (snd qx_lost_pass)"]) (use x' in \<open>simp_all add: qx_lost_pass_def\<close>)
  moreover have "map xd_outcome (replication_debts qx_leased) = [OutPinning]" by code_simp
  ultimately show False by (metis image_eqI list.set_map list.simps(15) empty_iff empty_set insert_iff replication_outcome.distinct)
qed


end
