(* ===== verification/Queue_Lifecycle.thy ===== *)
theory Queue_Lifecycle
  imports Queue_Leases Store_Landing "HOL-Library.Product_Lexorder"
begin

text \<open>
  The queue of \<open>lib.rs\<close> (\<open>SqliteQueue\<close>): admission of direct work and of merge requests, the claim of the
  oldest item of a target, the lifecycle of an item before an effort owns it, draining and disabling a
  repository, development workspaces and local submissions.  Every method is one transaction.  The
  clock, generated identifiers, the verification of a policy snapshot (SHA-256 and JSON) and of a registration
  on disk are parameters.
\<close>

section \<open>Statements\<close>

definition active_status :: "queue_status \<Rightarrow> bool" where
  "active_status s \<longleftrightarrow> s \<noteq> QIntegrated \<and> s \<noteq> QCancelled"

text \<open>The view \<open>queue_items_runtime\<close>: items with a registered repository, a policy and an admission.\<close>

definition item_admission :: "string \<Rightarrow> db \<Rightarrow> admission option" where
  "item_admission item_id d = find (\<lambda>a. ad_item_id a = item_id) (admissions d)"

definition runtime_item :: "db \<Rightarrow> queue_item \<Rightarrow> bool" where
  "runtime_item d i \<longleftrightarrow> list_ex (\<lambda>g. rg_repo_key g = qi_repo_key i) (repositories d)
     \<and> list_ex (\<lambda>p. pl_repo_key p = qi_repo_key i) (policies d) \<and> item_admission (qi_id i) d \<noteq> None"

datatype workspace_state =
  NotCreated | WorkspaceIntent string | WorkspaceRetained workspace_identity | WorkspaceCleaned

definition item_workspace :: "queue_item \<Rightarrow> workspace_state result" where
  "item_workspace i =
     (case (qi_workspace_path i, qi_workspace_rift_id i, qi_workspace_source_rift_id i, qi_workspace_cleaned_at i) of
        (None, None, None, None) \<Rightarrow> Ok NotCreated
      | (Some path, None, None, None) \<Rightarrow> Ok (WorkspaceIntent path)
      | (Some path, Some r, Some s, None) \<Rightarrow> Ok (WorkspaceRetained \<lparr>ws_path = path, ws_rift_id = r, ws_source_rift_id = s\<rparr>)
      | (None, None, None, Some _) \<Rightarrow> Ok WorkspaceCleaned
      | _ \<Rightarrow> Err (Bail ''invalid queue item workspace state''))"

definition get_item :: "string \<Rightarrow> db \<Rightarrow> queue_item result" where
  "get_item item_id d =
     bnd (fetch (\<lambda>i. qi_id i = item_id \<and> runtime_item d i) (queue_items d) (NoRow (''queue item not found: '' @ item_id))) (\<lambda>i.
     bnd (item_workspace i) (\<lambda>_. Ok i))"

definition effort_owned :: "string \<Rightarrow> db \<Rightarrow> bool" where
  "effort_owned item_id d \<longleftrightarrow> list_ex (\<lambda>e. ef_item_id e = item_id) (efforts d)"

definition record_event_tx :: "string \<Rightarrow> string \<Rightarrow> string \<Rightarrow> string \<Rightarrow> string \<Rightarrow> db \<Rightarrow> db result" where
  "record_event_tx now event_id item_id event_type message d =
     (if list_ex (\<lambda>e. qe_id e = event_id) (queue_events d) then Err (Abort ''UNIQUE constraint failed: queue_events.id'')
      else if \<not> list_ex (\<lambda>i. qi_id i = item_id) (queue_items d) then Err (Abort ''FOREIGN KEY constraint failed'')
      else Ok (d\<lparr>queue_events := queue_events d @ [\<lparr>qe_id = event_id, qe_item_id = item_id, qe_event_type = event_type,
             qe_message = message, qe_created_at = now\<rparr>]\<rparr>))"

definition new_item :: "string \<Rightarrow> string \<Rightarrow> string \<Rightarrow> string \<Rightarrow> queue_item" where
  "new_item item_id repo_key target_ref now =
     \<lparr>qi_id = item_id, qi_repo_key = repo_key, qi_target_ref = target_ref, qi_status = QReady, qi_current_attempt_id = None,
      qi_blocked_phase = None, qi_blocked_reason = None, qi_blocked_message = None, qi_prompt_id = None, qi_conflict = None,
      qi_workspace_path = None, qi_workspace_rift_id = None, qi_workspace_source_rift_id = None, qi_workspace_cleaned_at = None,
      qi_target_sha = None, qi_source_sha = None, qi_landed_commit_sha = None, qi_landing_state = LandingReady,
      qi_replacement = None, qi_created_at = now, qi_updated_at = now\<rparr>"

definition insert_item :: "queue_item \<Rightarrow> db \<Rightarrow> db result" where
  "insert_item i d =
     (if \<not> like_heads (qi_target_ref i) then Err (Abort ''CHECK constraint failed: queue_items'')
      else if list_ex (\<lambda>x. qi_id x = qi_id i) (queue_items d) then Err (Abort ''UNIQUE constraint failed: queue_items.id'')
      else if \<not> list_ex (\<lambda>g. rg_repo_key g = qi_repo_key i) (repositories d) then Err (Abort ''FOREIGN KEY constraint failed'')
      else Ok (d\<lparr>queue_items := queue_items d @ [i]\<rparr>))"

definition admission_check :: "admission \<Rightarrow> bool" where
  "admission_check a \<longleftrightarrow>
     sha_check (ad_head_sha a) \<and> like_heads (ad_target_ref a)
     \<and> (case ad_base_sha a of None \<Rightarrow> True | Some b \<Rightarrow> sha_check b)
     \<and> (case ad_kind a of
          AdmitLocalSubmission \<Rightarrow> ad_source_ref a \<noteq> None \<and> ad_submission_id a \<noteq> None \<and> ad_provider a = None \<and> ad_base_sha a = None
            \<and> ad_merge_request_identity a = None \<and> ad_merge_request_url a = None
        | AdmitDirect \<Rightarrow> ad_source_ref a = None \<and> ad_submission_id a = None \<and> ad_provider a = None \<and> ad_base_sha a = None
            \<and> ad_merge_request_identity a = None \<and> ad_merge_request_url a = None
        | AdmitMergeRequest \<Rightarrow> ad_source_ref a = None \<and> ad_submission_id a = None \<and> ad_provider a \<noteq> None \<and> ad_base_sha a \<noteq> None
            \<and> ad_merge_request_identity a \<noteq> None \<and> ad_merge_request_identity a \<noteq> Some []
            \<and> ad_merge_request_url a \<noteq> None \<and> ad_merge_request_url a \<noteq> Some []
        | AdmitHistoricalMergeRequest \<Rightarrow> ad_source_ref a = None \<and> ad_submission_id a = None \<and> ad_provider a \<noteq> None
            \<and> ad_merge_request_identity a \<noteq> None \<and> ad_merge_request_identity a \<noteq> Some []
            \<and> ad_merge_request_url a \<noteq> None \<and> ad_merge_request_url a \<noteq> Some [])"

definition insert_admission :: "admission \<Rightarrow> db \<Rightarrow> db result" where
  "insert_admission a d =
     (if \<not> list_ex (\<lambda>i. qi_id i = ad_item_id a \<and> qi_target_ref i = ad_target_ref a) (queue_items d)
      then Err (Abort ''queue admission target differs from queue item authority'')
      else if ad_kind a = AdmitHistoricalMergeRequest
        \<and> \<not> list_ex (\<lambda>i. qi_id i = ad_item_id a \<and> \<not> active_status (qi_status i)) (queue_items d)
      then Err (Abort ''historical MR admission requires a terminal queue item'')
      else if ad_kind a = AdmitLocalSubmission
        \<and> \<not> list_ex (\<lambda>s. ad_submission_id a = Some (su_id s) \<and> list_ex (\<lambda>i. qi_id i = ad_item_id a \<and> qi_repo_key i = su_repo_key s) (queue_items d)
             \<and> su_commit_sha s = ad_head_sha a \<and> ad_source_ref a = Some (su_private_ref s) \<and> su_queue_item_id s = ad_item_id a
             \<and> su_state s = SubCreating) (submissions d)
      then Err (Abort ''local queue admission does not match exact submission intent'')
      else if \<not> admission_check a then Err (Abort ''CHECK constraint failed: queue_admissions'')
      else if list_ex (\<lambda>x. ad_item_id x = ad_item_id a) (admissions d)
      then Err (Abort ''queue admission insert conflicts with immutable identity'')
      else Ok (d\<lparr>admissions := admissions d @ [a]\<rparr>))"

definition reservation_of :: "state_repository_snapshot \<Rightarrow> reservation_state" where
  "reservation_of snapshot =
     (case snapshot_issue snapshot of
        None \<Rightarrow> ReservationNone
      | Some issue \<Rightarrow> if irs_visibility issue = Full then ReservationPending else ReservationNone)"

definition insert_state_repository_binding :: "string \<Rightarrow> string \<Rightarrow> state_repository_snapshot \<Rightarrow> db \<Rightarrow> db result" where
  "insert_state_repository_binding now item_id snapshot d =
     (if list_ex (\<lambda>b. sr_item_id b = item_id) (bindings d) then Err (Abort ''UNIQUE constraint failed: item_state_repository_bindings'')
      else Ok (d\<lparr>bindings := bindings d @ [\<lparr>sr_item_id = item_id, sr_snapshot = snapshot,
             sr_reservation_state = reservation_of snapshot, sr_bound_at = now\<rparr>]\<rparr>))"

section \<open>Admission\<close>

record direct_request =
  dr_repo_key :: string
  dr_source_branch :: string
  dr_current_head_sha :: string
  dr_state_repository :: state_repository_snapshot

text \<open>The item that already tracks the branch, if any; \<open>fresh\<close> gives the identifiers of the item and of the event.\<close>

definition direct_existing :: "direct_request \<Rightarrow> string \<Rightarrow> db \<Rightarrow> (queue_item \<times> admission) option" where
  "direct_existing r target_ref d =
     find (\<lambda>(i, a). ad_item_id a = qi_id i \<and> qi_repo_key i = dr_repo_key r \<and> qi_target_ref i = target_ref
             \<and> ad_source_branch a = dr_source_branch r \<and> active_status (qi_status i)) (List.product (queue_items d) (admissions d))"

definition admit_direct :: "string \<Rightarrow> (nat \<Rightarrow> string) \<Rightarrow> direct_request \<Rightarrow> target_ref \<Rightarrow> db \<Rightarrow> (db \<times> string) result" where
  "admit_direct now fresh r target d =
     bnd (snapshot_validate (dr_state_repository r)) (\<lambda>snapshot.
     bnd (require (list_ex (\<lambda>g. rg_repo_key g = dr_repo_key r) (repositories d))
            (Bail (''cannot enqueue for unknown repository '' @ dr_repo_key r))) (\<lambda>_.
     bnd (fetch (\<lambda>p. pl_repo_key p = dr_repo_key r) (policies d) (Bail (''cannot enqueue for unknown repository '' @ dr_repo_key r))) (\<lambda>row.
     bnd (require_oid (object_format (po_canonical_repository (pl_policy row))) (dr_current_head_sha r) ''direct admission head'') (\<lambda>_.
     bnd (require_new_work (po_operation_state (pl_policy row))) (\<lambda>_.
     bnd (require (po_integration_policy (pl_policy row) = Direct) (Bail ''repository policy rejects direct admission'')) (\<lambda>_.
     case direct_existing r (target_ref_str target) d of
       Some (i, a) \<Rightarrow>
         bnd (require (ad_head_sha a = dr_current_head_sha r)
                (Bail (''active queue item '' @ qi_id i @ '' already tracks '' @ ad_head_sha a
                   @ ''; update blocked agent work through requeue instead of enqueue''))) (\<lambda>_.
         bnd (fetch (\<lambda>b. sr_item_id b = qi_id i) (bindings d) (NoRow ''item_state_repository_bindings'')) (\<lambda>b.
         bnd (require (sr_snapshot b = snapshot) (Bail ''active queue item has a different state-repository binding'')) (\<lambda>_.
         Ok (d, qi_id i))))
     | None \<Rightarrow>
         bnd (insert_item (new_item (fresh 0) (dr_repo_key r) (target_ref_str target) now) d) (\<lambda>d.
         bnd (insert_admission \<lparr>ad_item_id = fresh 0, ad_kind = AdmitDirect, ad_source_branch = dr_source_branch r,
                ad_head_sha = dr_current_head_sha r, ad_source_ref = None, ad_submission_id = None, ad_provider = None,
                ad_target_ref = target_ref_str target, ad_base_sha = None, ad_merge_request_identity = None,
                ad_merge_request_url = None, ad_admitted_at = now\<rparr> d) (\<lambda>d.
         bnd (record_event_tx now (fresh 1) (fresh 0) ''item_enqueued'' ''item enqueued'' d) (\<lambda>d.
         bnd (insert_state_repository_binding now (fresh 0) snapshot d) (\<lambda>d.
         Ok (d, fresh 0)))))))))))"

record merge_request_admission =
  ma_provider :: provider_repository
  ma_target_ref :: target_ref
  ma_identity :: string
  ma_url :: string
  ma_source_branch :: string
  ma_head_sha :: string
  ma_base_sha :: "string option"

definition merge_request_source :: "merge_request_admission \<Rightarrow> string" where
  "merge_request_source m =
     (case pr_provider (ma_provider m) of
        Github \<Rightarrow> ''refs/pull/'' @ ma_identity m @ ''/head''
      | Gitlab \<Rightarrow> ''refs/merge-requests/'' @ ma_identity m @ ''/head'')"

definition merge_request_existing :: "string \<Rightarrow> merge_request_admission \<Rightarrow> db \<Rightarrow> (queue_item \<times> admission) option" where
  "merge_request_existing repo_key m d =
     find (\<lambda>(i, a). ad_item_id a = qi_id i \<and> qi_repo_key i = repo_key \<and> ad_kind a = AdmitMergeRequest
             \<and> (case ad_provider a of None \<Rightarrow> False
                | Some p \<Rightarrow> pr_provider p = pr_provider (ma_provider m) \<and> pr_repository p = pr_repository (ma_provider m))
             \<and> ad_merge_request_identity a = Some (ma_identity m) \<and> active_status (qi_status i))
       (List.product (queue_items d) (admissions d))"

definition admit_merge_request ::
    "string \<Rightarrow> (nat \<Rightarrow> string) \<Rightarrow> string \<Rightarrow> merge_request_admission \<Rightarrow> state_repository_snapshot \<Rightarrow> db \<Rightarrow> (db \<times> string) result" where
  "admit_merge_request now fresh repo_key m state_repository d =
     bnd (snapshot_validate state_repository) (\<lambda>snapshot.
     bnd (require (merge_request_source m = ma_source_branch m)
            (Bail ''merge-request source ref differs from exact provider identity'')) (\<lambda>_.
     bnd (fetch (\<lambda>p. pl_repo_key p = repo_key \<and> list_ex (\<lambda>g. rg_repo_key g = repo_key) (repositories d)) (policies d)
            (NoRow ''repository_policies'')) (\<lambda>row.
     bnd (require_new_work (po_operation_state (pl_policy row))) (\<lambda>_.
     bnd (require (po_integration_policy (pl_policy row) = MergeRequestRequired)
            (Bail ''repository policy rejects merge-request admission'')) (\<lambda>_.
     let canonical = po_canonical_repository (pl_policy row) in
     bnd (require_oid (object_format canonical) (ma_head_sha m) ''admitted MR head SHA'') (\<lambda>_.
     bnd (case ma_base_sha m of
            None \<Rightarrow> Err (Bail ''merge-request admission requires exact admitted base SHA'')
          | Some b \<Rightarrow> require_oid (object_format canonical) b ''admitted MR base SHA'') (\<lambda>_.
     bnd (case repository_provider canonical of
            None \<Rightarrow> Err (Bail ''merge-request policy has no canonical provider identity'')
          | Some configured \<Rightarrow> require (configured = ma_provider m)
              (Bail ''merge request does not belong to canonical provider repository'')) (\<lambda>_.
     case merge_request_existing repo_key m d of
       Some (i, a) \<Rightarrow>
         bnd (require (qi_target_ref i = target_ref_str (ma_target_ref m) \<and> ad_target_ref a = target_ref_str (ma_target_ref m))
                (Bail ''active merge request cannot change its exact target identity'')) (\<lambda>_.
         bnd (require (ad_head_sha a = ma_head_sha m \<and> ad_base_sha a = ma_base_sha m \<and> ad_merge_request_url a = Some (ma_url m))
                (Bail ''active merge-request admission has different immutable identity'')) (\<lambda>_.
         Ok (d, qi_id i)))
     | None \<Rightarrow>
         bnd (insert_item (new_item (fresh 0) repo_key (target_ref_str (ma_target_ref m)) now) d) (\<lambda>d.
         bnd (insert_admission \<lparr>ad_item_id = fresh 0, ad_kind = AdmitMergeRequest, ad_source_branch = merge_request_source m,
                ad_head_sha = ma_head_sha m, ad_source_ref = None, ad_submission_id = None, ad_provider = Some (ma_provider m),
                ad_target_ref = target_ref_str (ma_target_ref m), ad_base_sha = ma_base_sha m,
                ad_merge_request_identity = Some (ma_identity m), ad_merge_request_url = Some (ma_url m), ad_admitted_at = now\<rparr> d) (\<lambda>d.
         bnd (record_event_tx now (fresh 1) (fresh 0) ''merge_request_admitted'' ''coding-agent merge request admitted with exact head'' d) (\<lambda>d.
         bnd (insert_state_repository_binding now (fresh 0) snapshot d) (\<lambda>d.
         Ok (d, fresh 0)))))))))))))"

section \<open>Claim\<close>

text \<open>\<open>ORDER BY created_at, id LIMIT 1\<close> over the active items of a target.\<close>

definition oldest_active_item_for_target :: "string \<Rightarrow> string \<Rightarrow> db \<Rightarrow> queue_item option" where
  "oldest_active_item_for_target repo_key target_ref d =
     (case sort_key (\<lambda>i. (qi_created_at i, qi_id i))
             (filter (\<lambda>i. runtime_item d i \<and> qi_repo_key i = repo_key \<and> qi_target_ref i = target_ref \<and> active_status (qi_status i))
                (queue_items d)) of
        [] \<Rightarrow> None | i # _ \<Rightarrow> Some i)"

text \<open>Active items that no older active item of their target precedes; for \<open>oldest_active_item\<close> a blocked one comes last.\<close>

definition precedes :: "queue_item \<Rightarrow> queue_item \<Rightarrow> bool" where
  "precedes i j \<longleftrightarrow> qi_repo_key i = qi_repo_key j \<and> qi_target_ref i = qi_target_ref j \<and> active_status (qi_status i)
     \<and> (qi_created_at i < qi_created_at j \<or> (qi_created_at i = qi_created_at j \<and> qi_id i < qi_id j))"

definition oldest_active_item :: "string \<Rightarrow> db \<Rightarrow> queue_item option" where
  "oldest_active_item repo_key d =
     (case sort_key (\<lambda>i. (qi_status i = QBlocked, qi_created_at i, qi_id i))
             (filter (\<lambda>i. runtime_item d i \<and> qi_repo_key i = repo_key \<and> active_status (qi_status i)
                \<and> \<not> list_ex (\<lambda>j. precedes j i) (queue_items d)) (queue_items d)) of
        [] \<Rightarrow> None | i # _ \<Rightarrow> Some i)"

definition next_resumable_active_item :: "string \<Rightarrow> db \<Rightarrow> queue_item option" where
  "next_resumable_active_item repo_key d =
     (case sort_key (\<lambda>i. (qi_created_at i, qi_id i))
             (filter (\<lambda>i. runtime_item d i \<and> qi_repo_key i = repo_key
                \<and> qi_status i \<in> {QMerging, QMerged, QValidating, QValidated, QIntegrating}
                \<and> \<not> list_ex (\<lambda>j. precedes j i) (queue_items d)) (queue_items d)) of
        [] \<Rightarrow> None | i # _ \<Rightarrow> Some i)"

definition next_attempt_number :: "string \<Rightarrow> db \<Rightarrow> nat" where
  "next_attempt_number item_id d = Suc (foldr max (map at_number (filter (\<lambda>a. at_item_id a = item_id) (attempts d))) 0)"

definition insert_attempt :: "attempt \<Rightarrow> db \<Rightarrow> db result" where
  "insert_attempt a d =
     (if list_ex (\<lambda>x. at_id x = at_id a \<or> (at_item_id x = at_item_id a \<and> at_number x = at_number a)) (attempts d)
      then Err (Abort ''UNIQUE constraint failed: integration_attempts'')
      else if \<not> list_ex (\<lambda>i. qi_id i = at_item_id a) (queue_items d) then Err (Abort ''FOREIGN KEY constraint failed'')
      else Ok (d\<lparr>attempts := attempts d @ [a]\<rparr>))"

definition new_attempt :: "string \<Rightarrow> string \<Rightarrow> nat \<Rightarrow> string \<Rightarrow> string \<Rightarrow> string \<Rightarrow> attempt" where
  "new_attempt attempt_id item_id number head snapshot digest =
     \<lparr>at_id = attempt_id, at_item_id = item_id, at_number = number, at_source_head_sha = head, at_target_base_sha = None,
      at_merge_commit_sha = None, at_validated_commit_sha = None, at_landed_commit_sha = None, at_validation_command = None,
      at_validation_exit_code = None, at_validation_log_path = None, at_policy_snapshot = Some snapshot,
      at_policy_digest = Some digest, at_signoff_evidence = None, at_moved_base = MovedNone, at_finished_at = None, at_result = None\<rparr>"

definition claim_next_ready ::
    "(string \<Rightarrow> string \<Rightarrow> unit result) \<Rightarrow> string \<Rightarrow> (nat \<Rightarrow> string) \<Rightarrow> string \<Rightarrow> target_ref \<Rightarrow> mutation_authority \<Rightarrow> string \<Rightarrow> string
     \<Rightarrow> db \<Rightarrow> (db \<times> (string \<times> string) option) result" where
  "claim_next_ready verify_policy now fresh repo_key target authority snapshot digest d =
     (case oldest_active_item_for_target repo_key (target_ref_str target) d of
        None \<Rightarrow> Ok (d, None)
      | Some item \<Rightarrow>
          bnd (require_mutation_authority now (qi_repo_key item) authority d) (\<lambda>_.
          bnd (require_obligation_tx (qi_repo_key item) (QueueItemObligation (qi_id item)) d) (\<lambda>_.
          if qi_status item \<noteq> QReady then Ok (d, None)
          else
            bnd (verify_policy snapshot digest) (\<lambda>_.
            bnd (case item_admission (qi_id item) d of
                   None \<Rightarrow> Err (NoRow ''queue_admissions'')
                 | Some a \<Rightarrow> insert_attempt (new_attempt (fresh 0) (qi_id item) (next_attempt_number (qi_id item) d) (ad_head_sha a)
                     snapshot digest) d) (\<lambda>d.
            bnd (update_item_status (\<lambda>i. qi_id i = qi_id item)
                   (\<lambda>i. i\<lparr>qi_status := QMerging, qi_current_attempt_id := Some (fresh 0), qi_landing_state := LandingReady,
                          qi_blocked_phase := None, qi_blocked_reason := None, qi_blocked_message := None,
                          qi_prompt_id := None, qi_updated_at := now\<rparr>) d) (\<lambda>(d, n).
            bnd (record_event_tx now (fresh 1) (qi_id item) ''attempt_started'' ''claimed ready item for merging'' d) (\<lambda>d.
            Ok (d, Some (qi_id item, fresh 0)))))))))"

section \<open>Transitions before an effort owns the item\<close>

text \<open>What the cancellation of an item without an effort does to its prompts, submission, attempt and workspace.\<close>

definition release_local_submission :: "string \<Rightarrow> db \<Rightarrow> db result" where
  "release_local_submission item_id d =
     (case item_admission item_id d of
        None \<Rightarrow> Ok d
      | Some a \<Rightarrow>
          (case (ad_kind a, ad_submission_id a) of
             (AdmitLocalSubmission, Some sid) \<Rightarrow>
               bnd (fetch (\<lambda>s. su_id s = sid) (submissions d) (NoRow ''local_submissions'')) (\<lambda>s.
               let w = (\<lambda>x. dw_id x = su_workspace_id s \<and> dw_status x = WsSubmitted); q = (\<lambda>x. su_id x = sid \<and> su_state x = SubQueued) in
               bnd (require (changed w (workspaces d) = 1)
                      (Bail ''cancelled local submission workspace cannot return to reusable state'')) (\<lambda>_.
               bnd (require (changed q (submissions d) = 1) (Bail ''cancelled local submission is not queued'')) (\<lambda>_.
               Ok (d\<lparr>workspaces := modify w (\<lambda>x. x\<lparr>dw_status := WsActive\<rparr>) (workspaces d),
                     submissions := modify q (\<lambda>x. x\<lparr>su_state := SubCancelled\<rparr>) (submissions d)\<rparr>))))
           | _ \<Rightarrow> Ok d))"

definition close_attempt :: "string \<Rightarrow> queue_item \<Rightarrow> db \<Rightarrow> db" where
  "close_attempt now item d =
     (case qi_current_attempt_id item of
        None \<Rightarrow> d
      | Some a \<Rightarrow> fst (update_attempts (\<lambda>x. at_id x = a \<and> at_result x = None)
          (\<lambda>x. x\<lparr>at_result := Some ''cancelled'', at_finished_at := Some now\<rparr>) d))"

definition owe_workspace_cleanup :: "string \<Rightarrow> queue_item \<Rightarrow> db \<Rightarrow> db result" where
  "owe_workspace_cleanup now item d =
     bnd (item_workspace item) (\<lambda>w.
      case w of
        WorkspaceIntent path \<Rightarrow> insert_cleanup_debt (qi_id item) (CreationIntent path) now d
      | WorkspaceRetained w \<Rightarrow> insert_cleanup_debt (qi_id item) (Retained w) now d
      | _ \<Rightarrow> Ok d)"

definition cancel_prompts :: "string \<Rightarrow> db \<Rightarrow> db" where
  "cancel_prompts item_id d =
     d\<lparr>prompts := modify (\<lambda>p. pm_item_id p = item_id \<and> pm_status p = ''open'') (\<lambda>p. p\<lparr>pm_status := ''cancelled''\<rparr>) (prompts d)\<rparr>"

definition cancel_item_effects :: "string \<Rightarrow> queue_item \<Rightarrow> db \<Rightarrow> db result" where
  "cancel_item_effects now item d =
     bnd (require (\<not> list_ex (\<lambda>s. su_replaces_item_id s = Some (qi_id item) \<and> su_state s = SubCreating) (submissions d))
            (Bail ''item has an incomplete immutable replacement; finish that submission before cancellation'')) (\<lambda>_.
     bnd (release_local_submission (qi_id item) (cancel_prompts (qi_id item) d)) (\<lambda>d.
     owe_workspace_cleanup now item (close_attempt now item d)))"

definition transition_item :: "string \<Rightarrow> string \<Rightarrow> string \<Rightarrow> queue_status \<Rightarrow> mutation_authority \<Rightarrow> db \<Rightarrow> db result" where
  "transition_item now event_id item_id target authority d =
     bnd (get_item item_id d) (\<lambda>item.
     bnd (require (\<not> effort_owned item_id d) (Bail ''queue lifecycle is read-only after integration effort creation'')) (\<lambda>_.
     bnd (require (authority = Cancellation \<longrightarrow> target = QCancelled) (Bail ''cancellation authority can only cancel a queue item'')) (\<lambda>_.
     bnd (require_mutation_authority now (qi_repo_key item) authority d) (\<lambda>_.
     bnd (if target = QCancelled then Ok () else require_obligation_tx (qi_repo_key item) (QueueItemObligation item_id) d) (\<lambda>_.
     bnd (queue_transition (qi_status item) target) (\<lambda>_.
     bnd (require (\<not> (target = QCancelled \<and> landing_external_authority (qi_landing_state item)))
            (Bail (''item '' @ item_id @ '' has external landing authority and cannot be cancelled''))) (\<lambda>_.
     bnd (if target = QCancelled then cancel_item_effects now item d else Ok d) (\<lambda>d.
     bnd (update_item_status (\<lambda>i. qi_id i = item_id)
            (\<lambda>i. i\<lparr>qi_status := target, qi_replacement := (if target = QCancelled then None else qi_replacement i),
                   qi_updated_at := now\<rparr>) d) (\<lambda>(d, n).
     record_event_tx now event_id item_id ''item_transitioned'' (''transitioned to '' @ status_text target) d)))))))))"

definition cancel_item_without_effort :: "string \<Rightarrow> string \<Rightarrow> string \<Rightarrow> db \<Rightarrow> db result" where
  "cancel_item_without_effort now event_id item_id d = transition_item now event_id item_id QCancelled Cancellation d"

definition insert_prompt :: "prompt \<Rightarrow> db \<Rightarrow> db result" where
  "insert_prompt p d =
     (if list_ex (\<lambda>x. pm_id x = pm_id p) (prompts d) then Err (Abort ''UNIQUE constraint failed: prompts.id'')
      else if \<not> list_ex (\<lambda>i. qi_id i = pm_item_id p) (queue_items d) then Err (Abort ''FOREIGN KEY constraint failed'')
      else Ok (d\<lparr>prompts := prompts d @ [p]\<rparr>))"

definition block_item_from_status ::
    "string \<Rightarrow> (nat \<Rightarrow> string) \<Rightarrow> string \<Rightarrow> queue_status \<Rightarrow> blocked_phase \<Rightarrow> blocked_reason \<Rightarrow> string \<Rightarrow> mutation_authority \<Rightarrow> db
     \<Rightarrow> (db \<times> string) result" where
  "block_item_from_status now fresh item_id expected phase reason message authority d =
     bnd (get_item item_id d) (\<lambda>item.
     bnd (require (\<not> effort_owned item_id d) (Bail ''queue lifecycle is read-only after integration effort creation'')) (\<lambda>_.
     bnd (require_mutation_authority now (qi_repo_key item) authority d) (\<lambda>_.
     bnd (require (qi_status item = expected)
            (Bail (''item '' @ item_id @ '' in status '' @ status_text (qi_status item) @ '' cannot block in '' @ phase_text phase))) (\<lambda>_.
     let prompt = (if reason = NeedsUserInput then Some (fresh 0) else None) in
     bnd (case prompt of
            None \<Rightarrow> Ok d
          | Some p \<Rightarrow> insert_prompt \<lparr>pm_id = p, pm_item_id = item_id, pm_attempt_id = qi_current_attempt_id item,
              pm_blocked_phase = phase, pm_status = ''open'', pm_question = message, pm_created_at = now\<rparr> d) (\<lambda>d.
     bnd (update_item_status (\<lambda>i. qi_id i = item_id)
            (\<lambda>i. i\<lparr>qi_status := QBlocked, qi_blocked_phase := Some phase, qi_blocked_reason := Some reason,
                   qi_blocked_message := Some (MessageText message), qi_prompt_id := prompt, qi_updated_at := now\<rparr>) d) (\<lambda>(d, n).
     bnd (record_event_tx now (fresh 1) item_id ''item_blocked'' (phase_text phase @ ''/'' @ reason_text reason @ '': '' @ message) d) (\<lambda>d.
     Ok (d, case prompt of None \<Rightarrow> [] | Some p \<Rightarrow> p))))))))"

definition block_item_owned ::
    "string \<Rightarrow> (nat \<Rightarrow> string) \<Rightarrow> string \<Rightarrow> blocked_phase \<Rightarrow> blocked_reason \<Rightarrow> string \<Rightarrow> string \<Rightarrow> string \<Rightarrow> db \<Rightarrow> (db \<times> string) result" where
  "block_item_owned now fresh item_id phase reason message repo_key owner_id d =
     block_item_from_status now fresh item_id (status_of_phase phase) phase reason message (RepositoryLease repo_key owner_id) d"

definition block_integrating_recovery_owned ::
    "string \<Rightarrow> (nat \<Rightarrow> string) \<Rightarrow> string \<Rightarrow> blocked_phase \<Rightarrow> blocked_reason \<Rightarrow> string \<Rightarrow> string \<Rightarrow> string \<Rightarrow> db \<Rightarrow> (db \<times> string) result" where
  "block_integrating_recovery_owned now fresh item_id phase reason message repo_key owner_id d =
     bnd (require (phase = PhaseMerging \<or> phase = PhaseValidating)
            (Bail ''integrating recovery may only resume merging or validating'')) (\<lambda>_.
     block_item_from_status now fresh item_id QIntegrating phase reason message (RepositoryLease repo_key owner_id) d)"

section \<open>Draining\<close>

text \<open>The trigger \<open>repository_policy_operation_transition\<close> on an update of the revision and the operation state.\<close>

definition operation_transition :: "policy_row \<Rightarrow> policy_row \<Rightarrow> bool" where
  "operation_transition old new \<longleftrightarrow> pl_revision new = Suc (pl_revision old)
     \<and> (case (po_operation_state (pl_policy old), po_operation_state (pl_policy new)) of
          (Enabled, Draining _) \<Rightarrow> True | (Draining _, Disabled) \<Rightarrow> True | _ \<Rightarrow> False)"

definition update_operation_state :: "string \<Rightarrow> nat \<Rightarrow> operation_state \<Rightarrow> db \<Rightarrow> (db \<times> nat) result" where
  "update_operation_state repo_key revision state d =
     (let p = (\<lambda>r. pl_repo_key r = repo_key \<and> pl_revision r = revision);
          f = (\<lambda>r. r\<lparr>pl_revision := Suc (pl_revision r), pl_policy := (pl_policy r)\<lparr>po_operation_state := state\<rparr>\<rparr>)
      in if list_ex (\<lambda>r. p r \<and> \<not> operation_transition r (f r)) (policies d)
         then Err (Abort ''invalid repository operation-state transition'')
         else Ok (d\<lparr>policies := modify p f (policies d)\<rparr>, changed p (policies d)))"

text \<open>Everything unfinished in the repository.\<close>

definition captured_obligations :: "string \<Rightarrow> db \<Rightarrow> obligation set" where
  "captured_obligations repo_key d =
     set (map (\<lambda>w. WorkspaceObligation (dw_id w)) (filter (\<lambda>w. dw_repo_key w = repo_key \<and> dw_status w \<noteq> WsRemoved) (workspaces d)))
     \<union> set (map (\<lambda>i. QueueItemObligation (qi_id i)) (filter (\<lambda>i. qi_repo_key i = repo_key \<and> active_status (qi_status i)) (queue_items d)))
     \<union> set (map (\<lambda>x. ReplicationObligation (xd_id x))
            (filter (\<lambda>x. xd_repo_key x = repo_key \<and> xd_outcome x \<noteq> OutSucceeded \<and> xd_outcome x \<noteq> OutSuperseded) (replication_debts d)))"

definition begin_repository_draining :: "string \<Rightarrow> string \<Rightarrow> string \<Rightarrow> string \<Rightarrow> db \<Rightarrow> db result" where
  "begin_repository_draining now expires repo_key owner_id d =
     composition_transaction now expires repo_key owner_id (\<lambda>d.
       bnd (fetch (\<lambda>p. pl_repo_key p = repo_key) (policies d) (NoRow ''repository_policies'')) (\<lambda>row.
       bnd (require (po_operation_state (pl_policy row) = Enabled) (Bail ''only an enabled repository can enter draining'')) (\<lambda>_.
       bnd (require (\<not> list_ex (\<lambda>s. su_repo_key s = repo_key \<and> su_state s = SubCreating) (submissions d))
              (Bail ''repository has an incomplete local submission intent'')) (\<lambda>_.
       bnd (update_operation_state repo_key (pl_revision row) (Draining (captured_obligations repo_key d)) d) (\<lambda>(d, n).
       bnd (require (n = 1) (Bail ''repository policy changed during draining transition'')) (\<lambda>_. Ok d)))))) d"

text \<open>The query asks for a cleanup debt whose state is not \<open>complete\<close>; the table has no such state, so every debt counts.\<close>

definition obligation_complete :: "string \<Rightarrow> db \<Rightarrow> obligation \<Rightarrow> bool" where
  "obligation_complete repo_key d ob =
     (case ob of
        WorkspaceObligation i \<Rightarrow>
          (case find (\<lambda>w. dw_id w = i \<and> dw_repo_key w = repo_key) (workspaces d) of None \<Rightarrow> False | Some w \<Rightarrow> dw_status w = WsRemoved)
      | QueueItemObligation i \<Rightarrow>
          (case find (\<lambda>x. qi_id x = i \<and> qi_repo_key x = repo_key) (queue_items d) of
             None \<Rightarrow> False
           | Some x \<Rightarrow>
               \<not> active_status (qi_status x) \<and> (qi_workspace_path x = None \<or> qi_workspace_cleaned_at x \<noteq> None)
               \<and> \<not> list_ex (\<lambda>w. wd_item_id w = i) (cleanup_debts d)
               \<and> \<not> list_ex (\<lambda>y. xd_item_id y = i \<and> xd_outcome y \<noteq> OutSucceeded \<and> xd_outcome y \<noteq> OutSuperseded) (replication_debts d))
      | ReplicationObligation i \<Rightarrow>
          (case find (\<lambda>y. xd_id y = i \<and> xd_repo_key y = repo_key) (replication_debts d) of
             None \<Rightarrow> False | Some y \<Rightarrow> xd_outcome y = OutSucceeded \<or> xd_outcome y = OutSuperseded))"

definition disable_drained_repository :: "string \<Rightarrow> string \<Rightarrow> string \<Rightarrow> string \<Rightarrow> db \<Rightarrow> db result" where
  "disable_drained_repository now expires repo_key owner_id d =
     composition_transaction now expires repo_key owner_id (\<lambda>d.
       bnd (fetch (\<lambda>p. pl_repo_key p = repo_key) (policies d) (NoRow ''repository_policies'')) (\<lambda>row.
       bnd (case po_operation_state (pl_policy row) of
              Draining obligations \<Rightarrow> Ok obligations
            | _ \<Rightarrow> Err (Bail ''only a draining repository can be disabled'')) (\<lambda>obligations.
       bnd (require (\<forall>ob \<in> obligations. obligation_complete repo_key d ob)
              (Bail ''captured draining obligation is not terminal and clean'')) (\<lambda>_.
       bnd (update_operation_state repo_key (pl_revision row) Disabled d) (\<lambda>(d, n).
       bnd (require (n = 1) (Bail ''repository policy changed during disable transition'')) (\<lambda>_. Ok d)))))) d"

section \<open>Development workspaces\<close>

definition save_development_workspace :: "string \<Rightarrow> string \<Rightarrow> string \<Rightarrow> development_workspace \<Rightarrow> db \<Rightarrow> db result" where
  "save_development_workspace now expires owner_id w d =
     composition_transaction now expires (dw_repo_key w) owner_id (\<lambda>d.
       bnd (require_new_work_tx (dw_repo_key w) d) (\<lambda>_.
       bnd (repository_object_format (dw_repo_key w) d) (\<lambda>f.
       bnd (require_oid f (dw_expected_target_sha w) ''development workspace expected target'') (\<lambda>_.
       if \<not> like_heads (dw_target_ref w) \<or> \<not> sha_check (dw_expected_target_sha w)
       then Err (Abort ''CHECK constraint failed: development_workspaces'')
       else if list_ex (\<lambda>x. dw_id x = dw_id w \<or> dw_path x = dw_path w \<or> dw_branch x = dw_branch w
               \<or> (dw_repo_key x = dw_repo_key w \<and> dw_name x = dw_name w)) (workspaces d)
       then Err (Abort ''UNIQUE constraint failed: development_workspaces'')
       else if \<not> list_ex (\<lambda>g. rg_repo_key g = dw_repo_key w) (repositories d) then Err (Abort ''FOREIGN KEY constraint failed'')
       else Ok (d\<lparr>workspaces := workspaces d @ [w\<lparr>dw_rift_id := None, dw_source_rift_id := None\<rparr>]\<rparr>))))) d"

text \<open>\<open>register\<close> stands for the Git binding of the new workspace on disk.\<close>

definition set_development_workspace_identity ::
    "unit result \<Rightarrow> string \<Rightarrow> string \<Rightarrow> string \<Rightarrow> string \<Rightarrow> string \<Rightarrow> workspace_identity \<Rightarrow> db \<Rightarrow> db result" where
  "set_development_workspace_identity register now expires repo_key owner_id workspace_id identity d =
     composition_transaction now expires repo_key owner_id (\<lambda>d.
       bnd (require_obligation_tx repo_key (WorkspaceObligation workspace_id) d) (\<lambda>_.
       let p = (\<lambda>x. dw_id x = workspace_id \<and> dw_repo_key x = repo_key \<and> dw_status x = WsCreating \<and> dw_path x = ws_path identity) in
       bnd (require (changed p (workspaces d) = 1) (Bail ''development workspace creation intent changed'')) (\<lambda>_.
       bnd register (\<lambda>_.
       if list_ex (\<lambda>b. (gb_owner_kind b = RootDevelopment \<and> gb_owner_id b = workspace_id) \<or> gb_top_level b = ws_path identity) (git_bindings d)
       then Err (Abort ''UNIQUE constraint failed: workspace_git_bindings'')
       else Ok (d\<lparr>workspaces := modify p (\<lambda>x. x\<lparr>dw_rift_id := Some (ws_rift_id identity),
                     dw_source_rift_id := Some (ws_source_rift_id identity), dw_status := WsActive\<rparr>) (workspaces d),
                   git_bindings := git_bindings d @ [\<lparr>gb_owner_kind = RootDevelopment, gb_owner_id = workspace_id,
                     gb_top_level = ws_path identity, gb_created_at = now\<rparr>]\<rparr>))))) d"

definition drop_git_binding :: "string \<Rightarrow> db \<Rightarrow> db" where
  "drop_git_binding workspace_id d =
     d\<lparr>git_bindings := remove_rows (\<lambda>b. gb_owner_kind b = RootDevelopment \<and> gb_owner_id b = workspace_id) (git_bindings d)\<rparr>"

definition update_development_workspace_cleanup ::
    "string \<Rightarrow> string \<Rightarrow> string \<Rightarrow> string \<Rightarrow> string \<Rightarrow> workspace_status \<Rightarrow> workspace_cleanup \<Rightarrow> db \<Rightarrow> db result" where
  "update_development_workspace_cleanup now expires repo_key owner_id workspace_id status cleanup d =
     composition_transaction now expires repo_key owner_id (\<lambda>d.
       let p = (\<lambda>x. dw_id x = workspace_id \<and> dw_repo_key x = repo_key) in
       bnd (require (changed p (workspaces d) = 1) (Bail ''development workspace disappeared'')) (\<lambda>_.
       let d = d\<lparr>workspaces := modify p (\<lambda>x. x\<lparr>dw_status := status, dw_cleanup := cleanup\<rparr>) (workspaces d)\<rparr> in
       Ok (if status = WsRemoved then drop_git_binding workspace_id d else d))) d"

definition complete_development_workspace_cleanup :: "string \<Rightarrow> string \<Rightarrow> string \<Rightarrow> string \<Rightarrow> string \<Rightarrow> db \<Rightarrow> db result" where
  "complete_development_workspace_cleanup now expires repo_key owner_id workspace_id d =
     composition_transaction now expires repo_key owner_id (\<lambda>d.
       let p = (\<lambda>x. dw_id x = workspace_id \<and> dw_repo_key x = repo_key \<and> (dw_status x = WsCleanupPending \<or> dw_status x = WsCleanupFailed)) in
       bnd (require (changed p (workspaces d) = 1) (Bail ''development workspace cleanup authority changed'')) (\<lambda>_.
       Ok (drop_git_binding workspace_id
         (d\<lparr>workspaces := modify p (\<lambda>x. x\<lparr>dw_status := WsRemoved, dw_cleanup := CleanComplete now\<rparr>) (workspaces d)\<rparr>)))) d"

section \<open>Local submissions\<close>

definition insert_submission :: "submission \<Rightarrow> db \<Rightarrow> db result" where
  "insert_submission s d =
     (if \<not> sha_check (su_base_sha s) \<or> \<not> sha_check (su_commit_sha s) then Err (Abort ''CHECK constraint failed: local_submissions'')
      else if list_ex (\<lambda>x. su_id x = su_id s \<or> su_private_ref x = su_private_ref s \<or> su_staging_ref x = su_staging_ref s
             \<or> (su_workspace_id x = su_workspace_id s \<and> su_state x = SubCreating \<and> su_state s = SubCreating)) (submissions d)
      then Err (Abort ''UNIQUE constraint failed: local_submissions'')
      else if \<not> list_ex (\<lambda>w. dw_id w = su_workspace_id s) (workspaces d) \<or> \<not> list_ex (\<lambda>g. rg_repo_key g = su_repo_key s) (repositories d)
      then Err (Abort ''FOREIGN KEY constraint failed'')
      else Ok (d\<lparr>submissions := submissions d @ [s]\<rparr>))"

text \<open>A replacement is for the blocked item of the same workspace that waits for a fix by its agent.\<close>

definition replaceable :: "string \<Rightarrow> string \<Rightarrow> string \<Rightarrow> db \<Rightarrow> unit result" where
  "replaceable repo_key workspace_id item_id d =
     bnd (get_item item_id d) (\<lambda>item.
     bnd (case item_admission item_id d of
            Some a \<Rightarrow> (case (ad_kind a, ad_submission_id a) of
                (AdmitLocalSubmission, Some sid) \<Rightarrow> Ok sid | _ \<Rightarrow> Err (Bail ''replacement item is not a local submission''))
          | None \<Rightarrow> Err (Bail ''replacement item is not a local submission'')) (\<lambda>sid.
     bnd (fetch (\<lambda>s. su_id s = sid) (submissions d) (NoRow ''local_submissions'')) (\<lambda>s.
     require (qi_repo_key item = repo_key \<and> qi_status item = QBlocked \<and> qi_blocked_reason item = Some NeedsAgentFix
          \<and> su_workspace_id s = workspace_id)
       (Bail ''replacement requires the original needs-agent-fix local submission''))))"

definition begin_local_submission ::
    "string \<Rightarrow> string \<Rightarrow> (nat \<Rightarrow> string) \<Rightarrow> string \<Rightarrow> string \<Rightarrow> string \<Rightarrow> string \<Rightarrow> string option \<Rightarrow> db \<Rightarrow> db result" where
  "begin_local_submission now expires fresh repo_key owner_id workspace_id commit_sha replaces d =
     composition_transaction now expires repo_key owner_id (\<lambda>d.
       bnd (repository_object_format repo_key d) (\<lambda>f.
       bnd (require_oid f commit_sha ''local submission commit'') (\<lambda>_.
       bnd (require_obligation_tx repo_key (WorkspaceObligation workspace_id) d) (\<lambda>_.
       case find (\<lambda>s. su_workspace_id s = workspace_id \<and> su_state s = SubCreating) (submissions d) of
         Some s \<Rightarrow>
           bnd (require (su_repo_key s = repo_key \<and> su_commit_sha s = commit_sha \<and> su_replaces_item_id s = replaces)
                  (Bail ''workspace has a different incomplete immutable submission intent'')) (\<lambda>_. Ok d)
       | None \<Rightarrow>
           bnd (require_new_work_tx repo_key d) (\<lambda>_.
           bnd (fetch (\<lambda>w. dw_id w = workspace_id) (workspaces d) (NoRow (''development workspace not found: '' @ workspace_id))) (\<lambda>w.
           bnd (require (dw_repo_key w = repo_key \<and> dw_status w = (if replaces = None then WsActive else WsSubmitted))
                  (Bail ''development workspace is not in the required submission state'')) (\<lambda>_.
           bnd (require_oid f (dw_expected_target_sha w) ''local submission base'') (\<lambda>_.
           bnd (case replaces of None \<Rightarrow> Ok () | Some item_id \<Rightarrow> replaceable repo_key workspace_id item_id d) (\<lambda>_.
           insert_submission \<lparr>su_id = fresh 0, su_queue_item_id = fresh 1, su_repo_key = repo_key, su_workspace_id = workspace_id,
             su_base_sha = dw_expected_target_sha w, su_commit_sha = commit_sha, su_private_ref = ''refs/iq/submissions/'' @ fresh 0,
             su_staging_ref = ''refs/iq/staging/'' @ fresh 0, su_replaces_item_id = replaces, su_state = SubCreating,
             su_created_at = now\<rparr> d))))))))) d"

definition finalize_local_submission ::
    "unit result \<Rightarrow> string \<Rightarrow> string \<Rightarrow> string \<Rightarrow> string \<Rightarrow> string \<Rightarrow> string \<Rightarrow> state_repository_snapshot \<Rightarrow> db \<Rightarrow> db result" where
  "finalize_local_submission registered now expires event_id repo_key owner_id submission_id state_repository d =
     bnd (snapshot_validate state_repository) (\<lambda>snapshot.
     composition_transaction now expires repo_key owner_id (\<lambda>d.
       bnd (fetch (\<lambda>s. su_id s = submission_id) (submissions d) (NoRow (''local submission not found: '' @ submission_id))) (\<lambda>s.
       bnd (require (su_repo_key s = repo_key \<and> su_state s = SubCreating) (Bail ''local submission is not an exact creation intent'')) (\<lambda>_.
       bnd (require_obligation_tx repo_key (WorkspaceObligation (su_workspace_id s)) d) (\<lambda>_.
       bnd registered (\<lambda>_.
       bnd (fetch (\<lambda>w. dw_id w = su_workspace_id s \<and> dw_repo_key w = repo_key) (workspaces d)
              (NoRow (''development workspace not found: '' @ su_workspace_id s))) (\<lambda>w.
       bnd (case su_replaces_item_id s of
              None \<Rightarrow> Ok d
            | Some replaced \<Rightarrow>
                bnd (fetch (\<lambda>i. qi_id i = replaced \<and> qi_repo_key i = repo_key) (queue_items d) (NoRow ''queue_items'')) (\<lambda>i.
                bnd (require (qi_status i = QCancelled) (Bail ''superseded queue item is not cancelled'')) (\<lambda>_.
                Ok (d\<lparr>submissions := modify (\<lambda>x. su_queue_item_id x = replaced \<and> su_state x = SubCancelled)
                        (\<lambda>x. x\<lparr>su_state := SubReplaced\<rparr>) (submissions d)\<rparr>)))) (\<lambda>d.
       bnd (insert_item (new_item (su_queue_item_id s) repo_key (dw_target_ref w) now) d) (\<lambda>d.
       bnd (insert_admission \<lparr>ad_item_id = su_queue_item_id s, ad_kind = AdmitLocalSubmission, ad_source_branch = su_private_ref s,
              ad_head_sha = su_commit_sha s, ad_source_ref = Some (su_private_ref s), ad_submission_id = Some (su_id s),
              ad_provider = None, ad_target_ref = dw_target_ref w, ad_base_sha = None, ad_merge_request_identity = None,
              ad_merge_request_url = None, ad_admitted_at = now\<rparr> d) (\<lambda>d.
       let p = (\<lambda>x. dw_id x = su_workspace_id s \<and> dw_repo_key x = repo_key \<and> dw_status x = WsActive) in
       bnd (require (changed p (workspaces d) = 1) (Bail ''development workspace is not active'')) (\<lambda>_.
       let d = d\<lparr>workspaces := modify p (\<lambda>x. x\<lparr>dw_status := WsSubmitted\<rparr>) (workspaces d)\<rparr> in
       bnd (record_event_tx now event_id (su_queue_item_id s) ''item_enqueued'' ''immutable local submission enqueued'' d) (\<lambda>d.
       bnd (insert_state_repository_binding now (su_queue_item_id s) snapshot d) (\<lambda>d.
       let q = (\<lambda>x. su_id x = su_id s \<and> su_state x = SubCreating) in
       bnd (require (changed q (submissions d) = 1) (Bail ''local submission intent changed before finalization'')) (\<lambda>_.
       Ok (d\<lparr>submissions := modify q (\<lambda>x. x\<lparr>su_state := SubQueued\<rparr>) (submissions d)\<rparr>)))))))))))))) d)"

end
