(* ===== verification/Queue_Runs.thy ===== *)
theory Queue_Runs
  imports Queue_Lifecycle Store_Runs
begin

text \<open>
  The methods of the queue as steps, what each of them may change, and the invariant that draining
  keeps: a draining repository has captured all of its active items and has no submission in creation, a
  disabled repository has neither.
\<close>

inductive queue_step :: "db \<Rightarrow> db \<Rightarrow> bool" where
  admit_direct: "admit_direct now fresh r t d = Inr (d', i) \<Longrightarrow> queue_step d d'"
| admit_merge_request: "admit_merge_request now fresh k m sr d = Inr (d', i) \<Longrightarrow> queue_step d d'"
| claim: "claim_next_ready verify now fresh k t a snapshot digest d = Inr (d', c) \<Longrightarrow> queue_step d d'"
| transition: "transition_item now e i s a d = Inr d' \<Longrightarrow> queue_step d d'"
| block: "block_item_owned now fresh i phase reason m k w d = Inr (d', p) \<Longrightarrow> queue_step d d'"
| recover: "block_integrating_recovery_owned now fresh i phase reason m k w d = Inr (d', p) \<Longrightarrow> queue_step d d'"
| drain: "begin_repository_draining now expires k w d = Inr d' \<Longrightarrow> queue_step d d'"
| disable: "disable_drained_repository now expires k w d = Inr d' \<Longrightarrow> queue_step d d'"
| save_workspace: "save_development_workspace now expires w x d = Inr d' \<Longrightarrow> queue_step d d'"
| name_workspace: "set_development_workspace_identity reg now expires k w i identity d = Inr d' \<Longrightarrow> queue_step d d'"
| cleanup_workspace: "update_development_workspace_cleanup now expires k w i s c d = Inr d' \<Longrightarrow> queue_step d d'"
| remove_workspace: "complete_development_workspace_cleanup now expires k w i d = Inr d' \<Longrightarrow> queue_step d d'"
| begin_submission: "begin_local_submission now expires fresh k w i sha replaces d = Inr d' \<Longrightarrow> queue_step d d'"
| finalize_submission: "finalize_local_submission reg now expires e k w i sr d = Inr d' \<Longrightarrow> queue_step d d'"
| reserve: "reserve_policy_physical_ownership k p d = Inr d' \<Longrightarrow> queue_step d d'"
| acquire: "acquire_repo_operation_lease now expires k w repository target d = Inr d' \<Longrightarrow> queue_step d d'"
| heartbeat: "heartbeat_repo_lease now expires k w d = (d', b) \<Longrightarrow> queue_step d d'"
| release: "release_repo_lease k w d = (d', b) \<Longrightarrow> queue_step d d'"

section \<open>Growth\<close>

text \<open>What a step may add: active items and submissions in creation of the repositories in \<open>ks\<close>, and nothing when it is
  empty.\<close>

definition active_items :: "db \<Rightarrow> (string \<times> string) set" where
  "active_items d = (\<lambda>i. (qi_id i, qi_repo_key i)) ` {i \<in> set (queue_items d). active_status (qi_status i)}"

definition creating :: "db \<Rightarrow> string set" where
  "creating d = su_repo_key ` {s \<in> set (submissions d). su_state s = SubCreating}"

abbreviation unique_items :: "db \<Rightarrow> bool" where
  "unique_items d \<equiv> distinct (map qi_id (queue_items d))"

definition grows :: "string set \<Rightarrow> db \<Rightarrow> db \<Rightarrow> bool" where
  "grows ks d d' \<longleftrightarrow> same_core d d' \<and> policies d' = policies d \<and> (unique_items d \<longrightarrow>
     unique_items d' \<and> active_items d' \<subseteq> active_items d \<union> UNIV \<times> ks \<and> creating d' \<subseteq> creating d \<union> ks)"

lemma grows_trans: "grows ks d1 d2 \<Longrightarrow> grows ks d2 d3 \<Longrightarrow> grows ks d1 d3"
  by (auto simp: grows_def same_core_def)

lemma grows_mono: "grows {} d d' \<Longrightarrow> grows ks d d'"
  by (auto simp: grows_def)

lemma grows_frame:
  assumes "efforts d' = efforts d" "cycles d' = cycles d" "evidences d' = evidences d" "reviews d' = reviews d"
    "guidance_requests d' = guidance_requests d" "policies d' = policies d" "queue_items d' = queue_items d"
    "creating d' \<subseteq> creating d"
  shows "grows ks d d'"
  using assms by (auto simp: grows_def same_core_def active_items_def)

lemma creating_same: "submissions d' = submissions d \<Longrightarrow> creating d' \<subseteq> creating d"
  by (simp add: creating_def)

lemma creating_modify:
  assumes "submissions d' = modify p f (submissions d)" "\<And>s. p s \<Longrightarrow> su_state (f s) = SubCreating \<Longrightarrow> False"
  shows "creating d' \<subseteq> creating d"
  using assms by (auto simp: creating_def set_modify split: if_splits)

named_theorems growth \<open>what the statements of the queue may add\<close>

lemma grows_refl [growth]: "grows ks d d"
  by (rule grows_frame) simp_all

lemma record_event_grows [growth]: "record_event_tx now e i t m d = Inr d' \<Longrightarrow> grows ks d d'"
  by (rule grows_frame) (auto simp: record_event_tx_def creating_def split: if_splits)

lemma insert_admission_grows [growth]: "insert_admission a d = Inr d' \<Longrightarrow> grows ks d d'"
  by (rule grows_frame) (auto simp: insert_admission_def creating_def split: if_splits)

lemma insert_binding_grows [growth]: "insert_state_repository_binding now i s d = Inr d' \<Longrightarrow> grows ks d d'"
  by (rule grows_frame) (auto simp: insert_state_repository_binding_def creating_def split: if_splits)

lemma insert_attempt_grows [growth]: "insert_attempt a d = Inr d' \<Longrightarrow> grows ks d d'"
  by (rule grows_frame) (auto simp: insert_attempt_def creating_def split: if_splits)

lemma insert_prompt_grows [growth]: "insert_prompt p d = Inr d' \<Longrightarrow> grows ks d d'"
  by (rule grows_frame) (auto simp: insert_prompt_def creating_def split: if_splits)

lemma insert_cleanup_grows [growth]: "insert_cleanup_debt i t now d = Inr d' \<Longrightarrow> grows ks d d'"
  by (rule grows_frame) (auto simp: insert_cleanup_debt_def creating_def split: if_splits)

lemma insert_item_grows [growth]: "insert_item i d = Inr d' \<Longrightarrow> qi_repo_key i \<in> ks \<Longrightarrow> grows ks d d'"
  by (fastforce simp: insert_item_def grows_def same_core_def active_items_def creating_def list_ex_iff split: if_splits)

lemma insert_submission_grows [growth]: "insert_submission s d = Inr d' \<Longrightarrow> su_repo_key s \<in> ks \<Longrightarrow> grows ks d d'"
  by (auto simp: insert_submission_def grows_def same_core_def active_items_def creating_def split: if_splits)

lemma update_status_grows:
  assumes "update_item_status (\<lambda>i. qi_id i = item_id) f d = Inr (d', n)"
    and "\<And>i. qi_id (f i) = qi_id i \<and> qi_repo_key (f i) = qi_repo_key i"
    and "item \<in> set (queue_items d)" "qi_id item = item_id" "active_status (qi_status item)"
  shows "grows ks d d'"
proof -
  from assms(1) have d': "d' = d\<lparr>queue_items := modify (\<lambda>i. qi_id i = item_id) f (queue_items d)\<rparr>"
    by (simp add: update_item_status_Ok)
  have ids: "map qi_id (modify (\<lambda>i. qi_id i = item_id) f (queue_items d)) = map qi_id (queue_items d)"
    by (rule map_key_modify) (use assms(2) in simp)
  have "active_items d' \<subseteq> active_items d" if "unique_items d"
  proof -
    have "i = item" if "i \<in> set (queue_items d)" "qi_id i = item_id" for i
      using that assms(3,4) \<open>unique_items d\<close> by (auto simp: distinct_map inj_on_def)
    with assms(2,3,5) show ?thesis unfolding d' active_items_def by (auto simp: set_modify)
  qed
  with ids show ?thesis unfolding grows_def by (auto simp: d' same_core_def creating_def)
qed

lemma grows_bind:
  assumes "bnd m f = Inr r" "\<And>d1. m = Inr d1 \<Longrightarrow> grows ks d d1" "\<And>d1. f d1 = Inr r \<Longrightarrow> grows ks d1 d'"
  shows "grows ks d d'"
  using assms grows_trans by (auto simp: bnd_eq_Ok)

lemma enter_grows [growth]: "enter_composition now expires k w d = Inr d' \<Longrightarrow> grows ks d d'"
  by (rule grows_frame) (auto simp: enter_composition_def result_simps renew_repo_def renew_physical_def creating_def)

lemma composition_grows:
  assumes "composition_transaction now expires k w f d = Inr d'"
  obtains d1 where "f d1 = Inr d'" "\<forall>ks. grows ks d d1" "policies d1 = policies d" "submissions d1 = submissions d"
    "queue_items d1 = queue_items d"
  using assms lease.transaction_body [OF assms [unfolded composition_transaction_def]]
  by (auto simp: intro!: grows_frame that simp: creating_def)

section \<open>The methods\<close>

definition enabled_in :: "string \<Rightarrow> db \<Rightarrow> bool" where
  "enabled_in k d \<longleftrightarrow> (\<exists>p. find (\<lambda>p. pl_repo_key p = k) (policies d) = Some p \<and> po_operation_state (pl_policy p) = Enabled)"

lemma require_new_work_Ok: "require_new_work st = Inr u \<longleftrightarrow> st = Enabled"
  by (cases st) auto

lemma require_new_work_tx_Ok: "require_new_work_tx k d = Inr u \<longleftrightarrow> enabled_in k d"
  by (auto simp: require_new_work_tx_def repo_policy_def enabled_in_def result_simps require_new_work_Ok)

lemma enqueue_grows:
  "insert_item i d = Inr d1 \<Longrightarrow> insert_admission a d1 = Inr d2 \<Longrightarrow> record_event_tx now e j t m d2 = Inr d3 \<Longrightarrow>
   insert_state_repository_binding now b sr d3 = Inr d4 \<Longrightarrow> qi_repo_key i \<in> ks \<Longrightarrow> grows ks d d4"
  by (rule grows_trans [OF insert_item_grows grows_trans [OF insert_admission_grows
        grows_trans [OF record_event_grows insert_binding_grows]]])

lemma new_item_repo [simp]: "qi_repo_key (new_item i k t now) = k" "qi_id (new_item i k t now) = i"
  by (simp_all add: new_item_def)

lemma admit_direct_grows:
  assumes "admit_direct now fresh r t d = Inr (d', i)"
  shows "grows {dr_repo_key r} d d' \<and> enabled_in (dr_repo_key r) d"
proof -
  have "enabled_in (dr_repo_key r) d"
    using assms by (auto simp: admit_direct_def result_simps require_new_work_Ok enabled_in_def)
  moreover have "grows {dr_repo_key r} d d'"
  proof (cases "direct_existing r (target_ref_str t) d")
    case None
    with assms show ?thesis by (auto simp: admit_direct_def result_simps intro!: enqueue_grows)
  qed (use assms in \<open>auto simp: admit_direct_def result_simps intro: growth\<close>)
  ultimately show ?thesis by blast
qed

lemma admit_merge_request_grows:
  assumes "admit_merge_request now fresh k m sr d = Inr (d', i)"
  shows "grows {k} d d' \<and> enabled_in k d"
proof -
  have find: "find (\<lambda>p. pl_repo_key p = k \<and> b) ps = Some p \<Longrightarrow> find (\<lambda>p. pl_repo_key p = k) ps = Some p" for ps b p
    by (cases b) (auto dest: find_Some_mem)
  have "enabled_in k d"
    using assms unfolding enabled_in_def by (auto simp: admit_merge_request_def Let_def result_simps require_new_work_Ok dest!: find)
  moreover have "grows {k} d d'"
  proof (cases "merge_request_existing k m d")
    case None
    with assms show ?thesis by (auto simp: admit_merge_request_def Let_def result_simps intro!: enqueue_grows)
  qed (use assms in \<open>auto simp: admit_merge_request_def Let_def result_simps intro: growth\<close>)
  ultimately show ?thesis by blast
qed

lemma oldest_active_mem:
  assumes "oldest_active_item_for_target k t d = Some i"
  shows "i \<in> set (queue_items d) \<and> active_status (qi_status i) \<and> qi_repo_key i = k \<and> qi_target_ref i = t \<and> runtime_item d i"
    and "j \<in> set (queue_items d) \<Longrightarrow> active_status (qi_status j) \<Longrightarrow> qi_repo_key j = k \<Longrightarrow> qi_target_ref j = t \<Longrightarrow> runtime_item d j
      \<Longrightarrow> (qi_created_at i, qi_id i) \<le> (qi_created_at j, qi_id j)"
proof -
  let ?k = "\<lambda>i. (qi_created_at i, qi_id i)"
  let ?xs = "filter (\<lambda>i. runtime_item d i \<and> qi_repo_key i = k \<and> qi_target_ref i = t \<and> active_status (qi_status i)) (queue_items d)"
  from assms obtain rest where sorted: "sort_key ?k ?xs = i # rest"
    by (auto simp: oldest_active_item_for_target_def split: list.splits)
  have set: "set ?xs = insert i (set rest)" using arg_cong [OF sorted, of set] by (simp only: set_sort list.set)
  have "i \<in> set ?xs" unfolding set by simp
  then show "i \<in> set (queue_items d) \<and> active_status (qi_status i) \<and> qi_repo_key i = k \<and> qi_target_ref i = t \<and> runtime_item d i"
    by simp
  have "sorted (map ?k (i # rest))" using sorted_sort_key [of ?k ?xs] by (simp only: sorted)
  then have least: "\<forall>j \<in> set ?xs. ?k i \<le> ?k j" unfolding set by simp
  assume "j \<in> set (queue_items d)" "active_status (qi_status j)" "qi_repo_key j = k" "qi_target_ref j = t" "runtime_item d j"
  then have "j \<in> set ?xs" by simp
  with least show "?k i \<le> ?k j" by blast
qed

text \<open>What a successful claim did.\<close>

definition claimed :: "string \<Rightarrow> string \<Rightarrow> queue_item \<Rightarrow> queue_item" where
  "claimed now attempt_id j = j\<lparr>qi_status := QMerging, qi_current_attempt_id := Some attempt_id, qi_landing_state := LandingReady,
     qi_blocked_phase := None, qi_blocked_reason := None, qi_blocked_message := None, qi_prompt_id := None, qi_updated_at := now\<rparr>"

lemma claim_cases:
  assumes "claim_next_ready verify now fresh k t a snapshot digest d = Inr (d', c)"
  obtains "c = None" "d' = d"
  | i head d1 d2 n where "oldest_active_item_for_target k (target_ref_str t) d = Some i" "qi_status i = QReady"
      "c = Some (qi_id i, fresh 0)"
      "insert_attempt (new_attempt (fresh 0) (qi_id i) (next_attempt_number (qi_id i) d) head snapshot digest) d = Inr d1"
      "update_item_status (\<lambda>j. qi_id j = qi_id i) (claimed now (fresh 0)) d1 = Inr (d2, n)"
      "record_event_tx now (fresh 1) (qi_id i) ''attempt_started'' ''claimed ready item for merging'' d2 = Inr d'"
proof (cases "oldest_active_item_for_target k (target_ref_str t) d")
  case (Some i)
  show ?thesis
  proof (cases "qi_status i = QReady")
    case True
    with assms Some show ?thesis unfolding claimed_def [abs_def]
      by (auto simp: claim_next_ready_def bnd_eq_Ok claimed_def [abs_def] split: option.splits intro: that(2))
  qed (use assms Some in \<open>auto simp: claim_next_ready_def result_simps intro: that(1)\<close>)
qed (use assms in \<open>auto simp: claim_next_ready_def intro: that(1)\<close>)

lemma insert_attempt_Ok: "insert_attempt a d = Inr d' \<Longrightarrow> d' = d\<lparr>attempts := attempts d @ [a]\<rparr>"
  by (auto simp: insert_attempt_def split: if_splits)

lemma claim_grows:
  assumes "claim_next_ready verify now fresh k t a snapshot digest d = Inr (d', c)"
  shows "grows {} d d'"
  using assms
proof (cases rule: claim_cases)
  case (2 i head d1 d2 n)
  have "grows {} d1 d2"
    by (rule update_status_grows [OF 2(5), of i])
      (use oldest_active_mem(1) [OF 2(1)] insert_attempt_Ok [OF 2(4)] in \<open>simp_all add: claimed_def\<close>)
  then show ?thesis using insert_attempt_grows [OF 2(4)] record_event_grows [OF 2(6)] grows_trans by blast
qed (auto intro: growth)

lemma get_item_mem: "get_item i d = Inr x \<Longrightarrow> x \<in> set (queue_items d) \<and> qi_id x = i \<and> runtime_item d x"
  by (auto simp: get_item_def result_simps dest!: find_Some_mem)

lemma release_submission_grows [growth]:
  "release_local_submission i d = Inr d' \<Longrightarrow> grows ks d d'"
  by (rule grows_frame)
    (auto simp: release_local_submission_def Let_def result_simps creating_def set_modify split: option.splits admission_kind.splits if_splits)

lemma owe_cases:
  "owe_workspace_cleanup now x d = Inr d' \<Longrightarrow> d' = d \<or> (\<exists>t. insert_cleanup_debt (qi_id x) t now d = Inr d')"
proof -
  assume "owe_workspace_cleanup now x d = Inr d'"
  then show ?thesis unfolding owe_workspace_cleanup_def bnd_eq_Ok
    by (elim exE conjE) (rename_tac w, case_tac w, auto)
qed

lemma cancel_parts_grow:
  "grows ks d (cancel_prompts i d)" "grows ks d (close_attempt now x d)"
  "owe_workspace_cleanup now x d = Inr d' \<Longrightarrow> grows ks d d'"
proof -
  show "grows ks d (cancel_prompts i d)" by (rule grows_frame) (simp_all add: cancel_prompts_def creating_def)
  show "grows ks d (close_attempt now x d)"
    by (rule grows_frame) (auto simp: close_attempt_def update_attempts_def creating_def split: option.splits)
  show "owe_workspace_cleanup now x d = Inr d' \<Longrightarrow> grows ks d d'"
    by (auto dest!: owe_cases intro: growth)
qed

lemma cancel_effects_grows [growth]: "cancel_item_effects now x d = Inr d' \<Longrightarrow> grows ks d d'"
proof -
  assume "cancel_item_effects now x d = Inr d'"
  then obtain d1 where d1: "release_local_submission (qi_id x) (cancel_prompts (qi_id x) d) = Inr d1"
    and d': "owe_workspace_cleanup now x (close_attempt now x d1) = Inr d'"
    by (auto simp: cancel_item_effects_def bnd_eq_Ok)
  show ?thesis
    by (rule grows_trans [OF cancel_parts_grow(1) grows_trans [OF release_submission_grows [OF d1]
          grows_trans [OF cancel_parts_grow(2) cancel_parts_grow(3) [OF d']]]])
qed

lemma cancel_effects_items: "cancel_item_effects now x d = Inr d' \<Longrightarrow> queue_items d' = queue_items d"
proof -
  have release: "release_local_submission i d1 = Inr d2 \<Longrightarrow> queue_items d2 = queue_items d1" for i d1 d2
    by (auto simp: release_local_submission_def Let_def result_simps split: option.splits admission_kind.splits)
  have owe: "owe_workspace_cleanup now x d1 = Inr d2 \<Longrightarrow> queue_items d2 = queue_items d1" for d1 d2
    by (auto simp: insert_cleanup_debt_def dest!: owe_cases split: if_splits)
  have rest: "queue_items (cancel_prompts i d1) = queue_items d1" "queue_items (close_attempt now x d1) = queue_items d1" for i d1
    by (auto simp: cancel_prompts_def close_attempt_def update_attempts_def split: option.splits)
  assume "cancel_item_effects now x d = Inr d'"
  then show ?thesis using release owe by (auto simp: cancel_item_effects_def bnd_eq_Ok rest)
qed

lemma transition_active: "queue_transition a b = Inr u \<Longrightarrow> active_status a"
  by (auto simp: queue_transition_def active_status_def split: if_splits)

lemma transition_grows:
  assumes "transition_item now e i s a d = Inr d'"
  shows "grows {} d d'"
proof -
  from assms obtain x d1 d2 n where x: "get_item i d = Inr x" "queue_transition (qi_status x) s = Inr ()"
    and d1: "(if s = QCancelled then cancel_item_effects now x d else Ok d) = Inr d1"
    and d2: "update_item_status (\<lambda>j. qi_id j = i) (\<lambda>j. j\<lparr>qi_status := s,
        qi_replacement := (if s = QCancelled then None else qi_replacement j), qi_updated_at := now\<rparr>) d1 = Inr (d2, n)"
    and ev: "record_event_tx now e i ''item_transitioned'' (''transitioned to '' @ status_text s) d2 = Inr d'"
    by (auto simp: transition_item_def bnd_eq_Ok)
  have items: "queue_items d1 = queue_items d" using d1 cancel_effects_items by (auto split: if_splits)
  have "grows {} d d1" using d1 by (auto split: if_splits intro: growth)
  moreover have "grows {} d1 d2"
    by (rule update_status_grows [OF d2, of x]) (use get_item_mem [OF x(1)] transition_active [OF x(2)] items in simp_all)
  ultimately show ?thesis using record_event_grows [OF ev] grows_trans by blast
qed

lemma block_grows:
  assumes "block_item_from_status now fresh i expected phase reason m a d = Inr (d', p)" "active_status expected"
  shows "grows {} d d'"
proof -
  let ?p = "if reason = NeedsUserInput then Some (fresh 0) else None"
  from assms(1) obtain x d1 d2 n where x: "get_item i d = Inr x" "qi_status x = expected"
    and d1: "(case ?p of None \<Rightarrow> Ok d | Some q \<Rightarrow> insert_prompt \<lparr>pm_id = q, pm_item_id = i, pm_attempt_id = qi_current_attempt_id x,
              pm_blocked_phase = phase, pm_status = ''open'', pm_question = m, pm_created_at = now\<rparr> d) = Inr d1"
    and d2: "update_item_status (\<lambda>j. qi_id j = i) (\<lambda>j. j\<lparr>qi_status := QBlocked, qi_blocked_phase := Some phase,
        qi_blocked_reason := Some reason, qi_blocked_message := Some (MessageText m), qi_prompt_id := ?p, qi_updated_at := now\<rparr>) d1
        = Inr (d2, n)"
    and ev: "record_event_tx now (fresh 1) i ''item_blocked'' (phase_text phase @ ''/'' @ reason_text reason @ '': '' @ m) d2 = Inr d'"
    unfolding block_item_from_status_def Let_def bnd_eq_Ok require_eq_Ok by (auto simp only: split_paired_all prod.case bnd_eq_Ok sum.inject prod.inject)
  have items: "queue_items d1 = queue_items d" using d1 by (auto simp: insert_prompt_def split: if_splits option.splits)
  have "grows {} d d1" using d1 by (auto split: if_splits option.splits intro: growth)
  moreover have "grows {} d1 d2"
    by (rule update_status_grows [OF d2, of x]) (use get_item_mem [OF x(1)] x(2) assms(2) items in simp_all)
  ultimately show ?thesis using record_event_grows [OF ev] grows_trans by blast
qed

lemma workspace_grows:
  "save_development_workspace now expires w x d = Inr d' \<Longrightarrow> grows {} d d'"
  "set_development_workspace_identity reg now expires k w i identity d = Inr d' \<Longrightarrow> grows {} d d'"
  "update_development_workspace_cleanup now expires k w i st c d = Inr d' \<Longrightarrow> grows {} d d'"
  "complete_development_workspace_cleanup now expires k w i d = Inr d' \<Longrightarrow> grows {} d d'"
proof -
  have frame: "grows {} d1 (d1\<lparr>workspaces := x, git_bindings := y\<rparr>)" for d1 x y by (rule grows_frame) (simp_all add: creating_def)
  have frame2: "grows {} d1 (d1\<lparr>workspaces := x\<rparr>)" for d1 x by (rule grows_frame) (simp_all add: creating_def)
  show "save_development_workspace now expires w x d = Inr d' \<Longrightarrow> grows {} d d'"
    unfolding save_development_workspace_def
    by (elim composition_grows) (auto simp: result_simps split: if_splits intro: grows_trans frame2)
  show "set_development_workspace_identity reg now expires k w i identity d = Inr d' \<Longrightarrow> grows {} d d'"
    unfolding set_development_workspace_identity_def
    by (elim composition_grows) (auto simp: result_simps Let_def split: if_splits intro: grows_trans frame)
  show "update_development_workspace_cleanup now expires k w i st c d = Inr d' \<Longrightarrow> grows {} d d'"
    unfolding update_development_workspace_cleanup_def
    by (elim composition_grows) (auto simp: result_simps Let_def drop_git_binding_def split: if_splits intro: grows_trans frame frame2)
  show "complete_development_workspace_cleanup now expires k w i d = Inr d' \<Longrightarrow> grows {} d d'"
    unfolding complete_development_workspace_cleanup_def
    by (elim composition_grows) (auto simp: result_simps Let_def drop_git_binding_def intro: grows_trans frame)
qed

lemma lease_grows:
  "reserve_policy_physical_ownership k p d = Inr d' \<Longrightarrow> grows {} d d'"
  "acquire_repo_operation_lease now expires k w repository target d = Inr d' \<Longrightarrow> grows {} d d'"
  "heartbeat_repo_lease now expires k w d = (d', b) \<Longrightarrow> grows {} d d'"
  "release_repo_lease k w d = (d', b) \<Longrightarrow> grows {} d d'"
proof -
  have frame: "grows {} d1 (d1\<lparr>ownerships := x\<rparr>)" "grows {} d1 (d1\<lparr>physical_leases := y\<rparr>)" for d1 x y
    by (rule grows_frame; simp add: creating_def)+
  have each: "reserve_each k rs d1 = Inr d2 \<Longrightarrow> grows {} d1 d2" for rs d1 d2
  proof (induction rs arbitrary: d1)
    case (Cons r rs)
    obtain repository role ordinal where r: "r = (repository, role, ordinal)" by (cases r)
    show ?case using Cons.prems Cons.IH grows_trans [OF frame(1)]
      by (auto simp: r Let_def split: option.splits if_splits)
  qed (auto intro: growth)
  have phys: "acquire_physical now expires k w ks d1 = Inr d2 \<Longrightarrow> grows {} d1 d2" for ks d1 d2
  proof (induction ks arbitrary: d1)
    case (Cons r rs)
    show ?case using Cons.prems Cons.IH grows_trans [OF frame(2)]
      by (auto simp: Let_def split: option.splits if_splits)
  qed (auto intro: growth)
  have upsert: "grows {} d1 (upsert_repo_lease l d1)" for l d1
    by (rule grows_frame) (auto simp: upsert_repo_lease_def creating_def)
  show "reserve_policy_physical_ownership k p d = Inr d' \<Longrightarrow> grows {} d d'"
    using each by (auto simp: reserve_policy_physical_ownership_def result_simps)
  show "acquire_repo_operation_lease now expires k w repository target d = Inr d' \<Longrightarrow> grows {} d d'"
    using phys grows_trans upsert by (fastforce simp: acquire_repo_operation_lease_def result_simps)
  show "heartbeat_repo_lease now expires k w d = (d', b) \<Longrightarrow> grows {} d d'"
    by (rule grows_frame) (auto simp: heartbeat_repo_lease_def renew_repo_def renew_physical_def creating_def split: if_splits)
  show "release_repo_lease k w d = (d', b) \<Longrightarrow> grows {} d d'"
    by (rule grows_frame) (auto simp: release_repo_lease_def Let_def creating_def)
qed

lemma begin_submission_grows:
  assumes "begin_local_submission now expires fresh k w i sha replaces d = Inr d'"
  shows "grows {} d d' \<or> grows {k} d d' \<and> enabled_in k d"
proof -
  have "\<exists>d1. (\<forall>ks. grows ks d d1) \<and> policies d1 = policies d \<and>
      (d1 = d' \<or> require_new_work_tx k d1 = Inr () \<and> (\<exists>s. su_repo_key s = k \<and> insert_submission s d1 = Inr d'))"
    using assms unfolding begin_local_submission_def
  proof (rule composition_grows, goal_cases)
    case (1 d1)
    show ?case
    proof (cases "find (\<lambda>s. su_workspace_id s = i \<and> su_state s = SubCreating) (submissions d1)")
      case None
      with 1 have "require_new_work_tx k d1 = Inr () \<and> (\<exists>s. su_repo_key s = k \<and> insert_submission s d1 = Inr d')"
        by (auto simp: bnd_eq_Ok require_eq_Ok fetch_eq_Ok intro!: exI conjI)
      with 1 show ?thesis by blast
    qed (use 1 in \<open>auto simp: result_simps\<close>)
  qed
  then obtain d1 where entry: "\<And>ks. grows ks d d1" and pol: "policies d1 = policies d"
    and d1: "d1 = d' \<or> require_new_work_tx k d1 = Inr () \<and> (\<exists>s. su_repo_key s = k \<and> insert_submission s d1 = Inr d')"
    by blast
  from d1 show ?thesis
  proof
    assume "require_new_work_tx k d1 = Inr () \<and> (\<exists>s. su_repo_key s = k \<and> insert_submission s d1 = Inr d')"
    then have "enabled_in k d" "grows {k} d1 d'" using pol by (auto simp: require_new_work_tx_Ok enabled_in_def intro: growth)
    with entry show ?thesis using grows_trans by blast
  qed (use entry in auto)
qed

lemma finalize_submission_grows:
  assumes "finalize_local_submission reg now expires e k w i sr d = Inr d'"
  shows "grows {k} d d' \<and> k \<in> creating d"
proof -
  let ?q = "\<lambda>s x. su_id x = su_id s \<and> su_state x = SubCreating"
  from assms obtain d1 snapshot s t d2 d3 a d4 ws d6 d7 where entry: "\<forall>ks. grows ks d d1" and subs: "submissions d1 = submissions d"
    and s: "find (\<lambda>s. su_id s = i) (submissions d1) = Some s" "su_repo_key s = k" "su_state s = SubCreating"
    and d2: "(case su_replaces_item_id s of None \<Rightarrow> Ok d1 | Some replaced \<Rightarrow>
        bnd (fetch (\<lambda>i. qi_id i = replaced \<and> qi_repo_key i = k) (queue_items d1) (NoRow ''queue_items'')) (\<lambda>i.
        bnd (require (qi_status i = QCancelled) (Bail ''superseded queue item is not cancelled'')) (\<lambda>_.
        Ok (d1\<lparr>submissions := modify (\<lambda>x. su_queue_item_id x = replaced \<and> su_state x = SubCancelled)
                (\<lambda>x. x\<lparr>su_state := SubReplaced\<rparr>) (submissions d1)\<rparr>)))) = Inr d2"
    and d3: "insert_item (new_item (su_queue_item_id s) k t now) d2 = Inr d3"
    and d4: "insert_admission a d3 = Inr d4"
    and d6: "record_event_tx now e (su_queue_item_id s) ''item_enqueued'' ''immutable local submission enqueued'' (d4\<lparr>workspaces := ws\<rparr>) = Inr d6"
    and d7: "insert_state_repository_binding now (su_queue_item_id s) snapshot d6 = Inr d7"
    and d': "d7\<lparr>submissions := modify (?q s) (\<lambda>x. x\<lparr>su_state := SubQueued\<rparr>) (submissions d7)\<rparr> = d'"
    unfolding finalize_local_submission_def bnd_eq_Ok
    by (elim exE conjE composition_grows)
      (unfold bnd_eq_Ok require_eq_Ok fetch_eq_Ok Let_def sum.inject, elim exE conjE, rule that, assumption+)
  have "grows {k} d1 d2"
    using d2 by (auto simp: result_simps creating_def set_modify split: option.splits if_splits intro: grows_refl intro!: grows_frame)
  moreover have "grows {k} d4 (d4\<lparr>workspaces := ws\<rparr>)" by (rule grows_frame) (simp_all add: creating_def)
  moreover have "grows {k} d7 d'" unfolding d' [symmetric] by (rule grows_frame) (auto simp: creating_def set_modify)
  moreover have "grows {k} d2 d3" by (rule insert_item_grows [OF d3(1)]) simp
  ultimately have "grows {k} d d'"
    using entry insert_admission_grows [OF d4] record_event_grows [OF d6] insert_binding_grows [OF d7] grows_trans by meson
  moreover have "k \<in> creating d" using find_Some_mem [OF s(1)] s subs by (auto simp: creating_def)
  ultimately show ?thesis by blast
qed

section \<open>Draining\<close>

definition drain_ok :: "db \<Rightarrow> policy_row \<Rightarrow> bool" where
  "drain_ok d p \<longleftrightarrow>
     (case po_operation_state (pl_policy p) of
        Enabled \<Rightarrow> True
      | Draining obligations \<Rightarrow> pl_repo_key p \<notin> creating d
          \<and> (\<forall>i. (i, pl_repo_key p) \<in> active_items d \<longrightarrow> QueueItemObligation i \<in> obligations)
      | Disabled \<Rightarrow> pl_repo_key p \<notin> creating d \<and> (\<forall>i. (i, pl_repo_key p) \<notin> active_items d))"

definition drain_inv :: "db \<Rightarrow> bool" where
  "drain_inv d \<longleftrightarrow> distinct (map pl_repo_key (policies d)) \<and> unique_items d \<and> (\<forall>p \<in> set (policies d). drain_ok d p)"

lemma find_key:
  "distinct (map key xs) \<Longrightarrow> x \<in> set xs \<Longrightarrow> find (\<lambda>y. key y = key x) xs = Some x"
  by (induction xs) force+

lemma drain_ok_enabled:
  assumes "drain_inv d" "p \<in> set (policies d)" "pl_repo_key p = k" "enabled_in k d \<or> k \<in> creating d"
  shows "po_operation_state (pl_policy p) = Enabled"
proof -
  have "find (\<lambda>y. pl_repo_key y = k) (policies d) = Some p" "drain_ok d p"
    using assms find_key [of pl_repo_key "policies d" p] by (auto simp: drain_inv_def)
  with assms(3,4) show ?thesis by (cases "po_operation_state (pl_policy p)") (auto simp: enabled_in_def drain_ok_def)
qed

lemma drain_ok_grows:
  assumes "drain_inv d" "grows ks d d'" "\<forall>k \<in> ks. enabled_in k d \<or> k \<in> creating d"
  shows "drain_inv d'"
proof -
  have "drain_ok d' p" if p: "p \<in> set (policies d)" for p
  proof (cases "pl_repo_key p \<in> ks")
    case True
    then show ?thesis using drain_ok_enabled [OF assms(1) p refl] assms(3) by (simp add: drain_ok_def)
  next
    case False
    have "drain_ok d p" using assms(1) p by (simp add: drain_inv_def)
    with False assms(1,2) show ?thesis
      by (fastforce simp: drain_ok_def grows_def drain_inv_def split: operation_state.splits)
  qed
  with assms(1,2) show ?thesis by (simp add: drain_inv_def grows_def)
qed

lemma update_operation_state_inv:
  assumes "drain_inv d" "update_operation_state k v st d = Inr (d', n)"
    and "\<And>p. p \<in> set (policies d) \<Longrightarrow> pl_repo_key p = k \<Longrightarrow> drain_ok d (p\<lparr>pl_policy := (pl_policy p)\<lparr>po_operation_state := st\<rparr>\<rparr>)"
  shows "drain_inv d'"
proof -
  let ?f = "\<lambda>r. r\<lparr>pl_revision := Suc (pl_revision r), pl_policy := (pl_policy r)\<lparr>po_operation_state := st\<rparr>\<rparr>"
  let ?p = "\<lambda>r. pl_repo_key r = k \<and> pl_revision r = v"
  have d': "d' = d\<lparr>policies := modify ?p ?f (policies d)\<rparr>"
    using assms(2) by (auto simp: update_operation_state_def Let_def split: if_splits)
  have frame: "drain_ok d' q \<longleftrightarrow> drain_ok d q" for q
    by (cases "po_operation_state (pl_policy q)") (simp_all add: d' drain_ok_def creating_def active_items_def)
  have "drain_ok d (?f q) \<longleftrightarrow> drain_ok d (q\<lparr>pl_policy := (pl_policy q)\<lparr>po_operation_state := st\<rparr>\<rparr>)" for q
    by (cases st) (simp_all add: drain_ok_def)
  with assms(1,3) have "\<forall>q \<in> set (policies d'). drain_ok d q"
    by (auto simp: d' set_modify drain_inv_def split: if_splits)
  moreover have "map pl_repo_key (policies d') = map pl_repo_key (policies d)" unfolding d'
    by (simp, rule map_key_modify) simp
  ultimately show ?thesis using assms(1) frame by (simp add: drain_inv_def d')
qed

lemma begin_draining_inv:
  assumes "begin_repository_draining now expires k w d = Inr d'" "drain_inv d"
  shows "drain_inv d'"
proof -
  from assms(1) obtain d1 v n where d1: "\<forall>ks. grows ks d d1"
    and idle: "\<not> list_ex (\<lambda>s. su_repo_key s = k \<and> su_state s = SubCreating) (submissions d1)"
    and d': "update_operation_state k v (Draining (captured_obligations k d1)) d1 = Inr (d', n)"
    unfolding begin_repository_draining_def by (elim composition_grows) (auto simp: result_simps)
  have "drain_inv d1" using drain_ok_grows [OF assms(2)] d1 by blast
  moreover have "drain_ok d1 (p\<lparr>pl_policy := (pl_policy p)\<lparr>po_operation_state := Draining (captured_obligations k d1)\<rparr>\<rparr>)"
    if "pl_repo_key p = k" for p
    using idle that by (auto simp: drain_ok_def creating_def active_items_def captured_obligations_def list_ex_iff)
  ultimately show ?thesis using update_operation_state_inv [OF _ d'] by blast
qed

lemma disable_inv:
  assumes "disable_drained_repository now expires k w d = Inr d'" "drain_inv d"
  shows "drain_inv d'"
proof -
  from assms(1) obtain d1 row obs n where d1: "\<forall>ks. grows ks d d1"
    and row: "find (\<lambda>p. pl_repo_key p = k) (policies d1) = Some row" "(case po_operation_state (pl_policy row) of Draining obligations \<Rightarrow> Ok obligations
            | _ \<Rightarrow> Err (Bail ''only a draining repository can be disabled'')) = Inr obs"
    and complete: "\<forall>ob \<in> obs. obligation_complete k d1 ob"
    and d': "update_operation_state k (pl_revision row) Disabled d1 = Inr (d', n)"
    unfolding disable_drained_repository_def
    by (elim composition_grows) (unfold bnd_eq_Ok require_eq_Ok fetch_eq_Ok split_paired_Ex prod.case sum.inject, elim exE conjE, rule that, simp_all)
  have draining: "po_operation_state (pl_policy row) = Draining obs"
    using row(2) by (cases "po_operation_state (pl_policy row)") auto
  have inv: "drain_inv d1" using drain_ok_grows [OF assms(2)] d1 by blast
  have row': "row \<in> set (policies d1)" "pl_repo_key row = k" using find_Some_mem [OF row(1)] by auto
  have quiet: "drain_ok d1 row" using inv row' by (simp add: drain_inv_def)
  have none: "(i, k) \<notin> active_items d1" for i
  proof
    assume i: "(i, k) \<in> active_items d1"
    with quiet draining row' have "QueueItemObligation i \<in> obs" by (auto simp: drain_ok_def)
    with complete obtain x where x: "find (\<lambda>x. qi_id x = i \<and> qi_repo_key x = k) (queue_items d1) = Some x" "\<not> active_status (qi_status x)"
      by (force simp: obligation_complete_def split: option.splits)
    with i inv show False using find_Some_mem [OF x(1)]
      by (auto simp: active_items_def drain_inv_def distinct_map inj_on_def)
  qed
  have "drain_ok d1 (p\<lparr>pl_policy := (pl_policy p)\<lparr>po_operation_state := Disabled\<rparr>\<rparr>)" if "pl_repo_key p = k" for p
    using quiet draining row' none that by (simp add: drain_ok_def)
  then show ?thesis using update_operation_state_inv [OF inv d'] by blast
qed

lemma drain_core:
  "begin_repository_draining now expires k w d = Inr d' \<Longrightarrow> same_core d d'"
  "disable_drained_repository now expires k w d = Inr d' \<Longrightarrow> same_core d d'"
proof -
  have move: "update_operation_state k v st d1 = Inr (d', n) \<Longrightarrow> same_core d1 d'" for v st d1 n
    by (auto simp: update_operation_state_def Let_def same_core_def split: if_splits)
  have enter: "\<forall>ks. grows ks d d1 \<Longrightarrow> same_core d d1" for d1 by (simp add: grows_def)
  show "begin_repository_draining now expires k w d = Inr d' \<Longrightarrow> same_core d d'"
    unfolding begin_repository_draining_def
    by (elim composition_grows) (auto simp: result_simps dest!: move enter intro: same_core_trans)
  show "disable_drained_repository now expires k w d = Inr d' \<Longrightarrow> same_core d d'"
    unfolding disable_drained_repository_def
    by (elim composition_grows) (auto simp: result_simps dest!: move enter intro: same_core_trans)
qed

lemma phase_active: "active_status (status_of_phase phase)"
  by (cases phase) (simp_all add: active_status_def)

text \<open>Every other method only adds to repositories that are enabled or already creating a submission.\<close>

definition allowed_growth :: "db \<Rightarrow> db \<Rightarrow> bool" where
  "allowed_growth d d' \<longleftrightarrow> (\<exists>ks. grows ks d d' \<and> (\<forall>k \<in> ks. enabled_in k d \<or> k \<in> creating d))"

lemma allowed_growthI:
  "grows {} d d' \<Longrightarrow> allowed_growth d d'"
  "grows {k} d d' \<and> enabled_in k d \<Longrightarrow> allowed_growth d d'"
  "grows {k} d d' \<and> k \<in> creating d \<Longrightarrow> allowed_growth d d'"
  by (auto simp: allowed_growth_def)

lemmas method_growth =
  claim_grows [THEN allowed_growthI(1)] transition_grows [THEN allowed_growthI(1)] workspace_grows [THEN allowed_growthI(1)]
  lease_grows [THEN allowed_growthI(1)] admit_direct_grows [THEN allowed_growthI(2)] admit_merge_request_grows [THEN allowed_growthI(2)]
  finalize_submission_grows [THEN allowed_growthI(3)]

lemma queue_step_growth:
  assumes "queue_step d d'"
  obtains "allowed_growth d d'"
  | now expires k w where "begin_repository_draining now expires k w d = Inr d'"
  | now expires k w where "disable_drained_repository now expires k w d = Inr d'"
  using assms
proof cases
  case block
  then show ?thesis unfolding block_item_owned_def
    by (intro that(1) allowed_growthI(1)) (rule block_grows, assumption, rule phase_active)
next
  case recover
  then show ?thesis unfolding block_integrating_recovery_owned_def bnd_eq_Ok
    by (elim exE conjE) (intro that(1) allowed_growthI(1), rule block_grows, assumption, simp add: active_status_def)
next
  case begin_submission
  then show ?thesis using begin_submission_grows allowed_growthI(1,2) that(1) by blast
qed (blast dest: method_growth intro: that)+

lemma queue_step_inv:
  assumes "queue_step d d'" "drain_inv d"
  shows "drain_inv d'"
  using assms(1)
proof (cases rule: queue_step_growth)
  case 1
  then show ?thesis using drain_ok_grows [OF assms(2)] unfolding allowed_growth_def by blast
next
  case 2
  then show ?thesis using begin_draining_inv assms(2) by blast
next
  case 3
  then show ?thesis using disable_inv assms(2) by blast
qed

lemma queue_step_core:
  assumes "queue_step d d'"
  shows "same_core d d'"
  using assms
proof (cases rule: queue_step_growth)
  case 1
  then show ?thesis by (auto simp: allowed_growth_def grows_def)
qed (use drain_core in auto)

end
