(* ===== verification/Lifecycle_Properties.thy ===== *)
theory Lifecycle_Properties
  imports Queue_Runs Queue_Example
begin

text \<open>
  The properties of admission, claim and draining, and their instances in a repository where an item is
  admitted, claimed and cancelled and the repository is then drained and disabled.
\<close>

section \<open>A life of an item\<close>

definition lx_idle :: db where
  "lx_idle = qx_leased\<lparr>queue_items := [], replication_debts := []\<rparr>"

definition lx_request :: direct_request where
  "lx_request = \<lparr>dr_repo_key = ''k'', dr_source_branch = ''topic'', dr_current_head_sha = qx_sha (CHR ''7''),
     dr_state_repository = Local\<rparr>"

definition lx_ids :: "string \<Rightarrow> nat \<Rightarrow> string" where
  "lx_ids prefix n = prefix @ replicate n (CHR ''+'')"

definition lx_main :: target_ref where
  "lx_main = TargetRef ''refs/heads/main''"

definition lx_admitted :: db where
  "lx_admitted = (case admit_direct ''2'' (lx_ids ''i'') lx_request lx_main lx_idle of Inr (d, _) \<Rightarrow> d | Inl _ \<Rightarrow> lx_idle)"

definition lx_claim :: "db \<Rightarrow> (db \<times> (string \<times> string) option) result" where
  "lx_claim = claim_next_ready (\<lambda>_ _. Ok ()) ''3'' (lx_ids ''a'') ''k'' lx_main (RepositoryLease ''k'' ''w'') ''{}'' ''digest''"

definition lx_claimed :: db where
  "lx_claimed = (case lx_claim lx_admitted of Inr (d, _) \<Rightarrow> d | Inl _ \<Rightarrow> lx_admitted)"

definition lx_draining :: db where
  "lx_draining = (case begin_repository_draining ''4'' ''9'' ''k'' ''w'' lx_claimed of Inr d \<Rightarrow> d | Inl _ \<Rightarrow> lx_claimed)"

definition lx_cancelled :: db where
  "lx_cancelled = (case cancel_item_without_effort ''5'' ''e'' ''i'' lx_draining of Inr d \<Rightarrow> d | Inl _ \<Rightarrow> lx_draining)"

definition lx_disabled :: db where
  "lx_disabled = (case disable_drained_repository ''6'' ''9'' ''k'' ''w'' lx_cancelled of Inr d \<Rightarrow> d | Inl _ \<Rightarrow> lx_cancelled)"

lemma lx_admitted_value: "admit_direct ''2'' (lx_ids ''i'') lx_request lx_main lx_idle = Inr (lx_admitted, ''i'')"
  by code_simp

lemma lx_claimed_value: "lx_claim lx_admitted = Inr (lx_claimed, Some (''i'', ''a''))"
  by code_simp

lemma lx_draining_value: "begin_repository_draining ''4'' ''9'' ''k'' ''w'' lx_claimed = Inr lx_draining"
  by code_simp

lemma lx_cancelled_value: "cancel_item_without_effort ''5'' ''e'' ''i'' lx_draining = Inr lx_cancelled"
  by code_simp

lemma lx_disabled_value: "disable_drained_repository ''6'' ''9'' ''k'' ''w'' lx_cancelled = Inr lx_disabled"
  by code_simp

section \<open>Draining\<close>

text \<open>The methods of the queue, interleaved with steps of other components that add no active item and no submission in
  creation and leave the policies alone.\<close>

inductive drain_step :: "db \<Rightarrow> db \<Rightarrow> bool" where
  queue: "queue_step d d' \<Longrightarrow> drain_step d d'"
| outside: "policies d' = policies d \<Longrightarrow> unique_items d' \<Longrightarrow> active_items d' \<subseteq> active_items d \<Longrightarrow> creating d' \<subseteq> creating d \<Longrightarrow>
    drain_step d d'"

lemma drain_step_inv: "drain_step d d' \<Longrightarrow> drain_inv d \<Longrightarrow> drain_inv d'"
proof (induction rule: drain_step.induct)
  case (outside d' d)
  then have "drain_ok d' p" if "p \<in> set (policies d)" for p
    using that by (cases "po_operation_state (pl_policy p)") (auto simp: drain_inv_def drain_ok_def, fastforce+)
  with outside show ?case by (simp add: drain_inv_def)
qed (rule queue_step_inv)

lemma drain_run_inv: "drain_step\<^sup>*\<^sup>* d d' \<Longrightarrow> drain_inv d \<Longrightarrow> drain_inv d'"
  by (induction rule: rtranclp_induct) (auto intro: drain_step_inv)

text \<open>C7. In every run from a state where all repositories are enabled, a draining repository has captured each of its active
  items as an obligation, and a disabled repository has no active item; neither has a submission in creation.\<close>

theorem disabled_repositories_are_quiet:
  assumes "drain_step\<^sup>*\<^sup>* d d'" "unique_items d" "distinct (map pl_repo_key (policies d))"
    and "\<forall>p \<in> set (policies d). po_operation_state (pl_policy p) = Enabled"
    and "p \<in> set (policies d')" "po_operation_state (pl_policy p) \<noteq> Enabled"
  shows "(\<forall>s \<in> set (submissions d'). su_repo_key s = pl_repo_key p \<longrightarrow> su_state s \<noteq> SubCreating) \<and>
    (\<forall>i \<in> set (queue_items d'). qi_repo_key i = pl_repo_key p \<and> active_status (qi_status i) \<longrightarrow>
      (\<exists>obligations. po_operation_state (pl_policy p) = Draining obligations \<and> QueueItemObligation (qi_id i) \<in> obligations))"
proof -
  have "drain_inv d" using assms(2-4) by (simp add: drain_inv_def drain_ok_def)
  with drain_run_inv [OF assms(1)] assms(5) have ok: "drain_ok d' p" by (simp add: drain_inv_def)
  from ok assms(6) have "\<forall>s \<in> set (submissions d'). su_repo_key s = pl_repo_key p \<longrightarrow> su_state s \<noteq> SubCreating"
    by (cases "po_operation_state (pl_policy p)") (force simp: drain_ok_def creating_def)+
  moreover from ok assms(6) have "\<forall>i \<in> set (queue_items d'). qi_repo_key i = pl_repo_key p \<and> active_status (qi_status i) \<longrightarrow>
      (\<exists>obligations. po_operation_state (pl_policy p) = Draining obligations \<and> QueueItemObligation (qi_id i) \<in> obligations)"
    by (cases "po_operation_state (pl_policy p)") (force simp: drain_ok_def active_items_def)+
  ultimately show ?thesis by blast
qed

lemma lx_run: "drain_step\<^sup>*\<^sup>* lx_idle lx_disabled"
proof -
  have steps: "queue_step lx_idle lx_admitted" "queue_step lx_admitted lx_claimed" "queue_step lx_claimed lx_draining"
      "queue_step lx_draining lx_cancelled" "queue_step lx_cancelled lx_disabled"
    using lx_admitted_value lx_claimed_value lx_draining_value lx_cancelled_value lx_disabled_value
    unfolding lx_claim_def cancel_item_without_effort_def by (blast intro: queue_step.intros)+
  then show ?thesis by (blast intro: drain_step.queue converse_rtranclp_into_rtranclp)
qed

theorem disabled_repositories_are_quiet_witness:
  "\<exists>p \<in> set (policies lx_disabled). po_operation_state (pl_policy p) = Disabled
     \<and> (\<forall>s \<in> set (submissions lx_disabled). su_repo_key s = pl_repo_key p \<longrightarrow> su_state s \<noteq> SubCreating)"
proof -
  have start: "unique_items lx_idle" "distinct (map pl_repo_key (policies lx_idle))"
      "\<forall>p \<in> set (policies lx_idle). po_operation_state (pl_policy p) = Enabled"
    by code_simp+
  have "list_ex (\<lambda>p. po_operation_state (pl_policy p) = Disabled) (policies lx_disabled)" by code_simp
  then obtain p where p: "p \<in> set (policies lx_disabled)" "po_operation_state (pl_policy p) = Disabled" by (auto simp: list_ex_iff)
  then have "po_operation_state (pl_policy p) \<noteq> Enabled" by simp
  with disabled_repositories_are_quiet [OF lx_run start p(1)] p show ?thesis by blast
qed

text \<open>The methods of the queue leave efforts, cycles, evidence, reviews and guidance alone, so a run that interleaves them with
  the requests of the effort store is a run of the store and keeps all of its invariants.\<close>

theorem queue_runs_are_store_runs:
  assumes "(\<lambda>a b. (\<exists>env r. perform env r a = Inr b) \<or> queue_step a b)\<^sup>*\<^sup>* d d'"
  shows "store_run d d'"
  using assms
proof (induction rule: rtranclp_induct)
  case (step a b)
  then have "store_step a b" using queue_step_core by (blast intro: store_step.intros)
  with step.IH show ?case by simp
qed simp

theorem queue_runs_are_store_runs_witness: "store_run lx_idle lx_admitted"
proof (rule queue_runs_are_store_runs, rule r_into_rtranclp, rule disjI2)
  show "queue_step lx_idle lx_admitted" using lx_admitted_value by (rule queue_step.intros)
qed

section \<open>Claims and admissions\<close>

text \<open>A claim takes the ready item that is oldest, by creation time and then by identifier, of all active items of its
  repository and target, moves it to merging and opens an attempt numbered above all earlier attempts of the item.\<close>

theorem claims_are_oldest_first:
  assumes "claim_next_ready verify now fresh k t a snapshot digest d = Inr (d', Some (i, attempt))"
  shows "\<exists>x \<in> set (queue_items d). qi_id x = i \<and> qi_status x = QReady \<and> qi_repo_key x = k \<and> qi_target_ref x = target_ref_str t
    \<and> (\<forall>y \<in> set (queue_items d). runtime_item d y \<and> active_status (qi_status y) \<and> qi_repo_key y = k \<and> qi_target_ref y = target_ref_str t
        \<longrightarrow> (qi_created_at x, qi_id x) \<le> (qi_created_at y, qi_id y))
    \<and> (\<exists>z \<in> set (queue_items d'). qi_id z = i \<and> qi_status z = QMerging \<and> qi_current_attempt_id z = Some attempt)
    \<and> (\<exists>b. attempts d' = attempts d @ [b] \<and> at_id b = attempt \<and> at_item_id b = i
        \<and> (\<forall>c \<in> set (attempts d). at_item_id c = i \<longrightarrow> at_number c < at_number b))"
  using assms
proof (cases rule: claim_cases)
  case (2 x head d1 d2 n)
  note x = oldest_active_mem [OF 2(1)]
  have d1: "queue_items d1 = queue_items d"
    "attempts d1 = attempts d @ [new_attempt (fresh 0) (qi_id x) (next_attempt_number (qi_id x) d) head snapshot digest]"
    using insert_attempt_Ok [OF 2(4)] by simp_all
  have d2: "queue_items d2 = modify (\<lambda>j. qi_id j = qi_id x) (claimed now (fresh 0)) (queue_items d)" "attempts d2 = attempts d1"
    using 2(5) d1 by (simp_all add: update_item_status_Ok)
  have d': "queue_items d' = queue_items d2" "attempts d' = attempts d2"
    using 2(6) by (auto simp: record_event_tx_def split: if_splits)
  have "claimed now (fresh 0) x \<in> set (queue_items d')" using x(1) by (auto simp: d' d2 set_modify)
  then have merging: "\<exists>z \<in> set (queue_items d'). qi_id z = i \<and> qi_status z = QMerging \<and> qi_current_attempt_id z = Some attempt"
    by (rule bexI [rotated]) (use 2(3) in \<open>simp add: claimed_def\<close>)
  have above: "at_number c < next_attempt_number (qi_id x) d" if "c \<in> set (attempts d)" "at_item_id c = qi_id x" for c
  proof -
    have mono: "n \<in> set ns \<Longrightarrow> n \<le> foldr max ns 0" for n :: nat and ns by (induction ns) (auto simp: max_def)
    have "at_number c \<le> foldr max (map at_number (filter (\<lambda>a. at_item_id a = qi_id x) (attempts d))) 0"
      using that by (intro mono) auto
    then show ?thesis by (simp add: next_attempt_number_def)
  qed
  show ?thesis
    by (rule bexI [of _ x]) (use x 2(2,3) merging above in \<open>auto simp: d'(2) d2(2) d1(2) new_attempt_def\<close>)
qed simp

theorem claims_are_oldest_first_witness:
  "\<exists>x \<in> set (queue_items lx_admitted). qi_id x = ''i'' \<and> qi_status x = QReady"
  using claims_are_oldest_first [OF lx_claimed_value [unfolded lx_claim_def]] by blast

lemma find_product_new:
  assumes "find (\<lambda>(x, y). P x y) (List.product xs ys) = None" "\<And>y. y \<in> set ys \<Longrightarrow> \<not> P x' y" "\<And>x. x \<in> set xs \<Longrightarrow> \<not> P x y'" "P x' y'"
  shows "find (\<lambda>(x, y). P x y) (List.product (xs @ [x']) (ys @ [y'])) = Some (x', y')"
proof -
  have app: "find Q (as @ bs) = (case find Q as of None \<Rightarrow> find Q bs | Some r \<Rightarrow> Some r)" for Q as bs
    by (induction as) auto
  have none: "find Q zs = None \<longleftrightarrow> (\<forall>z \<in> set zs. \<not> Q z)" for Q zs by (auto simp: find_None_iff)
  have old: "\<not> P x y" if "x \<in> set xs" "y \<in> set (ys @ [y'])" for x y
    using that assms(1,3) by (auto simp: none)
  have prod: "List.product (xs @ [x']) zs = List.product xs zs @ map (Pair x') zs" for zs by (induction xs) auto
  have "find (\<lambda>(x, y). P x y) (List.product xs (ys @ [y'])) = None"
    "find (\<lambda>(x, y). P x y) (map (Pair x') ys) = None"
    using old assms(2) by (auto simp: none)
  with assms(4) show ?thesis by (simp add: prod app)
qed

text \<open>Admitting a branch again with the same head gives the same item and changes nothing, whatever identifiers are drawn.\<close>

theorem direct_admission_is_idempotent:
  assumes "admit_direct now fresh r t d = Inr (d', i)"
  shows "admit_direct now' fresh' r t d' = Inr (d', i)"
proof (cases "direct_existing r (target_ref_str t) d")
  case None
  let ?i = "new_item (fresh 0) (dr_repo_key r) (target_ref_str t) now"
  let ?a = "\<lparr>ad_item_id = fresh 0, ad_kind = AdmitDirect, ad_source_branch = dr_source_branch r,
                ad_head_sha = dr_current_head_sha r, ad_source_ref = None, ad_submission_id = None, ad_provider = None,
                ad_target_ref = target_ref_str t, ad_base_sha = None, ad_merge_request_identity = None,
                ad_merge_request_url = None, ad_admitted_at = now\<rparr>"
  from assms None obtain snapshot d1 d2 d3 where i: "i = fresh 0" and snapshot: "snapshot_validate (dr_state_repository r) = Inr snapshot"
    and d1: "insert_item ?i d = Inr d1" and d2: "insert_admission ?a d1 = Inr d2"
    and d3: "record_event_tx now (fresh 1) (fresh 0) ''item_enqueued'' ''item enqueued'' d2 = Inr d3"
    and d': "insert_state_repository_binding now (fresh 0) snapshot d3 = Inr d'"
    by (auto simp: admit_direct_def result_simps)
  have items: "queue_items d' = queue_items d @ [?i]" "admissions d' = admissions d @ [?a]" "repositories d' = repositories d"
      "policies d' = policies d" "bindings d' = bindings d @ [\<lparr>sr_item_id = fresh 0, sr_snapshot = snapshot,
             sr_reservation_state = reservation_of snapshot, sr_bound_at = now\<rparr>]"
    and new: "fresh 0 \<notin> qi_id ` set (queue_items d)" "fresh 0 \<notin> ad_item_id ` set (admissions d)" "fresh 0 \<notin> sr_item_id ` set (bindings d)"
    using d1 d2 d3 d' by (auto simp: insert_item_def insert_admission_def record_event_tx_def insert_state_repository_binding_def
        list_ex_iff split: if_splits)
  have "direct_existing r (target_ref_str t) d' = Some (?i, ?a)"
    unfolding direct_existing_def items
    by (rule find_product_new) (use None new in \<open>auto simp: direct_existing_def new_item_def active_status_def image_iff\<close>)
  moreover have "find (\<lambda>b. sr_item_id b = fresh 0) (bindings d') = Some \<lparr>sr_item_id = fresh 0, sr_snapshot = snapshot,
             sr_reservation_state = reservation_of snapshot, sr_bound_at = now\<rparr>"
    unfolding items by (rule find_append_new) (use new(3) in \<open>unfold find_None_mem, force, simp\<close>)
  ultimately show ?thesis using assms snapshot i
    by (auto simp: admit_direct_def result_simps items)
next
  case (Some x)
  then show ?thesis using assms by (cases x) (auto simp: admit_direct_def result_simps)
qed

theorem direct_admission_is_idempotent_witness:
  "admit_direct ''8'' (lx_ids ''z'') lx_request lx_main lx_admitted = Inr (lx_admitted, ''i'')"
  by (rule direct_admission_is_idempotent [OF lx_admitted_value])

section \<open>Progress and its absence\<close>

text \<open>C28. The holder of the lease of a draining repository can disable it as soon as every captured obligation is terminal and
  clean.\<close>

theorem drained_repositories_can_be_disabled:
  assumes "is_ok (enter_composition now expires k w d)" "distinct (map pl_repo_key (policies d))"
    and "p \<in> set (policies d)" "pl_repo_key p = k" "po_operation_state (pl_policy p) = Draining obligations"
    and "\<forall>ob \<in> obligations. obligation_complete k d ob"
  shows "\<exists>d'. disable_drained_repository now expires k w d = Inr d'
    \<and> (\<exists>q \<in> set (policies d'). pl_repo_key q = k \<and> po_operation_state (pl_policy q) = Disabled)"
proof -
  from assms(1) obtain d1 where d1: "enter_composition now expires k w d = Inr d1"
    by (cases "enter_composition now expires k w d") auto
  then have frame: "policies d1 = policies d" "workspaces d1 = workspaces d" "queue_items d1 = queue_items d"
      "cleanup_debts d1 = cleanup_debts d" "replication_debts d1 = replication_debts d"
    by (auto simp: enter_composition_def result_simps renew_repo_def renew_physical_def)
  have p: "find (\<lambda>r. pl_repo_key r = k) (policies d) = Some p" using find_key [OF assms(2,3)] assms(4) by simp
  have complete: "\<forall>ob \<in> obligations. obligation_complete k d1 ob"
    using assms(6) unfolding obligation_complete_def frame .
  let ?f = "\<lambda>r. r\<lparr>pl_revision := Suc (pl_revision r), pl_policy := (pl_policy r)\<lparr>po_operation_state := Disabled\<rparr>\<rparr>"
  let ?q = "\<lambda>r. pl_repo_key r = k \<and> pl_revision r = pl_revision p"
  have only: "r = p" if "r \<in> set (policies d)" "pl_repo_key r = k" for r
    using that assms(2-4) by (auto simp: distinct_map inj_on_def)
  then have update: "update_operation_state k (pl_revision p) Disabled d1
      = Inr (d1\<lparr>policies := modify ?q ?f (policies d)\<rparr>, changed ?q (policies d))"
    using assms(5) by (auto simp: update_operation_state_def Let_def list_ex_iff operation_transition_def frame)
  have "distinct (policies d)" using assms(2) by (simp add: distinct_map)
  then have "filter ?q (policies d) = filter (\<lambda>r. r = p) (policies d)" using only assms(4) by (intro filter_cong) auto
  then have one: "changed ?q (policies d) = 1"
    using \<open>distinct (policies d)\<close> assms(3) by (simp add: changed_def distinct_length_filter Int_def Collect_conv_if)
  have "disable_drained_repository now expires k w d = Inr (d1\<lparr>policies := modify ?q ?f (policies d)\<rparr>)"
    using d1 p complete assms(5) update one
    by (simp add: disable_drained_repository_def composition_transaction_def bnd_eq_Ok require_eq_Ok fetch_eq_Ok frame)
  moreover have "?f p \<in> set (modify ?q ?f (policies d))" using assms(3,4) by (auto simp: set_modify)
  ultimately show ?thesis using assms(4) by (intro exI conjI bexI [of _ "?f p"]) auto
qed

theorem drained_repositories_can_be_disabled_witness:
  "\<exists>d'. disable_drained_repository ''6'' ''9'' ''k'' ''w'' lx_cancelled = Inr d'"
proof -
  have facts: "is_ok (enter_composition ''6'' ''9'' ''k'' ''w'' lx_cancelled)" "distinct (map pl_repo_key (policies lx_cancelled))"
    "map (\<lambda>p. (pl_repo_key p, po_operation_state (pl_policy p))) (policies lx_cancelled) = [(''k'', Draining {QueueItemObligation ''i''})]"
    "\<forall>ob \<in> {QueueItemObligation ''i''}. obligation_complete ''k'' lx_cancelled ob"
    by code_simp+
  from facts(3) obtain p where p: "p \<in> set (policies lx_cancelled)" "pl_repo_key p = ''k''"
      "po_operation_state (pl_policy p) = Draining {QueueItemObligation ''i''}"
    by (auto simp: map_eq_Cons_conv)
  show ?thesis using drained_repositories_can_be_disabled [OF facts(1,2) p facts(4)] by blast
qed

text \<open>C30. While a submission in creation replaces an item that no effort owns, the item cannot be cancelled, because the
  replacement is incomplete, and the replacement cannot be finalized, because the item is not cancelled.\<close>

theorem replacement_without_effort_is_stuck:
  assumes "find (\<lambda>s. su_id s = sid) (submissions d) = Some s" "su_state s = SubCreating" "su_replaces_item_id s = Some i"
    and "\<forall>x \<in> set (queue_items d). qi_id x = i \<longrightarrow> qi_status x \<noteq> QCancelled"
  shows "\<not> is_ok (transition_item now e i QCancelled a d) \<and> \<not> is_ok (cancel_item_without_effort now e i d)
    \<and> \<not> is_ok (finalize_local_submission registered now expires e k w sid snapshot d)"
proof -
  have replacing: "list_ex (\<lambda>s. su_replaces_item_id s = Some i \<and> su_state s = SubCreating) (submissions d)"
    using find_Some_mem [OF assms(1)] assms(2,3) by (auto simp: list_ex_iff)
  have "transition_item now e i QCancelled a d \<noteq> Inr d'" for a d'
    using replacing by (auto simp: transition_item_def cancel_item_effects_def bnd_eq_Ok require_eq_Ok dest!: get_item_mem)
  then have transition: "\<not> is_ok (transition_item now e i QCancelled a d)" for a
    by (cases "transition_item now e i QCancelled a d") auto
  have "finalize_local_submission registered now expires e k w sid snapshot d \<noteq> Inr d'" for d'
  proof
    assume "finalize_local_submission registered now expires e k w sid snapshot d = Inr d'"
    then obtain d1 d2 :: db and t where d1: "submissions d1 = submissions d" "queue_items d1 = queue_items d"
      and s: "find (\<lambda>s. su_id s = sid) (submissions d1) = Some t"
      and d2: "(case su_replaces_item_id t of None \<Rightarrow> Ok d1 | Some replaced \<Rightarrow>
        bnd (fetch (\<lambda>i. qi_id i = replaced \<and> qi_repo_key i = k) (queue_items d1) (NoRow ''queue_items'')) (\<lambda>i.
        bnd (require (qi_status i = QCancelled) (Bail ''superseded queue item is not cancelled'')) (\<lambda>_.
        Ok (d1\<lparr>submissions := modify (\<lambda>x. su_queue_item_id x = replaced \<and> su_state x = SubCancelled)
                (\<lambda>x. x\<lparr>su_state := SubReplaced\<rparr>) (submissions d1)\<rparr>)))) = Inr d2"
      unfolding finalize_local_submission_def bnd_eq_Ok
      by (elim exE conjE composition_grows) (unfold bnd_eq_Ok require_eq_Ok fetch_eq_Ok Let_def sum.inject, elim exE conjE, rule that, assumption+)
    from s d1 assms(1) have "t = s" by simp
    with d2 assms(3,4) d1 show False by (auto simp: bnd_eq_Ok require_eq_Ok fetch_eq_Ok dest!: find_Some_mem)
  qed
  then show ?thesis using transition
    by (cases "finalize_local_submission registered now expires e k w sid snapshot d") (auto simp: cancel_item_without_effort_def)
qed

definition lx_replacing :: db where
  "lx_replacing = lx_claimed\<lparr>submissions := [\<lparr>su_id = ''s'', su_queue_item_id = ''j'', su_repo_key = ''k'', su_workspace_id = ''w'',
     su_base_sha = qx_sha (CHR ''5''), su_commit_sha = qx_sha (CHR ''8''), su_private_ref = ''refs/iq/submissions/s'',
     su_staging_ref = ''refs/iq/staging/s'', su_replaces_item_id = Some ''i'', su_state = SubCreating, su_created_at = ''4''\<rparr>]\<rparr>"

theorem replacement_without_effort_is_stuck_witness:
  "\<not> is_ok (cancel_item_without_effort ''5'' ''e'' ''i'' lx_replacing)
   \<and> \<not> is_ok (finalize_local_submission (Ok ()) ''5'' ''9'' ''e'' ''k'' ''w'' ''s'' Local lx_replacing)"
proof -
  have "list_all (\<lambda>x. qi_id x = ''i'' \<longrightarrow> qi_status x \<noteq> QCancelled) (queue_items lx_replacing)" by code_simp
  then have "\<forall>x \<in> set (queue_items lx_replacing). qi_id x = ''i'' \<longrightarrow> qi_status x \<noteq> QCancelled" by (simp add: list_all_iff)
  then show ?thesis
    using replacement_without_effort_is_stuck [of "''s''" lx_replacing "hd (submissions lx_replacing)" "''i''"]
    by (simp add: lx_replacing_def)
qed

end
