(* ===== verification/Notifications.thy ===== *)
theory Notifications
  imports Store_Update Git_Output Actions "HOL-Library.Word" "HOL-Library.Char_ord" "HOL-Library.List_Lexorder"
    "HOL-Library.Product_Lexorder"
begin

text \<open>
  Delivery of alerts to desktop backends (\<open>notifications.rs\<close>) and the configuration it reads
  (\<open>NotificationConfig\<close> and \<open>NotificationBackendConfig\<close> of \<open>agent_config.rs\<close>).  A pass of the dispatcher is a
  sequence of transactions around one command; a pass that fails keeps what it committed.  Parameters: the clock, with the
  printing and parsing of RFC 3339 timestamps (an instant is a number of nanoseconds), fresh identifiers, opening the database,
  and the command of a backend.
\<close>

section \<open>Configuration\<close>

datatype notification_backend = Wslg string | Windows string

record notification_config =
  nc_backends :: "notification_backend list"
  nc_max_attempts :: "8 word"
  nc_max_event_age_seconds :: "64 word"
  nc_projection_debt_alert_seconds :: "64 word"

definition default_notification_config :: notification_config where
  "default_notification_config =
     \<lparr>nc_backends = [], nc_max_attempts = 5, nc_max_event_age_seconds = 24 * 60 * 60, nc_projection_debt_alert_seconds = 15 * 60\<rparr>"

fun backend_name :: "notification_backend \<Rightarrow> string" where
  "backend_name (Wslg _) = ''wslg''"
| "backend_name (Windows _) = ''windows''"

fun backend_executable :: "notification_backend \<Rightarrow> string" where
  "backend_executable (Wslg executable) = executable"
| "backend_executable (Windows executable) = executable"

record backend_health =
  bh_backend :: string
  bh_available :: bool
  bh_detail :: string

text \<open>\<open>is_file\<close> asks the file system; \<open>Path::display\<close> of a path is its text.\<close>

definition backend_health_of :: "(string \<Rightarrow> bool) \<Rightarrow> notification_backend \<Rightarrow> backend_health" where
  "backend_health_of is_file backend =
     (let path = backend_executable backend; available = is_absolute path \<and> is_file path
      in \<lparr>bh_backend = backend_name backend, bh_available = available,
          bh_detail = (if available then ''available'' else ''unavailable: '' @ path)\<rparr>)"

section \<open>Deliveries\<close>

record notification_payload =
  np_repository :: string
  np_item_id :: string
  np_blocker_kind :: string
  np_reason :: string

record pending_delivery =
  pd_id :: nat
  pd_event_id :: string
  pd_backend :: string
  pd_attempt_count :: "8 word"
  pd_event_created_at :: string
  pd_payload :: notification_payload
  pd_claim_id :: string

record delivery_transition =
  dt_expected :: delivery_state
  dt_next :: delivery_state
  dt_attempts :: "8 word"
  dt_next_attempt_at :: "string option"
  dt_error :: "string option"

text \<open>The constraints on a row of \<open>notification_deliveries\<close>.\<close>

definition delivery_check :: "delivery \<Rightarrow> bool" where
  "delivery_check x \<longleftrightarrow>
     (nd_state x \<in> {DeliveryClaimed, DeliveryRunning} \<longleftrightarrow> nd_claim_id x \<noteq> None \<and> nd_claimed_at x \<noteq> None)
     \<and> (nd_redelivery_of x = None \<longleftrightarrow> nd_redelivery_actor x = None)"

definition update_deliveries :: "(delivery \<Rightarrow> bool) \<Rightarrow> (delivery \<Rightarrow> delivery) \<Rightarrow> db \<Rightarrow> (db \<times> nat) result" where
  "update_deliveries p f d =
     (if list_ex (\<lambda>x. p x \<and> \<not> delivery_check (f x)) (deliveries d)
      then Err (Abort ''CHECK constraint failed: notification_deliveries'')
      else Ok (d\<lparr>deliveries := modify p f (deliveries d)\<rparr>, changed p (deliveries d)))"

text \<open>
  \<open>json_extract(payload_json,'$.name')\<close> read as a text.  The payload of a state is the object with the members \<open>state\<close>
  and \<open>payload\<close>, that of a failure its tagged object, that of a responder and of an intent their fields; a number does
  not convert to a text.  \<open>print\<close> is the text of a member that is no plain text.
\<close>

definition payload_text :: "(payload_field \<Rightarrow> string) \<Rightarrow> string \<Rightarrow> event_payload \<Rightarrow> string option result" where
  "payload_text print name payload =
     (case payload of
        PayloadFields members \<Rightarrow>
          (case map_of members name of
             None \<Rightarrow> Ok None
           | Some FNull \<Rightarrow> Ok None
           | Some (FText s) \<Rightarrow> Ok (Some s)
           | Some (FNumber n) \<Rightarrow> Err (Abort ''Invalid column type Integer'')
           | Some v \<Rightarrow> Ok (Some (print v)))
      | PayloadFailure (MechanicalFailure operation reason evidence) \<Rightarrow> Ok (if name = ''reason'' then Some reason else None)
      | PayloadFailure (InvalidResult reason) \<Rightarrow> Ok (if name = ''reason'' then Some reason else None)
      | _ \<Rightarrow> Ok None)"

record 'w notifier =
  nt_now :: "'w \<Rightarrow> int \<times> 'w"
  nt_rfc3339 :: "int \<Rightarrow> string"
  nt_parse :: "string \<Rightarrow> int result"
  nt_uuid :: "'w \<Rightarrow> string \<times> 'w"
  nt_connect :: "'w \<Rightarrow> unit result \<times> 'w"
  nt_run_backend :: "notification_backend \<Rightarrow> string \<Rightarrow> 'w \<Rightarrow> unit result \<times> 'w"
  nt_print :: "payload_field \<Rightarrow> string"

section \<open>Transactions\<close>

text \<open>Two updates of the table \<open>notification_backends\<close>, each on its own; neither can fail.\<close>

definition register_backend :: "notification_config \<Rightarrow> string \<Rightarrow> db \<Rightarrow> db" where
  "register_backend config name d =
     d\<lparr>backends := modify (\<lambda>(backend, _). backend = name)
         (\<lambda>(backend, _). (backend, list_ex (\<lambda>b. backend_name b = name) (nc_backends config))) (backends d)\<rparr>"

definition register_backends :: "notification_config \<Rightarrow> db \<Rightarrow> db" where
  "register_backends config d = fold (register_backend config) [''wslg'', ''windows''] d"

text \<open>\<open>ORDER BY delivery.next_attempt_at, delivery.id LIMIT 1\<close> of the join with \<open>durable_events\<close>.\<close>

definition due :: "string \<Rightarrow> db \<Rightarrow> delivery \<Rightarrow> bool" where
  "due now d x \<longleftrightarrow>
     nd_state x = DeliveryPending
     \<and> (case nd_next_attempt_at x of None \<Rightarrow> False | Some t \<Rightarrow> t \<le> now)
     \<and> list_ex (\<lambda>v. ev_id v = nd_event_id x) (events d)"

definition next_due :: "string \<Rightarrow> db \<Rightarrow> delivery option" where
  "next_due now d =
     (case sort_key (\<lambda>x. (the (nd_next_attempt_at x), nd_id x)) (filter (due now d) (deliveries d)) of
        [] \<Rightarrow> None | x # _ \<Rightarrow> Some x)"

definition pending_delivery_row :: "(payload_field \<Rightarrow> string) \<Rightarrow> delivery \<Rightarrow> db \<Rightarrow> (string \<Rightarrow> pending_delivery) result" where
  "pending_delivery_row print x d =
     bnd (fetch (\<lambda>v. ev_id v = nd_event_id x) (events d) (NoRow ''durable_events'')) (\<lambda>event.
     bnd (require (nd_attempt_count x < 256) (Abort ''Integer out of range'')) (\<lambda>_.
     bnd (payload_text print ''repository'' (ev_payload event)) (\<lambda>repository.
     bnd (payload_text print ''blocker_kind'' (ev_payload event)) (\<lambda>blocker_kind.
     bnd (payload_text print ''reason'' (ev_payload event)) (\<lambda>reason.
     Ok (\<lambda>claim_id. \<lparr>pd_id = nd_id x, pd_event_id = nd_event_id x, pd_backend = nd_backend x,
       pd_attempt_count = word_of_nat (nd_attempt_count x), pd_event_created_at = ev_created_at event,
       pd_payload = \<lparr>np_repository = (case repository of None \<Rightarrow> ''local'' | Some s \<Rightarrow> s),
         np_item_id = ev_item_id event,
         np_blocker_kind = (case blocker_kind of None \<Rightarrow> ''unknown'' | Some s \<Rightarrow> s),
         np_reason = (case reason of None \<Rightarrow> ev_type event | Some s \<Rightarrow> s)\<rparr>,
       pd_claim_id = claim_id\<rparr>))))))"

definition claim_update :: "string \<Rightarrow> pending_delivery \<Rightarrow> db \<Rightarrow> db result" where
  "claim_update now delivery d =
     bnd (update_deliveries (\<lambda>x. nd_id x = pd_id delivery \<and> nd_state x = DeliveryPending)
            (\<lambda>x. x\<lparr>nd_state := DeliveryClaimed, nd_claim_id := Some (pd_claim_id delivery), nd_claimed_at := Some now,
                   nd_last_error := Some (NoteClaimed (pd_event_id delivery)), nd_updated_at := now\<rparr>) d) (\<lambda>(d, n).
     bnd (require (n = 1) (Bail ''notification delivery authority changed before command start'')) (\<lambda>_. Ok d))"

text \<open>The selection and the update are one transaction, which no other connection interrupts.\<close>

definition claim_next :: "(payload_field \<Rightarrow> string) \<Rightarrow> string \<Rightarrow> string \<Rightarrow> string \<Rightarrow> db \<Rightarrow> (pending_delivery option \<times> db) result" where
  "claim_next print now claimed_at uuid d =
     (case next_due now d of
        None \<Rightarrow> Ok (None, d)
      | Some x \<Rightarrow>
          bnd (pending_delivery_row print x d) (\<lambda>row.
          bnd (claim_update claimed_at (row uuid) d) (\<lambda>d.
          Ok (Some (row uuid), d))))"

definition mark_command_started :: "string \<Rightarrow> nat \<Rightarrow> string \<Rightarrow> db \<Rightarrow> db result" where
  "mark_command_started now delivery_id claim_id d =
     bnd (update_deliveries (\<lambda>x. nd_id x = delivery_id \<and> nd_state x = DeliveryClaimed \<and> nd_claim_id x = Some claim_id)
            (\<lambda>x. x\<lparr>nd_state := DeliveryRunning, nd_last_error := Some NoteCommandStarted, nd_updated_at := now\<rparr>) d) (\<lambda>(d, n).
     bnd (require (n = 1) (Bail ''notification claim changed before command start'')) (\<lambda>_. Ok d))"

definition set_delivery_state :: "string \<Rightarrow> nat \<Rightarrow> string \<Rightarrow> delivery_transition \<Rightarrow> db \<Rightarrow> db result" where
  "set_delivery_state now delivery_id claim_id transition d =
     bnd (update_deliveries
            (\<lambda>x. nd_id x = delivery_id \<and> nd_state x = dt_expected transition \<and> nd_claim_id x = Some claim_id)
            (\<lambda>x. x\<lparr>nd_state := dt_next transition, nd_claim_id := None, nd_claimed_at := None,
                   nd_attempt_count := unat (dt_attempts transition), nd_next_attempt_at := dt_next_attempt_at transition,
                   nd_last_error := map_option NoteBackend (dt_error transition), nd_updated_at := now\<rparr>) d) (\<lambda>(d, n).
     bnd (require (n = 1) (Bail ''notification delivery claim changed before result persistence'')) (\<lambda>_. Ok d))"

definition mark_started_unknown_after_restart :: "string \<Rightarrow> string \<Rightarrow> db \<Rightarrow> (nat \<times> db) result" where
  "mark_started_unknown_after_restart now1 now2 d =
     bnd (update_deliveries (\<lambda>x. nd_state x = DeliveryClaimed)
            (\<lambda>x. x\<lparr>nd_state := DeliveryPending, nd_claim_id := None, nd_claimed_at := None,
                   nd_last_error := Some NoteClaimRecoveredBeforeStart, nd_updated_at := now1\<rparr>) d) (\<lambda>(d, _).
     bnd (update_deliveries (\<lambda>x. nd_state x = DeliveryRunning)
            (\<lambda>x. x\<lparr>nd_state := DeliveryUnknown, nd_claim_id := None, nd_claimed_at := None, nd_next_attempt_at := None,
                   nd_last_error := Some NoteAuthorityLostAfterStart, nd_updated_at := now2\<rparr>) d) (\<lambda>(d, n).
     Ok (n, d)))"

definition redelivery :: "string \<Rightarrow> nat \<Rightarrow> string \<Rightarrow> delivery \<Rightarrow> delivery" where
  "redelivery now n actor x =
     \<lparr>nd_id = n, nd_event_id = nd_event_id x, nd_backend = nd_backend x, nd_state = DeliveryPending, nd_claim_id = None,
      nd_claimed_at = None, nd_attempt_count = 0, nd_next_attempt_at = Some now, nd_last_error = None,
      nd_redelivery_of = Some (nd_id x), nd_redelivery_actor = Some actor, nd_created_at = now, nd_updated_at = now\<rparr>"

definition redeliver :: "string \<Rightarrow> nat \<Rightarrow> string \<Rightarrow> db \<Rightarrow> (nat \<times> db) result" where
  "redeliver now delivery_id actor d =
     bnd (require_exact_text actor ''notification redelivery actor'') (\<lambda>_.
     bnd (fetch (\<lambda>x. nd_id x = delivery_id) (deliveries d) (NoRow ''notification_deliveries'')) (\<lambda>x.
     bnd (require (nd_state x \<in> {DeliveryUnknown, DeliveryFailed, DeliveryExpired})
            (Bail ''only unknown, failed, or expired delivery can be explicitly redelivered'')) (\<lambda>_.
     bnd (require (\<not> list_ex (\<lambda>y. nd_event_id y = nd_event_id x \<and> nd_backend y = nd_backend x
               \<and> nd_redelivery_of y = Some delivery_id) (deliveries d))
            (Abort ''UNIQUE constraint failed: notification_deliveries'')) (\<lambda>_.
     let n = Suc (delivery_sequence d)
     in Ok (n, d\<lparr>deliveries := deliveries d @ [redelivery now n actor x], delivery_sequence := n\<rparr>)))))"

section \<open>The message of a delivery\<close>

text \<open>\<open>chars().take(n)\<close> on UTF-8 bytes.\<close>

fun take_chars :: "nat \<Rightarrow> string \<Rightarrow> string" where
  "take_chars 0 s = []"
| "take_chars (Suc n) s =
     (if utf8_width s = 0 then [] else take (utf8_width s) s @ take_chars n (drop (utf8_width s) s))"

definition newline :: char where "newline = CHR 0x0A"

definition message_text :: "notification_payload \<Rightarrow> string" where
  "message_text p =
     np_repository p @ [newline] @ ''Item: '' @ np_item_id p @ [newline] @ ''Blocker: '' @ np_blocker_kind p @ [newline]
     @ take_chars 512 (np_reason p) @ [newline] @ ''Run: iq show '' @ np_item_id p"

definition bounded_payload :: "notification_payload \<Rightarrow> string result" where
  "bounded_payload p =
     (if length (message_text p) > 2048 then Err (Bail ''notification payload exceeds fixed bound'') else Ok (message_text p))"

section \<open>A pass of the dispatcher\<close>

text \<open>\<open>chrono::Duration::seconds\<close> takes an \<open>i64\<close> and panics when its milliseconds leave the \<open>i64\<close> range; a duration is a
  number of nanoseconds.\<close>

definition duration_seconds :: "int \<Rightarrow> int result" where
  "duration_seconds s =
     (if \<bar>s\<bar> \<le> (2 ^ 63 - 1) div 1000 then Ok (s * 1000000000) else Err (Bail ''TimeDelta::seconds out of bounds''))"

definition notifier_clock :: "'w notifier \<Rightarrow> ('w, int) act" where
  "notifier_clock ops s = (case nt_now ops (fst s) of (t, w) \<Rightarrow> (Inr t, (w, snd s)))"

definition notifier_uuid :: "'w notifier \<Rightarrow> ('w, string) act" where
  "notifier_uuid ops s = (case nt_uuid ops (fst s) of (t, w) \<Rightarrow> (Inr t, (w, snd s)))"

definition notifier_stamp :: "'w notifier \<Rightarrow> ('w, string) act" where
  "notifier_stamp ops = act_bind (notifier_clock ops) (\<lambda>t. act_return (Ok (nt_rfc3339 ops t)))"

definition act_claim_next :: "'w notifier \<Rightarrow> ('w, pending_delivery option) act" where
  "act_claim_next ops =
     act_bind (notifier_stamp ops) (\<lambda>now.
     act_bind (act_read (\<lambda>d. Ok (next_due now d))) (\<lambda>selected.
     if selected = None then act_return (Ok None)
     else
       act_bind (notifier_uuid ops) (\<lambda>uuid.
       act_bind (notifier_stamp ops) (\<lambda>claimed_at s.
         (case claim_next (nt_print ops) now claimed_at uuid (snd s) of
            Inl e \<Rightarrow> (Err e, s)
          | Inr (p, d) \<Rightarrow> (Ok p, (fst s, d)))))))"

definition act_started :: "'w notifier \<Rightarrow> pending_delivery \<Rightarrow> ('w, unit) act" where
  "act_started ops delivery =
     act_bind (notifier_stamp ops) (\<lambda>now. act_commit (mark_command_started now (pd_id delivery) (pd_claim_id delivery)))"

definition act_delivery_state :: "'w notifier \<Rightarrow> pending_delivery \<Rightarrow> delivery_transition \<Rightarrow> ('w, unit) act" where
  "act_delivery_state ops delivery transition =
     act_bind (notifier_stamp ops)
       (\<lambda>now. act_commit (set_delivery_state now (pd_id delivery) (pd_claim_id delivery) transition))"

definition expired_transition :: "pending_delivery \<Rightarrow> delivery_transition" where
  "expired_transition delivery =
     \<lparr>dt_expected = DeliveryClaimed, dt_next = DeliveryExpired, dt_attempts = pd_attempt_count delivery,
      dt_next_attempt_at = None, dt_error = None\<rparr>"

definition outcome_transition :: "pending_delivery \<Rightarrow> delivery_state \<Rightarrow> string option \<Rightarrow> string option \<Rightarrow> delivery_transition" where
  "outcome_transition delivery next next_attempt_at error =
     \<lparr>dt_expected = DeliveryRunning, dt_next = next, dt_attempts = pd_attempt_count delivery + 1,
      dt_next_attempt_at = next_attempt_at, dt_error = error\<rparr>"

definition backoff_seconds :: "8 word \<Rightarrow> int" where
  "backoff_seconds attempt_count = 2 ^ min (unat attempt_count) 10"

definition act_finish :: "'w notifier \<Rightarrow> notification_config \<Rightarrow> pending_delivery \<Rightarrow> unit result \<Rightarrow> ('w, unit) act" where
  "act_finish ops config delivery outcome =
     (case outcome of
        Inr _ \<Rightarrow> act_delivery_state ops delivery (outcome_transition delivery DeliveryDelivered None None)
      | Inl error \<Rightarrow>
          if pd_attempt_count delivery + 1 < nc_max_attempts config
          then act_bind (notifier_clock ops) (\<lambda>now.
               act_bind (act_return (duration_seconds (backoff_seconds (pd_attempt_count delivery)))) (\<lambda>backoff.
               act_delivery_state ops delivery
                 (outcome_transition delivery DeliveryPending (Some (nt_rfc3339 ops (now + backoff))) (Some (error_text error)))))
          else act_delivery_state ops delivery (outcome_transition delivery DeliveryFailed None (Some (error_text error))))"

definition dispatch_once :: "'w notifier \<Rightarrow> notification_config \<Rightarrow> ('w, nat) act" where
  "dispatch_once ops config =
     act_bind (act_world (nt_connect ops)) (\<lambda>_.
     act_bind (act_commit (\<lambda>d. Ok (register_backends config d))) (\<lambda>_.
     act_bind (act_claim_next ops) (\<lambda>pending.
     case pending of
       None \<Rightarrow> act_return (Ok 0)
     | Some delivery \<Rightarrow>
         act_bind (act_return (nt_parse ops (pd_event_created_at delivery))) (\<lambda>created.
         act_bind (notifier_clock ops) (\<lambda>now.
         act_bind (act_return (duration_seconds (sint (nc_max_event_age_seconds config)))) (\<lambda>age.
         if now - created > age
         then act_bind (act_delivery_state ops delivery (expired_transition delivery)) (\<lambda>_. act_return (Ok 1))
         else
           act_bind (act_return (case find (\<lambda>b. backend_name b = pd_backend delivery) (nc_backends config) of
                None \<Rightarrow> Err (Bail ''pending delivery backend is not configured'') | Some b \<Rightarrow> Ok b)) (\<lambda>backend.
           act_bind (act_return (bounded_payload (pd_payload delivery))) (\<lambda>payload.
           act_bind (act_started ops delivery) (\<lambda>_.
           act_bind (act_try (act_world (nt_run_backend ops backend payload))) (\<lambda>outcome.
           act_bind (act_world (nt_connect ops)) (\<lambda>_.
           act_bind (act_finish ops config delivery outcome) (\<lambda>_.
           act_return (Ok 1)))))))))))))"

text \<open>The loop of the daemon, \<open>while notifications.dispatch_once()? != 0 {}\<close>, with the number of passes bounded.\<close>

fun dispatch_all :: "nat \<Rightarrow> 'w notifier \<Rightarrow> notification_config \<Rightarrow> 'w \<times> db \<Rightarrow> (unit result \<times> ('w \<times> db)) option" where
  "dispatch_all 0 ops config s = None"
| "dispatch_all (Suc n) ops config s =
     (case dispatch_once ops config s of
        (Inl e, s') \<Rightarrow> Some (Err e, s')
      | (Inr processed, s') \<Rightarrow> if processed = 0 then Some (Ok (), s') else dispatch_all n ops config s')"

end
