(* ===== verification/Notification_Runs.thy ===== *)
theory Notification_Runs
  imports Notifications
begin

text \<open>
  Runs of any number of dispatchers on one database: the transactions of \<open>Notifications\<close> interleave with each other,
  with restarts of the daemon, with redeliveries and with the rest of the program, which appends alerts and purges
  rows.  A dispatcher holds what \<open>claim_next\<close> gave it; a log records which commands were started.
\<close>

section \<open>Steps\<close>

record dispatching =
  ds_db :: db
  ds_held :: "pending_delivery list"
  ds_started :: "nat list"
  ds_claims :: "string list"

text \<open>What the rest of the program does to the table: an alert is enqueued for the enabled backends, rows are purged.\<close>

inductive notice_other :: "db \<Rightarrow> db \<Rightarrow> bool" where
  purged: "deliveries d' = filter keep (deliveries d) \<Longrightarrow> delivery_sequence d' = delivery_sequence d \<Longrightarrow>
     notice_other d d'"
| alerted: "deliveries d1 = deliveries d \<Longrightarrow> delivery_sequence d1 = delivery_sequence d \<Longrightarrow> distinct (map fst (backends d1)) \<Longrightarrow>
     d' = enqueue_deliveries now event_id d1 \<Longrightarrow> notice_other d d'"

inductive notice_step :: "notification_config \<Rightarrow> dispatching \<Rightarrow> dispatching \<Rightarrow> bool" for config where
  claims: "claim_next print now claimed_at uuid (ds_db s) = Inr (Some p, d) \<Longrightarrow> uuid \<notin> set (ds_claims s) \<Longrightarrow>
     notice_step config s (s\<lparr>ds_db := d, ds_held := p # ds_held s, ds_claims := uuid # ds_claims s\<rparr>)"
| expires: "p \<in> set (ds_held s) \<Longrightarrow>
     set_delivery_state now (pd_id p) (pd_claim_id p) (expired_transition p) (ds_db s) = Inr d \<Longrightarrow>
     notice_step config s (s\<lparr>ds_db := d\<rparr>)"
| starts: "p \<in> set (ds_held s) \<Longrightarrow> mark_command_started now (pd_id p) (pd_claim_id p) (ds_db s) = Inr d \<Longrightarrow>
     notice_step config s (s\<lparr>ds_db := d, ds_started := pd_id p # ds_started s\<rparr>)"
| delivers: "p \<in> set (ds_held s) \<Longrightarrow>
     set_delivery_state now (pd_id p) (pd_claim_id p) (outcome_transition p DeliveryDelivered None None) (ds_db s) = Inr d \<Longrightarrow>
     notice_step config s (s\<lparr>ds_db := d\<rparr>)"
| retries: "p \<in> set (ds_held s) \<Longrightarrow> pd_attempt_count p + 1 < nc_max_attempts config \<Longrightarrow>
     set_delivery_state now (pd_id p) (pd_claim_id p) (outcome_transition p DeliveryPending (Some at) (Some error)) (ds_db s) = Inr d \<Longrightarrow>
     notice_step config s (s\<lparr>ds_db := d\<rparr>)"
| fails: "p \<in> set (ds_held s) \<Longrightarrow> \<not> pd_attempt_count p + 1 < nc_max_attempts config \<Longrightarrow>
     set_delivery_state now (pd_id p) (pd_claim_id p) (outcome_transition p DeliveryFailed None (Some error)) (ds_db s) = Inr d \<Longrightarrow>
     notice_step config s (s\<lparr>ds_db := d\<rparr>)"
| restarts: "mark_started_unknown_after_restart now1 now2 (ds_db s) = Inr (n, d) \<Longrightarrow> notice_step config s (s\<lparr>ds_db := d\<rparr>)"
| redelivers: "redeliver now delivery_id actor (ds_db s) = Inr (n, d) \<Longrightarrow> notice_step config s (s\<lparr>ds_db := d\<rparr>)"
| registers: "notice_step config s (s\<lparr>ds_db := register_backends config (ds_db s)\<rparr>)"
| others: "notice_other (ds_db s) d \<Longrightarrow> notice_step config s (s\<lparr>ds_db := d\<rparr>)"

abbreviation notice_run :: "notification_config \<Rightarrow> dispatching \<Rightarrow> dispatching \<Rightarrow> bool" where
  "notice_run config \<equiv> (notice_step config)\<^sup>*\<^sup>*"

definition no_deliveries :: "dispatching \<Rightarrow> bool" where
  "no_deliveries s \<longleftrightarrow> deliveries (ds_db s) = [] \<and> ds_held s = [] \<and> ds_started s = [] \<and> ds_claims s = []"

section \<open>The invariant\<close>

definition commands_started :: "nat \<Rightarrow> dispatching \<Rightarrow> nat" where
  "commands_started n s = count_list (ds_started s) n"

definition outcome_open :: "delivery \<Rightarrow> bool" where
  "outcome_open x \<longleftrightarrow> nd_state x \<in> {DeliveryRunning, DeliveryUnknown}"

definition active_delivery :: "delivery \<Rightarrow> bool" where
  "active_delivery x \<longleftrightarrow> nd_state x \<in> {DeliveryPending, DeliveryClaimed, DeliveryRunning}"

definition delivery_key :: "delivery \<Rightarrow> string \<times> string \<times> nat option" where
  "delivery_key x = (nd_event_id x, nd_backend x, nd_redelivery_of x)"

text \<open>A held claim that is still written in a row is about that row and its number of attempts.\<close>

definition claim_matches :: "delivery \<Rightarrow> pending_delivery \<Rightarrow> bool" where
  "claim_matches x p \<longleftrightarrow> nd_claim_id x = Some (pd_claim_id p) \<longrightarrow> pd_id p = nd_id x \<and> unat (pd_attempt_count p) = nd_attempt_count x"

definition delivery_ok :: "nat \<Rightarrow> dispatching \<Rightarrow> delivery \<Rightarrow> bool" where
  "delivery_ok m s x \<longleftrightarrow>
     delivery_check x \<and> nd_id x \<le> delivery_sequence (ds_db s)
     \<and> commands_started (nd_id x) s = nd_attempt_count x + (if outcome_open x then 1 else 0)
     \<and> nd_attempt_count x \<le> m
     \<and> (active_delivery x \<longrightarrow> nd_attempt_count x < m \<and> nd_next_attempt_at x \<noteq> None)
     \<and> (nd_state x = DeliveryDelivered \<longrightarrow> 0 < nd_attempt_count x)
     \<and> (nd_state x = DeliveryFailed \<longrightarrow> nd_attempt_count x = m)
     \<and> (\<forall>c. nd_claim_id x = Some c \<longrightarrow> c \<in> set (ds_claims s))
     \<and> (\<forall>p \<in> set (ds_held s). claim_matches x p)"

definition notice_inv :: "nat \<Rightarrow> dispatching \<Rightarrow> bool" where
  "notice_inv m s \<longleftrightarrow>
     distinct (map nd_id (deliveries (ds_db s))) \<and> distinct (map delivery_key (deliveries (ds_db s)))
     \<and> (\<forall>x \<in> set (deliveries (ds_db s)). delivery_ok m s x)
     \<and> (\<forall>n \<in> set (ds_started s). n \<le> delivery_sequence (ds_db s))
     \<and> (\<forall>p \<in> set (ds_held s). pd_claim_id p \<in> set (ds_claims s))
     \<and> (\<forall>n. commands_started n s \<le> m)"

lemma noticeD:
  assumes "notice_inv m s"
  shows "distinct (map nd_id (deliveries (ds_db s)))" "distinct (map delivery_key (deliveries (ds_db s)))"
    and "\<And>x. x \<in> set (deliveries (ds_db s)) \<Longrightarrow> delivery_ok m s x"
    and "\<And>n. n \<in> set (ds_started s) \<Longrightarrow> n \<le> delivery_sequence (ds_db s)"
    and "\<And>p. p \<in> set (ds_held s) \<Longrightarrow> pd_claim_id p \<in> set (ds_claims s)"
    and "\<And>n. commands_started n s \<le> m"
  using assms by (auto simp: notice_inv_def)

lemma update_deliveries_Ok:
  "update_deliveries p f d = Inr (d', n) \<longleftrightarrow>
     d' = d\<lparr>deliveries := modify p f (deliveries d)\<rparr> \<and> n = changed p (deliveries d)
     \<and> (\<forall>x \<in> set (deliveries d). p x \<longrightarrow> delivery_check (f x))"
  by (auto simp: update_deliveries_def list_ex_iff)

text \<open>A step that updates rows in place.\<close>

lemma updated_inv:
  assumes inv: "notice_inv m s"
    and u: "update_deliveries p f (ds_db s) = Inr (d, n)"
    and s': "s' = \<lparr>ds_db = d, ds_held = held, ds_started = started, ds_claims = claims\<rparr>"
    and kept: "\<And>x. x \<in> set (deliveries (ds_db s)) \<Longrightarrow> p x \<Longrightarrow> nd_id (f x) = nd_id x \<and> delivery_key (f x) = delivery_key x"
    and rows: "\<And>x. x \<in> set (deliveries (ds_db s)) \<Longrightarrow> delivery_ok m s x \<Longrightarrow> delivery_ok m s' (if p x then f x else x)"
    and held: "\<And>p. p \<in> set held \<Longrightarrow> pd_claim_id p \<in> set claims"
    and started: "\<And>k. k \<in> set started \<Longrightarrow> k \<le> delivery_sequence (ds_db s)" "\<And>k. count_list started k \<le> m"
  shows "notice_inv m s'"
proof -
  have d: "deliveries d = modify p f (deliveries (ds_db s))" "delivery_sequence d = delivery_sequence (ds_db s)"
    using u by (auto simp: update_deliveries_Ok)
  have "map nd_id (modify p f (deliveries (ds_db s))) = map nd_id (deliveries (ds_db s))"
    "map delivery_key (modify p f (deliveries (ds_db s))) = map delivery_key (deliveries (ds_db s))"
    by (rule map_key_modify, simp add: kept)+
  moreover have "delivery_ok m s' y" if y: "y \<in> set (deliveries d)" for y
  proof -
    obtain x where "x \<in> set (deliveries (ds_db s))" "y = (if p x then f x else x)"
      using y by (auto simp: d set_modify)
    then show ?thesis using rows noticeD(3) [OF inv] by simp
  qed
  ultimately show ?thesis
    using noticeD(1,2) [OF inv] held started by (simp add: notice_inv_def s' d commands_started_def)
qed

lemma same_delivery: "notice_inv m s \<Longrightarrow> x \<in> set (deliveries (ds_db s)) \<Longrightarrow> y \<in> set (deliveries (ds_db s)) \<Longrightarrow> nd_id x = nd_id y \<Longrightarrow> x = y"
  by (drule noticeD(1)) (auto simp: distinct_map dest: inj_onD)

text \<open>The update of a claimed or running row.\<close>

lemma set_delivery_state_Ok:
  assumes "set_delivery_state now k c t d = Inr d'"
  shows "update_deliveries (\<lambda>x. nd_id x = k \<and> nd_state x = dt_expected t \<and> nd_claim_id x = Some c)
            (\<lambda>x. x\<lparr>nd_state := dt_next t, nd_claim_id := None, nd_claimed_at := None,
                   nd_attempt_count := unat (dt_attempts t), nd_next_attempt_at := dt_next_attempt_at t,
                   nd_last_error := map_option NoteBackend (dt_error t), nd_updated_at := now\<rparr>) d = Inr (d', 1)"
  using assms by (auto simp: set_delivery_state_def bnd_eq_Ok require_eq_Ok)

lemma transition_inv:
  assumes inv: "notice_inv m s" and p: "p \<in> set (ds_held s)"
    and u: "set_delivery_state now (pd_id p) (pd_claim_id p) t (ds_db s) = Inr d"
    and source: "dt_expected t \<in> {DeliveryClaimed, DeliveryRunning}"
    and to: "dt_next t \<notin> {DeliveryClaimed, DeliveryRunning, DeliveryUnknown}"
    and count: "unat (pd_attempt_count p) < m \<Longrightarrow>
      unat (dt_attempts t) = unat (pd_attempt_count p) + (if dt_expected t = DeliveryRunning then 1 else 0)"
    and pending: "dt_next t = DeliveryPending \<Longrightarrow> unat (dt_attempts t) < m \<and> dt_next_attempt_at t \<noteq> None"
    and delivered: "dt_next t = DeliveryDelivered \<Longrightarrow> dt_expected t = DeliveryRunning"
    and failed: "dt_next t = DeliveryFailed \<Longrightarrow> dt_expected t = DeliveryRunning \<and> m \<le> unat (dt_attempts t)"
  shows "notice_inv m (s\<lparr>ds_db := d\<rparr>)"
proof -
  have n: "update_deliveries (\<lambda>x. nd_id x = pd_id p \<and> nd_state x = dt_expected t \<and> nd_claim_id x = Some (pd_claim_id p))
            (\<lambda>x. x\<lparr>nd_state := dt_next t, nd_claim_id := None, nd_claimed_at := None,
                   nd_attempt_count := unat (dt_attempts t), nd_next_attempt_at := dt_next_attempt_at t,
                   nd_last_error := map_option NoteBackend (dt_error t), nd_updated_at := now\<rparr>) (ds_db s) = Inr (d, 1)"
    by (rule set_delivery_state_Ok [OF u])
  have seq: "delivery_sequence d = delivery_sequence (ds_db s)" using n by (auto simp: update_deliveries_Ok)
  have started: "commands_started k (s\<lparr>ds_db := d\<rparr>) = commands_started k s" for k by (simp add: commands_started_def)
  show ?thesis
  proof (rule updated_inv [OF inv n, where held = "ds_held s" and started = "ds_started s" and claims = "ds_claims s"])
    fix x assume x: "x \<in> set (deliveries (ds_db s))" "delivery_ok m s x"
    show "delivery_ok m (s\<lparr>ds_db := d\<rparr>) (if nd_id x = pd_id p \<and> nd_state x = dt_expected t \<and> nd_claim_id x = Some (pd_claim_id p)
        then x\<lparr>nd_state := dt_next t, nd_claim_id := None, nd_claimed_at := None,
                   nd_attempt_count := unat (dt_attempts t), nd_next_attempt_at := dt_next_attempt_at t,
                   nd_last_error := map_option NoteBackend (dt_error t), nd_updated_at := now\<rparr> else x)"
    proof (cases "nd_id x = pd_id p \<and> nd_state x = dt_expected t \<and> nd_claim_id x = Some (pd_claim_id p)")
      case True
      have "claim_matches x p" using x(2) p by (simp add: delivery_ok_def)
      with True have a: "unat (pd_attempt_count p) = nd_attempt_count x" by (simp add: claim_matches_def)
      have lt: "nd_attempt_count x < m" using x(2) True source by (auto simp: delivery_ok_def active_delivery_def)
      have c: "unat (dt_attempts t) = nd_attempt_count x + (if dt_expected t = DeliveryRunning then 1 else 0)"
        using count a lt by simp
      have open_x: "outcome_open x \<longleftrightarrow> dt_expected t = DeliveryRunning" using True source by (auto simp: outcome_open_def)
      have row: "delivery_check x" "nd_id x \<le> delivery_sequence (ds_db s)" "nd_attempt_count x \<le> m"
        "commands_started (nd_id x) s = nd_attempt_count x + (if dt_expected t = DeliveryRunning then 1 else 0)"
        using x(2) open_x by (simp_all add: delivery_ok_def)
      have le: "unat (dt_attempts t) \<le> m" using c lt by (simp split: if_splits)
      have check: "nd_redelivery_of x = None \<longleftrightarrow> nd_redelivery_actor x = None" using row(1) by (simp add: delivery_check_def)
      have pos: "dt_next t = DeliveryDelivered \<Longrightarrow> 0 < unat (dt_attempts t)" using delivered c by simp
      have all: "dt_next t = DeliveryFailed \<Longrightarrow> unat (dt_attempts t) = m" using failed le by fastforce
      have "delivery_ok m (s\<lparr>ds_db := d\<rparr>) (x\<lparr>nd_state := dt_next t, nd_claim_id := None, nd_claimed_at := None,
                   nd_attempt_count := unat (dt_attempts t), nd_next_attempt_at := dt_next_attempt_at t,
                   nd_last_error := map_option NoteBackend (dt_error t), nd_updated_at := now\<rparr>)"
        unfolding delivery_ok_def claim_matches_def active_delivery_def delivery_check_def outcome_open_def started
        using row(2-4) le check pos all c to pending by (simp add: seq)
      then show ?thesis unfolding if_P [OF True] .
    next
      case False
      with x(2) show ?thesis by (auto simp: delivery_ok_def seq started)
    qed
  qed (use noticeD [OF inv] in \<open>auto simp: delivery_key_def commands_started_def\<close>)
qed


text \<open>Claiming.\<close>

lemma next_due_mem: "next_due now d = Some x \<Longrightarrow> x \<in> set (deliveries d) \<and> due now d x"
proof -
  assume "next_due now d = Some x"
  then obtain rest where r: "sort_key (\<lambda>x. (the (nd_next_attempt_at x), nd_id x)) (filter (due now d) (deliveries d)) = x # rest"
    by (auto simp: next_due_def split: list.splits)
  have "x \<in> set (filter (due now d) (deliveries d))" using arg_cong [OF r, of set] by auto
  then show ?thesis by simp
qed

lemma claim_next_Some:
  assumes "claim_next print now claimed_at uuid d = Inr (Some p, d')"
  shows "\<exists>x. x \<in> set (deliveries d) \<and> due now d x \<and> pd_id p = nd_id x \<and> pd_claim_id p = uuid \<and> pd_event_id p = nd_event_id x
      \<and> unat (pd_attempt_count p) = nd_attempt_count x
      \<and> update_deliveries (\<lambda>x. nd_id x = pd_id p \<and> nd_state x = DeliveryPending)
            (\<lambda>x. x\<lparr>nd_state := DeliveryClaimed, nd_claim_id := Some (pd_claim_id p), nd_claimed_at := Some claimed_at,
                   nd_last_error := Some (NoteClaimed (pd_event_id p)), nd_updated_at := claimed_at\<rparr>) d = Inr (d', 1)"
proof -
  obtain x row where x: "next_due now d = Some x" "pending_delivery_row print x d = Inr row" "p = row uuid"
    "update_deliveries (\<lambda>x. nd_id x = pd_id p \<and> nd_state x = DeliveryPending)
            (\<lambda>x. x\<lparr>nd_state := DeliveryClaimed, nd_claim_id := Some (pd_claim_id p), nd_claimed_at := Some claimed_at,
                   nd_last_error := Some (NoteClaimed (pd_event_id p)), nd_updated_at := claimed_at\<rparr>) d = Inr (d', 1)"
    using assms by (auto simp: claim_next_def claim_update_def bnd_eq_Ok require_eq_Ok split: option.splits)
  have "unat (word_of_nat (nd_attempt_count x) :: 8 word) = nd_attempt_count x" if "nd_attempt_count x < 256"
    using that by (simp add: unat_of_nat take_bit_nat_eq_self)
  then show ?thesis
    using x next_due_mem [OF x(1)] by (auto simp: pending_delivery_row_def bnd_eq_Ok require_eq_Ok)
qed

lemma claim_inv:
  assumes inv: "notice_inv m s" and c: "claim_next print now claimed_at uuid (ds_db s) = Inr (Some p, d)"
    and new: "uuid \<notin> set (ds_claims s)"
  shows "notice_inv m (s\<lparr>ds_db := d, ds_held := p # ds_held s, ds_claims := uuid # ds_claims s\<rparr>)"
proof -
  obtain y where y: "y \<in> set (deliveries (ds_db s))" "due now (ds_db s) y" "pd_id p = nd_id y" "pd_claim_id p = uuid"
    "unat (pd_attempt_count p) = nd_attempt_count y"
    and u: "update_deliveries (\<lambda>x. nd_id x = pd_id p \<and> nd_state x = DeliveryPending)
            (\<lambda>x. x\<lparr>nd_state := DeliveryClaimed, nd_claim_id := Some (pd_claim_id p), nd_claimed_at := Some claimed_at,
                   nd_last_error := Some (NoteClaimed (pd_event_id p)), nd_updated_at := claimed_at\<rparr>) (ds_db s) = Inr (d, 1)"
    using claim_next_Some [OF c] by blast
  have seq: "delivery_sequence d = delivery_sequence (ds_db s)" using u by (auto simp: update_deliveries_Ok)
  let ?s = "s\<lparr>ds_db := d, ds_held := p # ds_held s, ds_claims := uuid # ds_claims s\<rparr>"
  have started: "commands_started k ?s = commands_started k s" for k by (simp add: commands_started_def)
  show ?thesis
  proof (rule updated_inv [OF inv u, where held = "p # ds_held s" and started = "ds_started s" and claims = "uuid # ds_claims s"])
    fix x assume x: "x \<in> set (deliveries (ds_db s))" "delivery_ok m s x"
    show "delivery_ok m ?s (if nd_id x = pd_id p \<and> nd_state x = DeliveryPending
        then x\<lparr>nd_state := DeliveryClaimed, nd_claim_id := Some (pd_claim_id p), nd_claimed_at := Some claimed_at,
                   nd_last_error := Some (NoteClaimed (pd_event_id p)), nd_updated_at := claimed_at\<rparr> else x)"
    proof (cases "nd_id x = pd_id p \<and> nd_state x = DeliveryPending")
      case True
      then have "x = y" using same_delivery [OF inv x(1) y(1)] y(3) by simp
      moreover have "\<forall>q \<in> set (ds_held s). uuid \<noteq> pd_claim_id q" using noticeD(5) [OF inv] new by blast
      ultimately have "delivery_ok m ?s (x\<lparr>nd_state := DeliveryClaimed, nd_claim_id := Some (pd_claim_id p),
                   nd_claimed_at := Some claimed_at, nd_last_error := Some (NoteClaimed (pd_event_id p)), nd_updated_at := claimed_at\<rparr>)"
        using x(2) True y(3-5)
        by (simp add: delivery_ok_def started seq claim_matches_def active_delivery_def delivery_check_def outcome_open_def)
      then show ?thesis unfolding if_P [OF True] .
    next
      case False
      have "nd_claim_id x \<noteq> Some uuid" using x(2) new by (auto simp: delivery_ok_def)
      then have "delivery_ok m ?s x" using x(2) y(4) by (simp add: delivery_ok_def started seq claim_matches_def)
      then show ?thesis unfolding if_not_P [OF False] .
    qed
  qed (use noticeD [OF inv] y(4) in \<open>auto simp: delivery_key_def commands_started_def\<close>)
qed

text \<open>Starting a command.\<close>

lemma start_inv:
  assumes inv: "notice_inv m s" and p: "p \<in> set (ds_held s)"
    and c: "mark_command_started now (pd_id p) (pd_claim_id p) (ds_db s) = Inr d"
  shows "notice_inv m (s\<lparr>ds_db := d, ds_started := pd_id p # ds_started s\<rparr>)"
proof -
  let ?p = "\<lambda>x. nd_id x = pd_id p \<and> nd_state x = DeliveryClaimed \<and> nd_claim_id x = Some (pd_claim_id p)"
  let ?f = "\<lambda>x. x\<lparr>nd_state := DeliveryRunning, nd_last_error := Some NoteCommandStarted, nd_updated_at := now\<rparr>"
  obtain n where u: "update_deliveries ?p ?f (ds_db s) = Inr (d, n)" and n: "n = 1"
    using c by (auto simp: mark_command_started_def bnd_eq_Ok require_eq_Ok)
  then obtain y where y: "y \<in> set (deliveries (ds_db s))" "?p y"
    using changed_one_ex [of ?p "deliveries (ds_db s)"] by (auto simp: update_deliveries_Ok)
  have ok: "delivery_ok m s y" using noticeD(3) [OF inv y(1)] .
  have count: "commands_started (pd_id p) s < m"
    using ok y(2) by (auto simp: delivery_ok_def active_delivery_def outcome_open_def)
  have seq: "delivery_sequence d = delivery_sequence (ds_db s)" using u by (auto simp: update_deliveries_Ok)
  let ?s = "s\<lparr>ds_db := d, ds_started := pd_id p # ds_started s\<rparr>"
  have started: "commands_started k ?s = commands_started k s + (if k = pd_id p then 1 else 0)" for k
    by (simp add: commands_started_def)
  show ?thesis
  proof (rule updated_inv [OF inv u, where held = "ds_held s" and started = "pd_id p # ds_started s" and claims = "ds_claims s"])
    fix x assume x: "x \<in> set (deliveries (ds_db s))" "delivery_ok m s x"
    show "delivery_ok m ?s (if ?p x then ?f x else x)"
    proof (cases "?p x")
      case True
      then have "delivery_ok m ?s (?f x)"
        using x(2) unfolding delivery_ok_def started
        by (simp add: seq claim_matches_def active_delivery_def delivery_check_def outcome_open_def)
      then show ?thesis unfolding if_P [OF True] .
    next
      case False
      then have "nd_id x \<noteq> pd_id p" using same_delivery [OF inv x(1) y(1)] y(2) by auto
      then have "delivery_ok m ?s x" using x(2) unfolding delivery_ok_def started by (simp add: seq)
      then show ?thesis unfolding if_not_P [OF False] .
    qed
  next
    fix k show "count_list (pd_id p # ds_started s) k \<le> m"
      using noticeD(6) [OF inv, of k] count by (auto simp: commands_started_def)
  qed (use noticeD [OF inv] y ok in \<open>auto simp: delivery_key_def delivery_ok_def\<close>)
qed


text \<open>Restarts.\<close>

lemma restart_rows:
  assumes "mark_started_unknown_after_restart now1 now2 d = Inr (n, d')"
  shows "d' = d\<lparr>deliveries := map (\<lambda>x.
      if nd_state x = DeliveryClaimed
      then x\<lparr>nd_state := DeliveryPending, nd_claim_id := None, nd_claimed_at := None,
             nd_last_error := Some NoteClaimRecoveredBeforeStart, nd_updated_at := now1\<rparr>
      else if nd_state x = DeliveryRunning
      then x\<lparr>nd_state := DeliveryUnknown, nd_claim_id := None, nd_claimed_at := None, nd_next_attempt_at := None,
             nd_last_error := Some NoteAuthorityLostAfterStart, nd_updated_at := now2\<rparr>
      else x) (deliveries d)\<rparr>"
  using assms by (auto simp: mark_started_unknown_after_restart_def bnd_eq_Ok update_deliveries_Ok modify_def)

lemma restart_ok: "\<exists>n d'. mark_started_unknown_after_restart now1 now2 d = Inr (n, d')" if "\<forall>x \<in> set (deliveries d). delivery_check x"
proof -
  have "\<not> list_ex (\<lambda>x. p x \<and> \<not> delivery_check (f x)) xs" if "\<forall>x \<in> set xs. delivery_check (f x)" for p f and xs :: "delivery list"
    using that by (auto simp: list_ex_iff)
  with that show ?thesis
    unfolding mark_started_unknown_after_restart_def update_deliveries_def
    by (auto simp: bnd_def delivery_check_def set_modify list_ex_iff)
qed

lemma old_row_ok:
  assumes "delivery_ok m s x" "delivery_sequence (ds_db s) \<le> delivery_sequence d"
  shows "delivery_ok m (s\<lparr>ds_db := d\<rparr>) x"
  using assms by (simp add: delivery_ok_def commands_started_def)

lemma restart_inv:
  assumes inv: "notice_inv m s" and c: "mark_started_unknown_after_restart now1 now2 (ds_db s) = Inr (n, d)"
  shows "notice_inv m (s\<lparr>ds_db := d\<rparr>)"
proof -
  have seq: "delivery_sequence d = delivery_sequence (ds_db s)" unfolding restart_rows [OF c] by simp
  have started: "commands_started k (s\<lparr>ds_db := d\<rparr>) = commands_started k s" for k by (simp add: commands_started_def)
  have ids: "map nd_id (deliveries d) = map nd_id (deliveries (ds_db s))"
    "map delivery_key (deliveries d) = map delivery_key (deliveries (ds_db s))"
    unfolding restart_rows [OF c] by (simp_all add: delivery_key_def)
  have "delivery_ok m (s\<lparr>ds_db := d\<rparr>) y" if y: "y \<in> set (deliveries d)" for y
  proof -
    obtain x where x: "x \<in> set (deliveries (ds_db s))"
      and y': "y = (if nd_state x = DeliveryClaimed
      then x\<lparr>nd_state := DeliveryPending, nd_claim_id := None, nd_claimed_at := None,
             nd_last_error := Some NoteClaimRecoveredBeforeStart, nd_updated_at := now1\<rparr>
      else if nd_state x = DeliveryRunning
      then x\<lparr>nd_state := DeliveryUnknown, nd_claim_id := None, nd_claimed_at := None, nd_next_attempt_at := None,
             nd_last_error := Some NoteAuthorityLostAfterStart, nd_updated_at := now2\<rparr>
      else x)"
      using y unfolding restart_rows [OF c] by auto
    have ok: "delivery_ok m s x" using noticeD(3) [OF inv x] .
    show ?thesis
    proof (cases "nd_state x")
      case DeliveryClaimed
      with ok y' show ?thesis
        by (simp add: delivery_ok_def started seq claim_matches_def active_delivery_def delivery_check_def outcome_open_def)
    next
      case DeliveryRunning
      with ok y' show ?thesis
        by (simp add: delivery_ok_def started seq claim_matches_def active_delivery_def delivery_check_def outcome_open_def)
    qed (use old_row_ok [OF ok] y' seq in simp_all)
  qed
  then show ?thesis using noticeD [OF inv] by (simp add: notice_inv_def ids seq started)
qed

text \<open>Rows that are added.\<close>

lemma fresh_row_ok:
  assumes inv: "notice_inv m s" and m: "0 < m"
    and seq: "delivery_sequence (ds_db s) < nd_id x" "nd_id x \<le> delivery_sequence d"
    and x: "nd_state x = DeliveryPending" "nd_claim_id x = None" "nd_attempt_count x = 0" "nd_next_attempt_at x \<noteq> None"
      "nd_redelivery_of x = None \<longleftrightarrow> nd_redelivery_actor x = None"
  shows "delivery_ok m (s\<lparr>ds_db := d\<rparr>) x"
proof -
  have "nd_id x \<notin> set (ds_started s)" using noticeD(4) [OF inv] seq(1) by fastforce
  then have "commands_started (nd_id x) (s\<lparr>ds_db := d\<rparr>) = 0" by (simp add: commands_started_def count_list_0_iff)
  with m seq x show ?thesis
    by (simp add: delivery_ok_def claim_matches_def active_delivery_def delivery_check_def outcome_open_def)
qed

lemma added_inv:
  assumes inv: "notice_inv m s" and m: "0 < m"
    and d: "deliveries d = deliveries (ds_db s) @ new" "delivery_sequence (ds_db s) \<le> delivery_sequence d"
    and new: "\<And>x. x \<in> set new \<Longrightarrow> delivery_sequence (ds_db s) < nd_id x \<and> nd_id x \<le> delivery_sequence d \<and> nd_state x = DeliveryPending
        \<and> nd_claim_id x = None \<and> nd_attempt_count x = 0 \<and> nd_next_attempt_at x \<noteq> None
        \<and> (nd_redelivery_of x = None \<longleftrightarrow> nd_redelivery_actor x = None)"
    and ids: "distinct (map nd_id new)" and keys: "distinct (map delivery_key (deliveries d))"
  shows "notice_inv m (s\<lparr>ds_db := d\<rparr>)"
proof -
  have "\<forall>x \<in> set (deliveries (ds_db s)). nd_id x \<le> delivery_sequence (ds_db s)"
    using noticeD(3) [OF inv] by (simp add: delivery_ok_def)
  then have "nd_id ` set (deliveries (ds_db s)) \<inter> nd_id ` set new = {}" using new by fastforce
  then have "distinct (map nd_id (deliveries d))" using noticeD(1) [OF inv] ids by (simp add: d)
  moreover have "delivery_ok m (s\<lparr>ds_db := d\<rparr>) x" if "x \<in> set (deliveries d)" for x
    using that old_row_ok [OF noticeD(3) [OF inv] d(2)] fresh_row_ok [OF inv m, of x d] new by (auto simp: d(1))
  moreover have "\<forall>n \<in> set (ds_started s). n \<le> delivery_sequence d" using noticeD(4) [OF inv] d(2) by fastforce
  ultimately show ?thesis
    using keys noticeD(5,6) [OF inv] by (simp add: notice_inv_def commands_started_def)
qed

lemma redeliver_inv:
  assumes inv: "notice_inv m s" and m: "0 < m" and r: "redeliver now k actor (ds_db s) = Inr (n, d)"
  shows "notice_inv m (s\<lparr>ds_db := d\<rparr>)"
proof -
  obtain x where x: "find (\<lambda>x. nd_id x = k) (deliveries (ds_db s)) = Some x"
    and unique: "\<not> list_ex (\<lambda>y. nd_event_id y = nd_event_id x \<and> nd_backend y = nd_backend x \<and> nd_redelivery_of y = Some k)
        (deliveries (ds_db s))"
    and n: "n = Suc (delivery_sequence (ds_db s))"
    and d: "d = (ds_db s)\<lparr>deliveries := deliveries (ds_db s) @ [redelivery now n actor x], delivery_sequence := n\<rparr>"
    using r by (auto simp: redeliver_def bnd_eq_Ok require_eq_Ok fetch_eq_Ok Let_def)
  have k: "nd_id x = k" using find_Some_mem [OF x] by simp
  show ?thesis
  proof (rule added_inv [OF inv m, where new = "[redelivery now n actor x]"])
    show "distinct (map delivery_key (deliveries d))"
      using noticeD(2) [OF inv] unique k by (auto simp: d list_ex_iff delivery_key_def redelivery_def)
  qed (simp_all add: d n redelivery_def)
qed


lemma distinct_backends: "distinct (map nd_backend xs) \<Longrightarrow> distinct (map delivery_key xs)"
  by (auto simp: distinct_map inj_on_def delivery_key_def)

lemma enqueue_inv:
  assumes inv: "notice_inv m s" and m: "0 < m"
    and d1: "deliveries d1 = deliveries (ds_db s)" "delivery_sequence d1 = delivery_sequence (ds_db s)"
    and names: "distinct (map fst (backends d1))"
  shows "notice_inv m (s\<lparr>ds_db := enqueue_deliveries now event_id d1\<rparr>)"
proof -
  define names where "names = map fst (filter (\<lambda>(backend, enabled). enabled
             \<and> \<not> list_ex (\<lambda>x. nd_event_id x = event_id \<and> nd_backend x = backend \<and> nd_redelivery_of x = None) (deliveries d1))
             (backends d1))"
  define row where "row n backend = \<lparr>nd_id = n, nd_event_id = event_id, nd_backend = backend, nd_state = DeliveryPending,
               nd_claim_id = None, nd_claimed_at = None, nd_attempt_count = 0, nd_next_attempt_at = Some now,
               nd_last_error = None, nd_redelivery_of = None, nd_redelivery_actor = None, nd_created_at = now, nd_updated_at = now\<rparr>"
    for n backend
  let ?ids = "[Suc (delivery_sequence d1)..<Suc (delivery_sequence d1 + length names)]"
  define new where "new = map2 row ?ids names"
  have e: "enqueue_deliveries now event_id d1 =
      d1\<lparr>deliveries := deliveries d1 @ new, delivery_sequence := delivery_sequence d1 + length names\<rparr>"
    by (simp add: enqueue_deliveries_def Let_def names_def [symmetric] row_def [abs_def] new_def)
  have len: "length ?ids = length names" by (simp del: upt_Suc)
  have ids: "map nd_id new = ?ids"
    using len by (simp add: new_def row_def case_prod_unfold comp_def map_fst_zip del: upt_Suc)
  have backends: "map nd_backend new = names"
    using len by (simp add: new_def row_def case_prod_unfold comp_def map_snd_zip del: upt_Suc)
  have "distinct names" using names by (simp add: names_def distinct_map_filter)
  then have distinct: "distinct (map delivery_key new)"
    by (intro distinct_backends) (simp only: backends)
  have rows: "nd_event_id x = event_id \<and> nd_redelivery_of x = None \<and> nd_backend x \<in> set names \<and> nd_id x \<in> set ?ids
      \<and> nd_state x = DeliveryPending \<and> nd_claim_id x = None \<and> nd_attempt_count x = 0 \<and> nd_next_attempt_at x = Some now
      \<and> nd_redelivery_actor x = None" if "x \<in> set new" for x
    using that by (auto simp: new_def row_def dest: set_zip_leftD set_zip_rightD simp del: upt_Suc)
  have unused: "\<not> list_ex (\<lambda>x. nd_event_id x = event_id \<and> nd_backend x = b \<and> nd_redelivery_of x = None) (deliveries d1)"
    if "b \<in> set names" for b using that by (auto simp: names_def)
  have "delivery_key x \<noteq> delivery_key y" if "x \<in> set new" "y \<in> set (deliveries d1)" for x y
    using rows [OF that(1)] unused [of "nd_backend x"] that(2) by (auto simp: delivery_key_def list_ex_iff)
  then have disjoint: "delivery_key ` set (deliveries d1) \<inter> delivery_key ` set new = {}" by fastforce
  show ?thesis unfolding e
  proof (rule added_inv [OF inv m, where new = new])
    show "distinct (map delivery_key (deliveries (d1\<lparr>deliveries := deliveries d1 @ new,
        delivery_sequence := delivery_sequence d1 + length names\<rparr>)))"
      using noticeD(2) [OF inv] distinct disjoint by (simp add: d1)
    show "distinct (map nd_id new)" unfolding ids by simp
  qed (use rows in \<open>fastforce simp: d1\<close>)+
qed

lemma other_inv:
  assumes inv: "notice_inv m s" and m: "0 < m" and o: "notice_other (ds_db s) d"
  shows "notice_inv m (s\<lparr>ds_db := d\<rparr>)"
  using o
proof cases
  case (purged keep)
  then show ?thesis using inv by (auto simp: notice_inv_def delivery_ok_def commands_started_def distinct_map_filter)
next
  case (alerted d1 now event_id)
  then show ?thesis using enqueue_inv [OF inv m, of d1 now event_id] by simp
qed

section \<open>Runs\<close>

lemma word_add_one_8: "unat (a :: 8 word) < m \<Longrightarrow> m \<le> 255 \<Longrightarrow> unat (a + 1) = unat a + 1"
  by (subst unat_plus_simple [THEN iffD1]) (auto simp: word_le_nat_alt unat_word_ariths)

lemma notice_step_inv:
  assumes "notice_step config s s'" "notice_inv (unat (nc_max_attempts config)) s" "0 < nc_max_attempts config"
  shows "notice_inv (unat (nc_max_attempts config)) s'"
proof -
  let ?m = "unat (nc_max_attempts config)"
  have m: "0 < ?m" using assms(3) by (simp add: word_less_nat_alt)
  have le: "?m \<le> 255" using unsigned_less [of "nc_max_attempts config", where 'a = nat] by simp
  note inv = assms(2)
  from assms(1) show ?thesis
  proof cases
    case (claims print now claimed_at uuid p d)
    then show ?thesis using claim_inv [OF inv] by simp
  next
    case (expires p now d)
    show ?thesis unfolding expires(1)
      by (rule transition_inv [OF inv expires(2,3)]) (simp_all add: expired_transition_def)
  next
    case (starts p now d)
    then show ?thesis using start_inv [OF inv] by simp
  next
    case (delivers p now d)
    show ?thesis unfolding delivers(1)
      by (rule transition_inv [OF inv delivers(2,3)]) (simp_all add: outcome_transition_def word_add_one_8 [OF _ le])
  next
    case (retries p now at error d)
    show ?thesis unfolding retries(1)
      by (rule transition_inv [OF inv retries(2,4)])
        (use retries(3) in \<open>simp_all add: outcome_transition_def word_add_one_8 [OF _ le] word_less_nat_alt\<close>)
  next
    case (fails p now error d)
    show ?thesis unfolding fails(1)
      by (rule transition_inv [OF inv fails(2,4)])
        (use fails(3) in \<open>simp_all add: outcome_transition_def word_add_one_8 [OF _ le] word_less_nat_alt\<close>)
  next
    case (restarts now1 now2 n d)
    then show ?thesis using restart_inv [OF inv] by simp
  next
    case (redelivers now k actor n d)
    then show ?thesis using redeliver_inv [OF inv m] by simp
  next
    case registers
    then show ?thesis using inv
      by (simp add: notice_inv_def delivery_ok_def commands_started_def register_backends_def register_backend_def)
  next
    case (others d)
    then show ?thesis using other_inv [OF inv m] by simp
  qed
qed

lemma notice_run_inv:
  assumes "notice_run config s s'" "notice_inv (unat (nc_max_attempts config)) s" "0 < nc_max_attempts config"
  shows "notice_inv (unat (nc_max_attempts config)) s'"
  using assms(1,2) by (induction rule: rtranclp_induct) (blast intro: notice_step_inv [OF _ _ assms(3)])+

lemma no_deliveries_inv: "no_deliveries s \<Longrightarrow> notice_inv m s"
  by (simp add: no_deliveries_def notice_inv_def commands_started_def)

end
