(* ===== verification/Notification_Passes.thy ===== *)
theory Notification_Passes
  imports Notification_Runs
begin

text \<open>
  What a pass of one dispatcher does to the database (\<open>dispatch_pass\<close>, by cases), that a pass is a run of the step
  relation, how much work a pass leaves, and that settled deliveries stay settled.
\<close>

section \<open>A pass by cases\<close>

text \<open>An instant that the clock gives, and what a pass has checked when it starts a command.\<close>

definition clock_reading :: "'w notifier \<Rightarrow> int \<Rightarrow> bool" where
  "clock_reading ops t \<longleftrightarrow> (\<exists>w. t = fst (nt_now ops w))"

definition sendable :: "'w notifier \<Rightarrow> notification_config \<Rightarrow> pending_delivery \<Rightarrow> bool" where
  "sendable ops config p \<longleftrightarrow> is_ok (bounded_payload (pd_payload p)) \<and>
     (\<exists>now created age. clock_reading ops now \<and> nt_parse ops (pd_event_created_at p) = Inr created
        \<and> duration_seconds (sint (nc_max_event_age_seconds config)) = Inr age \<and> now - created \<le> age)"

inductive dispatch_pass :: "'w notifier \<Rightarrow> notification_config \<Rightarrow> db \<Rightarrow> nat result \<Rightarrow> db \<Rightarrow> bool" for ops config where
  unopened: "dispatch_pass ops config d (Err e) d"
| unclaimed: "dispatch_pass ops config d (Err e) (register_backends config d)"
| quiet: "clock_reading ops now \<Longrightarrow> next_due (nt_rfc3339 ops now) (register_backends config d) = None \<Longrightarrow> dispatch_pass ops config d (Ok 0) (register_backends config d)"
| stranded: "claim_next (nt_print ops) now claimed_at (fst (nt_uuid ops w)) (register_backends config d) = Inr (Some p, d1) \<Longrightarrow>
     dispatch_pass ops config d (Err e) d1"
| expired: "claim_next (nt_print ops) now claimed_at (fst (nt_uuid ops w)) (register_backends config d) = Inr (Some p, d1) \<Longrightarrow>
     set_delivery_state now2 (pd_id p) (pd_claim_id p) (expired_transition p) d1 = Inr d2 \<Longrightarrow>
     dispatch_pass ops config d (Ok 1) d2"
| interrupted: "claim_next (nt_print ops) now claimed_at (fst (nt_uuid ops w)) (register_backends config d) = Inr (Some p, d1) \<Longrightarrow>
     mark_command_started now2 (pd_id p) (pd_claim_id p) d1 = Inr d2 \<Longrightarrow> sendable ops config p \<Longrightarrow>
     dispatch_pass ops config d (Err e) d2"
| delivered: "claim_next (nt_print ops) now claimed_at (fst (nt_uuid ops w)) (register_backends config d) = Inr (Some p, d1) \<Longrightarrow>
     mark_command_started now2 (pd_id p) (pd_claim_id p) d1 = Inr d2 \<Longrightarrow> sendable ops config p \<Longrightarrow>
     set_delivery_state now3 (pd_id p) (pd_claim_id p) (outcome_transition p DeliveryDelivered None None) d2 = Inr d3 \<Longrightarrow>
     dispatch_pass ops config d (Ok 1) d3"
| retried: "claim_next (nt_print ops) now claimed_at (fst (nt_uuid ops w)) (register_backends config d) = Inr (Some p, d1) \<Longrightarrow>
     mark_command_started now2 (pd_id p) (pd_claim_id p) d1 = Inr d2 \<Longrightarrow> sendable ops config p \<Longrightarrow>
     pd_attempt_count p + 1 < nc_max_attempts config \<Longrightarrow>
     set_delivery_state now3 (pd_id p) (pd_claim_id p) (outcome_transition p DeliveryPending (Some at) (Some error)) d2 = Inr d3 \<Longrightarrow>
     dispatch_pass ops config d (Ok 1) d3"
| failed: "claim_next (nt_print ops) now claimed_at (fst (nt_uuid ops w)) (register_backends config d) = Inr (Some p, d1) \<Longrightarrow>
     mark_command_started now2 (pd_id p) (pd_claim_id p) d1 = Inr d2 \<Longrightarrow> sendable ops config p \<Longrightarrow>
     \<not> pd_attempt_count p + 1 < nc_max_attempts config \<Longrightarrow>
     set_delivery_state now3 (pd_id p) (pd_claim_id p) (outcome_transition p DeliveryFailed None (Some error)) d2 = Inr d3 \<Longrightarrow>
     dispatch_pass ops config d (Ok 1) d3"

lemma act_bindE:
  assumes "act_bind m f s = (r, t)"
    and "\<And>e. m s = (Inl e, t) \<Longrightarrow> r = Inl e \<Longrightarrow> P"
    and "\<And>x s1. m s = (Inr x, s1) \<Longrightarrow> f x s1 = (r, t) \<Longrightarrow> P"
  shows P
  using assms by (auto simp: act_bind_def split: prod.splits sum.splits)

text \<open>Actions that leave the database alone.\<close>

lemma act_return_eq: "act_return x s = (r, t) \<longleftrightarrow> t = s \<and> r = x"
  by (auto simp: act_return_def)

lemma act_world_db: "act_world f s = (r, t) \<Longrightarrow> snd t = snd s"
  by (auto simp: act_world_def split: prod.splits)

lemma clock_readingI: "nt_now ops w = (t, w') \<Longrightarrow> clock_reading ops t"
  unfolding clock_reading_def by (metis fst_conv)

lemma act_clock: "notifier_clock ops s = (r, t) \<Longrightarrow> snd t = snd s \<and> (\<exists>x. clock_reading ops x \<and> r = Inr x)"
  by (auto simp: notifier_clock_def dest: clock_readingI split: prod.splits)

lemma act_stamp: "notifier_stamp ops s = (r, t) \<Longrightarrow> snd t = snd s \<and> (\<exists>x. clock_reading ops x \<and> r = Inr (nt_rfc3339 ops x))"
  by (auto simp: notifier_stamp_def act_bind_def act_return_def notifier_clock_def dest: clock_readingI split: prod.splits)

lemma act_uuid: "notifier_uuid ops s = (r, t) \<Longrightarrow> snd t = snd s \<and> r = Inr (fst (nt_uuid ops (fst s)))"
  by (auto simp: notifier_uuid_def split: prod.splits)

lemma act_commit_cases:
  "act_commit f s = (r, t) \<Longrightarrow> (\<exists>e. r = Inl e \<and> snd t = snd s) \<or> (r = Inr () \<and> f (snd s) = Inr (snd t))"
  by (auto simp: act_commit_def split: sum.splits)

lemma act_claim_cases:
  assumes "act_claim_next ops s = (r, t)"
  shows "(\<exists>e. r = Inl e \<and> snd t = snd s) \<or> (\<exists>now. clock_reading ops now \<and> r = Inr None \<and> snd t = snd s \<and> next_due (nt_rfc3339 ops now) (snd s) = None)
    \<or> (\<exists>now claimed_at w p. r = Inr (Some p)
         \<and> claim_next (nt_print ops) now claimed_at (fst (nt_uuid ops w)) (snd s) = Inr (Some p, snd t))"
  using assms unfolding act_claim_next_def
proof (elim act_bindE)
  fix now s1 selected s2
  assume a: "notifier_stamp ops s = (Inr now, s1)" and b: "act_read (\<lambda>d. Ok (next_due now d)) s1 = (Inr selected, s2)"
    and c: "(if selected = None then act_return (Ok None)
        else act_bind (notifier_uuid ops) (\<lambda>uuid. act_bind (notifier_stamp ops) (\<lambda>claimed_at s.
          case claim_next (nt_print ops) now claimed_at uuid (snd s) of Inl e \<Rightarrow> (Err e, s) | Inr (p, d) \<Rightarrow> (Ok p, (fst s, d))))) s2
      = (r, t)"
  have s: "snd s1 = snd s" "s2 = s1" "selected = next_due now (snd s)" and clock: "\<exists>x. clock_reading ops x \<and> now = nt_rfc3339 ops x"
    using act_stamp [OF a] b by (auto simp: act_read_def)
  show ?thesis
  proof (cases selected)
    case None
    then show ?thesis using c s clock by (auto simp: act_return_eq)
  next
    case (Some x)
    then have "act_bind (notifier_uuid ops) (\<lambda>uuid. act_bind (notifier_stamp ops) (\<lambda>claimed_at s.
          case claim_next (nt_print ops) now claimed_at uuid (snd s) of Inl e \<Rightarrow> (Err e, s) | Inr (p, d) \<Rightarrow> (Ok p, (fst s, d)))) s1
      = (r, t)" using c s by simp
    then obtain u s3 claimed_at s4 where u: "notifier_uuid ops s1 = (Inr u, s3)" "notifier_stamp ops s3 = (Inr claimed_at, s4)"
      and k: "(case claim_next (nt_print ops) now claimed_at u (snd s4) of
          Inl e \<Rightarrow> (Err e, s4) | Inr (p, d) \<Rightarrow> (Ok p, (fst s4, d))) = (r, t)"
      by (elim act_bindE) (auto dest: act_uuid act_stamp)
    have d: "snd s4 = snd s" "u = fst (nt_uuid ops (fst s1))" using act_uuid [OF u(1)] act_stamp [OF u(2)] s by auto
    show ?thesis
    proof (cases "claim_next (nt_print ops) now claimed_at u (snd s4)")
      case (Inl e)
      then show ?thesis using k d by auto
    next
      case (Inr q)
      moreover have "fst q \<noteq> None"
        using Inr Some s(3) d by (auto simp: claim_next_def bnd_eq_Ok)
      ultimately show ?thesis using k d by (auto split: prod.splits)
    qed
  qed
qed (auto simp: act_read_def dest: act_stamp)

lemma act_delivery_state_cases:
  assumes "act_delivery_state ops p tr s = (r, t)"
  shows "(\<exists>e. r = Inl e \<and> snd t = snd s)
    \<or> (\<exists>now. r = Inr () \<and> set_delivery_state now (pd_id p) (pd_claim_id p) tr (snd s) = Inr (snd t))"
  using assms unfolding act_delivery_state_def
  by (elim act_bindE) (auto dest!: act_stamp act_commit_cases)

lemma act_started_cases:
  assumes "act_started ops p s = (r, t)"
  shows "(\<exists>e. r = Inl e \<and> snd t = snd s)
    \<or> (\<exists>now. r = Inr () \<and> mark_command_started now (pd_id p) (pd_claim_id p) (snd s) = Inr (snd t))"
  using assms unfolding act_started_def
  by (elim act_bindE) (auto dest!: act_stamp act_commit_cases)

lemma act_finish_cases:
  assumes "act_finish ops config p outcome s = (r, t)"
  shows "(\<exists>e. r = Inl e \<and> snd t = snd s)
    \<or> (\<exists>now. r = Inr () \<and> set_delivery_state now (pd_id p) (pd_claim_id p)
          (outcome_transition p DeliveryDelivered None None) (snd s) = Inr (snd t))
    \<or> (\<exists>now at error. r = Inr () \<and> pd_attempt_count p + 1 < nc_max_attempts config \<and> set_delivery_state now (pd_id p) (pd_claim_id p)
          (outcome_transition p DeliveryPending (Some at) (Some error)) (snd s) = Inr (snd t))
    \<or> (\<exists>now error. r = Inr () \<and> \<not> pd_attempt_count p + 1 < nc_max_attempts config \<and> set_delivery_state now (pd_id p) (pd_claim_id p)
          (outcome_transition p DeliveryFailed None (Some error)) (snd s) = Inr (snd t))"
proof (cases outcome)
  case (Inr x)
  then show ?thesis using act_delivery_state_cases [of ops p _ s r t] assms by (auto simp: act_finish_def)
next
  case (Inl e)
  show ?thesis
  proof (cases "pd_attempt_count p + 1 < nc_max_attempts config")
    case True
    then show ?thesis using assms Inl unfolding act_finish_def
      by (simp, elim act_bindE) (auto simp: act_return_eq dest!: act_clock act_delivery_state_cases)
  next
    case False
    then have "act_delivery_state ops p (outcome_transition p DeliveryFailed None (Some (error_text e))) s = (r, t)"
      using assms Inl by (simp add: act_finish_def)
    from act_delivery_state_cases [OF this] False show ?thesis by blast
  qed
qed

lemma act_command_cases:
  assumes "act_bind (act_started ops p) (\<lambda>_. act_bind (act_try (act_world run)) (\<lambda>outcome. act_bind (act_world connect) (\<lambda>_.
      act_bind (act_finish ops config p outcome) (\<lambda>_. act_return (Ok (1 :: nat)))))) s = (r, t)"
  shows "(\<exists>e. r = Inl e \<and> snd t = snd s)
    \<or> (\<exists>now d2. mark_command_started now (pd_id p) (pd_claim_id p) (snd s) = Inr d2 \<and> ((\<exists>e. r = Inl e \<and> snd t = d2)
    \<or> (\<exists>now. r = Inr 1 \<and> set_delivery_state now (pd_id p) (pd_claim_id p)
          (outcome_transition p DeliveryDelivered None None) d2 = Inr (snd t))
    \<or> (\<exists>now at error. r = Inr 1 \<and> pd_attempt_count p + 1 < nc_max_attempts config \<and> set_delivery_state now (pd_id p) (pd_claim_id p)
          (outcome_transition p DeliveryPending (Some at) (Some error)) d2 = Inr (snd t))
    \<or> (\<exists>now error. r = Inr 1 \<and> \<not> pd_attempt_count p + 1 < nc_max_attempts config \<and> set_delivery_state now (pd_id p) (pd_claim_id p)
          (outcome_transition p DeliveryFailed None (Some error)) d2 = Inr (snd t))))"
  using assms
proof (rule act_bindE)
  fix e assume "act_started ops p s = (Inl e, t)" "r = Inl e"
  then show ?thesis using act_started_cases [of ops p s "Inl e" t] by simp
next
  fix u s1 assume st: "act_started ops p s = (Inr u, s1)"
    and rest: "act_bind (act_try (act_world run)) (\<lambda>outcome. act_bind (act_world connect) (\<lambda>_.
      act_bind (act_finish ops config p outcome) (\<lambda>_. act_return (Ok (1 :: nat))))) s1 = (r, t)"
  obtain now where m: "mark_command_started now (pd_id p) (pd_claim_id p) (snd s) = Inr (snd s1)"
    using act_started_cases [OF st] by auto
  obtain outcome s2 where s2: "act_try (act_world run) s1 = (Inr outcome, s2)"
      "act_bind (act_world connect) (\<lambda>_. act_bind (act_finish ops config p outcome) (\<lambda>_. act_return (Ok (1 :: nat)))) s2 = (r, t)"
    using rest by (rule act_bindE) (auto simp: act_try_def split: prod.splits)
  have d2: "snd s2 = snd s1" using s2(1) by (auto simp: act_try_def dest!: act_world_db split: prod.splits)
  from s2(2) show ?thesis
  proof (rule act_bindE)
    fix e assume "act_world connect s2 = (Inl e, t)" "r = Inl e"
    then show ?thesis using m d2 act_world_db [of connect s2] by auto
  next
    fix v s3 assume o: "act_world connect s2 = (Inr v, s3)"
      and k: "act_bind (act_finish ops config p outcome) (\<lambda>_. act_return (Ok (1 :: nat))) s3 = (r, t)"
    have d3: "snd s3 = snd s1" using act_world_db [OF o] d2 by simp
    from k show ?thesis
    proof (rule act_bindE)
      fix e assume "act_finish ops config p outcome s3 = (Inl e, t)" "r = Inl e"
      then show ?thesis using m d3 act_finish_cases [of ops config p outcome s3 "Inl e" t] by auto
    next
      fix v s4 assume f: "act_finish ops config p outcome s3 = (Inr v, s4)" and "act_return (Ok (1 :: nat)) s4 = (r, t)"
      then have "r = Inr 1" "t = s4" by (auto simp: act_return_eq)
      moreover note act_finish_cases [OF f, unfolded d3]
      ultimately show ?thesis using m by simp metis
    qed
  qed
qed

text \<open>Every pass is one of the cases.\<close>

lemma dispatch_once_pass:
  assumes "dispatch_once ops config s = (r, t)"
  shows "dispatch_pass ops config (snd s) r (snd t)"
  using assms unfolding dispatch_once_def
proof (elim act_bindE, goal_cases)
  case (1 e)
  then show ?case using act_world_db [OF 1(1)] unopened by simp
next
  case (2 x s1 e)
  then show ?case by (simp add: act_commit_def)
next
  case (3 x s1 u s2 e)
  have s2: "snd s2 = register_backends config (snd s)" using act_world_db [OF 3(1)] 3(2) by (auto simp: act_commit_def)
  show ?case using act_claim_cases [OF 3(3)] 3(4) s2 unclaimed by auto
next
  case (4 x s1 u s2 pending s3)
  have s2: "snd s2 = register_backends config (snd s)" using act_world_db [OF 4(1)] 4(2) by (auto simp: act_commit_def)
  show ?case
  proof (cases pending)
    case None
    then show ?thesis using act_claim_cases [OF 4(3)] 4(4) s2 quiet by (auto simp: act_return_eq)
  next
    case (Some p)
    then obtain now claimed_at w where c: "claim_next (nt_print ops) now claimed_at (fst (nt_uuid ops w))
        (register_backends config (snd s)) = Inr (Some p, snd s3)"
      using act_claim_cases [OF 4(3)] s2 by auto
    note stop = stranded [OF c]
    show ?thesis
      using 4(4) unfolding Some option.case
    proof (elim act_bindE, goal_cases)
      case (4 created s4 nowi s5 age s6)
      have s6: "snd s6 = snd s3" using 4(1,3) act_clock [OF 4(2)] by (auto simp: act_return_eq)
      show ?case
      proof (cases "nowi - created > age")
        case True
        then show ?thesis using 4(4) expired [OF c] stop s6
          by (simp, elim act_bindE) (auto simp: act_return_eq dest!: act_delivery_state_cases)
      next
        case False
        show ?thesis using 4(4) unfolding if_not_P [OF False]
        proof (elim act_bindE [where m = "act_return _"], goal_cases)
          case (3 backend s7 payload s8)
          have d: "snd s8 = snd s3" using 3(1,2) s6 by (auto simp: act_return_eq)
          have "is_ok (bounded_payload (pd_payload p))" using 3(2) by (auto simp: act_return_eq is_ok_iff intro: sym)
          then have m: "sendable ops config p" unfolding sendable_def
            using act_clock [OF 4(2)] 4(1,3) False
            by (intro conjI exI [of _ nowi] exI [of _ created] exI [of _ age]) (auto simp: act_return_eq not_less intro: sym)
          show ?case
            by (insert act_command_cases [OF 3(3), unfolded d], elim disjE exE conjE; simp only:)
              (rule stop | rule interrupted [OF c _ m], assumption | rule delivered [OF c _ m], assumption, assumption
                | rule retried [OF c _ m], assumption, assumption, assumption
                | rule failed [OF c _ m], assumption, assumption, assumption)+
        qed (use stop s6 in \<open>auto simp: act_return_eq\<close>)
      qed
    qed (use stop in \<open>auto simp: act_return_eq dest!: act_clock\<close>)
  qed
qed


section \<open>A pass is a run\<close>

lemma claim_run:
  assumes "claim_next print now claimed_at uuid (register_backends config (ds_db s)) = Inr (Some p, d1)"
    and "uuid \<notin> set (ds_claims s)"
  shows "notice_run config s (s\<lparr>ds_db := d1, ds_held := p # ds_held s, ds_claims := uuid # ds_claims s\<rparr>)"
proof -
  let ?s = "s\<lparr>ds_db := register_backends config (ds_db s)\<rparr>"
  have "notice_step config ?s (?s\<lparr>ds_db := d1, ds_held := p # ds_held ?s, ds_claims := uuid # ds_claims ?s\<rparr>)"
    by (rule notice_step.claims) (use assms in simp_all)
  then show ?thesis using notice_step.registers [of config s] by (simp add: converse_rtranclp_into_rtranclp r_into_rtranclp)
qed

lemma start_run:
  assumes "claim_next print now claimed_at uuid (register_backends config (ds_db s)) = Inr (Some p, d1)"
    and "uuid \<notin> set (ds_claims s)" and "mark_command_started now2 (pd_id p) (pd_claim_id p) d1 = Inr d2"
  shows "notice_run config s
     \<lparr>ds_db = d2, ds_held = p # ds_held s, ds_started = pd_id p # ds_started s, ds_claims = uuid # ds_claims s\<rparr>"
proof -
  let ?s = "s\<lparr>ds_db := d1, ds_held := p # ds_held s, ds_claims := uuid # ds_claims s\<rparr>"
  have "notice_step config ?s (?s\<lparr>ds_db := d2, ds_started := pd_id p # ds_started ?s\<rparr>)"
    by (rule notice_step.starts) (use assms(3) in simp_all)
  moreover have "?s\<lparr>ds_db := d2, ds_started := pd_id p # ds_started ?s\<rparr> =
     \<lparr>ds_db = d2, ds_held = p # ds_held s, ds_started = pd_id p # ds_started s, ds_claims = uuid # ds_claims s\<rparr>"
    by (cases s) simp
  ultimately show ?thesis using rtranclp.rtrancl_into_rtrancl [OF claim_run [OF assms(1,2)]] by metis
qed

lemma pass_is_run:
  assumes "dispatch_pass ops config (ds_db s) r d" and new: "\<forall>w. fst (nt_uuid ops w) \<notin> set (ds_claims s)"
  shows "\<exists>s'. notice_run config s s' \<and> ds_db s' = d \<and> (\<exists>started. ds_started s' = started @ ds_started s \<and> length started \<le> 1)"
  using assms(1)
proof cases
  case (unopened e)
  then show ?thesis by (intro exI [of _ s]) simp
next
  case (unclaimed e)
  then show ?thesis using notice_step.registers [of config s] by (intro exI [of _ "s\<lparr>ds_db := d\<rparr>"]) (simp add: r_into_rtranclp)
next
  case (quiet now)
  then show ?thesis using notice_step.registers [of config s] by (intro exI [of _ "s\<lparr>ds_db := d\<rparr>"]) (simp add: r_into_rtranclp)
next
  case (stranded now claimed_at w p e)
  show ?thesis using claim_run [OF stranded(2) new [rule_format]] by (intro exI, intro conjI, assumption) simp_all
next
  case (expired now claimed_at w p d1 now2)
  let ?s = "s\<lparr>ds_db := d1, ds_held := p # ds_held s, ds_claims := fst (nt_uuid ops w) # ds_claims s\<rparr>"
  have "notice_step config ?s (?s\<lparr>ds_db := d\<rparr>)" by (rule notice_step.expires) (use expired in simp_all)
  then have "notice_run config s (?s\<lparr>ds_db := d\<rparr>)" by (rule rtranclp.rtrancl_into_rtrancl [OF claim_run [OF expired(2) new [rule_format]]])
  then show ?thesis by (intro exI, intro conjI, assumption) simp_all
next
  case (interrupted now claimed_at w p d1 now2 e)
  show ?thesis using start_run [OF interrupted(2) new [rule_format] interrupted(3)] by (intro exI, intro conjI, assumption) simp_all
next
  case (delivered now claimed_at w p d1 now2 d2 now3)
  let ?s = "\<lparr>ds_db = d2, ds_held = p # ds_held s, ds_started = pd_id p # ds_started s, ds_claims = fst (nt_uuid ops w) # ds_claims s\<rparr>"
  have "notice_step config ?s (?s\<lparr>ds_db := d\<rparr>)" by (rule notice_step.delivers) (use delivered in simp_all)
  then have "notice_run config s (?s\<lparr>ds_db := d\<rparr>)"
    by (rule rtranclp.rtrancl_into_rtrancl [OF start_run [OF delivered(2) new [rule_format] delivered(3)]])
  then show ?thesis by (intro exI, intro conjI, assumption) simp_all
next
  case (retried now claimed_at w p d1 now2 d2 now3 at error)
  let ?s = "\<lparr>ds_db = d2, ds_held = p # ds_held s, ds_started = pd_id p # ds_started s, ds_claims = fst (nt_uuid ops w) # ds_claims s\<rparr>"
  have "notice_step config ?s (?s\<lparr>ds_db := d\<rparr>)" by (rule notice_step.retries) (use retried in simp_all)
  then have "notice_run config s (?s\<lparr>ds_db := d\<rparr>)"
    by (rule rtranclp.rtrancl_into_rtrancl [OF start_run [OF retried(2) new [rule_format] retried(3)]])
  then show ?thesis by (intro exI, intro conjI, assumption) simp_all
next
  case (failed now claimed_at w p d1 now2 d2 now3 error)
  let ?s = "\<lparr>ds_db = d2, ds_held = p # ds_held s, ds_started = pd_id p # ds_started s, ds_claims = fst (nt_uuid ops w) # ds_claims s\<rparr>"
  have "notice_step config ?s (?s\<lparr>ds_db := d\<rparr>)" by (rule notice_step.fails) (use failed in simp_all)
  then have "notice_run config s (?s\<lparr>ds_db := d\<rparr>)"
    by (rule rtranclp.rtrancl_into_rtrancl [OF start_run [OF failed(2) new [rule_format] failed(3)]])
  then show ?thesis by (intro exI, intro conjI, assumption) simp_all
qed

section \<open>The loop ends\<close>

text \<open>The passes that the pending deliveries still allow.\<close>

definition passes_left :: "notification_config \<Rightarrow> delivery \<Rightarrow> nat" where
  "passes_left config x =
     (if nd_state x = DeliveryPending then max 1 (unat (nc_max_attempts config) - nd_attempt_count x) else 0)"

definition work :: "notification_config \<Rightarrow> db \<Rightarrow> nat" where
  "work config d = sum_list (map (passes_left config) (deliveries d))"

definition attempts_in_range :: "db \<Rightarrow> bool" where
  "attempts_in_range d \<longleftrightarrow> (\<forall>x \<in> set (deliveries d). nd_state x = DeliveryPending \<longrightarrow> nd_attempt_count x < 255)"

lemma changed_one_at:
  assumes "changed p (ys @ x # zs) = 1" "p x"
  shows "modify p f (ys @ x # zs) = ys @ f x # zs"
proof -
  have "changed p ys = 0 \<and> changed p zs = 0" using assms by (auto simp: changed_def)
  then show ?thesis using assms(2) changed_pos [of p ys] changed_pos [of p zs] by (simp add: modify_def map_idI)
qed


text \<open>What a pass that ends with \<open>Ok(1)\<close> does to the rows: one pending row is settled or has one attempt more.\<close>

lemma update_splits:
  assumes "update_deliveries p f d = Inr (d', 1)" "deliveries d = ys @ x # zs" "p x"
  shows "deliveries d' = ys @ f x # zs"
proof -
  have "changed p (ys @ x # zs) = 1" "deliveries d' = modify p f (ys @ x # zs)"
    using assms(1,2) unfolding update_deliveries_Ok by simp_all
  then show ?thesis using changed_one_at [of p ys x zs f] assms(3) by simp
qed

lemma claim_splits:
  assumes "claim_next print now claimed_at uuid d = Inr (Some p, d')"
  obtains ys x y zs where "deliveries d = ys @ x # zs" "nd_state x = DeliveryPending" "pd_id p = nd_id x"
    "unat (pd_attempt_count p) = nd_attempt_count x" "pd_claim_id p = uuid"
    "deliveries d' = ys @ y # zs" "nd_id y = nd_id x" "nd_state y = DeliveryClaimed" "nd_claim_id y = Some uuid"
    "nd_attempt_count y = nd_attempt_count x" "due now d x"
proof -
  obtain x where x: "x \<in> set (deliveries d)" "due now d x" "pd_id p = nd_id x" "pd_claim_id p = uuid"
      "unat (pd_attempt_count p) = nd_attempt_count x"
    and u: "update_deliveries (\<lambda>x. nd_id x = pd_id p \<and> nd_state x = DeliveryPending)
            (\<lambda>x. x\<lparr>nd_state := DeliveryClaimed, nd_claim_id := Some (pd_claim_id p), nd_claimed_at := Some claimed_at,
                   nd_last_error := Some (NoteClaimed (pd_event_id p)), nd_updated_at := claimed_at\<rparr>) d = Inr (d', 1)"
    using claim_next_Some [OF assms] by blast
  obtain ys zs where s: "deliveries d = ys @ x # zs" using x(1) by (auto simp: in_set_conv_decomp)
  have p: "nd_state x = DeliveryPending" using x(2) by (simp add: due_def)
  show thesis
    using that [OF s p x(3,5,4) update_splits [OF u s]] p x by simp
qed

lemma start_splits:
  assumes "mark_command_started now (pd_id p) (pd_claim_id p) d = Inr d'" "deliveries d = ys @ y # zs"
    "nd_id y = pd_id p" "nd_state y = DeliveryClaimed" "nd_claim_id y = Some (pd_claim_id p)"
  obtains z where "deliveries d' = ys @ z # zs" "nd_id z = nd_id y" "nd_state z = DeliveryRunning" "nd_claim_id z = nd_claim_id y"
    "nd_attempt_count z = nd_attempt_count y"
proof -
  have u: "update_deliveries (\<lambda>x. nd_id x = pd_id p \<and> nd_state x = DeliveryClaimed \<and> nd_claim_id x = Some (pd_claim_id p))
      (\<lambda>x. x\<lparr>nd_state := DeliveryRunning, nd_last_error := Some NoteCommandStarted, nd_updated_at := now\<rparr>) d = Inr (d', 1)"
    using assms(1) by (auto simp: mark_command_started_def bnd_eq_Ok require_eq_Ok)
  show thesis using that [OF update_splits [OF u assms(2)]] assms(3-5) by simp
qed

lemma state_splits:
  assumes "set_delivery_state now (pd_id p) (pd_claim_id p) t d = Inr d'" "deliveries d = ys @ y # zs"
    "nd_id y = pd_id p" "nd_state y = dt_expected t" "nd_claim_id y = Some (pd_claim_id p)"
  obtains z where "deliveries d' = ys @ z # zs" "nd_id z = nd_id y" "nd_state z = dt_next t" "nd_attempt_count z = unat (dt_attempts t)"
proof -
  show thesis using that [OF update_splits [OF set_delivery_state_Ok [OF assms(1)] assms(2)]] assms(3-5) by simp
qed

lemma register_deliveries: "deliveries (register_backends config d) = deliveries d"
  by (simp add: register_backends_def register_backend_def)

lemma word_add_one_255: "unat (a :: 8 word) < 255 \<Longrightarrow> unat (a + 1) = Suc (unat a)"
  using word_add_one_8 [of a 255] by simp

lemma pass_progress:
  assumes "dispatch_pass ops config d (Inr n) d'"
  shows "n = 0 \<and> deliveries d' = deliveries d
    \<or> (\<exists>ys x z zs. deliveries d = ys @ x # zs \<and> deliveries d' = ys @ z # zs \<and> nd_state x = DeliveryPending
        \<and> (nd_state z \<in> {DeliveryExpired, DeliveryDelivered, DeliveryFailed}
           \<or> nd_state z = DeliveryPending \<and> (nd_attempt_count x < 255 \<longrightarrow>
               nd_attempt_count z = Suc (nd_attempt_count x) \<and> nd_attempt_count z < unat (nc_max_attempts config))))"
  using assms
proof cases
  case (quiet now)
  then show ?thesis by (simp add: register_deliveries)
next
  case (expired now claimed_at w p d1 now2)
  obtain ys x y zs where c: "deliveries (register_backends config d) = ys @ x # zs" "nd_state x = DeliveryPending" "pd_id p = nd_id x"
    "pd_claim_id p = fst (nt_uuid ops w)" "deliveries d1 = ys @ y # zs" "nd_id y = nd_id x" "nd_state y = DeliveryClaimed"
    "nd_claim_id y = Some (fst (nt_uuid ops w))"
    by (rule claim_splits [OF expired(2)])
  obtain z where "deliveries d' = ys @ z # zs" "nd_state z = DeliveryExpired"
    by (rule state_splits [OF expired(3) c(5)]) (use c in \<open>simp_all add: expired_transition_def\<close>)
  with c(1,2) show ?thesis by (intro disjI2) (auto simp: register_deliveries)
next
  case (delivered now claimed_at w p d1 now2 d2 now3)
  obtain ys x y zs where c: "deliveries (register_backends config d) = ys @ x # zs" "nd_state x = DeliveryPending" "pd_id p = nd_id x"
    "pd_claim_id p = fst (nt_uuid ops w)" "deliveries d1 = ys @ y # zs" "nd_id y = nd_id x" "nd_state y = DeliveryClaimed"
    "nd_claim_id y = Some (fst (nt_uuid ops w))"
    by (rule claim_splits [OF delivered(2)])
  obtain y2 where y2: "deliveries d2 = ys @ y2 # zs" "nd_id y2 = nd_id y" "nd_state y2 = DeliveryRunning" "nd_claim_id y2 = nd_claim_id y"
    by (rule start_splits [OF delivered(3) c(5)]) (use c in simp_all)
  obtain z where "deliveries d' = ys @ z # zs" "nd_state z = DeliveryDelivered"
    by (rule state_splits [OF delivered(5) y2(1)]) (use c y2 in \<open>simp_all add: outcome_transition_def\<close>)
  with c(1,2) show ?thesis by (intro disjI2) (auto simp: register_deliveries)
next
  case (failed now claimed_at w p d1 now2 d2 now3 error)
  obtain ys x y zs where c: "deliveries (register_backends config d) = ys @ x # zs" "nd_state x = DeliveryPending" "pd_id p = nd_id x"
    "pd_claim_id p = fst (nt_uuid ops w)" "deliveries d1 = ys @ y # zs" "nd_id y = nd_id x" "nd_state y = DeliveryClaimed"
    "nd_claim_id y = Some (fst (nt_uuid ops w))"
    by (rule claim_splits [OF failed(2)])
  obtain y2 where y2: "deliveries d2 = ys @ y2 # zs" "nd_id y2 = nd_id y" "nd_state y2 = DeliveryRunning" "nd_claim_id y2 = nd_claim_id y"
    by (rule start_splits [OF failed(3) c(5)]) (use c in simp_all)
  obtain z where "deliveries d' = ys @ z # zs" "nd_state z = DeliveryFailed"
    by (rule state_splits [OF failed(6) y2(1)]) (use c y2 in \<open>simp_all add: outcome_transition_def\<close>)
  with c(1,2) show ?thesis by (intro disjI2) (auto simp: register_deliveries)
next
  case (retried now claimed_at w p d1 now2 d2 now3 at error)
  obtain ys x y zs where c: "deliveries (register_backends config d) = ys @ x # zs" "nd_state x = DeliveryPending" "pd_id p = nd_id x"
    "pd_claim_id p = fst (nt_uuid ops w)" "deliveries d1 = ys @ y # zs" "nd_id y = nd_id x" "nd_state y = DeliveryClaimed"
    "nd_claim_id y = Some (fst (nt_uuid ops w))" "unat (pd_attempt_count p) = nd_attempt_count x"
    by (rule claim_splits [OF retried(2)])
  obtain y2 where y2: "deliveries d2 = ys @ y2 # zs" "nd_id y2 = nd_id y" "nd_state y2 = DeliveryRunning" "nd_claim_id y2 = nd_claim_id y"
    by (rule start_splits [OF retried(3) c(5)]) (use c in simp_all)
  obtain z where z: "deliveries d' = ys @ z # zs" "nd_state z = DeliveryPending" "nd_attempt_count z = unat (pd_attempt_count p + 1)"
    by (rule state_splits [OF retried(6) y2(1)]) (use c y2 in \<open>simp_all add: outcome_transition_def\<close>)
  have "nd_attempt_count x < 255 \<longrightarrow>
      nd_attempt_count z = Suc (nd_attempt_count x) \<and> nd_attempt_count z < unat (nc_max_attempts config)"
    using word_add_one_255 [of "pd_attempt_count p"] c(9) z(3) retried(5) by (auto simp: word_less_nat_alt)
  with c(1,2) z(1,2) show ?thesis unfolding register_deliveries by blast
qed

lemma pass_work:
  assumes "dispatch_pass ops config d (Inr n) d'" "attempts_in_range d" "n \<noteq> 0"
  shows "work config d' < work config d" "attempts_in_range d'"
proof -
  obtain ys x z zs where s: "deliveries d = ys @ x # zs" "deliveries d' = ys @ z # zs" and x: "nd_state x = DeliveryPending"
    and z: "nd_state z \<in> {DeliveryExpired, DeliveryDelivered, DeliveryFailed}
       \<or> nd_state z = DeliveryPending \<and> (nd_attempt_count x < 255 \<longrightarrow>
            nd_attempt_count z = Suc (nd_attempt_count x) \<and> nd_attempt_count z < unat (nc_max_attempts config))"
    using pass_progress [OF assms(1)] assms(3) by blast
  have a: "nd_attempt_count x < 255" using assms(2) s x by (simp add: attempts_in_range_def)
  have "passes_left config z < passes_left config x" using z a x by (auto simp: passes_left_def)
  then show "work config d' < work config d" by (simp add: work_def s)
  have "unat (nc_max_attempts config) \<le> 255" using unsigned_less [of "nc_max_attempts config", where 'a = nat] by simp
  then show "attempts_in_range d'" using assms(2) z a by (auto simp: attempts_in_range_def s)
qed

lemma dispatch_all_ends:
  assumes "attempts_in_range (snd s)" "work config (snd s) < n"
  shows "\<exists>r t. dispatch_all n ops config s = Some (r, t)
    \<and> (r = Ok () \<longrightarrow> (\<exists>now. clock_reading ops now \<and> next_due (nt_rfc3339 ops now) (snd t) = None))"
  using assms
proof (induction n arbitrary: s)
  case (Suc n)
  obtain q t where q: "dispatch_once ops config s = (q, t)" by (cases "dispatch_once ops config s")
  note pass = dispatch_once_pass [OF q]
  show ?case
  proof (cases q)
    case (Inl e)
    then show ?thesis by (simp add: q)
  next
    case (Inr k)
    show ?thesis
    proof (cases "k = 0")
      case True
      have "\<exists>now. clock_reading ops now \<and> next_due (nt_rfc3339 ops now) (snd t) = None"
        using pass unfolding Inr True by cases auto
      then show ?thesis by (simp add: q Inr True)
    next
      case False
      note w = pass_work [OF pass [unfolded Inr] Suc.prems(1) False]
      have "\<exists>r t'. dispatch_all n ops config t = Some (r, t')
          \<and> (r = Ok () \<longrightarrow> (\<exists>now. clock_reading ops now \<and> next_due (nt_rfc3339 ops now) (snd t') = None))"
        by (rule Suc.IH) (use w Suc.prems(2) in simp_all)
      then show ?thesis by (simp add: q Inr False)
    qed
  qed
qed simp

section \<open>Settled deliveries\<close>

definition settled :: "delivery \<Rightarrow> bool" where
  "settled x \<longleftrightarrow> \<not> active_delivery x"

definition settled_at :: "nat \<Rightarrow> nat \<Rightarrow> dispatching \<Rightarrow> bool" where
  "settled_at k n s \<longleftrightarrow> k \<le> delivery_sequence (ds_db s) \<and> commands_started k s = n
     \<and> (\<forall>x \<in> set (deliveries (ds_db s)). nd_id x = k \<longrightarrow> settled x)"

lemma updated_settled:
  assumes "update_deliveries p f (ds_db s) = Inr (d, n)" "settled_at k c s"
    and "\<And>x. p x \<Longrightarrow> active_delivery x" "\<And>x. nd_id (f x) = nd_id x"
  shows "settled_at k c (s\<lparr>ds_db := d\<rparr>)"
  using assms by (auto simp: settled_at_def update_deliveries_Ok set_modify commands_started_def settled_def split: if_splits)

lemma enqueued_rows:
  assumes "x \<in> set (deliveries (enqueue_deliveries now event_id d))"
  shows "x \<in> set (deliveries d) \<or> delivery_sequence d < nd_id x"
  using assms by (auto simp: enqueue_deliveries_def Let_def dest!: set_zip_leftD simp del: upt_Suc)

lemma settled_step:
  assumes "notice_step config s s'" "settled_at k c s"
  shows "settled_at k c s'"
  using assms(1)
proof cases
  case (claims print now claimed_at uuid p d)
  obtain y where "update_deliveries (\<lambda>x. nd_id x = pd_id p \<and> nd_state x = DeliveryPending)
            (\<lambda>x. x\<lparr>nd_state := DeliveryClaimed, nd_claim_id := Some (pd_claim_id p), nd_claimed_at := Some claimed_at,
                   nd_last_error := Some (NoteClaimed (pd_event_id p)), nd_updated_at := claimed_at\<rparr>) (ds_db s) = Inr (d, 1)"
    using claim_next_Some [OF claims(2)] by blast
  then have "settled_at k c (s\<lparr>ds_db := d\<rparr>)" by (rule updated_settled [OF _ assms(2)]) (auto simp: active_delivery_def)
  then show ?thesis by (simp add: claims(1) settled_at_def commands_started_def)
next
  case (expires p now d)
  show ?thesis unfolding expires(1)
    by (rule updated_settled [OF set_delivery_state_Ok [OF expires(3)] assms(2)])
      (auto simp: active_delivery_def expired_transition_def)
next
  case (starts p now d)
  obtain n where u: "update_deliveries (\<lambda>x. nd_id x = pd_id p \<and> nd_state x = DeliveryClaimed \<and> nd_claim_id x = Some (pd_claim_id p))
      (\<lambda>x. x\<lparr>nd_state := DeliveryRunning, nd_last_error := Some NoteCommandStarted, nd_updated_at := now\<rparr>) (ds_db s) = Inr (d, n)"
    and n: "n = 1"
    using starts(3) by (auto simp: mark_command_started_def bnd_eq_Ok require_eq_Ok)
  have "settled_at k c (s\<lparr>ds_db := d\<rparr>)" by (rule updated_settled [OF u assms(2)]) (auto simp: active_delivery_def)
  moreover have "\<exists>x \<in> set (deliveries (ds_db s)). nd_id x = pd_id p \<and> nd_state x = DeliveryClaimed \<and> nd_claim_id x = Some (pd_claim_id p)"
    by (rule changed_one_ex) (use u n in \<open>simp add: update_deliveries_Ok\<close>)
  then have "pd_id p \<noteq> k" using assms(2) by (auto simp: settled_at_def settled_def active_delivery_def)
  ultimately show ?thesis by (simp add: starts(1) settled_at_def commands_started_def)
next
  case (delivers p now d)
  show ?thesis unfolding delivers(1)
    by (rule updated_settled [OF set_delivery_state_Ok [OF delivers(3)] assms(2)])
      (auto simp: active_delivery_def outcome_transition_def)
next
  case (retries p now at error d)
  show ?thesis unfolding retries(1)
    by (rule updated_settled [OF set_delivery_state_Ok [OF retries(4)] assms(2)])
      (auto simp: active_delivery_def outcome_transition_def)
next
  case (fails p now error d)
  show ?thesis unfolding fails(1)
    by (rule updated_settled [OF set_delivery_state_Ok [OF fails(4)] assms(2)])
      (auto simp: active_delivery_def outcome_transition_def)
next
  case (restarts now1 now2 n d)
  show ?thesis using assms(2) unfolding restarts(1) restart_rows [OF restarts(2)]
    by (auto simp: settled_at_def commands_started_def settled_def active_delivery_def split: if_splits)
next
  case (redelivers now id actor n d)
  then show ?thesis using assms(2)
    by (auto simp: settled_at_def commands_started_def redeliver_def bnd_eq_Ok require_eq_Ok fetch_eq_Ok Let_def redelivery_def)
next
  case registers
  then show ?thesis using assms(2)
    by (simp add: settled_at_def commands_started_def register_backends_def register_backend_def)
next
  case (others d)
  from others(2) show ?thesis
  proof cases
    case (purged keep)
    then show ?thesis using assms(2) others(1) by (auto simp: settled_at_def commands_started_def)
  next
    case (alerted d1 now event_id)
    have seq: "delivery_sequence d1 \<le> delivery_sequence (enqueue_deliveries now event_id d1)"
      by (simp add: enqueue_deliveries_def Let_def)
    have "settled x" if "x \<in> set (deliveries d)" "nd_id x = k" for x
      using enqueued_rows [of x now event_id d1] that alerted assms(2) by (auto simp: settled_at_def)
    then show ?thesis using assms(2) others(1) alerted seq by (auto simp: settled_at_def commands_started_def)
  qed
qed

lemma settled_run: "notice_run config s s' \<Longrightarrow> settled_at k c s \<Longrightarrow> settled_at k c s'"
  by (induction rule: rtranclp_induct) (blast intro: settled_step)+

section \<open>Rows that a pass leaves alone\<close>

text \<open>No pass, whether it succeeds or fails, changes a row that is not pending.\<close>

lemma claim_keeps:
  assumes "claim_next print now claimed_at uuid (register_backends config d) = Inr (Some p, d1)"
  obtains ys x y zs where "deliveries d = ys @ x # zs" "nd_state x = DeliveryPending" "deliveries d1 = ys @ y # zs"
    "nd_id y = pd_id p" "nd_state y = DeliveryClaimed" "nd_claim_id y = Some (pd_claim_id p)" "pd_claim_id p = uuid"
proof -
  obtain ys x y zs where c: "deliveries (register_backends config d) = ys @ x # zs" "nd_state x = DeliveryPending"
    "pd_id p = nd_id x" "pd_claim_id p = uuid" "deliveries d1 = ys @ y # zs" "nd_id y = nd_id x" "nd_state y = DeliveryClaimed"
    "nd_claim_id y = Some uuid"
    by (rule claim_splits [OF assms])
  show thesis by (rule that [of ys x zs y]) (use c in \<open>simp_all add: register_deliveries\<close>)
qed

lemma failed_pass:
  assumes "dispatch_pass ops config d (Inl e) d'"
  shows "deliveries d' = deliveries d
    \<or> (\<exists>ys x y zs w. deliveries d = ys @ x # zs \<and> deliveries d' = ys @ y # zs \<and> nd_state x = DeliveryPending
        \<and> nd_state y \<in> {DeliveryClaimed, DeliveryRunning} \<and> nd_claim_id y = Some (fst (nt_uuid ops w)))"
  using assms
proof cases
  case (stranded now claimed_at w p)
  show ?thesis by (rule claim_keeps [OF stranded(1)]) fastforce
next
  case (interrupted now claimed_at w p d1 now2)
  obtain ys x y zs where c: "deliveries d = ys @ x # zs" "nd_state x = DeliveryPending" "deliveries d1 = ys @ y # zs"
    "nd_id y = pd_id p" "nd_state y = DeliveryClaimed" "nd_claim_id y = Some (pd_claim_id p)" "pd_claim_id p = fst (nt_uuid ops w)"
    by (rule claim_keeps [OF interrupted(1)])
  obtain z where "deliveries d' = ys @ z # zs" "nd_state z = DeliveryRunning" "nd_claim_id z = nd_claim_id y"
    by (rule start_splits [OF interrupted(2) c(3-6)])
  with c show ?thesis by fastforce
qed (simp_all add: register_deliveries)

lemma pass_rows:
  assumes "dispatch_pass ops config d r d'" "x \<in> set (deliveries d)" "nd_state x \<noteq> DeliveryPending"
  shows "x \<in> set (deliveries d')"
proof (cases r)
  case (Inl e)
  then show ?thesis using failed_pass [of ops config d e d'] assms by auto
next
  case (Inr n)
  then show ?thesis using pass_progress [of ops config d n d'] assms by auto
qed

text \<open>A pass that cannot send settles nothing but by expiry.\<close>

lemma pending_row_event:
  assumes "pending_delivery_row print x d = Inr row"
  shows "\<exists>v \<in> set (events d). \<forall>c. pd_event_created_at (row c) = ev_created_at v"
  using assms by (auto simp: pending_delivery_row_def bnd_eq_Ok fetch_eq_Ok dest!: find_Some_mem)

lemma claim_event:
  assumes "claim_next print now claimed_at uuid (register_backends config d) = Inr (Some p, d1)"
  shows "\<exists>v \<in> set (events d). pd_event_created_at p = ev_created_at v"
proof -
  have "events (register_backends config d) = events d" by (simp add: register_backends_def register_backend_def)
  moreover obtain x row where "pending_delivery_row print x (register_backends config d) = Inr row" "p = row uuid"
    using assms by (auto simp: claim_next_def bnd_eq_Ok split: option.splits)
  ultimately show ?thesis using pending_row_event [of print x "register_backends config d" row] by auto
qed

lemma unsendable_pass:
  assumes "dispatch_pass ops config d r d'" and no: "\<And>p v. v \<in> set (events d) \<Longrightarrow> pd_event_created_at p = ev_created_at v \<Longrightarrow> \<not> sendable ops config p"
    and z: "z \<in> set (deliveries d')" "nd_state z \<in> {DeliveryRunning, DeliveryDelivered, DeliveryFailed}"
  shows "z \<in> set (deliveries d)"
  using assms(1)
proof cases
  case (stranded now claimed_at w p)
  show ?thesis by (rule claim_keeps [OF stranded(2)]) (use z in auto)
next
  case (expired now claimed_at w p d1 now2)
  obtain ys x y zs where c: "deliveries d = ys @ x # zs" "nd_state x = DeliveryPending" "deliveries d1 = ys @ y # zs"
    "nd_id y = pd_id p" "nd_state y = DeliveryClaimed" "nd_claim_id y = Some (pd_claim_id p)"
    by (rule claim_keeps [OF expired(2)])
  obtain v where "deliveries d' = ys @ v # zs" "nd_state v = DeliveryExpired"
    by (rule state_splits [OF expired(3) c(3)]) (use c in \<open>simp_all add: expired_transition_def\<close>)
  with c z show ?thesis by auto
qed (use z no in \<open>auto simp: register_deliveries dest!: claim_event\<close>)

end
