(* ===== verification/Notification_Properties.thy ===== *)
theory Notification_Properties
  imports Notification_Passes Queue_Example
begin

text \<open>
  The properties of the delivery of alerts, and their instances on a small notifier whose clock counts seconds and whose
  backend always fails.
\<close>

section \<open>An example\<close>

definition nx_stamp :: "int \<Rightarrow> string" where
  "nx_stamp t = replicate (nat (t div 1000000000)) CHR ''t''"

definition nx_ops :: "nat notifier" where
  "nx_ops = \<lparr>nt_now = (\<lambda>w. (int w * 1000000000, Suc w)), nt_rfc3339 = nx_stamp,
     nt_parse = (\<lambda>s. Ok ((int (length s) - 1) * 1000000000)), nt_uuid = (\<lambda>w. (replicate w CHR ''u'', Suc w)),
     nt_connect = (\<lambda>w. (Ok (), w)), nt_run_backend = (\<lambda>_ _ w. (Err (Bail ''no''), w)), nt_print = (\<lambda>_. [])\<rparr>"

definition nx_config :: notification_config where
  "nx_config = default_notification_config\<lparr>nc_backends := [Wslg ''/n''], nc_max_attempts := 2\<rparr>"

definition nx_reason :: "string \<Rightarrow> event" where
  "nx_reason reason = \<lparr>ev_sequence = 1, ev_id = ''e'', ev_item_id = ''i'', ev_effort_id = None, ev_type = ''alert'',
     ev_payload = PayloadFields [(''reason'', FText reason)], ev_alert = True, ev_created_at = ''t''\<rparr>"

definition nx_backends :: "string \<Rightarrow> db" where
  "nx_backends reason = qx_empty\<lparr>backends := [(''wslg'', True), (''windows'', False)], events := [nx_reason reason], event_sequence := 1\<rparr>"

definition nx_db :: "string \<Rightarrow> db" where
  "nx_db reason = enqueue_deliveries ''t'' ''e'' (nx_backends reason)"

definition nx_start :: dispatching where
  "nx_start = \<lparr>ds_db = nx_backends ''r'', ds_held = [], ds_started = [], ds_claims = []\<rparr>"

definition nx_alerted :: dispatching where
  "nx_alerted = nx_start\<lparr>ds_db := nx_db ''r''\<rparr>"

definition nx_view :: "db \<Rightarrow> (nat \<times> delivery_state \<times> nat \<times> string option) list" where
  "nx_view d = map (\<lambda>x. (nd_id x, nd_state x, nd_attempt_count x, nd_next_attempt_at x)) (deliveries d)"

lemma nx_start: "no_deliveries nx_start"
  by (simp add: no_deliveries_def nx_start_def nx_backends_def qx_empty_def)

lemma nx_alerted: "notice_run config nx_start nx_alerted"
proof -
  have "notice_step config nx_start (nx_start\<lparr>ds_db := nx_db ''r''\<rparr>)"
    by (rule notice_step.others, rule notice_other.alerted [where ?d1.0 = "nx_backends ''r''"])
      (simp_all add: nx_start_def nx_db_def nx_backends_def)
  then show ?thesis by (simp add: nx_alerted_def r_into_rtranclp)
qed

text \<open>The first pass fails once and waits, and so does the loop; the second pass after the wait gives up.\<close>

lemma nx_pass: "(case dispatch_once nx_ops nx_config (3, nx_db ''r'') of (r, w, d) \<Rightarrow> (r, w, nx_view d)) =
   (Ok 1, 10, [(1, DeliveryPending, 1, Some ''ttttttttt'')])"
  by code_simp

lemma nx_loop: "(case dispatch_all 3 nx_ops nx_config (3, nx_db ''r'') of Some (r, w, d) \<Rightarrow> (r, w, nx_view d)) =
   (Ok (), 17, [(1, DeliveryFailed, 2, None)])"
  by code_simp


text \<open>An old event expires, a delivery whose backend is not configured stays claimed, and an age of all ones is one second
  below zero.\<close>

definition nx_unset :: notification_config where
  "nx_unset = nx_config\<lparr>nc_backends := []\<rparr>"

definition nx_young :: notification_config where
  "nx_young = nx_config\<lparr>nc_max_event_age_seconds := 1\<rparr>"

definition nx_ageless :: notification_config where
  "nx_ageless = nx_config\<lparr>nc_max_event_age_seconds := 2 ^ 64 - 1\<rparr>"

definition nx_delivered :: db where
  "nx_delivered = (nx_db ''r'')\<lparr>deliveries := deliveries (nx_db ''r'') @
     [(hd (deliveries (nx_db ''r'')))\<lparr>nd_id := 0, nd_state := DeliveryDelivered\<rparr>]\<rparr>"

lemma nx_expired: "(case dispatch_once nx_ops nx_young (3, nx_db ''r'') of (r, w, d) \<Rightarrow> (r, w, nx_view d)) =
   (Ok 1, 8, [(1, DeliveryExpired, 0, None)])"
  by code_simp

lemma nx_unset: "(case dispatch_once nx_ops nx_unset (3, nx_db ''r'') of (r, w, d) \<Rightarrow> (r, w, nx_view d)) =
   (Err (Bail ''pending delivery backend is not configured''), 7, [(1, DeliveryClaimed, 0, Some ''t'')])"
  by code_simp

lemma nx_ageless: "(case dispatch_once nx_ops nx_ageless (3, nx_delivered) of (r, w, d) \<Rightarrow> (r, w, nx_view d)) =
   (Ok 1, 8, [(1, DeliveryExpired, 0, None), (0, DeliveryDelivered, 0, Some ''t'')])"
  by code_simp

text \<open>The limit of 512 characters on the reason does not keep the message within 2048 bytes: characters of four bytes exceed it
  with any other fields.\<close>

lemma take_chars_repeat:
  assumes "\<And>s. utf8_width (c @ s) = length c" "c \<noteq> []"
  shows "take_chars n (concat (replicate n c)) = concat (replicate n c)"
  using assms by (induction n) auto

lemma wide_reason_is_refused:
  "np_reason p = concat (replicate 512 [CHR 0xF0, CHR 0x9F, CHR 0x98, CHR 0x80]) \<Longrightarrow>
     bounded_payload p = Err (Bail ''notification payload exceeds fixed bound'')"
proof -
  assume r: "np_reason p = concat (replicate 512 [CHR 0xF0, CHR 0x9F, CHR 0x98, CHR 0x80])"
  have "take_chars 512 (np_reason p) = np_reason p"
    unfolding r by (rule take_chars_repeat) (simp_all add: tail_byte_def)
  moreover have "length (np_reason p) = 2048" unfolding r by (simp add: length_concat sum_list_replicate)
  ultimately show ?thesis by (simp add: bounded_payload_def message_text_def)
qed

section \<open>Attempts\<close>

text \<open>C14: However dispatchers, restarts, redeliveries and alerts interleave, the command of a delivery is started at most
  \<open>max_attempts\<close> times, and the row counts the starts exactly, save the one whose outcome is not known.\<close>

theorem commands_are_bounded:
  assumes "no_deliveries s0" "notice_run config s0 s" "0 < nc_max_attempts config"
  shows "commands_started n s \<le> unat (nc_max_attempts config)
    \<and> (\<forall>x \<in> set (deliveries (ds_db s)). commands_started (nd_id x) s
      = nd_attempt_count x + (if nd_state x \<in> {DeliveryRunning, DeliveryUnknown} then 1 else 0))"
  using noticeD(3,6) [OF notice_run_inv [OF assms(2) no_deliveries_inv [OF assms(1)] assms(3)]]
  by (auto simp: delivery_ok_def outcome_open_def)

theorem commands_are_bounded_witness: "commands_started 1 nx_alerted \<le> 2"
  using commands_are_bounded [OF nx_start nx_alerted, of nx_config 1] by (simp add: nx_config_def)

text \<open>C27: The rows of the table keep their constraints and the types they are read at: the claim columns are set exactly
  in the states \<open>claimed\<close> and \<open>running\<close>, an original delivery is unique for its event and backend and a redelivery for the
  delivery it repeats, the number of attempts fits the byte it is read as, and a pending row has a due time.\<close>

theorem delivery_rows_are_well_formed:
  assumes "no_deliveries s0" "notice_run config s0 s" "0 < nc_max_attempts config" "x \<in> set (deliveries (ds_db s))"
  shows "delivery_check x \<and> nd_attempt_count x < 256 \<and> (nd_state x = DeliveryPending \<longrightarrow> nd_next_attempt_at x \<noteq> None)
    \<and> (\<forall>y \<in> set (deliveries (ds_db s)). nd_id x = nd_id y \<or> nd_event_id x = nd_event_id y \<and> nd_backend x = nd_backend y
         \<and> nd_redelivery_of x = nd_redelivery_of y \<longrightarrow> x = y)"
proof -
  note inv = notice_run_inv [OF assms(2) no_deliveries_inv [OF assms(1)] assms(3)]
  have "unat (nc_max_attempts config) < 256" using unsigned_less [of "nc_max_attempts config", where 'a = nat] by simp
  moreover have "x = y" if "y \<in> set (deliveries (ds_db s))" "delivery_key x = delivery_key y" for y
    using noticeD(2) [OF inv] that assms(4) by (auto simp: distinct_map dest: inj_onD)
  ultimately show ?thesis
    using noticeD(3) [OF inv assms(4)] same_delivery [OF inv assms(4)]
    by (auto simp: delivery_ok_def active_delivery_def delivery_key_def)
qed

theorem delivery_rows_are_well_formed_witness: "list_all delivery_check (deliveries (ds_db nx_alerted))"
  using delivery_rows_are_well_formed [OF nx_start nx_alerted, of nx_config] by (simp add: nx_config_def list_all_iff)

text \<open>C9: A settled delivery is left in peace: once its row is delivered, failed, expired or unknown, no dispatcher starts its
  command again and the row stays settled, restarts and redeliveries included; a repetition is a delivery of its own.\<close>

theorem settled_deliveries_are_not_repeated:
  assumes "no_deliveries s0" "notice_run config s0 s" "0 < nc_max_attempts config" "x \<in> set (deliveries (ds_db s))"
    "nd_state x \<in> {DeliveryDelivered, DeliveryUnknown, DeliveryFailed, DeliveryExpired}" "notice_run config s s'"
  shows "commands_started (nd_id x) s' = commands_started (nd_id x) s
    \<and> (\<forall>y \<in> set (deliveries (ds_db s')). nd_id y = nd_id x
      \<longrightarrow> nd_state y \<in> {DeliveryDelivered, DeliveryUnknown, DeliveryFailed, DeliveryExpired})"
proof -
  note inv = notice_run_inv [OF assms(2) no_deliveries_inv [OF assms(1)] assms(3)]
  have "settled x" using assms(5) by (auto simp: settled_def active_delivery_def)
  then have "\<forall>y \<in> set (deliveries (ds_db s)). nd_id y = nd_id x \<longrightarrow> settled y"
    using same_delivery [OF inv assms(4)] by metis
  moreover have "nd_id x \<le> delivery_sequence (ds_db s)" using noticeD(3) [OF inv assms(4)] by (simp add: delivery_ok_def)
  ultimately have "settled_at (nd_id x) (commands_started (nd_id x) s) s" by (simp add: settled_at_def)
  then have after: "settled_at (nd_id x) (commands_started (nd_id x) s) s'" by (rule settled_run [OF assms(6)])
  have "nd_state y \<in> {DeliveryDelivered, DeliveryUnknown, DeliveryFailed, DeliveryExpired}" if "settled y" for y
    using that by (cases "nd_state y") (auto simp: settled_def active_delivery_def)
  with after show ?thesis unfolding settled_at_def by blast
qed

text \<open>The states after a pass.\<close>

lemma nx_view_one:
  assumes "nx_view d = [(k, q, n, t)]"
  obtains x where "deliveries d = [x]" "nd_id x = k" "nd_state x = q"
  using assms by (auto simp: nx_view_def)

lemma nx_settled: "\<exists>s x. notice_run nx_young nx_alerted s \<and> x \<in> set (deliveries (ds_db s)) \<and> nd_id x = 1 \<and> nd_state x = DeliveryExpired"
proof -
  obtain r w d where d: "dispatch_once nx_ops nx_young (3, nx_db ''r'') = (r, w, d)" "nx_view d = [(1, DeliveryExpired, 0, None)]"
    using nx_expired by (auto split: prod.splits)
  obtain s where "notice_run nx_young nx_alerted s" "ds_db s = d"
    using pass_is_run [of nx_ops nx_young nx_alerted r d] dispatch_once_pass [OF d(1)] by (auto simp: nx_alerted_def nx_start_def)
  moreover obtain x where "deliveries d = [x]" "nd_id x = 1" "nd_state x = DeliveryExpired" using d(2) by (rule nx_view_one)
  ultimately show ?thesis by (intro exI [of _ s] exI [of _ x]) simp
qed

theorem settled_deliveries_are_not_repeated_witness:
  "\<exists>s. \<exists>x \<in> set (deliveries (ds_db s)). nd_state x = DeliveryExpired \<and> (\<forall>s'. notice_run nx_young s s' \<longrightarrow> commands_started (nd_id x) s' = commands_started (nd_id x) s)"
proof -
  obtain s x where s: "notice_run nx_young nx_alerted s" "x \<in> set (deliveries (ds_db s))" "nd_state x = DeliveryExpired"
    using nx_settled by blast
  have run: "notice_run nx_young nx_start s" using nx_alerted s(1) by (rule rtranclp_trans)
  have "commands_started (nd_id x) s' = commands_started (nd_id x) s" if "notice_run nx_young s s'" for s'
    using settled_deliveries_are_not_repeated [OF nx_start run _ s(2) _ that] s(3) by (simp add: nx_young_def nx_config_def)
  with s(2,3) show ?thesis by blast
qed

section \<open>Passes of a dispatcher\<close>

text \<open>A pass of the dispatcher, whether it succeeds or fails, is a run of the steps of one delivery, in which at
  most one command is started; so what holds in all runs holds for dispatchers that work side by side.\<close>

theorem passes_are_runs:
  assumes "dispatch_once ops config (w, ds_db s) = (r, (w', d'))" "\<forall>v. fst (nt_uuid ops v) \<notin> set (ds_claims s)"
  shows "\<exists>s'. notice_run config s s' \<and> ds_db s' = d' \<and> (\<exists>started. ds_started s' = started @ ds_started s \<and> length started \<le> 1)"
  using pass_is_run [OF _ assms(2)] dispatch_once_pass [OF assms(1)] by simp

theorem passes_are_runs_witness:
  "\<exists>s' r w' d'. dispatch_once nx_ops nx_config (3, nx_db ''r'') = (r, (w', d')) \<and> notice_run nx_config nx_alerted s' \<and> ds_db s' = d'"
proof -
  obtain r w' d' where d: "dispatch_once nx_ops nx_config (3, ds_db nx_alerted) = (r, (w', d'))" by (metis prod_cases3)
  have "\<forall>v. fst (nt_uuid nx_ops v) \<notin> set (ds_claims nx_alerted)" by (simp add: nx_alerted_def nx_start_def)
  from passes_are_runs [OF d this] d show ?thesis by (auto simp: nx_alerted_def)
qed

text \<open>C26: The daemon's loop over passes ends, whatever the clock, the database and the backends answer: after as many
  passes as the pending deliveries have attempts left it has returned, and when it returns without an error no delivery is
  due at the time that its last pass read.\<close>

theorem dispatch_loop_ends:
  assumes "\<forall>x \<in> set (deliveries d). nd_state x = DeliveryPending \<longrightarrow> nd_attempt_count x < 255"
  shows "\<exists>r w' d'. dispatch_all (Suc (work config d)) ops config (w, d) = Some (r, (w', d'))
    \<and> (r = Ok () \<longrightarrow> (\<exists>now. clock_reading ops now \<and> (\<forall>x \<in> set (deliveries d'). \<not> due (nt_rfc3339 ops now) d' x)))"
proof -
  have none: "\<forall>x \<in> set (deliveries d'). \<not> due now d' x" if "next_due now d' = None" for now d'
  proof -
    have "sort_key (\<lambda>x. (the (nd_next_attempt_at x), nd_id x)) (filter (due now d') (deliveries d')) = []"
      using that by (auto simp: next_due_def split: list.splits)
    then have "set (filter (due now d') (deliveries d')) = {}" by (metis set_sort list.set(1))
    then show ?thesis by auto
  qed
  have "\<exists>r t. dispatch_all (Suc (work config d)) ops config (w, d) = Some (r, t)
    \<and> (r = Ok () \<longrightarrow> (\<exists>now. clock_reading ops now \<and> next_due (nt_rfc3339 ops now) (snd t) = None))"
    by (rule dispatch_all_ends) (use assms in \<open>simp_all add: attempts_in_range_def\<close>)
  then obtain r t where "dispatch_all (Suc (work config d)) ops config (w, d) = Some (r, t)"
    "r = Ok () \<longrightarrow> (\<exists>now. clock_reading ops now \<and> next_due (nt_rfc3339 ops now) (snd t) = None)" by blast
  then show ?thesis using none
    by (intro exI [of _ r] exI [of _ "fst t"] exI [of _ "snd t"]) (auto simp del: dispatch_all.simps)
qed

theorem dispatch_loop_ends_witness:
  "\<exists>r t. dispatch_all (Suc (work nx_config (nx_db ''r''))) nx_ops nx_config (3, nx_db ''r'') = Some (r, t)"
proof -
  have "\<forall>x \<in> set (deliveries (nx_db ''r'')). nd_state x = DeliveryPending \<longrightarrow> nd_attempt_count x < 255"
    by (simp add: nx_db_def nx_backends_def enqueue_deliveries_def qx_empty_def)
  from dispatch_loop_ends [OF this, of nx_config nx_ops 3] show ?thesis by blast
qed

text \<open>C38: A pass that fails strands what it claimed: either it changed no row, or one row that was pending stays claimed or
  running under the claim of that pass, and no later pass changes it, so only a restart of the daemon frees it.\<close>

theorem failed_passes_strand_their_delivery:
  assumes "dispatch_once ops config (w, d) = (Inl e, (w', d'))"
  shows "deliveries d' = deliveries d
    \<or> (\<exists>ys x y zs. deliveries d = ys @ x # zs \<and> deliveries d' = ys @ y # zs \<and> nd_state x = DeliveryPending
        \<and> nd_state y \<in> {DeliveryClaimed, DeliveryRunning}
        \<and> (\<forall>d1 w1 r w2 d2. y \<in> set (deliveries d1) \<longrightarrow> dispatch_once ops config (w1, d1) = (r, (w2, d2)) \<longrightarrow> y \<in> set (deliveries d2)))"
proof -
  have kept: "y \<in> set (deliveries d2)" if "nd_state y \<in> {DeliveryClaimed, DeliveryRunning}" "y \<in> set (deliveries d1)"
    "dispatch_once ops config (w1, d1) = (r, (w2, d2))" for y d1 w1 r w2 d2
    using pass_rows [OF dispatch_once_pass [OF that(3), simplified] that(2)] that(1) by auto
  show ?thesis using failed_pass [OF dispatch_once_pass [OF assms, simplified]] kept by blast
qed

theorem failed_passes_strand_their_delivery_witness:
  "\<exists>e w' d' y. dispatch_once nx_ops nx_unset (3, nx_db ''r'') = (Inl e, (w', d')) \<and> deliveries d' = [y] \<and> nd_state y = DeliveryClaimed
    \<and> (\<forall>w1 r w2 d2. dispatch_once nx_ops nx_unset (w1, d') = (r, (w2, d2)) \<longrightarrow> y \<in> set (deliveries d2))"
proof -
  obtain e w' d' where d: "dispatch_once nx_ops nx_unset (3, nx_db ''r'') = (Inl e, (w', d'))"
    and v: "nx_view d' = [(1, DeliveryClaimed, 0, Some ''t'')]"
    using nx_unset by (auto split: prod.splits)
  obtain y where y: "deliveries d' = [y]" "nd_state y = DeliveryClaimed" using v by (rule nx_view_one)
  have x: "\<forall>x \<in> set (deliveries (nx_db ''r'')). nd_state x = DeliveryPending"
    by (simp add: nx_db_def nx_backends_def enqueue_deliveries_def qx_empty_def)
  have "deliveries d' \<noteq> deliveries (nx_db ''r'')"
  proof
    assume "deliveries d' = deliveries (nx_db ''r'')"
    then have "y \<in> set (deliveries (nx_db ''r''))" using y(1) by (metis list.set_intros(1))
    with x y(2) show False by simp
  qed
  then have "\<forall>d1 w1 r w2 d2. y \<in> set (deliveries d1) \<longrightarrow> dispatch_once nx_ops nx_unset (w1, d1) = (r, (w2, d2))
      \<longrightarrow> y \<in> set (deliveries d2)"
    using failed_passes_strand_their_delivery [OF d] unfolding y(1) by (elim disjE exE conjE) (simp_all add: Cons_eq_append_conv)
  moreover have "y \<in> set (deliveries d')" using y(1) by simp
  ultimately show ?thesis using d y by blast
qed

lemma unrepresentable_age:
  assumes "unat (a :: 64 word) > (2 ^ 63 - 1) div 1000" "duration_seconds (sint a) = Inr age"
  shows "age < 0"
proof (rule ccontr)
  assume "\<not> age < 0"
  then have nonneg: "0 \<le> sint a" and le: "sint a \<le> (2 ^ 63 - 1) div 1000"
    using assms(2) by (auto simp: duration_seconds_def split: if_splits)
  then have "uint a = sint a" unfolding uint_sint by (simp add: take_bit_int_eq_self)
  then have "int (unat a) = sint a" by simp
  moreover have "sint a \<le> 9223372036854775" using le by simp
  moreover have "9223372036854775 < unat a" using assms(1) by simp
  ultimately show False by linarith
qed

text \<open>A maximal age that \<open>chrono\<close> cannot represent silences notifications: when \<open>max_event_age_seconds\<close> exceeds the
  bound of a duration, which the validation of the configuration permits, its conversion to a signed number is negative or the
  duration is refused, and no pass ever starts a command: rows are running, delivered or failed only if they were before.\<close>

theorem unrepresentable_age_silences:
  assumes "dispatch_once ops config (w, d) = (r, (w', d'))"
    and "unat (nc_max_event_age_seconds config) > (2 ^ 63 - 1) div 1000"
    and "\<forall>v \<in> set (events d). \<forall>created now. nt_parse ops (ev_created_at v) = Inr created \<longrightarrow> clock_reading ops now \<longrightarrow> created \<le> now"
    and "x \<in> set (deliveries d')" "nd_state x \<in> {DeliveryRunning, DeliveryDelivered, DeliveryFailed}"
  shows "x \<in> set (deliveries d)"
proof -
  have no: "\<not> sendable ops config p" if "v \<in> set (events d)" "pd_event_created_at p = ev_created_at v" for p v
  proof
    assume "sendable ops config p"
    then obtain now created age where a: "clock_reading ops now" "nt_parse ops (pd_event_created_at p) = Inr created"
      "duration_seconds (sint (nc_max_event_age_seconds config)) = Inr age" "now - created \<le> age"
      by (auto simp: sendable_def)
    then have "created \<le> now" using assms(3) that by auto
    moreover have "age < 0" by (rule unrepresentable_age [OF assms(2) a(3)])
    ultimately show False using a(4) by simp
  qed
  show ?thesis by (rule unsendable_pass [OF dispatch_once_pass [OF assms(1), simplified] _ assms(4,5)]) (rule no)
qed

theorem unrepresentable_age_silences_witness:
  "\<exists>r w' d' x. dispatch_once nx_ops nx_ageless (3, nx_delivered) = (r, (w', d')) \<and> x \<in> set (deliveries d')
    \<and> nd_state x = DeliveryDelivered \<and> x \<in> set (deliveries nx_delivered)"
proof -
  obtain r w' d' where d: "dispatch_once nx_ops nx_ageless (3, nx_delivered) = (r, (w', d'))"
    and v: "nx_view d' = [(1, DeliveryExpired, 0, None), (0, DeliveryDelivered, 0, Some ''t'')]"
    using nx_ageless by (auto split: prod.splits)
  have "\<exists>x \<in> set (deliveries d'). nd_state x = DeliveryDelivered" using v by (auto simp: nx_view_def)
  then obtain x where x: "x \<in> set (deliveries d')" "nd_state x = DeliveryDelivered" by blast
  have "x \<in> set (deliveries nx_delivered)"
  proof (rule unrepresentable_age_silences [OF d _ _ x(1)])
    show "\<forall>v \<in> set (events nx_delivered). \<forall>created now. nt_parse nx_ops (ev_created_at v) = Inr created \<longrightarrow>
        clock_reading nx_ops now \<longrightarrow> created \<le> now"
      by (auto simp: nx_delivered_def nx_db_def nx_backends_def enqueue_deliveries_def Let_def qx_empty_def nx_reason_def nx_ops_def
          clock_reading_def)
  qed (use x(2) in \<open>simp_all add: nx_ageless_def\<close>)
  with d x show ?thesis by blast
qed

end
