(* ===== verification/Notification_Alerts.thy ===== *)
theory Notification_Alerts
  imports Notifications Example_Run
begin

text \<open>
  What a notification says of a blocked effort: the alerts of the control store against the fields that the dispatcher
  extracts from their payloads.
\<close>

lemma append_event_last:
  assumes "append_event now uuid e event_type payload alert d = Inr d'"
  shows "find (\<lambda>v. ev_id v = uuid) (events d') =
    Some \<lparr>ev_sequence = Suc (event_sequence d), ev_id = uuid, ev_item_id = ef_item_id e, ev_effort_id = Some (ef_id e),
          ev_type = event_type, ev_payload = payload, ev_alert = alert, ev_created_at = now\<rparr>"
proof -
  have "\<not> list_ex (\<lambda>x. ev_id x = uuid) (events d)"
    using assms by (auto simp: append_event_def append_event_with_id_def split: if_splits)
  then have "find (\<lambda>v. ev_id v = uuid) (events d) = None" by (auto simp: find_None_mem list_ex_iff)
  then show ?thesis
    using assms by (auto simp: append_event_def append_event_with_id_def enqueue_deliveries_def Let_def find_append_new split: if_splits)
qed

lemma state_payload_text: "payload_text print name (PayloadState s) = Inr None"
  by (simp add: payload_text_def)

lemma guidance_alert:
  assumes "require_guidance now uuid effort_id guidance d = Inr d'"
  shows "\<exists>e s d1. append_event now uuid e ''guidance_required'' (PayloadState s) True d1 = Inr d'"
proof -
  obtain e where "required_effort effort_id d = Inr e" using assms by (auto simp: require_guidance_def bnd_eq_Ok)
  with assms show ?thesis by (cases "ef_state e") (auto simp: require_guidance_def bnd_eq_Ok Let_def)
qed

text \<open>C39: A notification of a blocked effort omits its blocker: the payload of the alert is the serialised state, whose
  members are \<open>state\<close> and \<open>payload\<close>, so that the dispatcher finds no member \<open>repository\<close>, \<open>blocker_kind\<close> or \<open>reason\<close>; the
  message says \<open>local\<close>, \<open>unknown\<close> and the type of the event, whatever question, component or gate blocks the effort.\<close>

theorem blocked_alerts_omit_the_blocker:
  assumes "require_guidance now uuid effort_id guidance d = Inr d'
      \<or> block_infrastructure now uuid effort_id infrastructure d = Inr d'
      \<or> block_provider now uuid effort_id provider d = Inr d'"
    and "nd_event_id x = uuid" "nd_attempt_count x < 256"
  shows "\<exists>row. pending_delivery_row print x d' = Inr row \<and>
    (\<forall>claim. np_repository (pd_payload (row claim)) = ''local'' \<and> np_blocker_kind (pd_payload (row claim)) = ''unknown''
       \<and> np_reason (pd_payload (row claim)) \<in> {''guidance_required'', ''infrastructure_blocked'', ''provider_blocked''})"
proof -
  obtain e t s d1 where a: "append_event now uuid e t (PayloadState s) True d1 = Inr d'"
    and t: "t \<in> {''guidance_required'', ''infrastructure_blocked'', ''provider_blocked''}"
    using assms(1)
    by (elim disjE) (use guidance_alert in blast, auto simp: block_infrastructure_def block_provider_def bnd_eq_Ok Let_def)
  show ?thesis
    using append_event_last [OF a] t assms(2,3)
    by (simp add: pending_delivery_row_def fetch_def state_payload_text bnd_require)
qed

theorem blocked_alerts_omit_the_blocker_witness:
  "\<exists>uuid x row. require_guidance (en_now (ex_env 5)) uuid ''uv'' ex_guidance ex_agent = Inr ex_asked
     \<and> pending_delivery_row (\<lambda>_. []) x ex_asked = Inr row \<and> np_blocker_kind (pd_payload (row ''claim'')) = ''unknown''"
proof -
  have g: "require_guidance (en_now (ex_env 5)) (en_uuid (ex_env 5) 0) ''uv'' ex_guidance ex_agent = Inr ex_asked"
    using ex_runs(6) by (simp add: bnd_eq_Ok)
  obtain x :: delivery where x: "nd_event_id x = en_uuid (ex_env 5) 0" "nd_attempt_count x < 256"
    by (metis delivery.select_convs(2,7) zero_less_numeral)
  show ?thesis using blocked_alerts_omit_the_blocker [OF disjI1 [OF g] x] g by blast
qed

end
