(* ===== verification/Agent_Protocol.thy ===== *)
theory Agent_Protocol
  imports Control_Domain Repository_Policy "HOL-Library.Word"
begin

text \<open>
  The messages between the integrator and an integration agent (\<open>agent_protocol.rs\<close>): the input of a cycle with its
  validation, and the result that the agent writes, which is parsed against the input.  The parser of the JSON text is a
  parameter; lengths and limits are kept at their widths.
\<close>

section \<open>The input\<close>

record repository_identity =
  ri_repo_key :: string
  ri_target_ref :: target_ref
  ri_object_format :: git_object_format

datatype source_variant = RemoteBranch string string | LocalSubmission string string
datatype landing_variant = DirectLanding | ProviderLanding string | SquashLanding

record rift_identity =
  rf_rift_id :: string
  rf_source_rift_id :: string
  rf_relative_path :: encoded_path

record conflict_entry =
  cf_path :: encoded_path
  cf_base_blob :: "string option"
  cf_target_blob :: "string option"
  cf_source_blob :: "string option"

record prior_outcome =
  pr_cycle_id :: string
  pr_kind :: string
  pr_evidence :: string

record bounded_evidence =
  bv_kind :: string
  bv_text :: string

record instruction_identity =
  ii_path :: encoded_path
  ii_sha256 :: string

record protocol_limits =
  pl_max_result_bytes :: "64 word"
  pl_max_text_bytes :: "64 word"
  pl_max_paths :: "32 word"
  pl_max_evidence_entries :: "32 word"

record agent_input =
  ai_version :: "32 word"
  ai_identity :: exact_effort_identity
  ai_repository :: repository_identity
  ai_source :: source_variant
  ai_landing :: landing_variant
  ai_base_sha :: string
  ai_rift :: rift_identity
  ai_conflicts :: "conflict_entry list"
  ai_prior_outcomes :: "prior_outcome list"
  ai_validation_evidence :: "bounded_evidence list"
  ai_instructions :: "instruction_identity list"
  ai_limits :: protocol_limits

section \<open>The result\<close>

datatype check_status = CheckPassed | CheckFailed | CheckNotRun

record check_evidence =
  ck_command :: string
  ck_status :: check_status
  ck_summary :: string

record resolved_result =
  re_version :: "32 word"
  re_identity :: exact_effort_identity
  re_staged_tree_sha256 :: string
  re_changed_paths :: "encoded_path list"
  re_checks :: "check_evidence list"

record guidance_result =
  ge_version :: "32 word"
  ge_identity :: exact_effort_identity
  ge_question :: string
  ge_affected_contracts :: "string list"
  ge_affected_paths :: "encoded_path list"
  ge_alternatives :: guidance_alternatives
  ge_evidence :: string

record mechanical_failure_result =
  mf_version :: "32 word"
  mf_identity :: exact_effort_identity
  mf_operation :: string
  mf_reason :: string
  mf_evidence :: string
  mf_rift_inspectable :: bool

datatype agent_result =
    ResolvedResult resolved_result
  | GuidanceResult guidance_result
  | MechanicalFailureResult mechanical_failure_result

fun result_identity :: "agent_result \<Rightarrow> exact_effort_identity" where
  "result_identity (ResolvedResult v) = re_identity v"
| "result_identity (GuidanceResult v) = ge_identity v"
| "result_identity (MechanicalFailureResult v) = mf_identity v"

section \<open>Checks\<close>

definition protocol_version :: "32 word" where
  "protocol_version = word_of_nat PROTOCOL_VERSION"

definition require_version :: "32 word \<Rightarrow> unit result" where
  "require_version version = require (version = protocol_version) (Bail ''unsupported integration-agent result version'')"

definition require_digest :: "string \<Rightarrow> string \<Rightarrow> unit result" where
  "require_digest value label =
     require (length value = 64 \<and> list_all is_ascii_hexdigit value) (Bail (label @ '' must be a SHA-256 digest''))"

definition require_bounded :: "string \<Rightarrow> 64 word \<Rightarrow> string \<Rightarrow> unit result" where
  "require_bounded value maximum label =
     bnd (require_exact_text value label) (\<lambda>_.
     require (\<not> length value > unat maximum) (Bail (label @ '' exceeds configured text limit'')))"

text \<open>The loop over a path list; \<open>seen\<close> is the hash set of the paths before.\<close>

fun validate_paths_from :: "nat \<Rightarrow> encoded_path list \<Rightarrow> 32 word \<Rightarrow> encoded_path list \<Rightarrow> unit result" where
  "validate_paths_from count seen maximum [] = Ok ()"
| "validate_paths_from count seen maximum (path # paths) =
     (if count \<ge> unat maximum then Err (Bail ''protocol path list exceeds configured limit'')
      else bnd (path_to_bytes path) (\<lambda>_.
           if path \<in> set seen then Err (Bail ''protocol path list contains a duplicate'')
           else validate_paths_from (Suc count) (path # seen) maximum paths))"

definition validate_paths :: "encoded_path list \<Rightarrow> 32 word \<Rightarrow> unit result" where
  "validate_paths paths maximum = validate_paths_from 0 [] maximum paths"

definition validate_identity :: "exact_effort_identity \<Rightarrow> git_object_format \<Rightarrow> unit result" where
  "validate_identity identity f =
     bnd (for_each (\<lambda>(value, label). bnd (require_exact_text value label) (\<lambda>_. Ok ()))
            [(xi_effort_id identity, ''effort ID''), (xi_item_id identity, ''item ID''),
             (xi_attempt_id identity, ''attempt ID''), (xi_cycle_id identity, ''cycle ID'')]) (\<lambda>_.
     bnd (validate_cycle_id (xi_cycle_id identity)) (\<lambda>_.
     bnd (require_oid f (xi_target_sha identity) ''target SHA'') (\<lambda>_.
     bnd (require_oid f (xi_source_sha identity) ''source SHA'') (\<lambda>_.
     (case xi_candidate_sha identity of
        None \<Rightarrow> Ok ()
      | Some candidate \<Rightarrow> require_oid f candidate ''candidate SHA'')))))"

definition validate_source :: "source_variant \<Rightarrow> git_object_format \<Rightarrow> unit result" where
  "validate_source source f =
     (case source of
        RemoteBranch branch sha \<Rightarrow>
          bnd (require_exact_text branch ''source branch'') (\<lambda>_. require_oid f sha ''source SHA'')
      | LocalSubmission submission_id sha \<Rightarrow>
          bnd (require_exact_text submission_id ''local submission identity'') (\<lambda>_. require_oid f sha ''source SHA''))"

definition validate_conflict :: "git_object_format \<Rightarrow> conflict_entry \<Rightarrow> unit result" where
  "validate_conflict f conflict =
     for_each (\<lambda>(blob, label). case blob of None \<Rightarrow> Ok () | Some blob \<Rightarrow> require_oid f blob label)
       [(cf_base_blob conflict, ''base conflict blob''), (cf_target_blob conflict, ''target conflict blob''),
        (cf_source_blob conflict, ''source conflict blob'')]"

definition validate_outcome :: "64 word \<Rightarrow> prior_outcome \<Rightarrow> unit result" where
  "validate_outcome maximum outcome =
     bnd (require_exact_text (pr_cycle_id outcome) ''prior outcome cycle ID'') (\<lambda>_.
     bnd (require_exact_text (pr_kind outcome) ''prior outcome kind'') (\<lambda>_.
     require_bounded (pr_evidence outcome) maximum ''prior outcome evidence''))"

definition validate_evidence :: "64 word \<Rightarrow> bounded_evidence \<Rightarrow> unit result" where
  "validate_evidence maximum entry =
     bnd (require_exact_text (bv_kind entry) ''validation evidence kind'') (\<lambda>_.
     require_bounded (bv_text entry) maximum ''validation evidence'')"

definition validate_input :: "agent_input \<Rightarrow> unit result" where
  "validate_input input =
     (let f = ri_object_format (ai_repository input); limits = ai_limits input in
     bnd (require (ai_version input = protocol_version) (Bail ''unsupported integration-agent input version'')) (\<lambda>_.
     bnd (validate_identity (ai_identity input) f) (\<lambda>_.
     bnd (require_exact_text (ri_repo_key (ai_repository input)) ''repository identity'') (\<lambda>_.
     bnd (target_ref_from_full (target_ref_str (ri_target_ref (ai_repository input)))) (\<lambda>_.
     bnd (require_oid f (ai_base_sha input) ''base SHA'') (\<lambda>_.
     bnd (validate_source (ai_source input) f) (\<lambda>_.
     bnd (for_each (validate_conflict f) (ai_conflicts input)) (\<lambda>_.
     bnd (validate_paths (map cf_path (ai_conflicts input)) (pl_max_paths limits)) (\<lambda>_.
     bnd (validate_paths (map ii_path (ai_instructions input)) (pl_max_paths limits)) (\<lambda>_.
     bnd (require (\<not> length (ai_validation_evidence input) > unat (pl_max_evidence_entries limits))
            (Bail ''validation evidence exceeds protocol entry limit'')) (\<lambda>_.
     bnd (require (\<not> length (ai_prior_outcomes input) > unat (pl_max_evidence_entries limits))
            (Bail ''prior outcomes exceed protocol entry limit'')) (\<lambda>_.
     bnd (for_each (validate_outcome (pl_max_text_bytes limits)) (ai_prior_outcomes input)) (\<lambda>_.
     bnd (for_each (validate_evidence (pl_max_text_bytes limits)) (ai_validation_evidence input)) (\<lambda>_.
     for_each (\<lambda>instruction. require_digest (ii_sha256 instruction) ''instruction digest'') (ai_instructions input)))))))))))))))"

section \<open>Parsing a result\<close>

definition validate_resolved :: "protocol_limits \<Rightarrow> resolved_result \<Rightarrow> unit result" where
  "validate_resolved limits value =
     bnd (require_version (re_version value)) (\<lambda>_.
     bnd (require_digest (re_staged_tree_sha256 value) ''staged-tree digest'') (\<lambda>_.
     bnd (validate_paths (re_changed_paths value) (pl_max_paths limits)) (\<lambda>_.
     bnd (require (\<not> length (re_checks value) > unat (pl_max_evidence_entries limits))
            (Bail ''check evidence exceeds protocol entry limit'')) (\<lambda>_.
     for_each (\<lambda>check.
         bnd (require_bounded (ck_command check) (pl_max_text_bytes limits) ''check command'') (\<lambda>_.
         require_bounded (ck_summary check) (pl_max_text_bytes limits) ''check summary''))
       (re_checks value)))))"

text \<open>The loop over explicit alternatives; \<open>seen\<close> is the hash set.\<close>

fun validate_alternatives_from :: "string list \<Rightarrow> 64 word \<Rightarrow> string list \<Rightarrow> unit result" where
  "validate_alternatives_from seen maximum [] = Ok ()"
| "validate_alternatives_from seen maximum (alternative # rest) =
     bnd (require_bounded alternative maximum ''guidance alternative'') (\<lambda>_.
     if alternative \<in> set seen then Err (Bail ''guidance alternatives must be unique'')
     else validate_alternatives_from (alternative # seen) maximum rest)"

definition validate_alternatives :: "64 word \<Rightarrow> guidance_alternatives \<Rightarrow> unit result" where
  "validate_alternatives maximum alternatives =
     (case alternatives of
        Explicit values \<Rightarrow>
          if length values \<ge> 2 then validate_alternatives_from [] maximum values
          else Err (Bail ''guidance requires two alternatives or explicit free text'')
      | FreeText \<Rightarrow> Ok ())"

definition validate_guidance :: "protocol_limits \<Rightarrow> guidance_result \<Rightarrow> unit result" where
  "validate_guidance limits value =
     bnd (require_version (ge_version value)) (\<lambda>_.
     bnd (require_bounded (ge_question value) (pl_max_text_bytes limits) ''guidance question'') (\<lambda>_.
     bnd (require (ge_affected_contracts value \<noteq> [] \<and> ge_affected_paths value \<noteq> [])
            (Bail ''guidance requires affected contracts and paths'')) (\<lambda>_.
     bnd (validate_paths (ge_affected_paths value) (pl_max_paths limits)) (\<lambda>_.
     bnd (validate_alternatives (pl_max_text_bytes limits) (ge_alternatives value)) (\<lambda>_.
     require_bounded (ge_evidence value) (pl_max_text_bytes limits) ''guidance evidence'')))))"

definition validate_mechanical_failure :: "protocol_limits \<Rightarrow> mechanical_failure_result \<Rightarrow> unit result" where
  "validate_mechanical_failure limits value =
     bnd (require_version (mf_version value)) (\<lambda>_.
     bnd (require_bounded (mf_operation value) (pl_max_text_bytes limits) ''mechanical operation'') (\<lambda>_.
     bnd (require_bounded (mf_reason value) (pl_max_text_bytes limits) ''mechanical reason'') (\<lambda>_.
     require_bounded (mf_evidence value) (pl_max_text_bytes limits) ''mechanical evidence'')))"

fun validate_result :: "protocol_limits \<Rightarrow> agent_result \<Rightarrow> unit result" where
  "validate_result limits (ResolvedResult value) = validate_resolved limits value"
| "validate_result limits (GuidanceResult value) = validate_guidance limits value"
| "validate_result limits (MechanicalFailureResult value) = validate_mechanical_failure limits value"

definition parse_result :: "(string \<Rightarrow> agent_result result) \<Rightarrow> string \<Rightarrow> agent_input \<Rightarrow> agent_result result" where
  "parse_result from_slice bytes input =
     bnd (require (\<not> length bytes > unat (pl_max_result_bytes (ai_limits input)))
            (Bail ''integration-agent result exceeds configured limit'')) (\<lambda>_.
     bnd (from_slice bytes) (\<lambda>result.
     bnd (require (result_identity result = ai_identity input)
            (Bail ''integration-agent result identity does not match cycle input'')) (\<lambda>_.
     bnd (validate_result (ai_limits input) result) (\<lambda>_.
     Ok result))))"

section \<open>Lemmas\<close>

lemma validate_paths_from_Ok:
  "validate_paths_from n seen maximum ps = Inr u \<longleftrightarrow>
     (ps = [] \<or> n + length ps \<le> unat maximum) \<and> (\<forall>p \<in> set ps. is_ok (path_to_bytes p)) \<and> distinct ps \<and> set ps \<inter> set seen = {}"
  by (induction ps arbitrary: n seen) (auto simp: bnd_eq_Ok is_ok_iff Suc_le_eq)

lemma validate_paths_Ok [result_simps]:
  "validate_paths ps maximum = Inr u \<longleftrightarrow>
     length ps \<le> unat maximum \<and> (\<forall>p \<in> set ps. is_ok (path_to_bytes p)) \<and> distinct ps"
  by (auto simp: validate_paths_def validate_paths_from_Ok)

lemma validate_alternatives_from_Ok:
  "validate_alternatives_from seen maximum xs = Inr u \<longleftrightarrow>
     (\<forall>x \<in> set xs. exact_text x \<and> length x \<le> unat maximum) \<and> distinct xs \<and> set xs \<inter> set seen = {}"
  by (induction xs arbitrary: seen)
    (auto simp: bnd_eq_Ok require_bounded_def require_eq_Ok require_exact_text_iff not_less)

lemma require_bounded_Ok [result_simps]:
  "require_bounded v maximum l = Inr u \<longleftrightarrow> exact_text v \<and> length v \<le> unat maximum"
  by (auto simp: require_bounded_def bnd_eq_Ok require_eq_Ok require_exact_text_iff not_less)

lemma require_digest_Ok [result_simps]:
  "require_digest v l = Inr u \<longleftrightarrow> length v = 64 \<and> list_all is_ascii_hexdigit v"
  by (simp add: require_digest_def require_eq_Ok)

end
