(* ===== verification/Agent_Publication.thy ===== *)
theory Agent_Publication
  imports Agent_Protocol "HOL-Library.Char_ord" "HOL-Library.List_Lexorder"
begin

text \<open>
  The durable publication of an agent's result (\<open>publish_result_bundle\<close> and \<open>read_published_result\<close> of
  \<open>agent_protocol.rs\<close>): nine files are copied into a prepared directory beside a manifest of their sizes and digests, and
  the directory is renamed to its final name.  A directory is a list of entries; SHA-256 and the JSON text of the manifest
  are parameters.  Other processes do not write the directories while an operation runs.
\<close>

section \<open>Directories\<close>

record file_entry =
  fe_regular :: bool
  fe_links :: nat
  fe_bytes :: string

text \<open>\<open>di_private\<close>: owned by the effective user with mode 0700 (\<open>verify_private_directory\<close>).\<close>

record directory =
  di_device :: nat
  di_inode :: nat
  di_private :: bool
  di_entries :: "(string \<times> file_entry) list"

text \<open>The directory of a cycle: its files and the directories in it by name.\<close>

record protocol_root =
  pt_self :: directory
  pt_directories :: "(string \<times> directory) list"

record prepared_publication =
  pp_name :: string
  pp_device :: nat
  pp_inode :: nat

definition validate_leaf :: "string \<Rightarrow> unit result" where
  "validate_leaf name =
     require (\<not> (name = [] \<or> CHR ''/'' \<in> set name \<or> name = ''.'' \<or> name = ''..'')) (Bail ''invalid protocol file name'')"

definition verify_private :: "bool \<Rightarrow> string \<Rightarrow> unit result" where
  "verify_private private label = require private (Bail (label @ '' must be an owned mode-0700 real directory''))"

definition open_file_at :: "directory \<Rightarrow> string \<Rightarrow> file_entry result" where
  "open_file_at directory name =
     (case map_of (di_entries directory) name of None \<Rightarrow> Err (Abort ''open protocol file'') | Some f \<Rightarrow> Ok f)"

definition create_file_at :: "directory \<Rightarrow> string \<Rightarrow> string \<Rightarrow> directory result" where
  "create_file_at directory name bytes =
     (if map_of (di_entries directory) name \<noteq> None then Err (Abort ''create protocol file'')
      else Ok (directory\<lparr>di_entries := di_entries directory @ [(name, \<lparr>fe_regular = True, fe_links = 1, fe_bytes = bytes\<rparr>)]\<rparr>))"

text \<open>\<open>renameat\<close> of a directory: the target may be absent or an empty directory.\<close>

definition rename_directory :: "protocol_root \<Rightarrow> string \<Rightarrow> string \<Rightarrow> directory \<Rightarrow> protocol_root result" where
  "rename_directory root source target directory =
     (case map_of (pt_directories root) target of
        Some existing \<Rightarrow>
          if di_entries existing = []
          then Ok (root\<lparr>pt_directories := (target, directory) # filter (\<lambda>(n, _). n \<noteq> source \<and> n \<noteq> target) (pt_directories root)\<rparr>)
          else Err (Abort ''publish protocol file'')
      | None \<Rightarrow> Ok (root\<lparr>pt_directories := (target, directory) # filter (\<lambda>(n, _). n \<noteq> source) (pt_directories root)\<rparr>))"

text \<open>A file is written under a temporary name, synchronised and renamed over its final name.\<close>

definition rename_file :: "directory \<Rightarrow> string \<Rightarrow> string \<Rightarrow> directory result" where
  "rename_file directory source target =
     bnd (open_file_at directory source) (\<lambda>file.
     Ok (directory\<lparr>di_entries := (target, file) # filter (\<lambda>(n, _). n \<noteq> source \<and> n \<noteq> target) (di_entries directory)\<rparr>))"

definition atomic_write :: "string \<Rightarrow> directory \<Rightarrow> string \<Rightarrow> string \<Rightarrow> directory result" where
  "atomic_write uuid directory name bytes =
     bnd (verify_private (di_private directory) ''protocol directory'') (\<lambda>_.
     bnd (validate_leaf name) (\<lambda>_.
     let temporary = ''.'' @ name @ ''.tmp-'' @ uuid in
     bnd (create_file_at directory temporary bytes) (\<lambda>directory.
     rename_file directory temporary name)))"

definition read_complete_result :: "directory \<Rightarrow> string \<Rightarrow> 64 word \<Rightarrow> string result" where
  "read_complete_result directory name max_bytes =
     bnd (verify_private (di_private directory) ''protocol directory'') (\<lambda>_.
     bnd (validate_leaf name) (\<lambda>_.
     bnd (open_file_at directory name) (\<lambda>file.
     bnd (require (\<not> (\<not> fe_regular file \<or> fe_links file \<noteq> 1 \<or> length (fe_bytes file) > unat max_bytes))
            (Bail ''agent result must be a bounded single-link regular file'')) (\<lambda>_.
     Ok (fe_bytes file)))))"

text \<open>The prepared directory: \<open>mkdirat\<close> refuses an existing name; its identity is what the file system assigns.\<close>

definition prepare_publication :: "string \<Rightarrow> nat \<times> nat \<Rightarrow> protocol_root \<Rightarrow> (protocol_root \<times> prepared_publication) result" where
  "prepare_publication uuid identity protocol =
     bnd (verify_private (di_private (pt_self protocol)) ''protocol directory'') (\<lambda>_.
     let name = ''.publication-'' @ uuid in
     bnd (validate_leaf name) (\<lambda>_.
     bnd (require (map_of (pt_directories protocol) name = None) (Abort ''create private protocol directory'')) (\<lambda>_.
     Ok (protocol\<lparr>pt_directories := (name, \<lparr>di_device = fst identity, di_inode = snd identity, di_private = True, di_entries = []\<rparr>)
           # pt_directories protocol\<rparr>,
         \<lparr>pp_name = name, pp_device = fst identity, pp_inode = snd identity\<rparr>))))"

section \<open>The manifest\<close>

record published_file =
  pf_size :: nat
  pf_sha256 :: string

text \<open>The files of a manifest are a \<open>BTreeMap\<close>: in the order of their names.\<close>

record publication_manifest =
  pm_version :: nat
  pm_files :: "(string \<times> published_file) list"

record codec =
  cd_sha256 :: "string \<Rightarrow> string"
  cd_to_vec :: "publication_manifest \<Rightarrow> string"
  cd_parse :: "string \<Rightarrow> publication_manifest result"

definition publication_limits :: "64 word \<Rightarrow> 64 word \<Rightarrow> (string \<times> 64 word) list" where
  "publication_limits max_result_bytes max_total_bytes =
     [(''result.json'', max_result_bytes), (''staged.patch'', max_total_bytes), (''staged.paths'', 1024 * 1024),
      (''unstaged.paths'', 1024 * 1024), (''staged.tree'', 129), (''head'', 129), (''refs'', 1024 * 1024),
      (''config'', 1024 * 1024), (''remotes'', 1024 * 1024)]"

definition checked_total :: "nat \<Rightarrow> nat \<Rightarrow> 64 word \<Rightarrow> nat result" where
  "checked_total amount n max_total_bytes =
     (if amount + n \<ge> 2 ^ 64 then Err (Bail ''published result n overflow'')
      else if amount + n > unat max_total_bytes
      then Err (Bail ''published result bundle exceeds configured writable bound'')
      else Ok (amount + n))"

section \<open>Publication\<close>

text \<open>The loop over the files; \<open>maximum + 1\<close> wraps around in a release build.\<close>

fun copy_files :: "(string \<Rightarrow> string) \<Rightarrow> directory \<Rightarrow> 64 word \<Rightarrow> (string \<times> 64 word) list \<Rightarrow> nat \<Rightarrow> directory
    \<Rightarrow> (string \<times> published_file) list \<Rightarrow> (directory \<times> (string \<times> published_file) list) result" where
  "copy_files sha256 export max_total_bytes [] amount publication files = Ok (publication, files)"
| "copy_files sha256 export max_total_bytes ((name, maximum) # rest) amount publication files =
     bnd (open_file_at export name) (\<lambda>source.
     bnd (require (\<not> (\<not> fe_regular source \<or> fe_links source \<noteq> 1 \<or> length (fe_bytes source) > unat maximum))
            (Bail (''staged publication file '' @ name @ '' has invalid identity or size''))) (\<lambda>_.
     bnd (checked_total amount (length (fe_bytes source)) max_total_bytes) (\<lambda>amount.
     let copied = take (unat (maximum + 1)) (fe_bytes source) in
     bnd (create_file_at publication name copied) (\<lambda>publication.
     bnd (require (length copied = length (fe_bytes source))
            (Bail (''staged publication file '' @ name @ '' changed while copying''))) (\<lambda>_.
     copy_files sha256 export max_total_bytes rest amount publication
       (files @ [(name, \<lparr>pf_size = length copied, pf_sha256 = sha256 copied\<rparr>)]))))))"

definition publish_result_bundle ::
    "codec \<Rightarrow> protocol_root \<Rightarrow> prepared_publication \<Rightarrow> directory \<Rightarrow> 64 word \<Rightarrow> 64 word
      \<Rightarrow> (protocol_root \<times> atomic_result_state) result" where
  "publish_result_bundle codec protocol prepared export max_result_bytes max_total_bytes =
     bnd (verify_private (di_private (pt_self protocol)) ''protocol directory'') (\<lambda>_.
     bnd (case map_of (pt_directories protocol) (pp_name prepared) of
            None \<Rightarrow> Err (Bail ''open prepared publication directory'') | Some d \<Rightarrow> Ok d) (\<lambda>publication.
     bnd (verify_private (di_private publication) ''protocol directory'') (\<lambda>_.
     bnd (require (di_device publication = pp_device prepared \<and> di_inode publication = pp_inode prepared)
            (Bail ''prepared publication directory identity changed'')) (\<lambda>_.
     bnd (verify_private (di_private export) ''protocol directory'') (\<lambda>_.
     bnd (copy_files (cd_sha256 codec) export max_total_bytes (publication_limits max_result_bytes max_total_bytes) 0 publication [])
       (\<lambda>(publication, files).
     let manifest_bytes = cd_to_vec codec \<lparr>pm_version = 1, pm_files = sort_key fst files\<rparr> in
     bnd (create_file_at publication ''manifest.json'' manifest_bytes) (\<lambda>publication.
     bnd (rename_directory protocol (pp_name prepared) ''publication'' publication) (\<lambda>protocol.
     bnd (case map_of (pt_directories protocol) ''publication'' of
            None \<Rightarrow> Err (Abort ''open directory component'') | Some d \<Rightarrow> Ok d) (\<lambda>published.
     bnd (require (di_device published = pp_device prepared \<and> di_inode published = pp_inode prepared)
            (Bail ''published result directory identity changed'')) (\<lambda>_.
     Ok (protocol, Complete (pp_device prepared) (pp_inode prepared) (cd_sha256 codec manifest_bytes))))))))))))"

section \<open>Reading\<close>

definition read_bounded_file_at :: "directory \<Rightarrow> string \<Rightarrow> 64 word \<Rightarrow> string result" where
  "read_bounded_file_at directory name max_bytes =
     bnd (open_file_at directory name) (\<lambda>file.
     bnd (require (\<not> (\<not> fe_regular file \<or> fe_links file \<noteq> 1 \<or> length (fe_bytes file) > unat max_bytes))
            (Bail (''published file '' @ name @ '' has invalid identity or size''))) (\<lambda>_.
     Ok (fe_bytes file)))"

fun read_files :: "(string \<Rightarrow> string) \<Rightarrow> directory \<Rightarrow> publication_manifest \<Rightarrow> 64 word \<Rightarrow> (string \<times> 64 word) list \<Rightarrow> nat
    \<Rightarrow> string option \<Rightarrow> string option result" where
  "read_files sha256 publication manifest max_total_bytes [] amount found = Ok found"
| "read_files sha256 publication manifest max_total_bytes ((name, maximum) # rest) amount found =
     bnd (read_bounded_file_at publication name maximum) (\<lambda>bytes.
     bnd (case map_of (pm_files manifest) name of
            None \<Rightarrow> Err (Bail ''result publication manifest is incomplete'') | Some identity \<Rightarrow> Ok identity) (\<lambda>identity.
     bnd (require (\<not> (pf_size identity \<noteq> length bytes \<or> pf_sha256 identity \<noteq> sha256 bytes))
            (Bail (''published file '' @ name @ '' differs from its durable manifest''))) (\<lambda>_.
     bnd (checked_total amount (pf_size identity) max_total_bytes) (\<lambda>amount.
     read_files sha256 publication manifest max_total_bytes rest amount
       (if name = ''result.json'' then Some bytes else found)))))"

definition read_published_result ::
    "codec \<Rightarrow> protocol_root \<Rightarrow> 64 word \<Rightarrow> 64 word \<Rightarrow> (string \<times> atomic_result_state) option result" where
  "read_published_result codec protocol max_result_bytes max_total_bytes =
     bnd (verify_private (di_private (pt_self protocol)) ''protocol directory'') (\<lambda>_.
     (case map_of (pt_directories protocol) ''publication'' of
        None \<Rightarrow> Ok None
      | Some publication \<Rightarrow>
          bnd (verify_private (di_private publication) ''result publication'') (\<lambda>_.
          bnd (read_bounded_file_at publication ''manifest.json'' (64 * 1024)) (\<lambda>manifest_bytes.
          bnd (cd_parse codec manifest_bytes) (\<lambda>manifest.
          bnd (require (pm_version manifest = 1) (Bail ''unsupported result publication manifest version'')) (\<lambda>_.
          let limits = sort_key fst (publication_limits max_result_bytes max_total_bytes) in
          bnd (require (\<not> (length (pm_files manifest) \<noteq> length limits \<or> list_ex (\<lambda>(n, _). n \<notin> fst ` set limits) (pm_files manifest)))
                 (Bail ''result publication manifest has unexpected files'')) (\<lambda>_.
          bnd (read_files (cd_sha256 codec) publication manifest max_total_bytes limits 0 None) (\<lambda>found.
          (case found of
             None \<Rightarrow> Err (Bail ''published result is absent'')
           | Some bytes \<Rightarrow>
               Ok (Some (bytes, Complete (di_device publication) (di_inode publication)
                                  (cd_sha256 codec manifest_bytes))))))))))))"

text \<open>After a restart the total is bounded by a constant instead of the configured number of writable bytes
  (\<open>read_restart_result\<close> of \<open>agent_runner.rs\<close>).\<close>

definition restart_total_bytes :: "64 word" where
  "restart_total_bytes = 64 * 1024 * 1024"

record restart_result =
  rs_input :: agent_input
  rs_input_sha256 :: string
  rs_result :: agent_result
  rs_result_state :: atomic_result_state

definition read_restart_result ::
    "codec \<Rightarrow> (string \<Rightarrow> agent_input result) \<Rightarrow> (string \<Rightarrow> agent_result result) \<Rightarrow> protocol_root \<Rightarrow> 64 word
      \<Rightarrow> restart_result option result" where
  "read_restart_result codec parse_input from_slice protocol max_result_bytes =
     bnd (read_complete_result (pt_self protocol) ''input.json'' max_result_bytes) (\<lambda>input_bytes.
     bnd (parse_input input_bytes) (\<lambda>input.
     bnd (validate_input input) (\<lambda>_.
     bnd (read_published_result codec protocol max_result_bytes restart_total_bytes) (\<lambda>read.
     (case read of
        None \<Rightarrow> Ok None
      | Some (bytes, state) \<Rightarrow>
          bnd (parse_result from_slice bytes input) (\<lambda>result.
          Ok (Some \<lparr>rs_input = input, rs_input_sha256 = cd_sha256 codec input_bytes, rs_result = result,
                    rs_result_state = state\<rparr>)))))))"

section \<open>What is published is read\<close>

text \<open>The bytes of a file, the files of a bundle with the sizes that count toward its total, and its manifest.\<close>

definition content :: "directory \<Rightarrow> string \<Rightarrow> string" where
  "content directory name = (case map_of (di_entries directory) name of None \<Rightarrow> [] | Some f \<Rightarrow> fe_bytes f)"

definition bundle_names :: "string list" where
  "bundle_names = map fst (publication_limits 0 0)"

definition bundle_size :: "directory \<Rightarrow> nat" where
  "bundle_size export = sum_list (map (\<lambda>n. length (content export n)) bundle_names)"

definition described :: "(string \<Rightarrow> string) \<Rightarrow> directory \<Rightarrow> string \<Rightarrow> string \<times> published_file" where
  "described sha256 export n = (n, \<lparr>pf_size = length (content export n), pf_sha256 = sha256 (content export n)\<rparr>)"

definition bundle_manifest :: "codec \<Rightarrow> directory \<Rightarrow> publication_manifest" where
  "bundle_manifest codec export =
     \<lparr>pm_version = 1, pm_files = sort_key fst (map (described (cd_sha256 codec) export) bundle_names)\<rparr>"

lemma checked_total_Ok: "checked_total a n m = Inr t \<longleftrightarrow> t = a + n \<and> a + n \<le> unat m"
  using unsigned_less [of m, where 'a = nat] by (auto simp: checked_total_def)

lemma open_file_Ok [result_simps]: "open_file_at d n = Inr f \<longleftrightarrow> map_of (di_entries d) n = Some f"
  by (simp add: open_file_at_def split: option.splits)

lemma copy_files_Ok:
  assumes "copy_files H export mt lims a pub files = Inr (pub', files')"
  shows "files' = files @ map (described H export \<circ> fst) lims
    \<and> pub' = pub\<lparr>di_entries := di_entries pub @ map (\<lambda>(n, _). (n, \<lparr>fe_regular = True, fe_links = 1, fe_bytes = content export n\<rparr>)) lims\<rparr>
    \<and> (\<forall>(n, m) \<in> set lims. length (content export n) \<le> unat m)
    \<and> (lims \<noteq> [] \<longrightarrow> a + sum_list (map (length \<circ> content export \<circ> fst) lims) \<le> unat mt)
    \<and> (\<forall>n \<in> fst ` set lims. map_of (di_entries pub) n = None) \<and> distinct (map fst lims)"
  using assms
proof (induction lims arbitrary: a pub files)
  case (Cons l lims)
  obtain n m where l: "l = (n, m)" by (cases l)
  obtain f pub1 where f: "map_of (di_entries export) n = Some f" "length (fe_bytes f) \<le> unat m"
    "a + length (fe_bytes f) \<le> unat mt" "create_file_at pub n (take (unat (m + 1)) (fe_bytes f)) = Inr pub1"
    "length (take (unat (m + 1)) (fe_bytes f)) = length (fe_bytes f)"
    and rest: "copy_files H export mt lims (a + length (fe_bytes f)) pub1
        (files @ [(n, \<lparr>pf_size = length (take (unat (m + 1)) (fe_bytes f)), pf_sha256 = H (take (unat (m + 1)) (fe_bytes f))\<rparr>)])
        = Inr (pub', files')"
    using Cons.prems by (auto simp: l bnd_eq_Ok require_eq_Ok checked_total_Ok open_file_Ok Let_def not_less)
  have take: "take (unat (m + 1)) (fe_bytes f) = fe_bytes f" using f(5) by simp
  have c: "content export n = fe_bytes f" using f(1) by (simp add: content_def)
  have pub1: "pub1 = pub\<lparr>di_entries := di_entries pub @ [(n, \<lparr>fe_regular = True, fe_links = 1, fe_bytes = content export n\<rparr>)]\<rparr>"
    and new: "map_of (di_entries pub) n = None"
    using f(4) by (auto simp: create_file_at_def take c split: if_splits)
  note IH = Cons.IH [OF rest [unfolded take]]
  have free: "map_of (di_entries pub) k = None" "k \<noteq> n" if "k \<in> fst ` set lims" for k
    using IH that by (auto simp: pub1 map_of_eq_None_iff)
  show ?case
    using IH f(2,3) new free by (auto simp: l pub1 c described_def)
qed simp

lemma read_files_Ok:
  assumes "\<forall>(n, m) \<in> set lims. map_of (di_entries pub) n = Some \<lparr>fe_regular = True, fe_links = 1, fe_bytes = c n\<rparr>
      \<and> length (c n) \<le> unat m \<and> map_of (pm_files manifest) n = Some \<lparr>pf_size = length (c n), pf_sha256 = H (c n)\<rparr>"
    and "lims \<noteq> [] \<longrightarrow> a + sum_list (map (length \<circ> c \<circ> fst) lims) \<le> unat mt"
  shows "read_files H pub manifest mt lims a found
    = Inr (if ''result.json'' \<in> fst ` set lims then Some (c ''result.json'') else found)"
  using assms
proof (induction lims arbitrary: a found)
  case (Cons l lims)
  obtain n m where l: "l = (n, m)" by (cases l)
  have n: "read_bounded_file_at pub n m = Inr (c n)" "map_of (pm_files manifest) n = Some \<lparr>pf_size = length (c n), pf_sha256 = H (c n)\<rparr>"
    "checked_total a (length (c n)) mt = Inr (a + length (c n))"
    using Cons.prems by (auto simp: l read_bounded_file_at_def bnd_require open_file_at_def checked_total_Ok)
  have "read_files H pub manifest mt lims (a + length (c n)) (if n = ''result.json'' then Some (c n) else found)
    = Inr (if ''result.json'' \<in> fst ` set lims then Some (c ''result.json'') else (if n = ''result.json'' then Some (c n) else found))"
    by (rule Cons.IH) (use Cons.prems in \<open>auto simp: l\<close>)
  then show ?case using n by (auto simp: l bnd_require)
qed simp

lemma read_files_total:
  assumes "read_files H pub manifest mt lims a found = Inr x"
  shows "(lims \<noteq> [] \<longrightarrow> a + sum_list (map (length \<circ> content pub \<circ> fst) lims) \<le> unat mt)
    \<and> (\<forall>n \<in> fst ` set lims. map_of (pm_files manifest) n = Some \<lparr>pf_size = length (content pub n), pf_sha256 = H (content pub n)\<rparr>)
    \<and> x = (if ''result.json'' \<in> fst ` set lims then Some (content pub ''result.json'') else found)"
  using assms
proof (induction lims arbitrary: a found)
  case (Cons l lims)
  obtain n m where l: "l = (n, m)" by (cases l)
  obtain bytes i where b: "read_bounded_file_at pub n m = Inr bytes" "map_of (pm_files manifest) n = Some i"
    "pf_size i = length bytes" "pf_sha256 i = H bytes" "a + length bytes \<le> unat mt"
    and rest: "read_files H pub manifest mt lims (a + length bytes) (if n = ''result.json'' then Some bytes else found) = Inr x"
    using Cons.prems by (auto simp: l bnd_eq_Ok require_eq_Ok checked_total_Ok split: option.splits)
  have c: "bytes = content pub n" using b(1) by (auto simp: read_bounded_file_at_def content_def bnd_eq_Ok open_file_Ok)
  have i: "i = \<lparr>pf_size = length (content pub n), pf_sha256 = H (content pub n)\<rparr>" using b(3,4) by (cases i) (simp add: c)
  show ?case using Cons.IH [OF rest] b(2,5) by (cases "lims = []") (auto simp: l c i add.assoc)
qed simp

end
