(* ===== verification/Agent_Properties.thy ===== *)
theory Agent_Properties
  imports Agent_Publication
begin

text \<open>
  The properties of the agent protocol: which results are accepted, what an accepted question means for the control
  store, and that a published result is read back, unchanged, within the bounds of the reader.
\<close>

section \<open>Accepted results\<close>









section \<open>An example\<close>

definition ax_identity :: exact_effort_identity where
  "ax_identity = \<lparr>xi_effort_id = ''e'', xi_item_id = ''i'', xi_attempt_id = ''a'', xi_cycle_id = ''c1'',
     xi_target_sha = replicate 40 CHR ''1'', xi_source_sha = replicate 40 CHR ''2'', xi_candidate_sha = None\<rparr>"

definition ax_path :: encoded_path where "ax_path = EncodedPath [HexComponent ''4a'']"

definition ax_input :: agent_input where
  "ax_input = \<lparr>ai_version = 2, ai_identity = ax_identity,
     ai_repository = \<lparr>ri_repo_key = ''r'', ri_target_ref = TargetRef ''refs/heads/main'', ri_object_format = Sha1\<rparr>,
     ai_source = RemoteBranch ''b'' (replicate 40 CHR ''2''), ai_landing = DirectLanding, ai_base_sha = replicate 40 CHR ''3'',
     ai_rift = \<lparr>rf_rift_id = ''x'', rf_source_rift_id = ''y'', rf_relative_path = ax_path\<rparr>,
     ai_conflicts = [\<lparr>cf_path = ax_path, cf_base_blob = None, cf_target_blob = None, cf_source_blob = None\<rparr>],
     ai_prior_outcomes = [], ai_validation_evidence = [], ai_instructions = [],
     ai_limits = \<lparr>pl_max_result_bytes = 100, pl_max_text_bytes = 20, pl_max_paths = 2, pl_max_evidence_entries = 1\<rparr>\<rparr>"

definition ax_guidance :: guidance_result where
  "ax_guidance = \<lparr>ge_version = 2, ge_identity = ax_identity, ge_question = ''which?'', ge_affected_contracts = [''api''],
     ge_affected_paths = [ax_path], ge_alternatives = Explicit [''one'', ''two''], ge_evidence = ''seen''\<rparr>"

definition ax_parse :: "string \<Rightarrow> agent_result result" where
  "ax_parse bytes = Ok (GuidanceResult ax_guidance)"

lemma ax_input: "validate_input ax_input = Inr ()"
  by code_simp

lemma ax_guidance: "parse_result ax_parse ''g'' ax_input = Inr (GuidanceResult ax_guidance)"
  by code_simp


section \<open>Publication\<close>

text \<open>The files of a bundle in the order in which they are copied and read.\<close>

lemma bundle_limits: "map fst (publication_limits r t) = bundle_names"
  by (simp add: publication_limits_def bundle_names_def)

lemma bundle_distinct: "distinct bundle_names" "''manifest.json'' \<notin> set bundle_names" "''result.json'' \<in> set bundle_names"
  by (simp_all add: publication_limits_def bundle_names_def)

lemma limits_sum: "sum_list (map (length \<circ> content d \<circ> fst) (sort_key fst (publication_limits r t))) = bundle_size d"
proof -
  have "sum_list (map f (insort_key fst x xs)) = f x + sum_list (map f xs)" for f :: "string \<times> 64 word \<Rightarrow> nat" and x xs
    by (induction xs) auto
  then have "sum_list (map f (sort_key fst xs)) = sum_list (map f xs)" for f :: "string \<times> 64 word \<Rightarrow> nat" and xs
    by (induction xs) auto
  then show ?thesis by (simp add: bundle_size_def bundle_limits [symmetric, of r t] comp_def)
qed

lemma limits_names: "fst ` set (publication_limits r t) = set bundle_names"
  by (metis bundle_limits list.set_map)

lemma publish_Ok:
  assumes "publish_result_bundle codec protocol prepared export mr mt = Inr (protocol', state)"
  shows "\<exists>pub. map_of (pt_directories protocol') ''publication'' = Some pub \<and> di_private pub
    \<and> di_private (pt_self protocol')
    \<and> map_of (di_entries pub) ''manifest.json'' = Some \<lparr>fe_regular = True, fe_links = 1, fe_bytes = cd_to_vec codec (bundle_manifest codec export)\<rparr>
    \<and> (\<forall>n \<in> set bundle_names. map_of (di_entries pub) n = Some \<lparr>fe_regular = True, fe_links = 1, fe_bytes = content export n\<rparr>)
    \<and> (\<forall>(n, m) \<in> set (publication_limits mr mt). length (content export n) \<le> unat m)
    \<and> bundle_size export \<le> unat mt
    \<and> state = Complete (di_device pub) (di_inode pub) (cd_sha256 codec (cd_to_vec codec (bundle_manifest codec export)))"
proof -
  let ?lims = "publication_limits mr mt"
  obtain pub0 pub1 files pub2 published where p:
    "map_of (pt_directories protocol) (pp_name prepared) = Some pub0" "di_private pub0" "di_private (pt_self protocol)"
    "di_device pub0 = pp_device prepared" "di_inode pub0 = pp_inode prepared"
    and c: "copy_files (cd_sha256 codec) export mt ?lims 0 pub0 [] = Inr (pub1, files)"
    and m: "create_file_at pub1 ''manifest.json'' (cd_to_vec codec \<lparr>pm_version = 1, pm_files = sort_key fst files\<rparr>) = Inr pub2"
    and r: "rename_directory protocol (pp_name prepared) ''publication'' pub2 = Inr protocol'"
    and s: "state = Complete (pp_device prepared) (pp_inode prepared) (cd_sha256 codec (cd_to_vec codec \<lparr>pm_version = 1, pm_files = sort_key fst files\<rparr>))"
    using assms
    by (auto simp: publish_result_bundle_def bnd_eq_Ok require_eq_Ok verify_private_def Let_def split: option.splits prod.splits)
  note k = copy_files_Ok [OF c]
  have files: "files = map (described (cd_sha256 codec) export) bundle_names"
    using k by (simp add: bundle_limits [symmetric, of mr mt])
  then have manifest: "\<lparr>pm_version = 1, pm_files = sort_key fst files\<rparr> = bundle_manifest codec export" by (simp add: bundle_manifest_def)
  have entries: "di_entries pub1 = di_entries pub0 @
      map (\<lambda>n. (n, \<lparr>fe_regular = True, fe_links = 1, fe_bytes = content export n\<rparr>)) bundle_names"
    using k by (simp add: bundle_limits [symmetric, of mr mt] case_prod_unfold comp_def)
  have pub2: "di_entries pub2 = di_entries pub1 @ [(''manifest.json'', \<lparr>fe_regular = True, fe_links = 1,
      fe_bytes = cd_to_vec codec (bundle_manifest codec export)\<rparr>)]" "map_of (di_entries pub1) ''manifest.json'' = None"
    "di_private pub2 = di_private pub0" "di_device pub2 = di_device pub0" "di_inode pub2 = di_inode pub0"
    using m [unfolded manifest] k by (auto simp: create_file_at_def split: if_splits)
  have new: "map_of (di_entries pub0) n = None" if "n \<in> set bundle_names" for n
    using k that by (simp add: limits_names)
  have copied: "map_of (map (\<lambda>n. (n, h n)) ns) n = Some (h n)" if "n \<in> set ns" for h :: "string \<Rightarrow> file_entry" and ns n
    using that by (induction ns) auto
  have "map_of (pt_directories protocol') ''publication'' = Some pub2 \<and> pt_self protocol' = pt_self protocol"
    using r by (auto simp: rename_directory_def split: option.splits if_splits)
  moreover have "map_of (di_entries pub2) n = Some \<lparr>fe_regular = True, fe_links = 1, fe_bytes = content export n\<rparr>" if "n \<in> set bundle_names" for n
    using new [OF that] copied [OF that] bundle_distinct(2) that by (auto simp: pub2(1) entries map_add_Some_iff)
  moreover have "map_of (di_entries pub2) ''manifest.json'' = Some \<lparr>fe_regular = True, fe_links = 1, fe_bytes = cd_to_vec codec (bundle_manifest codec export)\<rparr>"
    using pub2(2) by (simp add: pub2(1) map_add_def)
  moreover have "bundle_size export \<le> unat mt"
    using k by (simp add: bundle_size_def bundle_limits [symmetric, of mr mt] comp_def publication_limits_def)
  ultimately show ?thesis using p k s [unfolded manifest] by (intro exI [of _ pub2]) (simp add: pub2)
qed


lemma read_publication:
  assumes "map_of (pt_directories p) ''publication'' = Some pub" "di_private pub" "di_private (pt_self p)"
    and "map_of (di_entries pub) ''manifest.json'' = Some \<lparr>fe_regular = True, fe_links = 1, fe_bytes = mb\<rparr>" "length mb \<le> 64 * 1024"
    and "cd_parse codec mb = Inr m" "pm_version m = 1" "length (pm_files m) = 9" "fst ` set (pm_files m) \<subseteq> set bundle_names"
    and "read_files (cd_sha256 codec) pub m mt (sort_key fst (publication_limits mr mt)) 0 None = Inr (Some bytes)"
  shows "read_published_result codec p mr mt = Inr (Some (bytes, Complete (di_device pub) (di_inode pub) (cd_sha256 codec mb)))"
proof -
  have "length (sort_key fst (publication_limits mr mt)) = 9" by (simp add: publication_limits_def)
  moreover have "\<not> list_ex (\<lambda>(n, _). n \<notin> fst ` set (sort_key fst (publication_limits mr mt))) (pm_files m)"
    using assms(9) by (auto simp: list_ex_iff limits_names)
  ultimately show ?thesis
    using assms by (simp add: read_published_result_def verify_private_def read_bounded_file_at_def open_file_at_def bnd_require Let_def)
qed

lemma manifest_files:
  "length (pm_files (bundle_manifest codec export)) = 9" "fst ` set (pm_files (bundle_manifest codec export)) = set bundle_names"
  "n \<in> set bundle_names \<Longrightarrow> map_of (pm_files (bundle_manifest codec export)) n
     = Some \<lparr>pf_size = length (content export n), pf_sha256 = cd_sha256 codec (content export n)\<rparr>"
proof -
  let ?fs = "map (described (cd_sha256 codec) export) bundle_names"
  have keys: "map fst ?fs = bundle_names" by (simp add: described_def comp_def)
  show "length (pm_files (bundle_manifest codec export)) = 9" by (simp add: bundle_manifest_def bundle_names_def publication_limits_def)
  show "fst ` set (pm_files (bundle_manifest codec export)) = set bundle_names"
    by (simp add: bundle_manifest_def image_image described_def)
  have "distinct (map fst (sort_key fst ?fs))" using bundle_distinct(1) by (simp add: distinct_map inj_on_def described_def)
  then have "map_of (sort_key fst ?fs) = map_of ?fs" using bundle_distinct(1) keys by (simp add: map_of_inject_set)
  then show "n \<in> set bundle_names \<Longrightarrow> map_of (pm_files (bundle_manifest codec export)) n
     = Some \<lparr>pf_size = length (content export n), pf_sha256 = cd_sha256 codec (content export n)\<rparr>"
    using bundle_distinct(1) keys by (simp add: bundle_manifest_def map_of_eq_Some_iff) (auto simp: described_def)
qed


lemma published_is_read:
  assumes "publish_result_bundle codec protocol prepared export max_result max_total = Inr (protocol', state)"
    and "cd_parse codec (cd_to_vec codec (bundle_manifest codec export)) = Inr (bundle_manifest codec export)"
    and "length (cd_to_vec codec (bundle_manifest codec export)) \<le> 64 * 1024"
    and "bundle_size export \<le> unat total_bound" "length (content export ''result.json'') \<le> unat result_bound"
  shows "read_published_result codec protocol' result_bound total_bound = Inr (Some (content export ''result.json'', state))"
proof -
  obtain pub where p: "map_of (pt_directories protocol') ''publication'' = Some pub" "di_private pub" "di_private (pt_self protocol')"
    "map_of (di_entries pub) ''manifest.json'' = Some \<lparr>fe_regular = True, fe_links = 1, fe_bytes = cd_to_vec codec (bundle_manifest codec export)\<rparr>"
    and files: "\<forall>n \<in> set bundle_names. map_of (di_entries pub) n = Some \<lparr>fe_regular = True, fe_links = 1, fe_bytes = content export n\<rparr>"
    and limits: "\<forall>(n, m) \<in> set (publication_limits max_result max_total). length (content export n) \<le> unat m"
    and s: "state = Complete (di_device pub) (di_inode pub) (cd_sha256 codec (cd_to_vec codec (bundle_manifest codec export)))"
    using publish_Ok [OF assms(1)] by blast
  have patch: "length (content export ''staged.patch'') \<le> unat total_bound"
    using assms(4) by (simp add: bundle_size_def bundle_names_def publication_limits_def)
  have "length (content export n) \<le> unat m" if "(n, m) \<in> set (publication_limits result_bound total_bound)" for n m
    using that limits patch assms(5) by (auto simp: publication_limits_def)
  moreover have "n \<in> set bundle_names" if "(n, m) \<in> set (publication_limits result_bound total_bound)" for n m
    using that limits_names by (metis fst_conv image_eqI)
  ultimately have "read_files (cd_sha256 codec) pub (bundle_manifest codec export) total_bound
      (sort_key fst (publication_limits result_bound total_bound)) 0 None
    = Inr (if ''result.json'' \<in> fst ` set (sort_key fst (publication_limits result_bound total_bound))
           then Some (content export ''result.json'') else None)"
    using files manifest_files(3) assms(4)
    by (intro read_files_Ok) (auto simp: limits_sum [unfolded comp_def] comp_def)
  then have "read_files (cd_sha256 codec) pub (bundle_manifest codec export) total_bound
      (sort_key fst (publication_limits result_bound total_bound)) 0 None = Inr (Some (content export ''result.json''))"
    using bundle_distinct(3) by (simp add: limits_names)
  from read_publication [OF p assms(3,2) _ _ _ this] show ?thesis
    using manifest_files(1,2) [of codec export] by (simp add: s bundle_manifest_def)
qed

text \<open>C19: What an agent publishes is read back exactly: when a bundle is published, every reader that bounds the total by at
  least its size and the result by at least its length finds the same bytes of \<open>result.json\<close> and the same durable
  identity.  The parser and printer of the manifest are inverse on this manifest, which fits its own bound.\<close>

theorem publication_roundtrip:
  assumes "publish_result_bundle codec protocol prepared export max_result max_total = Inr (protocol', state)"
    and "cd_parse codec (cd_to_vec codec (bundle_manifest codec export)) = Inr (bundle_manifest codec export)"
    and "length (cd_to_vec codec (bundle_manifest codec export)) \<le> 64 * 1024"
    and "bundle_size export \<le> unat total_bound" "length (content export ''result.json'') \<le> unat result_bound"
  shows "read_published_result codec protocol' result_bound total_bound = Inr (Some (content export ''result.json'', state))"
  using assms by (rule published_is_read)

text \<open>C40: A published result can be lost by a restart: the publication is bounded by the configured number of writable bytes,
  but the reader after a restart by 64 MiB, so a larger bundle is published and then refused, whatever the parsers do.\<close>

theorem large_results_are_lost_by_restarts:
  assumes "publish_result_bundle codec protocol prepared export max_result max_total = Inr (protocol', state)"
    and "bundle_size export > 64 * 1024 * 1024"
  shows "\<not> is_ok (read_restart_result codec parse_input from_slice protocol' max_result)"
proof
  assume "is_ok (read_restart_result codec parse_input from_slice protocol' max_result)"
  then obtain r where r: "read_published_result codec protocol' max_result restart_total_bytes = Inr r"
    by (auto simp: read_restart_result_def)
  obtain pub where p: "map_of (pt_directories protocol') ''publication'' = Some pub"
    and files: "\<forall>n \<in> set bundle_names. map_of (di_entries pub) n = Some \<lparr>fe_regular = True, fe_links = 1, fe_bytes = content export n\<rparr>"
    using publish_Ok [OF assms(1)] by blast
  obtain m x where "read_files (cd_sha256 codec) pub m restart_total_bytes
      (sort_key fst (publication_limits max_result restart_total_bytes)) 0 None = Inr x"
    using r p by (auto simp: read_published_result_def bnd_eq_Ok Let_def)
  then have "bundle_size pub \<le> unat restart_total_bytes"
    using read_files_total [of "cd_sha256 codec" pub m restart_total_bytes] limits_sum
    by (fastforce simp: bundle_size_def bundle_names_def publication_limits_def)
  moreover have "content pub n = content export n" if "n \<in> set bundle_names" for n using files that by (simp add: content_def)
  then have "bundle_size pub = bundle_size export" unfolding bundle_size_def by (intro arg_cong [where f = sum_list] map_cong) auto
  ultimately show False using assms(2) by (simp add: restart_total_bytes_def)
qed

text \<open>C21: The durable identity of a published result authenticates it: two directories, wherever and whenever they are read,
  that give the same digest give the same bytes, if the digest function has no collisions.\<close>

theorem published_results_are_authentic:
  assumes "read_published_result codec p max_result max_total = Inr (Some (bytes, Complete device inode sha))"
    and "read_published_result codec p' max_result' max_total' = Inr (Some (bytes', Complete device' inode' sha))"
    and "\<forall>a b. cd_sha256 codec a = cd_sha256 codec b \<longrightarrow> a = b"
  shows "bytes = bytes'"
proof -
  have d: "\<exists>mb m i. sha = cd_sha256 codec mb \<and> cd_parse codec mb = Inr m \<and> map_of (pm_files m) ''result.json'' = Some i
      \<and> pf_sha256 i = cd_sha256 codec bs"
    if r: "read_published_result codec q mr mt = Inr (Some (bs, Complete dv ino sha))" for q mr mt bs dv ino
  proof -
    obtain pub mb m where m: "sha = cd_sha256 codec mb" "cd_parse codec mb = Inr m"
      and f: "read_files (cd_sha256 codec) pub m mt (sort_key fst (publication_limits mr mt)) 0 None = Inr (Some bs)"
      using r by (auto simp: read_published_result_def bnd_eq_Ok Let_def split: option.splits)
    have "''result.json'' \<in> fst ` set (sort_key fst (publication_limits mr mt))"
      using bundle_distinct(3) limits_names by (simp only: set_sort)
    with read_files_total [OF f] have "map_of (pm_files m) ''result.json''
        = Some \<lparr>pf_size = length (content pub ''result.json''), pf_sha256 = cd_sha256 codec (content pub ''result.json'')\<rparr>"
      "Some bs = Some (content pub ''result.json'')" by (blast, simp only: if_True)
    with m show ?thesis by auto
  qed
  show ?thesis using d [OF assms(1)] d [OF assms(2)] assms(3) by (metis option.inject sum.inject(2))
qed


section \<open>A published bundle\<close>

definition ax_export :: "string \<Rightarrow> directory" where
  "ax_export patch = \<lparr>di_device = 1, di_inode = 2, di_private = True,
     di_entries = map (\<lambda>n. (n, \<lparr>fe_regular = True, fe_links = 1, fe_bytes = if n = ''staged.patch'' then patch else n\<rparr>)) bundle_names\<rparr>"

definition ax_codec :: "string \<Rightarrow> codec" where
  "ax_codec patch = \<lparr>cd_sha256 = id, cd_to_vec = (\<lambda>_. ''m''),
     cd_parse = (\<lambda>_. Ok \<lparr>pm_version = 1, pm_files = sort_key fst (map (described id (ax_export patch)) bundle_names)\<rparr>)\<rparr>"

definition ax_prepared :: prepared_publication where
  "ax_prepared = \<lparr>pp_name = ''.publication-u'', pp_device = 7, pp_inode = 8\<rparr>"

definition ax_root :: "(string \<times> directory) list \<Rightarrow> protocol_root" where
  "ax_root directories = \<lparr>pt_self = \<lparr>di_device = 7, di_inode = 1, di_private = True, di_entries = []\<rparr>, pt_directories = directories\<rparr>"

lemma ax_prepare:
  "prepare_publication ''u'' (7, 8) (ax_root []) = Inr
     (ax_root [(''.publication-u'', \<lparr>di_device = 7, di_inode = 8, di_private = True, di_entries = []\<rparr>)], ax_prepared)"
  by (simp add: prepare_publication_def ax_root_def ax_prepared_def verify_private_def validate_leaf_def Let_def)

abbreviation ax_protocol :: protocol_root where
  "ax_protocol \<equiv> ax_root [(''.publication-u'', \<lparr>di_device = 7, di_inode = 8, di_private = True, di_entries = []\<rparr>)]"

lemma ax_published:
  assumes "length patch < 2 ^ 32"
  shows "\<exists>p. publish_result_bundle (ax_codec patch) ax_protocol ax_prepared (ax_export patch) 100 (2 ^ 33) = Inr (p, Complete 7 8 ''m'')"
proof -
  have "length patch < 4294967296" using assms by simp
  then show ?thesis
    unfolding publish_result_bundle_def publication_limits_def bundle_names_def
    by (simp add: ax_codec_def ax_root_def ax_prepared_def ax_export_def bundle_names_def publication_limits_def verify_private_def
        open_file_at_def checked_total_def create_file_at_def bnd_require rename_directory_def Let_def)
qed


lemma ax_manifest:
  "cd_parse (ax_codec patch) (cd_to_vec (ax_codec patch) (bundle_manifest (ax_codec patch) (ax_export patch)))
    = Inr (bundle_manifest (ax_codec patch) (ax_export patch))"
  "length (cd_to_vec (ax_codec patch) m) \<le> 64 * 1024"
  by (simp_all add: ax_codec_def bundle_manifest_def)

lemma ax_size: "bundle_size (ax_export patch) = length patch + 69"
  by (simp add: bundle_size_def content_def ax_export_def bundle_names_def publication_limits_def)

theorem publication_roundtrip_witness:
  "\<exists>p. publish_result_bundle (ax_codec ''p'') ax_protocol ax_prepared (ax_export ''p'') 100 (2 ^ 33) = Inr (p, Complete 7 8 ''m'')
     \<and> read_published_result (ax_codec ''p'') p 50 1000 = Inr (Some (''result.json'', Complete 7 8 ''m''))"
proof -
  obtain p where p: "publish_result_bundle (ax_codec ''p'') ax_protocol ax_prepared (ax_export ''p'') 100 (2 ^ 33) = Inr (p, Complete 7 8 ''m'')"
    using ax_published [of "''p''"] by auto
  have r: "content (ax_export ''p'') ''result.json'' = ''result.json''"
    by (simp add: content_def ax_export_def bundle_names_def publication_limits_def)
  have "read_published_result (ax_codec ''p'') p 50 1000 = Inr (Some (content (ax_export ''p'') ''result.json'', Complete 7 8 ''m''))"
    by (rule publication_roundtrip [OF p ax_manifest]) (simp_all add: ax_size r)
  with p r show ?thesis by auto
qed

definition ax_patch :: string where
  "ax_patch = replicate (2 ^ 26 + 1) CHR ''x''"

lemma ax_patch_length: "length ax_patch = 2 ^ 26 + 1"
  by (simp only: ax_patch_def length_replicate)

theorem large_results_are_lost_by_restarts_witness:
  "\<exists>p. publish_result_bundle (ax_codec ax_patch) ax_protocol ax_prepared (ax_export ax_patch) 100 (2 ^ 33) = Inr (p, Complete 7 8 ''m'')
     \<and> \<not> is_ok (read_restart_result (ax_codec ax_patch) (\<lambda>_. Ok ax_input) ax_parse p 100)"
proof -
  obtain p where p: "publish_result_bundle (ax_codec ax_patch) ax_protocol ax_prepared (ax_export ax_patch) 100 (2 ^ 33)
      = Inr (p, Complete 7 8 ''m'')"
    using ax_published [of ax_patch] by (auto simp: ax_patch_length)
  have "\<not> is_ok (read_restart_result (ax_codec ax_patch) (\<lambda>_. Ok ax_input) ax_parse p 100)"
    by (rule large_results_are_lost_by_restarts [OF p]) (simp add: ax_size ax_patch_length)
  with p show ?thesis by blast
qed

lemma ax_result: "content (ax_export ''p'') ''result.json'' = ''result.json''"
  by (simp add: content_def ax_export_def bundle_names_def publication_limits_def)

lemma ax_read: "\<exists>p. read_published_result (ax_codec ''p'') p 50 1000 = Inr (Some (''result.json'', Complete 7 8 ''m''))"
proof -
  obtain p where p: "publish_result_bundle (ax_codec ''p'') ax_protocol ax_prepared (ax_export ''p'') 100 (2 ^ 33) = Inr (p, Complete 7 8 ''m'')"
    using ax_published [of "''p''"] by auto
  have "read_published_result (ax_codec ''p'') p 50 1000 = Inr (Some (content (ax_export ''p'') ''result.json'', Complete 7 8 ''m''))"
    by (rule published_is_read [OF p ax_manifest]) (simp_all add: ax_size ax_result)
  then show ?thesis by (auto simp: ax_result)
qed

theorem published_results_are_authentic_witness:
  "\<exists>p. read_published_result (ax_codec ''p'') p 50 1000 = Inr (Some (''result.json'', Complete 7 8 ''m''))
    \<and> (\<forall>p' bytes' dv ino. read_published_result (ax_codec ''p'') p' 50 1000 = Inr (Some (bytes', Complete dv ino ''m'')) \<longrightarrow> bytes' = ''result.json'')"
proof -
  obtain p where p: "read_published_result (ax_codec ''p'') p 50 1000 = Inr (Some (''result.json'', Complete 7 8 ''m''))"
    using ax_read by blast
  have "\<forall>a b. cd_sha256 (ax_codec ''p'') a = cd_sha256 (ax_codec ''p'') b \<longrightarrow> a = b" by (simp add: ax_codec_def)
  from published_results_are_authentic [OF p _ this] p show ?thesis by blast
qed

end
