(* ===== verification/Issue_Backends.thy ===== *)
theory Issue_Backends
  imports Git_Output Actions Repository_Policy "HOL-Library.Char_ord" "HOL-Library.List_Lexorder"
begin

text \<open>
  The issues of a provider (module \<open>issue_backends\<close> of \<open>lib.rs\<close>): how the integrator finds its issue, writes its
  labels, body and comments with the command line clients of GitHub and GitLab, and reads the comments of others.  Parameters:
  the clients (\<open>provider_program\<close> and the bounded execution of a command) and the readers that \<open>serde_json\<close> derives.
\<close>

section \<open>Searching in texts\<close>

text \<open>\<open>str::find\<close>: the texts before and after the first occurrence.\<close>

fun split_text_once :: "string \<Rightarrow> string \<Rightarrow> (string \<times> string) option" where
  "split_text_once m [] = (if m = [] then Some ([], []) else None)"
| "split_text_once m (c # s) =
     (if starts_with (c # s) m then Some ([], drop (length m) (c # s))
      else map_option (\<lambda>(a, b). (c # a, b)) (split_text_once m s))"

lemma split_text_once_Some: "split_text_once m s = Some (a, b) \<Longrightarrow> s = a @ m @ b"
proof (induction s arbitrary: a)
  case (Cons c s)
  show ?case
  proof (cases "starts_with (c # s) m")
    case True
    with Cons.prems have "a = []" "b = drop (length m) (c # s)" by simp_all
    with True show ?thesis by (metis append_Nil append_take_drop_id starts_with_def)
  next
    case False
    with Cons show ?thesis by auto
  qed
qed (simp split: if_splits)

text \<open>The last part of \<open>str::split\<close>, whose matches do not overlap and are found from the left.\<close>

function last_part :: "string \<Rightarrow> string \<Rightarrow> string" where
  "last_part m s =
     (case split_text_once m s of
        Some (_, rest) \<Rightarrow> if m = [] then [] else last_part m rest
      | None \<Rightarrow> s)"
  by pat_completeness auto
termination
  by (relation "measure (\<lambda>(m, s). length s)") (auto dest!: split_text_once_Some)

declare last_part.simps [simp del]

definition join_comma :: "string list \<Rightarrow> string" where
  "join_comma xs = join_with (CHR '','') xs"

section \<open>Projections and views\<close>

record issue_projection =
  ip_title :: string
  ip_labels :: "string list"
  ip_body :: string
  ip_comments :: "string list"

record issue_sync_target =
  it_repo :: string
  it_issue :: "string option"

record issue_sync_result =
  is_issue :: string
  is_url :: string

record issue_answer_comment =
  ia_id :: string
  ia_actor :: "string option"
  ia_body :: string

datatype issue_label = NamedLabel string | TextLabel string

fun label_name :: "issue_label \<Rightarrow> string" where
  "label_name (NamedLabel name) = name"
| "label_name (TextLabel name) = name"

text \<open>The identifier of a comment: a JSON text, a JSON number with its text, or another JSON value.\<close>

datatype json_id = IdText string | IdNumber string | IdOther

record issue_comment =
  im_id :: "json_id option"
  im_body :: string
  im_author :: "string option option"

record issue_view =
  iw_labels :: "issue_label list"
  iw_comments :: "issue_comment list"

record listed_issue =
  li_number :: "nat option"
  li_iid :: "nat option"
  li_body :: "string option"

text \<open>The members that \<open>parse_issue_number\<close> reads of a JSON value: \<open>number\<close> as an integer and \<open>url\<close> as a text.\<close>

record json_reply =
  jr_number :: "int option"
  jr_url :: "string option"

section \<open>Markers\<close>

definition issue_marker :: "string \<Rightarrow> string option" where
  "issue_marker body =
     (case split_text_once ''<!-- iq:'' body of
        None \<Rightarrow> None
      | Some (_, rest) \<Rightarrow> map_option fst (split_text_once '' -->'' (''iq:'' @ rest)))"

definition binding_marker :: "string \<Rightarrow> string option" where
  "binding_marker line =
     (case strip_prefix ''<!-- iq:binding:'' (trim line) of
        None \<Rightarrow> None
      | Some tail \<Rightarrow> map_option (\<lambda>i. ''iq:binding:'' @ i) (strip_suffix '' -->'' tail))"

definition projection_identity_marker :: "string \<Rightarrow> string option" where
  "projection_identity_marker body =
     (case List.map_filter binding_marker (lines_of body) of
        m # _ \<Rightarrow> Some m
      | [] \<Rightarrow> issue_marker body)"

definition comments_missing_from_issue :: "string list \<Rightarrow> issue_comment list \<Rightarrow> string list" where
  "comments_missing_from_issue projection_comments existing_comments =
     (let existing_markers = List.map_filter (\<lambda>c. issue_marker (im_body c)) existing_comments
      in filter (\<lambda>comment. case issue_marker comment of
                   None \<Rightarrow> True | Some marker \<Rightarrow> \<not> list_ex (\<lambda>m. m = marker) existing_markers)
           projection_comments)"

section \<open>Labels\<close>

record managed_label_update =
  lu_add :: "string list"
  lu_remove :: "string list"

text \<open>The differences of two hash sets, sorted.\<close>

definition managed_label_update_new :: "issue_label list \<Rightarrow> string list \<Rightarrow> managed_label_update" where
  "managed_label_update_new existing desired =
     (let names = map label_name existing
      in \<lparr>lu_add = sort (remdups (filter (\<lambda>l. \<not> list_ex (\<lambda>n. n = l) names) desired)),
          lu_remove = sort (remdups (filter (\<lambda>n. \<not> list_ex (\<lambda>l. l = n) desired \<and> starts_with n ''iq:'') names))\<rparr>)"

section \<open>Reading what the clients print\<close>

definition percent_encode_byte :: "char \<Rightarrow> string" where
  "percent_encode_byte c =
     (if is_ascii_alphanumeric c \<or> c \<in> set ''-_.~'' then [c]
      else (let hex = (\<lambda>n. if n < 10 then char_of (48 + n) else char_of (55 + n))
            in [CHR ''%'', hex (byte c div 16), hex (byte c mod 16)]))"

definition percent_encode_path :: "string \<Rightarrow> string" where
  "percent_encode_path value = concat (map percent_encode_byte value)"

definition candidate_number :: "listed_issue \<Rightarrow> string option" where
  "candidate_number candidate =
     map_option decimal_text (case li_number candidate of Some n \<Rightarrow> Some n | None \<Rightarrow> li_iid candidate)"

definition find_exact_issue_candidates :: "listed_issue list \<Rightarrow> string \<Rightarrow> string \<Rightarrow> string option result" where
  "find_exact_issue_candidates candidates marker provider =
     (case List.map_filter candidate_number
             (filter (\<lambda>c. case li_body c of None \<Rightarrow> False | Some body \<Rightarrow> contains_text body marker) candidates) of
        [] \<Rightarrow> Ok None
      | [issue] \<Rightarrow> Ok (Some issue)
      | _ \<Rightarrow> Err (Bail (''multiple '' @ provider @ '' issues contain IQ marker '' @ marker)))"

definition find_exact_issue ::
    "(string \<Rightarrow> listed_issue list result) \<Rightarrow> string \<Rightarrow> string \<Rightarrow> string \<Rightarrow> string option result" where
  "find_exact_issue parse output marker provider =
     (if trim output = [] then Ok None
      else bnd (parse output) (\<lambda>candidates. find_exact_issue_candidates candidates marker provider))"

definition answer_comment :: "string \<Rightarrow> issue_comment \<Rightarrow> issue_answer_comment result" where
  "answer_comment provider comment =
     (case im_id comment of
        None \<Rightarrow> Err (Bail ''provider answer comment has no ID'')
      | Some value \<Rightarrow>
          bnd (case value of
                 IdText s \<Rightarrow> if s \<noteq> [] then Ok s else Err (Bail ''provider answer comment has an invalid ID'')
               | IdNumber s \<Rightarrow> Ok s
               | IdOther \<Rightarrow> Err (Bail ''provider answer comment has an invalid ID'')) (\<lambda>i.
          Ok \<lparr>ia_id = provider @ '':'' @ i,
              ia_actor = (case im_author comment of
                  Some (Some actor) \<Rightarrow> if actor \<noteq> [] then Some actor else None
                | _ \<Rightarrow> None),
              ia_body = im_body comment\<rparr>))"

text \<open>\<open>collect\<close> into a result: the first error, or all the values.\<close>

fun collect_results :: "'a result list \<Rightarrow> 'a list result" where
  "collect_results [] = Ok []"
| "collect_results (r # rs) = bnd r (\<lambda>x. bnd (collect_results rs) (\<lambda>xs. Ok (x # xs)))"

definition issue_answer_comments :: "issue_comment list \<Rightarrow> string \<Rightarrow> issue_answer_comment list result" where
  "issue_answer_comments comments provider =
     collect_results (map (answer_comment provider) (filter (\<lambda>c. \<not> contains_text (im_body c) ''<!-- iq:'') comments))"

text \<open>
  The number that ends the path of an issue.  A reply may hold an address that is read in turn; the texts within a JSON value
  are shorter than its text, so as many rounds as the text has characters are enough.
\<close>

definition issue_number_of_text :: "string \<Rightarrow> string option" where
  "issue_number_of_text output =
     (let trimmed = trim output;
          marker = (if contains_text trimmed ''/-/issues/'' then ''/-/issues/'' else ''/issues/'');
          number = takeWhile is_ascii_digit (last_part marker trimmed)
      in if number = [] then None else Some number)"

fun parse_issue_number_fuel :: "(string \<Rightarrow> json_reply option) \<Rightarrow> nat \<Rightarrow> string \<Rightarrow> string option" where
  "parse_issue_number_fuel json 0 output = None"
| "parse_issue_number_fuel json (Suc n) output =
     (case json output of
        None \<Rightarrow> issue_number_of_text output
      | Some reply \<Rightarrow>
          (case jr_number reply of
             Some number \<Rightarrow> Some (signed_text number)
           | None \<Rightarrow>
               (case jr_url reply of
                  Some url \<Rightarrow> parse_issue_number_fuel json n url
                | None \<Rightarrow> issue_number_of_text output)))"

definition parse_issue_number :: "(string \<Rightarrow> json_reply option) \<Rightarrow> string \<Rightarrow> string option" where
  "parse_issue_number json output = parse_issue_number_fuel json (Suc (length output)) output"

section \<open>Commands\<close>

text \<open>An action outside the database, which changes the world \<open>'w\<close> also when it fails.\<close>

type_synonym ('w, 'a) io = "'w \<Rightarrow> 'a result \<times> 'w"

definition io_bind :: "('w, 'a) io \<Rightarrow> ('a \<Rightarrow> ('w, 'b) io) \<Rightarrow> ('w, 'b) io" where
  "io_bind m f w = (case m w of (Inr x, w') \<Rightarrow> f x w' | (Inl e, w') \<Rightarrow> (Inl e, w'))"

definition io_return :: "'a result \<Rightarrow> ('w, 'a) io" where
  "io_return r w = (r, w)"

fun io_each :: "('a \<Rightarrow> ('w, unit) io) \<Rightarrow> 'a list \<Rightarrow> ('w, unit) io" where
  "io_each f [] = io_return (Ok ())"
| "io_each f (x # xs) = io_bind (f x) (\<lambda>_. io_each f xs)"

record command_reply =
  ro_success :: bool
  ro_stdout :: string
  ro_stderr :: string

record 'w issue_client =
  cl_program :: "provider \<Rightarrow> ('w, string) io"
  cl_output :: "provider \<Rightarrow> string \<Rightarrow> string list \<Rightarrow> ('w, command_reply) io"
  cl_lossy :: "string \<Rightarrow> string"
  cl_view :: "string \<Rightarrow> issue_view result"
  cl_notes :: "string \<Rightarrow> issue_comment list result"
  cl_listed :: "string \<Rightarrow> listed_issue list result"
  cl_pages :: "string \<Rightarrow> listed_issue list list result"
  cl_reply :: "string \<Rightarrow> json_reply option"

definition command_output :: "'w issue_client \<Rightarrow> provider \<Rightarrow> string \<Rightarrow> string list \<Rightarrow> ('w, string) io" where
  "command_output cl provider program args =
     io_bind (cl_output cl provider program args) (\<lambda>output.
     io_return
       (if \<not> ro_success output then Err (Bail (''issue CLI '' @ program @ '' failed: '' @ cl_lossy cl (ro_stderr output)))
        else if \<not> is_utf8 (ro_stdout output) then Err (Bail ''issue CLI stdout is not UTF-8'')
        else Ok (trim (ro_stdout output))))"

definition command_ok :: "'w issue_client \<Rightarrow> provider \<Rightarrow> string \<Rightarrow> string list \<Rightarrow> ('w, unit) io" where
  "command_ok cl provider program args = io_bind (command_output cl provider program args) (\<lambda>_. io_return (Ok ()))"

definition quoted :: "string \<Rightarrow> string" where
  "quoted s = CHR 0x22 # s @ [CHR 0x22]"

definition required_marker :: "issue_projection \<Rightarrow> ('w, string) io" where
  "required_marker projection =
     io_return (case projection_identity_marker (ip_body projection) of
       None \<Rightarrow> Err (Bail ''issue projection is missing a stable IQ marker'') | Some marker \<Rightarrow> Ok marker)"

section \<open>GitHub\<close>

definition github_issue_view :: "'w issue_client \<Rightarrow> string \<Rightarrow> issue_sync_target \<Rightarrow> string \<Rightarrow> ('w, issue_view) io" where
  "github_issue_view cl program target issue =
     io_bind (command_output cl Github program
       [''issue'', ''view'', issue, ''--repo'', it_repo target, ''--json'', ''labels,comments'']) (\<lambda>output.
     io_return (cl_view cl output))"

definition label_args :: "string \<Rightarrow> string \<Rightarrow> managed_label_update \<Rightarrow> string list" where
  "label_args add_flag remove_flag update =
     (if lu_add update = [] then [] else [add_flag, join_comma (lu_add update)])
     @ (if lu_remove update = [] then [] else [remove_flag, join_comma (lu_remove update)])"

definition github_issue_edit ::
    "'w issue_client \<Rightarrow> string \<Rightarrow> issue_sync_target \<Rightarrow> string \<Rightarrow> issue_projection \<Rightarrow> managed_label_update \<Rightarrow> ('w, unit) io" where
  "github_issue_edit cl program target issue projection update =
     command_ok cl Github program
       ([''issue'', ''edit'', issue, ''--repo'', it_repo target, ''--title'', ip_title projection,
         ''--body'', ip_body projection] @ label_args ''--add-label'' ''--remove-label'' update)"

definition github_comment :: "'w issue_client \<Rightarrow> string \<Rightarrow> issue_sync_target \<Rightarrow> string \<Rightarrow> string \<Rightarrow> ('w, unit) io" where
  "github_comment cl program target issue comment =
     command_ok cl Github program [''issue'', ''comment'', issue, ''--repo'', it_repo target, ''--body'', comment]"

definition sync_missing_github_comments ::
    "'w issue_client \<Rightarrow> string \<Rightarrow> issue_sync_target \<Rightarrow> string \<Rightarrow> issue_projection \<Rightarrow> issue_comment list \<Rightarrow> ('w, unit) io" where
  "sync_missing_github_comments cl program target issue projection existing =
     io_each (github_comment cl program target issue) (comments_missing_from_issue (ip_comments projection) existing)"

definition find_github_issue ::
    "'w issue_client \<Rightarrow> string \<Rightarrow> issue_sync_target \<Rightarrow> issue_projection \<Rightarrow> ('w, string option) io" where
  "find_github_issue cl program target projection =
     io_bind (required_marker projection) (\<lambda>marker.
     if starts_with marker ''iq:binding:''
     then
       io_bind (command_output cl Github program
         [''api'', ''repos/'' @ it_repo target @ ''/issues'', ''--method'', ''GET'', ''--raw-field'', ''state=all'',
          ''--raw-field'', ''per_page=100'', ''--paginate'', ''--slurp'']) (\<lambda>output.
       io_bind (io_return (cl_pages cl output)) (\<lambda>pages.
       io_return (find_exact_issue_candidates (concat pages) marker ''GitHub'')))
     else
       io_bind (command_output cl Github program
         [''issue'', ''list'', ''--repo'', it_repo target, ''--state'', ''all'', ''--search'', quoted marker @ '' in:body'',
          ''--json'', ''number,url,body'', ''--limit'', ''10'']) (\<lambda>output.
       io_return (find_exact_issue (cl_listed cl) output marker ''GitHub'')))"

text \<open>The two branches of an issue that exists: its identity is given or found.\<close>

definition github_update_issue ::
    "'w issue_client \<Rightarrow> string \<Rightarrow> issue_sync_target \<Rightarrow> issue_projection \<Rightarrow> string \<Rightarrow> ('w, string) io" where
  "github_update_issue cl program target projection issue =
     io_bind (github_issue_view cl program target issue) (\<lambda>existing.
     io_bind (github_issue_edit cl program target issue projection
                (managed_label_update_new (iw_labels existing) (ip_labels projection))) (\<lambda>_.
     io_bind (sync_missing_github_comments cl program target issue projection (iw_comments existing)) (\<lambda>_.
     io_return (Ok issue))))"

definition github_create_issue ::
    "'w issue_client \<Rightarrow> string \<Rightarrow> issue_sync_target \<Rightarrow> issue_projection \<Rightarrow> ('w, string) io" where
  "github_create_issue cl program target projection =
     io_bind (command_output cl Github program
       ([''issue'', ''create'', ''--repo'', it_repo target, ''--title'', ip_title projection, ''--body'', ip_body projection]
        @ (if ip_labels projection = [] then [] else [''--label'', join_comma (ip_labels projection)]))) (\<lambda>output.
     io_bind (io_return (case parse_issue_number (cl_reply cl) output of
        None \<Rightarrow> Err (Bail ''parse GitHub created issue number'') | Some issue \<Rightarrow> Ok issue)) (\<lambda>issue.
     io_bind (sync_missing_github_comments cl program target issue projection []) (\<lambda>_.
     io_return (Ok issue))))"

definition github_sync_projection ::
    "'w issue_client \<Rightarrow> issue_sync_target \<Rightarrow> issue_projection \<Rightarrow> ('w, issue_sync_result) io" where
  "github_sync_projection cl target projection =
     io_bind (cl_program cl Github) (\<lambda>program.
     io_bind (case it_issue target of
         Some issue \<Rightarrow> github_update_issue cl program target projection issue
       | None \<Rightarrow>
           io_bind (find_github_issue cl program target projection) (\<lambda>found.
           (case found of
              Some issue \<Rightarrow> github_update_issue cl program target projection issue
            | None \<Rightarrow> github_create_issue cl program target projection))) (\<lambda>issue.
     io_return (Ok \<lparr>is_issue = issue, is_url = ''https://github.com/'' @ it_repo target @ ''/issues/'' @ issue\<rparr>)))"

definition required_issue :: "string \<Rightarrow> issue_sync_target \<Rightarrow> ('w, string) io" where
  "required_issue message target = io_return (case it_issue target of None \<Rightarrow> Err (Bail message) | Some issue \<Rightarrow> Ok issue)"

definition github_close :: "'w issue_client \<Rightarrow> issue_sync_target \<Rightarrow> ('w, unit) io" where
  "github_close cl target =
     io_bind (required_issue ''GitHub issue number required'' target) (\<lambda>issue.
     io_bind (cl_program cl Github) (\<lambda>program.
     command_ok cl Github program [''issue'', ''close'', issue, ''--repo'', it_repo target, ''--reason'', ''completed'']))"

definition github_verify_destination :: "'w issue_client \<Rightarrow> string \<Rightarrow> ('w, unit) io" where
  "github_verify_destination cl repo =
     io_bind (cl_program cl Github) (\<lambda>program.
     command_ok cl Github program [''repo'', ''view'', repo, ''--json'', ''nameWithOwner''])"

definition github_answer_comments :: "'w issue_client \<Rightarrow> issue_sync_target \<Rightarrow> ('w, issue_answer_comment list) io" where
  "github_answer_comments cl target =
     io_bind (required_issue ''GitHub issue number required'' target) (\<lambda>issue.
     io_bind (cl_program cl Github) (\<lambda>program.
     io_bind (github_issue_view cl program target issue) (\<lambda>view.
     io_return (issue_answer_comments (iw_comments view) ''GitHub''))))"

section \<open>GitLab\<close>

definition gitlab_issue_notes ::
    "'w issue_client \<Rightarrow> string \<Rightarrow> issue_sync_target \<Rightarrow> string \<Rightarrow> ('w, issue_comment list) io" where
  "gitlab_issue_notes cl program target issue =
     io_bind (command_output cl Gitlab program
       [''api'', ''projects/'' @ percent_encode_path (it_repo target) @ ''/issues/'' @ issue @ ''/notes'', ''--paginate''])
       (\<lambda>output. io_return (if trim output = [] then Ok [] else cl_notes cl output))"

definition gitlab_issue_view :: "'w issue_client \<Rightarrow> string \<Rightarrow> issue_sync_target \<Rightarrow> string \<Rightarrow> ('w, issue_view) io" where
  "gitlab_issue_view cl program target issue =
     io_bind (command_output cl Gitlab program
       [''issue'', ''view'', issue, ''--repo'', it_repo target, ''--output'', ''json'']) (\<lambda>output.
     io_bind (io_return (cl_view cl output)) (\<lambda>view.
     io_bind (gitlab_issue_notes cl program target issue) (\<lambda>notes.
     io_return (Ok (view\<lparr>iw_comments := iw_comments view @ notes\<rparr>)))))"

definition gitlab_issue_update ::
    "'w issue_client \<Rightarrow> string \<Rightarrow> issue_sync_target \<Rightarrow> string \<Rightarrow> issue_projection \<Rightarrow> managed_label_update \<Rightarrow> ('w, unit) io" where
  "gitlab_issue_update cl program target issue projection update =
     command_ok cl Gitlab program
       ([''issue'', ''update'', issue, ''--repo'', it_repo target, ''--title'', ip_title projection,
         ''--description'', ip_body projection] @ label_args ''--label'' ''--unlabel'' update)"

definition gitlab_comment :: "'w issue_client \<Rightarrow> string \<Rightarrow> issue_sync_target \<Rightarrow> string \<Rightarrow> string \<Rightarrow> ('w, unit) io" where
  "gitlab_comment cl program target issue comment =
     command_ok cl Gitlab program [''issue'', ''note'', issue, ''--repo'', it_repo target, ''--message'', comment]"

definition sync_missing_gitlab_comments ::
    "'w issue_client \<Rightarrow> string \<Rightarrow> issue_sync_target \<Rightarrow> string \<Rightarrow> issue_projection \<Rightarrow> issue_comment list \<Rightarrow> ('w, unit) io" where
  "sync_missing_gitlab_comments cl program target issue projection existing =
     io_each (gitlab_comment cl program target issue) (comments_missing_from_issue (ip_comments projection) existing)"

definition find_gitlab_issue ::
    "'w issue_client \<Rightarrow> string \<Rightarrow> issue_sync_target \<Rightarrow> issue_projection \<Rightarrow> ('w, string option) io" where
  "find_gitlab_issue cl program target projection =
     io_bind (required_marker projection) (\<lambda>marker.
     io_bind (command_output cl Gitlab program
       (if starts_with marker ''iq:binding:''
        then [''api'', ''projects/'' @ percent_encode_path (it_repo target) @ ''/issues'', ''--paginate'']
        else [''issue'', ''list'', ''--repo'', it_repo target, ''--all'', ''--search'', marker, ''--in'', ''description'',
              ''--output'', ''json''])) (\<lambda>output.
     io_return (find_exact_issue (cl_listed cl) output marker ''GitLab'')))"

definition gitlab_update_issue ::
    "'w issue_client \<Rightarrow> string \<Rightarrow> issue_sync_target \<Rightarrow> issue_projection \<Rightarrow> string \<Rightarrow> ('w, string) io" where
  "gitlab_update_issue cl program target projection issue =
     io_bind (gitlab_issue_view cl program target issue) (\<lambda>existing.
     io_bind (gitlab_issue_update cl program target issue projection
                (managed_label_update_new (iw_labels existing) (ip_labels projection))) (\<lambda>_.
     io_bind (sync_missing_gitlab_comments cl program target issue projection (iw_comments existing)) (\<lambda>_.
     io_return (Ok issue))))"

definition gitlab_create_issue ::
    "'w issue_client \<Rightarrow> string \<Rightarrow> issue_sync_target \<Rightarrow> issue_projection \<Rightarrow> ('w, string) io" where
  "gitlab_create_issue cl program target projection =
     io_bind (command_output cl Gitlab program
       ([''issue'', ''create'', ''--repo'', it_repo target, ''--title'', ip_title projection,
         ''--description'', ip_body projection]
        @ (if ip_labels projection = [] then [] else [''--label'', join_comma (ip_labels projection)]))) (\<lambda>output.
     io_bind (io_return (case parse_issue_number (cl_reply cl) output of
        None \<Rightarrow> Err (Bail ''parse GitLab created issue number'') | Some issue \<Rightarrow> Ok issue)) (\<lambda>issue.
     io_bind (sync_missing_gitlab_comments cl program target issue projection []) (\<lambda>_.
     io_return (Ok issue))))"

definition gitlab_sync_projection ::
    "'w issue_client \<Rightarrow> issue_sync_target \<Rightarrow> issue_projection \<Rightarrow> ('w, issue_sync_result) io" where
  "gitlab_sync_projection cl target projection =
     io_bind (cl_program cl Gitlab) (\<lambda>program.
     io_bind (case it_issue target of
         Some issue \<Rightarrow> gitlab_update_issue cl program target projection issue
       | None \<Rightarrow>
           io_bind (find_gitlab_issue cl program target projection) (\<lambda>found.
           (case found of
              Some issue \<Rightarrow> gitlab_update_issue cl program target projection issue
            | None \<Rightarrow> gitlab_create_issue cl program target projection))) (\<lambda>issue.
     io_return (Ok \<lparr>is_issue = issue, is_url = ''https://gitlab.com/'' @ it_repo target @ ''/-/issues/'' @ issue\<rparr>)))"

definition gitlab_close :: "'w issue_client \<Rightarrow> issue_sync_target \<Rightarrow> ('w, unit) io" where
  "gitlab_close cl target =
     io_bind (required_issue ''GitLab issue number required'' target) (\<lambda>issue.
     io_bind (cl_program cl Gitlab) (\<lambda>program.
     command_ok cl Gitlab program [''issue'', ''close'', issue, ''--repo'', it_repo target]))"

definition gitlab_verify_destination :: "'w issue_client \<Rightarrow> string \<Rightarrow> ('w, unit) io" where
  "gitlab_verify_destination cl repo =
     io_bind (cl_program cl Gitlab) (\<lambda>program.
     command_ok cl Gitlab program [''repo'', ''view'', repo, ''--output'', ''json''])"

definition gitlab_answer_comments :: "'w issue_client \<Rightarrow> issue_sync_target \<Rightarrow> ('w, issue_answer_comment list) io" where
  "gitlab_answer_comments cl target =
     io_bind (required_issue ''GitLab issue number required'' target) (\<lambda>issue.
     io_bind (cl_program cl Gitlab) (\<lambda>program.
     io_bind (gitlab_issue_notes cl program target issue) (\<lambda>notes.
     io_return (issue_answer_comments notes ''GitLab''))))"

section \<open>The adapter of a provider\<close>

definition sync_projection :: "'w issue_client \<Rightarrow> provider \<Rightarrow> issue_sync_target \<Rightarrow> issue_projection \<Rightarrow> ('w, issue_sync_result) io" where
  "sync_projection cl provider = (case provider of Github \<Rightarrow> github_sync_projection cl | Gitlab \<Rightarrow> gitlab_sync_projection cl)"

definition close_issue :: "'w issue_client \<Rightarrow> provider \<Rightarrow> issue_sync_target \<Rightarrow> ('w, unit) io" where
  "close_issue cl provider = (case provider of Github \<Rightarrow> github_close cl | Gitlab \<Rightarrow> gitlab_close cl)"

definition verify_destination :: "'w issue_client \<Rightarrow> provider \<Rightarrow> string \<Rightarrow> ('w, unit) io" where
  "verify_destination cl provider =
     (case provider of Github \<Rightarrow> github_verify_destination cl | Gitlab \<Rightarrow> gitlab_verify_destination cl)"

definition answer_comments :: "'w issue_client \<Rightarrow> provider \<Rightarrow> issue_sync_target \<Rightarrow> ('w, issue_answer_comment list) io" where
  "answer_comments cl provider =
     (case provider of Github \<Rightarrow> github_answer_comments cl | Gitlab \<Rightarrow> gitlab_answer_comments cl)"

end
