(* ===== verification/Projection_Store.thy ===== *)
theory Projection_Store
  imports Store_Blockers Queue_Lifecycle Notifications
begin

text \<open>
  What \<open>control_store.rs\<close> keeps for the state repositories: the reading of efforts and events, the reservation of an issue
  before an effort exists, the receipts of projections, the debts of projections that failed with their alerts, and the
  receipts of comments that no command answers.
\<close>

section \<open>Reading\<close>

definition read_effort :: "effort \<Rightarrow> effort result" where
  "read_effort e = bnd (validate_for_count (ef_state e) (ef_failed_cycles e)) (\<lambda>_. Ok e)"

definition effort_for_item :: "string \<Rightarrow> db \<Rightarrow> effort option result" where
  "effort_for_item item_id d =
     (case find (\<lambda>e. ef_item_id e = item_id) (efforts d) of
        None \<Rightarrow> Ok None
      | Some e \<Rightarrow> bnd (read_effort e) (\<lambda>e. Ok (Some e)))"

fun read_efforts :: "effort list \<Rightarrow> effort list result" where
  "read_efforts [] = Ok []"
| "read_efforts (e # es) = bnd (read_effort e) (\<lambda>e. bnd (read_efforts es) (\<lambda>es. Ok (e # es)))"

definition terminal_state :: "integration_effort_state \<Rightarrow> bool" where
  "terminal_state s \<longleftrightarrow> (case s of Integrated _ \<Rightarrow> True | Cancelled _ \<Rightarrow> True | _ \<Rightarrow> False)"

definition inbox :: "nat \<Rightarrow> db \<Rightarrow> effort list result" where
  "inbox limit d =
     (if \<not> (1 \<le> limit \<and> limit \<le> 1000) then Err (Bail ''inbox limit must be from 1 through 1000'')
      else read_efforts (take limit (sort_key (\<lambda>e. (ef_created_at e, ef_id e))
             (filter (\<lambda>e. \<not> terminal_state (ef_state e)) (efforts d)))))"

definition events_after :: "nat \<Rightarrow> nat \<Rightarrow> db \<Rightarrow> event list result" where
  "events_after cursor limit d =
     (if \<not> (1 \<le> limit \<and> limit \<le> 10000) then Err (Bail ''event limit must be from 1 through 10000'')
      else
        bnd (case sort (map ev_sequence (events d)) of
               [] \<Rightarrow> Ok ()
             | oldest # _ \<Rightarrow> require (\<not> (cursor \<noteq> 0 \<and> cursor + 1 < oldest)) (Bail (''cursor_expired:'' @ decimal_text oldest))) (\<lambda>_.
        Ok (take limit (sort_key ev_sequence (filter (\<lambda>v. ev_sequence v > cursor) (events d))))))"

definition effort_events_after :: "string \<Rightarrow> nat \<Rightarrow> nat \<Rightarrow> db \<Rightarrow> event list result" where
  "effort_events_after effort_id cursor limit d =
     (if \<not> (1 \<le> limit \<and> limit \<le> 10000) then Err (Bail ''effort event limit must be from 1 through 10000'')
      else Ok (take limit (sort_key ev_sequence
             (filter (\<lambda>v. ev_effort_id v = Some effort_id \<and> ev_sequence v > cursor) (events d)))))"

definition oldest_event_sequence :: "db \<Rightarrow> nat option" where
  "oldest_event_sequence d = (case sort (map ev_sequence (events d)) of [] \<Rightarrow> None | oldest # _ \<Rightarrow> Some oldest)"

definition repository_artifact :: "string \<Rightarrow> db \<Rightarrow> artifact option" where
  "repository_artifact effort_id d = find (\<lambda>a. sr_effort_id a = effort_id) (artifacts d)"

section \<open>Reservations\<close>

fun snapshot_provider :: "state_repository_snapshot \<Rightarrow> string option" where
  "snapshot_provider Local = None"
| "snapshot_provider (GithubIssue _) = Some ''github''"
| "snapshot_provider (GitlabIssue _) = Some ''gitlab''"

definition full_visibility :: "state_repository_snapshot \<Rightarrow> bool" where
  "full_visibility snapshot \<longleftrightarrow>
     (case snapshot_issue snapshot of None \<Rightarrow> False | Some issue \<Rightarrow> irs_visibility issue = Full)"

definition item_repository_reservation :: "string \<Rightarrow> db \<Rightarrow> reservation option" where
  "item_repository_reservation item_id d = find (\<lambda>r. rz_item_id r = item_id) (reservations d)"

definition item_state_repository_binding :: "string \<Rightarrow> db \<Rightarrow> state_repository_snapshot result" where
  "item_state_repository_binding item_id d =
     bnd (fetch (\<lambda>b. sr_item_id b = item_id) (bindings d) (NoRow ''item_state_repository_bindings''))
       (\<lambda>b. snapshot_validate (sr_snapshot b))"

definition pending_issue_reservations :: "nat \<Rightarrow> db \<Rightarrow> string list result" where
  "pending_issue_reservations limit d =
     (if \<not> (1 \<le> limit \<and> limit \<le> 1000) then Err (Bail ''reservation work limit must be from 1 through 1000'')
      else Ok (take limit (map sr_item_id (sort_key (\<lambda>b. (sr_bound_at b, sr_item_id b))
             (filter (\<lambda>b. full_visibility (sr_snapshot b) \<and> sr_reservation_state b = ReservationPending) (bindings d))))))"

text \<open>The columns \<open>provider\<close> and \<open>repository\<close> of a binding repeat its snapshot and are null for a local one.\<close>

definition record_item_repository_reservation ::
    "string \<Rightarrow> string \<Rightarrow> string \<Rightarrow> string \<Rightarrow> string \<Rightarrow> string \<Rightarrow> db \<Rightarrow> db result" where
  "record_item_repository_reservation now item_id provider repository artifact_id artifact_url d =
     bnd (fetch (\<lambda>b. sr_item_id b = item_id) (bindings d) (NoRow ''item_state_repository_bindings'')) (\<lambda>b.
     (case (snapshot_provider (sr_snapshot b), snapshot_issue (sr_snapshot b)) of
        (Some p, Some issue) \<Rightarrow>
          bnd (require (p = provider \<and> irs_repository issue = repository \<and> sr_reservation_state b = ReservationPending)
                 (Bail ''issue reservation result differs from immutable enqueue intent'')) (\<lambda>_.
          bnd (require (\<not> list_ex (\<lambda>r. rz_item_id r = item_id) (reservations d))
                 (Abort ''UNIQUE constraint failed: item_state_repository_reservations'')) (\<lambda>_.
          bnd (require (list_ex (\<lambda>i. qi_id i = item_id) (queue_items d)) (Abort ''FOREIGN KEY constraint failed'')) (\<lambda>_.
          Ok (d\<lparr>reservations := reservations d @
                [\<lparr>rz_item_id = item_id, rz_provider = provider, rz_repository = repository, rz_artifact_id = artifact_id,
                  rz_artifact_url = artifact_url, rz_created_at = now\<rparr>],
              bindings := modify (\<lambda>b. sr_item_id b = item_id \<and> sr_reservation_state b = ReservationPending)
                (\<lambda>b. b\<lparr>sr_reservation_state := Reserved\<rparr>) (bindings d)\<rparr>))))
      | _ \<Rightarrow> Err (Abort ''Invalid column type Null'')))"

section \<open>Projections\<close>

record projection_receipt =
  pr_effort_id :: string
  pr_provider :: string
  pr_repository :: string
  pr_artifact_id :: string
  pr_artifact_url :: string
  pr_last_event_sequence :: nat
  pr_closed :: bool

text \<open>The upsert: an artifact that exists is updated when the receipt names the same one.\<close>

definition artifact_matches :: "projection_receipt \<Rightarrow> artifact \<Rightarrow> bool" where
  "artifact_matches receipt a \<longleftrightarrow>
     sr_provider a = pr_provider receipt \<and> sr_repository a = pr_repository receipt \<and> sr_artifact_id a = pr_artifact_id receipt"

definition projected_artifact :: "string \<Rightarrow> projection_receipt \<Rightarrow> artifact \<Rightarrow> artifact" where
  "projected_artifact now receipt a =
     a\<lparr>sr_artifact_id := pr_artifact_id receipt, sr_artifact_url := pr_artifact_url receipt,
       sr_projection_revision := sr_projection_revision a + 1, sr_last_event_sequence := pr_last_event_sequence receipt,
       sr_state := (if pr_closed receipt then ''closed'' else ''active''), sr_updated_at := now\<rparr>"

definition new_artifact :: "string \<Rightarrow> projection_receipt \<Rightarrow> artifact" where
  "new_artifact now receipt =
     \<lparr>sr_effort_id = pr_effort_id receipt, sr_provider = pr_provider receipt, sr_repository = pr_repository receipt,
      sr_artifact_id = pr_artifact_id receipt, sr_artifact_url = pr_artifact_url receipt, sr_projection_revision = 1,
      sr_last_event_sequence = pr_last_event_sequence receipt,
      sr_state = (if pr_closed receipt then ''closed'' else ''active''), sr_created_at = now, sr_updated_at = now\<rparr>"

definition upsert_artifact :: "string \<Rightarrow> projection_receipt \<Rightarrow> db \<Rightarrow> (db \<times> nat) result" where
  "upsert_artifact now receipt d =
     (if \<not> (pr_provider receipt = ''github'' \<or> pr_provider receipt = ''gitlab'')
      then Err (Abort ''CHECK constraint failed: state_repository_artifacts'')
      else case find (\<lambda>a. sr_effort_id a = pr_effort_id receipt) (artifacts d) of
        None \<Rightarrow>
          if list_ex (\<lambda>e. ef_id e = pr_effort_id receipt) (efforts d)
          then Ok (d\<lparr>artifacts := artifacts d @ [new_artifact now receipt]\<rparr>, 1)
          else Err (Abort ''FOREIGN KEY constraint failed'')
      | Some a \<Rightarrow>
          if artifact_matches receipt a
          then Ok (d\<lparr>artifacts := modify (\<lambda>a. sr_effort_id a = pr_effort_id receipt) (projected_artifact now receipt) (artifacts d)\<rparr>, 1)
          else Ok (d, 0))"

text \<open>Deleting a debt deletes its alert.\<close>

definition delete_projection_debt :: "string \<Rightarrow> db \<Rightarrow> db" where
  "delete_projection_debt effort_id d =
     d\<lparr>projection_debts := remove_rows (\<lambda>b. pb_effort_id b = effort_id) (projection_debts d),
       projection_alerts := remove_rows (\<lambda>a. pa_effort_id a = effort_id) (projection_alerts d)\<rparr>"

definition record_repository_projection :: "string \<Rightarrow> projection_receipt \<Rightarrow> db \<Rightarrow> db result" where
  "record_repository_projection now receipt d =
     bnd (upsert_artifact now receipt d) (\<lambda>(d, changed).
     bnd (require (changed = 1) (Bail ''projection receipt differs from immutable repository artifact identity'')) (\<lambda>_.
     Ok (delete_projection_debt (pr_effort_id receipt) d)))"

text \<open>The events that a projection of minimal visibility is due for.\<close>

definition relevant_type :: "string \<Rightarrow> bool" where
  "relevant_type t \<longleftrightarrow>
     t \<in> {''answer_applied'', ''review_required'', ''candidate_review_approved'', ''candidate_changes_requested'',
          ''cycle_limit_retry_authorized'', ''infrastructure_retry_authorized'', ''provider_retry_authorized'',
          ''provider_reconciliation_resumed''}"

definition debt_of :: "string \<Rightarrow> db \<Rightarrow> projection_debt option" where
  "debt_of effort_id d = find (\<lambda>b. pb_effort_id b = effort_id) (projection_debts d)"

definition awaits_projection :: "string \<Rightarrow> db \<Rightarrow> effort \<Rightarrow> bool" where
  "awaits_projection now d e \<longleftrightarrow>
     (let full = full_visibility (ef_state_repository e)
      in ef_state_repository e \<noteq> Local
         \<and> (case debt_of (ef_id e) d of
              Some debt \<Rightarrow> pb_attempt_count debt < 10 \<and> pb_next_attempt_at debt \<le> now
            | None \<Rightarrow>
                (case repository_artifact (ef_id e) d of
                   None \<Rightarrow> full \<or> state_blocker (ef_state e) \<noteq> None \<or> state_name (ef_state e) = ''review_required''
                 | Some a \<Rightarrow>
                     list_ex (\<lambda>v. ev_effort_id v = Some (ef_id e) \<and> ev_sequence v > sr_last_event_sequence a
                       \<and> (full \<or> ev_alert v \<or> relevant_type (ev_type v) \<or> terminal_state (ef_state e))) (events d)
                     \<or> (terminal_state (ef_state e) \<and> sr_state a \<noteq> ''closed''))))"

definition projection_items :: "string \<Rightarrow> nat \<Rightarrow> db \<Rightarrow> string list result" where
  "projection_items now limit d =
     (if \<not> (1 \<le> limit \<and> limit \<le> 1000) then Err (Bail ''projection item limit must be from 1 through 1000'')
      else Ok (take limit (map ef_item_id (sort_key (\<lambda>e. (ef_created_at e, ef_id e))
             (filter (awaits_projection now d) (efforts d))))))"

section \<open>Debts of projections\<close>

definition projection_attempt :: "nat \<Rightarrow> nat" where
  "projection_attempt prior = min (prior + 1) 10"

definition projection_backoff :: "nat \<Rightarrow> nat" where
  "projection_backoff attempt_count = min (30 * 2 ^ min (attempt_count - 1) 7) 3600"

definition upsert_projection_debt :: "string \<Rightarrow> string \<Rightarrow> nat \<Rightarrow> string \<Rightarrow> string \<Rightarrow> db \<Rightarrow> db result" where
  "upsert_projection_debt now effort_id attempt_count next_attempt_at detail d =
     (if list_ex (\<lambda>b. pb_effort_id b = effort_id) (projection_debts d)
      then Ok (d\<lparr>projection_debts := modify (\<lambda>b. pb_effort_id b = effort_id)
             (\<lambda>b. b\<lparr>pb_attempt_count := attempt_count, pb_next_attempt_at := next_attempt_at, pb_last_error := detail,
                    pb_updated_at := now\<rparr>) (projection_debts d)\<rparr>)
      else if list_ex (\<lambda>e. ef_id e = effort_id) (efforts d)
      then Ok (d\<lparr>projection_debts := projection_debts d @
             [\<lparr>pb_effort_id = effort_id, pb_attempt_count = attempt_count, pb_next_attempt_at = next_attempt_at,
               pb_last_error = detail, pb_created_at = now, pb_updated_at = now\<rparr>]\<rparr>)
      else Err (Abort ''FOREIGN KEY constraint failed''))"

text \<open>\<open>later\<close> prints the time that is a number of seconds after now.\<close>

definition record_projection_debt :: "string \<Rightarrow> (nat \<Rightarrow> string) \<Rightarrow> string \<Rightarrow> string \<Rightarrow> string \<Rightarrow> db \<Rightarrow> db result" where
  "record_projection_debt now later uuid effort_id detail d =
     (let prior = (case debt_of effort_id d of None \<Rightarrow> 0 | Some b \<Rightarrow> pb_attempt_count b);
          attempt_count = projection_attempt prior; backoff = projection_backoff attempt_count in
      bnd (upsert_projection_debt now effort_id attempt_count (later backoff) detail d) (\<lambda>d.
      bnd (required_effort effort_id d) (\<lambda>e.
      append_event now uuid e ''projection_debt''
        (PayloadFields [(''attempt_count'', FNumber attempt_count), (''next_attempt_seconds'', FNumber backoff),
           (''detail'', FText detail)]) False d)))"

definition exhausted_debt :: "string \<Rightarrow> db \<Rightarrow> projection_debt \<Rightarrow> bool" where
  "exhausted_debt cutoff d b \<longleftrightarrow>
     pb_attempt_count b \<ge> 10 \<and> pb_created_at b \<le> cutoff \<and> list_ex (\<lambda>e. ef_id e = pb_effort_id b) (efforts d)
     \<and> \<not> list_ex (\<lambda>a. pa_effort_id a = pb_effort_id b) (projection_alerts d)"

definition exhausted_debts :: "string \<Rightarrow> db \<Rightarrow> projection_debt list" where
  "exhausted_debts cutoff d =
     take 1000 (sort_key (\<lambda>b. (pb_created_at b, pb_effort_id b)) (filter (exhausted_debt cutoff d) (projection_debts d)))"

definition alert_debt :: "string \<Rightarrow> string \<Rightarrow> projection_debt \<Rightarrow> db \<Rightarrow> db result" where
  "alert_debt now event_id b d =
     bnd (fetch (\<lambda>e. ef_id e = pb_effort_id b) (efforts d) (NoRow ''integration_efforts'')) (\<lambda>e.
     bnd (append_event_with_id now event_id e ''projection_debt_exhausted''
            (PayloadFields [(''error'', FProjectionError (pb_last_error b))]) True d) (\<lambda>d.
     bnd (require (\<not> list_ex (\<lambda>a. pa_effort_id a = pb_effort_id b \<or> pa_event_id a = event_id) (projection_alerts d))
            (Abort ''UNIQUE constraint failed: projection_debt_alerts'')) (\<lambda>_.
     Ok (d\<lparr>projection_alerts := projection_alerts d @
            [\<lparr>pa_effort_id = pb_effort_id b, pa_event_id = event_id, pa_created_at = now\<rparr>]\<rparr>))))"

fun alert_debts :: "string \<Rightarrow> (nat \<Rightarrow> string) \<Rightarrow> projection_debt list \<Rightarrow> db \<Rightarrow> db result" where
  "alert_debts now uuid [] d = Ok d"
| "alert_debts now uuid (b # bs) d = bnd (alert_debt now (uuid 0) b d) (alert_debts now (\<lambda>n. uuid (Suc n)) bs)"

text \<open>\<open>earlier\<close> prints the time that is a duration before now, when it can be represented.\<close>

definition alert_exhausted_projection_debt ::
    "string \<Rightarrow> (int \<Rightarrow> string result) \<Rightarrow> (nat \<Rightarrow> string) \<Rightarrow> 64 word \<Rightarrow> db \<Rightarrow> (db \<times> nat) result" where
  "alert_exhausted_projection_debt now earlier uuid age_seconds d =
     bnd (require (age_seconds \<noteq> 0) (Bail ''projection debt alert age must be non-zero'')) (\<lambda>_.
     bnd (require (uint age_seconds < 2 ^ 63) (Bail ''out of range integral type conversion attempted'')) (\<lambda>_.
     bnd (duration_seconds (uint age_seconds)) (\<lambda>age.
     bnd (earlier age) (\<lambda>cutoff.
     let rows = exhausted_debts cutoff d in
     bnd (alert_debts now uuid rows d) (\<lambda>d. Ok (d, length rows))))))"

section \<open>Comments of a provider\<close>

definition validate_provider_comment_identity :: "string \<Rightarrow> string \<Rightarrow> string \<Rightarrow> string \<Rightarrow> unit result" where
  "validate_provider_comment_identity provider repository artifact_id comment_id =
     bnd (require (provider = ''github'' \<or> provider = ''gitlab'') (Bail ''provider comment has an unknown provider'')) (\<lambda>_.
     for_each (\<lambda>(value, maximum, label).
         bnd (require_exact_text value label) (\<lambda>_.
         require (length value \<le> maximum) (Bail (''provider comment '' @ label @ '' exceeds its bound''))))
       [(repository, 512, ''repository''), (artifact_id, 128, ''artifact ID''), (comment_id, 256, ''comment ID'')])"

definition provider_comment_key :: "string \<Rightarrow> string \<Rightarrow> string \<Rightarrow> string \<Rightarrow> string result" where
  "provider_comment_key provider repository artifact_id comment_id =
     bnd (validate_provider_comment_identity provider repository artifact_id comment_id) (\<lambda>_.
     Ok (''provider:'' @ provider @ '':'' @ repository @ '':'' @ artifact_id @ '':'' @ comment_id))"

definition provider_comment_seen :: "string \<Rightarrow> string \<Rightarrow> string \<Rightarrow> string \<Rightarrow> db \<Rightarrow> bool result" where
  "provider_comment_seen provider repository artifact_id comment_id d =
     bnd (provider_comment_key provider repository artifact_id comment_id) (\<lambda>key.
     Ok (list_ex (\<lambda>r. ax_external_id r = key) (answer_receipts d)
         \<or> list_ex (\<lambda>r. rx_external_id r = key) (review_receipts d)
         \<or> list_ex (\<lambda>r. pc_provider r = provider \<and> pc_repository r = repository \<and> pc_artifact_id r = artifact_id
             \<and> pc_comment_id r = comment_id) (comment_receipts d)))"

definition record_provider_comment_receipt :: "comment_receipt \<Rightarrow> db \<Rightarrow> db result" where
  "record_provider_comment_receipt r d =
     bnd (validate_provider_comment_identity (pc_provider r) (pc_repository r) (pc_artifact_id r) (pc_comment_id r)) (\<lambda>_.
     if list_ex (\<lambda>x. pc_provider x = pc_provider r \<and> pc_repository x = pc_repository r \<and> pc_artifact_id x = pc_artifact_id r
          \<and> pc_comment_id x = pc_comment_id r) (comment_receipts d)
     then Ok d
     else if list_ex (\<lambda>e. ef_id e = pc_effort_id r) (efforts d)
     then Ok (d\<lparr>comment_receipts := comment_receipts d @ [r]\<rparr>)
     else Err (Abort ''FOREIGN KEY constraint failed''))"

end
