(* ===== verification/State_Repository.thy ===== *)
theory State_Repository
  imports Issue_Backends Projection_Store
begin

text \<open>
  The projection of efforts onto the issues of a provider and the ingestion of the comments on them
  (\<open>state_repository.rs\<close>), and the cycle of the daemon that runs them (\<open>main.rs\<close>).  Every operation alternates
  transactions of the control store with commands of a provider's client; what was committed before a failure stays.
  Parameters: the clock and identifiers of the notifier, the clients, and the printing and reading of JSON.
\<close>

section \<open>Parameters\<close>

record provider_answer =
  pv_version :: nat
  pv_request_id :: string
  pv_effort_id :: string
  pv_attempt_id :: string
  pv_cycle_id :: string
  pv_target_sha :: string
  pv_source_sha :: string
  pv_candidate_sha :: "string option"
  pv_answer :: string

datatype provider_review_decision = PrApprove | PrRequestChanges

record provider_review =
  pw_version :: nat
  pw_review_id :: string
  pw_effort_id :: string
  pw_attempt_id :: string
  pw_cycle_id :: string
  pw_target_ref :: target_ref
  pw_target_sha :: string
  pw_source_sha :: string
  pw_candidate_sha :: string
  pw_decision :: provider_review_decision
  pw_text :: "string option"

datatype provider_response = ResponseAnswer provider_answer | ResponseReview provider_review

fun response_version :: "provider_response \<Rightarrow> nat" where
  "response_version (ResponseAnswer response) = pv_version response"
| "response_version (ResponseReview response) = pw_version response"

definition review_decision_of :: "provider_review \<Rightarrow> review_decision option" where
  "review_decision_of review =
     (case (pw_decision review, pw_text review) of
        (PrApprove, text) \<Rightarrow> Some (Approve text)
      | (PrRequestChanges, Some text) \<Rightarrow> Some (RequestChanges text)
      | (PrRequestChanges, None) \<Rightarrow> None)"

text \<open>\<open>so_json\<close> prints the object of a state, which may fail, \<open>so_payload\<close> that of an event, \<open>so_response\<close> reads a comment,
  \<open>so_uid\<close> is the effective user of the daemon, and \<open>so_instant\<close> tells the instants that a date can represent.\<close>

record 'w state_ops =
  so_notifier :: "'w notifier"
  so_client :: "'w issue_client"
  so_json :: "effort \<Rightarrow> string result"
  so_payload :: "event_payload \<Rightarrow> string"
  so_response :: "string \<Rightarrow> provider_response option"
  so_uid :: nat
  so_instant :: "int \<Rightarrow> bool"

definition so_io :: "('w, 'a) io \<Rightarrow> ('w, 'a) act" where
  "so_io m = act_world m"

section \<open>Projection\<close>

record repository_artifact_id =
  ra_id :: string
  ra_url :: string

text \<open>The adapter of a snapshot: none for the local repository.\<close>

fun snapshot_adapter :: "state_repository_snapshot \<Rightarrow> (provider \<times> issue_repository_snapshot) option" where
  "snapshot_adapter Local = None"
| "snapshot_adapter (GithubIssue issue) = Some (Github, issue)"
| "snapshot_adapter (GitlabIssue issue) = Some (Gitlab, issue)"

definition verify :: "'w state_ops \<Rightarrow> state_repository_snapshot \<Rightarrow> ('w, unit) act" where
  "verify so snapshot =
     (case snapshot_adapter snapshot of
        None \<Rightarrow> act_return (Ok ())
      | Some (provider, issue) \<Rightarrow> so_io (verify_destination (so_client so) provider (irs_repository issue)))"

definition relevant_event :: "issue_visibility \<Rightarrow> event \<Rightarrow> bool" where
  "relevant_event visibility v \<longleftrightarrow>
     visibility = Full \<or> ev_alert v
     \<or> ev_type v \<in> {''answer_applied'', ''review_required'', ''candidate_review_approved'', ''candidate_changes_requested'',
          ''cycle_limit_retry_authorized'', ''infrastructure_retry_authorized'', ''provider_retry_authorized'',
          ''provider_reconciliation_resumed'', ''integrated'', ''cancelled''}"

definition event_comment :: "'w state_ops \<Rightarrow> event \<Rightarrow> string" where
  "event_comment so v =
     ''<!-- iq:event:'' @ ev_id v @ '' -->'' @ [newline] @ ''**'' @ ev_type v @ ''**'' @ [newline] @ ''```json'' @ [newline]
     @ so_payload so (ev_payload v) @ [newline] @ ''```''"

definition effort_projection :: "'w state_ops \<Rightarrow> effort \<Rightarrow> event list \<Rightarrow> string \<Rightarrow> issue_projection" where
  "effort_projection so e relevant state =
     \<lparr>ip_title = ''IQ integration item '' @ ef_item_id e,
      ip_labels = [''iq:queue'', ''iq:status:'' @ state_name (ef_state e)],
      ip_body = ''<!-- iq:item:'' @ ef_item_id e @ '' -->'' @ [newline] @ ''```json'' @ [newline] @ state @ [newline] @ ''```'',
      ip_comments = map (event_comment so) relevant\<rparr>"

definition project ::
    "'w state_ops \<Rightarrow> effort \<Rightarrow> event list \<Rightarrow> string option \<Rightarrow> ('w, repository_artifact_id option) act" where
  "project so e evs artifact =
     (case snapshot_adapter (ef_state_repository e) of
        None \<Rightarrow> act_return (Ok None)
      | Some (provider, issue) \<Rightarrow>
          let relevant = filter (relevant_event (irs_visibility issue)) evs in
          if irs_visibility issue = Minimal \<and> state_blocker (ef_state e) = None \<and> \<not> is_provider_input_state (ef_state e)
             \<and> artifact = None
          then act_return (Ok None)
          else if irs_visibility issue = Minimal \<and> relevant = [] then act_return (Ok None)
          else
            act_bind (act_return (so_json so e)) (\<lambda>state.
            act_bind (so_io (sync_projection (so_client so) provider
                \<lparr>it_repo = irs_repository issue, it_issue = artifact\<rparr> (effort_projection so e relevant state))) (\<lambda>result.
            act_return (Ok (Some \<lparr>ra_id = is_issue result, ra_url = is_url result\<rparr>)))))"

definition close_artifact :: "'w state_ops \<Rightarrow> state_repository_snapshot \<Rightarrow> repository_artifact_id \<Rightarrow> ('w, unit) act" where
  "close_artifact so snapshot artifact =
     (case snapshot_adapter snapshot of
        None \<Rightarrow> act_return (Err (Bail ''local state repository has no external artifact''))
      | Some (provider, issue) \<Rightarrow>
          so_io (close_issue (so_client so) provider \<lparr>it_repo = irs_repository issue, it_issue = Some (ra_id artifact)\<rparr>))"

text \<open>The closure of \<open>project_item\<close>: its failure is a debt.\<close>

definition project_outside ::
    "'w state_ops \<Rightarrow> effort \<Rightarrow> event list \<Rightarrow> string option \<Rightarrow> ('w, repository_artifact_id option) act" where
  "project_outside so e evs artifact =
     act_bind (verify so (ef_state_repository e)) (\<lambda>_.
     act_bind (project so e evs artifact) (\<lambda>projected.
     act_bind (case projected of
         Some p \<Rightarrow> if terminal_state (ef_state e) then close_artifact so (ef_state_repository e) p else act_return (Ok ())
       | None \<Rightarrow> act_return (Ok ())) (\<lambda>_.
     act_return (Ok projected))))"

definition stamped :: "'w state_ops \<Rightarrow> (int \<Rightarrow> string \<Rightarrow> ('w, 'a) act) \<Rightarrow> ('w, 'a) act" where
  "stamped so f =
     act_bind (notifier_clock (so_notifier so)) (\<lambda>t.
     act_bind (notifier_uuid (so_notifier so)) (\<lambda>uuid. f t uuid))"

definition act_projection_debt :: "'w state_ops \<Rightarrow> string \<Rightarrow> error \<Rightarrow> ('w, unit) act" where
  "act_projection_debt so effort_id e =
     stamped so (\<lambda>t uuid.
       act_commit (record_projection_debt (nt_rfc3339 (so_notifier so) t)
         (\<lambda>n. nt_rfc3339 (so_notifier so) (t + int n * 1000000000)) uuid effort_id (error_text e)))"

definition last_sequence :: "nat \<Rightarrow> event list \<Rightarrow> nat" where
  "last_sequence cursor evs = (if evs = [] then cursor else ev_sequence (last evs))"

definition project_item :: "'w state_ops \<Rightarrow> string \<Rightarrow> ('w, unit) act" where
  "project_item so item_id =
     act_bind (act_read (effort_for_item item_id)) (\<lambda>found.
     (case found of
        None \<Rightarrow> act_return (Err (Bail (''item has no integration effort: '' @ item_id)))
      | Some e \<Rightarrow>
          act_bind (act_read (\<lambda>d. Ok (repository_artifact (ef_id e) d))) (\<lambda>stored.
          let cursor = (case stored of None \<Rightarrow> 0 | Some a \<Rightarrow> sr_last_event_sequence a) in
          act_bind (act_read (effort_events_after (ef_id e) cursor 10000)) (\<lambda>evs.
          act_bind (act_try (project_outside so e evs (map_option sr_artifact_id stored))) (\<lambda>projection.
          (case projection of
             Inl error \<Rightarrow>
               act_bind (act_projection_debt so (ef_id e) error) (\<lambda>_. act_return (Err error))
           | Inr None \<Rightarrow> act_return (Ok ())
           | Inr (Some projected) \<Rightarrow>
               (case (snapshot_provider (ef_state_repository e), snapshot_issue (ef_state_repository e)) of
                  (Some provider, Some issue) \<Rightarrow>
                    act_bind (notifier_stamp (so_notifier so)) (\<lambda>now.
                    act_commit (record_repository_projection now
                      \<lparr>pr_effort_id = ef_id e, pr_provider = provider, pr_repository = irs_repository issue,
                       pr_artifact_id = ra_id projected, pr_artifact_url = ra_url projected,
                       pr_last_event_sequence = last_sequence cursor evs, pr_closed = terminal_state (ef_state e)\<rparr>))
                | _ \<Rightarrow> act_return (Err (Bail ''local projection has no artifact'')))))))))"

section \<open>Reservation\<close>

definition reservation_projection :: "string \<Rightarrow> issue_projection" where
  "reservation_projection item_id =
     \<lparr>ip_title = ''IQ integration item '' @ item_id,
      ip_labels = [''iq:queue'', ''iq:status:ready''],
      ip_body = ''<!-- iq:item:'' @ item_id @ '' -->'' @ [newline] @ ''```json'' @ [newline] @ ''{'' @ quoted ''item_id'' @ '':''
        @ quoted item_id @ '','' @ quoted ''state'' @ '':'' @ quoted ''enqueued'' @ ''}'' @ [newline] @ ''```'',
      ip_comments = [''<!-- iq:event:enqueued-'' @ item_id @ '' -->'' @ [newline] @ ''**enqueued**'']\<rparr>"

definition reserve_full_issue :: "'w state_ops \<Rightarrow> string \<Rightarrow> ('w, unit) act" where
  "reserve_full_issue so item_id =
     act_bind (act_read (item_state_repository_binding item_id)) (\<lambda>snapshot.
     (case (snapshot_adapter snapshot, snapshot_provider snapshot) of
        (Some (provider, issue), Some provider_name) \<Rightarrow>
          if irs_visibility issue \<noteq> Full then act_return (Ok ())
          else
            act_bind (act_read (\<lambda>d. Ok (item_repository_reservation item_id d))) (\<lambda>reserved.
            if reserved \<noteq> None then act_return (Ok ())
            else
              act_bind (so_io (verify_destination (so_client so) provider (irs_repository issue))) (\<lambda>_.
              act_bind (so_io (sync_projection (so_client so) provider
                  \<lparr>it_repo = irs_repository issue, it_issue = None\<rparr> (reservation_projection item_id))) (\<lambda>artifact.
              act_bind (notifier_stamp (so_notifier so)) (\<lambda>now.
              act_commit (record_item_repository_reservation now item_id provider_name (irs_repository issue)
                (is_issue artifact) (is_url artifact))))))
      | _ \<Rightarrow> act_return (Ok ())))"

fun reserve_issues :: "'w state_ops \<Rightarrow> string list \<Rightarrow> ('w, unit) act" where
  "reserve_issues so [] = act_return (Ok ())"
| "reserve_issues so (i # items) = act_bind (reserve_full_issue so i) (\<lambda>_. reserve_issues so items)"

definition process_issue_reservation_outbox :: "'w state_ops \<Rightarrow> nat \<Rightarrow> ('w, nat) act" where
  "process_issue_reservation_outbox so limit =
     act_bind (act_read (pending_issue_reservations limit)) (\<lambda>items.
     act_bind (reserve_issues so items) (\<lambda>_.
     act_return (Ok (length items))))"

section \<open>Ingestion\<close>

record comment_source =
  cs_provider :: string
  cs_repository :: string
  cs_artifact_id :: string
  cs_effort_id :: string

definition comment_receipt_of ::
    "string \<Rightarrow> comment_source \<Rightarrow> string \<Rightarrow> string option \<Rightarrow> string \<Rightarrow> string \<Rightarrow> comment_receipt" where
  "comment_receipt_of now src comment_id actor body disposition =
     \<lparr>pc_provider = cs_provider src, pc_repository = cs_repository src, pc_artifact_id = cs_artifact_id src,
      pc_comment_id = comment_id, pc_effort_id = cs_effort_id src, pc_actor = actor, pc_body = body,
      pc_disposition = disposition, pc_created_at = now\<rparr>"

definition malformed_comment ::
    "'w state_ops \<Rightarrow> comment_source \<Rightarrow> issue_answer_comment \<Rightarrow> string option \<Rightarrow> string \<Rightarrow> ('w, answer_disposition) act" where
  "malformed_comment so src comment actor disposition =
     act_bind (notifier_stamp (so_notifier so)) (\<lambda>now.
     act_bind (act_commit (record_provider_comment_receipt
         (comment_receipt_of now src (ia_id comment) actor (ia_body comment) disposition))) (\<lambda>_.
     act_return (Ok Malformed)))"

definition act_store :: "(db \<Rightarrow> (db \<times> 'a) result) \<Rightarrow> ('w, 'a) act" where
  "act_store f s = (case f (snd s) of Inr (d, x) \<Rightarrow> (Inr x, (fst s, d)) | Inl e \<Rightarrow> (Inl e, s))"

definition answer_of :: "string \<Rightarrow> provider_answer \<Rightarrow> answer_command" where
  "answer_of external_id a =
     \<lparr>ac_external_id = external_id, ac_request_id = pv_request_id a, ac_effort_id = pv_effort_id a,
      ac_attempt_id = pv_attempt_id a, ac_cycle_id = pv_cycle_id a, ac_target_sha = pv_target_sha a,
      ac_source_sha = pv_source_sha a, ac_candidate_sha = pv_candidate_sha a, ac_answer = pv_answer a\<rparr>"

definition review_of :: "string \<Rightarrow> provider_review \<Rightarrow> review_decision \<Rightarrow> review_command" where
  "review_of external_id r decision =
     \<lparr>rm_external_id = external_id, rm_review_id = pw_review_id r, rm_effort_id = pw_effort_id r,
      rm_attempt_id = pw_attempt_id r, rm_cycle_id = pw_cycle_id r, rm_target_ref = pw_target_ref r,
      rm_target_sha = pw_target_sha r, rm_source_sha = pw_source_sha r, rm_candidate_sha = pw_candidate_sha r,
      rm_decision = decision\<rparr>"

text \<open>One comment that has not been seen.\<close>

definition ingest_comment :: "'w state_ops \<Rightarrow> comment_source \<Rightarrow> issue_answer_comment \<Rightarrow> ('w, answer_disposition) act" where
  "ingest_comment so src comment =
     (case ia_actor comment of
        None \<Rightarrow> malformed_comment so src comment None ''malformed''
      | Some actor \<Rightarrow>
          (case so_response so (ia_body comment) of
             None \<Rightarrow> malformed_comment so src comment (Some actor) ''malformed''
           | Some response \<Rightarrow>
               if response_version response \<noteq> 1 then malformed_comment so src comment (Some actor) ''unknown''
               else
                 act_bind (act_return (provider_comment_key (cs_provider src) (cs_repository src) (cs_artifact_id src)
                     (ia_id comment))) (\<lambda>external_id.
                 (case response of
                    ResponseAnswer a \<Rightarrow>
                      stamped so (\<lambda>t uuid. act_store (answer_for_effort (nt_rfc3339 (so_notifier so) t) uuid
                        (answer_of external_id a) (cs_effort_id src) (ProviderActor actor) (so_uid so)))
                  | ResponseReview r \<Rightarrow>
                      (case review_decision_of r of
                         None \<Rightarrow> malformed_comment so src comment (Some actor) ''malformed''
                       | Some decision \<Rightarrow>
                           act_bind (stamped so (\<lambda>t uuid. act_store (review_candidate_for_effort
                             (nt_rfc3339 (so_notifier so) t) uuid (review_of external_id r decision) (cs_effort_id src)
                             (ProviderActor actor) (so_uid so)))) (\<lambda>receipt.
                           act_return (Ok (rt_disposition receipt))))))))"

fun ingest_comments :: "'w state_ops \<Rightarrow> comment_source \<Rightarrow> issue_answer_comment list \<Rightarrow> ('w, answer_disposition list) act" where
  "ingest_comments so src [] = act_return (Ok [])"
| "ingest_comments so src (comment # comments) =
     act_bind (act_read (provider_comment_seen (cs_provider src) (cs_repository src) (cs_artifact_id src) (ia_id comment))) (\<lambda>seen.
     if seen then ingest_comments so src comments
     else
       act_bind (ingest_comment so src comment) (\<lambda>disposition.
       act_bind (ingest_comments so src comments) (\<lambda>dispositions.
       act_return (Ok (disposition # dispositions)))))"

definition ingest_answers :: "'w state_ops \<Rightarrow> string \<Rightarrow> ('w, answer_disposition list) act" where
  "ingest_answers so item_id =
     act_bind (act_read (effort_for_item item_id)) (\<lambda>found.
     (case found of
        None \<Rightarrow> act_return (Err (Bail (''item has no integration effort: '' @ item_id)))
      | Some e \<Rightarrow>
          act_bind (act_read (\<lambda>d. case repository_artifact (ef_id e) d of
              None \<Rightarrow> Err (Bail ''issue state repository has no projected artifact'') | Some a \<Rightarrow> Ok a)) (\<lambda>stored.
          (case (snapshot_adapter (ef_state_repository e), snapshot_provider (ef_state_repository e)) of
             (Some (provider, issue), Some provider_name) \<Rightarrow>
               if sr_repository stored \<noteq> irs_repository issue
               then act_return (Err (Bail ''stored issue artifact differs from effort repository snapshot''))
               else
                 act_bind (so_io (answer_comments (so_client so) provider
                     \<lparr>it_repo = sr_repository stored, it_issue = Some (sr_artifact_id stored)\<rparr>)) (\<lambda>comments.
                 ingest_comments so
                   \<lparr>cs_provider = provider_name, cs_repository = sr_repository stored, cs_artifact_id = sr_artifact_id stored,
                    cs_effort_id = ef_id e\<rparr> comments)
           | _ \<Rightarrow> act_return (Ok [])))))"

section \<open>A cycle of the daemon\<close>

text \<open>Failures of single items are printed and dropped.\<close>

fun act_drop_each :: "('a \<Rightarrow> ('w, 'b) act) \<Rightarrow> 'a list \<Rightarrow> ('w, unit) act" where
  "act_drop_each f [] = act_return (Ok ())"
| "act_drop_each f (x # xs) = act_bind (act_try (f x)) (\<lambda>_. act_drop_each f xs)"

definition project_due_items :: "'w state_ops \<Rightarrow> ('w, unit) act" where
  "project_due_items so =
     act_bind (notifier_stamp (so_notifier so)) (\<lambda>now.
     act_bind (act_read (projection_items now 1000)) (\<lambda>items.
     act_drop_each (project_item so) items))"

text \<open>The fresh identifiers of a transaction are drawn before it, one for each row it may alert.\<close>

fun fresh_ids :: "'w state_ops \<Rightarrow> nat \<Rightarrow> ('w, string list) act" where
  "fresh_ids so 0 = act_return (Ok [])"
| "fresh_ids so (Suc n) =
     act_bind (notifier_uuid (so_notifier so)) (\<lambda>i. act_bind (fresh_ids so n) (\<lambda>ids. act_return (Ok (i # ids))))"

definition earlier_stamp :: "'w state_ops \<Rightarrow> int \<Rightarrow> int \<Rightarrow> string result" where
  "earlier_stamp so t age =
     (if so_instant so (t - age) then Ok (nt_rfc3339 (so_notifier so) (t - age))
      else Err (Bail ''`DateTime - TimeDelta` overflowed''))"

definition act_alert_exhausted :: "'w state_ops \<Rightarrow> 64 word \<Rightarrow> ('w, nat) act" where
  "act_alert_exhausted so age_seconds =
     act_bind (notifier_clock (so_notifier so)) (\<lambda>t.
     act_bind (act_read (\<lambda>d. Ok (length (projection_debts d)))) (\<lambda>n.
     act_bind (fresh_ids so n) (\<lambda>ids.
     act_store (alert_exhausted_projection_debt (nt_rfc3339 (so_notifier so) t) (earlier_stamp so t) ((!) ids) age_seconds))))"

text \<open>The closure \<open>cycle\<close> of the daemon's loop; \<open>run_once\<close> is the integrator's pass and \<open>dispatch\<close> the loop over deliveries.\<close>

definition daemon_cycle ::
    "'w state_ops \<Rightarrow> notification_config \<Rightarrow> ('w, 'a) act \<Rightarrow> ('w, unit) act \<Rightarrow> ('w, 'a) act" where
  "daemon_cycle so config run_once dispatch =
     act_bind (process_issue_reservation_outbox so 1000) (\<lambda>_.
     act_bind (act_read (inbox 1000)) (\<lambda>found.
     act_bind (act_drop_each (\<lambda>e. ingest_answers so (ef_item_id e)) found) (\<lambda>_.
     act_bind (project_due_items so) (\<lambda>_.
     act_bind (act_alert_exhausted so (nc_projection_debt_alert_seconds config)) (\<lambda>_.
     act_bind run_once (\<lambda>result.
     act_bind (project_due_items so) (\<lambda>_.
     act_bind dispatch (\<lambda>_.
     act_return (Ok result)))))))))"

end
