(* ===== verification/Act_Runs.thy ===== *)
theory Act_Runs
  imports Actions
begin

text \<open>
  What an operation that alternates transactions with commands does to the database, whether it succeeds or fails.  A
  reflexive and transitive relation that every transaction of an operation keeps holds between the databases before and after
  the operation; the locale has one rule for each way of composing actions.
\<close>

locale act_relation =
  fixes R :: "db \<Rightarrow> db \<Rightarrow> bool"
  assumes R_refl: "R d d"
    and R_trans: "R a b \<Longrightarrow> R b c \<Longrightarrow> R a c"
begin

definition within :: "('w, 'a) act \<Rightarrow> bool" where
  "within m \<longleftrightarrow> (\<forall>s r s'. m s = (r, s') \<longrightarrow> R (snd s) (snd s'))"

lemma withinD: "within m \<Longrightarrow> m s = (r, s') \<Longrightarrow> R (snd s) (snd s')"
  unfolding within_def by blast

lemma within_bind:
  assumes "within m" "\<And>x. within (f x)"
  shows "within (act_bind m f)"
  unfolding within_def
proof (intro allI impI)
  fix s r s' assume b: "act_bind m f s = (r, s')"
  obtain y s1 where m: "m s = (y, s1)" by (cases "m s")
  have "R (snd s) (snd s1)" by (rule withinD [OF assms(1) m])
  moreover have "R (snd s1) (snd s')"
  proof (cases y)
    case (Inl e)
    with b m show ?thesis by (simp add: act_bind_def R_refl)
  next
    case (Inr x)
    with b m have "f x s1 = (r, s')" by (simp add: act_bind_def)
    then show ?thesis by (rule withinD [OF assms(2)])
  qed
  ultimately show "R (snd s) (snd s')" by (rule R_trans)
qed

lemma within_try: "within m \<Longrightarrow> within (act_try m)"
  by (auto simp: within_def act_try_def split: prod.splits)

lemma within_outside: "within (act_return r)" "within (act_read g)" "within (act_check h)" "within (act_world k)"
  by (auto simp: within_def act_return_def act_read_def act_check_def act_world_def R_refl split: prod.splits)

lemma within_commit: "(\<And>d d'. f d = Inr d' \<Longrightarrow> R d d') \<Longrightarrow> within (act_commit f)"
  by (auto simp: within_def act_commit_def R_refl split: sum.splits)

lemma within_if: "(b \<Longrightarrow> within m) \<Longrightarrow> (\<not> b \<Longrightarrow> within m') \<Longrightarrow> within (if b then m else m')"
  by simp

lemma within_option: "(x = None \<Longrightarrow> within m) \<Longrightarrow> (\<And>y. x = Some y \<Longrightarrow> within (f y)) \<Longrightarrow> within (case x of None \<Rightarrow> m | Some y \<Rightarrow> f y)"
  by (cases x) simp_all

lemma within_sum: "(\<And>e. x = Inl e \<Longrightarrow> within (f e)) \<Longrightarrow> (\<And>y. x = Inr y \<Longrightarrow> within (g y)) \<Longrightarrow> within (case x of Inl e \<Rightarrow> f e | Inr y \<Rightarrow> g y)"
  by (cases x) simp_all

lemma within_pair: "(\<And>a b. x = (a, b) \<Longrightarrow> within (f a b)) \<Longrightarrow> within (case x of (a, b) \<Rightarrow> f a b)"
  by (cases x) simp

lemmas within_control = within_bind within_try within_outside within_if within_option within_sum within_pair

end

end
