(* ===== verification/State_Repository_Runs.thy ===== *)
theory State_Repository_Runs
  imports State_Repository Store_Runs Act_Runs
begin

text \<open>
  What projections, reservations and the ingestion of comments do to the control store: projections and reservations leave
  the efforts alone, ingestion is a run of the store's requests in which only the responders of an issue can change its
  effort, and every comment that was handled stays known.
\<close>

section \<open>Transactions\<close>

lemma record_projection_core: "record_repository_projection now receipt d = Inr d' \<Longrightarrow> same_core d d'"
  by (auto simp: record_repository_projection_def upsert_artifact_def delete_projection_debt_def same_core_def bnd_eq_Ok
      split: option.splits if_splits)

lemma record_reservation_core:
  assumes "record_item_repository_reservation now i p r a u d = Inr d'"
  shows "same_core d d'"
proof -
  obtain b where "fetch (\<lambda>b. sr_item_id b = i) (bindings d) (NoRow ''item_state_repository_bindings'') = Inr b"
    using assms by (auto simp: record_item_repository_reservation_def bnd_eq_Ok)
  with assms show ?thesis
    by (cases "sr_snapshot b") (auto simp: record_item_repository_reservation_def same_core_def bnd_eq_Ok)
qed

lemma record_debt_core:
  assumes "record_projection_debt now later uuid i detail d = Inr d'"
  shows "same_core d d'"
proof -
  from assms obtain n v d1 e p where u: "upsert_projection_debt now i n v detail d = Inr d1"
    and a: "append_event now uuid e ''projection_debt'' p False d1 = Inr d'"
    by (auto simp: record_projection_debt_def Let_def bnd_eq_Ok)
  from u have "same_core d d1" by (auto simp: upsert_projection_debt_def same_core_def split: if_splits)
  with append_event_core [OF a] show ?thesis by (blast intro: same_core_trans)
qed

lemma alert_debts_core: "alert_debts now uuid bs d = Inr d' \<Longrightarrow> same_core d d'"
proof (induction bs arbitrary: uuid d)
  case (Cons b bs)
  then obtain e d1 d2 where a: "append_event_with_id now (uuid 0) e ''projection_debt_exhausted''
        (PayloadFields [(''error'', FProjectionError (pb_last_error b))]) True d = Inr d1"
    and d2: "same_core d1 d2" "same_core d2 d'"
    by (fastforce simp: alert_debt_def bnd_eq_Ok same_core_def)
  with append_event_with_id_core [OF a] show ?case by (blast intro: same_core_trans)
qed (simp add: same_core_refl)

lemma alert_exhausted_core: "alert_exhausted_projection_debt now earlier uuid age d = Inr (d', n) \<Longrightarrow> same_core d d'"
  by (auto simp: alert_exhausted_projection_debt_def bnd_eq_Ok Let_def intro: alert_debts_core)

lemma comment_receipt_core: "record_provider_comment_receipt r d = Inr d' \<Longrightarrow> same_core d d'"
  by (auto simp: record_provider_comment_receipt_def same_core_def bnd_eq_Ok split: if_splits)

section \<open>Operations as runs\<close>

context act_relation
begin

lemma within_store: "(\<And>d d' x. f d = Inr (d', x) \<Longrightarrow> R d d') \<Longrightarrow> within (act_store f)"
  by (auto simp: within_def act_store_def R_refl split: sum.splits)

lemma within_clock:
  "within (notifier_clock ops)" "within (notifier_uuid ops)" "within (notifier_stamp ops)" "within (so_io m)"
  by (auto simp: within_def notifier_clock_def notifier_uuid_def notifier_stamp_def so_io_def act_bind_def act_return_def
      act_world_def R_refl split: prod.splits)

lemma within_stamped: "(\<And>t uuid. within (f t uuid)) \<Longrightarrow> within (stamped so f)"
  unfolding stamped_def by (intro within_control within_clock)

lemma within_drop_each: "(\<And>x. within (f x)) \<Longrightarrow> within (act_drop_each f xs)"
  by (induction xs) (auto intro!: within_control)

end

text \<open>A relation that contains every change outside the efforts covers projections and reservations.\<close>

locale core_relation = act_relation +
  assumes core: "same_core d d' \<Longrightarrow> R d d'"
begin

lemma within_project_outside: "within (project_outside so e evs artifact)"
  unfolding project_outside_def verify_def project_def close_artifact_def Let_def
  by (intro within_control within_clock)

lemma within_project_item: "within (project_item so item_id)"
  unfolding project_item_def act_projection_debt_def Let_def
  by (intro within_control within_clock within_stamped within_project_outside within_commit)
    (auto intro: core record_projection_core record_debt_core)

lemma within_reserve: "within (reserve_full_issue so i)"
  unfolding reserve_full_issue_def
  by (intro within_control within_clock within_commit) (auto intro: core record_reservation_core)

lemma within_outbox: "within (process_issue_reservation_outbox so limit)"
proof -
  have "within (reserve_issues so items)" for items
    by (induction items) (auto intro!: within_control within_reserve)
  then show ?thesis unfolding process_issue_reservation_outbox_def by (intro within_control)
qed

lemma within_project_due: "within (project_due_items so)"
  unfolding project_due_items_def by (intro within_control within_clock within_drop_each within_project_item)

lemma within_alert: "within (act_alert_exhausted so age)"
proof -
  have "within (fresh_ids so n)" for n by (induction n) (auto intro!: within_control within_clock)
  then show ?thesis unfolding act_alert_exhausted_def
    by (intro within_control within_clock within_store) (auto intro: core alert_exhausted_core)
qed

end

text \<open>A relation that contains the requests of a comment covers ingestion; \<open>may\<close> says who is trusted with which effort.\<close>

locale ingestion = act_relation +
  fixes may :: "string \<Rightarrow> string \<Rightarrow> bool"
  assumes noted: "record_provider_comment_receipt r d = Inr d' \<Longrightarrow> R d d'"
    and answered: "may i actor \<Longrightarrow> answer_for_effort now uuid command i (ProviderActor actor) uid d = Inr (d', x) \<Longrightarrow> R d d'"
    and reviewed: "may i actor \<Longrightarrow> review_candidate_for_effort now uuid review i (ProviderActor actor) uid d = Inr (d', y) \<Longrightarrow> R d d'"
begin

lemma within_malformed: "within (malformed_comment so src comment actor disposition)"
  unfolding malformed_comment_def by (intro within_control within_clock within_commit) (rule noted)

lemma within_comment:
  assumes "\<And>actor. ia_actor comment = Some actor \<Longrightarrow> may (cs_effort_id src) actor"
  shows "within (ingest_comment so src comment)"
  unfolding ingest_comment_def
proof (intro within_control within_malformed within_stamped within_store, goal_cases)
  case (1 actor response)
  then show ?case
    by (cases response)
      (auto intro!: within_control within_malformed within_stamped within_store intro: answered reviewed assms)
qed

lemma within_comments:
  assumes "\<And>comment actor. comment \<in> set comments \<Longrightarrow> ia_actor comment = Some actor \<Longrightarrow> may (cs_effort_id src) actor"
  shows "within (ingest_comments so src comments)"
  using assms by (induction comments) (auto intro!: within_control within_comment)

end

section \<open>Runs of the store\<close>

lemma other_run: "same_core d d' \<Longrightarrow> store_run d d'"
  by (blast intro: other_step)

lemma request_run: "perform env r d = Inr d' \<Longrightarrow> store_run d d'"
  by (blast intro: request_step)

interpretation run: core_relation store_run
  by unfold_locales (auto intro: other_run rtranclp_trans)

interpretation run: ingestion store_run "\<lambda>_ _. True"
proof
  fix now uuid command i actor uid d d' x
  assume "answer_for_effort now uuid command i (ProviderActor actor) uid d = Inr (d', x)"
  then show "store_run d d'"
    by (intro request_run [of "\<lparr>en_now = now, en_uuid = \<lambda>_. uuid, en_runner = undefined\<rparr>" "AnswerRequest command i (ProviderActor actor) uid"])
      (simp add: stored_Ok)
next
  fix now uuid command i actor uid d d' x
  assume "review_candidate_for_effort now uuid command i (ProviderActor actor) uid d = Inr (d', x)"
  then show "store_run d d'"
    by (intro request_run [of "\<lparr>en_now = now, en_uuid = \<lambda>_. uuid, en_runner = undefined\<rparr>" "ReviewCandidate command i (ProviderActor actor) uid"])
      (simp add: stored_Ok)
qed (blast intro: other_run comment_receipt_core)

lemma ingest_answers_within:
  assumes "\<And>src comments. run.within (ingest_comments so src comments)"
  shows "run.within (ingest_answers so item_id)"
  unfolding ingest_answers_def by (intro run.within_control run.within_clock assms)

lemma daemon_cycle_run:
  assumes "run.within run_once" "run.within dispatch"
  shows "run.within (daemon_cycle so config run_once dispatch)"
  unfolding daemon_cycle_def
  by (intro run.within_control run.within_drop_each run.within_outbox run.within_project_due run.within_alert assms
      ingest_answers_within run.within_comments TrueI)

section \<open>Permission\<close>

text \<open>Only the effort \<open>i\<close> changes, and only when one of the actors is among the responders of its issue.\<close>

definition touches :: "string \<Rightarrow> string set \<Rightarrow> db \<Rightarrow> db \<Rightarrow> bool" where
  "touches i actors d d' \<longleftrightarrow>
     (store_inv d \<longrightarrow> store_inv d' \<and>
       (\<forall>e \<in> set (efforts d). e \<in> set (efforts d')
          \<or> (ef_id e = i \<and> (\<exists>actor \<in> actors. permits_actor (ef_state_repository e) actor))))"

lemma touches_trans: "touches i actors a b \<Longrightarrow> touches i actors b c \<Longrightarrow> touches i actors a c"
  unfolding touches_def by blast

lemma updated_others:
  assumes "store_inv d" "required_effort i d = Inr e" "efforts d1 = efforts d"
    and u: "update_state_and_count_with_resolution now e s n rejection d1 = Inr d2"
    and "x \<in> set (efforts d)" "ef_id x \<noteq> i"
  shows "x \<in> set (efforts d2)"
proof -
  have "distinct (effort_ids d1)" "e \<in> set (efforts d1)" "ef_id e = i"
    using assms(1-3) required_effort_facts [OF assms(2)] by (simp_all add: store_inv_def)
  with update_state_row(1) [OF u _ _ refl] assms(3,5,6) show ?thesis by (auto simp: set_modify)
qed

lemma apply_answer_others:
  assumes inv: "store_inv d" and r: "required_effort (ef_id e) d = Inr e" and op: "apply_answer now uuid command e d = Inr d'"
    and x: "x \<in> set (efforts d)" "ef_id x \<noteq> ef_id e"
  shows "x \<in> set (efforts d')"
  using op unfolding apply_answer_def op_elim
proof (elim exE conjE, goal_cases)
  case (1 nx d1 _ _ d2)
  have "efforts d1 = efforts d" using 1(2) by (auto simp: update_guidance_requests_def)
  from updated_others [OF inv r this 1(4) x] append_event_core [OF 1(5)] show ?case by (simp add: same_core_def)
qed

lemma apply_review_others:
  assumes inv: "store_inv d" and r: "required_effort (ef_id e) d = Inr e"
    and op: "apply_review now uuid command responder e review d = Inr (d', s)"
    and x: "x \<in> set (efforts d)" "ef_id x \<noteq> ef_id e"
  shows "x \<in> set (efforts d')"
  using op unfolding apply_review_def op_elim
proof (elim exE conjE, goal_cases)
  case (1 y status y1 t event p d1 n _ d2 d3 d4)
  have "local_step (ef_id e) d d1" by (rule update_reviews_local [OF 1(4) [unfolded 1(5)]]) auto
  with review_change_local [OF 1(7)] have "efforts d2 = efforts d" by (simp add: local_step_def)
  moreover have "same_core d3 d'" using 1(9,10) by (auto intro: core_steps)
  ultimately show ?case using updated_others [OF inv r _ 1(8) x] by (simp add: same_core_def)
qed

lemma touchesI:
  assumes "store_inv d \<Longrightarrow> store_inv d'"
    and "\<And>x. store_inv d \<Longrightarrow> x \<in> set (efforts d) \<Longrightarrow> x \<notin> set (efforts d') \<Longrightarrow>
      ef_id x = i \<and> permits_actor (ef_state_repository x) actor"
  shows "touches i {actor} d d'"
  using assms unfolding touches_def by blast

lemma answer_touches:
  assumes op: "answer_for_effort now uuid command i (ProviderActor actor) uid d = Inr (d', r)"
  shows "touches i {actor} d d'"
proof (rule touchesI)
  show "store_inv d'" if "store_inv d" by (rule op_effect_inv [OF that answer_for_effort_effect [OF that op]])
next
  fix x assume inv: "store_inv d" and x: "x \<in> set (efforts d)" "x \<notin> set (efforts d')"
  have "\<not> list_ex (\<lambda>r. ax_external_id r = ac_external_id command) (answer_receipts d)"
    using op x by (auto simp: answer_for_effort_def)
  with op x obtain e d1 q where e: "required_effort i d = Inr e"
    and b: "(if \<not> responder_authorized (ProviderActor actor) uid (ef_state_repository e) then Ok (d, Unauthorized)
             else if trim (ac_answer command) = [] \<or> ac_answer command \<noteq> trim (ac_answer command)
             then Ok (d, Malformed)
             else (case ef_state e of
                     GuidanceRequired blocked \<Rightarrow>
                       (case be_blocker blocked of
                          SemanticGuidance guidance \<Rightarrow>
                            if answer_names_request command e guidance
                            then bnd (apply_answer now uuid command e d) (\<lambda>d. Ok (d, Applied))
                            else Ok (d, Stale)
                        | _ \<Rightarrow> Err (Bail ''internal error: entered unreachable code''))
                   | _ \<Rightarrow> Ok (d, Stale))) = Inr (d1, q)" and d': "efforts d' = efforts d1"
    by (auto simp: answer_for_effort_def bnd_eq_Ok)
  note facts = required_effort_facts [OF e]
  have new: "d1 \<noteq> d" using d' x by auto
  with b have auth: "permits_actor (ef_state_repository e) actor" by (auto simp: responder_authorized_def split: if_splits)
  from answer_body [OF b] new have a: "apply_answer now uuid command e d = Inr d1" by blast
  have "ef_id x = i" using apply_answer_others [OF inv _ a x(1)] e facts x(2) d' by auto
  then have "x = e" using distinct_ids_same [of d x e] inv facts x(1) by (simp add: store_inv_def)
  with auth facts show "ef_id x = i \<and> permits_actor (ef_state_repository x) actor" by simp
qed

lemma review_touches:
  assumes op: "review_candidate_for_effort now uuid command i (ProviderActor actor) uid d = Inr (d', r)"
  shows "touches i {actor} d d'"
proof (rule touchesI)
  show "store_inv d'" if "store_inv d" by (rule op_effect_inv [OF that review_candidate_effect [OF that op]])
next
  fix x assume inv: "store_inv d" and x: "x \<in> set (efforts d)" "x \<notin> set (efforts d')"
  have none: "find (\<lambda>r. rx_external_id r = rm_external_id command) (review_receipts d) = None"
    using op x by (auto simp: review_candidate_for_effort_def split: option.splits)
  obtain e d1 q t m where e: "required_effort i d = Inr e"
    and b: "(if \<not> responder_authorized (ProviderActor actor) uid (ef_state_repository e)
               then Ok (d, Unauthorized, state_name (ef_state e))
               else if m then Ok (d, Malformed, state_name (ef_state e))
               else (case ef_state e of
                       ReviewRequired review \<Rightarrow>
                         if command_names_review command e t review
                         then bnd (apply_review now uuid command (ProviderActor actor) e review d) (\<lambda>(d, state).
                              Ok (d, Applied, state_name state))
                         else Ok (d, Stale, state_name (ef_state e))
                     | _ \<Rightarrow> Ok (d, Stale, state_name (ef_state e)))) = Inr (d1, q)" and d': "efforts d' = efforts d1"
    using op unfolding review_candidate_for_effort_def none option.case bnd_eq_Ok Let_def prod_case_Ok
    by (elim exE conjE) (erule meta_allE; fastforce)
  note facts = required_effort_facts [OF e]
  have new: "d1 \<noteq> d" using d' x by auto
  with b have auth: "permits_actor (ef_state_repository e) actor" by (auto simp: responder_authorized_def split: if_splits)
  from review_body [OF b] new obtain v s where a: "apply_review now uuid command (ProviderActor actor) e v d = Inr (d1, s)" by blast
  have "ef_id x = i" using apply_review_others [OF inv _ a x(1)] e facts x(2) d' by auto
  then have "x = e" using distinct_ids_same [of d x e] inv facts x(1) by (simp add: store_inv_def)
  with auth facts show "ef_id x = i \<and> permits_actor (ef_state_repository x) actor" by simp
qed

lemma touches_more: "touches i A d d' \<Longrightarrow> A \<subseteq> B \<Longrightarrow> touches i B d d'"
  unfolding touches_def by blast

interpretation acting: ingestion "touches i actors" "\<lambda>j actor. j = i \<and> actor \<in> actors" for i actors
proof
  show "touches i actors d d" for d by (simp add: touches_def)
  show "touches i actors a b \<Longrightarrow> touches i actors b c \<Longrightarrow> touches i actors a c" for a b c by (rule touches_trans)
  show "touches i actors d d'" if "record_provider_comment_receipt r d = Inr d'" for r d d'
    using comment_receipt_core [OF that] op_effect_inv op_effect_same
    unfolding touches_def by (metis same_core_def)
qed (blast intro: answer_touches review_touches touches_more)+

section \<open>Receipts\<close>

text \<open>The identities of the comments that were handled.\<close>

definition remembers :: "db \<Rightarrow> db \<Rightarrow> bool" where
  "remembers d d' \<longleftrightarrow>
     ax_external_id ` set (answer_receipts d) \<subseteq> ax_external_id ` set (answer_receipts d')
     \<and> rx_external_id ` set (review_receipts d) \<subseteq> rx_external_id ` set (review_receipts d')
     \<and> set (comment_receipts d) \<subseteq> set (comment_receipts d')"

definition same_receipts :: "db \<Rightarrow> db \<Rightarrow> bool" where
  "same_receipts d d' \<longleftrightarrow>
     answer_receipts d' = answer_receipts d \<and> review_receipts d' = review_receipts d \<and> comment_receipts d' = comment_receipts d"

lemma same_receipts_trans: "same_receipts a b \<Longrightarrow> same_receipts b c \<Longrightarrow> same_receipts a c"
  by (simp add: same_receipts_def)

lemma update_state_receipts:
  "update_state_and_count_with_resolution now e s n rejection d = Inr d' \<Longrightarrow> same_receipts d d'"
  by (auto simp: same_receipts_def update_state_Ok update_effort_state_Ok update_item_status_Ok)

lemma append_event_receipts: "append_event now i e t p a d = Inr d' \<Longrightarrow> same_receipts d d'"
  by (auto simp: same_receipts_def append_event_def append_event_with_id_def Let_def enqueue_deliveries_def split: if_splits)

lemma apply_answer_ledger: "apply_answer now uuid command e d = Inr d' \<Longrightarrow> same_receipts d d'"
  unfolding apply_answer_def op_elim
proof (elim exE conjE, goal_cases)
  case (1 nx d1 _ _ d2)
  have "same_receipts d d1" using 1(2) by (auto simp: same_receipts_def update_guidance_requests_def)
  with update_state_receipts [OF 1(4)] append_event_receipts [OF 1(5)] show ?case by (meson same_receipts_trans)
qed

lemma review_change_receipts:
  assumes "(case decision of
      Approve _ \<Rightarrow> Ok d
    | RequestChanges _ \<Rightarrow>
        bnd (delete_evidence p d) (\<lambda>d. Ok (fst (update_attempts q f (invalidate_validation_invocations now i d))))) = Inr d'"
  shows "same_receipts d d'"
  using assms
  by (auto simp: same_receipts_def delete_evidence_def update_attempts_def invalidate_validation_invocations_def bnd_eq_Ok
      split: review_decision.splits if_splits)

lemma apply_review_ledger: "apply_review now uuid command responder e review d = Inr (d', s) \<Longrightarrow> same_receipts d d'"
  unfolding apply_review_def op_elim
proof (elim exE conjE, goal_cases)
  case (1 y status y1 t event p d1 n _ d2 d3 d4)
  have "same_receipts d d1" using 1(4,5) by (auto simp: same_receipts_def update_reviews_def split: if_splits)
  with review_change_receipts [OF 1(7)] update_state_receipts [OF 1(8)] append_event_receipts [OF 1(9)] 1(10)
  show ?case by (auto intro: same_receipts_trans)
qed

lemma answer_receipts_after:
  assumes op: "answer_for_effort now uuid command i responder uid d = Inr (d', r)"
  shows "remembers d d' \<and> ac_external_id command \<in> ax_external_id ` set (answer_receipts d')"
proof (cases "list_ex (\<lambda>r. ax_external_id r = ac_external_id command) (answer_receipts d)")
  case True
  with op show ?thesis by (auto simp: answer_for_effort_def remembers_def list_ex_iff intro: rev_image_eqI)
next
  case False
  show ?thesis
    using op unfolding answer_for_effort_def if_not_P [OF False] op_elim
  proof (elim exE conjE, goal_cases)
    case (1 e _ p d1 _)
    have "same_receipts d d1"
      using answer_body [OF 1(3) [unfolded 1(4)]] apply_answer_ledger by (auto simp: same_receipts_def)
    with 1 show ?case by (auto simp: same_receipts_def remembers_def)
  qed
qed

lemma review_receipts_after:
  assumes op: "review_candidate_for_effort now uuid command i responder uid d = Inr (d', r)"
  shows "remembers d d' \<and> rm_external_id command \<in> rx_external_id ` set (review_receipts d')"
proof (cases "find (\<lambda>r. rx_external_id r = rm_external_id command) (review_receipts d)")
  case (Some x)
  with op show ?thesis by (auto simp: review_candidate_for_effort_def remembers_def dest!: find_Some_mem intro: rev_image_eqI)
next
  case None
  show ?thesis
    using op unfolding review_candidate_for_effort_def None option.case op_elim
  proof (elim exE conjE, goal_cases)
    case (1 e _ _ _ p d1 _ _ _)
    have "same_receipts d d1"
      using review_body [OF 1(5) [unfolded 1(6)]] apply_review_ledger by (auto simp: same_receipts_def)
    with 1 show ?case by (auto simp: same_receipts_def remembers_def)
  qed
qed

lemma comment_receipt_after:
  assumes "record_provider_comment_receipt r d = Inr d'"
  shows "remembers d d' \<and> (\<exists>x \<in> set (comment_receipts d'). pc_provider x = pc_provider r \<and> pc_repository x = pc_repository r
    \<and> pc_artifact_id x = pc_artifact_id r \<and> pc_comment_id x = pc_comment_id r)"
  using assms by (auto simp: record_provider_comment_receipt_def remembers_def bnd_eq_Ok list_ex_iff split: if_splits)

interpretation ledger: ingestion remembers "\<lambda>_ _. True"
proof
  show "remembers d d" for d by (simp add: remembers_def)
  show "remembers a b \<Longrightarrow> remembers b c \<Longrightarrow> remembers a c" for a b c
    unfolding remembers_def by (elim conjE) (intro conjI; rule order_trans, assumption, assumption)
qed (rule comment_receipt_after [THEN conjunct1] answer_receipts_after [THEN conjunct1]
    review_receipts_after [THEN conjunct1]; assumption)+

definition comment_seen :: "comment_source \<Rightarrow> db \<Rightarrow> issue_answer_comment \<Rightarrow> bool" where
  "comment_seen src d comment \<longleftrightarrow>
     provider_comment_seen (cs_provider src) (cs_repository src) (cs_artifact_id src) (ia_id comment) d = Ok True"

lemma seen_stays: "comment_seen src d comment \<Longrightarrow> remembers d d' \<Longrightarrow> comment_seen src d' comment"
  by (fastforce simp: comment_seen_def provider_comment_seen_def remembers_def bnd_eq_Ok list_ex_iff image_subset_iff)

lemma malformed_seen:
  assumes "malformed_comment so src comment actor disposition s = (Inr x, s')"
  shows "comment_seen src (snd s') comment"
proof -
  from assms obtain now s1 d' where r: "record_provider_comment_receipt
      (comment_receipt_of now src (ia_id comment) actor (ia_body comment) disposition) (snd s1) = Inr d'" and s': "snd s' = d'"
    by (auto simp: malformed_comment_def act_bind_def act_commit_def act_return_def split: prod.splits sum.splits)
  have "validate_provider_comment_identity (cs_provider src) (cs_repository src) (cs_artifact_id src) (ia_id comment) = Inr ()"
    using r by (auto simp: record_provider_comment_receipt_def comment_receipt_of_def bnd_eq_Ok)
  with comment_receipt_after [OF r] s' show ?thesis
    by (auto simp: comment_seen_def provider_comment_seen_def provider_comment_key_def comment_receipt_of_def list_ex_iff)
qed

lemma stored_command:
  assumes "stamped so (\<lambda>t uuid. act_store (f t uuid)) s = (Inr x, s')"
  shows "\<exists>t uuid d. f t uuid d = Inr (snd s', x)"
  using assms by (auto simp: stamped_def act_bind_def act_store_def split: prod.splits sum.splits) blast

lemma comment_handled:
  assumes "ingest_comment so src comment s = (Inr x, s')"
  shows "comment_seen src (snd s') comment"
proof (cases "\<exists>actor disposition. malformed_comment so src comment actor disposition s = (Inr x, s')")
  case True
  then show ?thesis using malformed_seen by blast
next
  case False
  then obtain actor response key where r: "ia_actor comment = Some actor" "so_response so (ia_body comment) = Some response"
      "response_version response = 1"
    and key: "provider_comment_key (cs_provider src) (cs_repository src) (cs_artifact_id src) (ia_id comment) = Inr key"
    using assms
    by (auto simp: ingest_comment_def act_bind_def act_return_def split: option.splits if_splits sum.splits prod.splits)
  have seen: ?thesis if "key \<in> ax_external_id ` set (answer_receipts (snd s')) \<or> key \<in> rx_external_id ` set (review_receipts (snd s'))"
    using that by (auto simp: comment_seen_def provider_comment_seen_def key list_ex_iff)
  show ?thesis
  proof (cases response)
    case (ResponseAnswer a)
    with assms r key obtain t uuid d where "answer_for_effort t uuid (answer_of key a) (cs_effort_id src) (ProviderActor actor)
        (so_uid so) d = Inr (snd s', x)"
      by (auto simp: ingest_comment_def act_bind_def [of "act_return _"] act_return_def dest!: stored_command)
    from answer_receipts_after [OF this] show ?thesis by (intro seen) (simp add: answer_of_def)
  next
    case (ResponseReview v)
    then obtain decision where d: "review_decision_of v = Some decision"
      using False assms r key
      by (cases "review_decision_of v") (auto simp: ingest_comment_def act_bind_def [of "act_return _"] act_return_def)
    obtain receipt s1 where "stamped so (\<lambda>t uuid. act_store (review_candidate_for_effort (nt_rfc3339 (so_notifier so) t) uuid
        (review_of key v decision) (cs_effort_id src) (ProviderActor actor) (so_uid so))) s = (Inr receipt, s1)" "s' = s1"
      using assms r key ResponseReview d
      by (auto simp: ingest_comment_def act_bind_def act_return_def split: sum.splits prod.splits)
    then obtain t uuid d where "review_candidate_for_effort t uuid (review_of key v decision) (cs_effort_id src)
        (ProviderActor actor) (so_uid so) d = Inr (snd s', receipt)"
      by (auto dest!: stored_command)
    from review_receipts_after [OF this] show ?thesis by (intro seen) (simp add: review_of_def)
  qed
qed

lemma comments_handled:
  assumes "ingest_comments so src comments s = (Inr xs, s')" "comment \<in> set comments"
  shows "comment_seen src (snd s') comment"
  using assms
proof (induction comments arbitrary: s xs)
  case (Cons c cs)
  obtain seen where c: "provider_comment_seen (cs_provider src) (cs_repository src) (cs_artifact_id src) (ia_id c) (snd s) = Inr seen"
    using Cons.prems(1) by (auto simp: act_bind_def act_read_def split: sum.splits prod.splits)
  obtain ys s1 where rest: "ingest_comments so src cs s1 = (Inr ys, s')" and first: "comment_seen src (snd s1) c"
  proof (cases seen)
    case True
    with Cons.prems(1) c that [of s xs] show ?thesis by (simp add: act_bind_def act_read_def comment_seen_def)
  next
    case False
    with Cons.prems(1) c obtain x s1 ys where "ingest_comment so src c s = (Inr x, s1)" "ingest_comments so src cs s1 = (Inr ys, s')"
      by (auto simp: act_bind_def act_read_def act_return_def split: sum.splits prod.splits)
    then show ?thesis using that comment_handled by blast
  qed
  have "remembers (snd s1) (snd s')" by (rule ledger.withinD [OF ledger.within_comments rest]) simp
  with Cons.IH [OF rest] Cons.prems(2) first seen_stays show ?case by auto
qed simp

lemma seen_comments_are_skipped:
  "(\<And>comment. comment \<in> set comments \<Longrightarrow> comment_seen src d comment) \<Longrightarrow> ingest_comments so src comments (w, d) = (Inr [], (w, d))"
  by (induction comments) (simp_all add: act_bind_def act_read_def act_return_def comment_seen_def)

end
