(* ===== verification/Issue_Effects.thy ===== *)
theory Issue_Effects
  imports State_Repository
begin

text \<open>
  What the synchronisation of an issue leaves behind: its labels, the number that is read from a new issue's address, and
  its comments, of which each event has one however often a projection is repeated.
\<close>

section \<open>Labels\<close>

lemma labels_after_update:
  fixes existing desired
  defines "u \<equiv> managed_label_update_new existing desired" and "names \<equiv> set (map label_name existing)"
  shows "(names - set (lu_remove u)) \<union> set (lu_add u) = set desired \<union> {n \<in> names. \<not> starts_with n ''iq:''}"
    "set (lu_add u) \<inter> names = {}" "set (lu_remove u) \<subseteq> names"
    "distinct (lu_add u)" "distinct (lu_remove u)" "sorted (lu_add u)" "sorted (lu_remove u)"
  by (auto simp: u_def names_def managed_label_update_new_def Let_def list_ex_iff)

lemma trim_plain:
  assumes "is_ascii_alphanumeric c" "is_ascii_alphanumeric z" "s = c # t" "s = u @ [z]"
  shows "trim s = s"
proof -
  have "\<not> ws1 (byte c)" "\<not> ws2 (byte c) k" "\<not> ws3 (byte c) k j" for k j
    using assms(1) by (auto simp: ws1_def ws2_def ws3_def ascii_defs)
  then have "ws_width (c # t) = 0" by (cases "c # t" rule: ws_width.cases) simp_all
  moreover have "\<not> ws1 (byte z)" "\<not> ws2 k (byte z)" "\<not> ws3 k j (byte z)" for k j
    using assms(2) by (auto simp: ws1_def ws2_def ws3_def ascii_defs)
  then have "ws_width_rev (z # rev u) = 0" by (cases "z # rev u" rule: ws_width_rev.cases) simp_all
  moreover have "rev s = z # rev u" using assms(4) by simp
  ultimately have "ws_width s = 0" "ws_width_rev (rev s) = 0" using assms(3) by simp_all
  then show ?thesis by (simp add: trim_id)
qed

section \<open>Markers\<close>

lemma split_text_skip:
  assumes "\<And>k. k < length a \<Longrightarrow> \<not> starts_with (drop k (a @ s)) m" "m \<noteq> []"
  shows "split_text_once m (a @ s) = map_option (\<lambda>(x, y). (a @ x, y)) (split_text_once m s)"
  using assms(1)
proof (induction a)
  case Nil
  show ?case by (cases "split_text_once m s") auto
next
  case (Cons c a)
  have "\<not> starts_with (c # a @ s) m" using Cons.prems [of 0] by simp
  moreover have "split_text_once m (a @ s) = map_option (\<lambda>(x, y). (a @ x, y)) (split_text_once m s)"
  proof (rule Cons.IH)
    fix k assume "k < length a"
    then show "\<not> starts_with (drop k (a @ s)) m" using Cons.prems [of "Suc k"] by simp
  qed
  ultimately show ?case by (cases "split_text_once m s") auto
qed

lemma split_text_clear:
  assumes "c \<notin> set a" "m = c # m'"
  shows "split_text_once m (a @ s) = map_option (\<lambda>(x, y). (a @ x, y)) (split_text_once m s)"
proof (rule split_text_skip)
  fix k assume k: "k < length a"
  then have "drop k (a @ s) = a ! k # drop (Suc k) (a @ s)" by (simp add: nth_append Cons_nth_drop_Suc [symmetric])
  moreover have "a ! k \<noteq> c" using assms(1) k by (metis nth_mem)
  ultimately show "\<not> starts_with (drop k (a @ s)) m" by (simp add: assms(2) starts_with_def)
qed (simp add: assms(2))

lemma split_text_head: "m \<noteq> [] \<Longrightarrow> split_text_once m (m @ s) = Some ([], s)"
  by (cases m) (auto simp: starts_with_def)

lemma event_comment_marker:
  assumes "CHR '' '' \<notin> set (ev_id v)"
  shows "issue_marker (event_comment so v) = Some (''iq:event:'' @ ev_id v)"
proof -
  let ?rest = "[newline] @ ''**'' @ ev_type v @ ''**'' @ [newline] @ ''```json'' @ [newline] @ so_payload so (ev_payload v)
    @ [newline] @ ''```''"
  have "event_comment so v = ''<!-- iq:'' @ (''event:'' @ ev_id v @ '' -->'' @ ?rest)" by (simp add: event_comment_def)
  then have "split_text_once ''<!-- iq:'' (event_comment so v) = Some ([], ''event:'' @ ev_id v @ '' -->'' @ ?rest)"
    using split_text_head [of "''<!-- iq:''"] by (metis list.distinct(1))
  moreover have "split_text_once '' -->'' ((''iq:event:'' @ ev_id v) @ '' -->'' @ ?rest) = Some (''iq:event:'' @ ev_id v, ?rest)"
    by (subst split_text_clear [of "CHR '' ''"]) (use assms in \<open>simp_all add: split_text_head [of "'' -->''", simplified]\<close>)
  ultimately show ?thesis by (simp add: issue_marker_def)
qed

definition markers :: "string list \<Rightarrow> string list" where
  "markers bodies = List.map_filter issue_marker bodies"

lemma markers_simps [simp]:
  "markers [] = []" "markers (b # bs) = (case issue_marker b of None \<Rightarrow> markers bs | Some m \<Rightarrow> m # markers bs)"
  "markers (bs @ cs) = markers bs @ markers cs"
  by (simp_all add: markers_def map_filter_def split: option.splits)

lemma set_markers: "m \<in> set (markers bs) \<longleftrightarrow> (\<exists>b \<in> set bs. issue_marker b = Some m)"
  by (induction bs) (auto split: option.splits)

lemma missing_comments:
  "comments_missing_from_issue comments existing =
     filter (\<lambda>c. case issue_marker c of None \<Rightarrow> True | Some m \<Rightarrow> m \<notin> set (markers (map im_body existing))) comments"
proof -
  have "set (List.map_filter (\<lambda>c. issue_marker (im_body c)) existing) = set (markers (map im_body existing))"
    by (induction existing) (auto simp: map_filter_def split: option.splits)
  then show ?thesis
    unfolding comments_missing_from_issue_def Let_def
    by (intro filter_cong [OF refl]) (auto simp: list_ex_iff split: option.splits)
qed

lemma markers_filter:
  "distinct (markers cs) \<Longrightarrow> distinct (markers (filter p cs))"
  "set (markers (filter p cs)) \<subseteq> set (markers cs)"
  by (induction cs) (auto split: option.splits simp: set_markers)

lemma count_marker_once: "distinct xs \<Longrightarrow> count_list xs m \<le> 1"
  by (induction xs) auto

section \<open>Comments\<close>

text \<open>A reflexive and transitive relation between the worlds before and after commands.\<close>

locale io_relation =
  fixes R :: "'w \<Rightarrow> 'w \<Rightarrow> bool"
  assumes R_refl: "R w w"
    and R_trans: "R a b \<Longrightarrow> R b c \<Longrightarrow> R a c"
begin

definition keeps :: "('w, 'a) io \<Rightarrow> bool" where
  "keeps m \<longleftrightarrow> (\<forall>w r w'. m w = (r, w') \<longrightarrow> R w w')"

lemma keepsD: "keeps m \<Longrightarrow> m w = (r, w') \<Longrightarrow> R w w'"
  unfolding keeps_def by blast

lemma keeps_bind: "keeps m \<Longrightarrow> (\<And>x. keeps (f x)) \<Longrightarrow> keeps (io_bind m f)"
  unfolding keeps_def io_bind_def by (auto split: prod.splits sum.splits) (meson R_trans)

lemma keeps_return: "keeps (io_return r)"
  by (auto simp: keeps_def io_return_def R_refl)

lemma keeps_if: "(b \<Longrightarrow> keeps m) \<Longrightarrow> (\<not> b \<Longrightarrow> keeps m') \<Longrightarrow> keeps (if b then m else m')"
  by simp

lemma keeps_option: "keeps m \<Longrightarrow> (\<And>y. keeps (f y)) \<Longrightarrow> keeps (case x of None \<Rightarrow> m | Some y \<Rightarrow> f y)"
  by (cases x) simp_all

lemmas keeps_control = keeps_bind keeps_return keeps_if keeps_option

end

text \<open>The comment that a command posts: its repository, its issue and its body.\<close>

definition posts :: "provider \<Rightarrow> string list \<Rightarrow> (string \<times> string \<times> string) option" where
  "posts provider args =
     (case args of
        [a, verb, issue, b, repo, flag, body] \<Rightarrow>
          if a = ''issue'' \<and> b = ''--repo''
             \<and> (provider = Github \<and> verb = ''comment'' \<and> flag = ''--body'' \<or> provider = Gitlab \<and> verb = ''note'' \<and> flag = ''--message'')
          then Some (repo, issue, body) else None
      | _ \<Rightarrow> None)"

definition same_comments :: "(provider \<Rightarrow> string \<Rightarrow> string \<Rightarrow> 'w \<Rightarrow> string list) \<Rightarrow> 'w \<Rightarrow> 'w \<Rightarrow> bool" where
  "same_comments shown w w' \<longleftrightarrow> (\<forall>p repo issue. shown p repo issue w' = shown p repo issue w)"

text \<open>What a command does to the comments: one that posts adds its comment at the end of its issue, or fails, perhaps after it
  added it; every other command leaves the comments alone.\<close>

definition comment_effect ::
    "(provider \<Rightarrow> string \<Rightarrow> string \<Rightarrow> 'w \<Rightarrow> string list) \<Rightarrow> provider \<Rightarrow> string list \<Rightarrow> 'w \<Rightarrow> command_reply result \<Rightarrow> 'w \<Rightarrow> bool" where
  "comment_effect shown p args w r w' \<longleftrightarrow>
     (case posts p args of
        None \<Rightarrow> same_comments shown w w'
      | Some (repo, issue, body) \<Rightarrow>
          (\<forall>q repo' issue'. (q, repo', issue') \<noteq> (p, repo, issue) \<longrightarrow> shown q repo' issue' w' = shown q repo' issue' w)
          \<and> (shown p repo issue w' = shown p repo issue w @ [body]
             \<or> shown p repo issue w' = shown p repo issue w \<and> (case r of Inl _ \<Rightarrow> True | Inr reply \<Rightarrow> \<not> ro_success reply)))"

text \<open>The markers among the comments that a client prints are those of the issue; what GitLab itself notes there has none.\<close>

definition prints_comments :: "'w issue_client \<Rightarrow> (provider \<Rightarrow> string \<Rightarrow> string \<Rightarrow> 'w \<Rightarrow> string list) \<Rightarrow> bool" where
  "prints_comments cl shown \<longleftrightarrow>
     (\<forall>program repo issue w reply w' view.
        cl_output cl Github program [''issue'', ''view'', issue, ''--repo'', repo, ''--json'', ''labels,comments''] w = (Inr reply, w')
        \<longrightarrow> ro_success reply \<longrightarrow> cl_view cl (trim (ro_stdout reply)) = Inr view
        \<longrightarrow> set (markers (map im_body (iw_comments view))) = set (markers (shown Github repo issue w')))
     \<and> (\<forall>program repo issue w reply w' view.
        cl_output cl Gitlab program [''issue'', ''view'', issue, ''--repo'', repo, ''--output'', ''json''] w = (Inr reply, w')
        \<longrightarrow> ro_success reply \<longrightarrow> cl_view cl (trim (ro_stdout reply)) = Inr view
        \<longrightarrow> set (markers (map im_body (iw_comments view))) \<subseteq> set (markers (shown Gitlab repo issue w')))
     \<and> (\<forall>program repo issue w reply w' notes.
        cl_output cl Gitlab program
          [''api'', ''projects/'' @ percent_encode_path repo @ ''/issues/'' @ issue @ ''/notes'', ''--paginate''] w = (Inr reply, w')
        \<longrightarrow> ro_success reply
        \<longrightarrow> (if trim (trim (ro_stdout reply)) = [] then Inr [] else cl_notes cl (trim (ro_stdout reply))) = Inr notes
        \<longrightarrow> set (markers (map im_body notes)) = set (markers (shown Gitlab repo issue w')))"

text \<open>
  The documented behaviour of the clients, for the comments \<open>shown\<close> on each issue: the effects of commands, that what a client
  prints of the comments of an issue is what the issue shows, and that an issue that was just created shows none.
\<close>

definition hosts_comments :: "'w issue_client \<Rightarrow> (provider \<Rightarrow> string \<Rightarrow> string \<Rightarrow> 'w \<Rightarrow> string list) \<Rightarrow> bool" where
  "hosts_comments cl shown \<longleftrightarrow>
     (\<forall>p w. same_comments shown w (snd (cl_program cl p w)))
     \<and> (\<forall>p program args w r w'. cl_output cl p program args w = (r, w') \<longrightarrow> comment_effect shown p args w r w')
     \<and> prints_comments cl shown
     \<and> (\<forall>p program repo rest w reply w' issue.
          cl_output cl p program (''issue'' # ''create'' # ''--repo'' # repo # rest) w = (Inr reply, w')
          \<longrightarrow> ro_success reply \<longrightarrow> parse_issue_number (cl_reply cl) (trim (ro_stdout reply)) = Some issue
          \<longrightarrow> shown p repo issue w' = [])"

lemma io_bindE:
  assumes "io_bind m f w = (r, w')"
    and "\<And>e. m w = (Inl e, w') \<Longrightarrow> r = Inl e \<Longrightarrow> P"
    and "\<And>x w1. m w = (Inr x, w1) \<Longrightarrow> f x w1 = (r, w') \<Longrightarrow> P"
  shows P
  using assms by (auto simp: io_bind_def split: prod.splits sum.splits)

interpretation quiet: io_relation "same_comments shown" for shown
  by unfold_locales (simp_all add: same_comments_def)

lemma hosts_effect:
  "hosts_comments cl shown \<Longrightarrow> cl_output cl p program args w = (r, w') \<Longrightarrow> comment_effect shown p args w r w'"
  unfolding hosts_comments_def by blast

lemma quiet_output:
  assumes "hosts_comments cl shown" "posts p args = None"
  shows "quiet.keeps shown (cl_output cl p program args)"
  unfolding quiet.keeps_def using hosts_effect [OF assms(1)] assms(2) by (fastforce simp: comment_effect_def)

lemma quiet_command:
  assumes "hosts_comments cl shown" "posts p args = None"
  shows "quiet.keeps shown (command_output cl p program args)" "quiet.keeps shown (command_ok cl p program args)"
  unfolding command_output_def command_ok_def by (intro quiet.keeps_control quiet_output assms)+

lemma quiet_program: "hosts_comments cl shown \<Longrightarrow> quiet.keeps shown (cl_program cl p)"
  unfolding quiet.keeps_def
proof (intro allI impI)
  fix w r w' assume "hosts_comments cl shown" "cl_program cl p w = (r, w')"
  then have "same_comments shown w (snd (cl_program cl p w))" unfolding hosts_comments_def by blast
  with \<open>cl_program cl p w = (r, w')\<close> show "same_comments shown w w'" by simp
qed

lemma posted:
  assumes "hosts_comments cl shown" "posts p args = Some (repo, issue, body)" "command_ok cl p program args w = (r, w')"
  shows "\<forall>q repo' issue'. (q, repo', issue') \<noteq> (p, repo, issue) \<longrightarrow> shown q repo' issue' w' = shown q repo' issue' w"
    "shown p repo issue w' = shown p repo issue w @ [body] \<or> shown p repo issue w' = shown p repo issue w \<and> (\<exists>e. r = Inl e)"
proof -
  obtain reply w1 where o: "cl_output cl p program args w = (reply, w1)" by (cases "cl_output cl p program args w")
  have w': "w' = w1" and e: "(case reply of Inl _ \<Rightarrow> True | Inr reply \<Rightarrow> \<not> ro_success reply) \<Longrightarrow> \<exists>e. r = Inl e"
    using assms(3) o by (auto simp: command_ok_def command_output_def io_bind_def io_return_def split: sum.splits if_splits)
  from hosts_effect [OF assms(1) o] assms(2) w' e
  show "\<forall>q repo' issue'. (q, repo', issue') \<noteq> (p, repo, issue) \<longrightarrow> shown q repo' issue' w' = shown q repo' issue' w"
    "shown p repo issue w' = shown p repo issue w @ [body] \<or> shown p repo issue w' = shown p repo issue w \<and> (\<exists>e. r = Inl e)"
    by (auto simp: comment_effect_def)
qed

text \<open>Posting comments one after another adds a front part of them, all of them on success.\<close>

definition posts_comment :: "(provider \<Rightarrow> string \<Rightarrow> string \<Rightarrow> 'w \<Rightarrow> string list) \<Rightarrow> provider \<Rightarrow> string \<Rightarrow> string \<Rightarrow> string list \<Rightarrow> ('w, unit) io \<Rightarrow> bool" where
  "posts_comment shown p repo issue comments m \<longleftrightarrow> (\<forall>w r w'. m w = (r, w') \<longrightarrow>
     (\<forall>q repo' issue'. (q, repo', issue') \<noteq> (p, repo, issue) \<longrightarrow> shown q repo' issue' w' = shown q repo' issue' w)
     \<and> (\<exists>k. shown p repo issue w' = shown p repo issue w @ take k comments \<and> (r = Inr () \<longrightarrow> take k comments = comments)))"

lemma posts_one:
  assumes "hosts_comments cl shown" "posts p args = Some (repo, issue, body)"
  shows "posts_comment shown p repo issue [body] (command_ok cl p program args)"
  unfolding posts_comment_def
proof (intro allI impI)
  fix w r w' assume run: "command_ok cl p program args w = (r, w')"
  have "\<exists>k. shown p repo issue w' = shown p repo issue w @ take k [body] \<and> (r = Inr () \<longrightarrow> take k [body] = [body])"
    using posted(2) [OF assms run]
  proof (elim disjE conjE exE)
    assume "shown p repo issue w' = shown p repo issue w @ [body]"
    then show ?thesis by (intro exI [of _ 1]) simp
  next
    fix e assume "shown p repo issue w' = shown p repo issue w" "r = Inl e"
    then show ?thesis by (intro exI [of _ 0]) simp
  qed
  with posted(1) [OF assms run] show
    "(\<forall>q repo' issue'. (q, repo', issue') \<noteq> (p, repo, issue) \<longrightarrow> shown q repo' issue' w' = shown q repo' issue' w)
     \<and> (\<exists>k. shown p repo issue w' = shown p repo issue w @ take k [body] \<and> (r = Inr () \<longrightarrow> take k [body] = [body]))" ..
qed

lemma posts_commentD:
  assumes "posts_comment shown p repo issue comments m" "m w = (r, w')"
  obtains k where "shown p repo issue w' = shown p repo issue w @ take k comments" "r = Inr () \<longrightarrow> take k comments = comments"
    "\<forall>q repo' issue'. (q, repo', issue') \<noteq> (p, repo, issue) \<longrightarrow> shown q repo' issue' w' = shown q repo' issue' w"
  using assms unfolding posts_comment_def by blast

lemma posts_each:
  assumes "\<And>c. posts_comment shown p repo issue [c] (f c)"
  shows "posts_comment shown p repo issue comments (io_each f comments)"
proof (induction comments)
  case Nil
  show ?case by (auto simp: posts_comment_def io_return_def)
next
  case (Cons c cs)
  show ?case
    unfolding posts_comment_def
  proof (intro allI impI)
    fix w r w' assume "io_each f (c # cs) w = (r, w')"
    then have "io_bind (f c) (\<lambda>_. io_each f cs) w = (r, w')" by simp
    then show "(\<forall>q repo' issue'. (q, repo', issue') \<noteq> (p, repo, issue) \<longrightarrow> shown q repo' issue' w' = shown q repo' issue' w)
      \<and> (\<exists>k. shown p repo issue w' = shown p repo issue w @ take k (c # cs) \<and> (r = Inr () \<longrightarrow> take k (c # cs) = c # cs))"
    proof (rule io_bindE)
      fix e assume one: "f c w = (Inl e, w')" and r: "r = Inl e"
      obtain k where k: "shown p repo issue w' = shown p repo issue w @ take k [c]"
        and others: "\<forall>q repo' issue'. (q, repo', issue') \<noteq> (p, repo, issue) \<longrightarrow> shown q repo' issue' w' = shown q repo' issue' w"
        by (rule posts_commentD [OF assms one]) (rule that; assumption)
      from k have "shown p repo issue w' = shown p repo issue w @ take (min k 1) (c # cs)" by (cases k) auto
      with others r show ?thesis by blast
    next
      fix x w1 assume one: "f c w = (Inr x, w1)" and rest: "io_each f cs w1 = (r, w')"
      obtain j where j: "shown p repo issue w1 = shown p repo issue w @ take j [c]"
        "Inr x = (Inr () :: unit result) \<longrightarrow> take j [c] = [c]"
        and first: "\<forall>q repo' issue'. (q, repo', issue') \<noteq> (p, repo, issue) \<longrightarrow> shown q repo' issue' w1 = shown q repo' issue' w"
        by (rule posts_commentD [OF assms one]) (rule that; assumption)
      have all: "shown p repo issue w1 = shown p repo issue w @ [c]" using j by simp
      obtain k where k: "shown p repo issue w' = shown p repo issue w1 @ take k cs"
        "r = Inr () \<longrightarrow> take k cs = cs"
        and others: "\<forall>q repo' issue'. (q, repo', issue') \<noteq> (p, repo, issue) \<longrightarrow> shown q repo' issue' w' = shown q repo' issue' w1"
        by (rule posts_commentD [OF Cons.IH rest]) (rule that; assumption)
      from k all have "shown p repo issue w' = shown p repo issue w @ take (Suc k) (c # cs)"
        "r = Inr () \<longrightarrow> take (Suc k) (c # cs) = c # cs" by simp_all
      moreover have "\<forall>q repo' issue'. (q, repo', issue') \<noteq> (p, repo, issue) \<longrightarrow> shown q repo' issue' w' = shown q repo' issue' w"
        using first others by simp
      ultimately show ?thesis by blast
    qed
  qed
qed

section \<open>Synchronisation\<close>

text \<open>Comments are added at the end, and their markers are new.\<close>

definition adds :: "string list \<Rightarrow> string list \<Rightarrow> bool" where
  "adds old new \<longleftrightarrow> (\<exists>more. new = old @ more \<and> distinct (markers more) \<and> set (markers more) \<inter> set (markers old) = {})"

lemma adds_refl: "adds old old"
  by (simp add: adds_def)

lemma adds_trans: "adds a b \<Longrightarrow> adds b c \<Longrightarrow> adds a c"
  unfolding adds_def by (elim exE conjE) (rule exI, auto)

lemma adds_count: "adds old new \<Longrightarrow> count_list (markers new) m \<le> max 1 (count_list (markers old) m)"
proof (unfold adds_def, elim exE conjE)
  fix more assume m: "new = old @ more" "distinct (markers more)" "set (markers more) \<inter> set (markers old) = {}"
  show ?thesis
  proof (cases "m \<in> set (markers more)")
    case True
    with m(3) have "count_list (markers old) m = 0" by (auto simp: count_list_0_iff)
    with m(1) count_marker_once [OF m(2), of m] show ?thesis by simp
  next
    case False
    then have "count_list (markers more) m = 0" by (simp add: count_list_0_iff)
    with m(1) show ?thesis by simp
  qed
qed

definition extends :: "(provider \<Rightarrow> string \<Rightarrow> string \<Rightarrow> 'w \<Rightarrow> string list) \<Rightarrow> 'w \<Rightarrow> 'w \<Rightarrow> bool" where
  "extends shown w w' \<longleftrightarrow> (\<forall>p repo issue. adds (shown p repo issue w) (shown p repo issue w'))"

interpretation adding: io_relation "extends shown" for shown
  by unfold_locales (use adds_refl adds_trans in \<open>unfold extends_def, blast+\<close>)

lemma quiet_adding: "quiet.keeps shown m \<Longrightarrow> adding.keeps shown m"
  unfolding quiet.keeps_def adding.keeps_def same_comments_def extends_def by (metis adds_refl)

lemma posting_missing:
  assumes m: "\<And>c. posts_comment shown p repo issue [c] (f c)"
    and run: "io_each f (comments_missing_from_issue comments existing) w = (r, w')"
    and dis: "distinct (markers comments)"
    and ex: "set (markers (map im_body existing)) = set (markers (shown p repo issue w))"
  shows "extends shown w w'"
    and "r = Inr () \<Longrightarrow> set (markers comments) \<subseteq> set (markers (shown p repo issue w'))"
proof -
  let ?missing = "comments_missing_from_issue comments existing"
  obtain k where
    k: "shown p repo issue w' = shown p repo issue w @ take k ?missing" "r = Inr () \<longrightarrow> take k ?missing = ?missing"
    and others: "\<forall>q repo' issue'. (q, repo', issue') \<noteq> (p, repo, issue) \<longrightarrow> shown q repo' issue' w' = shown q repo' issue' w"
    by (rule posts_commentD [OF posts_each [OF m] run]) (rule that; assumption)
  have split: "markers ?missing = markers (take k ?missing) @ markers (drop k ?missing)"
    by (metis append_take_drop_id markers_simps(3))
  have "distinct (markers ?missing)" unfolding missing_comments by (rule markers_filter(1) [OF dis])
  then have d: "distinct (markers (take k ?missing))" using split by simp
  have "set (markers ?missing) \<inter> set (markers (shown p repo issue w)) = {}"
    unfolding missing_comments ex by (auto simp: set_markers)
  then have "set (markers (take k ?missing)) \<inter> set (markers (shown p repo issue w)) = {}" using split by auto
  with d k(1) have "adds (shown p repo issue w) (shown p repo issue w')" by (auto simp: adds_def)
  with others adds_refl show "extends shown w w'" unfolding extends_def by (metis prod.inject)
  show "set (markers comments) \<subseteq> set (markers (shown p repo issue w'))" if "r = Inr ()"
  proof
    fix x assume x: "x \<in> set (markers comments)"
    show "x \<in> set (markers (shown p repo issue w'))"
    proof (cases "x \<in> set (markers (map im_body existing))")
      case False
      with x have "x \<in> set (markers ?missing)" unfolding missing_comments by (auto simp: set_markers)
      with k that show ?thesis by simp
    qed (use k(1) ex in simp)
  qed
qed

text \<open>A synchronisation of the comments of an issue: it returns the issue, which then shows them all.\<close>

definition synchronises ::
    "(provider \<Rightarrow> string \<Rightarrow> string \<Rightarrow> 'w \<Rightarrow> string list) \<Rightarrow> provider \<Rightarrow> string \<Rightarrow> string list \<Rightarrow> ('w, string) io \<Rightarrow> bool" where
  "synchronises shown p repo comments m \<longleftrightarrow> (\<forall>w r w'. m w = (r, w') \<longrightarrow>
     extends shown w w' \<and> (\<forall>issue. r = Inr issue \<longrightarrow> set (markers comments) \<subseteq> set (markers (shown p repo issue w'))))"

lemma synchronisesD:
  assumes "synchronises shown p repo comments m" "m w = (r, w')"
  shows "extends shown w w'" "r = Inr issue \<Longrightarrow> set (markers comments) \<subseteq> set (markers (shown p repo issue w'))"
  using assms unfolding synchronises_def by blast+

lemma synchronises_bind:
  assumes "adding.keeps shown m" "\<And>x. synchronises shown p repo comments (f x)"
  shows "synchronises shown p repo comments (io_bind m f)"
  unfolding synchronises_def
proof (intro allI impI)
  fix w r w' assume "io_bind m f w = (r, w')"
  then show "extends shown w w' \<and> (\<forall>issue. r = Inr issue \<longrightarrow> set (markers comments) \<subseteq> set (markers (shown p repo issue w')))"
  proof (rule io_bindE)
    fix e assume "m w = (Inl e, w')" "r = Inl e"
    with adding.keepsD [OF assms(1)] show ?thesis by blast
  next
    fix x w1 assume "m w = (Inr x, w1)" "f x w1 = (r, w')"
    with adding.keepsD [OF assms(1)] synchronisesD [OF assms(2)] adding.R_trans show ?thesis by metis
  qed
qed

lemma synchronises_end:
  assumes posts: "\<And>c. posts_comment shown p repo issue [c] (f c)" and dis: "distinct (markers comments)"
    and ex: "set (markers (map im_body existing)) = set (markers (shown p repo issue w))" and ext: "extends shown w0 w"
    and run: "io_bind (io_each f (comments_missing_from_issue comments existing)) (\<lambda>_. io_return (Ok issue)) w = (r, w')"
  shows "extends shown w0 w' \<and> (\<forall>i. r = Inr i \<longrightarrow> set (markers comments) \<subseteq> set (markers (shown p repo i w')))"
  using run
proof (rule io_bindE)
  fix e assume one: "io_each f (comments_missing_from_issue comments existing) w = (Inl e, w')" and "r = Inl e"
  with adding.R_trans [OF ext posting_missing(1) [OF posts one dis ex]] show ?thesis by simp
next
  fix x w1 assume one: "io_each f (comments_missing_from_issue comments existing) w = (Inr x, w1)"
    and "io_return (Ok issue) w1 = (r, w')"
  with adding.R_trans [OF ext posting_missing(1) [OF posts one dis ex]] posting_missing(2) [OF posts one dis ex]
  show ?thesis by (auto simp: io_return_def)
qed

lemma synchronises_update:
  assumes view: "quiet.keeps shown view"
      "\<And>w x w1. view w = (Inr x, w1) \<Longrightarrow> set (markers (map im_body (iw_comments x))) = set (markers (shown p repo issue w1))"
    and edit: "\<And>x. quiet.keeps shown (edit x)"
    and posts: "\<And>c. posts_comment shown p repo issue [c] (f c)" and dis: "distinct (markers comments)"
  shows "synchronises shown p repo comments
    (io_bind view (\<lambda>x. io_bind (edit x) (\<lambda>_.
     io_bind (io_each f (comments_missing_from_issue comments (iw_comments x))) (\<lambda>_. io_return (Ok issue)))))"
  unfolding synchronises_def
proof (intro allI impI)
  fix w r w'
  assume "io_bind view (\<lambda>x. io_bind (edit x) (\<lambda>_.
     io_bind (io_each f (comments_missing_from_issue comments (iw_comments x))) (\<lambda>_. io_return (Ok issue)))) w = (r, w')"
  then show "extends shown w w' \<and> (\<forall>i. r = Inr i \<longrightarrow> set (markers comments) \<subseteq> set (markers (shown p repo i w')))"
  proof (rule io_bindE, goal_cases)
    case (1 e)
    with adding.keepsD [OF quiet_adding [OF view(1)]] show ?case by blast
  next
    case (2 x w1)
    have ext: "extends shown w w1" by (rule adding.keepsD [OF quiet_adding [OF view(1)] 2(1)])
    from 2(2) show ?case
    proof (rule io_bindE, goal_cases)
      case (1 e)
      with adding.R_trans [OF ext adding.keepsD [OF quiet_adding [OF edit] 1(1)]] show ?case by simp
    next
      case (2 y w2)
      have "shown p repo issue w2 = shown p repo issue w1" using quiet.keepsD [OF edit 2(1)] by (simp add: same_comments_def)
      with view(2) [OF \<open>view w = _\<close>] have ex: "set (markers (map im_body (iw_comments x))) = set (markers (shown p repo issue w2))"
        by simp
      have "extends shown w w2" by (rule adding.R_trans [OF ext adding.keepsD [OF quiet_adding [OF edit] 2(1)]])
      from synchronises_end [OF posts dis ex this 2(2)] show ?case .
    qed
  qed
qed

lemma command_output_reply:
  "command_output cl p program args w = (Inr output, w')
   \<Longrightarrow> \<exists>reply. cl_output cl p program args w = (Inr reply, w') \<and> ro_success reply \<and> output = trim (ro_stdout reply)"
  by (auto simp: command_output_def io_bind_def io_return_def split: prod.splits sum.splits if_splits)

lemma synchronises_create:
  assumes host: "hosts_comments cl shown"
    and posts: "\<And>issue c. posts_comment shown p repo issue [c] (f issue c)" and dis: "distinct (markers comments)"
  shows "synchronises shown p repo comments
    (io_bind (command_output cl p program (''issue'' # ''create'' # ''--repo'' # repo # rest)) (\<lambda>output.
     io_bind (io_return (case parse_issue_number (cl_reply cl) output of None \<Rightarrow> Err e | Some issue \<Rightarrow> Ok issue)) (\<lambda>issue.
     io_bind (io_each (f issue) (comments_missing_from_issue comments [])) (\<lambda>_. io_return (Ok issue)))))"
  unfolding synchronises_def
proof (intro allI impI)
  let ?args = "''issue'' # ''create'' # ''--repo'' # repo # rest"
  have quiet: "quiet.keeps shown (command_output cl p program ?args)"
    by (rule quiet_command(1) [OF host]) (auto simp: posts_def split: list.splits)
  fix w r w'
  assume "io_bind (command_output cl p program ?args) (\<lambda>output.
     io_bind (io_return (case parse_issue_number (cl_reply cl) output of None \<Rightarrow> Err e | Some issue \<Rightarrow> Ok issue)) (\<lambda>issue.
     io_bind (io_each (f issue) (comments_missing_from_issue comments [])) (\<lambda>_. io_return (Ok issue)))) w = (r, w')"
  then show "extends shown w w' \<and> (\<forall>i. r = Inr i \<longrightarrow> set (markers comments) \<subseteq> set (markers (shown p repo i w')))"
  proof (rule io_bindE, goal_cases)
    case (1 e)
    with adding.keepsD [OF quiet_adding [OF quiet]] show ?case by blast
  next
    case (2 reply w1)
    have ext: "extends shown w w1" using adding.keepsD [OF quiet_adding [OF quiet] 2(1)] .
    from 2(2) show ?case
    proof (rule io_bindE, goal_cases)
      case (1 e)
      with ext show ?case by (auto simp: io_return_def)
    next
      case (2 issue w2)
      then have n: "parse_issue_number (cl_reply cl) reply = Some issue" and w2: "w2 = w1"
        by (auto simp: io_return_def split: option.splits)
      from command_output_reply [OF \<open>command_output _ _ _ _ w = _\<close>] n host have "shown p repo issue w1 = []"
        unfolding hosts_comments_def by blast
      then have ex: "set (markers (map im_body [])) = set (markers (shown p repo issue w1))" by simp
      from synchronises_end [OF posts dis ex] 2(2) w2 ext adding.R_trans show ?case by blast
    qed
  qed
qed

lemma host_prints:
  assumes "hosts_comments cl shown"
  shows "cl_output cl Github program [''issue'', ''view'', issue, ''--repo'', repo, ''--json'', ''labels,comments''] w = (Inr reply, w')
      \<Longrightarrow> ro_success reply \<Longrightarrow> cl_view cl (trim (ro_stdout reply)) = Inr view
      \<Longrightarrow> set (markers (map im_body (iw_comments view))) = set (markers (shown Github repo issue w'))"
    "cl_output cl Gitlab program [''issue'', ''view'', issue, ''--repo'', repo, ''--output'', ''json''] w = (Inr reply, w')
      \<Longrightarrow> ro_success reply \<Longrightarrow> cl_view cl (trim (ro_stdout reply)) = Inr view
      \<Longrightarrow> set (markers (map im_body (iw_comments view))) \<subseteq> set (markers (shown Gitlab repo issue w'))"
    "cl_output cl Gitlab program [''api'', ''projects/'' @ percent_encode_path repo @ ''/issues/'' @ issue @ ''/notes'', ''--paginate''] w
        = (Inr reply, w')
      \<Longrightarrow> ro_success reply
      \<Longrightarrow> (if trim (trim (ro_stdout reply)) = [] then Inr [] else cl_notes cl (trim (ro_stdout reply))) = Inr xs
      \<Longrightarrow> set (markers (map im_body xs)) = set (markers (shown Gitlab repo issue w'))"
proof -
  from assms have p: "prints_comments cl shown" unfolding hosts_comments_def by blast
  note parts = p [unfolded prints_comments_def]
  note github = parts [THEN conjunct1, rule_format] and view_part = parts [THEN conjunct2, THEN conjunct1, rule_format]
    and notes_part = parts [THEN conjunct2, THEN conjunct2, rule_format]
  show "cl_output cl Github program [''issue'', ''view'', issue, ''--repo'', repo, ''--json'', ''labels,comments''] w = (Inr reply, w')
      \<Longrightarrow> ro_success reply \<Longrightarrow> cl_view cl (trim (ro_stdout reply)) = Inr view
      \<Longrightarrow> set (markers (map im_body (iw_comments view))) = set (markers (shown Github repo issue w'))"
    by (rule github)
  show "cl_output cl Gitlab program [''issue'', ''view'', issue, ''--repo'', repo, ''--output'', ''json''] w = (Inr reply, w')
      \<Longrightarrow> ro_success reply \<Longrightarrow> cl_view cl (trim (ro_stdout reply)) = Inr view
      \<Longrightarrow> set (markers (map im_body (iw_comments view))) \<subseteq> set (markers (shown Gitlab repo issue w'))"
    by (rule view_part)
  show "cl_output cl Gitlab program [''api'', ''projects/'' @ percent_encode_path repo @ ''/issues/'' @ issue @ ''/notes'', ''--paginate''] w
        = (Inr reply, w')
      \<Longrightarrow> ro_success reply
      \<Longrightarrow> (if trim (trim (ro_stdout reply)) = [] then Inr [] else cl_notes cl (trim (ro_stdout reply))) = Inr xs
      \<Longrightarrow> set (markers (map im_body xs)) = set (markers (shown Gitlab repo issue w'))"
    by (rule notes_part)
qed

lemma github_view:
  assumes "hosts_comments cl shown"
  shows "quiet.keeps shown (github_issue_view cl program target issue)"
    "github_issue_view cl program target issue w = (Inr x, w1)
     \<Longrightarrow> set (markers (map im_body (iw_comments x))) = set (markers (shown Github (it_repo target) issue w1))"
proof -
  let ?args = "[''issue'', ''view'', issue, ''--repo'', it_repo target, ''--json'', ''labels,comments'']"
  show "quiet.keeps shown (github_issue_view cl program target issue)"
    unfolding github_issue_view_def by (intro quiet.keeps_control quiet_command(1) [OF assms]) (simp add: posts_def)
  assume "github_issue_view cl program target issue w = (Inr x, w1)"
  then obtain out where "command_output cl Github program ?args w = (Inr out, w1)" "cl_view cl out = Inr x"
    by (auto simp: github_issue_view_def io_bind_def io_return_def split: prod.splits sum.splits)
  with command_output_reply [of cl Github program ?args w out w1] host_prints(1) [OF assms]
  show "set (markers (map im_body (iw_comments x))) = set (markers (shown Github (it_repo target) issue w1))" by blast
qed

lemma gitlab_notes:
  assumes "hosts_comments cl shown"
  shows "quiet.keeps shown (gitlab_issue_notes cl program target issue)"
    "gitlab_issue_notes cl program target issue w = (Inr xs, w1)
     \<Longrightarrow> set (markers (map im_body xs)) = set (markers (shown Gitlab (it_repo target) issue w1))"
proof -
  let ?args = "[''api'', ''projects/'' @ percent_encode_path (it_repo target) @ ''/issues/'' @ issue @ ''/notes'', ''--paginate'']"
  show "quiet.keeps shown (gitlab_issue_notes cl program target issue)"
    unfolding gitlab_issue_notes_def by (intro quiet.keeps_control quiet_command(1) [OF assms]) (simp add: posts_def)
  assume "gitlab_issue_notes cl program target issue w = (Inr xs, w1)"
  then obtain out where out: "command_output cl Gitlab program ?args w = (Inr out, w1)"
    and xs: "(if trim out = [] then Inr [] else cl_notes cl out) = Inr xs"
    by (auto simp: gitlab_issue_notes_def io_bind_def io_return_def split: prod.splits sum.splits)
  from command_output_reply [OF out] obtain reply where
    reply: "cl_output cl Gitlab program ?args w = (Inr reply, w1)" "ro_success reply" and text_out: "out = trim (ro_stdout reply)"
    by (elim exE conjE)
  from host_prints(3) [OF assms reply xs [unfolded text_out]]
  show "set (markers (map im_body xs)) = set (markers (shown Gitlab (it_repo target) issue w1))" .
qed

lemma gitlab_view:
  assumes "hosts_comments cl shown"
  shows "quiet.keeps shown (gitlab_issue_view cl program target issue)"
    "gitlab_issue_view cl program target issue w = (Inr x, w1)
     \<Longrightarrow> set (markers (map im_body (iw_comments x))) = set (markers (shown Gitlab (it_repo target) issue w1))"
proof -
  let ?args = "[''issue'', ''view'', issue, ''--repo'', it_repo target, ''--output'', ''json'']"
  show "quiet.keeps shown (gitlab_issue_view cl program target issue)"
    unfolding gitlab_issue_view_def
    by (intro quiet.keeps_control quiet_command(1) [OF assms] gitlab_notes(1) [OF assms]) (simp add: posts_def)
  assume "gitlab_issue_view cl program target issue w = (Inr x, w1)"
  then obtain out w0 view ns where out: "command_output cl Gitlab program ?args w = (Inr out, w0)" "cl_view cl out = Inr view"
    and n: "gitlab_issue_notes cl program target issue w0 = (Inr ns, w1)" and x: "iw_comments x = iw_comments view @ ns"
    by (auto simp: gitlab_issue_view_def io_bind_def io_return_def split: prod.splits sum.splits)
  have v: "set (markers (map im_body (iw_comments view))) \<subseteq> set (markers (shown Gitlab (it_repo target) issue w0))"
    using command_output_reply [OF out(1)] out(2) host_prints(2) [OF assms] by blast
  have "shown Gitlab (it_repo target) issue w1 = shown Gitlab (it_repo target) issue w0"
    using quiet.keepsD [OF gitlab_notes(1) [OF assms] n] by (simp add: same_comments_def)
  with v gitlab_notes(2) [OF assms n] x
  show "set (markers (map im_body (iw_comments x))) = set (markers (shown Gitlab (it_repo target) issue w1))" by auto
qed

text \<open>The operations of the two adapters.\<close>

lemma finds_quietly:
  assumes "hosts_comments cl shown"
  shows "quiet.keeps shown (find_github_issue cl program target projection)"
    "quiet.keeps shown (find_gitlab_issue cl program target projection)"
  unfolding find_github_issue_def find_gitlab_issue_def required_marker_def
  by (intro quiet.keeps_control quiet_command(1) [OF assms]; simp add: posts_def)+

lemma edits_quietly:
  assumes "hosts_comments cl shown"
  shows "quiet.keeps shown (github_issue_edit cl program target issue projection update)"
    "quiet.keeps shown (gitlab_issue_update cl program target issue projection update)"
  unfolding github_issue_edit_def gitlab_issue_update_def label_args_def
  by (intro quiet_command(2) [OF assms]; simp add: posts_def)+

lemma comments_posted:
  assumes "hosts_comments cl shown"
  shows "posts_comment shown Github (it_repo target) issue [c] (github_comment cl program target issue c)"
    "posts_comment shown Gitlab (it_repo target) issue [c] (gitlab_comment cl program target issue c)"
  unfolding github_comment_def gitlab_comment_def by (intro posts_one [OF assms]; simp add: posts_def)+

lemma github_synchronises:
  assumes host: "hosts_comments cl shown" and dis: "distinct (markers (ip_comments projection))"
  shows "synchronises shown Github (it_repo target) (ip_comments projection) (github_update_issue cl program target projection issue)"
    "synchronises shown Github (it_repo target) (ip_comments projection) (github_create_issue cl program target projection)"
  unfolding github_update_issue_def github_create_issue_def sync_missing_github_comments_def append.simps
  by (rule synchronises_update github_view edits_quietly comments_posted synchronises_create host dis; assumption?)+

lemma gitlab_synchronises:
  assumes host: "hosts_comments cl shown" and dis: "distinct (markers (ip_comments projection))"
  shows "synchronises shown Gitlab (it_repo target) (ip_comments projection) (gitlab_update_issue cl program target projection issue)"
    "synchronises shown Gitlab (it_repo target) (ip_comments projection) (gitlab_create_issue cl program target projection)"
  unfolding gitlab_update_issue_def gitlab_create_issue_def sync_missing_gitlab_comments_def append.simps
  by (rule synchronises_update gitlab_view edits_quietly comments_posted synchronises_create host dis; assumption?)+

text \<open>What one projection leaves: no marker twice, and on success all the markers of its comments.\<close>

lemma sync_effect:
  assumes host: "hosts_comments cl shown" and dis: "distinct (markers (ip_comments projection))"
    and run: "sync_projection cl p target projection w = (r, w')"
  shows "extends shown w w'"
    "r = Inr result \<Longrightarrow> set (markers (ip_comments projection)) \<subseteq> set (markers (shown p (it_repo target) (is_issue result) w'))"
proof -
  obtain m url where m: "\<And>program. synchronises shown p (it_repo target) (ip_comments projection) (m program)"
    and eq: "sync_projection cl p target projection = io_bind (cl_program cl p) (\<lambda>program.
          io_bind (m program) (\<lambda>issue. io_return (Ok \<lparr>is_issue = issue, is_url = url issue\<rparr>)))"
  proof (cases p)
    case Github
    show thesis
      by (rule that [of "\<lambda>program. case it_issue target of
          Some issue \<Rightarrow> github_update_issue cl program target projection issue
        | None \<Rightarrow> io_bind (find_github_issue cl program target projection) (\<lambda>found.
            (case found of Some issue \<Rightarrow> github_update_issue cl program target projection issue
             | None \<Rightarrow> github_create_issue cl program target projection))"])
        (use Github github_synchronises [OF host dis] finds_quietly [OF host] in
          \<open>auto simp: sync_projection_def github_sync_projection_def split: option.splits
             intro!: synchronises_bind quiet_adding\<close>)
  next
    case Gitlab
    show thesis
      by (rule that [of "\<lambda>program. case it_issue target of
          Some issue \<Rightarrow> gitlab_update_issue cl program target projection issue
        | None \<Rightarrow> io_bind (find_gitlab_issue cl program target projection) (\<lambda>found.
            (case found of Some issue \<Rightarrow> gitlab_update_issue cl program target projection issue
             | None \<Rightarrow> gitlab_create_issue cl program target projection))"])
        (use Gitlab gitlab_synchronises [OF host dis] finds_quietly [OF host] in
          \<open>auto simp: sync_projection_def gitlab_sync_projection_def split: option.splits
             intro!: synchronises_bind quiet_adding\<close>)
  qed
  have "extends shown w w' \<and> (\<forall>result. r = Inr result \<longrightarrow>
      set (markers (ip_comments projection)) \<subseteq> set (markers (shown p (it_repo target) (is_issue result) w')))"
    using run [unfolded eq]
  proof (rule io_bindE, goal_cases)
    case (1 e)
    with adding.keepsD [OF quiet_adding [OF quiet_program [OF host]] 1(1)] show ?case by simp
  next
    case (2 program w1)
    have ext: "extends shown w w1" by (rule adding.keepsD [OF quiet_adding [OF quiet_program [OF host]] 2(1)])
    from 2(2) show ?case
    proof (rule io_bindE, goal_cases)
      case (1 e)
      with adding.R_trans [OF ext synchronisesD(1) [OF m 1(1)]] show ?case by simp
    next
      case (2 issue w2)
      with adding.R_trans [OF ext synchronisesD(1) [OF m 2(1)]] synchronisesD(2) [OF m 2(1)] show ?case
        by (auto simp: io_return_def)
    qed
  qed
  then show "extends shown w w'"
    "r = Inr result \<Longrightarrow> set (markers (ip_comments projection)) \<subseteq> set (markers (shown p (it_repo target) (is_issue result) w'))"
    by blast+
qed

lemma quiet_adapter:
  assumes "hosts_comments cl shown"
  shows "quiet.keeps shown (verify_destination cl p repo)" "quiet.keeps shown (close_issue cl p target)"
  unfolding verify_destination_def close_issue_def github_verify_destination_def gitlab_verify_destination_def github_close_def
    gitlab_close_def required_issue_def
  by (cases p; simp; intro quiet.keeps_control quiet_program [OF assms] quiet_command(2) [OF assms]; simp add: posts_def)+

section \<open>Projections\<close>

lemma event_markers:
  assumes "\<And>v. v \<in> set evs \<Longrightarrow> CHR '' '' \<notin> set (ev_id v)"
  shows "markers (map (event_comment so) evs) = map (\<lambda>v. ''iq:event:'' @ ev_id v) evs"
  using assms by (induction evs) (simp_all add: event_comment_marker)

lemma project_effect:
  assumes host: "hosts_comments (so_client so) shown" and dis: "distinct (map ev_id evs)"
    and ids: "\<And>v. v \<in> set evs \<Longrightarrow> CHR '' '' \<notin> set (ev_id v)"
    and run: "project so e evs artifact (w, d) = (r, (w', d'))"
  shows "extends shown w w'"
    "r = Inr (Some a) \<Longrightarrow> snapshot_adapter (ef_state_repository e) = Some (p, issue) \<Longrightarrow> v \<in> set evs
     \<Longrightarrow> relevant_event (irs_visibility issue) v
     \<Longrightarrow> ''iq:event:'' @ ev_id v \<in> set (markers (shown p (irs_repository issue) (ra_id a) w'))"
proof -
  have "extends shown w w' \<and> (\<forall>a p issue. r = Inr (Some a) \<longrightarrow> snapshot_adapter (ef_state_repository e) = Some (p, issue)
      \<longrightarrow> (\<forall>v \<in> set evs. relevant_event (irs_visibility issue) v
        \<longrightarrow> ''iq:event:'' @ ev_id v \<in> set (markers (shown p (irs_repository issue) (ra_id a) w'))))"
  proof (cases "snapshot_adapter (ef_state_repository e)")
    case None
    with run adding.R_refl show ?thesis by (auto simp: project_def act_return_def)
  next
    case (Some x)
    then obtain q snapshot where x: "snapshot_adapter (ef_state_repository e) = Some (q, snapshot)" by (cases x) auto
    let ?relevant = "filter (relevant_event (irs_visibility snapshot)) evs"
    have m: "markers (map (event_comment so) ?relevant) = map (\<lambda>v. ''iq:event:'' @ ev_id v) ?relevant"
      by (rule event_markers) (use ids in auto)
    have d: "distinct (markers (map (event_comment so) ?relevant))"
      unfolding m using distinct_map_filter [OF dis] by (simp add: distinct_map inj_on_def)
    show ?thesis
    proof (cases "r = Inr None \<and> w' = w \<or> (\<exists>e. r = Inl e) \<and> w' = w")
      case True
      with adding.R_refl show ?thesis by auto
    next
      case False
      with run obtain state result where sync: "sync_projection (so_client so) q \<lparr>it_repo = irs_repository snapshot, it_issue = artifact\<rparr>
          (effort_projection so e ?relevant state) w = (result, w')"
        and r: "r = map_sum id (\<lambda>result. Some \<lparr>ra_id = is_issue result, ra_url = is_url result\<rparr>) result"
        by (auto simp: project_def x act_bind_def act_return_def so_io_def act_world_def Let_def split: sum.splits if_splits prod.splits)
      have d': "distinct (markers (ip_comments (effort_projection so e ?relevant state)))"
        using d by (simp add: effort_projection_def)
      from sync_effect [OF host d' sync] r m x show ?thesis
        by (cases result) (auto simp: effort_projection_def)
    qed
  qed
  then show "extends shown w w'"
    "r = Inr (Some a) \<Longrightarrow> snapshot_adapter (ef_state_repository e) = Some (p, issue) \<Longrightarrow> v \<in> set evs
     \<Longrightarrow> relevant_event (irs_visibility issue) v
     \<Longrightarrow> ''iq:event:'' @ ev_id v \<in> set (markers (shown p (irs_repository issue) (ra_id a) w'))" by blast+
qed

end
