(* ===== verification/State_Repository_Example.thy ===== *)
theory State_Repository_Example
  imports State_Repository Issue_Effects Example_Run
begin

text \<open>
  A host with the issues of one repository, which keeps the comments that are posted, and an effort that asks a question in its
  issue.  The theorems about issues and comments are instantiated here.
\<close>

section \<open>A host\<close>

text \<open>The world is the list of the posted comments: provider, repository, issue and body.\<close>

type_synonym gx_world = "(provider \<times> string \<times> string \<times> string) list"

definition gx_shown :: "provider \<Rightarrow> string \<Rightarrow> string \<Rightarrow> gx_world \<Rightarrow> string list" where
  "gx_shown p repo issue w = map (\<lambda>(_, _, _, b). b) (filter (\<lambda>(q, r, i, _). q = p \<and> r = repo \<and> i = issue) w)"

text \<open>What the client prints: every character of a body after an \<open>x\<close>, and a \<open>y\<close> after the body.\<close>

definition gx_body :: "string \<Rightarrow> string" where
  "gx_body b = concat (map (\<lambda>c. [CHR ''x'', c]) b) @ ''y''"

definition gx_text :: "string list \<Rightarrow> string" where
  "gx_text bodies = concat (map gx_body bodies)"

fun gx_bodies :: "string \<Rightarrow> string \<Rightarrow> string list" where
  "gx_bodies acc [] = []"
| "gx_bodies acc (a # s) =
     (if a = CHR ''y'' then rev acc # gx_bodies [] s else (case s of [] \<Rightarrow> [] | c # s \<Rightarrow> gx_bodies (c # acc) s))"

lemma gx_bodies_body: "gx_bodies acc (gx_body b @ s) = (rev acc @ b) # gx_bodies [] s"
  by (induction b arbitrary: acc) (simp_all add: gx_body_def)

lemma gx_bodies_text: "gx_bodies [] (gx_text bodies) = bodies"
  by (induction bodies) (simp_all add: gx_text_def gx_bodies_body)

lemma gx_text_trim: "trim (gx_text bodies) = gx_text bodies"
proof (cases "bodies = []")
  case True
  then show ?thesis by (simp add: gx_text_def trim_id)
next
  case False
  have "\<exists>u. gx_text bodies = u @ [CHR ''y'']"
    using False by (induction bodies rule: rev_induct) (auto simp: gx_text_def gx_body_def)
  then obtain u where u: "gx_text bodies = u @ [CHR ''y'']" ..
  have "\<exists>c t. gx_text bodies = c # t \<and> c \<in> {CHR ''x'', CHR ''y''}"
  proof (cases bodies)
    case (Cons b bs)
    then show ?thesis by (cases b) (simp_all add: gx_text_def gx_body_def)
  qed (use False in simp)
  then obtain c t where c: "gx_text bodies = c # t" "c \<in> {CHR ''x'', CHR ''y''}" by blast
  have alnum: "is_ascii_alphanumeric c" if "c \<in> {CHR ''x'', CHR ''y''}" for c using that by (auto simp: ascii_defs)
  show ?thesis by (rule trim_plain [OF alnum [OF c(2)] alnum c(1) u]) simp
qed

definition gx_reply :: "string \<Rightarrow> command_reply" where
  "gx_reply s = \<lparr>ro_success = True, ro_stdout = s, ro_stderr = []\<rparr>"

definition gx_refusal :: command_reply where
  "gx_refusal = \<lparr>ro_success = False, ro_stdout = [], ro_stderr = ''no''\<rparr>"

text \<open>GitLab refuses every command but the posting of a comment; GitHub has one issue, which is created once.\<close>

definition gx_other :: "provider \<Rightarrow> string list \<Rightarrow> gx_world \<Rightarrow> command_reply" where
  "gx_other p args w =
     (if p = Gitlab \<or> take 2 args = [''issue'', ''create''] \<and> w \<noteq> [] then gx_refusal else gx_reply ''/issues/7'')"

definition gx_output :: "provider \<Rightarrow> string \<Rightarrow> string list \<Rightarrow> (gx_world, command_reply) io" where
  "gx_output p program args w =
     (case posts p args of
        Some (repo, issue, body) \<Rightarrow> (Inr (gx_reply []), w @ [(p, repo, issue, body)])
      | None \<Rightarrow>
          (Inr (case args of
             [a, verb, issue, b, repo, flag, members] \<Rightarrow>
               if p = Github \<and> verb = ''view'' then gx_reply (gx_text (gx_shown p repo issue w)) else gx_other p args w
           | _ \<Rightarrow> gx_other p args w), w))"

definition gx_client :: "gx_world issue_client" where
  "gx_client = \<lparr>cl_program = (\<lambda>p w. (Inr ''gh'', w)), cl_output = gx_output, cl_lossy = id,
     cl_view = (\<lambda>t. Inr \<lparr>iw_labels = [], iw_comments = map (\<lambda>b. \<lparr>im_id = None, im_body = b, im_author = None\<rparr>) (gx_bodies [] t)\<rparr>),
     cl_notes = (\<lambda>_. Inl (Bail ''no'')), cl_listed = (\<lambda>_. Inr []), cl_pages = (\<lambda>_. Inr []), cl_reply = (\<lambda>_. None)\<rparr>"

lemma gx_hosts: "hosts_comments gx_client gx_shown"
proof -
  have effect: "comment_effect gx_shown p args w r w'" if "gx_output p program args w = (r, w')" for p program args w r w'
    using that by (auto simp: gx_output_def comment_effect_def same_comments_def gx_shown_def split: option.splits)
  have body: "map im_body (map (\<lambda>b. \<lparr>im_id = None, im_body = b, im_author = None\<rparr>) bs) = bs" for bs by (induction bs) simp_all
  have "prints_comments gx_client gx_shown"
    unfolding prints_comments_def
    by (auto simp: gx_client_def gx_output_def posts_def gx_other_def gx_refusal_def gx_text_trim gx_bodies_text gx_reply_def comp_def
        split: list.splits)
  moreover have "shown_empty" if "shown_empty \<longleftrightarrow> (\<forall>p program repo rest w reply w' issue.
      gx_output p program (''issue'' # ''create'' # ''--repo'' # repo # rest) w = (Inr reply, w')
      \<longrightarrow> ro_success reply \<longrightarrow> gx_shown p repo issue w' = [])" for shown_empty
    unfolding that
    by (auto simp: gx_output_def posts_def gx_other_def gx_refusal_def gx_shown_def split: list.splits if_splits)
  ultimately show ?thesis
    using effect unfolding hosts_comments_def by (auto simp: gx_client_def same_comments_def)
qed

section \<open>A question in an issue\<close>

definition gx_issue :: issue_repository_snapshot where
  "gx_issue = \<lparr>irs_repository = ''o/n'', irs_visibility = Full, irs_allowed_responders = [''me'']\<rparr>"

definition gx_notifier :: "gx_world notifier" where
  "gx_notifier = \<lparr>nt_now = (\<lambda>w. (0, w)), nt_rfc3339 = (\<lambda>_. ''t''), nt_parse = (\<lambda>_. Inr 0), nt_uuid = (\<lambda>w. (''z'', w)),
     nt_connect = (\<lambda>w. (Inr (), w)), nt_run_backend = (\<lambda>_ _ w. (Inr (), w)), nt_print = (\<lambda>_. [])\<rparr>"

definition gx_answer :: provider_answer where
  "gx_answer = \<lparr>pv_version = 1, pv_request_id = ''g'', pv_effort_id = ''uv'', pv_attempt_id = ''a'', pv_cycle_id = ''c'',
     pv_target_sha = sha (CHR ''0''), pv_source_sha = sha (CHR ''1''), pv_candidate_sha = None, pv_answer = ''z''\<rparr>"

definition gx_ops :: "gx_world state_ops" where
  "gx_ops = \<lparr>so_notifier = gx_notifier, so_client = gx_client, so_json = (\<lambda>_. Inr ''{}''), so_payload = (\<lambda>_. ''{}''),
     so_response = (\<lambda>body. if body = ''z'' then Some (ResponseAnswer gx_answer) else None), so_uid = 5, so_instant = (\<lambda>_. True)\<rparr>"

definition gx_source :: comment_source where
  "gx_source = \<lparr>cs_provider = ''github'', cs_repository = ''o/n'', cs_artifact_id = ''7'', cs_effort_id = ''uv''\<rparr>"

definition gx_comment :: issue_answer_comment where
  "gx_comment = \<lparr>ia_id = ''GitHub:1'', ia_actor = Some ''me'', ia_body = ''z''\<rparr>"

definition gx_event :: event where
  "gx_event = \<lparr>ev_sequence = 1, ev_id = ''v'', ev_item_id = ''i'', ev_effort_id = Some ''uv'', ev_type = ''agent_ready'',
     ev_payload = PayloadFields [], ev_alert = False, ev_created_at = ''t''\<rparr>"

definition gx_start :: "request list" where
  "gx_start = [CreateEffort (ex_new\<lparr>ne_state_repository := GithubIssue gx_issue\<rparr>)] @ ex_cycle ''c'' 1
     @ [RequireGuidance ''uv'' ex_guidance]"

definition gx_ingested :: "db \<Rightarrow> answer_disposition list result \<times> (gx_world \<times> db)" where
  "gx_ingested d = ingest_comments gx_ops gx_source [gx_comment] ([], d)"

definition gx_asking :: "((answer_disposition list \<times> bool list) \<times> (string \<times> state_repository_snapshot) list) result" where
  "gx_asking =
     bnd (perform_all 1 gx_start ex_db) (\<lambda>d.
     (case gx_ingested d of
        (r, s) \<Rightarrow>
          bnd r (\<lambda>dispositions.
          Ok ((dispositions, map (\<lambda>d. list_ex (\<lambda>e. is_provider_input_state (ef_state e)) (efforts d)) [d, snd s]),
              map (\<lambda>e. (ef_id e, ef_state_repository e)) (efforts d)))))"

lemma gx_asking_value: "gx_asking = Inr (([Applied], [True, False]), [(''uv'', GithubIssue gx_issue)])"
  by code_simp

definition gx_asked :: db where "gx_asked = the_ok (perform_all 1 gx_start ex_db)"
definition gx_answered :: "gx_world \<times> db" where "gx_answered = snd (gx_ingested gx_asked)"

lemma gx_run:
  "perform_all 1 gx_start ex_db = Inr gx_asked" "ingest_comments gx_ops gx_source [gx_comment] ([], gx_asked) = (Inr [Applied], gx_answered)"
  "efforts gx_asked = [ex_effort gx_asked]" "ef_id (ex_effort gx_asked) = ''uv''" "ef_state_repository (ex_effort gx_asked) = GithubIssue gx_issue"
  "ex_effort gx_asked \<notin> set (efforts (snd gx_answered))"
proof -
  from gx_asking_value obtain d where d: "perform_all 1 gx_start ex_db = Inr d"
    and rest: "(case gx_ingested d of
        (r, s) \<Rightarrow>
          bnd r (\<lambda>dispositions.
          Ok ((dispositions, map (\<lambda>d. list_ex (\<lambda>e. is_provider_input_state (ef_state e)) (efforts d)) [d, snd s]),
              map (\<lambda>e. (ef_id e, ef_state_repository e)) (efforts d)))) = Inr (([Applied], [True, False]), [(''uv'', GithubIssue gx_issue)])"
    unfolding gx_asking_def by (auto simp: bnd_eq_Ok)
  have asked: "gx_asked = d" by (simp only: gx_asked_def the_ok_def d sum.case)
  show "perform_all 1 gx_start ex_db = Inr gx_asked" unfolding asked by (rule d)
  obtain r s where g: "gx_ingested d = (r, s)" by (cases "gx_ingested d")
  with rest have r: "r = Inr [Applied]" and b: "list_ex (\<lambda>e. is_provider_input_state (ef_state e)) (efforts d)"
    "\<not> list_ex (\<lambda>e. is_provider_input_state (ef_state e)) (efforts (snd s))" and e: "map (\<lambda>e. (ef_id e, ef_state_repository e)) (efforts d) = [(''uv'', GithubIssue gx_issue)]"
    by (auto simp: bnd_eq_Ok)
  from g r show "ingest_comments gx_ops gx_source [gx_comment] ([], gx_asked) = (Inr [Applied], gx_answered)"
    by (simp add: gx_answered_def gx_ingested_def asked)
  from e show one: "efforts gx_asked = [ex_effort gx_asked]" "ef_id (ex_effort gx_asked) = ''uv''" "ef_state_repository (ex_effort gx_asked) = GithubIssue gx_issue"
    unfolding asked ex_effort_def by (auto simp: map_eq_Cons_conv)
  from b one g show "ex_effort gx_asked \<notin> set (efforts (snd gx_answered))"
    by (auto simp: asked gx_answered_def list_ex_iff)
qed

section \<open>An event in an issue\<close>

definition gx_effort :: effort where
  "gx_effort = effort_of_new ''uv'' ''t'' (ex_new\<lparr>ne_state_repository := GithubIssue gx_issue\<rparr>)"

definition gx_reported :: "gx_world \<Rightarrow> repository_artifact_id option result \<times> (gx_world \<times> db)" where
  "gx_reported w = project_outside gx_ops gx_effort [gx_event] (Some ''7'') (w, ex_db)"

definition gx_reports :: "(repository_artifact_id option result \<times> gx_world) list" where
  "gx_reports = (case gx_reported [] of (r, s) \<Rightarrow> case gx_reported (fst s) of (q, t) \<Rightarrow> [(r, fst s), (q, fst t)])"

lemma gx_reports_value:
  "gx_reports = (let comments = [(Github, ''o/n'', ''7'', event_comment gx_ops gx_event)];
     artifact = Inr (Some \<lparr>ra_id = ''7'', ra_url = ''https://github.com/o/n/issues/7''\<rparr>)
   in [(artifact, comments), (artifact, comments)])"
  by code_simp

definition gx_first :: gx_world where "gx_first = fst (snd (gx_reported []))"
definition gx_second :: gx_world where "gx_second = fst (snd (gx_reported gx_first))"

lemma gx_reported_twice:
  "gx_reported gx_first = (Inr (Some \<lparr>ra_id = ''7'', ra_url = ''https://github.com/o/n/issues/7''\<rparr>), (gx_second, snd (snd (gx_reported gx_first))))"
  "gx_first = [(Github, ''o/n'', ''7'', event_comment gx_ops gx_event)]"
  using gx_reports_value by (auto simp: gx_reports_def gx_first_def gx_second_def Let_def split: prod.splits)

lemma gx_asked_inv: "store_inv gx_asked"
  by (rule fresh_run_inv [OF ex_fresh perform_all_run [OF gx_run(1)]])

text \<open>An effort with an issue; the effort after its end, whose issue was left open; and a reservation with an unreachable host.\<close>

definition gx_alone :: db where
  "gx_alone = ex_db\<lparr>efforts := [gx_effort]\<rparr>"

definition gx_ended :: effort where
  "gx_ended = gx_effort\<lparr>ef_state := Cancelled \<lparr>ca_actor = ''me'', ca_reason = ''why'', ca_cancelled_at = ''t''\<rparr>,
     ef_state_repository := GithubIssue (gx_issue\<lparr>irs_visibility := Minimal\<rparr>)\<rparr>"

definition gx_artifact :: artifact where
  "gx_artifact = \<lparr>sr_effort_id = ''uv'', sr_provider = ''github'', sr_repository = ''o/n'', sr_artifact_id = ''7'',
     sr_artifact_url = ''https://github.com/o/n/issues/7'', sr_projection_revision = 1, sr_last_event_sequence = 1,
     sr_state = ''active'', sr_created_at = ''t'', sr_updated_at = ''t''\<rparr>"

definition gx_stale :: db where
  "gx_stale = ex_db\<lparr>efforts := [gx_ended], artifacts := [gx_artifact], events := [gx_event\<lparr>ev_type := ''cancelled''\<rparr>]\<rparr>"

definition gx_reserving :: db where
  "gx_reserving = ex_db\<lparr>bindings := [\<lparr>sr_item_id = ''i'', sr_snapshot = GitlabIssue gx_issue, sr_reservation_state = ReservationPending,
     sr_bound_at = ''t''\<rparr>]\<rparr>"

end
