(* ===== verification/State_Repository_Properties.thy ===== *)
theory State_Repository_Properties
  imports State_Repository_Runs State_Repository_Example
begin

text \<open>
  The properties of the state repository: the cycle of the daemon as a run of the store, comments and their commands, the
  reporting of events, the labels and the number of an issue, and the retries of projections.
\<close>

section \<open>Issue numbers\<close>

lemma decimal_digits: "list_all is_ascii_digit (decimal_text n) \<and> decimal_text n \<noteq> []"
proof (induction n rule: decimal_text.induct)
  case (1 n)
  have "is_ascii_digit (char_of (48 + k))" if "k < (10 :: nat)" for k using that by (simp add: is_ascii_digit_def)
  then show ?case using 1 by (subst (1 2) decimal_text.simps) simp
qed

lemma starts_segment:
  assumes "c \<notin> set seg" "c \<notin> set m"
  shows "starts_with (seg @ c # rest) (m @ [c]) \<longleftrightarrow> seg = m"
  using assms
proof (induction seg arbitrary: m)
  case Nil
  then show ?case by (cases m) (auto simp: starts_with_def)
next
  case (Cons a seg)
  then show ?case by (cases m) (auto simp: starts_with_def)
qed

lemma split_segment:
  assumes "CHR ''/'' \<notin> set seg"
  shows "split_text_once ''/issues/'' (CHR ''/'' # seg @ CHR ''/'' # rest) =
    (if seg = ''issues'' then Some ([], rest)
     else map_option (\<lambda>(x, y). (CHR ''/'' # seg @ x, y)) (split_text_once ''/issues/'' (CHR ''/'' # rest)))"
proof (cases "seg = ''issues''")
  case True
  then show ?thesis by (simp add: starts_with_def)
next
  case False
  have "\<not> starts_with (CHR ''/'' # seg @ CHR ''/'' # rest) ''/issues/''"
    using starts_segment [OF assms, of "''issues''" rest] False by (simp add: starts_with_def)
  with False show ?thesis
    using split_text_clear [OF assms, of "''/issues/''" "''issues/''" "CHR ''/'' # rest"]
    by (cases "split_text_once ''/issues/'' (CHR ''/'' # rest)") auto
qed

lemma last_part_digits:
  assumes "list_all is_ascii_digit n"
  shows "split_text_once ''/issues/'' n = None" "split_text_once ''/issues/'' (CHR ''/'' # n) = None"
proof -
  have s: "CHR ''/'' \<notin> set n" using assms by (auto simp: list_all_iff is_ascii_digit_def)
  from split_text_clear [OF s, of "''/issues/''" "''issues/''" "[]"] show n: "split_text_once ''/issues/'' n = None" by simp
  have "\<not> starts_with (CHR ''/'' # n) ''/issues/''"
  proof
    assume "starts_with (CHR ''/'' # n) ''/issues/''"
    then have "CHR ''i'' \<in> set n" by (cases n) (auto simp: starts_with_def)
    with assms show False by (auto simp: list_all_iff is_ascii_digit_def)
  qed
  with n show "split_text_once ''/issues/'' (CHR ''/'' # n) = None" by simp
qed

lemma no_dash_segment:
  assumes "CHR ''/'' \<notin> set seg"
  shows "contains_text (seg @ CHR ''/'' # rest) ''/-/issues/'' \<longleftrightarrow> contains_text (CHR ''/'' # rest) ''/-/issues/''"
  using assms by (induction seg) (auto simp: starts_with_def)

lemma dash_segment:
  assumes "CHR ''/'' \<notin> set seg" "seg \<noteq> ''-''"
  shows "contains_text (CHR ''/'' # seg @ CHR ''/'' # rest) ''/-/issues/'' \<longleftrightarrow> contains_text (CHR ''/'' # rest) ''/-/issues/''"
proof -
  have "\<not> starts_with (CHR ''/'' # seg @ CHR ''/'' # rest) ''/-/issues/''"
    using starts_segment [OF assms(1), of "''-''" rest] assms(2) by (auto simp: starts_with_iff)
  then show ?thesis using no_dash_segment [OF assms(1)] by simp
qed

lemma last_part_steps:
  "split_text_once m s = None \<Longrightarrow> last_part m s = s"
  "split_text_once m s = Some (a, b) \<Longrightarrow> m \<noteq> [] \<Longrightarrow> last_part m s = last_part m b"
  by (simp_all add: last_part.simps [of m s])

lemma takeWhile_digits: "takeWhile is_ascii_digit (decimal_text n) = decimal_text n"
  using decimal_digits by (simp add: list_all_iff takeWhile_eq_all_conv)

text \<open>The address that \<open>gh issue create\<close> prints.\<close>

definition issue_address :: "string \<Rightarrow> string \<Rightarrow> nat \<Rightarrow> string" where
  "issue_address owner name n =
     ''https:'' @ CHR ''/'' # [] @ CHR ''/'' # ''github.com'' @ CHR ''/'' # owner @ CHR ''/'' # name @ CHR ''/'' # ''issues''
     @ CHR ''/'' # decimal_text n"

lemma address_trim: "trim (issue_address owner name n) = issue_address owner name n"
proof -
  obtain d z where d: "decimal_text n = d @ [z]" using decimal_digits [of n] by (metis rev_exhaust)
  then have z: "is_ascii_alphanumeric z" and h: "is_ascii_alphanumeric (CHR ''h'')"
    using decimal_digits [of n] by (simp_all add: ascii_defs)
  show ?thesis
    by (rule trim_plain [OF h z, where t = "tl (issue_address owner name n)" and u = "butlast (issue_address owner name n)"])
      (simp_all add: issue_address_def d butlast_append)
qed

lemma contains_text_set: "contains_text s p \<Longrightarrow> set p \<subseteq> set s"
proof (induction s)
  case (Cons a s)
  show ?case
  proof (cases "starts_with (a # s) p")
    case True
    then obtain r where "a # s = p @ r" by (auto simp: starts_with_iff)
    then have "set (a # s) = set p \<union> set r" by (metis set_append)
    then show ?thesis by blast
  qed (use Cons in auto)
qed simp

text \<open>C37: The number of an issue that GitHub has created is read back from the address it prints, except for a repository
  called \<open>issues\<close>: there \<open>split\<close> finds the separator in the name and takes the slash before the number's with it, and the number is lost.\<close>

theorem created_issue_numbers_are_read:
  assumes "CHR ''/'' \<notin> set owner" "CHR ''/'' \<notin> set name" "owner \<noteq> ''-''" "name \<noteq> ''-''" "owner \<noteq> ''issues''"
    and "json (issue_address owner name n) = None"
  shows "parse_issue_number json (issue_address owner name n) = (if name = ''issues'' then None else Some (decimal_text n))"
proof -
  note segments = split_segment [of "[]", unfolded append.simps] split_segment [of "''github.com''", unfolded append.simps]
    split_segment [OF assms(1)] split_segment [OF assms(2)] split_segment [of "''issues''", unfolded append.simps]
  note dashes = dash_segment [of "[]", unfolded append.simps] dash_segment [of "''github.com''", unfolded append.simps] dash_segment [OF assms(1,3)]
    dash_segment [OF assms(2,4)] dash_segment [of "''issues''" "decimal_text n", unfolded append.simps]
  have tail: "\<not> contains_text (CHR ''/'' # decimal_text n) ''/-/issues/''"
  proof
    assume "contains_text (CHR ''/'' # decimal_text n) ''/-/issues/''"
    from contains_text_set [OF this] have "CHR ''-'' \<in> set (decimal_text n)" by simp
    with decimal_digits [of n] have "is_ascii_digit (CHR ''-'')" by (simp add: list_all_iff)
    then show False by (simp add: is_ascii_digit_def)
  qed
  have "contains_text (issue_address owner name n) ''/-/issues/''
      = contains_text (CHR ''/'' # CHR ''/'' # ''github.com'' @ CHR ''/'' # owner @ CHR ''/'' # name @ CHR ''/'' # ''issues''
          @ CHR ''/'' # decimal_text n) ''/-/issues/''"
    by (simp add: issue_address_def starts_with_def del: contains_text.simps add: contains_text.simps(2) [of "CHR ''h''"]
        contains_text.simps(2) [of "CHR ''t''"] contains_text.simps(2) [of "CHR ''p''"] contains_text.simps(2) [of "CHR ''s''"]
        contains_text.simps(2) [of "CHR '':''"])
  also have "\<dots> = False" using tail by (simp add: dashes del: contains_text.simps)
  finally have dash: "\<not> contains_text (issue_address owner name n) ''/-/issues/''" by simp
  have prefix: "split_text_once ''/issues/'' (issue_address owner name n) = map_option (\<lambda>(x, y). (''https:'' @ x, y))
      (split_text_once ''/issues/'' (CHR ''/'' # CHR ''/'' # ''github.com'' @ CHR ''/'' # owner @ CHR ''/'' # name @ CHR ''/'' # ''issues''
          @ CHR ''/'' # decimal_text n))"
    unfolding issue_address_def by (subst split_text_clear [where c = "CHR ''/''" and m' = "''issues/''"]) simp_all
  note digits = last_part_digits [OF conjunct1 [OF decimal_digits [of n]]]
  have number: "issue_number_of_text (issue_address owner name n) = (if name = ''issues'' then None else Some (decimal_text n))"
  proof (cases "name = ''issues''")
    case True
    then have "\<exists>x. split_text_once ''/issues/'' (issue_address owner name n) = Some (x, ''issues'' @ CHR ''/'' # decimal_text n)"
      unfolding prefix using assms(5) by (simp add: segments del: split_text_once.simps)
    moreover have "split_text_once ''/issues/'' (''issues'' @ CHR ''/'' # decimal_text n) = None"
      by (subst split_text_clear [where c = "CHR ''/''" and m' = "''issues/''"]) (simp_all add: digits del: split_text_once.simps)
    ultimately have "last_part ''/issues/'' (issue_address owner name n) = ''issues'' @ CHR ''/'' # decimal_text n"
      by (elim exE) (metis last_part_steps list.distinct(1))
    with True dash show ?thesis by (simp add: issue_number_of_text_def address_trim Let_def is_ascii_digit_def)
  next
    case False
    then have "\<exists>x. split_text_once ''/issues/'' (issue_address owner name n) = Some (x, decimal_text n)"
      using assms(5) by (simp add: prefix segments del: split_text_once.simps)
    with digits have "last_part ''/issues/'' (issue_address owner name n) = decimal_text n"
      by (elim exE) (metis last_part_steps list.distinct(1))
    with False dash decimal_digits [of n] show ?thesis
      by (simp add: issue_number_of_text_def address_trim Let_def takeWhile_digits)
  qed
  then show ?thesis by (simp add: parse_issue_number_def assms(6))
qed

theorem created_issue_numbers_are_read_witness:
  "parse_issue_number (\<lambda>_. None) (issue_address ''o'' ''n'' 7) = Some (decimal_text 7)
   \<and> parse_issue_number (\<lambda>_. None) (issue_address ''o'' ''issues'' 7) = None"
  using created_issue_numbers_are_read [of "''o''" "''n''" "\<lambda>_. None" 7]
    created_issue_numbers_are_read [of "''o''" "''issues''" "\<lambda>_. None" 7] by simp

section \<open>Labels\<close>

text \<open>An update leaves on the issue exactly the desired labels and those that the integrator does not manage.  It adds
  only labels that are missing and removes only labels that are there, each once and in order.\<close>

theorem labels_are_updated_exactly:
  "let u = managed_label_update_new existing desired; names = set (map label_name existing) in
     (names - set (lu_remove u)) \<union> set (lu_add u) = set desired \<union> {n \<in> names. \<not> starts_with n ''iq:''}
     \<and> set (lu_add u) \<inter> names = {} \<and> set (lu_remove u) \<subseteq> names
     \<and> distinct (lu_add u @ lu_remove u) \<and> sorted (lu_add u) \<and> sorted (lu_remove u)"
proof -
  have "set (lu_add u) \<inter> set (lu_remove u) = {}" if "u = managed_label_update_new existing desired" for u
    unfolding that by (auto simp: managed_label_update_new_def Let_def list_ex_iff)
  then show ?thesis unfolding Let_def distinct_append by (intro conjI labels_after_update) simp
qed

section \<open>Retries\<close>

text \<open>Failures of the projection of an effort, one after another: the time, the later times, the identifier and the message.\<close>

fun record_failures :: "string \<Rightarrow> (string \<times> (nat \<Rightarrow> string) \<times> string \<times> string) list \<Rightarrow> db \<Rightarrow> db result" where
  "record_failures i [] d = Ok d"
| "record_failures i ((now, later, uuid, detail) # fs) d =
     bnd (record_projection_debt now later uuid i detail d) (record_failures i fs)"

lemma debt_after_failure:
  assumes "record_projection_debt now later uuid i detail d = Inr d'"
  shows "\<exists>b. debt_of i d' = Some b
    \<and> pb_attempt_count b = projection_attempt (case debt_of i d of None \<Rightarrow> 0 | Some b \<Rightarrow> pb_attempt_count b)
    \<and> pb_next_attempt_at b = later (projection_backoff (pb_attempt_count b))"
proof -
  let ?n = "projection_attempt (case debt_of i d of None \<Rightarrow> 0 | Some b \<Rightarrow> pb_attempt_count b)"
  from assms obtain d1 e p where u: "upsert_projection_debt now i ?n (later (projection_backoff ?n)) detail d = Inr d1"
    and a: "append_event now uuid e ''projection_debt'' p False d1 = Inr d'"
    by (auto simp: record_projection_debt_def Let_def bnd_eq_Ok)
  have "projection_debts d' = projection_debts d1"
    using a by (auto simp: append_event_def append_event_with_id_def enqueue_deliveries_def Let_def split: if_splits)
  moreover have "\<exists>b. debt_of i d1 = Some b \<and> pb_attempt_count b = ?n \<and> pb_next_attempt_at b = later (projection_backoff ?n)"
    using u
  proof (cases "list_ex (\<lambda>b. pb_effort_id b = i) (projection_debts d)")
    case True
    let ?f = "\<lambda>b. b\<lparr>pb_attempt_count := ?n, pb_next_attempt_at := later (projection_backoff ?n), pb_last_error := detail, pb_updated_at := now\<rparr>"
    have f: "find (\<lambda>b. pb_effort_id b = i) (modify (\<lambda>b. pb_effort_id b = i) g bs) = map_option g (find (\<lambda>b. pb_effort_id b = i) bs)"
      if "\<And>b. pb_effort_id (g b) = pb_effort_id b" for g bs
      by (induction bs) (auto simp: that modify_def)
    from True obtain b where "debt_of i d = Some b" by (cases "debt_of i d") (auto simp: debt_of_def find_None_mem list_ex_iff)
    with u True show ?thesis
      unfolding upsert_projection_debt_def debt_of_def by (auto simp: f)
  next
    case False
    then have "find (\<lambda>b. pb_effort_id b = i) (projection_debts d) = None" by (auto simp: find_None_iff list_ex_iff)
    with False u show ?thesis
      unfolding upsert_projection_debt_def debt_of_def by (auto simp: find_append_new split: if_splits)
  qed
  ultimately show ?thesis by (auto simp: debt_of_def)
qed

lemma same_other_state:
  assumes "record_projection_debt now later uuid i detail d = Inr d'"
  shows "efforts d' = efforts d"
  using record_debt_core [OF assms] by (simp add: same_core_def)

definition failures_of :: "string \<Rightarrow> db \<Rightarrow> nat" where
  "failures_of i d = (case debt_of i d of None \<Rightarrow> 0 | Some b \<Rightarrow> pb_attempt_count b)"

lemma debt_after_failures:
  assumes "record_failures i fs d = Inr d'"
  shows "efforts d' = efforts d \<and> (fs \<noteq> [] \<longrightarrow> (\<exists>b. debt_of i d' = Some b
      \<and> pb_attempt_count b = min (failures_of i d + length fs) 10
      \<and> pb_next_attempt_at b = fst (snd (last fs)) (projection_backoff (pb_attempt_count b))))"
  using assms
proof (induction fs arbitrary: d)
  case (Cons f fs)
  obtain now later uuid detail where f: "f = (now, later, uuid, detail)" by (cases f)
  from Cons.prems obtain d1 where one: "record_projection_debt now later uuid i detail d = Inr d1"
    and rest: "record_failures i fs d1 = Inr d'" by (auto simp: f bnd_eq_Ok)
  from debt_after_failure [OF one] obtain b where b: "debt_of i d1 = Some b"
    "pb_attempt_count b = projection_attempt (failures_of i d)"
    "pb_next_attempt_at b = later (projection_backoff (pb_attempt_count b))"
    by (auto simp: failures_of_def)
  from Cons.IH [OF rest] same_other_state [OF one] b rest show ?case
    by (cases "fs = []") (auto simp: f failures_of_def projection_attempt_def min_def)
qed simp

text \<open>An effort whose projection keeps failing is projected again until it has failed ten times, each time after thirty
  seconds, doubled with every failure up to an hour; after the tenth failure no cycle selects it again.\<close>

theorem projections_are_retried_ten_times:
  assumes "record_failures (ef_id e) fs d = Inr d'" "debt_of (ef_id e) d = None" "fs \<noteq> []"
  shows "\<exists>b. debt_of (ef_id e) d' = Some b \<and> pb_attempt_count b = min (length fs) 10
      \<and> pb_next_attempt_at b = fst (snd (last fs)) (min (30 * 2 ^ min (pb_attempt_count b - 1) 7) 3600)
      \<and> (awaits_projection now d' e \<longleftrightarrow> ef_state_repository e \<noteq> Local \<and> length fs < 10 \<and> pb_next_attempt_at b \<le> now)"
proof -
  from debt_after_failures [OF assms(1)] assms(2,3) obtain b where "debt_of (ef_id e) d' = Some b"
    "pb_attempt_count b = min (length fs) 10"
    "pb_next_attempt_at b = fst (snd (last fs)) (projection_backoff (pb_attempt_count b))"
    by (auto simp: failures_of_def)
  then show ?thesis by (intro exI [of _ b]) (auto simp: awaits_projection_def projection_backoff_def Let_def)
qed

theorem projections_are_retried_ten_times_witness:
  "\<exists>d' b. debt_of ''uv'' d' = Some b \<and> pb_attempt_count b = 1 \<and> pb_next_attempt_at b = ''30''
     \<and> \<not> awaits_projection ''29'' d' gx_effort \<and> awaits_projection ''31'' d' gx_effort"
proof -
  let ?fs = "[(''0'', decimal_text, ''w'', ''no'')]"
  have "(case record_failures ''uv'' ?fs gx_alone of Inr _ \<Rightarrow> True | Inl _ \<Rightarrow> False)" by code_simp
  then obtain d' where "record_failures ''uv'' ?fs gx_alone = Inr d'" by (cases "record_failures ''uv'' ?fs gx_alone") simp_all
  moreover have "ef_id gx_effort = ''uv''" "debt_of ''uv'' gx_alone = None" "ef_state_repository gx_effort \<noteq> Local" by code_simp+
  moreover have "decimal_text 30 = ''30''" "''30'' \<le> ''31''" "\<not> ''30'' \<le> ''29''" by code_simp+
  ultimately show ?thesis
    using projections_are_retried_ten_times [of gx_effort ?fs gx_alone d' "''29''"]
      projections_are_retried_ten_times [of gx_effort ?fs gx_alone d' "''31''"]
    by (intro exI [of _ d']) auto
qed

section \<open>The cycle of the daemon\<close>



section \<open>Comments\<close>

text \<open>C25: A comment is handled once: after the comments of an issue were ingested, reading them again answers nothing and
  changes nothing, in any later database that keeps the receipts.\<close>

theorem comments_are_handled_once:
  assumes "ingest_comments so src comments s = (Inr dispositions, s')" "remembers (snd s') d"
  shows "ingest_comments so src comments (w, d) = (Inr [], (w, d))"
  by (rule seen_comments_are_skipped) (use comments_handled [OF assms(1)] seen_stays [OF _ assms(2)] in blast)

theorem comments_are_handled_once_witness:
  "ingest_comments gx_ops gx_source [gx_comment] ([], snd gx_answered) = (Inr [], ([], snd gx_answered))"
  by (rule comments_are_handled_once [OF gx_run(2)]) (simp add: remembers_def)

text \<open>C12: Comments change an effort only with permission: an effort that changed is the effort of the issue, and the author of
  one of the comments is among the responders that were allowed when it was created.\<close>

theorem comments_need_permission:
  assumes "store_inv (snd s)" "ingest_comments so src comments s = (r, s')"
    and "e \<in> set (efforts (snd s))" "e \<notin> set (efforts (snd s'))"
  shows "ef_id e = cs_effort_id src \<and> store_inv (snd s')
    \<and> (\<exists>comment actor. comment \<in> set comments \<and> ia_actor comment = Some actor \<and> permits_actor (ef_state_repository e) actor)"
proof -
  let ?actors = "{actor. \<exists>comment \<in> set comments. ia_actor comment = Some actor}"
  have "acting.within (cs_effort_id src) ?actors (ingest_comments so src comments)"
    by (rule acting.within_comments) blast
  from acting.withinD [OF this assms(2)] assms(1,3,4) show ?thesis unfolding touches_def by blast
qed

theorem comments_need_permission_witness:
  "ef_id (ex_effort gx_asked) = ''uv'' \<and> store_inv (snd gx_answered)
   \<and> (\<exists>comment actor. comment \<in> set [gx_comment] \<and> ia_actor comment = Some actor
      \<and> permits_actor (ef_state_repository (ex_effort gx_asked)) actor)"
  using comments_need_permission [of "([], gx_asked)" gx_ops gx_source "[gx_comment]" "Inr [Applied]" gx_answered "ex_effort gx_asked"]
    gx_asked_inv gx_run by (simp add: gx_source_def)

section \<open>Reported events\<close>

text \<open>C10: However often a projection is repeated and wherever it fails, it never adds the comment of an event that the issue
  has, and never one twice; when it succeeds, the issue has the comment of every event that its visibility asks for.\<close>

theorem events_are_reported_once:
  assumes "hosts_comments (so_client so) shown" "distinct (map ev_id evs)" "\<forall>v \<in> set evs. CHR '' '' \<notin> set (ev_id v)"
    and "project_outside so e evs artifact s = (r, s')"
  shows "count_list (markers (shown p repo issue (fst s'))) m \<le> max 1 (count_list (markers (shown p repo issue (fst s))) m)
    \<and> (\<forall>a q snapshot v. r = Inr (Some a) \<longrightarrow> snapshot_adapter (ef_state_repository e) = Some (q, snapshot) \<longrightarrow> v \<in> set evs
        \<longrightarrow> relevant_event (irs_visibility snapshot) v
        \<longrightarrow> ''iq:event:'' @ ev_id v \<in> set (markers (shown q (irs_repository snapshot) (ra_id a) (fst s'))))"
proof -
  have quiet_verify: "same_comments shown (fst t) (fst t')" if "verify so x t = (y, t')" for x y t t'
    using that quiet.keepsD [OF quiet_adapter(1) [OF assms(1)]] quiet.R_refl
    by (auto simp: verify_def act_return_def so_io_def act_world_def split: option.splits prod.splits)
  have quiet_close: "same_comments shown (fst t) (fst t')" if "close_artifact so x a t = (y, t')" for x a y t t'
    using that quiet.keepsD [OF quiet_adapter(2) [OF assms(1)]] quiet.R_refl
    by (auto simp: close_artifact_def act_return_def so_io_def act_world_def split: option.splits prod.splits)
  obtain v s1 where v: "verify so (ef_state_repository e) s = (v, s1)" by (cases "verify so (ef_state_repository e) s")
  note verified = quiet_verify [OF v]
  show ?thesis
  proof (cases v)
    case (Inl x)
    with v assms(4) have "s' = s1" "r = Inl x" by (simp_all add: project_outside_def act_bind_def)
    with verified show ?thesis by (simp add: same_comments_def)
  next
    case (Inr u)
    obtain p' s2 where project: "project so e evs artifact s1 = (p', s2)" by (cases "project so e evs artifact s1")
    have rest: "act_bind (case y of
         Some z \<Rightarrow> if terminal_state (ef_state e) then close_artifact so (ef_state_repository e) z else act_return (Ok ())
       | None \<Rightarrow> act_return (Ok ())) (\<lambda>_. act_return (Ok y)) s2 = (r, s')" if "p' = Inr y" for y
      using assms(4) v Inr project that by (simp add: project_outside_def act_bind_def)
    have closed: "same_comments shown (fst s2) (fst s')"
    proof (cases p')
      case (Inl x)
      with assms(4) v Inr project show ?thesis by (simp add: project_outside_def act_bind_def quiet.R_refl \<open>v = Inr u\<close>)
    next
      case (Inr y)
      from rest [OF this] show ?thesis
        by (auto simp: act_bind_def act_return_def quiet.R_refl dest: quiet_close split: prod.splits sum.splits option.splits if_splits)
    qed
    have result: "\<forall>y. r = Inr y \<longrightarrow> p' = Inr y"
    proof (cases p')
      case (Inl x)
      with assms(4) v project show ?thesis by (simp add: project_outside_def act_bind_def \<open>v = Inr u\<close>)
    next
      case (Inr y)
      from rest [OF this] show ?thesis
        by (auto simp: act_bind_def act_return_def Inr split: prod.splits sum.splits)
    qed
    have run: "project so e evs artifact (fst s1, snd s1) = (p', (fst s2, snd s2))" using project by simp
    note effect = project_effect [OF assms(1,2) _ run]
    have ids: "\<And>v. v \<in> set evs \<Longrightarrow> CHR '' '' \<notin> set (ev_id v)" using assms(3) by blast
    have "count_list (markers (shown p repo issue (fst s2))) m \<le> max 1 (count_list (markers (shown p repo issue (fst s1))) m)"
      using effect(1) [OF ids] adds_count unfolding extends_def by blast
    moreover have "\<forall>a q snapshot v. r = Inr (Some a) \<longrightarrow> snapshot_adapter (ef_state_repository e) = Some (q, snapshot) \<longrightarrow> v \<in> set evs
        \<longrightarrow> relevant_event (irs_visibility snapshot) v
        \<longrightarrow> ''iq:event:'' @ ev_id v \<in> set (markers (shown q (irs_repository snapshot) (ra_id a) (fst s2)))"
      using effect(2) [OF ids] result by blast
    ultimately show ?thesis using verified closed by (simp add: same_comments_def)
  qed
qed

theorem events_are_reported_once_witness:
  "count_list (markers (gx_shown Github ''o/n'' ''7'' gx_second)) ''iq:event:v'' \<le> 1
   \<and> ''iq:event:v'' \<in> set (markers (gx_shown Github ''o/n'' ''7'' gx_second))"
proof -
  have host: "hosts_comments (so_client gx_ops) gx_shown" using gx_hosts by (simp add: gx_ops_def)
  have one: "markers (gx_shown Github ''o/n'' ''7'' gx_first) = [''iq:event:v'']"
    using event_comment_marker [of gx_event gx_ops] by (simp add: gx_reported_twice(2) gx_shown_def gx_event_def)
  have repo: "snapshot_adapter (ef_state_repository gx_effort) = Some (Github, gx_issue)"
    by (simp add: gx_effort_def effort_of_new_def)
  have events: "distinct (map ev_id [gx_event])" "\<forall>v \<in> set [gx_event]. CHR '' '' \<notin> set (ev_id v)" by (simp_all add: gx_event_def)
  from events_are_reported_once [OF host events gx_reported_twice(1) [unfolded gx_reported_def [of gx_first]],
      of Github "''o/n''" "''7''" "''iq:event:v''"] one repo
  show ?thesis by (simp add: gx_event_def gx_issue_def relevant_event_def)
qed

section \<open>Issues that stay open\<close>

text \<open>C35: An issue of minimal visibility is never closed when the projection of the terminal event saw the effort before its
  end: its cursor is past every event of the terminal effort, so each cycle selects the effort again, and each projection
  finds nothing to report and leaves the issue open and its row as it was.\<close>

theorem reported_ends_are_never_closed:
  assumes "effort_for_item item_id d = Inr (Some e)" "terminal_state (ef_state e)"
    and "snapshot_adapter (ef_state_repository e) = Some (p, issue)" "irs_visibility issue = Minimal"
    and "repository_artifact (ef_id e) d = Some a" "sr_state a \<noteq> ''closed''" "debt_of (ef_id e) d = None"
    and "\<forall>v \<in> set (events d). ev_effort_id v = Some (ef_id e) \<longrightarrow> ev_sequence v \<le> sr_last_event_sequence a"
    and "verify_destination (so_client so) p (irs_repository issue) w = (Inr (), w')"
  shows "awaits_projection now d e \<and> project_item so item_id (w, d) = (Inr (), (w', d))"
proof
  have remote: "ef_state_repository e \<noteq> Local" using assms(3) by auto
  with assms(2,5-7) show "awaits_projection now d e" by (simp add: awaits_projection_def Let_def)
  have none: "effort_events_after (ef_id e) (sr_last_event_sequence a) 10000 d = Inr []"
    using assms(8) by (auto simp: effort_events_after_def filter_empty_conv not_less)
  have "project_outside so e [] (Some (sr_artifact_id a)) (w, d) = (Inr None, (w', d))"
    using assms(3,4,9) by (simp add: project_outside_def verify_def project_def act_bind_def act_return_def so_io_def act_world_def Let_def)
  with assms(1,5) none show "project_item so item_id (w, d) = (Inr (), (w', d))"
    by (simp add: project_item_def act_bind_def act_read_def act_try_def act_return_def Let_def)
qed

theorem reported_ends_are_never_closed_witness:
  "awaits_projection ''t'' gx_stale gx_ended \<and> project_item gx_ops ''i'' ([], gx_stale) = (Inr (), ([], gx_stale))"
proof (rule reported_ends_are_never_closed)
  show "effort_for_item ''i'' gx_stale = Inr (Some gx_ended)" "terminal_state (ef_state gx_ended)" by code_simp+
  show "snapshot_adapter (ef_state_repository gx_ended) = Some (Github, gx_issue\<lparr>irs_visibility := Minimal\<rparr>)"
    "irs_visibility (gx_issue\<lparr>irs_visibility := Minimal\<rparr>) = Minimal" by (simp_all add: gx_ended_def)
  show "repository_artifact (ef_id gx_ended) gx_stale = Some gx_artifact" "sr_state gx_artifact \<noteq> ''closed''"
    "debt_of (ef_id gx_ended) gx_stale = None" by code_simp+
  show "\<forall>v \<in> set (events gx_stale). ev_effort_id v = Some (ef_id gx_ended) \<longrightarrow> ev_sequence v \<le> sr_last_event_sequence gx_artifact"
    by (simp add: gx_stale_def gx_event_def gx_artifact_def)
  show "verify_destination (so_client gx_ops) Github (irs_repository (gx_issue\<lparr>irs_visibility := Minimal\<rparr>)) [] = (Inr (), [])"
    by code_simp
qed

section \<open>Reservations\<close>

text \<open>C36: One issue repository that cannot be reached stops the daemon: while the oldest pending reservation fails, every cycle,
  of whatever repository, ends with its error before it ingests, projects, alerts, integrates or delivers anything.\<close>

theorem unreachable_reservation_stops_every_cycle:
  assumes "pending_issue_reservations 1000 d = Inr (i # items)" "item_state_repository_binding i d = Inr snapshot"
    and "snapshot_adapter snapshot = Some (p, issue)" "irs_visibility issue = Full" "item_repository_reservation i d = None"
    and "verify_destination (so_client so) p (irs_repository issue) w = (Inl x, w')"
  shows "daemon_cycle so config run_once dispatch (w, d) = (Inl x, (w', d))"
proof -
  obtain name where "snapshot_provider snapshot = Some name" using assms(3) by (cases snapshot) auto
  with assms show ?thesis
    by (simp add: daemon_cycle_def process_issue_reservation_outbox_def reserve_full_issue_def act_bind_def act_read_def act_return_def
        so_io_def act_world_def)
qed

theorem unreachable_reservation_stops_every_cycle_witness:
  "daemon_cycle gx_ops default_notification_config (act_return (Ok ())) (act_return (Ok ())) ([], gx_reserving)
   = (Inl (Bail ''issue CLI gh failed: no''), ([], gx_reserving))"
proof (rule unreachable_reservation_stops_every_cycle)
  show "pending_issue_reservations 1000 gx_reserving = Inr [''i'']" by code_simp
  show "item_state_repository_binding ''i'' gx_reserving = Inr (GitlabIssue gx_issue)" by code_simp
  show "snapshot_adapter (GitlabIssue gx_issue) = Some (Gitlab, gx_issue)" "irs_visibility gx_issue = Full" by (simp_all add: gx_issue_def)
  show "item_repository_reservation ''i'' gx_reserving = None" by code_simp
  show "verify_destination (so_client gx_ops) Gitlab (irs_repository gx_issue) [] = (Inl (Bail ''issue CLI gh failed: no''), [])" by code_simp
qed

end
