(* ===== verification/Agent_Config.thy ===== *)
theory Agent_Config
  imports Issue_Backends Notifications "HOL-Library.Word"
begin

unbundle bit_operations_syntax

text \<open>
  The configuration of the daemon (\<open>agent_config.rs\<close>): its validation, the snapshot of the runner that every effort keeps, the
  identity of executables with the process-wide cache of digests, configurations and executables that are inherited as
  descriptors, and the authority of the Rift executable.  Parameters: the system calls on files and descriptors, SHA-256 and
  the YAML reader.
\<close>

section \<open>The configuration\<close>

record integration_agent_config =
  gc_runner :: runner_kind
  gc_executable :: string
  gc_agent :: string
  gc_model :: string
  gc_cycle_timeout_seconds :: nat
  gc_max_log_bytes :: nat
  gc_max_result_bytes :: nat
  gc_max_processes :: nat
  gc_memory_bytes :: nat
  gc_cpu_seconds :: nat
  gc_writable_bytes :: nat
  gc_open_files :: nat
  gc_credential_env :: string

record control_plane_config =
  cc_unix_socket :: string
  cc_max_request_bytes :: nat
  cc_max_free_text_bytes :: nat
  cc_max_response_bytes :: nat
  cc_max_concurrent_clients :: nat
  cc_max_client_queue_bytes :: nat
  cc_max_stream_backlog_events :: nat
  cc_client_idle_seconds :: nat

record system_config =
  sy_integration_agent :: integration_agent_config
  sy_control_plane :: control_plane_config
  sy_notifications :: notification_config

text \<open>\<open>Path::components\<close> of an absolute path drops empty parts and \<open>.\<close>, so only \<open>..\<close> is refused.\<close>

definition require_absolute :: "string \<Rightarrow> string \<Rightarrow> unit result" where
  "require_absolute path label =
     require (is_absolute path \<and> \<not> list_ex (\<lambda>c. c = ''..'') (split_on (CHR ''/'') path))
       (Bail (label @ '' must be an absolute normalized path: '' @ path))"

definition configured_env_valid :: "string \<Rightarrow> bool" where
  "configured_env_valid s \<longleftrightarrow>
     list_all (\<lambda>(i, c). c = CHR ''_'' \<or> is_ascii_alphanumeric c \<and> (i \<noteq> 0 \<or> \<not> is_ascii_digit c)) (enumerate 0 s)"

definition system_config_validate :: "system_config \<Rightarrow> system_config result" where
  "system_config_validate self =
     (let agent = sy_integration_agent self; control = sy_control_plane self; notifications = sy_notifications self in
      bnd (require_exact_text (gc_agent agent) ''integration agent'') (\<lambda>_.
      bnd (require_exact_text (gc_model agent) ''integration model'') (\<lambda>_.
      bnd (require_exact_text (gc_credential_env agent) ''model credential environment name'') (\<lambda>_.
      bnd (require (configured_env_valid (gc_credential_env agent)) (Bail ''model credential environment name is invalid'')) (\<lambda>_.
      bnd (require (gc_cycle_timeout_seconds agent \<noteq> 0 \<and> gc_max_log_bytes agent \<noteq> 0 \<and> gc_max_result_bytes agent \<noteq> 0
              \<and> gc_max_processes agent \<noteq> 0 \<and> gc_memory_bytes agent \<noteq> 0 \<and> gc_cpu_seconds agent \<noteq> 0
              \<and> gc_writable_bytes agent \<noteq> 0 \<and> gc_open_files agent \<noteq> 0)
             (Bail ''integration agent bounds must be non-zero'')) (\<lambda>_.
      bnd (require (\<not> (gc_max_result_bytes agent > gc_writable_bytes agent \<or> gc_max_log_bytes agent > gc_writable_bytes agent))
             (Bail ''protocol and log bounds must fit inside the writable sandbox bound'')) (\<lambda>_.
      bnd (require_absolute (gc_executable agent) ''runner executable'') (\<lambda>_.
      bnd (require_absolute (cc_unix_socket control) ''control-plane socket'') (\<lambda>_.
      bnd (require (\<not> (cc_max_request_bytes control = 0 \<or> cc_max_free_text_bytes control = 0 \<or> cc_max_response_bytes control = 0
              \<or> cc_max_concurrent_clients control = 0 \<or> cc_max_client_queue_bytes control = 0
              \<or> cc_max_stream_backlog_events control = 0 \<or> cc_client_idle_seconds control = 0
              \<or> cc_max_free_text_bytes control > cc_max_request_bytes control))
             (Bail ''control-plane bounds are invalid'')) (\<lambda>_.
      bnd (require (nc_max_attempts notifications \<noteq> 0 \<and> nc_max_event_age_seconds notifications \<noteq> 0
              \<and> nc_projection_debt_alert_seconds notifications \<noteq> 0)
             (Bail ''notification bounds must be non-zero'')) (\<lambda>_.
      bnd (for_each (\<lambda>backend. require_absolute (backend_executable backend) ''notification executable'')
             (nc_backends notifications)) (\<lambda>_.
      Ok self))))))))))))"

section \<open>Files\<close>

text \<open>\<open>Metadata\<close>: the times are seconds and nanoseconds.\<close>

record file_metadata =
  fm_is_file :: bool
  fm_is_symlink :: bool
  fm_device :: nat
  fm_inode :: nat
  fm_length :: nat
  fm_mode :: "32 word"
  fm_uid :: nat
  fm_gid :: nat
  fm_modified :: "int \<times> int"
  fm_changed :: "int \<times> int"

text \<open>
  The system calls, on paths and on descriptors.  \<open>fo_symlink_metadata\<close> returns nothing when there is no such file,
  \<open>fo_fd_flags\<close>, \<open>fo_status_flags\<close> and \<open>fo_seals\<close> are \<open>F_GETFD\<close>, \<open>F_GETFL\<close> and \<open>F_GET_SEALS\<close>, \<open>fo_read_all\<close> reads to
  the end, \<open>fo_read_exact\<close> a number of bytes from the start and \<open>fo_read_at\<close> what there is at an offset.
\<close>

record 'w file_ops =
  fo_canonicalize :: "string \<Rightarrow> ('w, string) io"
  fo_symlink_metadata :: "string \<Rightarrow> ('w, file_metadata option) io"
  fo_open :: "string \<Rightarrow> ('w, nat) io"
  fo_metadata :: "nat \<Rightarrow> ('w, file_metadata) io"
  fo_read_all :: "nat \<Rightarrow> ('w, string) io"
  fo_read_exact :: "nat \<Rightarrow> nat \<Rightarrow> ('w, string) io"
  fo_read_at :: "nat \<Rightarrow> nat \<Rightarrow> ('w, string) io"
  fo_read_link :: "string \<Rightarrow> ('w, string) io"
  fo_fd_flags :: "nat \<Rightarrow> ('w, 32 word) io"
  fo_set_fd_flags :: "nat \<Rightarrow> 32 word \<Rightarrow> ('w, unit) io"
  fo_duplicate :: "nat \<Rightarrow> ('w, nat) io"
  fo_status_flags :: "nat \<Rightarrow> ('w, 32 word) io"
  fo_seals :: "nat \<Rightarrow> ('w, 32 word) io"
  fo_env :: "string \<Rightarrow> ('w, string option) io"
  fo_euid :: nat
  fo_sha256 :: "string \<Rightarrow> string"

record file_fingerprint =
  fp_device :: nat
  fp_inode :: nat
  fp_length :: nat
  fp_mode :: "32 word"
  fp_uid :: nat
  fp_gid :: nat
  fp_modified :: "int \<times> int"
  fp_changed :: "int \<times> int"

definition file_fingerprint :: "file_metadata \<Rightarrow> file_fingerprint" where
  "file_fingerprint m =
     \<lparr>fp_device = fm_device m, fp_inode = fm_inode m, fp_length = fm_length m, fp_mode = fm_mode m, fp_uid = fm_uid m,
      fp_gid = fm_gid m, fp_modified = fm_modified m, fp_changed = fm_changed m\<rparr>"

text \<open>An action with the cache of executables, a map from canonical paths.\<close>

type_synonym executable_cache = "string \<Rightarrow> (file_fingerprint \<times> executable_identity) option"
type_synonym ('w, 'a) cached = "('w \<times> executable_cache, 'a) io"

definition uncached :: "('w, 'a) io \<Rightarrow> ('w, 'a) cached" where
  "uncached m s = (case m (fst s) of (r, w) \<Rightarrow> (r, (w, snd s)))"

definition required_metadata :: "'w file_ops \<Rightarrow> string \<Rightarrow> ('w, file_metadata) io" where
  "required_metadata fo path =
     io_bind (fo_symlink_metadata fo path) (\<lambda>found.
     io_return (case found of None \<Rightarrow> Err (Bail ''No such file or directory'') | Some m \<Rightarrow> Ok m))"

definition cached_identity :: "string \<Rightarrow> file_fingerprint \<Rightarrow> ('w, executable_identity option) cached" where
  "cached_identity path fingerprint s =
     (Ok (case snd s path of
        Some (known, identity) \<Rightarrow> if known = fingerprint then Some identity else None
      | None \<Rightarrow> None), s)"

definition remember_identity :: "string \<Rightarrow> file_fingerprint \<Rightarrow> executable_identity \<Rightarrow> ('w, unit) cached" where
  "remember_identity path fingerprint identity s = (Ok (), (fst s, (snd s)(path \<mapsto> (fingerprint, identity))))"

definition same_opened_file :: "file_metadata \<Rightarrow> file_metadata \<Rightarrow> bool" where
  "same_opened_file opened after \<longleftrightarrow>
     fm_device opened = fm_device after \<and> fm_inode opened = fm_inode after \<and> fm_length opened = fm_length after
     \<and> fm_modified opened = fm_modified after \<and> fm_changed opened = fm_changed after"

definition hash_executable :: "'w file_ops \<Rightarrow> string \<Rightarrow> file_metadata \<Rightarrow> ('w, executable_identity) cached" where
  "hash_executable fo canonical before =
     io_bind (uncached (fo_open fo canonical)) (\<lambda>fd.
     io_bind (uncached (fo_metadata fo fd)) (\<lambda>opened.
     if \<not> (fm_device before = fm_device opened \<and> fm_inode before = fm_inode opened)
     then io_return (Err (Bail ''executable changed while hashing''))
     else
       io_bind (uncached (fo_read_all fo fd)) (\<lambda>content.
       io_bind (uncached (fo_metadata fo fd)) (\<lambda>after.
       if \<not> same_opened_file opened after then io_return (Err (Bail ''executable changed while hashing''))
       else
         (let identity = \<lparr>ei_path = canonical, ei_device = fm_device opened, ei_inode = fm_inode opened,
                          ei_sha256 = fo_sha256 fo content\<rparr> in
          io_bind (remember_identity canonical (file_fingerprint after) identity) (\<lambda>_.
          io_return (Ok identity)))))))"

definition executable_identity :: "'w file_ops \<Rightarrow> string \<Rightarrow> ('w, executable_identity) cached" where
  "executable_identity fo path =
     io_bind (io_return (require_absolute path ''executable'')) (\<lambda>_.
     io_bind (uncached (fo_canonicalize fo path)) (\<lambda>canonical.
     io_bind (uncached (required_metadata fo canonical)) (\<lambda>before.
     if \<not> fm_is_file before \<or> fm_length before = 0 \<or> fm_mode before AND 0x49 = 0
     then io_return (Err (Bail ''executable must resolve to a non-empty executable regular file''))
     else
       io_bind (cached_identity canonical (file_fingerprint before)) (\<lambda>known.
       (case known of
          Some identity \<Rightarrow> io_return (Ok identity)
        | None \<Rightarrow> hash_executable fo canonical before)))))"

definition verify_executable :: "'w file_ops \<Rightarrow> executable_identity \<Rightarrow> ('w, unit) cached" where
  "verify_executable fo identity =
     io_bind (uncached (required_metadata fo (ei_path identity))) (\<lambda>metadata.
     io_bind (cached_identity (ei_path identity) (file_fingerprint metadata)) (\<lambda>known.
     if known = Some identity then io_return (Ok ())
     else
       io_bind (executable_identity fo (ei_path identity)) (\<lambda>actual.
       io_return (require (actual = identity) (Bail ''approved executable identity changed'')))))"

section \<open>Finding programs\<close>

definition program_directories :: "string list" where
  "program_directories = [''/usr/local/bin'', ''/usr/bin'', ''/bin'']"

fun search_directories ::
    "'w file_ops \<Rightarrow> string \<Rightarrow> error \<Rightarrow> (string \<Rightarrow> ('w, 'a) cached) \<Rightarrow> string list \<Rightarrow> ('w, 'a) cached" where
  "search_directories fo program missing found [] = io_return (Err missing)"
| "search_directories fo program missing found (d # ds) =
     io_bind (uncached (fo_symlink_metadata fo (d @ ''/'' @ program))) (\<lambda>m.
     (case m of
        Some _ \<Rightarrow> found (d @ ''/'' @ program)
      | None \<Rightarrow> search_directories fo program missing found ds))"

definition trusted_executable_identity :: "'w file_ops \<Rightarrow> string \<Rightarrow> ('w, executable_identity) cached" where
  "trusted_executable_identity fo program =
     (if program = [] \<or> CHR ''/'' \<in> set program then io_return (Err (Bail ''trusted executable name is invalid''))
      else search_directories fo program (Bail (''trusted executable is unavailable: '' @ program)) (executable_identity fo)
             program_directories)"

text \<open>\<open>split_paths\<close> parts the variable at its colons; \<open>join\<close> puts a slash only where none is.\<close>

definition join_path :: "string \<Rightarrow> string \<Rightarrow> string" where
  "join_path directory name = (if ends_with directory ''/'' then directory @ name else directory @ ''/'' @ name)"

fun search_path :: "'w file_ops \<Rightarrow> string \<Rightarrow> string list \<Rightarrow> ('w, executable_identity) cached" where
  "search_path fo program [] = io_return (Err (Bail (''executable is unavailable on PATH: '' @ program)))"
| "search_path fo program (d # ds) =
     (if \<not> is_absolute d then io_return (Err (Bail ''PATH contains a relative executable search directory''))
      else
        io_bind (uncached (fo_symlink_metadata fo (join_path d program))) (\<lambda>m.
        (case m of
           Some _ \<Rightarrow> executable_identity fo (join_path d program)
         | None \<Rightarrow> search_path fo program ds)))"

definition search_path_executable_identity :: "'w file_ops \<Rightarrow> string \<Rightarrow> ('w, executable_identity) cached" where
  "search_path_executable_identity fo program =
     (if program = [] then io_return (Err (Bail ''executable name is empty''))
      else if CHR ''/'' \<in> set program then executable_identity fo program
      else
        io_bind (uncached (fo_env fo ''PATH'')) (\<lambda>path.
        (case path of
           None \<Rightarrow> io_return (Err (Bail ''PATH is unavailable for executable resolution''))
         | Some path \<Rightarrow> search_path fo program (split_on (CHR '':'') path))))"

definition resolve_program :: "'w file_ops \<Rightarrow> string \<Rightarrow> ('w, string) cached" where
  "resolve_program fo program =
     (if program = [] \<or> CHR ''/'' \<in> set program then io_return (Err (Bail ''required sandbox executable name is invalid''))
      else search_directories fo program (Bail (''required sandbox program is unavailable: '' @ program))
             (\<lambda>candidate.
                io_bind (uncached (fo_canonicalize fo candidate)) (\<lambda>path.
                io_bind (io_return (require_absolute path ''sandbox executable'')) (\<lambda>_. io_return (Ok path))))
             program_directories)"

definition sandbox_program :: "'w file_ops \<Rightarrow> string \<Rightarrow> ('w, executable_identity) cached" where
  "sandbox_program fo program = io_bind (resolve_program fo program) (executable_identity fo)"

definition sandbox_identity :: "'w file_ops \<Rightarrow> ('w, sandbox_identity) cached" where
  "sandbox_identity fo =
     io_bind (sandbox_program fo ''bwrap'') (\<lambda>bubblewrap.
     io_bind (sandbox_program fo ''unshare'') (\<lambda>unshare.
     io_bind (sandbox_program fo ''systemd-run'') (\<lambda>systemd_run.
     io_bind (sandbox_program fo ''systemctl'') (\<lambda>systemctl.
     io_return (Ok \<lparr>sb_implementation = ''linux_userns_tmpfs_overlay_v1'', sb_bubblewrap = bubblewrap, sb_unshare = unshare,
        sb_systemd_run = systemd_run, sb_systemctl = systemctl\<rparr>)))))"

definition snapshot_of :: "integration_agent_config \<Rightarrow> string \<Rightarrow> executable_identity \<Rightarrow> sandbox_identity \<Rightarrow> runner_snapshot" where
  "snapshot_of agent model executable sandbox =
     \<lparr>rs_kind = gc_runner agent, rs_executable = executable, rs_agent = gc_agent agent, rs_model = model,
      rs_cycle_timeout_seconds = gc_cycle_timeout_seconds agent,
      rs_bounds = \<lparr>rb_max_log_bytes = gc_max_log_bytes agent, rb_max_result_bytes = gc_max_result_bytes agent,
         rb_max_processes = gc_max_processes agent, rb_memory_bytes = gc_memory_bytes agent,
         rb_cpu_seconds = gc_cpu_seconds agent, rb_writable_bytes = gc_writable_bytes agent, rb_open_files = gc_open_files agent\<rparr>,
      rs_sandbox = sandbox, rs_credential_env = gc_credential_env agent\<rparr>"

definition config_runner_snapshot :: "'w file_ops \<Rightarrow> system_config \<Rightarrow> string option \<Rightarrow> ('w, runner_snapshot) cached" where
  "config_runner_snapshot fo self model_override =
     (let agent = sy_integration_agent self in
      io_bind (executable_identity fo (gc_executable agent)) (\<lambda>executable.
      io_bind (sandbox_identity fo) (\<lambda>sandbox.
      let model = (case model_override of None \<Rightarrow> gc_model agent | Some model \<Rightarrow> model) in
      io_bind (io_return (require_exact_text model ''effective integration model'')) (\<lambda>_.
      io_return (Ok (snapshot_of agent model executable sandbox))))))"

section \<open>Inherited descriptors\<close>

definition descriptor_prefix :: string where "descriptor_prefix = ''/proc/self/fd/''"

text \<open>\<open>RawFd\<close> is a 32-bit signed integer; the digits have no sign.\<close>

definition parse_inherited_descriptor_path :: "string \<Rightarrow> nat result" where
  "parse_inherited_descriptor_path path =
     (case strip_prefix descriptor_prefix path of
        None \<Rightarrow> Err (Bail ''Rift executable proc path must be exactly /proc/self/fd/<n>'')
      | Some value \<Rightarrow>
          if value \<noteq> [] \<and> list_all is_ascii_digit value \<and> (length value = 1 \<or> hd value \<noteq> CHR ''0'')
          then (if decimal_value value < 2 ^ 31 then Ok (decimal_value value) else Err (Bail ''parse inherited Rift executable descriptor''))
          else Err (Bail ''Rift executable proc path must be exactly /proc/self/fd/<n>''))"

definition FD_CLOEXEC :: "32 word" where "FD_CLOEXEC = 1"
definition O_ACCMODE :: "32 word" where "O_ACCMODE = 3"
definition O_RDONLY :: "32 word" where "O_RDONLY = 0"

text \<open>\<open>F_SEAL_SEAL | F_SEAL_SHRINK | F_SEAL_GROW | F_SEAL_WRITE\<close>.\<close>

definition required_seals :: "32 word" where "required_seals = 1 OR 2 OR 4 OR 8"

definition is_memfd :: "string \<Rightarrow> bool" where
  "is_memfd target \<longleftrightarrow> starts_with target ''/memfd:'' \<or> starts_with target ''memfd:''"

definition descriptor_metadata_identity :: "file_metadata \<Rightarrow> nat \<times> nat \<times> nat \<times> 32 word \<times> nat" where
  "descriptor_metadata_identity m = (fm_device m, fm_inode m, fm_uid m, fm_mode m, fm_length m)"

text \<open>The loop over \<open>read_at\<close>, which returns at least one byte or the end of the file.\<close>

function descriptor_content :: "'w file_ops \<Rightarrow> nat \<Rightarrow> nat \<Rightarrow> nat \<Rightarrow> ('w, string) io" where
  "descriptor_content fo fd len offset w =
     (if \<not> offset < len
      then (if offset \<noteq> len then Err (Bail ''inherited Rift executable changed while hashing'') else Ok [], w)
      else
        (case fo_read_at fo fd offset w of
           (Inl e, w) \<Rightarrow> (Inl e, w)
         | (Inr chunk, w) \<Rightarrow>
             if chunk = [] then (Err (Bail ''inherited Rift executable changed while hashing''), w)
             else if offset + length chunk \<ge> 2 ^ 64 then (Err (Bail ''inherited Rift executable size overflow''), w)
             else
               (case descriptor_content fo fd len (offset + length chunk) w of
                  (Inl e, w) \<Rightarrow> (Inl e, w)
                | (Inr rest, w) \<Rightarrow> (Inr (chunk @ rest), w))))"
  by pat_completeness auto
termination
  by (relation "measure (\<lambda>(fo, fd, len, offset, w). len - offset)") (auto simp: neq_Nil_conv)

declare descriptor_content.simps [simp del]

datatype descriptor_backing = RegularFile | SealedMemfd "32 word"

record inherited_descriptor_identity =
  di_executable :: executable_identity
  di_owner :: nat
  di_mode :: "32 word"
  di_size :: nat
  di_backing :: descriptor_backing

definition descriptor_backing_of :: "'w file_ops \<Rightarrow> string \<Rightarrow> nat \<Rightarrow> ('w, descriptor_backing) io" where
  "descriptor_backing_of fo path fd =
     io_bind (fo_read_link fo path) (\<lambda>target.
     if is_memfd target
     then
       io_bind (fo_seals fo fd) (\<lambda>seals.
       io_return (if seals AND required_seals \<noteq> required_seals
                  then Err (Bail ''anonymous Rift executable memfd is missing required seals'') else Ok (SealedMemfd seals)))
     else io_return (Ok RegularFile))"

definition inherited_descriptor_identity :: "'w file_ops \<Rightarrow> string \<Rightarrow> nat \<Rightarrow> ('w, inherited_descriptor_identity) io" where
  "inherited_descriptor_identity fo path fd =
     io_bind (fo_fd_flags fo fd) (\<lambda>flags.
     io_bind (io_return (require (flags AND FD_CLOEXEC \<noteq> 0)
       (Bail ''inherited Rift executable descriptor lost close-on-exec protection''))) (\<lambda>_.
     io_bind (fo_metadata fo fd) (\<lambda>before.
     io_bind (io_return (require (\<not> (\<not> fm_is_file before \<or> fm_length before = 0 \<or> fm_mode before AND 0x49 = 0))
       (Bail ''inherited Rift executable descriptor must reference a non-empty executable regular file''))) (\<lambda>_.
     io_bind (fo_status_flags fo fd) (\<lambda>status.
     io_bind (io_return (require (status AND O_ACCMODE = O_RDONLY)
       (Bail ''inherited Rift executable descriptor must be read-only''))) (\<lambda>_.
     io_bind (io_return (require (fm_uid before = fo_euid fo)
       (Bail ''inherited Rift executable descriptor must be owned by the current user''))) (\<lambda>_.
     io_bind (descriptor_backing_of fo path fd) (\<lambda>backing.
     io_bind (descriptor_content fo fd (fm_length before) 0) (\<lambda>content.
     io_bind (fo_metadata fo fd) (\<lambda>after.
     io_bind (io_return (require (descriptor_metadata_identity before = descriptor_metadata_identity after)
       (Bail ''inherited Rift executable changed while hashing''))) (\<lambda>_.
     io_return (Ok \<lparr>di_executable = \<lparr>ei_path = path, ei_device = fm_device before, ei_inode = fm_inode before,
          ei_sha256 = fo_sha256 fo content\<rparr>,
        di_owner = fm_uid before, di_mode = fm_mode before, di_size = fm_length before, di_backing = backing\<rparr>))))))))))))"

section \<open>Loading the configuration\<close>

definition MAX_SYSTEM_CONFIG_BYTES :: nat where "MAX_SYSTEM_CONFIG_BYTES = 1024 * 1024"

definition read_system_config_file :: "'w file_ops \<Rightarrow> string \<Rightarrow> ('w, string) io" where
  "read_system_config_file fo path =
     io_bind (required_metadata fo path) (\<lambda>before.
     if fm_is_symlink before \<or> \<not> fm_is_file before \<or> fm_length before > MAX_SYSTEM_CONFIG_BYTES
     then io_return (Err (Bail ''system configuration must be a bounded regular non-symlink file''))
     else
       io_bind (fo_open fo path) (\<lambda>fd.
       io_bind (fo_metadata fo fd) (\<lambda>opened.
       if \<not> (fm_device before = fm_device opened \<and> fm_inode before = fm_inode opened)
       then io_return (Err (Bail ''system configuration changed while opening''))
       else fo_read_all fo fd)))"

definition read_inherited_system_config :: "'w file_ops \<Rightarrow> string \<Rightarrow> ('w, string) io" where
  "read_inherited_system_config fo path =
     io_bind (io_return (parse_inherited_descriptor_path path)) (\<lambda>descriptor.
     io_bind (fo_fd_flags fo descriptor) (\<lambda>flags.
     io_bind (fo_set_fd_flags fo descriptor (flags OR FD_CLOEXEC)) (\<lambda>_.
     io_bind (fo_duplicate fo descriptor) (\<lambda>fd.
     io_bind (fo_metadata fo fd) (\<lambda>before.
     io_bind (io_return (require (\<not> (\<not> fm_is_file before \<or> fm_length before = 0 \<or> fm_length before > MAX_SYSTEM_CONFIG_BYTES
         \<or> fm_uid before \<noteq> fo_euid fo \<or> fm_mode before AND 0x92 \<noteq> 0))
       (Bail ''inherited system configuration must be a bounded owner-only read-only regular file''))) (\<lambda>_.
     io_bind (fo_status_flags fo fd) (\<lambda>status.
     io_bind (io_return (require (status AND O_ACCMODE = O_RDONLY)
       (Bail ''inherited system configuration descriptor must be read-only''))) (\<lambda>_.
     io_bind (fo_read_link fo (descriptor_prefix @ decimal_text fd)) (\<lambda>target.
     io_bind (io_return (require (is_memfd target)
       (Bail ''inherited system configuration must use a sealed anonymous memfd''))) (\<lambda>_.
     io_bind (fo_seals fo fd) (\<lambda>seals.
     io_bind (io_return (require (seals AND required_seals = required_seals)
       (Bail ''inherited system configuration memfd is missing required seals''))) (\<lambda>_.
     io_bind (fo_read_exact fo fd (fm_length before)) (\<lambda>content.
     io_bind (fo_metadata fo fd) (\<lambda>after.
     io_bind (fo_seals fo fd) (\<lambda>after_seals.
     io_return (if descriptor_metadata_identity before \<noteq> descriptor_metadata_identity after \<or> after_seals \<noteq> seals
                then Err (Bail ''inherited system configuration changed while reading'') else Ok content))))))))))))))))"

definition system_config_load :: "'w file_ops \<Rightarrow> (string \<Rightarrow> system_config result) \<Rightarrow> string \<Rightarrow> ('w, system_config) io" where
  "system_config_load fo parse path =
     (if \<not> is_absolute path then io_return (Err (Bail ''system configuration path must be absolute''))
      else
        io_bind (if starts_with path ''/proc/'' then read_inherited_system_config fo path else read_system_config_file fo path) (\<lambda>bytes.
        io_return (bnd (parse bytes) system_config_validate)))"

section \<open>The Rift executable\<close>

text \<open>The file of an inherited executable is its descriptor.\<close>

datatype executable_authority =
    PathExecutable executable_identity
  | InheritedDescriptorExecutable inherited_descriptor_identity nat

fun authority_identity :: "executable_authority \<Rightarrow> executable_identity" where
  "authority_identity (PathExecutable identity) = identity"
| "authority_identity (InheritedDescriptorExecutable identity fd) = di_executable identity"

fun same_identity :: "executable_authority \<Rightarrow> executable_authority \<Rightarrow> bool" where
  "same_identity (PathExecutable left) (PathExecutable right) \<longleftrightarrow> left = right"
| "same_identity (InheritedDescriptorExecutable left _) (InheritedDescriptorExecutable right _) \<longleftrightarrow> left = right"
| "same_identity _ _ \<longleftrightarrow> False"

text \<open>A file of which the authority is open for executing, with the cache and the process-wide authority in the state.\<close>

type_synonym ('w, 'a) rift = "(('w \<times> executable_cache) \<times> executable_authority option, 'a) io"

definition rift_cached :: "('w, 'a) cached \<Rightarrow> ('w, 'a) rift" where
  "rift_cached m s = (case m (fst s) of (r, c) \<Rightarrow> (r, (c, snd s)))"

definition open_executable_authority :: "'w file_ops \<Rightarrow> executable_identity \<Rightarrow> ('w, executable_authority) cached" where
  "open_executable_authority fo identity =
     io_bind (verify_executable fo identity) (\<lambda>_. io_return (Ok (PathExecutable identity)))"

definition open_inherited_descriptor_executable :: "'w file_ops \<Rightarrow> string \<Rightarrow> ('w, executable_authority) io" where
  "open_inherited_descriptor_executable fo path =
     io_bind (io_return (parse_inherited_descriptor_path path)) (\<lambda>descriptor.
     io_bind (fo_fd_flags fo descriptor) (\<lambda>flags.
     io_bind (fo_set_fd_flags fo descriptor (flags OR FD_CLOEXEC)) (\<lambda>_.
     io_bind (inherited_descriptor_identity fo path descriptor) (\<lambda>identity.
     io_return (Ok (InheritedDescriptorExecutable identity descriptor))))))"

definition rift_executable_authority_from_argument :: "'w file_ops \<Rightarrow> string \<Rightarrow> ('w, executable_authority) cached" where
  "rift_executable_authority_from_argument fo path =
     (if starts_with path ''/proc/'' then uncached (open_inherited_descriptor_executable fo path)
      else
        io_bind (io_return (require_absolute path ''Rift executable'')) (\<lambda>_.
        io_bind (executable_identity fo path) (\<lambda>identity.
        open_executable_authority fo identity)))"

definition verify_operation_authority :: "'w file_ops \<Rightarrow> executable_authority \<Rightarrow> ('w, unit) io" where
  "verify_operation_authority fo authority =
     (case authority of
        PathExecutable _ \<Rightarrow> io_return (Ok ())
      | InheritedDescriptorExecutable identity fd \<Rightarrow>
          io_bind (inherited_descriptor_identity fo (ei_path (di_executable identity)) fd) (\<lambda>actual.
          io_return (require (actual = identity) (Bail ''inherited Rift executable identity changed''))))"

definition validate_rift_executable_environment :: "'w file_ops \<Rightarrow> ('w, unit) io" where
  "validate_rift_executable_environment fo =
     io_bind (fo_env fo ''IQ_RIFT_CLI'') (\<lambda>v.
     io_return (require (v = None) (Bail ''Rift executable environment overrides are forbidden'')))"

definition set_authority :: "executable_authority \<Rightarrow> ('w, unit) rift" where
  "set_authority authority s = (Ok (), (fst s, Some authority))"

definition initialize_rift_executable_authority :: "'w file_ops \<Rightarrow> string \<Rightarrow> ('w, unit) rift" where
  "initialize_rift_executable_authority fo path =
     io_bind (rift_cached (uncached (validate_rift_executable_environment fo))) (\<lambda>_. \<lambda>s.
     (case snd s of
        Some (InheritedDescriptorExecutable identity fd) \<Rightarrow>
          io_bind (io_return (parse_inherited_descriptor_path path)) (\<lambda>_.
          if ei_path (di_executable identity) \<noteq> path
          then io_return (Err (Bail ''Rift executable authority was already initialized differently''))
          else rift_cached (uncached (verify_operation_authority fo (InheritedDescriptorExecutable identity fd)))) s
      | existing \<Rightarrow>
          io_bind (rift_cached (rift_executable_authority_from_argument fo path)) (\<lambda>authority.
          (case existing of
             Some known \<Rightarrow>
               io_return (require (same_identity known authority)
                 (Bail ''Rift executable authority was already initialized differently''))
           | None \<Rightarrow> set_authority authority)) s))"

definition rift_executable_authority :: "'w file_ops \<Rightarrow> ('w, executable_authority) rift" where
  "rift_executable_authority fo =
     io_bind (rift_cached (uncached (validate_rift_executable_environment fo))) (\<lambda>_. \<lambda>s.
     (case snd s of
        None \<Rightarrow> Err (Bail ''Rift executable authority is not initialized; pass --rift-executable <absolute-path>'')
      | Some authority \<Rightarrow> Ok authority, s))"

text \<open>
  \<open>AuthorizedCommand::output\<close> and \<open>status\<close>: the authority is verified before the command is started and after it has ended;
  \<open>run\<close> is the command.  A failure of the second verification comes before that of the command.
\<close>

definition authorized_run :: "'w file_ops \<Rightarrow> executable_authority \<Rightarrow> ('w, 'a) io \<Rightarrow> ('w, 'a) io" where
  "authorized_run fo authority run =
     io_bind (verify_operation_authority fo authority) (\<lambda>_. \<lambda>w.
     (case run w of
        (result, w) \<Rightarrow> io_bind (verify_operation_authority fo authority) (\<lambda>_. io_return result) w))"

end
