(* ===== verification/Agent_Config_Properties.thy ===== *)
theory Agent_Config_Properties
  imports Agent_Config Issue_Effects Example_Run
begin

text \<open>
  The properties of the configuration: what a validated configuration gives the runner, the paths of descriptors, the cache of
  executable digests, and the authority of the Rift executable.
\<close>

section \<open>Snapshots\<close>

lemma enumerate_all: "list_all (\<lambda>(i, c). P i c) (enumerate n s) \<longleftrightarrow> (\<forall>k < length s. P (n + k) (s ! k))"
  by (auto simp: list_all_length nth_enumerate_eq)

lemma env_lowercase:
  assumes "configured_env_valid s"
  shows "credential_env_valid s \<longleftrightarrow> (\<forall>c \<in> set s. \<not> is_ascii_lowercase c)"
proof -
  have one: "(c = CHR ''_'' \<or> is_ascii_uppercase c \<or> k > 0 \<and> is_ascii_digit c) \<longleftrightarrow> \<not> is_ascii_lowercase c"
    if "c = CHR ''_'' \<or> is_ascii_alphanumeric c \<and> (k \<noteq> 0 \<or> \<not> is_ascii_digit c)" for c and k :: nat
    using that by (auto simp: ascii_defs)
  have "\<forall>k < length s. s ! k = CHR ''_'' \<or> is_ascii_alphanumeric (s ! k) \<and> (k \<noteq> 0 \<or> \<not> is_ascii_digit (s ! k))"
    using assms by (simp add: configured_env_valid_def enumerate_all)
  with one show ?thesis by (auto simp: credential_env_valid_def enumerate_all all_set_conv_all_nth)
qed

text \<open>C33: A validated configuration gives a runner that efforts accept, for any exact model and valid executables, unless the
  name of its credential variable has a lower case letter: the configuration accepts such a name, every effort refuses it.\<close>

theorem configured_runners_are_usable:
  assumes "system_config_validate config = Inr config'" "exact_text model"
    and "executable_identity_valid executable" "sb_implementation sandbox = ''linux_userns_tmpfs_overlay_v1''"
    and "\<forall>e \<in> {sb_bubblewrap sandbox, sb_unshare sandbox, sb_systemd_run sandbox, sb_systemctl sandbox}. executable_identity_valid e"
  shows "is_ok (runner_validate (snapshot_of (sy_integration_agent config) model executable sandbox))
    \<longleftrightarrow> (\<forall>c \<in> set (gc_credential_env (sy_integration_agent config)). \<not> is_ascii_lowercase c)"
proof -
  have impl: "exact_text ''linux_userns_tmpfs_overlay_v1''" by code_simp
  from assms(1) have agent: "exact_text (gc_agent (sy_integration_agent config))"
    "exact_text (gc_credential_env (sy_integration_agent config))"
    "configured_env_valid (gc_credential_env (sy_integration_agent config))" "bounds_positive (snapshot_of (sy_integration_agent config) model executable sandbox)"
    by (auto simp: system_config_validate_def Let_def result_simps bnd_eq_Ok snapshot_of_def bounds_positive_def)
  with assms(2-5) impl env_lowercase [OF agent(3)] show ?thesis
    by (simp add: runner_validate_def snapshot_of_def is_ok_bnd result_simps bnd_eq_Ok)
qed

definition ax_agent :: "string \<Rightarrow> integration_agent_config" where
  "ax_agent env = \<lparr>gc_runner = Opencode, gc_executable = ''/x'', gc_agent = ''a'', gc_model = ''m'', gc_cycle_timeout_seconds = 1,
     gc_max_log_bytes = 1, gc_max_result_bytes = 1, gc_max_processes = 1, gc_memory_bytes = 1, gc_cpu_seconds = 1,
     gc_writable_bytes = 1, gc_open_files = 1, gc_credential_env = env\<rparr>"

definition ax_control :: control_plane_config where
  "ax_control = \<lparr>cc_unix_socket = ''/s'', cc_max_request_bytes = 100, cc_max_free_text_bytes = 10, cc_max_response_bytes = 100,
     cc_max_concurrent_clients = 2, cc_max_client_queue_bytes = 200, cc_max_stream_backlog_events = 2, cc_client_idle_seconds = 1\<rparr>"

definition ax_config :: "string \<Rightarrow> system_config" where
  "ax_config env = \<lparr>sy_integration_agent = ax_agent env, sy_control_plane = ax_control,
     sy_notifications = default_notification_config\<rparr>"

definition ax_sandbox :: sandbox_identity where
  "ax_sandbox = \<lparr>sb_implementation = ''linux_userns_tmpfs_overlay_v1'', sb_bubblewrap = ex_executable, sb_unshare = ex_executable,
     sb_systemd_run = ex_executable, sb_systemctl = ex_executable\<rparr>"

theorem configured_runners_are_usable_witness:
  "is_ok (runner_validate (snapshot_of (ax_agent ''KEY'') ''m'' ex_executable ax_sandbox))
   \<and> \<not> is_ok (runner_validate (snapshot_of (ax_agent ''key'') ''m'' ex_executable ax_sandbox))"
proof -
  have valid: "is_ok (system_config_validate (ax_config ''KEY''))" "is_ok (system_config_validate (ax_config ''key''))"
    "exact_text ''m''" "executable_identity_valid ex_executable" by code_simp+
  have sandbox: "sb_implementation ax_sandbox = ''linux_userns_tmpfs_overlay_v1''"
    "\<forall>e \<in> {sb_bubblewrap ax_sandbox, sb_unshare ax_sandbox, sb_systemd_run ax_sandbox, sb_systemctl ax_sandbox}. executable_identity_valid e"
    using valid(4) by (simp_all add: ax_sandbox_def)
  from valid(1,2) obtain c1 c2 where c: "system_config_validate (ax_config ''KEY'') = Inr c1" "system_config_validate (ax_config ''key'') = Inr c2"
    unfolding is_ok_iff by blast
  have "is_ascii_lowercase (CHR ''k'')" "\<not> is_ascii_lowercase (CHR ''K'')" "\<not> is_ascii_lowercase (CHR ''E'')"
    "\<not> is_ascii_lowercase (CHR ''Y'')" by code_simp+
  with configured_runners_are_usable [OF c(1) valid(3,4) sandbox] configured_runners_are_usable [OF c(2) valid(3,4) sandbox]
  show ?thesis by (simp add: ax_config_def ax_agent_def)
qed

section \<open>Descriptors\<close>

lemma decimal_value_append: "decimal_value (s @ [c]) = 10 * decimal_value s + (byte c - 48)"
  by (simp add: decimal_value_def)

lemma decimal_text_value: "decimal_value (decimal_text n) = n"
proof (induction n rule: decimal_text.induct)
  case (1 n)
  then show ?case by (subst decimal_text.simps) (auto simp: decimal_value_append, simp add: decimal_value_def)
qed

lemma byte_zero: "byte c = 48 \<longleftrightarrow> c = CHR ''0''"
proof -
  have "byte (CHR ''0'') = 48" by simp
  then show ?thesis by (metis of_char_eq_iff)
qed

lemma digit_char: "is_ascii_digit c \<Longrightarrow> char_of (48 + (byte c - 48)) = c \<and> byte c - 48 < 10"
  by (auto simp: is_ascii_digit_def)

lemma value_decimal_text:
  assumes "list_all is_ascii_digit s" "s \<noteq> []" "hd s \<noteq> CHR ''0''"
  shows "decimal_text (decimal_value s) = s \<and> decimal_value s > 0"
  using assms
proof (induction s rule: rev_induct)
  case (snoc c t)
  then have c: "char_of (48 + (byte c - 48)) = c" "byte c - 48 < 10" using digit_char [of c] by simp_all
  show ?case
  proof (cases "t = []")
    case True
    with snoc.prems have "byte c \<noteq> 48" by (simp add: byte_zero)
    with True snoc.prems c show ?thesis
      by (subst decimal_text.simps) (auto simp: decimal_value_def is_ascii_digit_def)
  next
    case False
    with snoc have "decimal_text (decimal_value t) = t" "decimal_value t > 0" by simp_all
    with c show ?thesis by (subst decimal_text.simps) (simp add: decimal_value_append)
  qed
qed simp

lemma decimal_text_nonempty: "decimal_text n \<noteq> []"
  by (subst decimal_text.simps) simp

lemma decimal_text_digits: "list_all is_ascii_digit (decimal_text n) \<and> decimal_text n \<noteq> []
    \<and> (length (decimal_text n) = 1 \<or> hd (decimal_text n) \<noteq> CHR ''0'')"
proof (induction n rule: decimal_text.induct)
  case (1 n)
  have digit: "is_ascii_digit (char_of (48 + k))" if "k < (10 :: nat)" for k using that by (simp add: is_ascii_digit_def)
  show ?case
  proof (cases "n < 10")
    case True
    with digit [of n] show ?thesis by (subst (1 2 3 4) decimal_text.simps) simp
  next
    case False
    have "hd (decimal_text (n div 10)) \<noteq> CHR ''0''"
    proof (cases "n div 10 < 10")
      case True
      have "byte (char_of (48 + n div 10)) = 48 + n div 10" using True by simp
      moreover have "n div 10 \<noteq> 0" using False by simp
      ultimately have "char_of (48 + n div 10) \<noteq> CHR ''0''" using byte_zero [of "char_of (48 + n div 10)"] by simp
      then show ?thesis using True by (subst decimal_text.simps) simp
    qed (use 1 False in \<open>auto simp: decimal_text.simps [of "n div 10"] decimal_text_nonempty\<close>)
    with 1 False digit [of "n mod 10"] show ?thesis by (subst (1 2 3 4) decimal_text.simps) (simp add: hd_append)
  qed
qed

text \<open>The path of an inherited descriptor is its only name: the parser accepts exactly the paths that \<open>/proc/self/fd\<close> has for
  the descriptors of a process, and reads the number back.\<close>

theorem descriptor_paths_are_canonical:
  "parse_inherited_descriptor_path path = Inr fd \<longleftrightarrow> path = ''/proc/self/fd/'' @ decimal_text fd \<and> fd < 2 ^ 31"
proof
  assume p: "parse_inherited_descriptor_path path = Inr fd"
  then obtain v where v: "strip_prefix descriptor_prefix path = Some v" "v \<noteq> []" "list_all is_ascii_digit v"
    "length v = 1 \<or> hd v \<noteq> CHR ''0''" "decimal_value v < 2 ^ 31" "fd = decimal_value v"
    by (auto simp: parse_inherited_descriptor_path_def split: option.splits if_splits)
  have "path = descriptor_prefix @ v"
    using v(1) by (auto simp: strip_prefix_def starts_with_iff split: if_splits)
  moreover have "decimal_text (decimal_value v) = v"
  proof (cases "hd v = CHR ''0''")
    case True
    with v(2,4) have "v = ''0''" by (cases v) auto
    show ?thesis unfolding \<open>v = ''0''\<close> by code_simp
  qed (use v value_decimal_text in blast)
  ultimately show "path = ''/proc/self/fd/'' @ decimal_text fd \<and> fd < 2 ^ 31" using v(5,6) by (simp add: descriptor_prefix_def)
next
  assume p: "path = ''/proc/self/fd/'' @ decimal_text fd \<and> fd < 2 ^ 31"
  then have "strip_prefix descriptor_prefix path = Some (decimal_text fd)"
    by (simp add: strip_prefix_def starts_with_iff descriptor_prefix_def)
  with p decimal_text_digits [of fd] show "parse_inherited_descriptor_path path = Inr fd"
    by (auto simp: parse_inherited_descriptor_path_def decimal_text_value)
qed

section \<open>Executables\<close>





lemma uncachedD: "uncached m s = (r, s') \<Longrightarrow> m (fst s) = (r, fst s') \<and> snd s' = snd s"
  by (auto simp: uncached_def split: prod.splits)











end
