(* ===== verification/Control_Api.thy ===== *)
theory Control_Api
  imports State_Repository Agent_Config
begin

text \<open>
  The control API of the daemon (\<open>control_api.rs\<close>): requests and responses in length-prefixed frames, the handling of a
  connection, the client, the stream of events with its producer and its bounded queue, the loop that accepts connections,
  and the probe of an orchestrator (\<open>control_store.rs\<close>).  Parameters: the socket, the shutdown flag, the JSON reader and
  printer, and the clock and identifiers of the store.
\<close>

section \<open>The probe of an orchestrator\<close>

definition SISYPHUS_BACKEND_PROTOCOL :: string where "SISYPHUS_BACKEND_PROTOCOL = ''sisyphus-backend/v1''"

definition SCHEMA_VERSION :: string where "SCHEMA_VERSION = ''6''"

datatype orchestration_unavailable_reason =
    ProtocolMismatch
  | InvalidRepositoryKey
  | RepositoryNotFound
  | RepositoryDraining
  | RepositoryDisabled
  | DirectIntegrationRequired
  | CurrentSchemaRequired
  | StateAuthorityUnavailable

record orchestration_availability =
  oa_protocol :: string
  oa_repo_key :: string
  oa_database_id :: string
  oa_database_path :: encoded_absolute_path
  oa_object_format :: git_object_format
  oa_default_target_branch :: string
  oa_integration_policy :: integration_policy
  oa_workspace_create :: bool
  oa_local_submit :: bool
  oa_semantic_review :: bool
  oa_exact_candidate_landing :: bool

datatype orchestration_probe_outcome =
    OrchestrationAvailable orchestration_availability
  | OrchestrationUnavailable (ou_protocol: string) (ou_repo_key: string) (ou_reason: orchestration_unavailable_reason)

definition probe_unavailable :: "string \<Rightarrow> orchestration_unavailable_reason \<Rightarrow> orchestration_probe_outcome" where
  "probe_unavailable repo_key reason = OrchestrationUnavailable SISYPHUS_BACKEND_PROTOCOL repo_key reason"

text \<open>\<open>parse_uuid\<close> is the printed form of the parsed identifier.\<close>

definition repo_key_from_stored :: "(string \<Rightarrow> string option) \<Rightarrow> string \<Rightarrow> string result" where
  "repo_key_from_stored parse_uuid value =
     (case parse_uuid value of
        None \<Rightarrow> Err (Bail ''repository key must be a UUID'')
      | Some parsed \<Rightarrow>
          if parsed \<noteq> value then Err (Bail ''repository key must use canonical lowercase UUID form'') else Ok value)"

text \<open>What the store knows of its database: \<open>ValidatedDatabaseAuthority\<close>.\<close>

record state_authority =
  sa_database_id :: string
  sa_encoded_path :: encoded_absolute_path
  sa_workspace_schema_version :: string

text \<open>The row of the join of \<open>registered_repositories\<close> with \<open>repository_policies\<close>.\<close>

definition probe_row :: "string \<Rightarrow> db \<Rightarrow> repository_policy option" where
  "probe_row repo_key d =
     (if list_ex (\<lambda>r. rg_repo_key r = repo_key) (repositories d)
      then map_option pl_policy (find (\<lambda>p. pl_repo_key p = repo_key) (policies d)) else None)"

definition probe_policy ::
    "(string \<Rightarrow> bool) \<Rightarrow> state_authority \<Rightarrow> string \<Rightarrow> repository_policy \<Rightarrow> orchestration_probe_outcome" where
  "probe_policy utf8 authority repo_key stored =
     (case po_operation_state stored of
        Draining _ \<Rightarrow> probe_unavailable repo_key RepositoryDraining
      | Disabled \<Rightarrow> probe_unavailable repo_key RepositoryDisabled
      | Enabled \<Rightarrow>
          (case git_repository_validate utf8 (po_canonical_repository stored) ''orchestration probe repository'' of
             Inl _ \<Rightarrow> probe_unavailable repo_key StateAuthorityUnavailable
           | Inr canonical \<Rightarrow>
               if po_integration_policy stored \<noteq> Direct then probe_unavailable repo_key DirectIntegrationRequired
               else
                 (case validate_target_branch (po_target_branch stored) of
                    Inl _ \<Rightarrow> probe_unavailable repo_key StateAuthorityUnavailable
                  | Inr _ \<Rightarrow>
                      OrchestrationAvailable
                        \<lparr>oa_protocol = SISYPHUS_BACKEND_PROTOCOL, oa_repo_key = repo_key,
                         oa_database_id = sa_database_id authority, oa_database_path = sa_encoded_path authority,
                         oa_object_format = object_format canonical,
                         oa_default_target_branch = po_target_branch stored, oa_integration_policy = Direct,
                         oa_workspace_create = True, oa_local_submit = True, oa_semantic_review = True,
                         oa_exact_candidate_landing = True\<rparr>)))"

definition probe_orchestration ::
    "(string \<Rightarrow> string option) \<Rightarrow> (string \<Rightarrow> bool) \<Rightarrow> state_authority \<Rightarrow> ('w, unit) io \<Rightarrow> string \<Rightarrow> string
       \<Rightarrow> ('w, orchestration_probe_outcome) act" where
  "probe_orchestration parse_uuid utf8 authority connect repo_key protocol =
     (if protocol \<noteq> SISYPHUS_BACKEND_PROTOCOL then act_return (Ok (probe_unavailable repo_key ProtocolMismatch))
      else
        (case repo_key_from_stored parse_uuid repo_key of
           Inl _ \<Rightarrow> act_return (Ok (probe_unavailable repo_key InvalidRepositoryKey))
         | Inr _ \<Rightarrow>
             if sa_workspace_schema_version authority \<noteq> SCHEMA_VERSION
             then act_return (Ok (probe_unavailable repo_key CurrentSchemaRequired))
             else
               act_bind (act_try (act_world connect)) (\<lambda>connection.
               act_bind (act_read (\<lambda>d. Ok (probe_row repo_key d))) (\<lambda>stored.
               act_return (Ok
                 (if connection \<noteq> Ok () then probe_unavailable repo_key StateAuthorityUnavailable
                  else
                    (case stored of
                       None \<Rightarrow> probe_unavailable repo_key RepositoryNotFound
                     | Some stored \<Rightarrow> probe_policy utf8 authority repo_key stored)))))))"

section \<open>Requests and responses\<close>

datatype api_request =
    Inbox nat
  | ShowItem string
  | ProbeOrchestration string string
  | Answer answer_command
  | Review review_command
  | Watch (wt_cursor: nat) (wt_limit: nat)
  | Retry string

record api_envelope =
  av_version :: nat
  av_request :: api_request

text \<open>\<open>serde_json::Value\<close>, as far as responses build it.\<close>

datatype api_value =
    EffortsValue "effort list"
  | EffortValue effort
  | ProbeValue orchestration_probe_outcome
  | DispositionValue answer_disposition
  | ReceiptValue review_receipt
  | RequestError string
  | TooManyClients
  | InvalidStreamLimit nat nat
  | CursorExpired nat nat
  | EventsValue nat "event list"
  | DisconnectValue string nat

record api_response =
  as_version :: nat
  as_ok :: bool
  as_result :: api_value

definition response :: "bool \<Rightarrow> api_value \<Rightarrow> api_response" where
  "response success result = \<lparr>as_version = 1, as_ok = success, as_result = result\<rparr>"

text \<open>The member \<open>cursor\<close> of a value.\<close>

fun value_cursor :: "api_value \<Rightarrow> nat option" where
  "value_cursor (InvalidStreamLimit maximum cursor) = Some cursor"
| "value_cursor (CursorExpired oldest cursor) = Some cursor"
| "value_cursor (EventsValue cursor evs) = Some cursor"
| "value_cursor (DisconnectValue reason cursor) = Some cursor"
| "value_cursor _ = None"

fun is_disconnect :: "api_value \<Rightarrow> bool" where
  "is_disconnect (DisconnectValue reason cursor) \<longleftrightarrow> True"
| "is_disconnect _ \<longleftrightarrow> False"

section \<open>Frames\<close>

text \<open>
  \<open>sk_read\<close> is \<open>read_exact\<close>, \<open>sk_write\<close> is \<open>write_all\<close>; a message in a frame is printed and read by \<open>serde_json\<close>.
\<close>

record 'w socket_ops =
  sk_connect :: "('w, unit) io"
  sk_read :: "nat \<Rightarrow> ('w, string) io"
  sk_write :: "string \<Rightarrow> ('w, unit) io"
  sk_flush :: "('w, unit) io"
  sk_print_response :: "api_response \<Rightarrow> string result"
  sk_parse_response :: "string \<Rightarrow> api_response result"
  sk_print_envelope :: "api_envelope \<Rightarrow> string result"
  sk_parse_envelope :: "string \<Rightarrow> api_envelope result"

text \<open>\<open>u32::to_be_bytes\<close> of a length cast to 32 bits, and \<open>u32::from_be_bytes\<close>.\<close>

definition be_bytes :: "nat \<Rightarrow> string" where
  "be_bytes n = map (\<lambda>k. char_of (n div 256 ^ k)) [3, 2, 1, 0]"

definition be_value :: "string \<Rightarrow> nat" where
  "be_value bytes = foldl (\<lambda>n c. n * 256 + of_char c) 0 bytes"

definition read_frame :: "'w socket_ops \<Rightarrow> nat \<Rightarrow> ('w, string) io" where
  "read_frame sk bound =
     io_bind (sk_read sk 4) (\<lambda>prefix.
     (let len = be_value prefix in
      if len = 0 \<or> len > bound then io_return (Err (Bail ''control API frame exceeds configured bound''))
      else sk_read sk len))"

definition write_frame :: "'w socket_ops \<Rightarrow> string \<Rightarrow> ('w, unit) io" where
  "write_frame sk bytes =
     io_bind (sk_write sk (be_bytes (length bytes))) (\<lambda>_.
     io_bind (sk_write sk bytes) (\<lambda>_. sk_flush sk))"

definition write_response :: "'w socket_ops \<Rightarrow> api_response \<Rightarrow> nat \<Rightarrow> ('w, unit) io" where
  "write_response sk r bound =
     io_bind (io_return (sk_print_response sk r)) (\<lambda>bytes.
     if length bytes > bound \<or> length bytes > 2 ^ 32 - 1
     then io_return (Err (Bail ''control API response exceeds configured bound''))
     else write_frame sk bytes)"

section \<open>The client\<close>

text \<open>The first lines of \<open>request\<close> and \<open>watch\<close>.\<close>

definition send_request :: "'w socket_ops \<Rightarrow> api_request \<Rightarrow> ('w, unit) io" where
  "send_request sk req =
     io_bind (sk_connect sk) (\<lambda>_.
     io_bind (io_return (sk_print_envelope sk \<lparr>av_version = 1, av_request = req\<rparr>)) (\<lambda>bytes. write_frame sk bytes))"

definition api_request_once :: "'w socket_ops \<Rightarrow> api_request \<Rightarrow> nat \<Rightarrow> ('w, api_response) io" where
  "api_request_once sk req max_response_bytes =
     io_bind (send_request sk req) (\<lambda>_.
     io_bind (read_frame sk max_response_bytes) (\<lambda>bytes. io_return (sk_parse_response sk bytes)))"

definition next_cursor :: "nat \<Rightarrow> api_response \<Rightarrow> nat" where
  "next_cursor last_cursor r = (case value_cursor (as_result r) of None \<Rightarrow> last_cursor | Some c \<Rightarrow> c)"

definition ends_watch :: "api_response \<Rightarrow> bool" where
  "ends_watch r \<longleftrightarrow> \<not> as_ok r \<or> is_disconnect (as_result r)"

text \<open>The loop of \<open>watch\<close> for at most a number of responses; \<open>None\<close> when it has not ended by then.\<close>

fun watch_responses ::
    "'w socket_ops \<Rightarrow> nat \<Rightarrow> (api_response \<Rightarrow> ('w, unit) io) \<Rightarrow> nat \<Rightarrow> nat \<Rightarrow> ('w, nat option) io" where
  "watch_responses sk max_response_bytes receive 0 last_cursor = io_return (Ok None)"
| "watch_responses sk max_response_bytes receive (Suc n) last_cursor =
     io_bind (read_frame sk max_response_bytes) (\<lambda>bytes.
     io_bind (io_return (sk_parse_response sk bytes)) (\<lambda>r.
     io_bind (receive r) (\<lambda>_.
     if ends_watch r then io_return (Ok (Some (next_cursor last_cursor r)))
     else watch_responses sk max_response_bytes receive n (next_cursor last_cursor r))))"

definition watch ::
    "'w socket_ops \<Rightarrow> nat \<Rightarrow> nat \<Rightarrow> nat \<Rightarrow> (api_response \<Rightarrow> ('w, unit) io) \<Rightarrow> nat \<Rightarrow> ('w, nat option) io" where
  "watch sk cursor limit max_response_bytes receive fuel =
     io_bind (send_request sk (Watch cursor limit)) (\<lambda>_. watch_responses sk max_response_bytes receive fuel cursor)"

section \<open>A connection\<close>

text \<open>What a connection uses beside its socket; \<open>ap_pump\<close> is the pair of threads that streams the events.\<close>

record 'w api_ops =
  ap_socket :: "'w socket_ops"
  ap_notifier :: "'w notifier"
  ap_requested :: "('w, bool) io"
  ap_peer_uid :: "('w, nat) io"
  ap_timeouts :: "nat \<Rightarrow> ('w, unit) io"
  ap_uid :: nat
  ap_parse_uuid :: "string \<Rightarrow> string option"
  ap_utf8 :: "string \<Rightarrow> bool"
  ap_authority :: state_authority
  ap_connect :: "('w, unit) io"
  ap_pump :: "nat \<Rightarrow> nat \<Rightarrow> ('w, unit) act"

text \<open>A transaction at the time of its start with an identifier.\<close>

definition api_transaction :: "'w api_ops \<Rightarrow> (string \<Rightarrow> string \<Rightarrow> db \<Rightarrow> (db \<times> 'a) result) \<Rightarrow> ('w, 'a) act" where
  "api_transaction ap f =
     act_bind (notifier_stamp (ap_notifier ap)) (\<lambda>now.
     act_bind (notifier_uuid (ap_notifier ap)) (\<lambda>uuid. act_store (f now uuid)))"

definition effort_of_item :: "string \<Rightarrow> ('w, effort) act" where
  "effort_of_item item_id =
     act_bind (act_read (effort_for_item item_id)) (\<lambda>found.
     act_return (case found of None \<Rightarrow> Err (Bail (''item has no effort: '' @ item_id)) | Some e \<Rightarrow> Ok e))"

definition review_text :: "review_decision \<Rightarrow> string option" where
  "review_text decision = (case decision of Approve text \<Rightarrow> text | RequestChanges text \<Rightarrow> Some text)"

fun api_result :: "'w api_ops \<Rightarrow> control_plane_config \<Rightarrow> nat \<Rightarrow> api_request \<Rightarrow> ('w, api_value) act" where
  "api_result ap config peer (Inbox limit) =
     act_bind (act_read (inbox limit)) (\<lambda>es. act_return (Ok (EffortsValue es)))"
| "api_result ap config peer (ShowItem item_id) =
     act_bind (effort_of_item item_id) (\<lambda>e. act_return (Ok (EffortValue e)))"
| "api_result ap config peer (ProbeOrchestration repo_key protocol) =
     act_bind (probe_orchestration (ap_parse_uuid ap) (ap_utf8 ap) (ap_authority ap) (ap_connect ap) repo_key protocol)
       (\<lambda>outcome. act_return (Ok (ProbeValue outcome)))"
| "api_result ap config peer (Answer command) =
     (if length (ac_answer command) > cc_max_free_text_bytes config
      then act_return (Err (Bail ''answer exceeds configured free-text bound''))
      else
        act_bind (api_transaction ap (\<lambda>now uuid. answer now uuid command (LocalPeer peer) (ap_uid ap)))
          (\<lambda>disposition. act_return (Ok (DispositionValue disposition))))"
| "api_result ap config peer (Review review) =
     (if case review_text (rm_decision review) of None \<Rightarrow> False | Some text \<Rightarrow> length text > cc_max_free_text_bytes config
      then act_return (Err (Bail ''candidate review exceeds configured free-text bound''))
      else
        act_bind (api_transaction ap (\<lambda>now uuid. review_candidate now uuid review (LocalPeer peer) (ap_uid ap)))
          (\<lambda>receipt. act_return (Ok (ReceiptValue receipt))))"
| "api_result ap config peer (Watch cursor limit) = act_return (Err (Abort ''internal error: entered unreachable code''))"
| "api_result ap config peer (Retry item_id) =
     act_bind (effort_of_item item_id) (\<lambda>e.
     act_bind (api_transaction ap (\<lambda>now uuid. retry_blocked now uuid (ef_id e) (LocalPeer peer) (ap_uid ap)))
       (\<lambda>e. act_return (Ok (EffortValue e))))"

definition response_of :: "api_value result \<Rightarrow> api_response" where
  "response_of result =
     (case result of Inr value \<Rightarrow> response True value | Inl error \<Rightarrow> response False (RequestError (error_text error)))"

definition client_bound :: "control_plane_config \<Rightarrow> nat" where
  "client_bound config = min (cc_max_response_bytes config) (cc_max_client_queue_bytes config)"

definition maximum_limit :: "control_plane_config \<Rightarrow> nat" where
  "maximum_limit config = min (cc_max_stream_backlog_events config) 10000"

text \<open>The sum saturates at the width of 64 bits.\<close>

definition refused_stream :: "control_plane_config \<Rightarrow> nat \<Rightarrow> nat \<Rightarrow> db \<Rightarrow> api_response option" where
  "refused_stream config cursor limit d =
     (if limit = 0 \<or> limit > maximum_limit config
      then Some (response False (InvalidStreamLimit (maximum_limit config) cursor))
      else
        (case oldest_event_sequence d of
           None \<Rightarrow> None
         | Some oldest \<Rightarrow>
             if cursor \<noteq> 0 \<and> min (cursor + 1) (2 ^ 64 - 1) < oldest
             then Some (response False (CursorExpired (oldest - 1) cursor)) else None))"

definition stream_events :: "'w api_ops \<Rightarrow> control_plane_config \<Rightarrow> nat \<Rightarrow> nat \<Rightarrow> ('w, unit) act" where
  "stream_events ap config cursor limit =
     act_bind (act_read (\<lambda>d. Ok (refused_stream config cursor limit d))) (\<lambda>refused.
     (case refused of
        Some r \<Rightarrow> act_world (write_response (ap_socket ap) r (client_bound config))
      | None \<Rightarrow> ap_pump ap cursor limit))"

definition handle_request :: "'w api_ops \<Rightarrow> control_plane_config \<Rightarrow> nat \<Rightarrow> api_request \<Rightarrow> ('w, unit) act" where
  "handle_request ap config peer req =
     (case req of
        Watch cursor limit \<Rightarrow> stream_events ap config cursor limit
      | _ \<Rightarrow>
          act_bind (act_try (api_result ap config peer req)) (\<lambda>result.
          act_world (write_response (ap_socket ap) (response_of result) (client_bound config))))"

definition handle_connection :: "'w api_ops \<Rightarrow> control_plane_config \<Rightarrow> ('w, unit) act" where
  "handle_connection ap config =
     act_bind (act_world (ap_requested ap)) (\<lambda>requested.
     if requested then act_return (Ok ())
     else
       act_bind (act_world (ap_peer_uid ap)) (\<lambda>peer.
       act_bind (act_return (require (peer = ap_uid ap) (Bail ''control API peer UID is not the daemon UID''))) (\<lambda>_.
       act_bind (act_world (ap_timeouts ap (cc_client_idle_seconds config))) (\<lambda>_.
       act_bind (act_world (read_frame (ap_socket ap) (cc_max_request_bytes config))) (\<lambda>frame.
       act_bind (act_return (sk_parse_envelope (ap_socket ap) frame)) (\<lambda>envelope.
       act_bind (act_return (require (av_version envelope = 1) (Bail ''unsupported control API version''))) (\<lambda>_.
       handle_request ap config peer (av_request envelope))))))))"

end
