(* ===== verification/Api_Tasks.thy ===== *)
theory Api_Tasks
  imports Control_Api
begin

text \<open>
  The threads of the control API (\<open>control_api.rs\<close>): the two threads that stream events, as steps of a producer and a consumer
  beside the transactions of other connections, and the loop that accepts connections, as steps beside its workers.  Time is
  not modelled: a wait may end at any step.
\<close>

section \<open>Streams\<close>

text \<open>
  A stream of events: \<open>es_ready\<close> is the batch that the producer has selected and not yet sent, \<open>es_queue\<close> the channel,
  \<open>es_checked\<close> tells that the consumer has looked at the flag of backpressure and waits for a batch, \<open>es_written\<close> are the
  responses that were written, each thread has its result when it has ended, and \<open>es_shutdown\<close> is the flag of the shutdown.
\<close>

record event_stream =
  es_db :: db
  es_selected :: nat
  es_ready :: "api_response option"
  es_queue :: "api_response list"
  es_backpressure :: bool
  es_producer :: "unit result option"
  es_cursor :: nat
  es_checked :: bool
  es_written :: "api_response list"
  es_consumer :: "unit result option"
  es_shutdown :: bool

definition opened :: "db \<Rightarrow> nat \<Rightarrow> event_stream" where
  "opened d cursor =
     \<lparr>es_db = d, es_selected = cursor, es_ready = None, es_queue = [], es_backpressure = False, es_producer = None,
      es_cursor = cursor, es_checked = False, es_written = [], es_consumer = None, es_shutdown = False\<rparr>"

definition message_bound :: "control_plane_config \<Rightarrow> nat" where
  "message_bound config = max 1 (cc_max_client_queue_bytes config div max 1 (cc_max_response_bytes config))"

definition next_batch :: "nat \<Rightarrow> nat \<Rightarrow> db \<Rightarrow> api_response option result" where
  "next_batch selected limit d =
     bnd (events_after selected limit d) (\<lambda>evs.
     Ok (if evs = [] then None else Some (response True (EventsValue (ev_sequence (last evs)) evs))))"

definition too_large :: "'w socket_ops \<Rightarrow> nat \<Rightarrow> api_response \<Rightarrow> bool result" where
  "too_large sk bound r = bnd (sk_print_response sk r) (\<lambda>bytes. Ok (length bytes > bound))"

text \<open>The producer selects a batch; a batch above the bound ends it with backpressure, and the cursor stays.\<close>

definition select_batch :: "'w socket_ops \<Rightarrow> control_plane_config \<Rightarrow> nat \<Rightarrow> event_stream \<Rightarrow> event_stream" where
  "select_batch sk config limit s =
     (case next_batch (es_selected s) limit (es_db s) of
        Inl e \<Rightarrow> s\<lparr>es_producer := Some (Err e)\<rparr>
      | Inr None \<Rightarrow> if es_backpressure s then s\<lparr>es_producer := Some (Ok ())\<rparr> else s
      | Inr (Some r) \<Rightarrow>
          (case too_large sk (client_bound config) r of
             Inl e \<Rightarrow> s\<lparr>es_producer := Some (Err e)\<rparr>
           | Inr True \<Rightarrow> s\<lparr>es_backpressure := True, es_producer := Some (Ok ())\<rparr>
           | Inr False \<Rightarrow> s\<lparr>es_selected := next_cursor (es_selected s) r, es_ready := Some r\<rparr>))"

text \<open>\<open>try_send\<close>: the receiver is dropped when the consumer has ended.\<close>

definition send_batch :: "control_plane_config \<Rightarrow> api_response \<Rightarrow> event_stream \<Rightarrow> event_stream" where
  "send_batch config r s =
     (let s = s\<lparr>es_ready := None\<rparr> in
      if es_consumer s \<noteq> None then s\<lparr>es_producer := Some (Ok ())\<rparr>
      else if length (es_queue s) \<ge> message_bound config then s\<lparr>es_backpressure := True, es_producer := Some (Ok ())\<rparr>
      else s\<lparr>es_queue := es_queue s @ [r]\<rparr>)"

text \<open>What \<open>write_response\<close> may return: the socket may fail at any time.\<close>

definition write_outcome :: "'w socket_ops \<Rightarrow> api_response \<Rightarrow> nat \<Rightarrow> unit result \<Rightarrow> bool" where
  "write_outcome sk r bound outcome \<longleftrightarrow>
     (case sk_print_response sk r of
        Inl e \<Rightarrow> outcome = Err e
      | Inr bytes \<Rightarrow>
          if length bytes > bound \<or> length bytes > 2 ^ 32 - 1
          then outcome = Err (Bail ''control API response exceeds configured bound'') else True)"

definition receive_batch :: "api_response \<Rightarrow> api_response list \<Rightarrow> unit result \<Rightarrow> event_stream \<Rightarrow> event_stream" where
  "receive_batch r queue outcome s =
     (case outcome of
        Inr _ \<Rightarrow> s\<lparr>es_queue := queue, es_written := es_written s @ [r], es_cursor := next_cursor (es_cursor s) r,
                  es_checked := False\<rparr>
      | Inl e \<Rightarrow> s\<lparr>es_queue := queue, es_consumer := Some (Err e)\<rparr>)"

definition disconnection :: "string \<Rightarrow> event_stream \<Rightarrow> api_response" where
  "disconnection reason s = response True (DisconnectValue reason (es_cursor s))"

definition disconnect :: "string \<Rightarrow> unit result \<Rightarrow> event_stream \<Rightarrow> event_stream" where
  "disconnect reason outcome s =
     (case outcome of
        Inr _ \<Rightarrow> s\<lparr>es_written := es_written s @ [disconnection reason s], es_consumer := Some (Ok ())\<rparr>
      | Inl e \<Rightarrow> s\<lparr>es_consumer := Some (Err e)\<rparr>)"

text \<open>
  What other connections and the daemon do to the events: \<open>sequence\<close> is \<open>INTEGER PRIMARY KEY AUTOINCREMENT\<close>, so new events
  follow every earlier one; events go with the item they belong to.
\<close>

definition events_grow :: "db \<Rightarrow> db \<Rightarrow> bool" where
  "events_grow d d' \<longleftrightarrow>
     event_sequence d \<le> event_sequence d'
     \<and> (\<exists>keep new. events d' = filter keep (events d) @ new
          \<and> sorted_wrt (<) (event_sequence d # map ev_sequence new)
          \<and> (\<forall>v \<in> set new. ev_sequence v \<le> event_sequence d'))"

inductive stream_step :: "'w socket_ops \<Rightarrow> control_plane_config \<Rightarrow> nat \<Rightarrow> event_stream \<Rightarrow> event_stream \<Rightarrow> bool"
  for sk :: "'w socket_ops" and config :: control_plane_config and limit :: nat where
  stored_elsewhere: "events_grow (es_db s) d \<Longrightarrow> stream_step sk config limit s (s\<lparr>es_db := d\<rparr>)"
| selected: "es_producer s = None \<Longrightarrow> es_ready s = None \<Longrightarrow> stream_step sk config limit s (select_batch sk config limit s)"
| produced: "es_producer s = None \<Longrightarrow> es_ready s = Some r \<Longrightarrow> stream_step sk config limit s (send_batch config r s)"
| asked_to_end: "stream_step sk config limit s (s\<lparr>es_shutdown := True\<rparr>)"
| stopped: "es_producer s = None \<Longrightarrow> es_ready s = None \<Longrightarrow> es_consumer s \<noteq> None \<or> es_shutdown s \<Longrightarrow>
    stream_step sk config limit s (s\<lparr>es_producer := Some (Ok ())\<rparr>)"
| unpressed: "es_consumer s = None \<Longrightarrow> \<not> es_checked s \<Longrightarrow> \<not> es_backpressure s \<Longrightarrow>
    stream_step sk config limit s (s\<lparr>es_checked := True\<rparr>)"
| pressed: "es_consumer s = None \<Longrightarrow> \<not> es_checked s \<Longrightarrow> es_backpressure s \<Longrightarrow>
    write_outcome sk (disconnection ''backpressure'' s) (client_bound config) outcome \<Longrightarrow>
    stream_step sk config limit s (disconnect ''backpressure'' outcome s)"
| received: "es_consumer s = None \<Longrightarrow> es_checked s \<Longrightarrow> es_queue s = r # queue \<Longrightarrow>
    write_outcome sk r (cc_max_response_bytes config) outcome \<Longrightarrow>
    stream_step sk config limit s (receive_batch r queue outcome s)"
| waited: "es_consumer s = None \<Longrightarrow> es_checked s \<Longrightarrow> es_queue s = [] \<Longrightarrow> es_producer s = None \<or> es_backpressure s \<Longrightarrow>
    stream_step sk config limit s (s\<lparr>es_checked := False\<rparr>)"
| idled: "es_consumer s = None \<Longrightarrow> es_checked s \<Longrightarrow> es_queue s = [] \<Longrightarrow> es_producer s = None \<Longrightarrow>
    write_outcome sk (disconnection ''idle'' s) (client_bound config) outcome \<Longrightarrow>
    stream_step sk config limit s (disconnect ''idle'' outcome s)"
| hung_up: "es_consumer s = None \<Longrightarrow> es_checked s \<Longrightarrow> es_queue s = [] \<Longrightarrow> es_producer s \<noteq> None \<Longrightarrow> \<not> es_backpressure s \<Longrightarrow>
    stream_step sk config limit s (s\<lparr>es_consumer := Some (Ok ())\<rparr>)"
| shut_down: "es_consumer s = None \<Longrightarrow> \<not> es_checked s \<Longrightarrow> es_shutdown s \<Longrightarrow>
    stream_step sk config limit s (s\<lparr>es_consumer := Some (Ok ())\<rparr>)"

abbreviation stream_run :: "'w socket_ops \<Rightarrow> control_plane_config \<Rightarrow> nat \<Rightarrow> event_stream \<Rightarrow> event_stream \<Rightarrow> bool" where
  "stream_run sk config limit \<equiv> (stream_step sk config limit)\<^sup>*\<^sup>*"

text \<open>\<open>stream_result.and(producer_result)\<close>, when both threads have ended.\<close>

definition stream_result :: "event_stream \<Rightarrow> unit result option" where
  "stream_result s =
     (case es_consumer s of
        Some (Inl e) \<Rightarrow> if es_producer s = None then None else Some (Err e)
      | Some (Inr _) \<Rightarrow> es_producer s
      | None \<Rightarrow> None)"

text \<open>The events that a client has read.\<close>

fun batch_events :: "api_value \<Rightarrow> event list" where
  "batch_events (EventsValue cursor evs) = evs"
| "batch_events _ = []"

definition written_events :: "api_response list \<Rightarrow> event list" where
  "written_events rs = concat (map (\<lambda>r. batch_events (as_result r)) rs)"

section \<open>The loop of the server\<close>

datatype server_phase = Collecting | Accepting | Closing | Joining | Joined

text \<open>A worker has its registration and, when its thread has ended, its result.\<close>

record connection_worker =
  wk_stream :: "nat option"
  wk_result :: "unit result option"

record api_server =
  sv_phase :: server_phase
  sv_workers :: "connection_worker list"
  sv_active :: nat
  sv_requested :: bool
  sv_next_stream_id :: nat
  sv_streams :: "nat list"
  sv_first_error :: "error option"

definition serving :: api_server where
  "serving = \<lparr>sv_phase = Collecting, sv_workers = [], sv_active = 0, sv_requested = False, sv_next_stream_id = 0,
     sv_streams = [], sv_first_error = None\<rparr>"

definition record_first_error :: "error option \<Rightarrow> error \<Rightarrow> error option" where
  "record_first_error first error = (if first = None then Some error else first)"

definition record_join_result :: "error option \<Rightarrow> unit result \<Rightarrow> error option" where
  "record_join_result first outcome =
     (case outcome of Inr _ \<Rightarrow> first | Inl error \<Rightarrow> record_first_error first error)"

fun collect_finished_workers :: "connection_worker list \<Rightarrow> error option \<Rightarrow> connection_worker list \<times> error option" where
  "collect_finished_workers [] first = ([], first)"
| "collect_finished_workers (w # ws) first =
     (case wk_result w of
        None \<Rightarrow> (case collect_finished_workers ws first of (ws, first) \<Rightarrow> (w # ws, first))
      | Some outcome \<Rightarrow> collect_finished_workers ws (record_join_result first outcome))"

definition stop_serving :: "error \<Rightarrow> api_server \<Rightarrow> api_server" where
  "stop_serving error s = s\<lparr>sv_first_error := record_first_error (sv_first_error s) error, sv_phase := Closing\<rparr>"

definition collect_phase :: "api_server \<Rightarrow> api_server" where
  "collect_phase s =
     (case collect_finished_workers (sv_workers s) (sv_first_error s) of
        (ws, first) \<Rightarrow>
          s\<lparr>sv_workers := ws, sv_first_error := first, sv_phase := if first = None then Accepting else Closing\<rparr>)"

text \<open>\<open>ApiShutdown::register\<close> and \<open>unregister\<close>; a stream that comes after the shutdown is closed at once.\<close>

definition register_stream :: "api_server \<Rightarrow> (nat option \<times> api_server) result" where
  "register_stream s =
     (if sv_requested s then Ok (None, s)
      else if sv_next_stream_id s + 1 \<ge> 2 ^ 64 then Err (Bail ''control API stream identity exhausted'')
      else Ok (Some (sv_next_stream_id s),
             s\<lparr>sv_next_stream_id := sv_next_stream_id s + 1, sv_streams := sv_streams s @ [sv_next_stream_id s]\<rparr>))"

definition unregister_stream :: "nat option \<Rightarrow> api_server \<Rightarrow> api_server" where
  "unregister_stream stream_id s =
     (case stream_id of None \<Rightarrow> s | Some i \<Rightarrow> s\<lparr>sv_streams := filter (\<lambda>x. x \<noteq> i) (sv_streams s)\<rparr>)"

text \<open>A connection was accepted; \<open>refusal\<close> is the result of writing \<open>too_many_clients\<close>.\<close>

definition accept_connection :: "control_plane_config \<Rightarrow> unit result \<Rightarrow> api_server \<Rightarrow> api_server" where
  "accept_connection config refusal s =
     (case register_stream s of
        Inl error \<Rightarrow> stop_serving error s
      | Inr (stream_id, s) \<Rightarrow>
          if sv_active s \<ge> cc_max_concurrent_clients config
          then
            (case refusal of
               Inl error \<Rightarrow> unregister_stream stream_id (stop_serving error s)
             | Inr _ \<Rightarrow> unregister_stream stream_id (s\<lparr>sv_phase := Collecting\<rparr>))
          else s\<lparr>sv_active := sv_active s + 1, sv_workers := sv_workers s @ [\<lparr>wk_stream = stream_id, wk_result = None\<rparr>],
                 sv_phase := Collecting\<rparr>)"

text \<open>
  The end of the thread of a connection with the result of \<open>handle_connection\<close>: a failure is dropped after a shutdown was
  requested.  A thread that panics does not give its permit back.
\<close>

definition worker_ended :: "nat \<Rightarrow> unit result \<Rightarrow> api_server \<Rightarrow> api_server" where
  "worker_ended i outcome s =
     (let w = sv_workers s ! i; s' = unregister_stream (wk_stream w) s in
      s'\<lparr>sv_workers := (sv_workers s)[i := w\<lparr>wk_result := Some (if sv_requested s then Ok () else outcome)\<rparr>],
         sv_active := sv_active s - 1\<rparr>)"

definition worker_panicked :: "nat \<Rightarrow> api_server \<Rightarrow> api_server" where
  "worker_panicked i s =
     (let w = sv_workers s ! i; s' = unregister_stream (wk_stream w) s in
      s'\<lparr>sv_workers := (sv_workers s)[i := w\<lparr>wk_result := Some (Err (Bail ''IQ control API worker panicked''))\<rparr>]\<rparr>)"

text \<open>\<open>ApiShutdown::request\<close>, with the failures of closing the streams, and \<open>join_all_workers\<close>.\<close>

definition request_shutdown :: "error option \<Rightarrow> api_server \<Rightarrow> api_server" where
  "request_shutdown failure s =
     s\<lparr>sv_requested := True, sv_streams := [], sv_phase := Joining,
       sv_first_error := (case failure of None \<Rightarrow> sv_first_error s | Some e \<Rightarrow> record_first_error (sv_first_error s) e)\<rparr>"

definition join_all_workers :: "api_server \<Rightarrow> api_server" where
  "join_all_workers s =
     s\<lparr>sv_workers := [], sv_phase := Joined,
       sv_first_error := fold (\<lambda>w first. case wk_result w of None \<Rightarrow> first | Some outcome \<Rightarrow> record_join_result first outcome)
         (sv_workers s) (sv_first_error s)\<rparr>"

definition running :: "connection_worker \<Rightarrow> bool" where
  "running w \<longleftrightarrow> wk_result w = None"

inductive serve_step :: "control_plane_config \<Rightarrow> api_server \<Rightarrow> api_server \<Rightarrow> bool" for config :: control_plane_config where
  ended: "i < length (sv_workers s) \<Longrightarrow> running (sv_workers s ! i) \<Longrightarrow> serve_step config s (worker_ended i outcome s)"
| panicked: "i < length (sv_workers s) \<Longrightarrow> running (sv_workers s ! i) \<Longrightarrow> serve_step config s (worker_panicked i s)"
| collected: "sv_phase s = Collecting \<Longrightarrow> serve_step config s (collect_phase s)"
| accepted: "sv_phase s = Accepting \<Longrightarrow> serve_step config s (accept_connection config refusal s)"
| would_block: "sv_phase s = Accepting \<Longrightarrow> serve_step config s (s\<lparr>sv_phase := Collecting\<rparr>)"
| asked: "sv_phase s = Accepting \<Longrightarrow> serve_step config s (s\<lparr>sv_phase := Closing\<rparr>)"
| accept_failed: "sv_phase s = Accepting \<Longrightarrow> serve_step config s (stop_serving error s)"
| requested: "sv_phase s = Closing \<Longrightarrow> serve_step config s (request_shutdown failure s)"
| joined: "sv_phase s = Joining \<Longrightarrow> list_all (\<lambda>w. \<not> running w) (sv_workers s) \<Longrightarrow> serve_step config s (join_all_workers s)"

abbreviation serve_run :: "control_plane_config \<Rightarrow> api_server \<Rightarrow> api_server \<Rightarrow> bool" where
  "serve_run config \<equiv> (serve_step config)\<^sup>*\<^sup>*"

definition finish_errors :: "error option \<Rightarrow> unit result" where
  "finish_errors first = (case first of Some error \<Rightarrow> Err error | None \<Rightarrow> Ok ())"

text \<open>\<open>DaemonApiTask::finish_unexpected\<close>: the daemon fails when the control API ends.\<close>

definition finish_unexpected :: "unit result \<Rightarrow> unit result" where
  "finish_unexpected outcome =
     (case outcome of
        Inr _ \<Rightarrow> Err (Bail ''IQ control API stopped unexpectedly'')
      | Inl error \<Rightarrow> Err (Bail (''IQ control API stopped unexpectedly: '' @ error_text error)))"

inductive_cases serve_stepE: "serve_step config s t"
inductive_cases stream_stepE: "stream_step sk config limit s t"

end
