(* ===== verification/Api_Streams.thy ===== *)
theory Api_Streams
  imports Api_Tasks
begin

text \<open>
  What the control API guarantees: watchers get every event also when they resume, queues and clients are bounded, requests
  are runs of the store, frames arrive, and what a connection that fails does to the server.
\<close>

section \<open>Batches\<close>

definition sequenced :: "db \<Rightarrow> bool" where
  "sequenced d \<longleftrightarrow> distinct (map ev_sequence (events d)) \<and> (\<forall>v \<in> set (events d). ev_sequence v \<le> event_sequence d)"

text \<open>The events after \<open>lo\<close> up to \<open>hi\<close>, in their order.\<close>

definition covers :: "db \<Rightarrow> nat \<Rightarrow> nat \<Rightarrow> event list \<Rightarrow> bool" where
  "covers d lo hi evs \<longleftrightarrow>
     lo \<le> hi \<and> (hi = lo \<or> hi \<le> event_sequence d) \<and> sorted_wrt (<) (map ev_sequence evs)
     \<and> (\<forall>v \<in> set evs. lo < ev_sequence v \<and> ev_sequence v \<le> hi)
     \<and> (\<forall>v \<in> set (events d). lo < ev_sequence v \<longrightarrow> ev_sequence v \<le> hi \<longrightarrow> v \<in> set evs)"

lemma covers_nothing: "covers d c c []"
  by (auto simp: covers_def)

lemma coversD:
  assumes "covers d lo hi evs"
  shows "lo \<le> hi" "hi = lo \<or> hi \<le> event_sequence d" "sorted_wrt (<) (map ev_sequence evs)"
    "\<And>v. v \<in> set evs \<Longrightarrow> lo < ev_sequence v" "\<And>v. v \<in> set evs \<Longrightarrow> ev_sequence v \<le> hi"
    "\<And>v. v \<in> set (events d) \<Longrightarrow> lo < ev_sequence v \<Longrightarrow> ev_sequence v \<le> hi \<Longrightarrow> v \<in> set evs"
  using assms unfolding covers_def by blast+

lemma covers_trans:
  assumes x: "covers d a b xs" and y: "covers d b c ys"
  shows "covers d a c (xs @ ys)"
  unfolding covers_def
proof (intro conjI ballI impI, goal_cases)
  case 2 then show ?case using coversD(2) [OF x] coversD(1,2) [OF y] by auto
next
  case 3 then show ?case
    using coversD(3,5) [OF x] coversD(3,4) [OF y] by (auto simp: sorted_wrt_append intro: le_less_trans)
next
  case (4 v) then show ?case using coversD(4) [OF x] coversD(1) [OF x] coversD(4) [OF y, of v] by auto
next
  case (5 v) then show ?case using coversD(5) [OF x, of v] coversD(1) [OF y] coversD(5) [OF y] by auto
next
  case (6 v) then show ?case using coversD(6) [OF x, of v] coversD(6) [OF y, of v] by (cases "ev_sequence v \<le> b") auto
qed (use coversD(1) [OF x] coversD(1) [OF y] in simp)

lemma sequenced_grow:
  assumes "sequenced d" "events_grow d d'"
  shows "sequenced d'"
proof -
  obtain keep new where e: "events d' = filter keep (events d) @ new"
    and new: "sorted_wrt (<) (map ev_sequence new)" "\<And>v. v \<in> set new \<Longrightarrow> event_sequence d < ev_sequence v \<and> ev_sequence v \<le> event_sequence d'"
    and le: "event_sequence d \<le> event_sequence d'"
    using assms(2) unfolding events_grow_def by auto
  have old: "distinct (map ev_sequence (events d))" "\<And>v. v \<in> set (events d) \<Longrightarrow> ev_sequence v \<le> event_sequence d"
    using assms(1) by (auto simp: sequenced_def)
  have "distinct (map ev_sequence new)" using new(1) by (simp add: strict_sorted_iff)
  then have "distinct (map ev_sequence (events d'))"
    using old new(2) by (auto simp: e distinct_map_filter) (metis leD)
  then show ?thesis using old(2) new(2) le by (auto simp: sequenced_def e intro: order_trans)
qed

lemma covers_grow: "covers d lo hi evs \<Longrightarrow> events_grow d d' \<Longrightarrow> covers d' lo hi evs"
  by (fastforce simp: covers_def events_grow_def)

lemma grow_append_event:
  assumes "append_event_with_id now i e t p alert d = Inr d'"
  shows "events_grow d d'"
  using assms
  by (auto simp: append_event_with_id_def events_grow_def enqueue_deliveries_def Let_def split: if_splits
      intro!: exI [of _ "\<lambda>_. True"])

lemma take_sorted_prefix:
  fixes f :: "'a \<Rightarrow> nat"
  assumes "sorted_wrt (<) (map f xs)" "v \<in> set xs" "f v \<le> f (last (take n xs))" "take n xs \<noteq> []"
  shows "v \<in> set (take n xs)"
proof (rule ccontr)
  assume no: "v \<notin> set (take n xs)"
  have "set xs = set (take n xs) \<union> set (drop n xs)" by (metis append_take_drop_id set_append)
  with no assms(2) have "v \<in> set (drop n xs)" by blast
  moreover have "last (take n xs) \<in> set (take n xs)" using assms(4) by simp
  moreover have "sorted_wrt (<) (map f (take n xs) @ map f (drop n xs))"
    using assms(1) by (metis append_take_drop_id map_append)
  ultimately have "f (last (take n xs)) < f v" by (auto simp: sorted_wrt_append)
  with assms(3) show False by linarith
qed

lemma sorted_wrt_last:
  assumes "sorted_wrt (<) (map f xs)" "v \<in> set xs"
  shows "f v \<le> (f (last xs) :: nat)"
  using assms by (induction xs rule: rev_induct) (auto simp: sorted_wrt_append)

lemma covers_batch:
  assumes s: "sequenced d" and e: "events_after lo limit d = Inr evs" and ne: "evs \<noteq> []"
  shows "covers d lo (ev_sequence (last evs)) evs"
proof -
  let ?xs = "sort_key ev_sequence (filter (\<lambda>v. ev_sequence v > lo) (events d))"
  have evs: "evs = take limit ?xs" using e by (auto simp: events_after_def bnd_eq_Ok split: if_splits)
  have "distinct (map ev_sequence ?xs)"
    using s by (auto simp: sequenced_def distinct_map inj_on_def)
  then have sorted: "sorted_wrt (<) (map ev_sequence ?xs)" by (simp add: strict_sorted_iff)
  then have "sorted_wrt (<) (map ev_sequence evs)" unfolding evs take_map [symmetric] by (rule sorted_wrt_take)
  moreover have sub: "set evs \<subseteq> set ?xs" by (auto simp: evs dest: in_set_takeD)
  moreover have "v \<in> set evs" if "v \<in> set (events d)" "lo < ev_sequence v" "ev_sequence v \<le> ev_sequence (last evs)" for v
    using that take_sorted_prefix [OF sorted, of v limit] ne by (simp add: evs)
  moreover have "lo < ev_sequence v \<and> v \<in> set (events d)" if "v \<in> set evs" for v using sub that by auto
  moreover have "last evs \<in> set evs" using ne by simp
  ultimately show ?thesis
    using s sorted_wrt_last [of ev_sequence evs] unfolding covers_def sequenced_def by (meson less_imp_le)
qed

section \<open>Streams\<close>

text \<open>Batches that follow one another.\<close>

fun chain :: "db \<Rightarrow> nat \<Rightarrow> api_response list \<Rightarrow> nat \<Rightarrow> bool" where
  "chain d lo [] hi \<longleftrightarrow> lo = hi"
| "chain d lo (r # rs) hi \<longleftrightarrow>
     (\<exists>c evs. r = response True (EventsValue c evs) \<and> covers d lo c evs \<and> chain d c rs hi)"

lemma chain_append: "chain d lo (xs @ ys) hi \<longleftrightarrow> (\<exists>m. chain d lo xs m \<and> chain d m ys hi)"
  by (induction xs arbitrary: lo) auto

lemma chain_join: "chain d lo xs m \<Longrightarrow> chain d m ys hi \<Longrightarrow> Ex (chain d lo (xs @ ys))"
  using chain_append by blast

lemma chain_grow: "chain d lo rs hi \<Longrightarrow> events_grow d d' \<Longrightarrow> chain d' lo rs hi"
  by (induction rs arbitrary: lo) (auto intro: covers_grow)

definition ready_batches :: "event_stream \<Rightarrow> api_response list" where
  "ready_batches s = (case es_ready s of None \<Rightarrow> [] | Some r \<Rightarrow> [r])"

definition stream_inv :: "nat \<Rightarrow> event_stream \<Rightarrow> bool" where
  "stream_inv cursor s \<longleftrightarrow>
     sequenced (es_db s)
     \<and> covers (es_db s) cursor (es_cursor s) (written_events (es_written s))
     \<and> foldl next_cursor cursor (es_written s) = es_cursor s
     \<and> (es_consumer s = None \<longrightarrow> (\<exists>hi. chain (es_db s) (es_cursor s) (es_queue s) hi))
     \<and> (es_consumer s = None \<longrightarrow> es_producer s = None \<longrightarrow>
          chain (es_db s) (es_cursor s) (es_queue s @ ready_batches s) (es_selected s))"

lemma written_events_append [simp]: "written_events (rs @ rs') = written_events rs @ written_events rs'"
  by (simp add: written_events_def)

lemma written_events_simps [simp]:
  "written_events [] = []"
  "written_events [response x (EventsValue c evs)] = evs"
  "written_events [disconnection reason s] = []"
  by (simp_all add: written_events_def response_def disconnection_def)

lemma next_cursor_simps [simp]:
  "next_cursor c (response x (EventsValue c' evs)) = c'"
  "next_cursor c (disconnection reason s) = es_cursor s"
  by (simp_all add: next_cursor_def response_def disconnection_def)

lemma response_eq [simp]: "response a v = response b w \<longleftrightarrow> a = b \<and> v = w"
  by (simp add: response_def)

lemma opened_inv: "sequenced d \<Longrightarrow> stream_inv cursor (opened d cursor)"
  by (simp add: stream_inv_def opened_def covers_nothing ready_batches_def)

lemma select_batch_inv:
  assumes "stream_inv cursor s" "es_producer s = None" "es_ready s = None"
  shows "stream_inv cursor (select_batch sk config limit s)"
proof (cases "next_batch (es_selected s) limit (es_db s)")
  case (Inl e)
  with assms show ?thesis by (simp add: select_batch_def stream_inv_def ready_batches_def)
next
  case (Inr found)
  show ?thesis
  proof (cases found)
    case None
    with assms Inr show ?thesis by (auto simp: select_batch_def stream_inv_def ready_batches_def)
  next
    case (Some r)
    then obtain evs where e: "events_after (es_selected s) limit (es_db s) = Inr evs" "evs \<noteq> []"
      and r: "r = response True (EventsValue (ev_sequence (last evs)) evs)"
      using Inr by (auto simp: next_batch_def bnd_eq_Ok split: if_splits)
    have "covers (es_db s) (es_selected s) (ev_sequence (last evs)) evs"
      using covers_batch e assms(1) by (simp add: stream_inv_def)
    then have "chain (es_db s) (es_selected s) [r] (ev_sequence (last evs))" using r by auto
    then show ?thesis
      using assms Inr Some
      by (auto simp: select_batch_def stream_inv_def ready_batches_def chain_append r
          split: sum.splits bool.splits)
  qed
qed

lemma stream_step_inv:
  assumes "stream_step sk config limit s t" "stream_inv cursor s"
  shows "stream_inv cursor t"
  using assms
proof (cases rule: stream_step.cases)
  case (stored_elsewhere d)
  with assms(2) show ?thesis
    by (auto simp: stream_inv_def ready_batches_def intro: sequenced_grow covers_grow chain_grow)
next
  case selected
  with assms(2) show ?thesis by (simp add: select_batch_inv)
next
  case (produced r)
  with assms(2) show ?thesis
    unfolding send_batch_def Let_def stream_inv_def ready_batches_def
    by (auto simp: chain_append simp del: chain.simps(2) split: if_splits intro: chain_join)
next
  case (received r queue outcome)
  with assms(2) show ?thesis
    by (cases outcome) (auto simp: receive_batch_def stream_inv_def ready_batches_def intro: covers_trans)
next
  case (pressed outcome)
  with assms(2) show ?thesis by (cases outcome) (auto simp: disconnect_def stream_inv_def)
next
  case (idled outcome)
  with assms(2) show ?thesis by (cases outcome) (auto simp: disconnect_def stream_inv_def)
qed (auto simp: stream_inv_def ready_batches_def)

lemma stream_run_inv: "stream_run sk config limit s t \<Longrightarrow> stream_inv cursor s \<Longrightarrow> stream_inv cursor t"
  by (induction rule: rtranclp_induct) (auto intro: stream_step_inv)

lemma grow_run:
  "events_grow\<^sup>*\<^sup>* d d' \<Longrightarrow> sequenced d \<Longrightarrow> covers d lo hi evs \<Longrightarrow> sequenced d' \<and> covers d' lo hi evs"
  by (induction rule: rtranclp_induct) (auto intro: sequenced_grow covers_grow)

lemma stream_run_grow: "stream_run sk config limit s t \<Longrightarrow> events_grow\<^sup>*\<^sup>* (es_db s) (es_db t)"
proof (induction rule: rtranclp_induct)
  case (step t u)
  have "es_db u = es_db t \<or> events_grow (es_db t) (es_db u)"
    using step(2)
    by (cases rule: stream_step.cases)
      (auto simp: select_batch_def send_batch_def receive_batch_def disconnect_def Let_def split: sum.splits option.splits bool.splits)
  with step(3) show ?case by (auto intro: rtranclp.rtrancl_into_rtrancl)
qed simp

section \<open>Bounds\<close>

definition response_size :: "'w socket_ops \<Rightarrow> api_response \<Rightarrow> nat" where
  "response_size sk r = (case sk_print_response sk r of Inl _ \<Rightarrow> 0 | Inr bytes \<Rightarrow> length bytes)"

lemma too_large_size: "too_large sk bound r = Inr False \<Longrightarrow> response_size sk r \<le> bound"
  by (auto simp: too_large_def response_size_def bnd_eq_Ok)

definition bounded_queue :: "'w socket_ops \<Rightarrow> control_plane_config \<Rightarrow> event_stream \<Rightarrow> bool" where
  "bounded_queue sk config s \<longleftrightarrow>
     length (es_queue s) \<le> message_bound config
     \<and> (\<forall>r \<in> set (es_queue s @ ready_batches s). response_size sk r \<le> client_bound config)"

lemma bounded_queue_step:
  assumes "stream_step sk config limit s t" "bounded_queue sk config s"
  shows "bounded_queue sk config t"
  using assms
  by (cases rule: stream_step.cases)
    (auto simp: bounded_queue_def ready_batches_def select_batch_def send_batch_def receive_batch_def disconnect_def Let_def
      too_large_size split: sum.splits option.splits bool.splits if_splits)

lemma bounded_queue_run: "stream_run sk config limit s t \<Longrightarrow> bounded_queue sk config s \<Longrightarrow> bounded_queue sk config t"
  by (induction rule: rtranclp_induct) (auto intro: bounded_queue_step)

lemma opened_bounded: "bounded_queue sk config (opened d cursor)"
  by (simp add: bounded_queue_def opened_def ready_batches_def)

lemma sum_list_bound: "(\<And>x. x \<in> set xs \<Longrightarrow> f x \<le> b) \<Longrightarrow> sum_list (map f xs) \<le> length xs * (b :: nat)"
  by (induction xs) (auto simp: add_mono)

lemma queue_bytes: "message_bound config * client_bound config \<le> cc_max_client_queue_bytes config"
proof (cases "cc_max_client_queue_bytes config div max 1 (cc_max_response_bytes config) \<le> 1")
  case True
  then show ?thesis by (simp add: message_bound_def client_bound_def)
next
  case False
  let ?q = "cc_max_client_queue_bytes config" and ?r = "max 1 (cc_max_response_bytes config)"
  have "message_bound config * client_bound config \<le> ?q div ?r * ?r"
    using False by (intro mult_mono) (auto simp: message_bound_def client_bound_def)
  also have "\<dots> \<le> ?q" by simp
  finally show ?thesis .
qed

section \<open>Batches above the bound\<close>

definition stalled :: "nat \<Rightarrow> event_stream \<Rightarrow> bool" where
  "stalled cursor s \<longleftrightarrow>
     es_selected s = cursor \<and> es_cursor s = cursor \<and> es_ready s = None \<and> es_queue s = []
     \<and> (\<forall>r \<in> set (es_written s). \<exists>reason. r = response True (DisconnectValue reason cursor))"

lemma stalled_step:
  assumes "stream_step sk config limit s t" "stalled cursor s"
    and "\<And>r. next_batch cursor limit (es_db s) = Inr (Some r) \<Longrightarrow> too_large sk (client_bound config) r = Inr True"
  shows "stalled cursor t"
  using assms
  by (cases rule: stream_step.cases)
    (auto simp: stalled_def select_batch_def disconnect_def disconnection_def split: sum.splits option.splits bool.splits)

lemma stalled_run:
  assumes run: "stream_run sk config limit (opened d cursor) s"
    and big: "\<And>d' r. events_grow\<^sup>*\<^sup>* d d' \<Longrightarrow> next_batch cursor limit d' = Inr (Some r) \<Longrightarrow> too_large sk (client_bound config) r = Inr True"
  shows "stalled cursor s"
  using run
proof (induction rule: rtranclp_induct)
  case base
  show ?case by (simp add: stalled_def opened_def)
next
  case (step s t)
  have "events_grow\<^sup>*\<^sup>* d (es_db s)" using stream_run_grow [OF step(1)] by (simp add: opened_def)
  with stalled_step [OF step(2,3)] big show ?case by blast
qed

end
