(* ===== verification/Api_Serving.thy ===== *)
theory Api_Serving
  imports Api_Tasks
begin

text \<open>The loop of the control API: how many clients it serves, what it leaves behind, and what a failed connection does to it.\<close>

section \<open>Permits and registrations\<close>

definition running_streams :: "connection_worker list \<Rightarrow> nat option set" where
  "running_streams ws = wk_stream ` {w \<in> set ws. running w}"

definition serve_inv :: "control_plane_config \<Rightarrow> api_server \<Rightarrow> bool" where
  "serve_inv config s \<longleftrightarrow>
     length (filter running (sv_workers s)) \<le> sv_active s
     \<and> sv_active s \<le> cc_max_concurrent_clients config
     \<and> distinct (sv_streams s)
     \<and> (\<forall>i \<in> set (sv_streams s). i < sv_next_stream_id s)
     \<and> Some ` set (sv_streams s) \<subseteq> running_streams (sv_workers s)
     \<and> (sv_requested s \<longrightarrow> sv_streams s = [])
     \<and> (sv_phase s = Joined \<longrightarrow> sv_workers s = [])"

lemma filter_update_length:
  assumes "i < length xs" "P (xs ! i)" "\<not> P y"
  shows "Suc (length (filter P (xs[i := y]))) = length (filter P xs)"
  using assms
proof (induction xs arbitrary: i)
  case (Cons x xs)
  then show ?case by (cases i) auto
qed simp

lemma running_streams_update:
  assumes "i < length ws" "\<not> running w"
  shows "running_streams ws - {wk_stream (ws ! i)} \<subseteq> running_streams (ws[i := w])"
proof
  fix x assume "x \<in> running_streams ws - {wk_stream (ws ! i)}"
  then obtain j where j: "j < length ws" "running (ws ! j)" "wk_stream (ws ! j) = x" "x \<noteq> wk_stream (ws ! i)"
    by (auto simp: running_streams_def in_set_conv_nth)
  then have "j \<noteq> i" by auto
  then have "ws[i := w] ! j = ws ! j" "j < length (ws[i := w])" using j(1) by simp_all
  with j show "x \<in> running_streams (ws[i := w])"
    unfolding running_streams_def by (auto simp: in_set_conv_nth intro!: image_eqI [of _ _ "ws ! j"])
qed

lemma collected_workers: "fst (collect_finished_workers ws first) = filter running ws"
  by (induction ws first rule: collect_finished_workers.induct)
    (auto simp: running_def split: option.splits prod.splits)

lemma running_streams_filter: "running_streams (filter running ws) = running_streams ws"
  by (auto simp: running_streams_def)

lemma unregister_simps [simp]:
  "sv_workers (unregister_stream i s) = sv_workers s" "sv_active (unregister_stream i s) = sv_active s"
  "sv_requested (unregister_stream i s) = sv_requested s" "sv_phase (unregister_stream i s) = sv_phase s"
  "sv_next_stream_id (unregister_stream i s) = sv_next_stream_id s"
  "sv_first_error (unregister_stream i s) = sv_first_error s"
  by (auto simp: unregister_stream_def split: option.splits)

lemma unregister_streams: "Some ` set (sv_streams (unregister_stream i s)) = Some ` set (sv_streams s) - {i}"
  by (auto simp: unregister_stream_def split: option.splits)

lemma unregister_distinct: "distinct (sv_streams s) \<Longrightarrow> distinct (sv_streams (unregister_stream i s))"
  by (auto simp: unregister_stream_def split: option.splits)

lemma unregister_subset: "set (sv_streams (unregister_stream i s)) \<subseteq> set (sv_streams s)"
  by (auto simp: unregister_stream_def split: option.splits)

lemma worker_end_inv:
  assumes inv: "serve_inv config s" and i: "i < length (sv_workers s)" "running (sv_workers s ! i)"
    and w: "\<not> running w" and t: "sv_workers t = (sv_workers s)[i := w]"
      "sv_streams t = sv_streams (unregister_stream (wk_stream (sv_workers s ! i)) s)"
      "sv_next_stream_id t = sv_next_stream_id s" "sv_requested t = sv_requested s" "sv_phase t = sv_phase s"
    and a: "sv_active t = sv_active s - 1 \<or> sv_active t = sv_active s"
  shows "serve_inv config t"
proof -
  let ?u = "wk_stream (sv_workers s ! i)"
  have n: "Suc (length (filter running (sv_workers t))) = length (filter running (sv_workers s))"
    using filter_update_length [of i "sv_workers s" running w] i w t(1) by simp
  have "Some ` set (sv_streams t) = Some ` set (sv_streams s) - {?u}" by (simp add: t(2) unregister_streams)
  also have "\<dots> \<subseteq> running_streams (sv_workers s) - {?u}" using inv by (auto simp: serve_inv_def)
  also have "\<dots> \<subseteq> running_streams (sv_workers t)" using running_streams_update i w t(1) by simp
  finally have streams: "Some ` set (sv_streams t) \<subseteq> running_streams (sv_workers t)" .
  have "set (sv_streams t) \<subseteq> set (sv_streams s)" "distinct (sv_streams s) \<Longrightarrow> distinct (sv_streams t)"
    by (simp_all add: t(2) unregister_subset unregister_distinct)
  with inv n streams a show ?thesis
    using t(3-5) i(1) by (auto simp: serve_inv_def)
qed

lemma accept_inv:
  assumes inv: "serve_inv config s" and p: "sv_phase s = Accepting"
  shows "serve_inv config (accept_connection config refusal s)"
proof (cases "register_stream s")
  case (Inl e)
  with inv p show ?thesis by (simp add: accept_connection_def serve_inv_def stop_serving_def)
next
  case (Inr x)
  obtain i s1 where x: "x = (i, s1)" by (cases x)
  show ?thesis
  proof (cases "sv_requested s")
    case True
    then have "i = None" "s1 = s" using Inr x by (auto simp: register_stream_def)
    with inv p Inr x True show ?thesis
      by (auto simp: accept_connection_def serve_inv_def stop_serving_def unregister_stream_def running_streams_def running_def
          split: sum.splits)
  next
    case False
    then have i: "i = Some (sv_next_stream_id s)"
      and s1: "s1 = s\<lparr>sv_next_stream_id := sv_next_stream_id s + 1, sv_streams := sv_streams s @ [sv_next_stream_id s]\<rparr>"
      using Inr x by (auto simp: register_stream_def split: if_splits)
    note unasked = False
    have old: "filter (\<lambda>y. y \<noteq> sv_next_stream_id s) (sv_streams s) = sv_streams s"
      using inv by (auto simp: serve_inv_def intro!: filter_True)
    have fresh: "sv_next_stream_id s \<notin> set (sv_streams s)" "\<And>x. x \<in> set (sv_streams s) \<Longrightarrow> x < Suc (sv_next_stream_id s)"
      using inv by (auto simp: serve_inv_def less_Suc_eq)
    show ?thesis
    proof (cases "sv_active s \<ge> cc_max_concurrent_clients config")
      case True
      with inv p Inr x unasked fresh(2) show ?thesis
        by (cases refusal)
          (simp_all add: accept_connection_def i s1 unregister_stream_def old serve_inv_def stop_serving_def)
    next
      case False
      have "running_streams (sv_workers s @ [\<lparr>wk_stream = i, wk_result = None\<rparr>]) = insert i (running_streams (sv_workers s))"
        by (force simp: running_streams_def running_def)
      with inv p Inr x unasked False fresh show ?thesis
        by (auto simp: accept_connection_def i s1 serve_inv_def running_def)
    qed
  qed
qed

lemma serve_step_inv:
  assumes "serve_step config s t" "serve_inv config s"
  shows "serve_inv config t"
  using assms
proof (cases rule: serve_step.cases)
  case (ended i outcome)
  show ?thesis
    by (rule worker_end_inv [OF assms(2) ended(2,3), of
          "(sv_workers s ! i)\<lparr>wk_result := Some (if sv_requested s then Ok () else outcome)\<rparr>"])
      (simp_all add: ended(1) worker_ended_def Let_def running_def)
next
  case (panicked i)
  show ?thesis
    by (rule worker_end_inv [OF assms(2) panicked(2,3), of
          "(sv_workers s ! i)\<lparr>wk_result := Some (Err (Bail ''IQ control API worker panicked''))\<rparr>"])
      (simp_all add: panicked(1) worker_panicked_def Let_def running_def)
next
  case collected
  have "fst (collect_finished_workers (sv_workers s) (sv_first_error s)) = filter running (sv_workers s)"
    by (rule collected_workers)
  with collected assms(2) show ?thesis
    by (auto simp: collect_phase_def serve_inv_def running_streams_filter split: prod.splits)
next
  case accepted
  with assms(2) show ?thesis by (simp add: accept_inv)
next
  case (accept_failed e)
  with assms(2) show ?thesis by (simp add: serve_inv_def stop_serving_def)
next
  case (requested failure)
  with assms(2) show ?thesis by (simp add: serve_inv_def request_shutdown_def)
next
  case joined
  then have "running_streams (sv_workers s) = {}" by (auto simp: running_streams_def list_all_iff)
  with joined assms(2) show ?thesis by (auto simp: serve_inv_def join_all_workers_def)
qed (simp_all add: serve_inv_def)

lemma serve_run_inv: "serve_run config s t \<Longrightarrow> serve_inv config s \<Longrightarrow> serve_inv config t"
  by (induction rule: rtranclp_induct) (auto intro: serve_step_inv)

lemma serving_inv: "serve_inv config serving"
  by (simp add: serve_inv_def serving_def)

lemma registered_are_running:
  assumes "serve_inv config s"
  shows "length (sv_streams s) \<le> length (filter running (sv_workers s))"
proof -
  have "length (sv_streams s) = card (Some ` set (sv_streams s))"
    using assms by (simp add: serve_inv_def distinct_card card_image)
  also have "\<dots> \<le> card (running_streams (sv_workers s))"
    using assms by (intro card_mono) (auto simp: serve_inv_def running_streams_def)
  also have "\<dots> \<le> card (set (filter running (sv_workers s)))"
    unfolding running_streams_def by (metis (no_types) List.finite_set card_image_le set_filter)
  also have "\<dots> \<le> length (filter running (sv_workers s))" by (rule card_length)
  finally show ?thesis .
qed

section \<open>Failed connections\<close>

text \<open>A failure waits to be collected, or stops the server.\<close>

definition failing :: "api_server \<Rightarrow> bool" where
  "failing s \<longleftrightarrow>
     (sv_phase s = Collecting \<and> (\<exists>w \<in> set (sv_workers s). \<exists>e. wk_result w = Some (Inl e)))
     \<or> (sv_phase s \<in> {Closing, Joining, Joined} \<and> sv_first_error s \<noteq> None)"

lemma join_result_keeps: "first \<noteq> None \<Longrightarrow> record_join_result first outcome \<noteq> None"
  by (auto simp: record_join_result_def record_first_error_def split: sum.splits)

lemma collect_keeps_error: "first \<noteq> None \<Longrightarrow> snd (collect_finished_workers ws first) \<noteq> None"
  by (induction ws first rule: collect_finished_workers.induct)
    (auto simp: join_result_keeps split: option.splits prod.splits)

lemma collect_failure:
  "w \<in> set ws \<Longrightarrow> wk_result w = Some (Inl e) \<Longrightarrow> snd (collect_finished_workers ws first) \<noteq> None"
proof (induction ws first rule: collect_finished_workers.induct)
  case (2 v ws first)
  show ?case
  proof (cases "wk_result v")
    case None
    with 2 show ?thesis by (auto split: prod.splits)
  next
    case (Some outcome)
    show ?thesis
    proof (cases "w = v")
      case True
      with 2(4) Some have "record_join_result first outcome \<noteq> None"
        by (auto simp: record_join_result_def record_first_error_def)
      with Some show ?thesis using collect_keeps_error by simp
    next
      case False
      with 2 Some show ?thesis by simp
    qed
  qed
qed simp

lemma fold_join_keeps:
  "first \<noteq> None \<Longrightarrow>
   fold (\<lambda>w first. case wk_result w of None \<Rightarrow> first | Some outcome \<Rightarrow> record_join_result first outcome) ws first \<noteq> None"
proof (induction ws arbitrary: first)
  case (Cons w ws)
  have "(case wk_result w of None \<Rightarrow> first | Some outcome \<Rightarrow> record_join_result first outcome) \<noteq> None"
    using Cons(2) by (cases "wk_result w") (simp_all only: option.case join_result_keeps not_False_eq_True)
  then show ?case using Cons(1) by simp
qed simp

lemma failing_step:
  assumes "serve_step config s t" "failing s"
  shows "failing t \<and> sv_next_stream_id t = sv_next_stream_id s"
  using assms
proof (cases rule: serve_step.cases)
  case (ended i outcome)
  have "w \<in> set ((sv_workers s)[i := v])" if "w \<in> set (sv_workers s)" "\<not> running w" for w v
    using that ended(3) by (metis in_set_conv_nth length_list_update nth_list_update_neq)
  with ended assms(2) show ?thesis
    by (auto simp: failing_def worker_ended_def Let_def running_def)
next
  case (panicked i)
  have "w \<in> set ((sv_workers s)[i := v])" if "w \<in> set (sv_workers s)" "\<not> running w" for w v
    using that panicked(3) by (metis in_set_conv_nth length_list_update nth_list_update_neq)
  with panicked assms(2) show ?thesis
    by (auto simp: failing_def worker_panicked_def Let_def running_def)
next
  case collected
  with assms(2) obtain w e where "w \<in> set (sv_workers s)" "wk_result w = Some (Inl e)" by (auto simp: failing_def)
  then have "snd (collect_finished_workers (sv_workers s) (sv_first_error s)) \<noteq> None" by (rule collect_failure)
  with collected show ?thesis by (auto simp: failing_def collect_phase_def split: prod.splits)
next
  case (requested failure)
  with assms(2) show ?thesis
    by (auto simp: failing_def request_shutdown_def record_first_error_def split: option.splits)
next
  case joined
  with assms(2) have "sv_first_error t \<noteq> None" by (simp add: failing_def join_all_workers_def fold_join_keeps del: not_None_eq)
  with joined show ?thesis by (simp add: failing_def join_all_workers_def)
qed (auto simp: failing_def)

lemma failing_run:
  "serve_run config s t \<Longrightarrow> failing s \<Longrightarrow> failing t \<and> sv_next_stream_id t = sv_next_stream_id s"
  by (induction rule: rtranclp_induct) (auto dest: failing_step)

end
