(* ===== verification/Api_Properties.thy ===== *)
theory Api_Properties
  imports Api_Streams Api_Serving State_Repository_Runs Example_Run
begin

text \<open>
  The properties of the control API that need the store, the socket or concrete runs: requests are runs of the store, frames
  arrive, failed connections stop the API, with the witnesses of the properties of streams and of the loop.
\<close>

section \<open>Requests\<close>




section \<open>Frames\<close>

lemma be_value_bytes: "n < 2 ^ 32 \<Longrightarrow> be_value (be_bytes n) = n"
proof -
  assume n: "n < 2 ^ 32"
  have a: "n div 16777216 mod 256 = n div 16777216" using n by simp
  have b: "n div 65536 = n div 16777216 * 256 + n div 65536 mod 256"
    using div_mult_mod_eq [of "n div 65536" 256] by (simp add: div_mult2_eq [symmetric])
  have c: "n div 256 = n div 65536 * 256 + n div 256 mod 256"
    using div_mult_mod_eq [of "n div 256" 256] by (simp add: div_mult2_eq [symmetric])
  have d: "n = n div 256 * 256 + n mod 256" by simp
  show ?thesis by (simp add: be_bytes_def be_value_def a b [symmetric] c [symmetric])
qed

text \<open>C20: What the daemon writes is what the client reads: over a socket that keeps the bytes in their order, a response that
  fits the bound of the daemon arrives whole, or, when the client has a smaller bound, is refused; nothing of it stays behind.\<close>

theorem frames_arrive:
  fixes pending :: "'w \<Rightarrow> string"
  assumes reads: "\<And>n w. n \<le> length (pending w) \<Longrightarrow>
      fst (sk_read sk n w) = Inr (take n (pending w)) \<and> pending (snd (sk_read sk n w)) = drop n (pending w)"
    and writes: "\<And>b w. fst (sk_write sk b w) = Inr () \<Longrightarrow> pending (snd (sk_write sk b w)) = pending w @ b"
    and flushes: "\<And>w. pending (snd (sk_flush sk w)) = pending w"
    and printed: "sk_print_response sk r = Inr bytes" "bytes \<noteq> []"
    and empty: "pending w = []"
    and written: "write_response sk r bound w = (Inr (), w')"
  shows "fst (read_frame sk bound' w') =
      (if length bytes \<le> bound' then Inr bytes else Inl (Bail ''control API frame exceeds configured bound''))
    \<and> (length bytes \<le> bound' \<longrightarrow> pending (snd (read_frame sk bound' w')) = [])"
proof -
  let ?p = "be_bytes (length bytes)"
  have len: "length ?p = 4" by (simp add: be_bytes_def)
  from written printed have small: "length bytes < 2 ^ 32"
    and frame: "write_frame sk bytes w = (Inr (), w')"
    by (auto simp: write_response_def io_bind_def io_return_def split: if_splits)
  then have "pending w' = ?p @ bytes"
    using empty writes flushes
    by (auto simp: write_frame_def io_bind_def split: prod.splits sum.splits) (metis append_Nil fst_conv snd_conv)+
  then have first: "fst (sk_read sk 4 w') = Inr ?p" "pending (snd (sk_read sk 4 w')) = bytes"
    using reads [of 4 w'] len by simp_all
  note second = reads [of "length bytes" "snd (sk_read sk 4 w')"]
  show ?thesis
    using first second printed(2) be_value_bytes [OF small]
    by (auto simp: read_frame_def io_bind_def io_return_def Let_def split: prod.splits sum.splits)
qed

definition px_socket :: "string socket_ops" where
  "px_socket =
     \<lparr>sk_connect = (\<lambda>w. (Inr (), w)),
      sk_read = (\<lambda>n w. (if length w < n then Inl (Bail ''failed to fill whole buffer'') else Inr (take n w), drop n w)),
      sk_write = (\<lambda>b w. (Inr (), w @ b)), sk_flush = (\<lambda>w. (Inr (), w)), sk_print_response = (\<lambda>_. Inr ''abc''),
      sk_parse_response = (\<lambda>_. Inr (response True TooManyClients)), sk_print_envelope = (\<lambda>_. Inr ''x''),
      sk_parse_envelope = (\<lambda>_. Inr \<lparr>av_version = 1, av_request = Answer ex_answer\<rparr>)\<rparr>"

definition px_config :: control_plane_config where
  "px_config = \<lparr>cc_unix_socket = ''/s'', cc_max_request_bytes = 100, cc_max_free_text_bytes = 10, cc_max_response_bytes = 100,
     cc_max_concurrent_clients = 1, cc_max_client_queue_bytes = 200, cc_max_stream_backlog_events = 2, cc_client_idle_seconds = 1\<rparr>"

theorem frames_arrive_witness:
  "fst (read_frame px_socket 5 (be_bytes 3 @ ''abc'')) = Inr ''abc''
   \<and> fst (read_frame px_socket 2 (be_bytes 3 @ ''abc'')) = Inl (Bail ''control API frame exceeds configured bound'')"
proof -
  have w: "write_response px_socket (response True TooManyClients) 10 [] = (Inr (), be_bytes 3 @ ''abc'')"
    by (simp add: write_response_def write_frame_def io_bind_def io_return_def px_socket_def numeral_3_eq_3)
  have p: "sk_print_response px_socket (response True TooManyClients) = Inr ''abc''" by (simp add: px_socket_def)
  show ?thesis
    using frames_arrive [of "\<lambda>w. w" px_socket, OF _ _ _ p _ _ w, of 5] frames_arrive [of "\<lambda>w. w" px_socket, OF _ _ _ p _ _ w, of 2]
    by (simp add: px_socket_def)
qed

section \<open>Connections\<close>










section \<open>Watching\<close>

text \<open>C11: A client that watches the events, and after the end of the stream, whatever ended it, watches again from the cursor of
  the last response it has read, has read in order and once every event of the store between its first and its last cursor,
  with other connections and the daemon adding and purging events all the time.\<close>

theorem resumed_watchers_get_every_event:
  assumes "sequenced d"
    and "stream_run sk config limit (opened d cursor) s"
    and "events_grow\<^sup>*\<^sup>* (es_db s) d'"
    and "stream_run sk config limit' (opened d' (foldl next_cursor cursor (es_written s))) t"
  shows "sorted_wrt (<) (map ev_sequence (written_events (es_written s @ es_written t)))
    \<and> (\<forall>v. v \<in> set (events (es_db t)) \<and> cursor < ev_sequence v
         \<and> ev_sequence v \<le> foldl next_cursor cursor (es_written s @ es_written t)
         \<longrightarrow> v \<in> set (written_events (es_written s @ es_written t)))"
proof -
  have s: "stream_inv cursor s" by (rule stream_run_inv [OF assms(2) opened_inv [OF assms(1)]])
  then have c: "foldl next_cursor cursor (es_written s) = es_cursor s"
    and cov: "sequenced (es_db s)" "covers (es_db s) cursor (es_cursor s) (written_events (es_written s))"
    by (simp_all add: stream_inv_def)
  note grown = grow_run [OF assms(3) cov]
  have t: "stream_inv (es_cursor s) t"
    using stream_run_inv [OF assms(4) opened_inv] grown by (simp add: c)
  have "covers (es_db t) cursor (es_cursor s) (written_events (es_written s))"
    using grow_run [OF stream_run_grow [OF assms(4)]] grown by (simp add: opened_def)
  then have "covers (es_db t) cursor (es_cursor t) (written_events (es_written s) @ written_events (es_written t))"
    using t unfolding stream_inv_def by (blast intro: covers_trans)
  moreover have "foldl next_cursor cursor (es_written s @ es_written t) = es_cursor t"
    using t c by (simp add: stream_inv_def)
  ultimately show ?thesis by (auto simp: covers_def)
qed

definition px_event :: "nat \<Rightarrow> event" where
  "px_event k = \<lparr>ev_sequence = k, ev_id = replicate k (CHR ''v''), ev_item_id = ''i'', ev_effort_id = Some ''uv'', ev_type = ''x'',
     ev_payload = PayloadFields [], ev_alert = False, ev_created_at = ''t''\<rparr>"

definition px_db :: "nat \<Rightarrow> db" where
  "px_db n = ex_db\<lparr>events := map px_event [1..<Suc n], event_sequence := n\<rparr>"

definition px_batch :: "nat \<Rightarrow> api_response" where
  "px_batch k = response True (EventsValue k [px_event k])"

definition px_queued :: "nat \<Rightarrow> nat \<Rightarrow> event_stream" where
  "px_queued n c = (opened (px_db n) c)\<lparr>es_selected := Suc c, es_queue := [px_batch (Suc c)]\<rparr>"

definition px_read :: "nat \<Rightarrow> nat \<Rightarrow> event_stream" where
  "px_read n c = (opened (px_db n) c)\<lparr>es_selected := Suc c, es_written := [px_batch (Suc c)], es_cursor := Suc c\<rparr>"

lemma px_next_batch: "next_batch 0 2 (px_db 1) = Inr (Some (px_batch 1))" "next_batch 1 2 (px_db 2) = Inr (Some (px_batch 2))"
  by (simp_all add: next_batch_def events_after_def px_db_def px_batch_def px_event_def require_def numeral_2_eq_2)

lemma px_queued_run:
  assumes "next_batch c 2 (px_db n) = Inr (Some (px_batch (Suc c)))"
  shows "stream_run px_socket px_config 2 (opened (px_db n) c) (px_queued n c)"
proof -
  let ?s = "select_batch px_socket px_config 2 (opened (px_db n) c)"
  have s: "?s = (opened (px_db n) c)\<lparr>es_selected := Suc c, es_ready := Some (px_batch (Suc c))\<rparr>"
    using assms by (simp add: select_batch_def opened_def too_large_def px_socket_def px_config_def client_bound_def px_batch_def)
  have "stream_step px_socket px_config 2 (opened (px_db n) c) ?s"
    by (rule stream_step.selected) (simp_all add: opened_def)
  moreover have "stream_step px_socket px_config 2 ?s (send_batch px_config (px_batch (Suc c)) ?s)"
    unfolding s by (rule stream_step.produced) (simp_all add: opened_def)
  moreover have "send_batch px_config (px_batch (Suc c)) ?s = px_queued n c"
    unfolding s by (simp add: send_batch_def opened_def px_config_def message_bound_def px_queued_def)
  ultimately show ?thesis by (metis converse_rtranclp_into_rtranclp rtranclp.rtrancl_refl)
qed

lemma px_read_run:
  assumes "next_batch c 2 (px_db n) = Inr (Some (px_batch (Suc c)))"
  shows "stream_run px_socket px_config 2 (opened (px_db n) c) (px_read n c)"
proof -
  let ?s = "(px_queued n c)\<lparr>es_checked := True\<rparr>"
  have "stream_step px_socket px_config 2 (px_queued n c) ?s"
    by (rule stream_step.unpressed) (simp_all add: px_queued_def opened_def)
  moreover have "stream_step px_socket px_config 2 ?s (receive_batch (px_batch (Suc c)) [] (Inr ()) ?s)"
    by (rule stream_step.received)
      (simp_all add: px_queued_def opened_def write_outcome_def px_socket_def px_config_def)
  moreover have "receive_batch (px_batch (Suc c)) [] (Inr ()) ?s = px_read n c"
    by (simp add: receive_batch_def px_queued_def px_read_def opened_def px_batch_def)
  ultimately show ?thesis using px_queued_run [OF assms] by (metis rtranclp.rtrancl_into_rtrancl)
qed

lemma px_sequenced: "sequenced (px_db 1)"
  by (simp add: sequenced_def px_db_def px_event_def)

theorem resumed_watchers_get_every_event_witness:
  "px_event 2 \<in> set (written_events (es_written (px_read 1 0) @ es_written (px_read 2 1)))
   \<and> sorted_wrt (<) (map ev_sequence (written_events (es_written (px_read 1 0) @ es_written (px_read 2 1))))"
proof -
  have s: "stream_run px_socket px_config 2 (opened (px_db 1) 0) (px_read 1 0)" using px_read_run px_next_batch(1) by simp
  have t: "stream_run px_socket px_config 2 (opened (px_db 2) (foldl next_cursor 0 (es_written (px_read 1 0)))) (px_read 2 1)"
    using px_read_run [of 1 2] px_next_batch(2) by (simp add: px_read_def px_batch_def numeral_2_eq_2)
  have "events_grow (px_db 1) (px_db 2)"
    by (auto simp: events_grow_def px_db_def px_event_def numeral_2_eq_2 intro!: exI [of _ "\<lambda>_. True"])
  then have g: "events_grow\<^sup>*\<^sup>* (es_db (px_read 1 0)) (px_db 2)" by (simp add: px_read_def opened_def)
  have e: "px_event 2 \<in> set (events (es_db (px_read 2 1)))" "0 < ev_sequence (px_event 2)"
    "ev_sequence (px_event 2) \<le> foldl next_cursor 0 (es_written (px_read 1 0) @ es_written (px_read 2 1))"
    by (simp_all add: px_read_def opened_def px_db_def px_event_def px_batch_def numeral_2_eq_2)
  from resumed_watchers_get_every_event [OF px_sequenced s g t] e show ?thesis by blast
qed

text \<open>The batches that wait for a client never take more than the configured bytes of its queue, however the producer and
  the consumer alternate.\<close>

theorem client_queues_are_bounded:
  assumes "stream_run sk config limit (opened d cursor) s"
  shows "sum_list (map (response_size sk) (es_queue s)) \<le> cc_max_client_queue_bytes config"
proof -
  have b: "bounded_queue sk config s" by (rule bounded_queue_run [OF assms opened_bounded])
  then have "sum_list (map (response_size sk) (es_queue s)) \<le> length (es_queue s) * client_bound config"
    by (intro sum_list_bound) (auto simp: bounded_queue_def)
  also have "\<dots> \<le> message_bound config * client_bound config" using b by (simp add: bounded_queue_def)
  finally show ?thesis using queue_bytes by (rule order_trans)
qed

theorem client_queues_are_bounded_witness:
  "length (es_queue (px_queued 1 0)) = 1
   \<and> sum_list (map (response_size px_socket) (es_queue (px_queued 1 0))) \<le> cc_max_client_queue_bytes px_config"
  using client_queues_are_bounded [OF px_queued_run [of 0 1]] px_next_batch(1) by (simp add: px_queued_def)

lemma disconnections_only:
  "\<forall>r \<in> set rs. \<exists>reason. r = response True (DisconnectValue reason cursor) \<Longrightarrow>
   written_events rs = [] \<and> foldl next_cursor cursor rs = cursor"
  by (induction rs) (auto simp: written_events_def response_def next_cursor_def)

text \<open>C32: A batch above the bound of a client stalls it for good: the stream sends no event and reports the cursor it was opened
  with, also to a client that reads at once, and so does every stream that resumes from there with the same limit, until the
  batch of this cursor and limit becomes smaller.\<close>

theorem oversized_batches_stall_watchers:
  assumes "stream_run sk config limit (opened d cursor) s"
    and "\<And>d' r. events_grow\<^sup>*\<^sup>* d d' \<Longrightarrow> next_batch cursor limit d' = Inr (Some r) \<Longrightarrow> too_large sk (client_bound config) r = Inr True"
  shows "written_events (es_written s) = [] \<and> foldl next_cursor cursor (es_written s) = cursor"
proof -
  have "\<forall>r \<in> set (es_written s). \<exists>reason. r = response True (DisconnectValue reason cursor)"
    using stalled_run [OF assms] by (simp add: stalled_def)
  then show ?thesis by (rule disconnections_only)
qed

definition px_wide :: "string socket_ops" where
  "px_wide = px_socket\<lparr>sk_print_response := (\<lambda>r. Inr (if is_disconnect (as_result r) then ''x'' else replicate 200 (CHR ''x'')))\<rparr>"

definition px_stalled :: event_stream where
  "px_stalled = (opened (px_db 1) 0)\<lparr>es_backpressure := True, es_producer := Some (Inr ()),
     es_written := [response True (DisconnectValue ''backpressure'' 0)], es_consumer := Some (Inr ())\<rparr>"

lemma px_wide_batch: "next_batch c l d = Inr (Some r) \<Longrightarrow> too_large px_wide (client_bound px_config) r = Inr True"
  by (auto simp: next_batch_def too_large_def px_wide_def px_config_def client_bound_def bnd_eq_Ok response_def split: if_splits)

theorem oversized_batches_stall_watchers_witness:
  "next_batch 0 2 (px_db 1) = Inr (Some (px_batch 1)) \<and> es_written px_stalled = [response True (DisconnectValue ''backpressure'' 0)]
   \<and> written_events (es_written px_stalled) = [] \<and> foldl next_cursor 0 (es_written px_stalled) = 0"
proof -
  let ?t = "(opened (px_db 1) 0)\<lparr>es_backpressure := True, es_producer := Some (Inr ())\<rparr>"
  have "stream_step px_wide px_config 2 (opened (px_db 1) 0) (select_batch px_wide px_config 2 (opened (px_db 1) 0))"
    by (rule stream_step.selected) (simp_all add: opened_def)
  moreover have "select_batch px_wide px_config 2 (opened (px_db 1) 0) = ?t"
    using px_next_batch(1) px_wide_batch [OF px_next_batch(1)] by (simp add: select_batch_def opened_def)
  moreover have "stream_step px_wide px_config 2 ?t (disconnect ''backpressure'' (Inr ()) ?t)"
    by (rule stream_step.pressed)
      (simp_all add: opened_def write_outcome_def disconnection_def response_def px_wide_def px_config_def client_bound_def)
  moreover have "disconnect ''backpressure'' (Inr ()) ?t = px_stalled"
    by (simp add: disconnect_def disconnection_def opened_def px_stalled_def)
  ultimately have "stream_run px_wide px_config 2 (opened (px_db 1) 0) px_stalled"
    by (metis converse_rtranclp_into_rtranclp rtranclp.rtrancl_refl)
  from oversized_batches_stall_watchers [OF this px_wide_batch]
  have "written_events (es_written px_stalled) = [] \<and> foldl next_cursor 0 (es_written px_stalled) = 0" by simp
  with px_next_batch(1) show ?thesis by (simp add: px_stalled_def)
qed

section \<open>Serving\<close>








end
