(* ===== verification/Spec2Isabelle.thy ===== *)
theory Spec2Isabelle
  imports Control_Domain Repository_Policy Queue_Core Store_Properties Queue_Properties Lifecycle_Properties
    Notification_Properties Notification_Alerts Agent_Properties State_Repository_Properties
    Agent_Config_Properties Api_Properties
begin

text \<open>
  A model of \<open>iq\<close>, an integration queue for git repositories (src/src), and the theorems that make it correct.  A developer
  or a provider admits a branch; the queue claims the items of a repository in order; an integration \<^emph>\<open>effort\<close> composes the
  source with the target in cycles of an agent, has the candidate reviewed, validated and landed, and the landing is replicated
  to other repositories.  All durable state is in one SQLite database, written by the daemon, its clients and the command line
  in immediate transactions; git, systemd, the clients of the providers and the desktop notifiers are commands between the
  transactions.

  \<^bold>\<open>How the code is modelled.\<close>  The record \<open>db\<close> (\<open>Store_Rows\<close>) has one list of records for each table.  A method of the code is a
  function from the database to an error or the changed database, so every \<open>bail!\<close>, failed lookup, constraint and trigger is a
  branch: \<open>Bail\<close> is an error of the code, \<open>Abort\<close> one of SQLite and \<open>NoRow\<close> a missing row (\<open>Prelude\<close>).  A column of serialised JSON
  holds the value.  The time, fresh identifiers, the liveness of processes and the state of units are arguments.  An operation
  that alternates transactions and commands is an \<open>act\<close> (\<open>Actions\<close>): it maps a world and a database to a result, a world and a
  database, also when it fails, so what was committed before a failure stays.  Integers keep their width where a cast or a wrap
  matters (\<open>notifications.rs\<close>, byte limits of the agent protocol) and are numbers with the explicit bound elsewhere.  Paths and
  texts are byte strings.

  \<^bold>\<open>Domain.\<close>  \<open>Git_Object\<close> (git_object.rs), \<open>Domain_Types\<close> and \<open>Control_Domain\<close> (control_domain.rs: states, blockers, snapshots,
  validation, encoded paths), \<open>Repository_Policy\<close> (repository_policy.rs and target refs of repository.rs), \<open>Queue_Core\<close> (module \<open>core\<close>
  of lib.rs: status, phase and reason of an item and its transition table).

  \<^bold>\<open>Control store\<close> (control_store.rs).  \<open>Store_Schema\<close> has the constraints, unique indexes and triggers of the schema, each guarding
  its statement; \<open>Store_Update\<close> the guarded update of an effort, its projection onto the queue item, events and deliveries;
  \<open>Store_Cycles\<close>, \<open>Store_Candidate\<close>, \<open>Store_Landing\<close> and \<open>Store_Blockers\<close> the methods of \<open>ControlStore\<close> by theme.  \<open>Store_Machine\<close> is
  the abstract machine of one effort (\<open>effort_move\<close>).  \<open>Effects_Cycles\<close>, \<open>Effects_Candidate\<close> and \<open>Effects_Landing\<close> show of every method
  that it changes the rows of one effort by one such move (\<open>op_effect\<close> of \<open>Store_Effects\<close>), \<open>Store_Runs\<close> composes the methods into
  requests and runs.  A run may also interleave \<open>other_step\<close>: any write to the tables the store does not own, so its theorems do
  not depend on the rest of the program.  \<open>Store_Properties\<close> has the functional behaviour of single methods, \<open>Example_Run\<close> one
  effort from admission to the terminal record, evaluated by the simplifier, in which the theorems are instantiated.

  \<^bold>\<open>Queue\<close> (module \<open>sqlite\<close> of lib.rs).  \<open>Queue_Leases\<close> has the ownership of physical repositories and the leases; \<open>Queue_Lifecycle\<close>
  admission, claims, transitions, submissions, draining and disabling; \<open>Queue_Replication\<close> with \<open>Git_Output\<close> the debts of a landing
  and their reconciliation through git (also composition.rs and git_command.rs).  \<open>Queue_Runs\<close> and \<open>Replication_Runs\<close> have the steps
  and invariants, \<open>Queue_Properties\<close> and \<open>Lifecycle_Properties\<close> the theorems, \<open>Queue_Example\<close> the concrete repository.  In
  \<open>Lifecycle_Properties\<close> the steps outside the queue's own methods may change anything that the methods' invariant does not name.

  \<^bold>\<open>Notifications\<close> (notifications.rs).  \<open>Notifications\<close> has the transactions, a pass and the daemon's loop; \<open>Notification_Runs\<close> any number
  of dispatchers on one database; \<open>Notification_Passes\<close> shows that a pass is such a run.  The loop takes the number of passes as fuel;
  one more than the attempts that the pending rows have left is enough (\<open>dispatch_loop_ends\<close>), since every pass that reports work
  uses one of them or settles a row.  \<open>Notification_Alerts\<close> relates alerts of the store to the message that is sent.

  \<^bold>\<open>Agent protocol\<close> (agent_protocol.rs, the restart reader of agent_runner.rs).  \<open>Agent_Protocol\<close> has the validation of the input and
  the result of a cycle, \<open>Agent_Publication\<close> the files of a bundle, their copying under byte limits, the manifest and its readers.

  \<^bold>\<open>State repositories\<close> (state_repository.rs, module \<open>issue_backends\<close> of lib.rs, the daemon's cycle of main.rs).  \<open>Issue_Backends\<close> has the
  commands that find, create, update and read an issue; \<open>Projection_Store\<close> the rows of projections, their debts and receipts;
  \<open>State_Repository\<close> the projection of efforts, the reservation of issues, the ingestion of comments and the cycle.  \<open>Act_Runs\<close> states
  when every transaction of an action keeps a relation; \<open>State_Repository_Runs\<close> instantiates it with runs of the store, with what a
  responder may touch, and with what was handled.  \<open>Issue_Effects\<close> follows the comments of an issue through the commands of a
  synchronisation, \<open>State_Repository_Example\<close> has a host and an effort that asks a question there, and \<open>State_Repository_Properties\<close>
  the theorems.  The number of a new issue is read with as much fuel as the text has
  characters, which is enough since the texts inside a JSON value are shorter than it.

  \<^bold>\<open>Configuration\<close> (agent_config.rs).  \<open>Agent_Config\<close> has the validation and the loading of the configuration, the snapshot of a
  runner, the identity of executables with the cache of digests, and the authority of the Rift executable that is verified around
  a command; \<open>Agent_Config_Properties\<close> its theorems.

  \<^bold>\<open>Control API\<close> (control_api.rs).  \<open>Control_Api\<close> has frames, requests, the handling of a connection, the client and the probe of an
  orchestrator; \<open>Api_Tasks\<close> the threads: the producer and the consumer of a stream of events (\<open>stream_step\<close>) and the loop that accepts
  connections (\<open>serve_step\<close>), each as steps in any order, with waits that may end at any time.  \<open>Api_Streams\<close> shows that the batches
  of a stream follow one another and that its queue is bounded, \<open>Api_Serving\<close> what the loop keeps of permits and registrations and
  what an error does to it, \<open>Api_Properties\<close> the theorems.  The loop of the client runs with fuel, since a stream may go on for
  ever; no theorem depends on the amount.

  \<^bold>\<open>What the theorems show.\<close>  Runs of the store keep its invariant, move an effort only as the machine allows, never change a terminal
  one, and take no candidate to the landing gate without a review or a mechanical composition; a landing whose outcome is unknown
  is never forgotten.  The queue item shows the state of its effort.  Leases admit one operator for a repository.  A disabled
  repository has no live work.  Debts of a landing are applied in landing order and only after the replica shows the commit.  A
  delivery is attempted a bounded number of times and never after it is settled; the loop over deliveries ends.  A result of an
  agent is accepted exactly under its contract, and what is published is read back and cannot be forged.  Comments on an issue are
  requests like any other, act only for the responders of the issue, and are handled once; an event is reported once.  A
  client that watches the events and resumes misses none, a connection does to the store what a run of its requests does, and the
  number of clients is bounded.  Several
  theorems state where the code loses or refuses what it means to accept; PROJECT.json lists them as findings.

  \<^bold>\<open>Parameters and hypotheses.\<close>  Git, the clients of the providers, systemd, the file system below the protocol directories, SHA-256,
  serde_json and chrono are arguments.  Theorems that rely on them state the documented behaviour as a hypothesis, for instance
  that a client shows the comments that were posted (\<open>hosts_comments\<close>) or that a digest of different bytes differs.

  \<^bold>\<open>Not modelled.\<close>  \<open>purge_terminal_item\<close> (a cascade of deletions), crash points of tests (\<open>IQ_TEST_*\<close>), migrations and the validation of
  older database files, workspaces and their generations, the integrator's pass over one item (it runs git, systemd and the
  providers between the requests modelled here), reading merge requests from providers, sandboxes and units of the agent, the
  builder of commands, binding the socket and the lease of the daemon, the command line, and \<open>secure_fs\<close>: they are process, network
  and file system effects, and a model of them would be a model of the operating system.
\<close>

section \<open>Runs of the control store\<close>

lemma run_native:
  assumes "store_run d d'" "store_inv d" "\<forall>e \<in> set (efforts d). native_composition (ef_composition e)"
  shows "\<forall>e \<in> set (efforts d'). native_composition (ef_composition e)"
  using assms
proof (induction rule: rtranclp_induct)
  case (step d1 d2)
  then have old: "\<forall>e \<in> set (efforts d1). native_composition (ef_composition e)" by blast
  have "op_effect d1 d2" by (rule es.step_effect [OF step(2) es.run_inv [OF step(1,4)]])
  then show ?case using old move_native by (fastforce simp: op_effect_def created_def set_modify)
qed

text \<open>C4: In every run of the control store from a fresh database, whatever the rest of the program writes in
  between, the identifiers of efforts, of their queue items and of cycles are unique, every effort has the
  related rows its state names, and its count of failed cycles is within the limit.\<close>

theorem runs_keep_store_invariant:
  assumes "fresh_store d0" "store_run d0 d"
  shows "store_inv d"
  using assms by (rule fresh_run_inv)

theorem runs_keep_store_invariant_witness: "fresh_store ex_db \<and> store_run ex_db ex_released \<and> store_inv ex_released"
  using runs_keep_store_invariant [OF ex_fresh ex_released_run] ex_fresh ex_released_run by blast

text \<open>C1: No candidate reaches the landing gate unreviewed: in every run from a fresh database, an effort that is
  validating, landing, uncertain or integrated has evidence for exactly its candidate, and that candidate was
  either composed mechanically or approved by a review of the same effort, attempt, cycle, target, source and
  candidate.\<close>

theorem landing_requires_review:
  assumes "fresh_store d0" "store_run d0 d" "e \<in> set (efforts d)"
    and "(\<exists>v. ef_state e = Validating v \<and> candidate = va_candidate_sha v)
      \<or> (\<exists>l. ef_state e = Landing l \<and> candidate = ld_candidate_sha l)
      \<or> (\<exists>l. ef_state e = LandingUncertain l \<and> candidate = lu_candidate_sha l)
      \<or> (\<exists>v. ef_state e = Integrated v \<and> candidate = in_candidate_sha v)"
  shows "\<exists>c \<in> set (evidences d). ce_effort_id c = ef_id e \<and> ce_candidate_sha c = candidate
    \<and> (ce_classification c = ClsMechanical
       \<or> (\<exists>r \<in> set (reviews d). review_for e (ce_cycle_id c) candidate ReviewApproved r))"
proof -
  have "store_inv d" by (rule fresh_run_inv [OF assms(1,2)])
  then have "related_state d e" using assms(3) by (simp add: store_inv_def)
  then have "landing_gate d e candidate" using assms(4) by (auto simp: related_state_def)
  moreover have "native_composition (ef_composition e)"
    using run_native [OF assms(2) fresh_inv [OF assms(1)]] assms(1,3) by (simp add: fresh_store_def)
  ultimately show ?thesis by (cases "ef_composition e") (auto simp: landing_gate_def list_ex_iff)
qed

theorem landing_requires_review_witness:
  "\<exists>c \<in> set (evidences ex_released). ce_effort_id c = ''uv'' \<and> ce_candidate_sha c = sha (CHR ''6'')
     \<and> (ce_classification c = ClsMechanical
        \<or> (\<exists>r \<in> set (reviews ex_released). review_for (ex_effort ex_released) (ce_cycle_id c) (sha (CHR ''6'')) ReviewApproved r))"
  using landing_requires_review [OF ex_fresh ex_released_run, of "ex_effort ex_released" "sha (CHR ''6'')"]
  by (simp add: ex_released_effort)

text \<open>C5: Integrated and cancelled efforts are final: their rows are the same after any further run.\<close>

theorem terminal_efforts_never_change:
  assumes "fresh_store d0" "store_run d0 d" "store_run d d'" "e \<in> set (efforts d)" "terminal (ef_state e)"
  shows "e \<in> set (efforts d')"
  using es.run_row [OF assms(3) fresh_run_inv [OF assms(1,2)] assms(4)] moves_terminal assms(5) by blast

theorem terminal_efforts_never_change_witness:
  "ex_effort ex_landed \<in> set (efforts (transact (ex_env 15) (CancelEffort ''uv'' ''me'' ''why'') ex_landed))"
  by (rule terminal_efforts_never_change [OF ex_fresh rtranclp_trans [OF ex_released_run ex_landed_run]
      r_into_rtranclp [of store_step, OF transact_step]])
    (simp_all add: ex_landed_effort terminal_def)



text \<open>C2: Landing authority that has left the process is never dropped silently: once an effort is uncertain,
  blocked while uncertain, or integrated, it stays so unless a direct landing was definitely rejected, and then
  the pending target move names the exact command and the expected target it rejects.\<close>

theorem external_authority_is_kept:
  assumes "fresh_store d0" "store_run d0 d" "store_run d d'" "e \<in> set (efforts d)" "e' \<in> set (efforts d')"
    and "ef_id e' = ef_id e" "contains_external_landing_authority (ef_state e)"
  shows "contains_external_landing_authority (ef_state e')
    \<or> (\<exists>e1 e2 l t. effort_move\<^sup>*\<^sup>* e e1 \<and> effort_move e1 e2 \<and> effort_move\<^sup>*\<^sup>* e2 e'
         \<and> ef_state e1 = LandingUncertain l \<and> ef_landing_variant e1 = ''direct'' \<and> ef_state e2 = TargetMovePending t
         \<and> tm_cause t = StaleLandingLease (lu_command_id l) (lu_expected_target_sha l))"
  using moves_external [OF es.run_row_id [OF assms(3) fresh_run_inv [OF assms(1,2)] assms(4-6)] assms(7)]
  by (auto simp: definite_release_def)

theorem external_authority_is_kept_witness:
  "contains_external_landing_authority (ef_state (ex_effort ex_released))
   \<and> contains_external_landing_authority (ef_state (ex_effort ex_landed))"
  using external_authority_is_kept [OF ex_fresh ex_released_run ex_landed_run, of "ex_effort ex_released" "ex_effort ex_landed"]
  by (simp add: ex_released_effort ex_landed_effort)

text \<open>An effort never counts more than ten failed cycles, and counts ten exactly when it is blocked at the
  automatic limit.\<close>

theorem failed_cycles_within_limit:
  assumes "fresh_store d0" "store_run d0 d" "e \<in> set (efforts d)"
  shows "ef_failed_cycles e \<le> AUTOMATIC_CYCLE_LIMIT
    \<and> (ef_failed_cycles e = AUTOMATIC_CYCLE_LIMIT \<longleftrightarrow> is_cycle_limit (ef_state e))"
  using fresh_run_inv [OF assms(1,2)] assms(3) by (auto simp: store_inv_def count_ok_def AUTOMATIC_CYCLE_LIMIT_def)

theorem failed_cycles_within_limit_witness:
  "ef_failed_cycles (ex_effort ex_rejected) = 1 \<and> ef_failed_cycles (ex_effort ex_rejected) \<le> AUTOMATIC_CYCLE_LIMIT"
  using failed_cycles_within_limit [OF ex_fresh ex_rejected_run, of "ex_effort ex_rejected"]
  by (simp add: ex_rejected_effort)

text \<open>A request touches one effort at most: every other effort keeps its row, its cycles, its candidate
  evidence, its reviews and its guidance requests.\<close>

theorem requests_are_isolated:
  assumes "fresh_store d0" "store_run d0 d" "perform env r d = Inr d'"
  shows "\<exists>i. (\<forall>e \<in> set (efforts d). ef_id e \<noteq> i \<longrightarrow> e \<in> set (efforts d'))
    \<and> filter (\<lambda>c. cy_effort_id c \<noteq> i) (cycles d') = filter (\<lambda>c. cy_effort_id c \<noteq> i) (cycles d)
    \<and> filter (\<lambda>c. ce_effort_id c \<noteq> i) (evidences d') = filter (\<lambda>c. ce_effort_id c \<noteq> i) (evidences d)
    \<and> filter (\<lambda>v. rv_effort_id v \<noteq> i) (reviews d') = filter (\<lambda>v. rv_effort_id v \<noteq> i) (reviews d)
    \<and> filter (\<lambda>g. gr_effort_id g \<noteq> i) (guidance_requests d') = filter (\<lambda>g. gr_effort_id g \<noteq> i) (guidance_requests d)"
  using perform_effect [OF assms(3) fresh_run_inv [OF assms(1,2)]]
  by (auto simp: op_effect_def local_to_def set_modify)

theorem requests_are_isolated_witness:
  "\<exists>i. filter (\<lambda>c. cy_effort_id c \<noteq> i) (cycles ex_rejected) = filter (\<lambda>c. cy_effort_id c \<noteq> i) (cycles ex_ready)"
  using requests_are_isolated [OF ex_fresh ex_ready_run perform_one [OF ex_runs(10)]] by blast

end
